(* ===== verification/Prelude.thy ===== *)
theory Prelude
  imports Complex_Main "HOL-Library.List_Lexorder" "HOL-Library.Char_ord" "HOL-Library.Sublist"
begin

text \<open>
  What the components share: Python exceptions as a datatype, computations that thread a state and
  may raise, association-list tables with the update rule of an SQL upsert, the strings operations
  of the standard library the code calls, and the collections of facts that carry the proofs.
  Python strings are lists of characters compared by code point, so timestamps in ISO format stay
  the strings they are in the code and are compared the way the code compares them.
\<close>

named_theorems eff_simps \<open>unfolding rules of the effect combinators\<close>
named_theorems table_simps \<open>lookup after update of association-list tables\<close>
named_theorems evolve_intros \<open>rules that split a computation for a relation between its states\<close>

subsection \<open>Exceptions and effects\<close>

datatype py_error =
    ValueError string
  | TypeError string
  | KeyError string
  | IndexError string
  | RuntimeStateError string
  | InvalidStateTransition string
  | CorruptRuntimeState string
  | IntegrityError string
  | OSError string
  | SecurityError string
  | DiffValidationError string
  | MutationSafetyError string
  | ChangeRequestError string

type_synonym ('s, 'a) eff = "'s \<Rightarrow> (py_error + 'a) \<times> 's"

text \<open>Results without a state.\<close>

definition rbind :: "py_error + 'a \<Rightarrow> ('a \<Rightarrow> py_error + 'b) \<Rightarrow> py_error + 'b" where
  "rbind r f = (case r of Inl e \<Rightarrow> Inl e | Inr x \<Rightarrow> f x)"

lemma rbind_simps [simp]: "rbind (Inl e) f = Inl e" "rbind (Inr x) f = f x"
  by (simp_all add: rbind_def)

lemma rbind_Inr: "rbind r f = Inr y \<longleftrightarrow> (\<exists>x. r = Inr x \<and> f x = Inr y)"
  by (cases r) simp_all

definition ret :: "'a \<Rightarrow> ('s, 'a) eff" where
  "ret x s = (Inr x, s)"

definition raise :: "py_error \<Rightarrow> ('s, 'a) eff" where
  "raise e s = (Inl e, s)"

definition seq :: "('s, 'a) eff \<Rightarrow> ('a \<Rightarrow> ('s, 'b) eff) \<Rightarrow> ('s, 'b) eff" where
  "seq m f s = (case m s of (Inl e, t) \<Rightarrow> (Inl e, t) | (Inr x, t) \<Rightarrow> f x t)"

definition gets :: "('s \<Rightarrow> 'a) \<Rightarrow> ('s, 'a) eff" where
  "gets f s = (Inr (f s), s)"

definition modify :: "('s \<Rightarrow> 's) \<Rightarrow> ('s, unit) eff" where
  "modify f s = (Inr (), f s)"

definition lift_result :: "py_error + 'a \<Rightarrow> ('s, 'a) eff" where
  "lift_result r s = (r, s)"

definition catch :: "('s, 'a) eff \<Rightarrow> (py_error \<Rightarrow> ('s, 'a) eff) \<Rightarrow> ('s, 'a) eff" where
  "catch m h s = (case m s of (Inl e, t) \<Rightarrow> h e t | (Inr x, t) \<Rightarrow> (Inr x, t))"

definition read :: "('s \<Rightarrow> py_error + 'a) \<Rightarrow> ('s, 'a) eff" where
  "read f s = (f s, s)"

fun for_each :: "('a \<Rightarrow> ('s, unit) eff) \<Rightarrow> 'a list \<Rightarrow> ('s, unit) eff" where
  "for_each f [] = ret ()"
| "for_each f (x # xs) = seq (f x) (\<lambda>_. for_each f xs)"

lemma ret_simp [simp, eff_simps]: "ret x s = (Inr x, s)"
  by (simp add: ret_def)

lemma raise_simp [simp, eff_simps]: "raise e s = (Inl e, s)"
  by (simp add: raise_def)

lemma gets_simp [simp, eff_simps]: "gets f s = (Inr (f s), s)"
  by (simp add: gets_def)

lemma modify_simp [simp, eff_simps]: "modify f s = (Inr (), f s)"
  by (simp add: modify_def)

lemma lift_result_simp [simp, eff_simps]: "lift_result r s = (r, s)"
  by (simp add: lift_result_def)

lemma read_simp [simp, eff_simps]: "read f s = (f s, s)"
  by (simp add: read_def)

lemma seq_read_Inr: "f s = Inr x \<Longrightarrow> seq (read f) g s = g x s"
  by (simp add: seq_def)

lemma seq_read: "seq (read f) g s = (case f s of Inl e \<Rightarrow> (Inl e, s) | Inr x \<Rightarrow> g x s)"
  by (simp add: seq_def split: sum.splits)

lemma seq_Inr [eff_simps]: "m s = (Inr x, t) \<Longrightarrow> seq m f s = f x t"
  by (simp add: seq_def)

lemma seq_Inl [eff_simps]: "m s = (Inl e, t) \<Longrightarrow> seq m f s = (Inl e, t)"
  by (simp add: seq_def)

lemma seq_ret [simp]: "seq (ret x) f s = f x s"
  by (simp add: seq_def)

lemma seq_gets [simp]: "seq (gets g) f s = f (g s) s"
  by (simp add: seq_def)

lemma seq_modify [simp]: "seq (modify g) f s = f () (g s)"
  by (simp add: seq_def)

lemma seq_raise [simp]: "seq (raise e) f s = (Inl e, s)"
  by (simp add: seq_def)

lemma seq_lift_Inr [simp]: "seq (lift_result (Inr x)) f s = f x s"
  by (simp add: seq_def)

lemma seq_lift_Inl [simp]: "seq (lift_result (Inl e)) f s = (Inl e, s)"
  by (simp add: seq_def)

lemma seq_InrE:
  assumes "seq m f s = (Inr y, u)"
  obtains x t where "m s = (Inr x, t)" and "f x t = (Inr y, u)"
  using assms by (auto simp: seq_def split: prod.splits sum.splits)

lemma seq_InrD: "seq m f s = (Inr y, u) \<Longrightarrow> \<exists>x t. m s = (Inr x, t) \<and> f x t = (Inr y, u)"
  by (auto elim: seq_InrE)

subsection \<open>Relations every run of a computation respects\<close>

definition evolves :: "('s \<Rightarrow> 's \<Rightarrow> bool) \<Rightarrow> ('s, 'a) eff \<Rightarrow> 's \<Rightarrow> bool" where
  "evolves R m s \<longleftrightarrow> R s (snd (m s))"

text \<open>
  The contract of a relation between the states before and after: operations that satisfy it
  compose. The reads and the branches of a computation keep it for free, so a proof that an
  operation keeps it only has to look at the writes.
\<close>

locale evolution =
  fixes R :: "'s \<Rightarrow> 's \<Rightarrow> bool"
  assumes refl_R: "R s s"
    and trans_R: "R s t \<Longrightarrow> R t u \<Longrightarrow> R s u"
begin

lemma evolves_ret: "evolves R (ret x) s"
  by (simp add: evolves_def refl_R)

lemma evolves_raise: "evolves R (raise e) s"
  by (simp add: evolves_def refl_R)

lemma evolves_gets: "evolves R (gets f) s"
  by (simp add: evolves_def refl_R)

lemma evolves_lift: "evolves R (lift_result r) s"
  by (simp add: evolves_def refl_R)

lemma evolves_read: "evolves R (read f) s"
  by (simp add: evolves_def refl_R)

lemma evolves_seq:
  assumes "evolves R m s"
    and "\<And>x t. m s = (Inr x, t) \<Longrightarrow> evolves R (f x) t"
  shows "evolves R (seq m f) s"
  using assms unfolding evolves_def seq_def
  by (auto split: prod.splits sum.splits intro: trans_R)

lemma evolves_seq_all:
  assumes "\<And>s. evolves R m s" and "\<And>x s. evolves R (f x) s"
  shows "evolves R (seq m f) s"
  using assms by (blast intro: evolves_seq)

lemma evolves_catch:
  assumes "\<And>s. evolves R m s" and "\<And>e s. evolves R (h e) s"
  shows "evolves R (catch m h) s"
proof (cases "m s")
  case (Pair r t)
  then show ?thesis
    using assms(1)[of s] assms(2)[of _ t] unfolding evolves_def catch_def
    by (cases r) (auto intro: trans_R)
qed

lemma evolves_for_each:
  assumes "\<And>x s. x \<in> set xs \<Longrightarrow> evolves R (f x) s"
  shows "evolves R (for_each f xs) s"
  using assms
proof (induction xs arbitrary: s)
  case (Nil s)
  show ?case by (simp add: evolves_def refl_R)
next
  case (Cons x xs s)
  have "evolves R (seq (f x) (\<lambda>_. for_each f xs)) s"
  proof (rule evolves_seq)
    show "evolves R (f x) s" using Cons.prems by simp
    fix y t show "evolves R (for_each f xs) t" using Cons by simp
  qed
  then show ?case by simp
qed

lemmas evolves_reads = evolves_ret evolves_raise evolves_gets evolves_lift evolves_read

end

lemma evolvesD: "evolves R m s \<Longrightarrow> m s = (r, t) \<Longrightarrow> R s t"
  by (simp add: evolves_def)

end
