(* ===== verification/Json.thy ===== *)
theory Json
  imports PyText
begin

text \<open>
  The values the standard \<open>json\<close> module reads and writes, and the text columns that hold them. An
  object keeps its entries in key order: Python compares dictionaries without regard to order and
  every text the code stores is written with \<open>sort_keys=True\<close>, so the ordered list is the
  dictionary's canonical form. A text is represented by the value it parses to, or is one that
  does not parse.
\<close>

datatype json =
    JNull
  | JBool bool
  | JInt int
  | JFloat real
  | JStr string
  | JList "json list"
  | JObj "(string \<times> json) list"

datatype json_text = Text json | Garbage string

definition dumps :: "json \<Rightarrow> json_text" where
  "dumps j = Text j"

type_synonym dict = "(string \<times> json) list"

subsection \<open>Dictionaries\<close>

definition dict_get :: "dict \<Rightarrow> string \<Rightarrow> json option" where
  "dict_get d k = map_of d k"

fun dict_set :: "string \<Rightarrow> json \<Rightarrow> dict \<Rightarrow> dict" where
  "dict_set k v [] = [(k, v)]"
| "dict_set k v ((a, b) # d) =
     (if k = a then (k, v) # d else if k < a then (k, v) # (a, b) # d else (a, b) # dict_set k v d)"

definition dict_of :: "dict \<Rightarrow> dict" where
  "dict_of d = fold (\<lambda>(k, v) acc. dict_set k v acc) d []"

definition canonical :: "dict \<Rightarrow> bool" where
  "canonical d \<longleftrightarrow> sorted_wrt (<) (map fst d)"

lemma map_of_dict_set [simp]: "map_of (dict_set k v d) = (map_of d)(k \<mapsto> v)"
  by (induction k v d rule: dict_set.induct) (auto simp: fun_eq_iff)

lemma dict_get_set [simp]: "dict_get (dict_set k v d) j = (if j = k then Some v else dict_get d j)"
  by (simp add: dict_get_def)

lemma set_keys_dict_set: "set (map fst (dict_set k v d)) = insert k (set (map fst d))"
  by (induction k v d rule: dict_set.induct) auto

lemma canonical_dict_set: "canonical d \<Longrightarrow> canonical (dict_set k v d)"
proof (induction k v d rule: dict_set.induct)
  case (1 k v)
  show ?case by (simp add: canonical_def)
next
  case (2 k v a b d)
  then have tail: "canonical d" and below: "\<forall>x \<in> set (map fst d). a < x"
    by (auto simp: canonical_def)
  consider "k = a" | "k < a" | "k \<noteq> a" "\<not> k < a" by blast
  then show ?case
  proof cases
    case 1
    with "2.prems" show ?thesis by (simp add: canonical_def)
  next
    case 2
    with below tail "2.prems" show ?thesis
      by (auto simp: canonical_def intro: less_trans)
  next
    case 3
    then have "a < k" by auto
    moreover have "canonical (dict_set k v d)" using "2.IH" 3 tail by simp
    moreover have "\<forall>x \<in> set (map fst (dict_set k v d)). a < x"
      using below \<open>a < k\<close> by (simp only: set_keys_dict_set) simp
    ultimately show ?thesis using 3 by (auto simp: canonical_def)
  qed
qed

subsection \<open>Truth, text and typed fields\<close>

text \<open>Python's \<open>bool(x)\<close> and, for the values the code applies it to, \<open>str(x)\<close>.\<close>

fun truthy :: "json \<Rightarrow> bool" where
  "truthy JNull = False"
| "truthy (JBool b) = b"
| "truthy (JInt i) = (i \<noteq> 0)"
| "truthy (JFloat r) = (r \<noteq> 0)"
| "truthy (JStr s) = (s \<noteq> [])"
| "truthy (JList xs) = (xs \<noteq> [])"
| "truthy (JObj d) = (d \<noteq> [])"

definition get_truthy :: "dict \<Rightarrow> string \<Rightarrow> bool" where
  "get_truthy d k = (case dict_get d k of None \<Rightarrow> False | Some v \<Rightarrow> truthy v)"

definition get_dict :: "dict \<Rightarrow> string \<Rightarrow> dict" where
  "get_dict d k = (case dict_get d k of Some (JObj e) \<Rightarrow> e | _ \<Rightarrow> [])"

text \<open>\<open>int(x)\<close>, with None for a value it raises on.\<close>

definition int_of_json :: "json option \<Rightarrow> int option" where
  "int_of_json j = (case j of
     Some (JInt i) \<Rightarrow> Some i
   | Some (JBool b) \<Rightarrow> Some (if b then 1 else 0)
   | Some (JFloat r) \<Rightarrow> Some (if 0 \<le> r then \<lfloor>r\<rfloor> else \<lceil>r\<rceil>)
   | Some (JStr t) \<Rightarrow> int_of_text t
   | _ \<Rightarrow> None)"

fun json_strs :: "json list \<Rightarrow> py_error + string list" where
  "json_strs [] = Inr []"
| "json_strs (JStr s # xs) = (case json_strs xs of Inl e \<Rightarrow> Inl e | Inr ss \<Rightarrow> Inr (s # ss))"
| "json_strs (_ # xs) = Inl (TypeError ''expected text'')"

fun json_dicts :: "json list \<Rightarrow> py_error + dict list" where
  "json_dicts [] = Inr []"
| "json_dicts (JObj d # xs) = (case json_dicts xs of Inl e \<Rightarrow> Inl e | Inr ds \<Rightarrow> Inr (d # ds))"
| "json_dicts (_ # xs) = Inl (TypeError ''expected object'')"

lemma json_strs_map [simp]: "json_strs (map JStr ss) = Inr ss"
  by (induction ss) auto

lemma json_dicts_map [simp]: "json_dicts (map JObj ds) = Inr ds"
  by (induction ds) auto

definition loads_object :: "json_text \<Rightarrow> string \<Rightarrow> py_error + dict" where
  "loads_object t label = (case t of
     Garbage _ \<Rightarrow> Inl (CorruptRuntimeState (''Corrupt '' @ label))
   | Text (JObj d) \<Rightarrow> Inr d
   | Text _ \<Rightarrow> Inl (CorruptRuntimeState (''Corrupt '' @ label @ '': expected JSON object'')))"

lemma loads_dumps [simp]: "loads_object (dumps (JObj d)) l = Inr d"
  by (simp add: loads_object_def dumps_def)

subsection \<open>Reading the fields of a record\<close>

text \<open>
  \<open>Cls(**data)\<close> raises \<open>TypeError\<close> for a key the class does not declare and for a required one that is
  missing. A field whose value has another JSON type than the class declares is a \<open>TypeError\<close> too:
  the classes carry no check, so this is where the typed records end.
\<close>

fun rmap :: "('a \<Rightarrow> py_error + 'b) \<Rightarrow> 'a list \<Rightarrow> py_error + 'b list" where
  "rmap f [] = Inr []"
| "rmap f (x # xs) = rbind (f x) (\<lambda>y. rbind (rmap f xs) (\<lambda>ys. Inr (y # ys)))"

lemma rmap_map: "(\<And>x. x \<in> set xs \<Longrightarrow> f (g x) = Inr x) \<Longrightarrow> rmap f (map g xs) = Inr xs"
  by (induction xs) auto

definition type_error :: "string \<Rightarrow> py_error" where
  "type_error k = TypeError (''field '' @ k)"

definition known_keys :: "string list \<Rightarrow> dict \<Rightarrow> py_error + unit" where
  "known_keys ks d = (if \<forall>k \<in> set (map fst d). k \<in> set ks then Inr () else Inl (TypeError ''unexpected keyword argument''))"

definition str_req :: "dict \<Rightarrow> string \<Rightarrow> py_error + string" where
  "str_req d k = (case dict_get d k of Some (JStr s) \<Rightarrow> Inr s | _ \<Rightarrow> Inl (type_error k))"

definition str_opt :: "dict \<Rightarrow> string \<Rightarrow> string \<Rightarrow> py_error + string" where
  "str_opt d k dflt = (case dict_get d k of None \<Rightarrow> Inr dflt | Some (JStr s) \<Rightarrow> Inr s | _ \<Rightarrow> Inl (type_error k))"

definition int_opt :: "dict \<Rightarrow> string \<Rightarrow> int \<Rightarrow> py_error + int" where
  "int_opt d k dflt = (case dict_get d k of None \<Rightarrow> Inr dflt | Some (JInt i) \<Rightarrow> Inr i | _ \<Rightarrow> Inl (type_error k))"

definition bool_opt :: "dict \<Rightarrow> string \<Rightarrow> bool \<Rightarrow> py_error + bool" where
  "bool_opt d k dflt = (case dict_get d k of None \<Rightarrow> Inr dflt | Some (JBool b) \<Rightarrow> Inr b | _ \<Rightarrow> Inl (type_error k))"

definition dict_opt :: "dict \<Rightarrow> string \<Rightarrow> py_error + dict" where
  "dict_opt d k = (case dict_get d k of None \<Rightarrow> Inr [] | Some (JObj e) \<Rightarrow> Inr e | _ \<Rightarrow> Inl (type_error k))"

definition strs_opt :: "dict \<Rightarrow> string \<Rightarrow> py_error + string list" where
  "strs_opt d k = (case dict_get d k of None \<Rightarrow> Inr [] | Some (JList xs) \<Rightarrow> json_strs xs | _ \<Rightarrow> Inl (type_error k))"

text \<open>\<open>value if isinstance(value, list) else []\<close> and its twin for dictionaries.\<close>

definition strs_or_empty :: "dict \<Rightarrow> string \<Rightarrow> py_error + string list" where
  "strs_or_empty d k = (case dict_get d k of Some (JList xs) \<Rightarrow> json_strs xs | _ \<Rightarrow> Inr [])"

definition dicts_or_empty :: "dict \<Rightarrow> string \<Rightarrow> py_error + dict list" where
  "dicts_or_empty d k = (case dict_get d k of Some (JList xs) \<Rightarrow> json_dicts xs | _ \<Rightarrow> Inr [])"

definition dict_or_empty :: "dict \<Rightarrow> string \<Rightarrow> dict" where
  "dict_or_empty d k = (case dict_get d k of Some (JObj e) \<Rightarrow> e | _ \<Rightarrow> [])"

definition strs :: "string list \<Rightarrow> json" where
  "strs xs = JList (map JStr xs)"

definition int_or_null :: "int option \<Rightarrow> json" where
  "int_or_null i = (case i of None \<Rightarrow> JNull | Some n \<Rightarrow> JInt n)"

definition null_int_opt :: "dict \<Rightarrow> string \<Rightarrow> py_error + int option" where
  "null_int_opt d k = (case dict_get d k of None \<Rightarrow> Inr None | Some JNull \<Rightarrow> Inr None
     | Some (JInt i) \<Rightarrow> Inr (Some i) | _ \<Rightarrow> Inl (type_error k))"

definition str_or_null :: "string option \<Rightarrow> json" where
  "str_or_null s = (case s of None \<Rightarrow> JNull | Some t \<Rightarrow> JStr t)"

definition null_str_opt :: "dict \<Rightarrow> string \<Rightarrow> py_error + string option" where
  "null_str_opt d k = (case dict_get d k of None \<Rightarrow> Inr None | Some JNull \<Rightarrow> Inr None
     | Some (JStr s) \<Rightarrow> Inr (Some s) | _ \<Rightarrow> Inl (type_error k))"

lemmas field_defs = known_keys_def str_req_def str_opt_def int_opt_def bool_opt_def dict_opt_def
  strs_opt_def strs_or_empty_def dicts_or_empty_def dict_or_empty_def strs_def int_or_null_def
  null_int_opt_def str_or_null_def null_str_opt_def dict_get_def

subsection \<open>Enumerations stored by value\<close>

text \<open>\<open>class E(str, Enum)\<close>: \<open>E(text)\<close> finds the member with that value or raises \<open>ValueError\<close>.\<close>

definition enum_parse :: "('a \<Rightarrow> string) \<Rightarrow> 'a list \<Rightarrow> string \<Rightarrow> py_error + 'a" where
  "enum_parse val members s = (case find (\<lambda>m. val m = s) members of
     None \<Rightarrow> Inl (ValueError s) | Some m \<Rightarrow> Inr m)"

definition enum_opt :: "('a \<Rightarrow> string) \<Rightarrow> 'a list \<Rightarrow> dict \<Rightarrow> string \<Rightarrow> 'a \<Rightarrow> py_error + 'a" where
  "enum_opt val members d k dflt = (case dict_get d k of None \<Rightarrow> Inr dflt
     | Some (JStr s) \<Rightarrow> enum_parse val members s | _ \<Rightarrow> Inl (ValueError k))"

locale enumeration =
  fixes val :: "'a \<Rightarrow> string" and members :: "'a list"
  assumes all_members: "m \<in> set members"
    and val_inj: "val m = val n \<Longrightarrow> m = n"
begin

lemma parse_val: "enum_parse val members (val m) = Inr m"
proof (cases "find (\<lambda>n. val n = val m) members")
  case None
  with all_members[of m] show ?thesis by (auto simp: find_None_iff)
next
  case (Some n)
  then have "val n = val m" by (auto simp: find_Some_iff)
  with Some show ?thesis by (auto simp: enum_parse_def dest: val_inj)
qed

lemma parse_Inr: "enum_parse val members s = Inr m \<longleftrightarrow> val m = s"
proof
  assume "enum_parse val members s = Inr m"
  then show "val m = s" by (auto simp: enum_parse_def find_Some_iff split: option.splits)
next
  assume "val m = s"
  then show "enum_parse val members s = Inr m" using parse_val by blast
qed

lemma parse_Inl: "enum_parse val members s = Inl e \<Longrightarrow> e = ValueError s \<and> (\<forall>m. val m \<noteq> s)"
  using all_members by (auto simp: enum_parse_def find_None_iff split: option.splits)

end

end
