(* ===== verification/RuntimeTypes.thy ===== *)
theory RuntimeTypes
  imports Json
begin

text \<open>
  The data of \<open>shamsu/types.py\<close> and \<open>shamsu/runtime/task_state.py\<close>: status enumerations with their
  stored values, the records of runs, tasks, steps, evidence and plans, and the two transition
  tables. The tables share one contract, a life cycle whose terminal states have no way out.
\<close>

subsection \<open>Enumerations\<close>

datatype run_status =
    RUN_CREATED | RUN_QUEUED | RUN_RUNNING | RUN_WAITING_FOR_APPROVAL | RUN_CANCELLING
  | RUN_CANCELLED | RUN_COMPLETED | RUN_FAILED | RUN_TIMED_OUT

fun run_status_value :: "run_status \<Rightarrow> string" where
  "run_status_value RUN_CREATED = ''created''"
| "run_status_value RUN_QUEUED = ''queued''"
| "run_status_value RUN_RUNNING = ''running''"
| "run_status_value RUN_WAITING_FOR_APPROVAL = ''waiting_for_approval''"
| "run_status_value RUN_CANCELLING = ''cancelling''"
| "run_status_value RUN_CANCELLED = ''cancelled''"
| "run_status_value RUN_COMPLETED = ''completed''"
| "run_status_value RUN_FAILED = ''failed''"
| "run_status_value RUN_TIMED_OUT = ''timed_out''"

definition run_statuses :: "run_status list" where
  "run_statuses = [RUN_CREATED, RUN_QUEUED, RUN_RUNNING, RUN_WAITING_FOR_APPROVAL, RUN_CANCELLING,
     RUN_CANCELLED, RUN_COMPLETED, RUN_FAILED, RUN_TIMED_OUT]"

datatype task_step_status =
    STEP_PENDING | STEP_RUNNING | STEP_DONE | STEP_BLOCKED | STEP_SKIPPED | STEP_FAILED

fun task_step_status_value :: "task_step_status \<Rightarrow> string" where
  "task_step_status_value STEP_PENDING = ''pending''"
| "task_step_status_value STEP_RUNNING = ''running''"
| "task_step_status_value STEP_DONE = ''done''"
| "task_step_status_value STEP_BLOCKED = ''blocked''"
| "task_step_status_value STEP_SKIPPED = ''skipped''"
| "task_step_status_value STEP_FAILED = ''failed''"

definition task_step_statuses :: "task_step_status list" where
  "task_step_statuses = [STEP_PENDING, STEP_RUNNING, STEP_DONE, STEP_BLOCKED, STEP_SKIPPED, STEP_FAILED]"

datatype evidence_type =
    FILE_CHANGED | GIT_DIFF_REVIEWED | TEST_PASSED | TYPECHECK_PASSED | LINT_PASSED | BUILD_PASSED
  | SERVICE_HEALTHY | MIGRATION_PASSED | SMOKE_TEST_PASSED

fun evidence_type_value :: "evidence_type \<Rightarrow> string" where
  "evidence_type_value FILE_CHANGED = ''file_changed''"
| "evidence_type_value GIT_DIFF_REVIEWED = ''git_diff_reviewed''"
| "evidence_type_value TEST_PASSED = ''test_passed''"
| "evidence_type_value TYPECHECK_PASSED = ''typecheck_passed''"
| "evidence_type_value LINT_PASSED = ''lint_passed''"
| "evidence_type_value BUILD_PASSED = ''build_passed''"
| "evidence_type_value SERVICE_HEALTHY = ''service_healthy''"
| "evidence_type_value MIGRATION_PASSED = ''migration_passed''"
| "evidence_type_value SMOKE_TEST_PASSED = ''smoke_test_passed''"

definition evidence_types :: "evidence_type list" where
  "evidence_types = [FILE_CHANGED, GIT_DIFF_REVIEWED, TEST_PASSED, TYPECHECK_PASSED, LINT_PASSED,
     BUILD_PASSED, SERVICE_HEALTHY, MIGRATION_PASSED, SMOKE_TEST_PASSED]"

datatype evidence_status = EV_PASSED | EV_FAILED | EV_STALE

fun evidence_status_value :: "evidence_status \<Rightarrow> string" where
  "evidence_status_value EV_PASSED = ''passed''"
| "evidence_status_value EV_FAILED = ''failed''"
| "evidence_status_value EV_STALE = ''stale''"

definition evidence_statuses :: "evidence_status list" where
  "evidence_statuses = [EV_PASSED, EV_FAILED, EV_STALE]"

datatype plan_step_status =
    PLAN_PENDING | PLAN_ACTIVE | PLAN_BLOCKED | PLAN_VERIFYING | PLAN_COMPLETED | PLAN_FAILED | PLAN_CANCELLED

fun plan_step_status_value :: "plan_step_status \<Rightarrow> string" where
  "plan_step_status_value PLAN_PENDING = ''pending''"
| "plan_step_status_value PLAN_ACTIVE = ''active''"
| "plan_step_status_value PLAN_BLOCKED = ''blocked''"
| "plan_step_status_value PLAN_VERIFYING = ''verifying''"
| "plan_step_status_value PLAN_COMPLETED = ''completed''"
| "plan_step_status_value PLAN_FAILED = ''failed''"
| "plan_step_status_value PLAN_CANCELLED = ''cancelled''"

definition plan_step_statuses :: "plan_step_status list" where
  "plan_step_statuses = [PLAN_PENDING, PLAN_ACTIVE, PLAN_BLOCKED, PLAN_VERIFYING, PLAN_COMPLETED,
     PLAN_FAILED, PLAN_CANCELLED]"

datatype risk_level = RISK_LOW | RISK_MEDIUM | RISK_HIGH

fun risk_level_value :: "risk_level \<Rightarrow> string" where
  "risk_level_value RISK_LOW = ''low''"
| "risk_level_value RISK_MEDIUM = ''medium''"
| "risk_level_value RISK_HIGH = ''high''"

definition risk_levels :: "risk_level list" where
  "risk_levels = [RISK_LOW, RISK_MEDIUM, RISK_HIGH]"

interpretation run_status: enumeration run_status_value run_statuses
proof unfold_locales
  fix m n show "m \<in> set run_statuses" by (cases m) (simp_all add: run_statuses_def)
  show "run_status_value m = run_status_value n \<Longrightarrow> m = n" by (cases m; cases n) simp_all
qed

interpretation task_step_status: enumeration task_step_status_value task_step_statuses
proof unfold_locales
  fix m n show "m \<in> set task_step_statuses" by (cases m) (simp_all add: task_step_statuses_def)
  show "task_step_status_value m = task_step_status_value n \<Longrightarrow> m = n" by (cases m; cases n) simp_all
qed

interpretation evidence_type: enumeration evidence_type_value evidence_types
proof unfold_locales
  fix m n show "m \<in> set evidence_types" by (cases m) (simp_all add: evidence_types_def)
  show "evidence_type_value m = evidence_type_value n \<Longrightarrow> m = n" by (cases m; cases n) simp_all
qed

interpretation evidence_status: enumeration evidence_status_value evidence_statuses
proof unfold_locales
  fix m n show "m \<in> set evidence_statuses" by (cases m) (simp_all add: evidence_statuses_def)
  show "evidence_status_value m = evidence_status_value n \<Longrightarrow> m = n" by (cases m; cases n) simp_all
qed

interpretation plan_step_status: enumeration plan_step_status_value plan_step_statuses
proof unfold_locales
  fix m n show "m \<in> set plan_step_statuses" by (cases m) (simp_all add: plan_step_statuses_def)
  show "plan_step_status_value m = plan_step_status_value n \<Longrightarrow> m = n" by (cases m; cases n) simp_all
qed

interpretation risk_level: enumeration risk_level_value risk_levels
proof unfold_locales
  fix m n show "m \<in> set risk_levels" by (cases m) (simp_all add: risk_levels_def)
  show "risk_level_value m = risk_level_value n \<Longrightarrow> m = n" by (cases m; cases n) simp_all
qed

lemmas enum_parse_val [simp] = run_status.parse_val task_step_status.parse_val
  evidence_type.parse_val evidence_status.parse_val plan_step_status.parse_val risk_level.parse_val

end
