(* ===== verification/RuntimeRecords.thy ===== *)
theory RuntimeRecords
  imports RuntimeTypes
begin

text \<open>
  The dataclasses of \<open>shamsu/runtime/task_state.py\<close> as records (a field of class \<open>C\<close> carries a prefix
  for \<open>C\<close>), their JSON form and the readers that rebuild them, and the two transition tables. Every
  reader undoes its writer.
\<close>

subsection \<open>Records\<close>

record run_state =
  rs_run_id :: string
  rs_status :: run_status
  rs_task_ids :: "string list"
  rs_current_task_id :: string
  rs_started_at :: string
  rs_updated_at :: string
  rs_deadline_at :: "real option"
  rs_last_checkpoint :: string

record step_state =
  ss_step_id :: string
  ss_task_id :: string
  ss_run_id :: string
  ss_status :: task_step_status
  ss_phase :: string
  ss_description :: string
  ss_tool_name :: string
  ss_tool_call :: dict
  ss_tool_result :: dict
  ss_required_evidence :: "string list"
  ss_started_at :: string
  ss_updated_at :: string
  ss_completed_at :: string

record repair_state =
  rp_repair_id :: string
  rp_task_id :: string
  rp_run_id :: string
  rp_status :: run_status
  rp_attempt :: int
  rp_target_files :: "string list"
  rp_last_error :: string
  rp_created_at :: string
  rp_updated_at :: string

record evidence_record =
  er_evidence_id :: string
  er_task_id :: string
  er_step_id :: string
  er_evidence_type :: evidence_type
  er_source_tool :: string
  er_timestamp :: string
  er_status :: evidence_status
  er_details :: dict
  er_related_files :: "string list"
  er_related_command :: string
  er_exit_code :: "int option"
  er_checkpoint_id :: string

record gate_result =
  gr_ok :: bool
  gr_task_id :: string
  gr_step_id :: string
  gr_missing_evidence :: "string list"
  gr_stale_evidence :: "string list"
  gr_failed_evidence :: "string list"
  gr_incomplete_steps :: "string list"
  gr_message :: string

record plan_step =
  ps_step_id :: string
  ps_title :: string
  ps_goal :: string
  ps_inputs :: "string list"
  ps_expected_outputs :: "string list"
  ps_constraints :: "string list"
  ps_allowed_tools :: "string list"
  ps_acceptance_criteria :: "string list"
  ps_required_evidence :: "string list"
  ps_risk_level :: risk_level
  ps_approval_required :: bool
  ps_status :: plan_step_status
  ps_dependencies :: "string list"

record execution_plan =
  ep_plan_id :: string
  ep_task_id :: string
  ep_run_id :: string
  ep_title :: string
  ep_summary :: string
  ep_steps :: "plan_step list"
  ep_created_at :: string
  ep_updated_at :: string

record task_state =
  ts_task_id :: string
  ts_run_id :: string
  ts_project_id :: string
  ts_user_request :: string
  ts_status :: run_status
  ts_current_phase :: string
  ts_current_step_id :: string
  ts_plan_id :: string
  ts_action_count :: int
  ts_repair_count :: int
  ts_replan_count :: int
  ts_changed_files :: "string list"
  ts_required_evidence :: "string list"
  ts_collected_evidence :: "string list"
  ts_pending_approvals :: "dict list"
  ts_last_tool_call :: dict
  ts_last_tool_result :: dict
  ts_last_checkpoint :: string
  ts_created_at :: string
  ts_updated_at :: string

subsection \<open>Summaries of a plan\<close>

fun count_status :: "(string \<times> nat) list \<Rightarrow> string \<Rightarrow> (string \<times> nat) list" where
  "count_status [] k = [(k, 1)]"
| "count_status ((a, n) # cs) k = (if a = k then (a, Suc n) # cs else (a, n) # count_status cs k)"

definition compact_summary :: "execution_plan \<Rightarrow> string" where
  "compact_summary p =
     (let counts = fold (\<lambda>st cs. count_status cs (plan_step_status_value (ps_status st))) (ep_steps p) [];
          status = join '', '' (map (\<lambda>(k, n). k @ '':'' @ nat_str n) (sort_key fst counts))
      in ep_title p @ '': '' @ nat_str (length (ep_steps p)) @ '' step(s)'' @
         (if status = [] then [] else '' ('' @ status @ '')''))"

definition completed_summary :: "execution_plan \<Rightarrow> string" where
  "completed_summary p =
     (let completed = map ps_title (filter (\<lambda>st. ps_status st = PLAN_COMPLETED) (ep_steps p))
      in if completed = [] then ''No completed plan steps yet.''
         else ''Completed: '' @ join ''; '' completed)"

subsection \<open>Writers\<close>

definition float_or_null :: "real option \<Rightarrow> json" where
  "float_or_null r = (case r of None \<Rightarrow> JNull | Some x \<Rightarrow> JFloat x)"

definition null_float_opt :: "dict \<Rightarrow> string \<Rightarrow> py_error + real option" where
  "null_float_opt d k = (case dict_get d k of None \<Rightarrow> Inr None | Some JNull \<Rightarrow> Inr None
     | Some (JFloat x) \<Rightarrow> Inr (Some x) | _ \<Rightarrow> Inl (type_error k))"

definition run_to_dict :: "run_state \<Rightarrow> dict" where
  "run_to_dict r = [
     (''current_task_id'', JStr (rs_current_task_id r)),
     (''deadline_at'', float_or_null (rs_deadline_at r)),
     (''last_checkpoint'', JStr (rs_last_checkpoint r)),
     (''run_id'', JStr (rs_run_id r)),
     (''started_at'', JStr (rs_started_at r)),
     (''status'', JStr (run_status_value (rs_status r))),
     (''task_ids'', strs (rs_task_ids r)),
     (''updated_at'', JStr (rs_updated_at r))]"

definition step_to_dict :: "step_state \<Rightarrow> dict" where
  "step_to_dict s = [
     (''completed_at'', JStr (ss_completed_at s)),
     (''description'', JStr (ss_description s)),
     (''phase'', JStr (ss_phase s)),
     (''required_evidence'', strs (ss_required_evidence s)),
     (''run_id'', JStr (ss_run_id s)),
     (''started_at'', JStr (ss_started_at s)),
     (''status'', JStr (task_step_status_value (ss_status s))),
     (''step_id'', JStr (ss_step_id s)),
     (''task_id'', JStr (ss_task_id s)),
     (''tool_call'', JObj (ss_tool_call s)),
     (''tool_name'', JStr (ss_tool_name s)),
     (''tool_result'', JObj (ss_tool_result s)),
     (''updated_at'', JStr (ss_updated_at s))]"

definition repair_to_dict :: "repair_state \<Rightarrow> dict" where
  "repair_to_dict r = [
     (''attempt'', JInt (rp_attempt r)),
     (''created_at'', JStr (rp_created_at r)),
     (''last_error'', JStr (rp_last_error r)),
     (''repair_id'', JStr (rp_repair_id r)),
     (''run_id'', JStr (rp_run_id r)),
     (''status'', JStr (run_status_value (rp_status r))),
     (''target_files'', strs (rp_target_files r)),
     (''task_id'', JStr (rp_task_id r)),
     (''updated_at'', JStr (rp_updated_at r))]"

definition evidence_to_dict :: "evidence_record \<Rightarrow> dict" where
  "evidence_to_dict e = [
     (''checkpoint_id'', JStr (er_checkpoint_id e)),
     (''details'', JObj (er_details e)),
     (''evidence_id'', JStr (er_evidence_id e)),
     (''evidence_type'', JStr (evidence_type_value (er_evidence_type e))),
     (''exit_code'', int_or_null (er_exit_code e)),
     (''related_command'', JStr (er_related_command e)),
     (''related_files'', strs (er_related_files e)),
     (''source_tool'', JStr (er_source_tool e)),
     (''status'', JStr (evidence_status_value (er_status e))),
     (''step_id'', JStr (er_step_id e)),
     (''task_id'', JStr (er_task_id e)),
     (''timestamp'', JStr (er_timestamp e))]"

definition plan_step_to_dict :: "plan_step \<Rightarrow> dict" where
  "plan_step_to_dict s = [
     (''acceptance_criteria'', strs (ps_acceptance_criteria s)),
     (''allowed_tools'', strs (ps_allowed_tools s)),
     (''approval_required'', JBool (ps_approval_required s)),
     (''constraints'', strs (ps_constraints s)),
     (''dependencies'', strs (ps_dependencies s)),
     (''expected_outputs'', strs (ps_expected_outputs s)),
     (''goal'', JStr (ps_goal s)),
     (''inputs'', strs (ps_inputs s)),
     (''required_evidence'', strs (ps_required_evidence s)),
     (''risk_level'', JStr (risk_level_value (ps_risk_level s))),
     (''status'', JStr (plan_step_status_value (ps_status s))),
     (''step_id'', JStr (ps_step_id s)),
     (''title'', JStr (ps_title s))]"

definition plan_to_dict :: "execution_plan \<Rightarrow> dict" where
  "plan_to_dict p = [
     (''created_at'', JStr (ep_created_at p)),
     (''plan_id'', JStr (ep_plan_id p)),
     (''run_id'', JStr (ep_run_id p)),
     (''steps'', JList (map (\<lambda>s. JObj (plan_step_to_dict s)) (ep_steps p))),
     (''summary'', JStr (ep_summary p)),
     (''task_id'', JStr (ep_task_id p)),
     (''title'', JStr (ep_title p)),
     (''updated_at'', JStr (ep_updated_at p))]"

definition task_to_dict :: "task_state \<Rightarrow> dict" where
  "task_to_dict t = [
     (''action_count'', JInt (ts_action_count t)),
     (''changed_files'', strs (ts_changed_files t)),
     (''collected_evidence'', strs (ts_collected_evidence t)),
     (''created_at'', JStr (ts_created_at t)),
     (''current_phase'', JStr (ts_current_phase t)),
     (''current_step_id'', JStr (ts_current_step_id t)),
     (''last_checkpoint'', JStr (ts_last_checkpoint t)),
     (''last_tool_call'', JObj (ts_last_tool_call t)),
     (''last_tool_result'', JObj (ts_last_tool_result t)),
     (''pending_approvals'', JList (map JObj (ts_pending_approvals t))),
     (''plan_id'', JStr (ts_plan_id t)),
     (''project_id'', JStr (ts_project_id t)),
     (''repair_count'', JInt (ts_repair_count t)),
     (''replan_count'', JInt (ts_replan_count t)),
     (''required_evidence'', strs (ts_required_evidence t)),
     (''run_id'', JStr (ts_run_id t)),
     (''status'', JStr (run_status_value (ts_status t))),
     (''task_id'', JStr (ts_task_id t)),
     (''updated_at'', JStr (ts_updated_at t)),
     (''user_request'', JStr (ts_user_request t))]"

subsection \<open>Readers\<close>

definition run_from_dict :: "string \<Rightarrow> dict \<Rightarrow> py_error + run_state" where
  "run_from_dict now d =
     rbind (enum_opt run_status_value run_statuses d ''status'' RUN_CREATED) (\<lambda>status.
     rbind (known_keys [''current_task_id'', ''deadline_at'', ''last_checkpoint'', ''run_id'',
       ''started_at'', ''status'', ''task_ids'', ''updated_at''] d) (\<lambda>_.
     rbind (str_req d ''run_id'') (\<lambda>run_id.
     rbind (strs_opt d ''task_ids'') (\<lambda>task_ids.
     rbind (str_opt d ''current_task_id'' []) (\<lambda>current_task_id.
     rbind (str_opt d ''started_at'' now) (\<lambda>started_at.
     rbind (str_opt d ''updated_at'' now) (\<lambda>updated_at.
     rbind (null_float_opt d ''deadline_at'') (\<lambda>deadline_at.
     rbind (str_opt d ''last_checkpoint'' []) (\<lambda>last_checkpoint.
       Inr \<lparr>rs_run_id = run_id, rs_status = status, rs_task_ids = task_ids,
         rs_current_task_id = current_task_id, rs_started_at = started_at, rs_updated_at = updated_at,
         rs_deadline_at = deadline_at, rs_last_checkpoint = last_checkpoint\<rparr>)))))))))"

definition step_from_dict :: "string \<Rightarrow> dict \<Rightarrow> py_error + step_state" where
  "step_from_dict now d =
     rbind (enum_opt task_step_status_value task_step_statuses d ''status'' STEP_PENDING) (\<lambda>status.
     rbind (known_keys [''completed_at'', ''description'', ''phase'', ''required_evidence'', ''run_id'',
       ''started_at'', ''status'', ''step_id'', ''task_id'', ''tool_call'', ''tool_name'', ''tool_result'',
       ''updated_at''] d) (\<lambda>_.
     rbind (str_req d ''step_id'') (\<lambda>step_id.
     rbind (str_req d ''task_id'') (\<lambda>task_id.
     rbind (str_req d ''run_id'') (\<lambda>run_id.
     rbind (str_opt d ''phase'' ''default'') (\<lambda>phase.
     rbind (str_opt d ''description'' []) (\<lambda>description.
     rbind (str_opt d ''tool_name'' []) (\<lambda>tool_name.
     rbind (dict_opt d ''tool_call'') (\<lambda>tool_call.
     rbind (dict_opt d ''tool_result'') (\<lambda>tool_result.
     rbind (strs_opt d ''required_evidence'') (\<lambda>required_evidence.
     rbind (str_opt d ''started_at'' now) (\<lambda>started_at.
     rbind (str_opt d ''updated_at'' now) (\<lambda>updated_at.
     rbind (str_opt d ''completed_at'' []) (\<lambda>completed_at.
       Inr \<lparr>ss_step_id = step_id, ss_task_id = task_id, ss_run_id = run_id, ss_status = status,
         ss_phase = phase, ss_description = description, ss_tool_name = tool_name,
         ss_tool_call = tool_call, ss_tool_result = tool_result,
         ss_required_evidence = required_evidence, ss_started_at = started_at,
         ss_updated_at = updated_at, ss_completed_at = completed_at\<rparr>))))))))))))))"

definition evidence_from_dict :: "string \<Rightarrow> dict \<Rightarrow> py_error + evidence_record" where
  "evidence_from_dict now d =
     rbind (case dict_get d ''evidence_type'' of Some (JStr s) \<Rightarrow> enum_parse evidence_type_value evidence_types s
              | _ \<Rightarrow> Inl (ValueError ''evidence_type'')) (\<lambda>evidence_type.
     rbind (enum_opt evidence_status_value evidence_statuses d ''status'' EV_PASSED) (\<lambda>status.
     rbind (known_keys [''checkpoint_id'', ''details'', ''evidence_id'', ''evidence_type'', ''exit_code'',
       ''related_command'', ''related_files'', ''source_tool'', ''status'', ''step_id'', ''task_id'',
       ''timestamp''] d) (\<lambda>_.
     rbind (str_req d ''evidence_id'') (\<lambda>evidence_id.
     rbind (str_req d ''task_id'') (\<lambda>task_id.
     rbind (str_req d ''step_id'') (\<lambda>step_id.
     rbind (str_req d ''source_tool'') (\<lambda>source_tool.
     rbind (str_opt d ''timestamp'' now) (\<lambda>timestamp.
     rbind (dict_opt d ''details'') (\<lambda>details.
     rbind (strs_opt d ''related_files'') (\<lambda>related_files.
     rbind (str_opt d ''related_command'' []) (\<lambda>related_command.
     rbind (null_int_opt d ''exit_code'') (\<lambda>exit_code.
     rbind (str_opt d ''checkpoint_id'' []) (\<lambda>checkpoint_id.
       Inr \<lparr>er_evidence_id = evidence_id, er_task_id = task_id, er_step_id = step_id,
         er_evidence_type = evidence_type, er_source_tool = source_tool, er_timestamp = timestamp,
         er_status = status, er_details = details, er_related_files = related_files,
         er_related_command = related_command, er_exit_code = exit_code,
         er_checkpoint_id = checkpoint_id\<rparr>)))))))))))))"

definition plan_step_from_dict :: "dict \<Rightarrow> py_error + plan_step" where
  "plan_step_from_dict d =
     rbind (enum_opt risk_level_value risk_levels d ''risk_level'' RISK_LOW) (\<lambda>risk_level.
     rbind (enum_opt plan_step_status_value plan_step_statuses d ''status'' PLAN_PENDING) (\<lambda>status.
     rbind (known_keys [''acceptance_criteria'', ''allowed_tools'', ''approval_required'', ''constraints'',
       ''dependencies'', ''expected_outputs'', ''goal'', ''inputs'', ''required_evidence'', ''risk_level'',
       ''status'', ''step_id'', ''title''] d) (\<lambda>_.
     rbind (str_req d ''step_id'') (\<lambda>step_id.
     rbind (str_req d ''title'') (\<lambda>title.
     rbind (str_req d ''goal'') (\<lambda>goal.
     rbind (strs_or_empty d ''inputs'') (\<lambda>inputs.
     rbind (strs_or_empty d ''expected_outputs'') (\<lambda>expected_outputs.
     rbind (strs_or_empty d ''constraints'') (\<lambda>constraints.
     rbind (strs_or_empty d ''allowed_tools'') (\<lambda>allowed_tools.
     rbind (strs_or_empty d ''acceptance_criteria'') (\<lambda>acceptance_criteria.
     rbind (strs_or_empty d ''required_evidence'') (\<lambda>required_evidence.
     rbind (strs_or_empty d ''dependencies'') (\<lambda>dependencies.
     rbind (bool_opt d ''approval_required'' False) (\<lambda>approval_required.
       Inr \<lparr>ps_step_id = step_id, ps_title = title, ps_goal = goal, ps_inputs = inputs,
         ps_expected_outputs = expected_outputs, ps_constraints = constraints,
         ps_allowed_tools = allowed_tools, ps_acceptance_criteria = acceptance_criteria,
         ps_required_evidence = required_evidence, ps_risk_level = risk_level,
         ps_approval_required = approval_required, ps_status = status,
         ps_dependencies = dependencies\<rparr>))))))))))))))"

text \<open>Entries of \<open>steps\<close> that are not objects are skipped.\<close>

fun objects_of :: "json list \<Rightarrow> dict list" where
  "objects_of [] = []"
| "objects_of (JObj d # xs) = d # objects_of xs"
| "objects_of (_ # xs) = objects_of xs"

definition execution_plan_from_dict :: "string \<Rightarrow> dict \<Rightarrow> py_error + execution_plan" where
  "execution_plan_from_dict now d =
     rbind (case dict_get d ''steps'' of None \<Rightarrow> Inr [] | Some (JList xs) \<Rightarrow> Inr (objects_of xs)
              | _ \<Rightarrow> Inl (type_error ''steps'')) (\<lambda>raw_steps.
     rbind (rmap plan_step_from_dict raw_steps) (\<lambda>steps.
     rbind (known_keys [''created_at'', ''plan_id'', ''run_id'', ''steps'', ''summary'', ''task_id'',
       ''title'', ''updated_at''] d) (\<lambda>_.
     rbind (str_req d ''plan_id'') (\<lambda>plan_id.
     rbind (str_req d ''task_id'') (\<lambda>task_id.
     rbind (str_req d ''run_id'') (\<lambda>run_id.
     rbind (str_opt d ''title'' []) (\<lambda>title.
     rbind (str_opt d ''summary'' []) (\<lambda>summary.
     rbind (str_opt d ''created_at'' now) (\<lambda>created_at.
     rbind (str_opt d ''updated_at'' now) (\<lambda>updated_at.
       Inr \<lparr>ep_plan_id = plan_id, ep_task_id = task_id, ep_run_id = run_id, ep_title = title,
         ep_summary = summary, ep_steps = steps, ep_created_at = created_at,
         ep_updated_at = updated_at\<rparr>))))))))))"

definition task_from_dict :: "string \<Rightarrow> dict \<Rightarrow> py_error + task_state" where
  "task_from_dict now d =
     rbind (enum_opt run_status_value run_statuses d ''status'' RUN_CREATED) (\<lambda>status.
     rbind (strs_or_empty d ''changed_files'') (\<lambda>changed_files.
     rbind (strs_or_empty d ''required_evidence'') (\<lambda>required_evidence.
     rbind (strs_or_empty d ''collected_evidence'') (\<lambda>collected_evidence.
     rbind (dicts_or_empty d ''pending_approvals'') (\<lambda>pending_approvals.
     rbind (known_keys [''action_count'', ''changed_files'', ''collected_evidence'', ''created_at'',
       ''current_phase'', ''current_step_id'', ''last_checkpoint'', ''last_tool_call'', ''last_tool_result'',
       ''pending_approvals'', ''plan_id'', ''project_id'', ''repair_count'', ''replan_count'',
       ''required_evidence'', ''run_id'', ''status'', ''task_id'', ''updated_at'', ''user_request''] d) (\<lambda>_.
     rbind (str_req d ''task_id'') (\<lambda>task_id.
     rbind (str_req d ''run_id'') (\<lambda>run_id.
     rbind (str_opt d ''project_id'' []) (\<lambda>project_id.
     rbind (str_req d ''user_request'') (\<lambda>user_request.
     rbind (str_opt d ''current_phase'' ''initialized'') (\<lambda>current_phase.
     rbind (str_opt d ''current_step_id'' []) (\<lambda>current_step_id.
     rbind (str_opt d ''plan_id'' []) (\<lambda>plan_id.
     rbind (int_opt d ''action_count'' 0) (\<lambda>action_count.
     rbind (int_opt d ''repair_count'' 0) (\<lambda>repair_count.
     rbind (int_opt d ''replan_count'' 0) (\<lambda>replan_count.
     rbind (str_opt d ''last_checkpoint'' []) (\<lambda>last_checkpoint.
     rbind (str_opt d ''created_at'' now) (\<lambda>created_at.
     rbind (str_opt d ''updated_at'' now) (\<lambda>updated_at.
       Inr \<lparr>ts_task_id = task_id, ts_run_id = run_id, ts_project_id = project_id,
         ts_user_request = user_request, ts_status = status, ts_current_phase = current_phase,
         ts_current_step_id = current_step_id, ts_plan_id = plan_id, ts_action_count = action_count,
         ts_repair_count = repair_count, ts_replan_count = replan_count,
         ts_changed_files = changed_files, ts_required_evidence = required_evidence,
         ts_collected_evidence = collected_evidence, ts_pending_approvals = pending_approvals,
         ts_last_tool_call = dict_or_empty d ''last_tool_call'',
         ts_last_tool_result = dict_or_empty d ''last_tool_result'',
         ts_last_checkpoint = last_checkpoint, ts_created_at = created_at,
         ts_updated_at = updated_at\<rparr>)))))))))))))))))))"

subsection \<open>Readers undo writers\<close>

lemma run_roundtrip [simp]: "run_from_dict now (run_to_dict r) = Inr r"
  by (cases "rs_deadline_at r")
    (simp_all add: run_from_dict_def run_to_dict_def field_defs enum_opt_def null_float_opt_def float_or_null_def)

lemma step_roundtrip [simp]: "step_from_dict now (step_to_dict s) = Inr s"
  by (simp add: step_from_dict_def step_to_dict_def field_defs enum_opt_def)

lemma evidence_roundtrip [simp]: "evidence_from_dict now (evidence_to_dict e) = Inr e"
  by (cases "er_exit_code e")
    (simp_all add: evidence_from_dict_def evidence_to_dict_def field_defs enum_opt_def)

lemma plan_step_roundtrip [simp]: "plan_step_from_dict (plan_step_to_dict s) = Inr s"
  by (simp add: plan_step_from_dict_def plan_step_to_dict_def field_defs enum_opt_def)

lemma objects_of_map [simp]: "objects_of (map (\<lambda>x. JObj (f x)) xs) = map f xs"
  by (induction xs) auto

lemma rmap_plan_steps [simp]: "rmap plan_step_from_dict (map plan_step_to_dict ss) = Inr ss"
  by (rule rmap_map) simp

lemma plan_roundtrip [simp]: "execution_plan_from_dict now (plan_to_dict p) = Inr p"
  by (simp add: execution_plan_from_dict_def plan_to_dict_def field_defs)

lemma task_roundtrip [simp]: "task_from_dict now (task_to_dict t) = Inr t"
  by (simp add: task_from_dict_def task_to_dict_def field_defs enum_opt_def)

end
