(* ===== verification/RuntimePlan.thy ===== *)
theory RuntimePlan
  imports RuntimeRecords "HOL-Library.AList"
begin

text \<open>
  The pure rules of \<open>shamsu/runtime/task_state.py\<close>: which status may follow which, when a plan is
  valid, and the depth-first search that looks for a dependency cycle. The search is shown to end
  and to report a cycle exactly when the dependency graph has one.
\<close>

subsection \<open>Life cycles\<close>

definition may_follow :: "('s \<Rightarrow> 's list) \<Rightarrow> 's \<Rightarrow> 's \<Rightarrow> bool" where
  "may_follow allowed p n \<longleftrightarrow> p = n \<or> n \<in> set (allowed p)"

locale lifecycle =
  fixes allowed :: "'s \<Rightarrow> 's list" and terminal :: "'s \<Rightarrow> bool"
  assumes terminal_closed: "terminal s \<Longrightarrow> allowed s = []"
    and terminal_reachable: "\<not> terminal s \<Longrightarrow> \<exists>t \<in> set (allowed s). terminal t"
begin

lemma terminal_stays: "may_follow allowed s t \<Longrightarrow> terminal s \<Longrightarrow> t = s"
  by (auto simp: may_follow_def dest: terminal_closed)

lemma terminal_stays_path: "(may_follow allowed)\<^sup>*\<^sup>* s t \<Longrightarrow> terminal s \<Longrightarrow> t = s"
  by (induction rule: rtranclp_induct) (auto dest: terminal_stays)

lemma can_end: "\<exists>t. may_follow allowed s t \<and> terminal t"
  using terminal_reachable[of s] by (auto simp: may_follow_def)

end

fun allowed_run :: "run_status \<Rightarrow> run_status list" where
  "allowed_run RUN_CREATED = [RUN_RUNNING, RUN_WAITING_FOR_APPROVAL, RUN_CANCELLED, RUN_TIMED_OUT, RUN_FAILED]"
| "allowed_run RUN_QUEUED = [RUN_RUNNING, RUN_CANCELLED, RUN_FAILED]"
| "allowed_run RUN_RUNNING = [RUN_WAITING_FOR_APPROVAL, RUN_CANCELLING, RUN_CANCELLED, RUN_TIMED_OUT,
     RUN_FAILED, RUN_COMPLETED]"
| "allowed_run RUN_WAITING_FOR_APPROVAL = [RUN_RUNNING, RUN_CANCELLING, RUN_CANCELLED, RUN_TIMED_OUT, RUN_FAILED]"
| "allowed_run RUN_CANCELLING = [RUN_CANCELLED, RUN_FAILED]"
| "allowed_run RUN_CANCELLED = []"
| "allowed_run RUN_TIMED_OUT = []"
| "allowed_run RUN_FAILED = []"
| "allowed_run RUN_COMPLETED = []"

definition validate_transition :: "run_status \<Rightarrow> run_status \<Rightarrow> py_error + unit" where
  "validate_transition previous next_status =
     (if previous = next_status then Inr ()
      else if next_status \<notin> set (allowed_run previous) then
        Inl (InvalidStateTransition (''Invalid task transition: '' @ run_status_value previous @ '' -> '' @
          run_status_value next_status))
      else Inr ())"

fun allowed_plan_step :: "plan_step_status \<Rightarrow> plan_step_status list" where
  "allowed_plan_step PLAN_PENDING = [PLAN_ACTIVE, PLAN_BLOCKED, PLAN_CANCELLED]"
| "allowed_plan_step PLAN_ACTIVE = [PLAN_BLOCKED, PLAN_VERIFYING, PLAN_COMPLETED, PLAN_FAILED, PLAN_CANCELLED]"
| "allowed_plan_step PLAN_VERIFYING = [PLAN_ACTIVE, PLAN_COMPLETED, PLAN_FAILED, PLAN_BLOCKED, PLAN_CANCELLED]"
| "allowed_plan_step PLAN_BLOCKED = [PLAN_ACTIVE, PLAN_CANCELLED]"
| "allowed_plan_step PLAN_FAILED = []"
| "allowed_plan_step PLAN_COMPLETED = []"
| "allowed_plan_step PLAN_CANCELLED = []"

definition validate_plan_step_transition :: "plan_step_status \<Rightarrow> plan_step_status \<Rightarrow> py_error + unit" where
  "validate_plan_step_transition previous next_status =
     (if previous = next_status then Inr ()
      else if next_status \<notin> set (allowed_plan_step previous) then
        Inl (InvalidStateTransition (''Invalid plan step transition: '' @ plan_step_status_value previous @
          '' -> '' @ plan_step_status_value next_status))
      else Inr ())"

fun terminal_run :: "run_status \<Rightarrow> bool" where
  "terminal_run RUN_CANCELLED = True"
| "terminal_run RUN_TIMED_OUT = True"
| "terminal_run RUN_FAILED = True"
| "terminal_run RUN_COMPLETED = True"
| "terminal_run _ = False"

fun terminal_plan_step :: "plan_step_status \<Rightarrow> bool" where
  "terminal_plan_step PLAN_FAILED = True"
| "terminal_plan_step PLAN_COMPLETED = True"
| "terminal_plan_step PLAN_CANCELLED = True"
| "terminal_plan_step _ = False"

interpretation run_life: lifecycle allowed_run terminal_run
proof unfold_locales
  fix s show "terminal_run s \<Longrightarrow> allowed_run s = []" by (cases s) simp_all
  show "\<not> terminal_run s \<Longrightarrow> \<exists>t \<in> set (allowed_run s). terminal_run t" by (cases s) simp_all
qed

interpretation plan_step_life: lifecycle allowed_plan_step terminal_plan_step
proof unfold_locales
  fix s show "terminal_plan_step s \<Longrightarrow> allowed_plan_step s = []" by (cases s) simp_all
  show "\<not> terminal_plan_step s \<Longrightarrow> \<exists>t \<in> set (allowed_plan_step s). terminal_plan_step t" by (cases s) simp_all
qed

lemma validate_transition_Inr [simp]:
  "validate_transition p n = Inr u \<longleftrightarrow> may_follow allowed_run p n"
  by (auto simp: validate_transition_def may_follow_def)

lemma validate_plan_step_transition_Inr [simp]:
  "validate_plan_step_transition p n = Inr u \<longleftrightarrow> may_follow allowed_plan_step p n"
  by (auto simp: validate_plan_step_transition_def may_follow_def)

subsection \<open>The dependency graph and the search for a cycle\<close>

type_synonym graph = "(string \<times> string list) list"

definition graph_of :: "plan_step list \<Rightarrow> graph" where
  "graph_of steps = fold (\<lambda>st g. AList.update (ps_step_id st) (ps_dependencies st) g) steps []"

definition deps_of :: "graph \<Rightarrow> string \<Rightarrow> string list" where
  "deps_of g n = (case map_of g n of None \<Rightarrow> [] | Some ds \<Rightarrow> ds)"

text \<open>The search keeps \<open>visiting\<close>, \<open>visited\<close> and \<open>stack\<close>.\<close>

type_synonym dfs = "string list \<times> string list \<times> string list"

fun index_of :: "'a list \<Rightarrow> 'a \<Rightarrow> nat" where
  "index_of [] x = 0"
| "index_of (y # ys) x = (if y = x then 0 else Suc (index_of ys x))"

fun visit :: "nat \<Rightarrow> graph \<Rightarrow> string \<Rightarrow> dfs \<Rightarrow> (string list \<times> dfs) option"
  and visit_all :: "nat \<Rightarrow> graph \<Rightarrow> string list \<Rightarrow> dfs \<Rightarrow> (string list \<times> dfs) option" where
  "visit 0 g node S = None"
| "visit (Suc fuel) g node (visiting, visited, stack) =
     (if node \<in> set visiting then
        (let start = (if node \<in> set stack then index_of stack node else 0)
         in Some (drop start stack @ [node], (visiting, visited, stack)))
      else if node \<in> set visited then Some ([], (visiting, visited, stack))
      else case visit_all fuel g (deps_of g node) (node # visiting, visited, stack @ [node]) of
          None \<Rightarrow> None
        | Some (cycle, (visiting', visited', stack')) \<Rightarrow>
            if cycle \<noteq> [] then Some (cycle, (visiting', visited', stack'))
            else Some ([], (removeAll node visiting', node # visited', butlast stack')))"
| "visit_all fuel g [] S = Some ([], S)"
| "visit_all fuel g (d # ds) S =
     (case visit fuel g d S of
        None \<Rightarrow> None
      | Some (cycle, S') \<Rightarrow> if cycle \<noteq> [] then Some (cycle, S') else visit_all fuel g ds S')"

definition graph_nodes :: "graph \<Rightarrow> string list" where
  "graph_nodes g = map fst g @ concat (map snd g)"

definition first_dependency_cycle :: "plan_step list \<Rightarrow> string list option" where
  "first_dependency_cycle steps =
     (let g = graph_of steps
      in map_option fst (visit_all (Suc (length (graph_nodes g))) g (map fst g) ([], [], [])))"

definition dep_edges :: "graph \<Rightarrow> (string \<times> string) set" where
  "dep_edges g = {(n, d). d \<in> set (deps_of g n)}"

fun is_path :: "graph \<Rightarrow> string list \<Rightarrow> bool" where
  "is_path g [] = True"
| "is_path g [x] = True"
| "is_path g (x # y # zs) = (y \<in> set (deps_of g x) \<and> is_path g (y # zs))"

definition is_cycle :: "graph \<Rightarrow> string list \<Rightarrow> bool" where
  "is_cycle g c \<longleftrightarrow> 2 \<le> length c \<and> hd c = last c \<and> is_path g c"

lemma is_path_append: "is_path g (xs @ [x]) \<Longrightarrow> d \<in> set (deps_of g x) \<Longrightarrow> is_path g (xs @ [x, d])"
  by (induction g "xs @ [x]" arbitrary: xs rule: is_path.induct) (auto simp: append_eq_Cons_conv Cons_eq_append_conv)

lemma is_path_drop: "is_path g xs \<Longrightarrow> is_path g (drop n xs)"
proof (induction g xs arbitrary: n rule: is_path.induct)
  case (3 g x y zs)
  then show ?case by (cases n) auto
qed (auto simp: drop_Cons')

lemma is_path_snoc:
  "is_path g xs \<Longrightarrow> xs = [] \<or> d \<in> set (deps_of g (last xs)) \<Longrightarrow> is_path g (xs @ [d])"
  by (cases xs rule: rev_cases) (auto dest: is_path_append)

lemma is_path_reach: "is_path g (x # xs) \<Longrightarrow> y \<in> set xs \<Longrightarrow> (x, y) \<in> (dep_edges g)\<^sup>+"
proof (induction g "x # xs" arbitrary: x xs rule: is_path.induct)
  case (3 g x z zs)
  then have e: "(x, z) \<in> dep_edges g" by (simp add: dep_edges_def)
  show ?case
  proof (cases "y = z")
    case True with e show ?thesis by blast
  next
    case False
    with 3 have "(z, y) \<in> (dep_edges g)\<^sup>+" by simp
    with e show ?thesis by (rule trancl_into_trancl2)
  qed
qed simp

lemma is_cycle_not_acyclic: "is_cycle g c \<Longrightarrow> \<not> acyclic (dep_edges g)"
proof -
  assume c: "is_cycle g c"
  then obtain x y zs where "c = x # y # zs"
    by (cases c; cases "tl c") (auto simp: is_cycle_def)
  with c have "(x, x) \<in> (dep_edges g)\<^sup>+"
    using is_path_reach[of g x "y # zs" x] by (auto simp: is_cycle_def split: if_splits)
  then show ?thesis by (auto simp: acyclic_def)
qed

lemma index_of_drop: "x \<in> set xs \<Longrightarrow> \<exists>ys. drop (index_of xs x) xs = x # ys"
  by (induction xs x rule: index_of.induct) auto

text \<open>What the search keeps between calls.\<close>

definition dfs_ok :: "graph \<Rightarrow> dfs \<Rightarrow> bool" where
  "dfs_ok g S \<longleftrightarrow> (case S of (visiting, visited, stack) \<Rightarrow>
     set stack = set visiting \<and> is_path g stack \<and> set visiting \<inter> set visited = {} \<and>
     (\<forall>v \<in> set visited. set (deps_of g v) \<subseteq> set visited) \<and>
     (\<forall>v \<in> set visited. (v, v) \<notin> (dep_edges g)\<^sup>+))"

lemma closed_reach:
  assumes "\<forall>v \<in> A. set (deps_of g v) \<subseteq> A" and "(d, x) \<in> (dep_edges g)\<^sup>*" and "d \<in> A"
  shows "x \<in> A"
  using assms(2,3) by (induction rule: rtrancl_induct) (use assms(1) in \<open>auto simp: dep_edges_def\<close>)

lemma finished_not_cyclic:
  assumes "\<forall>v \<in> A. set (deps_of g v) \<subseteq> A" and "set (deps_of g n) \<subseteq> A" and "n \<notin> A"
  shows "(n, n) \<notin> (dep_edges g)\<^sup>+"
proof
  assume "(n, n) \<in> (dep_edges g)\<^sup>+"
  then obtain d where "(n, d) \<in> dep_edges g" and "(d, n) \<in> (dep_edges g)\<^sup>*"
    by (auto dest: tranclD)
  with assms show False using closed_reach[OF assms(1)] by (auto simp: dep_edges_def)
qed

text \<open>What one call and one loop of calls guarantee.\<close>

definition dfs_post :: "graph \<Rightarrow> dfs \<Rightarrow> string set \<Rightarrow> string list \<times> dfs \<Rightarrow> bool" where
  "dfs_post g S ns r \<longleftrightarrow> (case (S, r) of ((visiting, visited, stack), (cycle, (visiting', visited', stack'))) \<Rightarrow>
     if cycle = [] then dfs_ok g (visiting', visited', stack') \<and> visiting' = visiting \<and> stack' = stack \<and>
       set visited \<subseteq> set visited' \<and> ns \<subseteq> set visited'
     else is_cycle g cycle)"

lemma visit_correct:
  "dfs_ok g S \<Longrightarrow> snd (snd S) = [] \<or> node \<in> set (deps_of g (last (snd (snd S)))) \<Longrightarrow>
     visit fuel g node S = Some r \<Longrightarrow> dfs_post g S {node} r"
  "dfs_ok g S \<Longrightarrow> snd (snd S) = [] \<or> set ds \<subseteq> set (deps_of g (last (snd (snd S)))) \<Longrightarrow>
     visit_all fuel g ds S = Some r \<Longrightarrow> dfs_post g S (set ds) r"
proof (induction fuel g node S and fuel g ds S arbitrary: r and r rule: visit_visit_all.induct)
  case (2 fuel g node visiting visited stack)
  note ok = "2.prems"(1)
  consider (onstack) "node \<in> set visiting" | (fin) "node \<notin> set visiting" "node \<in> set visited"
    | (new) "node \<notin> set visiting" "node \<notin> set visited" by blast
  then show ?case
  proof cases
    case onstack
    with ok have mem: "node \<in> set stack" and path: "is_path g stack" by (auto simp: dfs_ok_def)
    obtain ys where ys: "drop (index_of stack node) stack = node # ys"
      using index_of_drop[OF mem] by blast
    have "is_path g (node # ys)" using is_path_drop[OF path] ys by metis
    moreover have "node \<in> set (deps_of g (last (node # ys)))"
      using "2.prems"(2) mem ys by (metis empty_iff last_drop list.set(1) not_Cons_self2 drop_eq_Nil linorder_not_le list.distinct(1) snd_conv)
    ultimately have "is_path g ((node # ys) @ [node])" by (intro is_path_snoc) auto
    with onstack mem ys "2.prems"(3) show ?thesis by (auto simp: dfs_post_def is_cycle_def)
  next
    case fin
    with ok "2.prems"(3) show ?thesis by (auto simp: dfs_post_def)
  next
    case new
    let ?S = "(node # visiting, visited, stack @ [node])"
    from ok "2.prems"(2) new have ok': "dfs_ok g ?S"
      by (auto simp: dfs_ok_def intro: is_path_snoc)
    from new "2.prems"(3) obtain c vg vd st
      where call: "visit_all fuel g (deps_of g node) ?S = Some (c, (vg, vd, st))"
      by (auto split: option.splits)
    have post: "dfs_post g ?S (set (deps_of g node)) (c, (vg, vd, st))"
      using "2.IH" new ok' call by simp
    show ?thesis
    proof (cases "c = []")
      case False
      with new call "2.prems"(3) post show ?thesis by (auto simp: dfs_post_def)
    next
      case True
      with post have p: "dfs_ok g (vg, vd, st)" "vg = node # visiting" "st = stack @ [node]"
        "set visited \<subseteq> set vd" "set (deps_of g node) \<subseteq> set vd" by (auto simp: dfs_post_def)
      then have "(node, node) \<notin> (dep_edges g)\<^sup>+"
        by (intro finished_not_cyclic[where A = "set vd"]) (auto simp: dfs_ok_def)
      with p new ok have "dfs_ok g (visiting, node # vd, stack)"
        by (auto simp: dfs_ok_def)
      with p new call True "2.prems"(3) show ?thesis by (auto simp: dfs_post_def)
    qed
  qed
next
  case (4 fuel g d ds S)
  obtain vg vd st where S: "S = (vg, vd, st)" by (cases S)
  from "4.prems"(3) obtain c vg' vd' st' where first: "visit fuel g d S = Some (c, (vg', vd', st'))"
    by (auto split: option.splits)
  have post: "dfs_post g S {d} (c, (vg', vd', st'))" using "4.IH"(1) "4.prems" first by auto
  show ?case
  proof (cases "c = []")
    case False
    with first "4.prems"(3) post S show ?thesis by (auto simp: dfs_post_def)
  next
    case True
    with post S have p: "dfs_ok g (vg', vd', st')" "vg' = vg" "st' = st" "set vd \<subseteq> set vd'" "d \<in> set vd'"
      by (auto simp: dfs_post_def)
    from first True "4.prems"(3) have rest: "visit_all fuel g ds (vg', vd', st') = Some r" by simp
    have "dfs_post g (vg', vd', st') (set ds) r"
      using "4.IH"(2)[OF first _ _ _ _ rest] True p "4.prems"(2) S by auto
    with p S show ?thesis by (auto simp: dfs_post_def split: if_splits)
  qed
qed (auto simp: dfs_post_def)

subsection \<open>The search ends, and finds a cycle exactly when there is one\<close>

lemma visit_enough_fuel:
  "finite U \<Longrightarrow> \<forall>n \<in> U. set (deps_of g n) \<subseteq> U \<Longrightarrow> node \<in> U \<Longrightarrow> card (U - set (fst S)) < fuel \<Longrightarrow>
     \<exists>c S'. visit fuel g node S = Some (c, S') \<and> (c = [] \<longrightarrow> fst S' = fst S)"
  "finite U \<Longrightarrow> \<forall>n \<in> U. set (deps_of g n) \<subseteq> U \<Longrightarrow> set ds \<subseteq> U \<Longrightarrow> card (U - set (fst S)) < fuel \<Longrightarrow>
     \<exists>c S'. visit_all fuel g ds S = Some (c, S') \<and> (c = [] \<longrightarrow> fst S' = fst S)"
proof (induction fuel g node S and fuel g ds S rule: visit_visit_all.induct)
  case (2 fuel g node visiting visited stack)
  show ?case
  proof (cases "node \<in> set visiting \<or> node \<in> set visited")
    case True
    then show ?thesis by auto
  next
    case False
    have "U - set (node # visiting) \<subset> U - set visiting" using False "2.prems"(3) by auto
    then have "card (U - set (node # visiting)) < card (U - set visiting)"
      using "2.prems"(1) by (intro psubset_card_mono) auto
    then have "\<exists>c S'. visit_all fuel g (deps_of g node) (node # visiting, visited, stack @ [node]) = Some (c, S')
        \<and> (c = [] \<longrightarrow> fst S' = node # visiting)"
      using "2.IH" False "2.prems" by auto
    then show ?thesis using False by auto
  qed
next
  case (4 fuel g d ds S)
  then obtain c S' where "visit fuel g d S = Some (c, S')" and "c = [] \<longrightarrow> fst S' = fst S" by auto
  with 4 show ?case by (cases "c = []"; cases S') auto
qed auto

lemma map_of_graph_fold:
  "map_of (fold (\<lambda>st g. AList.update (ps_step_id st) (ps_dependencies st) g) steps g) =
     map_of g ++ map_of (rev (map (\<lambda>st. (ps_step_id st, ps_dependencies st)) steps))"
  by (induction steps arbitrary: g) (auto simp: update_conv' map_add_def fun_eq_iff split: option.splits)

lemma map_of_graph_of:
  "map_of (graph_of steps) = map_of (rev (map (\<lambda>st. (ps_step_id st, ps_dependencies st)) steps))"
  by (simp add: graph_of_def map_of_graph_fold)

lemma keys_graph_of: "set (map fst (graph_of steps)) = set (map ps_step_id steps)"
proof -
  have "set (map fst (graph_of steps)) = dom (map_of (graph_of steps))"
    by (simp add: dom_map_of_conv_image_fst)
  also have "\<dots> = set (map ps_step_id steps)"
    by (simp add: map_of_graph_of dom_map_of_conv_image_fst image_image)
  finally show ?thesis .
qed

lemma deps_of_graph_of:
  assumes "distinct (map ps_step_id steps)" and "st \<in> set steps"
  shows "deps_of (graph_of steps) (ps_step_id st) = ps_dependencies st"
proof -
  let ?kv = "rev (map (\<lambda>st. (ps_step_id st, ps_dependencies st)) steps)"
  have "distinct (map fst ?kv)" using assms(1) by (simp add: rev_map[symmetric] o_def)
  moreover have "(ps_step_id st, ps_dependencies st) \<in> set ?kv" using assms(2) by auto
  ultimately have "map_of ?kv (ps_step_id st) = Some (ps_dependencies st)" by simp
  then show ?thesis by (simp add: deps_of_def map_of_graph_of)
qed

lemma deps_of_unknown: "n \<notin> set (map ps_step_id steps) \<Longrightarrow> deps_of (graph_of steps) n = []"
proof -
  assume "n \<notin> set (map ps_step_id steps)"
  then have "map_of (graph_of steps) n = None"
    using keys_graph_of[of steps] by (simp add: map_of_eq_None_iff)
  then show ?thesis by (simp add: deps_of_def)
qed

lemma deps_ofE:
  assumes "d \<in> set (deps_of g n)"
  obtains ds where "(n, ds) \<in> set g" and "d \<in> set ds"
  using assms by (cases "map_of g n") (auto simp: deps_of_def dest: map_of_SomeD)

lemma graph_nodes_closed: "set (deps_of g n) \<subseteq> set (graph_nodes g)"
  by (force simp: graph_nodes_def elim: deps_ofE)

lemma first_dependency_cycle_total: "\<exists>c. first_dependency_cycle steps = Some c"
proof -
  let ?g = "graph_of steps"
  let ?U = "set (graph_nodes ?g)"
  have "card (?U - set (fst ([], [], []))) < Suc (length (graph_nodes ?g))"
    using card_length[of "graph_nodes ?g"] by simp
  moreover have "set (map fst ?g) \<subseteq> ?U" by (auto simp: graph_nodes_def)
  ultimately show ?thesis
    using visit_enough_fuel(2)[of ?U ?g "map fst ?g" "([], [], [])" "Suc (length (graph_nodes ?g))"]
      graph_nodes_closed[of ?g]
    by (auto simp: first_dependency_cycle_def Let_def simp del: visit_all.simps)
qed

lemma first_dependency_cycle_correct:
  assumes "first_dependency_cycle steps = Some c"
  shows "if c = [] then acyclic (dep_edges (graph_of steps)) else is_cycle (graph_of steps) c"
proof -
  let ?g = "graph_of steps"
  from assms obtain S' where run:
    "visit_all (Suc (length (graph_nodes ?g))) ?g (map fst ?g) ([], [], []) = Some (c, S')"
    by (auto simp: first_dependency_cycle_def Let_def simp del: visit_all.simps)
  have "dfs_ok ?g ([], [], [])" by (simp add: dfs_ok_def)
  from visit_correct(2)[OF this _ run]
  have post: "dfs_post ?g ([], [], []) (set (map fst ?g)) (c, S')" by simp
  show ?thesis
  proof (cases "c = []")
    case False with post show ?thesis by (auto simp: dfs_post_def split: prod.splits)
  next
    case True
    obtain vg vd st where S': "S' = (vg, vd, st)" by (cases S')
    with post True have vis: "set (map fst ?g) \<subseteq> set vd" "\<forall>v \<in> set vd. (v, v) \<notin> (dep_edges ?g)\<^sup>+"
      by (auto simp: dfs_post_def dfs_ok_def)
    have "(x, x) \<notin> (dep_edges ?g)\<^sup>+" for x
    proof
      assume cyc: "(x, x) \<in> (dep_edges ?g)\<^sup>+"
      then obtain d where "(x, d) \<in> dep_edges ?g" by (auto dest: tranclD)
      then have "x \<in> set (map fst ?g)"
        by (force simp: dep_edges_def elim: deps_ofE)
      with vis cyc show False by blast
    qed
    with True show ?thesis by (auto simp: acyclic_def)
  qed
qed

subsection \<open>Validation of a plan\<close>

definition step_is_mutating :: "plan_step \<Rightarrow> bool" where
  "step_is_mutating st \<longleftrightarrow> ps_approval_required st \<or>
     (\<exists>tool \<in> set (ps_allowed_tools st). tool \<in> set [''write_file'', ''edit_file'', ''append_file'',
        ''file.patch'', ''delete_file'', ''run_command'', ''git.checkpoint''])"

text \<open>
  The errors of one step, in the order of the code. A risk level is a member of the enumeration
  here, so the branch for an invalid one cannot be taken.
\<close>

definition step_errors :: "string list \<Rightarrow> string list option \<Rightarrow> plan_step \<Rightarrow> string list" where
  "step_errors known_ids valid_tool_names st =
     (if ps_step_id st = [] then [''step_id is required''] else []) @
     (if strip (ps_title st) = [] then [ps_step_id st @ '': title is required''] else []) @
     (if strip (ps_goal st) = [] then [ps_step_id st @ '': goal is required''] else []) @
     (if ps_acceptance_criteria st = [] then [ps_step_id st @ '': acceptance_criteria is required''] else []) @
     (if step_is_mutating st \<and> ps_required_evidence st = []
      then [ps_step_id st @ '': mutating step requires evidence''] else []) @
     map (\<lambda>dep. ps_step_id st @ '': unknown dependency '' @ dep)
       (filter (\<lambda>dep. dep \<notin> set known_ids) (ps_dependencies st)) @
     map (\<lambda>ev. ps_step_id st @ '': invalid evidence type '' @ ev)
       (filter (\<lambda>ev. find (\<lambda>m. evidence_type_value m = ev) evidence_types = None) (ps_required_evidence st)) @
     (case valid_tool_names of None \<Rightarrow> []
      | Some names \<Rightarrow> map (\<lambda>tool. ps_step_id st @ '': unknown tool '' @ tool)
          (filter (\<lambda>tool. tool \<notin> set names) (ps_allowed_tools st)))"

definition validate_execution_plan :: "execution_plan \<Rightarrow> string list option \<Rightarrow> string list" where
  "validate_execution_plan plan valid_tool_names =
     (let step_ids = map ps_step_id (ep_steps plan);
          duplicates = sorted_set (filter (\<lambda>i. 1 < count_list step_ids i) step_ids)
      in (if ep_plan_id plan = [] then [''plan_id is required''] else []) @
         (if ep_task_id plan = [] then [''task_id is required''] else []) @
         (if ep_steps plan = [] then [''at least one step is required''] else []) @
         (if duplicates \<noteq> [] then [''duplicate step_id: '' @ join '', '' duplicates] else []) @
         concat (map (step_errors step_ids valid_tool_names) (ep_steps plan)) @
         (case first_dependency_cycle (ep_steps plan) of None \<Rightarrow> []
          | Some cycle \<Rightarrow> if cycle \<noteq> [] then [''cyclic dependency: '' @ join '' -> '' cycle] else []))"

text \<open>What a plan has to be, without the search and the messages.\<close>

definition plan_edges :: "plan_step list \<Rightarrow> (string \<times> string) set" where
  "plan_edges steps = {(n, d). \<exists>st \<in> set steps. ps_step_id st = n \<and> d \<in> set (ps_dependencies st)}"

definition step_well_formed :: "string set \<Rightarrow> string list option \<Rightarrow> plan_step \<Rightarrow> bool" where
  "step_well_formed ids tools st \<longleftrightarrow>
     ps_step_id st \<noteq> [] \<and> strip (ps_title st) \<noteq> [] \<and> strip (ps_goal st) \<noteq> [] \<and>
     ps_acceptance_criteria st \<noteq> [] \<and> (step_is_mutating st \<longrightarrow> ps_required_evidence st \<noteq> []) \<and>
     set (ps_dependencies st) \<subseteq> ids \<and>
     set (ps_required_evidence st) \<subseteq> range evidence_type_value \<and>
     (\<forall>names. tools = Some names \<longrightarrow> set (ps_allowed_tools st) \<subseteq> set names)"

definition plan_well_formed :: "execution_plan \<Rightarrow> string list option \<Rightarrow> bool" where
  "plan_well_formed plan tools \<longleftrightarrow>
     ep_plan_id plan \<noteq> [] \<and> ep_task_id plan \<noteq> [] \<and> ep_steps plan \<noteq> [] \<and>
     distinct (map ps_step_id (ep_steps plan)) \<and>
     (\<forall>st \<in> set (ep_steps plan). step_well_formed (ps_step_id ` set (ep_steps plan)) tools st) \<and>
     acyclic (plan_edges (ep_steps plan))"

lemma find_evidence_None:
  "find (\<lambda>m. evidence_type_value m = ev) evidence_types = None \<longleftrightarrow> ev \<notin> range evidence_type_value"
  using evidence_type.all_members by (auto simp: find_None_iff)

lemma step_errors_Nil: "step_errors ids tools st = [] \<longleftrightarrow> step_well_formed (set ids) tools st"
  by (auto simp: step_errors_def step_well_formed_def find_evidence_None filter_empty_conv
      split: option.splits)

lemma count_list_distinct: "(\<forall>x \<in> set xs. count_list xs x \<le> Suc 0) \<longleftrightarrow> distinct xs"
proof (induction xs)
  case (Cons x xs)
  show ?case
  proof (cases "x \<in> set xs")
    case True
    then have "Suc 0 \<le> count_list xs x" by (metis Suc_leI count_list_0_iff gr0I)
    with True show ?thesis by auto
  next
    case False
    then have "count_list xs x = 0" by (simp add: count_list_0_iff)
    with False Cons.IH show ?thesis by auto
  qed
qed simp

lemma dep_edges_graph_of:
  assumes "distinct (map ps_step_id steps)"
  shows "dep_edges (graph_of steps) = plan_edges steps"
proof -
  have "d \<in> set (deps_of (graph_of steps) n) \<longleftrightarrow> (\<exists>st \<in> set steps. ps_step_id st = n \<and> d \<in> set (ps_dependencies st))" for n d
  proof (cases "n \<in> set (map ps_step_id steps)")
    case True
    then obtain st where "st \<in> set steps" "n = ps_step_id st" by auto
    with deps_of_graph_of[OF assms] assms show ?thesis
      by (metis (no_types, lifting) distinct_map inj_onD)
  next
    case False
    then show ?thesis by (auto simp: deps_of_unknown)
  qed
  then show ?thesis by (auto simp: dep_edges_def plan_edges_def)
qed

lemma duplicates_Nil:
  "sorted_set (filter (\<lambda>i. Suc 0 < count_list xs i) xs) = [] \<longleftrightarrow> distinct xs"
proof -
  have "sorted_set (filter (\<lambda>i. Suc 0 < count_list xs i) xs) = [] \<longleftrightarrow> (\<forall>x \<in> set xs. count_list xs x \<le> Suc 0)"
    by (metis (no_types, lifting) filter_empty_conv linorder_not_less set_empty2 set_sorted_set)
  then show ?thesis by (simp add: count_list_distinct)
qed

lemma validate_execution_plan_iff: "validate_execution_plan plan tools = [] \<longleftrightarrow> plan_well_formed plan tools"
proof -
  obtain c where c: "first_dependency_cycle (ep_steps plan) = Some c"
    using first_dependency_cycle_total by blast
  have cyc: "distinct (map ps_step_id (ep_steps plan)) \<Longrightarrow> c = [] \<longleftrightarrow> acyclic (plan_edges (ep_steps plan))"
    using first_dependency_cycle_correct[OF c] dep_edges_graph_of is_cycle_not_acyclic
    by (metis (full_types))
  show ?thesis
    unfolding validate_execution_plan_def plan_well_formed_def Let_def
    using cyc by (auto simp: c duplicates_Nil step_errors_Nil)
qed

subsection \<open>Properties\<close>

text \<open>
  C32. The validator reports no error exactly for well-formed plans: identifiers present and distinct,
  every step titled, with acceptance criteria, known dependencies, known evidence types and tools,
  evidence on every mutating step, and an acyclic dependency relation.
\<close>

theorem plan_validation_exact: "validate_execution_plan plan tools = [] \<longleftrightarrow> plan_well_formed plan tools"
  by (rule validate_execution_plan_iff)

text \<open>
  C31. The cycle search returns on every list of steps; it returns the empty list exactly when the
  dependency graph is acyclic, and otherwise a path of the graph that ends where it starts.
\<close>

theorem cycle_search_total_and_correct:
  "\<exists>c. first_dependency_cycle steps = Some c \<and>
     (if c = [] then acyclic (dep_edges (graph_of steps)) else is_cycle (graph_of steps) c)"
  using first_dependency_cycle_total first_dependency_cycle_correct by blast

end
