(* ===== verification/Failures.thy ===== *)
theory Failures
  imports Json
begin

text \<open>
  \<open>shamsu/runtime/failures.py\<close>: the failure types with their recovery policies, the normalisation of
  a reported type, the signature under which equal failures are counted, and the classification of
  a failed tool result. The hash of a text is a parameter, any function of the text.
\<close>

subsection \<open>Failure types and recovery policies\<close>

datatype failure_type =
  TOOL_NOT_CALLED | WRONG_TOOL | TOOL_SCHEMA_ERROR | REPEATED_ACTION | PREMATURE_COMPLETION
  | PHASE_VIOLATION | RETRIEVAL_NOISE | STALE_MEMORY | ENVIRONMENT_MISMATCH | VERIFICATION_FAILURE
  | MODEL_TIMEOUT | TOOL_TIMEOUT | CONNECT_TIMEOUT | FIRST_TOKEN_TIMEOUT | TOKEN_IDLE_TIMEOUT
  | TOTAL_GENERATION_TIMEOUT | STEP_TIMEOUT | TASK_TIMEOUT | PERMISSION_DENIED | UNKNOWN_FAILURE

fun failure_type_value :: "failure_type \<Rightarrow> string" where
  "failure_type_value TOOL_NOT_CALLED = ''TOOL_NOT_CALLED''"
| "failure_type_value WRONG_TOOL = ''WRONG_TOOL''"
| "failure_type_value TOOL_SCHEMA_ERROR = ''TOOL_SCHEMA_ERROR''"
| "failure_type_value REPEATED_ACTION = ''REPEATED_ACTION''"
| "failure_type_value PREMATURE_COMPLETION = ''PREMATURE_COMPLETION''"
| "failure_type_value PHASE_VIOLATION = ''PHASE_VIOLATION''"
| "failure_type_value RETRIEVAL_NOISE = ''RETRIEVAL_NOISE''"
| "failure_type_value STALE_MEMORY = ''STALE_MEMORY''"
| "failure_type_value ENVIRONMENT_MISMATCH = ''ENVIRONMENT_MISMATCH''"
| "failure_type_value VERIFICATION_FAILURE = ''VERIFICATION_FAILURE''"
| "failure_type_value MODEL_TIMEOUT = ''MODEL_TIMEOUT''"
| "failure_type_value TOOL_TIMEOUT = ''TOOL_TIMEOUT''"
| "failure_type_value CONNECT_TIMEOUT = ''CONNECT_TIMEOUT''"
| "failure_type_value FIRST_TOKEN_TIMEOUT = ''FIRST_TOKEN_TIMEOUT''"
| "failure_type_value TOKEN_IDLE_TIMEOUT = ''TOKEN_IDLE_TIMEOUT''"
| "failure_type_value TOTAL_GENERATION_TIMEOUT = ''TOTAL_GENERATION_TIMEOUT''"
| "failure_type_value STEP_TIMEOUT = ''STEP_TIMEOUT''"
| "failure_type_value TASK_TIMEOUT = ''TASK_TIMEOUT''"
| "failure_type_value PERMISSION_DENIED = ''PERMISSION_DENIED''"
| "failure_type_value UNKNOWN_FAILURE = ''UNKNOWN_FAILURE''"

definition failure_types :: "failure_type list" where
  "failure_types = [
     TOOL_NOT_CALLED, WRONG_TOOL, TOOL_SCHEMA_ERROR, REPEATED_ACTION, PREMATURE_COMPLETION
    , PHASE_VIOLATION, RETRIEVAL_NOISE, STALE_MEMORY, ENVIRONMENT_MISMATCH
    , VERIFICATION_FAILURE, MODEL_TIMEOUT, TOOL_TIMEOUT, CONNECT_TIMEOUT, FIRST_TOKEN_TIMEOUT
    , TOKEN_IDLE_TIMEOUT, TOTAL_GENERATION_TIMEOUT, STEP_TIMEOUT, TASK_TIMEOUT
    , PERMISSION_DENIED, UNKNOWN_FAILURE]"

datatype recovery_action =
  SAFE_ARGUMENT_REPAIR | BLOCK_IDENTICAL_CALL | INVALIDATE_MEMORY_AND_REREAD | ENTER_REPAIR
  | REJECT_ACTION | REJECT_COMPLETION | RETRY_WITH_TOOL_CONTRACT | REQUEST_INPUT | REPLAN | STOP

record recovery_policy =
  pol_action :: recovery_action
  pol_max_retries :: nat
  pol_message :: string

record failure_record =
  fr_failure_type :: failure_type
  fr_task_id :: string
  fr_step_id :: string
  fr_action :: string
  fr_error_signature :: string
  fr_evidence :: "string list"
  fr_retry_count :: int
  fr_first_seen :: string
  fr_last_seen :: string

definition policy :: "recovery_action \<Rightarrow> nat \<Rightarrow> string \<Rightarrow> recovery_policy" where
  "policy a n m = \<lparr>pol_action = a, pol_max_retries = n, pol_message = m\<rparr>"

fun recovery_policies :: "failure_type \<Rightarrow> recovery_policy" where
  "recovery_policies TOOL_NOT_CALLED = policy RETRY_WITH_TOOL_CONTRACT 2
     ''Require the next response to call an allowed tool or ask for a specific missing input.''"
| "recovery_policies WRONG_TOOL = policy REJECT_ACTION 1
     ''Reject the requested tool and provide the allowed alternatives.''"
| "recovery_policies TOOL_SCHEMA_ERROR = policy SAFE_ARGUMENT_REPAIR 1
     ''Permit one safe argument repair.''"
| "recovery_policies REPEATED_ACTION = policy BLOCK_IDENTICAL_CALL 0
     ''Block the identical call and require a different action.''"
| "recovery_policies PREMATURE_COMPLETION = policy REJECT_COMPLETION 0
     ''Reject completion until required evidence exists.''"
| "recovery_policies PHASE_VIOLATION = policy REJECT_ACTION 0
     ''Reject the action because the current phase forbids it.''"
| "recovery_policies RETRIEVAL_NOISE = policy REPLAN 1
     ''Drop noisy retrieval context and recompile from runtime state.''"
| "recovery_policies STALE_MEMORY = policy INVALIDATE_MEMORY_AND_REREAD 1
     ''Invalidate stale memory and reread fresh source evidence.''"
| "recovery_policies ENVIRONMENT_MISMATCH = policy REQUEST_INPUT 1
     ''Ask for or repair missing environment prerequisites after one bounded retry.''"
| "recovery_policies VERIFICATION_FAILURE = policy ENTER_REPAIR 1
     ''Enter the repair phase with the failing verification evidence.''"
| "recovery_policies MODEL_TIMEOUT = policy STOP 0
     ''Stop the run or surface timeout status.''"
| "recovery_policies TOOL_TIMEOUT = policy STOP 0
     ''Stop the tool attempt and report timeout evidence.''"
| "recovery_policies CONNECT_TIMEOUT = policy STOP 0
     ''Stop because the model transport could not connect.''"
| "recovery_policies FIRST_TOKEN_TIMEOUT = policy STOP 0
     ''Stop because generation never started.''"
| "recovery_policies TOKEN_IDLE_TIMEOUT = policy STOP 0
     ''Stop because generation started and then went silent.''"
| "recovery_policies TOTAL_GENERATION_TIMEOUT = policy STOP 0
     ''Stop because the optional total generation cap was reached.''"
| "recovery_policies STEP_TIMEOUT = policy REPLAN 0
     ''Stop or replan the timed-out step.''"
| "recovery_policies TASK_TIMEOUT = policy STOP 0
     ''Stop because the overall task deadline was reached.''"
| "recovery_policies PERMISSION_DENIED = policy REJECT_ACTION 0
     ''Do not retry denied actions.''"
| "recovery_policies UNKNOWN_FAILURE = policy REPLAN 1
     ''Request a higher-level replan after bounded retries.''"

interpretation failure_type: enumeration failure_type_value failure_types
proof unfold_locales
  fix m n show "m \<in> set failure_types" by (cases m) (simp_all add: failure_types_def)
  assume "failure_type_value m = failure_type_value n"
  then show "m = n" by (cases m) (cases n; simp)+
qed

lemmas failure_type_parse_val [simp] = failure_type.parse_val

definition normalize_failure_type :: "string \<Rightarrow> failure_type" where
  "normalize_failure_type s = (case enum_parse failure_type_value failure_types s of
     Inl _ \<Rightarrow> UNKNOWN_FAILURE | Inr t \<Rightarrow> t)"

definition recovery_policy_for :: "string \<Rightarrow> recovery_policy" where
  "recovery_policy_for s = recovery_policies (normalize_failure_type s)"

lemma normalize_value [simp]: "normalize_failure_type (failure_type_value t) = t"
  by (simp add: normalize_failure_type_def)

lemma normalize_unknown:
  "s \<notin> range failure_type_value \<Longrightarrow> normalize_failure_type s = UNKNOWN_FAILURE"
  by (auto simp: normalize_failure_type_def failure_type.parse_Inr split: sum.splits)

subsection \<open>Timeouts\<close>

datatype timeout_category =
    TC_CONNECT_TIMEOUT | TC_FIRST_TOKEN_TIMEOUT | TC_TOKEN_IDLE_TIMEOUT | TC_TOTAL_GENERATION_TIMEOUT
  | TC_TOOL_TIMEOUT | TC_STEP_TIMEOUT | TC_TASK_TIMEOUT

fun timeout_category_value :: "timeout_category \<Rightarrow> string" where
  "timeout_category_value TC_CONNECT_TIMEOUT = ''CONNECT_TIMEOUT''"
| "timeout_category_value TC_FIRST_TOKEN_TIMEOUT = ''FIRST_TOKEN_TIMEOUT''"
| "timeout_category_value TC_TOKEN_IDLE_TIMEOUT = ''TOKEN_IDLE_TIMEOUT''"
| "timeout_category_value TC_TOTAL_GENERATION_TIMEOUT = ''TOTAL_GENERATION_TIMEOUT''"
| "timeout_category_value TC_TOOL_TIMEOUT = ''TOOL_TIMEOUT''"
| "timeout_category_value TC_STEP_TIMEOUT = ''STEP_TIMEOUT''"
| "timeout_category_value TC_TASK_TIMEOUT = ''TASK_TIMEOUT''"

definition timeout_categories :: "timeout_category list" where
  "timeout_categories = [TC_CONNECT_TIMEOUT, TC_FIRST_TOKEN_TIMEOUT, TC_TOKEN_IDLE_TIMEOUT,
     TC_TOTAL_GENERATION_TIMEOUT, TC_TOOL_TIMEOUT, TC_STEP_TIMEOUT, TC_TASK_TIMEOUT]"

interpretation timeout_category: enumeration timeout_category_value timeout_categories
proof unfold_locales
  fix m n show "m \<in> set timeout_categories" by (cases m) (simp_all add: timeout_categories_def)
  show "timeout_category_value m = timeout_category_value n \<Longrightarrow> m = n" by (cases m; cases n) simp_all
qed

fun timeout_failures :: "timeout_category \<Rightarrow> failure_type" where
  "timeout_failures TC_CONNECT_TIMEOUT = CONNECT_TIMEOUT"
| "timeout_failures TC_FIRST_TOKEN_TIMEOUT = FIRST_TOKEN_TIMEOUT"
| "timeout_failures TC_TOKEN_IDLE_TIMEOUT = TOKEN_IDLE_TIMEOUT"
| "timeout_failures TC_TOTAL_GENERATION_TIMEOUT = TOTAL_GENERATION_TIMEOUT"
| "timeout_failures TC_TOOL_TIMEOUT = TOOL_TIMEOUT"
| "timeout_failures TC_STEP_TIMEOUT = STEP_TIMEOUT"
| "timeout_failures TC_TASK_TIMEOUT = TASK_TIMEOUT"

definition failure_type_for_timeout :: "string \<Rightarrow> failure_type" where
  "failure_type_for_timeout category = (case enum_parse timeout_category_value timeout_categories category of
     Inl _ \<Rightarrow> UNKNOWN_FAILURE | Inr c \<Rightarrow> timeout_failures c)"

lemma failure_type_for_timeout_value: "failure_type_value (failure_type_for_timeout (timeout_category_value c)) = timeout_category_value c"
  by (cases c) (simp_all add: failure_type_for_timeout_def timeout_category.parse_val
      timeout_category.parse_val[of TC_CONNECT_TIMEOUT, simplified]
      timeout_category.parse_val[of TC_FIRST_TOKEN_TIMEOUT, simplified]
      timeout_category.parse_val[of TC_TOKEN_IDLE_TIMEOUT, simplified]
      timeout_category.parse_val[of TC_TOTAL_GENERATION_TIMEOUT, simplified]
      timeout_category.parse_val[of TC_TOOL_TIMEOUT, simplified]
      timeout_category.parse_val[of TC_STEP_TIMEOUT, simplified]
      timeout_category.parse_val[of TC_TASK_TIMEOUT, simplified])

subsection \<open>Signatures and the stored form\<close>

definition make_error_signature ::
    "(json_text \<Rightarrow> string) \<Rightarrow> failure_type \<Rightarrow> string \<Rightarrow> string list \<Rightarrow> json \<Rightarrow> string" where
  "make_error_signature digest ft action evidence detail =
     take 20 (digest (dumps (JObj [
       (''action'', JStr action),
       (''detail'', detail),
       (''evidence'', strs evidence),
       (''failure_type'', JStr (failure_type_value ft))])))"

definition failure_to_dict :: "failure_record \<Rightarrow> dict" where
  "failure_to_dict f = [
     (''action'', JStr (fr_action f)),
     (''error_signature'', JStr (fr_error_signature f)),
     (''evidence'', strs (fr_evidence f)),
     (''failure_type'', JStr (failure_type_value (fr_failure_type f))),
     (''first_seen'', JStr (fr_first_seen f)),
     (''last_seen'', JStr (fr_last_seen f)),
     (''retry_count'', JInt (fr_retry_count f)),
     (''step_id'', JStr (fr_step_id f)),
     (''task_id'', JStr (fr_task_id f))]"

definition failure_from_dict :: "string \<Rightarrow> dict \<Rightarrow> py_error + failure_record" where
  "failure_from_dict now d =
     rbind (Inr (case dict_get d ''failure_type'' of Some (JStr s) \<Rightarrow> normalize_failure_type s
                   | _ \<Rightarrow> UNKNOWN_FAILURE)) (\<lambda>failure_type.
     rbind (known_keys [''action'', ''error_signature'', ''evidence'', ''failure_type'', ''first_seen'',
       ''last_seen'', ''retry_count'', ''step_id'', ''task_id''] d) (\<lambda>_.
     rbind (str_req d ''task_id'') (\<lambda>task_id.
     rbind (str_opt d ''step_id'' []) (\<lambda>step_id.
     rbind (str_opt d ''action'' []) (\<lambda>action.
     rbind (str_opt d ''error_signature'' []) (\<lambda>error_signature.
     rbind (strs_opt d ''evidence'') (\<lambda>evidence.
     rbind (int_opt d ''retry_count'' 0) (\<lambda>retry_count.
     rbind (str_opt d ''first_seen'' now) (\<lambda>first_seen.
     rbind (str_opt d ''last_seen'' now) (\<lambda>last_seen.
       Inr \<lparr>fr_failure_type = failure_type, fr_task_id = task_id, fr_step_id = step_id,
         fr_action = action, fr_error_signature = error_signature, fr_evidence = evidence,
         fr_retry_count = retry_count, fr_first_seen = first_seen, fr_last_seen = last_seen\<rparr>))))))))))"

lemma failure_roundtrip [simp]: "failure_from_dict now (failure_to_dict f) = Inr f"
  by (simp add: failure_from_dict_def failure_to_dict_def field_defs)

subsection \<open>Classifying a failed tool result\<close>

text \<open>\<open>str(x or "")\<close> for a field that may be absent; other values than text are rendered by \<open>repr\<close>.\<close>

definition text_of :: "(json \<Rightarrow> string) \<Rightarrow> json \<Rightarrow> string" where
  "text_of repr j = (case j of JStr s \<Rightarrow> s | JInt i \<Rightarrow> int_str i | JBool b \<Rightarrow> (if b then ''True'' else ''False'')
     | JNull \<Rightarrow> ''None'' | _ \<Rightarrow> repr j)"

definition text_or_empty :: "(json \<Rightarrow> string) \<Rightarrow> dict \<Rightarrow> string \<Rightarrow> string" where
  "text_or_empty repr d k = (case dict_get d k of None \<Rightarrow> []
     | Some j \<Rightarrow> if truthy j then text_of repr j else [])"

definition classify_tool_result :: "(json \<Rightarrow> string) \<Rightarrow> bool \<Rightarrow> string \<Rightarrow> dict \<Rightarrow> failure_type option" where
  "classify_tool_result repr ok msg data =
     (let message = lower msg; reason = lower (text_or_empty repr data ''reason'')
      in if ok then None
         else if get_truthy data ''phase_denied'' \<or> contains ''denied by phase contract'' message
           then Some PHASE_VIOLATION
         else if get_truthy data ''blocked_tool'' \<or>
                 contains ''not allowed for the current orchestrated step'' message then
           (if contains ''active plan step'' reason \<or> contains ''allowed tools'' reason \<or>
               contains ''current orchestrated step'' message
            then Some PERMISSION_DENIED else Some WRONG_TOOL)
         else if contains ''denied by user'' message \<or> contains ''permission denied'' message
           then Some PERMISSION_DENIED
         else if contains ''timeout'' message \<or> contains ''timed out'' message \<or> get_truthy data ''timeout''
           then Some TOOL_TIMEOUT
         else if contains ''missing'' message \<or> contains ''invalid'' message \<or> contains ''required'' message \<or>
                 contains ''schema'' message \<or> contains ''argument'' reason
           then Some TOOL_SCHEMA_ERROR
         else if contains ''not found'' message \<or> contains ''not a file'' message \<or>
                 contains ''no similar files'' message
           then Some RETRIEVAL_NOISE
         else if contains ''environment'' message \<or> contains ''not installed'' message \<or>
                 contains ''executable'' message
           then Some ENVIRONMENT_MISMATCH
         else Some UNKNOWN_FAILURE)"

lemma classify_None [simp]: "classify_tool_result repr ok msg data = None \<longleftrightarrow> ok"
  by (simp add: classify_tool_result_def Let_def)

text \<open>The facade \<open>FailureTracker\<close>: the policy is looked up by the type of the record.\<close>

definition policy_for :: "failure_record \<Rightarrow> recovery_policy" where
  "policy_for f = recovery_policies (fr_failure_type f)"

end
