(* ===== verification/RuntimeStore.thy ===== *)
theory RuntimeStore
  imports RuntimePlan Failures "HOL-Library.Product_Lexorder"
begin

text \<open>
  The class \<open>RuntimeStateStore\<close> of \<open>shamsu/runtime/task_state.py\<close>: the SQLite tables as association
  lists in row order, one definition per method. A method is a computation over the store that may
  raise; what it wrote before it raised stays written, as each \<open>with self._connect()\<close> block commits
  on its own. The clock and the identifier supply are read from the store: the n-th reading of the
  clock is \<open>st_clock s n\<close>, any sequence of ISO texts.
\<close>

subsection \<open>The tables\<close>

record store =
  st_clock :: "nat \<Rightarrow> string"
  st_ticks :: nat
  st_uuid :: "nat \<Rightarrow> string"
  st_drawn :: nat
  st_digest :: "json_text \<Rightarrow> string"
  st_repr :: "json \<Rightarrow> string"
  st_runs :: "(string \<times> json_text) list"
  st_tasks :: "(string \<times> (string \<times> string \<times> json_text)) list"
  st_steps :: "((string \<times> string) \<times> (string \<times> json_text)) list"
  st_repairs :: "(string \<times> json_text) list"
  st_plans :: "(string \<times> (string \<times> string \<times> json_text)) list"
  st_evidence :: "(string \<times> string \<times> string \<times> string \<times> json_text \<times> json_text) list"
  st_failures :: "((string \<times> string) \<times> (string \<times> string \<times> json_text)) list"
  st_checkpoints :: "(string \<times> json_text) list"

text \<open>
  Columns: a task row holds run id, update time and payload; a step row update time and payload; a
  plan row task id, update time and payload; an evidence row evidence id, task id, step id,
  timestamp, signature and payload; a failure row failure type, last seen and payload. Columns the
  code never reads back are left out. Checkpoints are in the order of their autoincrement id.
\<close>

type_synonym 'a store_eff = "(store, 'a) eff"

definition now :: "string store_eff" where
  "now = (\<lambda>s. (Inr (st_clock s (st_ticks s)), s\<lparr>st_ticks := Suc (st_ticks s)\<rparr>))"

definition new_id :: "string \<Rightarrow> string store_eff" where
  "new_id kind = (\<lambda>s. (Inr (kind @ ''-'' @ take 12 (st_uuid s (st_drawn s))),
     s\<lparr>st_drawn := Suc (st_drawn s)\<rparr>))"

text \<open>The time a reader fills in for a missing field; such a reading does not move the clock.\<close>

definition peek :: "store \<Rightarrow> string" where
  "peek s = st_clock s (st_ticks s)"

text \<open>Decode the rows of a query, stopping at the first one that does not decode.\<close>

definition decode :: "(dict \<Rightarrow> py_error + 'a) \<Rightarrow> string \<Rightarrow> json_text \<Rightarrow> py_error + 'a" where
  "decode reader label payload = rbind (loads_object payload label) reader"

lemma decode_dumps [simp]: "decode reader label (dumps (JObj d)) = reader d"
  by (simp add: decode_def)

subsection \<open>Runs\<close>

definition save_run :: "run_state \<Rightarrow> run_state store_eff" where
  "save_run state =
     seq now (\<lambda>t.
     let state = state\<lparr>rs_updated_at := t\<rparr>
     in seq (modify (\<lambda>s. s\<lparr>st_runs := AList.update (rs_run_id state) (dumps (JObj (run_to_dict state))) (st_runs s)\<rparr>)) (\<lambda>_.
     ret state))"

definition create_run :: "string \<Rightarrow> run_status \<Rightarrow> real option \<Rightarrow> run_state store_eff" where
  "create_run run_id status deadline_at =
     seq now (\<lambda>started. seq now (\<lambda>updated.
     save_run \<lparr>rs_run_id = run_id, rs_status = status, rs_task_ids = [], rs_current_task_id = [],
       rs_started_at = started, rs_updated_at = updated, rs_deadline_at = deadline_at,
       rs_last_checkpoint = []\<rparr>))"

definition load_run :: "store \<Rightarrow> string \<Rightarrow> py_error + run_state option" where
  "load_run s run_id = (case map_of (st_runs s) run_id of
     None \<Rightarrow> Inr None
   | Some payload \<Rightarrow> rbind (decode (run_from_dict (peek s)) (''run '' @ run_id) payload) (\<lambda>r. Inr (Some r)))"

subsection \<open>Tasks and checkpoints\<close>

fun latest_checkpoint :: "string \<Rightarrow> string \<Rightarrow> json_text list \<Rightarrow> py_error + task_state option" where
  "latest_checkpoint t task_id [] = Inr None"
| "latest_checkpoint t task_id (payload # rest) =
     (case decode (task_from_dict t) (''checkpoint '' @ task_id) payload of
        Inl (CorruptRuntimeState _) \<Rightarrow> latest_checkpoint t task_id rest
      | Inl e \<Rightarrow> Inl e
      | Inr st \<Rightarrow> Inr (Some st))"

definition recover_latest_checkpoint :: "store \<Rightarrow> string \<Rightarrow> py_error + task_state option" where
  "recover_latest_checkpoint s task_id =
     latest_checkpoint (peek s) task_id (map snd (filter (\<lambda>(t, _). t = task_id) (rev (st_checkpoints s))))"

definition load_task :: "store \<Rightarrow> string \<Rightarrow> bool \<Rightarrow> py_error + task_state option" where
  "load_task s task_id recover = (case map_of (st_tasks s) task_id of
     None \<Rightarrow> if recover then recover_latest_checkpoint s task_id else Inr None
   | Some (_, _, payload) \<Rightarrow>
       (case decode (task_from_dict (peek s)) (''task '' @ task_id) payload of
          Inl (CorruptRuntimeState m) \<Rightarrow>
            if recover then recover_latest_checkpoint s task_id else Inl (CorruptRuntimeState m)
        | Inl e \<Rightarrow> Inl e
        | Inr st \<Rightarrow> Inr (Some st)))"

definition require_task :: "string \<Rightarrow> task_state store_eff" where
  "require_task task_id =
     read (\<lambda>s. rbind (load_task s task_id True) (\<lambda>found. case found of
       None \<Rightarrow> Inl (RuntimeStateError (''Task state not found: '' @ task_id))
     | Some st \<Rightarrow> Inr st))"

text \<open>The guard of \<open>save_task\<close>: what it checks against the stored row before it writes.\<close>

definition save_task_guard ::
    "task_state \<Rightarrow> run_status option \<Rightarrow> bool \<Rightarrow> store \<Rightarrow> py_error + task_state option" where
  "save_task_guard state expected_previous allow_completion s =
     rbind (load_task s (ts_task_id state) False) (\<lambda>existing.
     if ts_status state = RUN_COMPLETED \<and> \<not> allow_completion then
       Inl (InvalidStateTransition ''Task completion must go through request_task_complete().'')
     else case existing of
       None \<Rightarrow> Inr None
     | Some ex \<Rightarrow>
         (case expected_previous of
            Some e \<Rightarrow> if ts_status ex \<noteq> e
              then Inl (InvalidStateTransition (''Expected '' @ run_status_value e @ '', found '' @
                run_status_value (ts_status ex)))
              else rbind (validate_transition (ts_status ex) (ts_status state)) (\<lambda>_. Inr (Some ex))
          | None \<Rightarrow> rbind (validate_transition (ts_status ex) (ts_status state)) (\<lambda>_. Inr (Some ex))))"

definition stamp_task :: "task_state option \<Rightarrow> string option \<Rightarrow> string \<Rightarrow> task_state \<Rightarrow> task_state" where
  "stamp_task existing checkpoint_kind t state =
     (let state = (case existing of
            Some ex \<Rightarrow> if ts_created_at state = [] then state\<lparr>ts_created_at := ts_created_at ex\<rparr> else state
          | None \<Rightarrow> state);
          state = state\<lparr>ts_updated_at := t\<rparr>
      in case checkpoint_kind of
           Some kind \<Rightarrow> if kind = [] then state else state\<lparr>ts_last_checkpoint := kind @ '':'' @ t\<rparr>
         | None \<Rightarrow> state)"

definition add_checkpoint ::
    "string option \<Rightarrow> string \<Rightarrow> json_text \<Rightarrow> (string \<times> json_text) list \<Rightarrow> (string \<times> json_text) list" where
  "add_checkpoint checkpoint_kind task_id payload rows = (case checkpoint_kind of
     Some kind \<Rightarrow> if kind = [] then rows else rows @ [(task_id, payload)]
   | None \<Rightarrow> rows)"

definition save_task ::
    "task_state \<Rightarrow> string option \<Rightarrow> run_status option \<Rightarrow> bool \<Rightarrow> task_state store_eff" where
  "save_task state checkpoint_kind expected_previous allow_completion =
     seq (read (save_task_guard state expected_previous allow_completion)) (\<lambda>existing.
     seq now (\<lambda>t.
     let state = stamp_task existing checkpoint_kind t state;
         payload = dumps (JObj (task_to_dict state))
     in seq (modify (\<lambda>s. s\<lparr>
          st_tasks := AList.update (ts_task_id state) (ts_run_id state, t, payload) (st_tasks s),
          st_checkpoints := add_checkpoint checkpoint_kind (ts_task_id state) payload (st_checkpoints s)\<rparr>)) (\<lambda>_.
     ret state)))"

definition create_task :: "string \<Rightarrow> string \<Rightarrow> string \<Rightarrow> string option \<Rightarrow> string \<Rightarrow> task_state store_eff" where
  "create_task run_id user_request project_id task_id plan_id =
     seq (case task_id of Some t \<Rightarrow> if t = [] then new_id ''task'' else ret t | None \<Rightarrow> new_id ''task'') (\<lambda>tid.
     seq now (\<lambda>created. seq now (\<lambda>updated.
     seq (save_task \<lparr>ts_task_id = tid, ts_run_id = run_id, ts_project_id = project_id,
         ts_user_request = user_request, ts_status = RUN_CREATED, ts_current_phase = ''initialized'',
         ts_current_step_id = [], ts_plan_id = plan_id, ts_action_count = 0, ts_repair_count = 0,
         ts_replan_count = 0, ts_changed_files = [], ts_required_evidence = [],
         ts_collected_evidence = [], ts_pending_approvals = [], ts_last_tool_call = [],
         ts_last_tool_result = [], ts_last_checkpoint = [], ts_created_at = created,
         ts_updated_at = updated\<rparr> (Some ''task_initialized'') None False) (\<lambda>state.
     seq (read (\<lambda>s. load_run s run_id)) (\<lambda>found.
     seq (case found of Some r \<Rightarrow> ret r | None \<Rightarrow> create_run run_id RUN_CREATED None) (\<lambda>run.
     seq (save_run (run\<lparr>rs_task_ids := add_new (rs_task_ids run) (ts_task_id state),
         rs_current_task_id := ts_task_id state, rs_last_checkpoint := ts_last_checkpoint state\<rparr>)) (\<lambda>_.
     ret state)))))))"

definition update_task_status ::
    "string \<Rightarrow> run_status \<Rightarrow> string option \<Rightarrow> string option \<Rightarrow> task_state store_eff" where
  "update_task_status task_id status phase checkpoint_kind =
     seq (require_task task_id) (\<lambda>state.
     let state = state\<lparr>ts_status := status\<rparr>;
         state = (case phase of Some p \<Rightarrow> state\<lparr>ts_current_phase := p\<rparr> | None \<Rightarrow> state)
     in save_task state checkpoint_kind None False)"

definition list_tasks_for_run :: "store \<Rightarrow> string \<Rightarrow> py_error + task_state list" where
  "list_tasks_for_run s run_id =
     rmap (\<lambda>(_, _, _, payload). decode (task_from_dict (peek s)) (''task for run '' @ run_id) payload)
       (sort_key (\<lambda>(_, _, updated_at, _). updated_at) (filter (\<lambda>(_, r, _, _). r = run_id) (st_tasks s)))"

definition corrupt_task_payload_for_test :: "string \<Rightarrow> json_text \<Rightarrow> unit store_eff" where
  "corrupt_task_payload_for_test task_id raw =
     modify (\<lambda>s. s\<lparr>st_tasks := AList.map_entry task_id (\<lambda>(r, t, _). (r, t, raw)) (st_tasks s)\<rparr>)"

subsection \<open>Steps and repairs\<close>

definition record_step :: "step_state \<Rightarrow> step_state store_eff" where
  "record_step st =
     seq now (\<lambda>t.
     let st = st\<lparr>ss_updated_at := t\<rparr>
     in seq (modify (\<lambda>s. s\<lparr>st_steps := AList.update (ss_task_id st, ss_step_id st)
          (t, dumps (JObj (step_to_dict st))) (st_steps s)\<rparr>)) (\<lambda>_.
     ret st))"

definition load_step :: "store \<Rightarrow> string \<Rightarrow> string \<Rightarrow> py_error + step_state option" where
  "load_step s task_id step_id = (case map_of (st_steps s) (task_id, step_id) of
     None \<Rightarrow> Inr None
   | Some (_, payload) \<Rightarrow>
       rbind (decode (step_from_dict (peek s)) (''step '' @ task_id @ ''/'' @ step_id) payload) (\<lambda>st. Inr (Some st)))"

definition list_steps :: "store \<Rightarrow> string \<Rightarrow> py_error + step_state list" where
  "list_steps s task_id =
     rmap (\<lambda>(_, _, payload). decode (step_from_dict (peek s)) (''step for '' @ task_id) payload)
       (sort_key (\<lambda>((_, step_id), updated_at, _). (updated_at, step_id))
          (filter (\<lambda>((t, _), _, _). t = task_id) (st_steps s)))"

definition record_repair :: "repair_state \<Rightarrow> repair_state store_eff" where
  "record_repair r =
     seq now (\<lambda>t.
     let r = r\<lparr>rp_updated_at := t\<rparr>
     in seq (modify (\<lambda>s. s\<lparr>st_repairs := AList.update (rp_repair_id r) (dumps (JObj (repair_to_dict r))) (st_repairs s)\<rparr>)) (\<lambda>_.
     ret r))"

subsection \<open>Evidence\<close>

definition evidence_signature :: "evidence_record \<Rightarrow> json_text" where
  "evidence_signature e = dumps (JObj [
     (''checkpoint_id'', JStr (er_checkpoint_id e)),
     (''details'', JObj (er_details e)),
     (''evidence_type'', JStr (evidence_type_value (er_evidence_type e))),
     (''exit_code'', int_or_null (er_exit_code e)),
     (''related_command'', JStr (er_related_command e)),
     (''related_files'', strs (sort (er_related_files e))),
     (''source_tool'', JStr (er_source_tool e)),
     (''status'', JStr (evidence_status_value (er_status e))),
     (''step_id'', JStr (er_step_id e)),
     (''task_id'', JStr (er_task_id e))])"

definition evidence_by_signature :: "store \<Rightarrow> json_text \<Rightarrow> json_text option" where
  "evidence_by_signature s sig =
     map_option (\<lambda>(_, _, _, _, _, payload). payload) (find (\<lambda>(_, _, _, _, g, _). g = sig) (st_evidence s))"

text \<open>
  An identifier that is already taken violates the primary key, a taken signature its \<open>UNIQUE\<close>
  constraint.
\<close>

definition insert_evidence :: "evidence_record \<Rightarrow> json_text \<Rightarrow> unit store_eff" where
  "insert_evidence e sig = (\<lambda>s.
     if \<exists>(i, _) \<in> set (st_evidence s). i = er_evidence_id e then (Inl (IntegrityError ''evidence_id''), s)
     else if \<exists>(_, _, _, _, g, _) \<in> set (st_evidence s). g = sig then (Inl (IntegrityError ''signature''), s)
     else (Inr (), s\<lparr>st_evidence := st_evidence s @ [(er_evidence_id e, er_task_id e, er_step_id e,
       er_timestamp e, sig, dumps (JObj (evidence_to_dict e)))]\<rparr>))"

definition record_evidence :: "evidence_record \<Rightarrow> evidence_record store_eff" where
  "record_evidence e =
     seq (if er_evidence_id e = [] then new_id ''evidence'' else ret (er_evidence_id e)) (\<lambda>eid.
     let e = e\<lparr>er_evidence_id := eid, er_related_files := sort (uniq (er_related_files e))\<rparr>;
         sig = evidence_signature e
     in seq (gets (\<lambda>s. evidence_by_signature s sig)) (\<lambda>existing. case existing of
          Some payload \<Rightarrow> read (\<lambda>s. decode (evidence_from_dict (peek s)) ''evidence'' payload)
        | None \<Rightarrow> seq (insert_evidence e sig) (\<lambda>_. ret e)))"

definition list_evidence :: "store \<Rightarrow> string \<Rightarrow> string option \<Rightarrow> py_error + evidence_record list" where
  "list_evidence s task_id step_id =
     rmap (\<lambda>(_, _, _, _, _, payload). decode (evidence_from_dict (peek s)) (''evidence for '' @ task_id) payload)
       (sort_key (\<lambda>(eid, _, _, timestamp, _, _). (timestamp, eid))
          (filter (\<lambda>(_, t, st, _, _, _). t = task_id \<and> (case step_id of None \<Rightarrow> True | Some i \<Rightarrow> st = i))
             (st_evidence s)))"

fun normalize_evidence_from :: "evidence_type list \<Rightarrow> string list \<Rightarrow> py_error + evidence_type list" where
  "normalize_evidence_from acc [] = Inr acc"
| "normalize_evidence_from acc (v # vs) =
     rbind (enum_parse evidence_type_value evidence_types v) (\<lambda>t. normalize_evidence_from (add_new acc t) vs)"

definition normalize_evidence_types :: "string list \<Rightarrow> py_error + evidence_type list" where
  "normalize_evidence_types values = normalize_evidence_from [] values"

text \<open>How the records of one evidence type bear on a requirement.\<close>

datatype evidence_verdict = Missing | Stale | Failing | Verified

definition judge_evidence :: "evidence_record list \<Rightarrow> string \<Rightarrow> evidence_type \<Rightarrow> evidence_verdict" where
  "judge_evidence records not_before t =
     (let candidates = filter (\<lambda>r. er_evidence_type r = t) records;
          fresh = filter (\<lambda>r. not_before = [] \<or> not_before \<le> er_timestamp r) candidates
      in if candidates = [] then Missing
         else if fresh = [] then Stale
         else if \<not> (\<exists>r \<in> set fresh. er_status r = EV_PASSED) then Failing
         else Verified)"

definition gate_ok :: "string \<Rightarrow> string \<Rightarrow> string \<Rightarrow> gate_result" where
  "gate_ok task_id step_id msg = \<lparr>gr_ok = True, gr_task_id = task_id, gr_step_id = step_id,
     gr_missing_evidence = [], gr_stale_evidence = [], gr_failed_evidence = [],
     gr_incomplete_steps = [], gr_message = msg\<rparr>"

definition gate_refused :: "string \<Rightarrow> string \<Rightarrow> string list \<Rightarrow> string \<Rightarrow> gate_result" where
  "gate_refused task_id step_id incomplete msg = \<lparr>gr_ok = False, gr_task_id = task_id, gr_step_id = step_id,
     gr_missing_evidence = [], gr_stale_evidence = [], gr_failed_evidence = [],
     gr_incomplete_steps = incomplete, gr_message = msg\<rparr>"

definition check_required_evidence ::
    "store \<Rightarrow> string \<Rightarrow> string \<Rightarrow> evidence_type list \<Rightarrow> string \<Rightarrow> py_error + gate_result" where
  "check_required_evidence s task_id step_id required not_before =
     (if required = [] then Inr (gate_ok task_id step_id [])
      else rbind (list_evidence s task_id (Some step_id)) (\<lambda>records.
        let judged = (\<lambda>v. map evidence_type_value (filter (\<lambda>t. judge_evidence records not_before t = v) required));
            missing = judged Missing; stale = judged Stale; failed = judged Failing;
            ok = (missing = [] \<and> stale = [] \<and> failed = [])
        in Inr \<lparr>gr_ok = ok, gr_task_id = task_id, gr_step_id = step_id, gr_missing_evidence = missing,
             gr_stale_evidence = stale, gr_failed_evidence = failed, gr_incomplete_steps = [],
             gr_message = (if ok then ''Evidence verified.''
               else ''Required evidence is missing, stale, or failed.'')\<rparr>))"

subsection \<open>Plans\<close>

fun update_first :: "('a \<Rightarrow> bool) \<Rightarrow> ('a \<Rightarrow> 'a) \<Rightarrow> 'a list \<Rightarrow> 'a list" where
  "update_first P f [] = []"
| "update_first P f (x # xs) = (if P x then f x # xs else x # update_first P f xs)"

definition save_execution_plan :: "execution_plan \<Rightarrow> string list option \<Rightarrow> execution_plan store_eff" where
  "save_execution_plan plan valid_tool_names =
     (let errors = validate_execution_plan plan valid_tool_names
      in if errors \<noteq> [] then raise (InvalidStateTransition (join ''; '' errors))
         else seq now (\<lambda>t.
           let plan = plan\<lparr>ep_updated_at := t\<rparr>
           in seq (modify (\<lambda>s. s\<lparr>st_plans := AList.update (ep_plan_id plan)
                (ep_task_id plan, t, dumps (JObj (plan_to_dict plan))) (st_plans s)\<rparr>)) (\<lambda>_.
              seq (require_task (ep_task_id plan)) (\<lambda>state.
              seq (save_task (state\<lparr>ts_plan_id := ep_plan_id plan, ts_current_phase := ''planned''\<rparr>)
                (Some ''plan_contract_saved'') None False) (\<lambda>_.
              ret plan)))))"

definition load_execution_plan :: "store \<Rightarrow> string \<Rightarrow> py_error + execution_plan option" where
  "load_execution_plan s plan_id = (case map_of (st_plans s) plan_id of
     None \<Rightarrow> Inr None
   | Some (_, _, payload) \<Rightarrow>
       rbind (decode (execution_plan_from_dict (peek s)) (''plan '' @ plan_id) payload) (\<lambda>p. Inr (Some p)))"

text \<open>\<open>ORDER BY updated_at DESC LIMIT 1\<close>: the row with the greatest time, the first one of several.\<close>

fun newest :: "('a \<Rightarrow> 'k::linorder) \<Rightarrow> 'a list \<Rightarrow> 'a option" where
  "newest f [] = None"
| "newest f (x # xs) = (case newest f xs of None \<Rightarrow> Some x | Some y \<Rightarrow> if f x < f y then Some y else Some x)"

definition load_task_plan :: "store \<Rightarrow> string \<Rightarrow> py_error + execution_plan option" where
  "load_task_plan s task_id =
     rbind (load_task s task_id True) (\<lambda>found.
     let by_task = (case newest (\<lambda>(_, _, updated_at, _). updated_at)
             (filter (\<lambda>(_, t, _, _). t = task_id) (st_plans s)) of
           None \<Rightarrow> Inr None
         | Some (_, _, _, payload) \<Rightarrow>
             rbind (decode (execution_plan_from_dict (peek s)) (''plan for '' @ task_id) payload) (\<lambda>p. Inr (Some p)))
     in case found of
          Some st \<Rightarrow> if ts_plan_id st \<noteq> [] then load_execution_plan s (ts_plan_id st) else by_task
        | None \<Rightarrow> by_task)"

definition persist_plan :: "execution_plan \<Rightarrow> unit store_eff" where
  "persist_plan plan =
     modify (\<lambda>s. s\<lparr>st_plans := AList.map_entry (ep_plan_id plan)
       (\<lambda>(t, _, _). (t, ep_updated_at plan, dumps (JObj (plan_to_dict plan)))) (st_plans s)\<rparr>)"

definition completed_ids :: "plan_step list \<Rightarrow> string list" where
  "completed_ids steps = map ps_step_id (filter (\<lambda>st. ps_status st = PLAN_COMPLETED) steps)"

definition is_ready :: "plan_step list \<Rightarrow> plan_step \<Rightarrow> bool" where
  "is_ready steps st \<longleftrightarrow> ps_status st = PLAN_PENDING \<and>
     (\<forall>dep \<in> set (ps_dependencies st). dep \<in> set (completed_ids steps))"

text \<open>
  \<open>step.status = ACTIVE\<close> changes the step object inside \<open>plan.steps\<close>: the first ready one of the list.
  A missing step record is created with the status \<open>RUNNING\<close>.
\<close>

definition activate_step :: "string \<Rightarrow> execution_plan \<Rightarrow> plan_step \<Rightarrow> plan_step store_eff" where
  "activate_step task_id plan st =
     seq now (\<lambda>t.
     let st' = st\<lparr>ps_status := PLAN_ACTIVE\<rparr>;
         plan = plan\<lparr>ep_steps := update_first (is_ready (ep_steps plan)) (\<lambda>x. x\<lparr>ps_status := PLAN_ACTIVE\<rparr>) (ep_steps plan),
                     ep_updated_at := t\<rparr>
     in seq (persist_plan plan) (\<lambda>_.
        seq (read (\<lambda>s. load_step s task_id (ps_step_id st'))) (\<lambda>found.
        seq (case found of
               Some _ \<Rightarrow> ret ()
             | None \<Rightarrow> seq now (\<lambda>started. seq now (\<lambda>updated.
                 seq (record_step \<lparr>ss_step_id = ps_step_id st', ss_task_id = ep_task_id plan,
                   ss_run_id = ep_run_id plan, ss_status = STEP_RUNNING, ss_phase = ''executing_plan'',
                   ss_description = ps_title st', ss_tool_name = [], ss_tool_call = [],
                   ss_tool_result = [], ss_required_evidence = ps_required_evidence st',
                   ss_started_at = started, ss_updated_at = updated, ss_completed_at = []\<rparr>) (\<lambda>_. ret ())))) (\<lambda>_.
        seq (require_task task_id) (\<lambda>state.
        seq (save_task (state\<lparr>ts_current_step_id := ps_step_id st', ts_current_phase := ''executing_plan''\<rparr>)
          (Some ''plan_step_activated'') None False) (\<lambda>_.
        ret st'))))))"

definition current_active_step :: "string \<Rightarrow> plan_step option store_eff" where
  "current_active_step task_id =
     seq (read (\<lambda>s. load_task_plan s task_id)) (\<lambda>found. case found of
       None \<Rightarrow> ret None
     | Some plan \<Rightarrow>
         (case find (\<lambda>st. ps_status st = PLAN_ACTIVE) (ep_steps plan) of
            Some st \<Rightarrow> ret (Some st)
          | None \<Rightarrow>
              (case find (is_ready (ep_steps plan)) (ep_steps plan) of
                 None \<Rightarrow> ret None
               | Some st \<Rightarrow> seq (activate_step task_id plan st) (\<lambda>st'. ret (Some st')))))"

definition update_plan_step_status ::
    "string \<Rightarrow> string \<Rightarrow> plan_step_status \<Rightarrow> string \<Rightarrow> execution_plan store_eff" where
  "update_plan_step_status task_id step_id status checkpoint_kind =
     seq (read (\<lambda>s. load_task_plan s task_id)) (\<lambda>found. case found of
       None \<Rightarrow> raise (RuntimeStateError (''Execution plan not found for task: '' @ task_id))
     | Some plan \<Rightarrow>
         (case find (\<lambda>st. ps_step_id st = step_id) (ep_steps plan) of
            None \<Rightarrow> raise (RuntimeStateError (''Plan step not found: '' @ step_id))
          | Some target \<Rightarrow>
              seq (lift_result (validate_plan_step_transition (ps_status target) status)) (\<lambda>_.
              seq now (\<lambda>t.
              let plan = plan\<lparr>ep_steps := update_first (\<lambda>st. ps_step_id st = step_id)
                    (\<lambda>st. st\<lparr>ps_status := status\<rparr>) (ep_steps plan), ep_updated_at := t\<rparr>
              in seq (persist_plan plan) (\<lambda>_.
                 seq (require_task task_id) (\<lambda>state.
                 let state = state\<lparr>ts_current_step_id := step_id\<rparr>;
                     state = (if status = PLAN_COMPLETED then state\<lparr>ts_current_phase := ''step_completed''\<rparr>
                       else if status = PLAN_BLOCKED then state\<lparr>ts_current_phase := ''blocked''\<rparr>
                       else if status = PLAN_ACTIVE then state\<lparr>ts_current_phase := ''executing_plan''\<rparr>
                       else state)
                 in seq (save_task state (Some checkpoint_kind) None False) (\<lambda>_. ret plan)))))))"

subsection \<open>Completion gates\<close>

text \<open>\<open>required_evidence or step.required_evidence\<close>: an absent or empty list falls back.\<close>

definition or_else :: "'a list option \<Rightarrow> 'a list \<Rightarrow> 'a list" where
  "or_else xs ys = (case xs of None \<Rightarrow> ys | Some zs \<Rightarrow> if zs = [] then ys else zs)"

definition request_step_complete :: "string \<Rightarrow> string \<Rightarrow> string list option \<Rightarrow> gate_result store_eff" where
  "request_step_complete task_id step_id required_evidence =
     seq (require_task task_id) (\<lambda>state.
     seq (read (\<lambda>s. load_step s task_id step_id)) (\<lambda>found. case found of
       None \<Rightarrow> ret (gate_refused task_id step_id [] (''Step state not found: '' @ step_id))
     | Some st \<Rightarrow>
         seq (lift_result (normalize_evidence_types (or_else required_evidence (ss_required_evidence st)))) (\<lambda>required.
         seq (read (\<lambda>s. check_required_evidence s task_id step_id required (ss_started_at st))) (\<lambda>gate.
         if \<not> gr_ok gate then ret gate
         else seq now (\<lambda>t.
              seq (record_step (st\<lparr>ss_status := STEP_DONE, ss_completed_at := t\<rparr>)) (\<lambda>_.
              seq (save_task (state\<lparr>ts_current_step_id := step_id, ts_current_phase := ''running''\<rparr>)
                (Some ''step_completed'') None False) (\<lambda>_.
              ret (gate_ok task_id step_id ''Step completion verified.''))))))))"

definition complete_plan_step :: "string \<Rightarrow> string \<Rightarrow> gate_result store_eff" where
  "complete_plan_step task_id step_id =
     seq (read (\<lambda>s. load_task_plan s task_id)) (\<lambda>found. case found of
       None \<Rightarrow> ret (gate_refused task_id step_id [] ''Execution plan not found.'')
     | Some plan \<Rightarrow>
         (case find (\<lambda>st. ps_step_id st = step_id) (ep_steps plan) of
            None \<Rightarrow> ret (gate_refused task_id step_id [] ''Plan step not found.'')
          | Some st \<Rightarrow>
              seq (request_step_complete task_id step_id (Some (ps_required_evidence st))) (\<lambda>gate.
              if \<not> gr_ok gate then
                seq (update_plan_step_status task_id step_id PLAN_VERIFYING ''plan_step_verifying'') (\<lambda>_. ret gate)
              else
                seq (update_plan_step_status task_id step_id PLAN_COMPLETED ''plan_step_completed'') (\<lambda>_. ret gate))))"

definition incomplete_plan_steps :: "execution_plan option \<Rightarrow> string list" where
  "incomplete_plan_steps plan = (case plan of None \<Rightarrow> []
     | Some p \<Rightarrow> map ps_step_id (filter (\<lambda>st. ps_status st \<noteq> PLAN_COMPLETED) (ep_steps p)))"

definition incomplete_steps :: "step_state list \<Rightarrow> string list" where
  "incomplete_steps steps =
     map ss_step_id (filter (\<lambda>st. ss_status st \<noteq> STEP_DONE \<and> ss_status st \<noteq> STEP_SKIPPED) steps)"

definition request_task_complete :: "string \<Rightarrow> string list option \<Rightarrow> gate_result store_eff" where
  "request_task_complete task_id required_evidence =
     seq (require_task task_id) (\<lambda>state.
     seq (read (\<lambda>s. load_task_plan s task_id)) (\<lambda>plan.
     if incomplete_plan_steps plan \<noteq> [] then
       ret (gate_refused task_id [] (incomplete_plan_steps plan) ''Execution plan has incomplete steps.'')
     else
     seq (read (\<lambda>s. list_steps s task_id)) (\<lambda>steps.
     if incomplete_steps steps \<noteq> [] then
       ret (gate_refused task_id [] (incomplete_steps steps) ''Task has incomplete steps.'')
     else
     seq (lift_result (normalize_evidence_types (or_else required_evidence (ts_required_evidence state)))) (\<lambda>required.
     seq (read (\<lambda>s. check_required_evidence s task_id [] required [])) (\<lambda>gate.
     if \<not> gr_ok gate then ret gate
     else seq (save_task (state\<lparr>ts_status := RUN_COMPLETED, ts_current_phase := ''completed''\<rparr>)
            (Some ''before_final_completion'') None True) (\<lambda>_.
          ret (gate_ok task_id [] ''Task completion verified.'')))))))"

subsection \<open>Events of a task\<close>

definition record_plan_created :: "string \<Rightarrow> string \<Rightarrow> task_state store_eff" where
  "record_plan_created task_id plan_id =
     seq (require_task task_id) (\<lambda>state.
     save_task (state\<lparr>ts_status := RUN_RUNNING, ts_current_phase := ''planned'',
       ts_plan_id := (if plan_id = [] then ts_plan_id state else plan_id)\<rparr>) (Some ''plan_created'') None False)"

definition record_approval_requested :: "string \<Rightarrow> dict \<Rightarrow> task_state store_eff" where
  "record_approval_requested task_id request =
     seq (require_task task_id) (\<lambda>state.
     save_task (state\<lparr>ts_status := RUN_WAITING_FOR_APPROVAL, ts_current_phase := ''approval'',
       ts_pending_approvals := ts_pending_approvals state @ [request]\<rparr>) (Some ''approval_requested'') None False)"

definition record_approval_resolved :: "string \<Rightarrow> bool \<Rightarrow> task_state store_eff" where
  "record_approval_resolved task_id approved =
     seq (require_task task_id) (\<lambda>state.
     let state = state\<lparr>ts_status := RUN_RUNNING, ts_current_phase := ''running''\<rparr>
     in seq (if ts_pending_approvals state = [] then ret state
             else seq now (\<lambda>t.
               ret (state\<lparr>ts_pending_approvals := butlast (ts_pending_approvals state) @
                 [dict_set ''resolved_at'' (JStr t) (dict_set ''approved'' (JBool approved)
                    (last (ts_pending_approvals state)))]\<rparr>))) (\<lambda>state.
        save_task state (Some ''approval_resolved'') None False))"

definition record_replan :: "string \<Rightarrow> string \<Rightarrow> task_state store_eff" where
  "record_replan task_id plan_id =
     seq (require_task task_id) (\<lambda>state.
     save_task (state\<lparr>ts_replan_count := ts_replan_count state + 1,
       ts_plan_id := (if plan_id = [] then ts_plan_id state else plan_id),
       ts_current_phase := ''replanned''\<rparr>) (Some ''replanned'') None False)"

definition record_repair_attempt :: "string \<Rightarrow> string list \<Rightarrow> string \<Rightarrow> task_state store_eff" where
  "record_repair_attempt task_id target_files last_error =
     seq (require_task task_id) (\<lambda>state.
     let state = state\<lparr>ts_repair_count := ts_repair_count state + 1\<rparr>
     in seq (new_id ''repair'') (\<lambda>rid. seq now (\<lambda>created. seq now (\<lambda>updated.
        seq (record_repair \<lparr>rp_repair_id = rid, rp_task_id = ts_task_id state, rp_run_id = ts_run_id state,
          rp_status = RUN_RUNNING, rp_attempt = ts_repair_count state, rp_target_files = target_files,
          rp_last_error = last_error, rp_created_at = created, rp_updated_at = updated\<rparr>) (\<lambda>_.
        save_task state (Some ''repair_attempted'') None False)))))"

subsection \<open>Evidence from a tool result\<close>

definition command_evidence_type :: "string \<Rightarrow> evidence_type option" where
  "command_evidence_type command =
     (let lowered = lower command
      in if contains ''pytest'' lowered \<or> contains '' test'' ('' '' @ lowered) \<or> contains ''npm test'' lowered
           then Some TEST_PASSED
         else if contains ''ruff'' lowered \<or> contains ''eslint'' lowered \<or> contains '' lint'' ('' '' @ lowered)
           then Some LINT_PASSED
         else if contains ''mypy'' lowered \<or> contains ''tsc'' lowered \<or> contains ''typecheck'' lowered
           then Some TYPECHECK_PASSED
         else if contains '' build'' ('' '' @ lowered) \<or> contains ''npm run build'' lowered
           then Some BUILD_PASSED
         else if contains ''migrate'' lowered \<or> contains ''migration'' lowered then Some MIGRATION_PASSED
         else if contains ''health'' lowered \<or> contains ''curl'' lowered then Some SERVICE_HEALTHY
         else None)"

text \<open>\<open>str(a.get(k) or b.get(l) or "")\<close>.\<close>

definition text_or :: "(json \<Rightarrow> string) \<Rightarrow> dict \<Rightarrow> string \<Rightarrow> dict \<Rightarrow> string \<Rightarrow> string" where
  "text_or repr a k b l = (if get_truthy a k then text_or_empty repr a k else text_or_empty repr b l)"

text \<open>\<open>str(d.get(k, ""))\<close>.\<close>

definition text_default :: "(json \<Rightarrow> string) \<Rightarrow> dict \<Rightarrow> string \<Rightarrow> string" where
  "text_default repr d k = (case dict_get d k of None \<Rightarrow> [] | Some j \<Rightarrow> text_of repr j)"

definition mutation_tools :: "string list" where
  "mutation_tools = [''write_file'', ''edit_file'', ''append_file'', ''file.patch'', ''run_command'', ''test.run'']"

definition evidence_entry ::
    "task_state \<Rightarrow> string \<Rightarrow> string \<Rightarrow> string \<Rightarrow> evidence_type \<Rightarrow> evidence_status \<Rightarrow> string \<Rightarrow> evidence_record store_eff" where
  "evidence_entry state step_id tool message t status command =
     seq (new_id ''evidence'') (\<lambda>eid. seq now (\<lambda>stamp.
     ret \<lparr>er_evidence_id = eid, er_task_id = ts_task_id state, er_step_id = step_id,
       er_evidence_type = t, er_source_tool = tool, er_timestamp = stamp, er_status = status,
       er_details = [(''message'', JStr message)], er_related_files = [], er_related_command = command,
       er_exit_code = None, er_checkpoint_id = ts_last_checkpoint state\<rparr>))"

definition evidence_from_tool_result ::
    "task_state \<Rightarrow> string \<Rightarrow> dict \<Rightarrow> dict \<Rightarrow> string list \<Rightarrow> evidence_record list store_eff" where
  "evidence_from_tool_result state step_id tool_call tool_result changed_files =
     seq (gets st_repr) (\<lambda>repr.
     let name = text_or repr tool_call ''name'' tool_result ''tool'';
         result_data = dict_or_empty tool_result ''data'';
         ok = get_truthy tool_result ''ok'';
         message = text_default repr tool_result ''message''
     in seq (if changed_files \<noteq> [] \<and> name \<in> set mutation_tools then
               seq (evidence_entry state step_id name message FILE_CHANGED
                 (if ok then EV_PASSED else EV_FAILED) []) (\<lambda>e.
               ret [e\<lparr>er_related_files := changed_files\<rparr>])
             else ret []) (\<lambda>records.
        if name \<notin> set [''run_command'', ''test.run''] then ret records
        else
          let arguments = dict_or_empty tool_call ''arguments'';
              command = text_or repr arguments ''command'' result_data ''command'';
              exit_code = (case int_of_json (dict_get result_data ''exit_code'') of
                Some i \<Rightarrow> i | None \<Rightarrow> if ok then 0 else 1)
          in case command_evidence_type command of
               None \<Rightarrow> ret records
             | Some t \<Rightarrow>
                 seq (evidence_entry state step_id name message t
                   (if exit_code = 0 \<and> ok then EV_PASSED else EV_FAILED) command) (\<lambda>e.
                 ret (records @ [e\<lparr>er_exit_code := Some exit_code\<rparr>]))))"

definition record_successful_step ::
    "string \<Rightarrow> string \<Rightarrow> dict \<Rightarrow> dict \<Rightarrow> string list \<Rightarrow> string list \<Rightarrow> task_state store_eff" where
  "record_successful_step task_id step_id tool_call tool_result changed_files required_evidence =
     seq (require_task task_id) (\<lambda>state.
     seq (gets st_repr) (\<lambda>repr.
     let evidence = text_or repr tool_result ''message'' tool_result ''tool'';
         state = state\<lparr>ts_status := RUN_RUNNING, ts_current_phase := ''running'', ts_current_step_id := step_id,
           ts_action_count := ts_action_count state + 1, ts_last_tool_call := tool_call,
           ts_last_tool_result := tool_result,
           ts_changed_files := fold (\<lambda>p acc. if p = [] then acc else add_new acc p) changed_files (ts_changed_files state),
           ts_collected_evidence := (if evidence = [] then ts_collected_evidence state
             else add_new (ts_collected_evidence state) evidence)\<rparr>
     in seq now (\<lambda>started. seq now (\<lambda>updated.
        seq (record_step \<lparr>ss_step_id = step_id, ss_task_id = ts_task_id state, ss_run_id = ts_run_id state,
          ss_status = STEP_RUNNING, ss_phase = ts_current_phase state,
          ss_description = text_or_empty repr tool_call ''name'', ss_tool_name = text_or_empty repr tool_call ''name'',
          ss_tool_call = tool_call, ss_tool_result = tool_result, ss_required_evidence = required_evidence,
          ss_started_at = started, ss_updated_at = updated, ss_completed_at = []\<rparr>) (\<lambda>_.
        seq (evidence_from_tool_result state step_id tool_call tool_result changed_files) (\<lambda>records.
        seq (for_each (\<lambda>e. seq (record_evidence e) (\<lambda>_. ret ())) records) (\<lambda>_.
        seq (save_task state (Some ''step_succeeded'') None False) (\<lambda>_.
        seq (request_step_complete task_id step_id (Some required_evidence)) (\<lambda>_.
        require_task task_id)))))))))"

subsection \<open>Failures\<close>

definition load_failure :: "store \<Rightarrow> string \<Rightarrow> string \<Rightarrow> py_error + failure_record option" where
  "load_failure s task_id sig = (case map_of (st_failures s) (task_id, sig) of
     None \<Rightarrow> Inr None
   | Some (_, _, payload) \<Rightarrow>
       rbind (decode (failure_from_dict (peek s)) (''failure '' @ sig) payload) (\<lambda>f. Inr (Some f)))"

definition record_failure :: "failure_record \<Rightarrow> failure_record store_eff" where
  "record_failure failure =
     seq (gets st_digest) (\<lambda>digest.
     let failure = (if fr_error_signature failure = [] then failure\<lparr>fr_error_signature :=
           make_error_signature digest (fr_failure_type failure) (fr_action failure) (fr_evidence failure) JNull\<rparr>
         else failure)
     in seq (read (\<lambda>s. load_failure s (fr_task_id failure) (fr_error_signature failure))) (\<lambda>existing.
        let failure = (case existing of None \<Rightarrow> failure
              | Some ex \<Rightarrow> failure\<lparr>fr_first_seen := fr_first_seen ex, fr_retry_count := fr_retry_count ex + 1\<rparr>)
        in seq (modify (\<lambda>s. s\<lparr>st_failures := AList.update (fr_task_id failure, fr_error_signature failure)
               (failure_type_value (fr_failure_type failure), fr_last_seen failure,
                dumps (JObj (failure_to_dict failure))) (st_failures s)\<rparr>)) (\<lambda>_.
           ret failure)))"

definition create_failure ::
    "string \<Rightarrow> string \<Rightarrow> string \<Rightarrow> string \<Rightarrow> string list \<Rightarrow> json \<Rightarrow> failure_record store_eff" where
  "create_failure task_id failure_type step_id action evidence detail =
     seq (gets st_digest) (\<lambda>digest.
     let normalized = normalize_failure_type failure_type
     in seq now (\<lambda>first. seq now (\<lambda>last.
        record_failure \<lparr>fr_failure_type = normalized, fr_task_id = task_id, fr_step_id = step_id,
          fr_action = action,
          fr_error_signature = make_error_signature digest normalized action evidence detail,
          fr_evidence = evidence, fr_retry_count = 0, fr_first_seen = first, fr_last_seen = last\<rparr>)))"

definition list_failures :: "store \<Rightarrow> string \<Rightarrow> string option \<Rightarrow> py_error + failure_record list" where
  "list_failures s task_id failure_type =
     rmap (\<lambda>(_, _, _, payload). decode (failure_from_dict (peek s)) (''failure for '' @ task_id) payload)
       (rev (sort_key (\<lambda>(_, _, last_seen, _). last_seen)
         (rev (filter (\<lambda>((t, _), ft, _, _). t = task_id \<and>
            (case failure_type of None \<Rightarrow> True
             | Some k \<Rightarrow> ft = failure_type_value (normalize_failure_type k))) (st_failures s)))))"

subsection \<open>The failure tracker\<close>

text \<open>
  The class \<open>FailureTracker\<close> of \<open>failures.py\<close> over a runtime store. The current step is what its step
  getter returned, empty when there is none or it raised. A tool result is given by its \<open>ok\<close> flag,
  its message and its data.
\<close>

definition tracker_record ::
    "string \<Rightarrow> string \<Rightarrow> failure_type \<Rightarrow> string \<Rightarrow> string list \<Rightarrow> json \<Rightarrow> string \<Rightarrow> failure_record store_eff" where
  "tracker_record task_id current_step ft action evidence detail step_id =
     create_failure task_id (failure_type_value ft) (if step_id = [] then current_step else step_id)
       action evidence detail"

definition tracker_decision ::
    "string \<Rightarrow> string \<Rightarrow> failure_type \<Rightarrow> string \<Rightarrow> string list \<Rightarrow> json \<Rightarrow> string \<Rightarrow>
     (failure_record \<times> recovery_policy) store_eff" where
  "tracker_decision task_id current_step ft action evidence detail step_id =
     seq (tracker_record task_id current_step ft action evidence detail step_id) (\<lambda>f.
     ret (f, policy_for f))"

definition record_tool_result ::
    "string \<Rightarrow> string \<Rightarrow> string \<Rightarrow> dict \<Rightarrow> bool \<Rightarrow> string \<Rightarrow> dict option \<Rightarrow> failure_record option store_eff" where
  "record_tool_result task_id current_step tool arguments ok message data =
     seq (gets st_repr) (\<lambda>repr.
     case classify_tool_result repr ok message (case data of None \<Rightarrow> [] | Some d \<Rightarrow> d) of
       None \<Rightarrow> ret None
     | Some ft \<Rightarrow>
         seq (tracker_record task_id current_step ft tool [message]
           (JObj [(''arguments'', JObj arguments),
                  (''data'', case data of None \<Rightarrow> JNull | Some d \<Rightarrow> JObj d),
                  (''tool'', JStr tool)]) []) (\<lambda>f.
         ret (Some f)))"

end
