(* ===== verification/RuntimeSafety.thy ===== *)
theory RuntimeSafety
  imports RuntimeStore
begin

text \<open>
  What every method of the runtime store keeps. A relation between the store before and after that
  the primitive writes respect is respected by every method; the locale proves this once, and it is
  interpreted for four relations: task statuses move along the transition table, completion is not
  introduced outside the completion gate, evidence is only appended and stays unique, checkpoints
  are only appended.
\<close>

subsection \<open>Relations the primitive writes respect\<close>

locale store_evolution = evolution R for R :: "store \<Rightarrow> store \<Rightarrow> bool" +
  assumes R_ticks: "R s (s\<lparr>st_ticks := n\<rparr>)"
    and R_drawn: "R s (s\<lparr>st_drawn := n\<rparr>)"
    and R_runs: "R s (s\<lparr>st_runs := runs\<rparr>)"
    and R_steps: "R s (s\<lparr>st_steps := steps\<rparr>)"
    and R_repairs: "R s (s\<lparr>st_repairs := repairs\<rparr>)"
    and R_plans: "R s (s\<lparr>st_plans := plans\<rparr>)"
    and R_failures: "R s (s\<lparr>st_failures := failures\<rparr>)"
    and R_insert: "evolves R (insert_evidence e (evidence_signature e)) s"
    and R_save: "evolves R (save_task st kind expected False) s"
begin

lemma ev_now [evolve_intros]: "evolves R now s"
  by (simp add: evolves_def now_def R_ticks)

lemma ev_new_id [evolve_intros]: "evolves R (new_id k) s"
  by (simp add: evolves_def new_id_def R_drawn)

lemma ev_if [evolve_intros]: "evolves R m s \<Longrightarrow> evolves R n s \<Longrightarrow> evolves R (if b then m else n) s"
  by simp

lemma ev_option [evolve_intros]:
  "evolves R m s \<Longrightarrow> (\<And>x. evolves R (f x) s) \<Longrightarrow> evolves R (case v of None \<Rightarrow> m | Some x \<Rightarrow> f x) s"
  by (cases v) simp_all

lemmas ev_basic = evolves_ret evolves_raise evolves_gets evolves_lift evolves_read ev_now ev_new_id
  ev_if ev_option evolves_seq_all

lemma ev_runs: "evolves R (modify (\<lambda>s. s\<lparr>st_runs := f s\<rparr>)) s"
  by (simp add: evolves_def R_runs)

lemma ev_steps: "evolves R (modify (\<lambda>s. s\<lparr>st_steps := f s\<rparr>)) s"
  by (simp add: evolves_def R_steps)

lemma ev_repairs: "evolves R (modify (\<lambda>s. s\<lparr>st_repairs := f s\<rparr>)) s"
  by (simp add: evolves_def R_repairs)

lemma ev_plans: "evolves R (modify (\<lambda>s. s\<lparr>st_plans := f s\<rparr>)) s"
  by (simp add: evolves_def R_plans)

lemma ev_failures: "evolves R (modify (\<lambda>s. s\<lparr>st_failures := f s\<rparr>)) s"
  by (simp add: evolves_def R_failures)

lemma ev_require_task: "evolves R (require_task t) s"
  unfolding require_task_def by (rule evolves_read)

lemma ev_save_run: "evolves R (save_run r) s"
  unfolding save_run_def Let_def by (intro ev_basic ev_runs)

lemma ev_create_run: "evolves R (create_run i st d) s"
  unfolding create_run_def by (intro ev_basic ev_save_run)

lemma ev_create_task: "evolves R (create_task r u p t i) s"
  unfolding create_task_def by (intro ev_basic R_save ev_create_run ev_save_run)

lemma ev_update_task_status: "evolves R (update_task_status t st p k) s"
  unfolding update_task_status_def Let_def by (intro ev_basic ev_require_task R_save)

lemma ev_record_step: "evolves R (record_step st) s"
  unfolding record_step_def Let_def by (intro ev_basic ev_steps)

lemma ev_record_repair: "evolves R (record_repair r) s"
  unfolding record_repair_def Let_def by (intro ev_basic ev_repairs)

lemma ev_record_evidence: "evolves R (record_evidence e) s"
  unfolding record_evidence_def Let_def by (intro ev_basic R_insert)

lemma ev_save_execution_plan: "evolves R (save_execution_plan p tools) s"
  unfolding save_execution_plan_def Let_def by (intro ev_basic ev_plans ev_require_task R_save)

lemma ev_persist_plan: "evolves R (persist_plan p) s"
  unfolding persist_plan_def by (rule ev_plans)

lemma ev_activate_step: "evolves R (activate_step t p st) s"
  unfolding activate_step_def Let_def
  by (intro ev_basic ev_persist_plan ev_record_step ev_require_task R_save)

lemma ev_current_active_step: "evolves R (current_active_step t) s"
  unfolding current_active_step_def by (intro ev_basic ev_activate_step)

lemma ev_update_plan_step_status: "evolves R (update_plan_step_status t i st k) s"
  unfolding update_plan_step_status_def Let_def
  by (intro ev_basic ev_persist_plan ev_require_task R_save)

lemma ev_request_step_complete: "evolves R (request_step_complete t i req) s"
  unfolding request_step_complete_def by (intro ev_basic ev_require_task ev_record_step R_save)

lemma ev_complete_plan_step: "evolves R (complete_plan_step t i) s"
  unfolding complete_plan_step_def
  by (intro ev_basic ev_request_step_complete ev_update_plan_step_status)

lemma ev_record_plan_created: "evolves R (record_plan_created t i) s"
  unfolding record_plan_created_def by (intro ev_basic ev_require_task R_save)

lemma ev_record_approval_requested: "evolves R (record_approval_requested t q) s"
  unfolding record_approval_requested_def by (intro ev_basic ev_require_task R_save)

lemma ev_record_approval_resolved: "evolves R (record_approval_resolved t b) s"
  unfolding record_approval_resolved_def Let_def by (intro ev_basic ev_require_task R_save)

lemma ev_record_replan: "evolves R (record_replan t i) s"
  unfolding record_replan_def by (intro ev_basic ev_require_task R_save)

lemma ev_record_repair_attempt: "evolves R (record_repair_attempt t fs e) s"
  unfolding record_repair_attempt_def Let_def by (intro ev_basic ev_require_task ev_record_repair R_save)

lemma ev_evidence_entry: "evolves R (evidence_entry st i n m ty es c) s"
  unfolding evidence_entry_def by (intro ev_basic)

lemma ev_evidence_from_tool_result: "evolves R (evidence_from_tool_result st i c r fs) s"
  unfolding evidence_from_tool_result_def Let_def by (intro ev_basic ev_evidence_entry)

lemma ev_record_successful_step: "evolves R (record_successful_step t i c r fs req) s"
  unfolding record_successful_step_def Let_def
  by (intro ev_basic evolves_for_each ev_require_task ev_record_step ev_evidence_from_tool_result
      ev_record_evidence R_save ev_request_step_complete)

lemma ev_record_failure: "evolves R (record_failure f) s"
  unfolding record_failure_def Let_def by (intro ev_basic ev_failures)

lemma ev_create_failure: "evolves R (create_failure t ft i a es d) s"
  unfolding create_failure_def Let_def by (intro ev_basic ev_record_failure)

end

locale completing_evolution = store_evolution +
  assumes R_complete: "evolves R (save_task st kind expected True) s"
begin

lemma ev_request_task_complete: "evolves R (request_task_complete t req) s"
  unfolding request_task_complete_def by (intro ev_basic ev_require_task R_complete)

end

subsection \<open>The outcome of \<open>save_task\<close>\<close>

lemma stamp_task_keeps [simp]:
  "ts_task_id (stamp_task ex k t st) = ts_task_id st"
  "ts_run_id (stamp_task ex k t st) = ts_run_id st"
  "ts_status (stamp_task ex k t st) = ts_status st"
  "ts_plan_id (stamp_task ex k t st) = ts_plan_id st"
  "ts_current_phase (stamp_task ex k t st) = ts_current_phase st"
  "ts_required_evidence (stamp_task ex k t st) = ts_required_evidence st"
  "ts_updated_at (stamp_task ex k t st) = t"
  by (auto simp: stamp_task_def Let_def split: option.splits)

definition saved_store :: "task_state \<Rightarrow> string option \<Rightarrow> store \<Rightarrow> store" where
  "saved_store st kind s = s\<lparr>st_ticks := Suc (st_ticks s),
     st_tasks := AList.update (ts_task_id st) (ts_run_id st, ts_updated_at st, dumps (JObj (task_to_dict st))) (st_tasks s),
     st_checkpoints := add_checkpoint kind (ts_task_id st) (dumps (JObj (task_to_dict st))) (st_checkpoints s)\<rparr>"

lemma save_task_eq:
  "save_task st kind expected allow s = (case save_task_guard st expected allow s of
     Inl e \<Rightarrow> (Inl e, s)
   | Inr ex \<Rightarrow> (Inr (stamp_task ex kind (peek s) st), saved_store (stamp_task ex kind (peek s) st) kind s))"
  by (simp add: save_task_def seq_read now_def Let_def saved_store_def peek_def seq_def split: sum.splits)

lemma saved_store_simps [simp]:
  "st_evidence (saved_store st kind s) = st_evidence s"
  "st_steps (saved_store st kind s) = st_steps s"
  "st_plans (saved_store st kind s) = st_plans s"
  "st_failures (saved_store st kind s) = st_failures s"
  "st_clock (saved_store st kind s) = st_clock s"
  "st_checkpoints (saved_store st kind s) =
     add_checkpoint kind (ts_task_id st) (dumps (JObj (task_to_dict st))) (st_checkpoints s)"
  "map_of (st_tasks (saved_store st kind s)) = (map_of (st_tasks s))(ts_task_id st \<mapsto>
     (ts_run_id st, ts_updated_at st, dumps (JObj (task_to_dict st))))"
  by (simp_all add: saved_store_def update_conv')

lemma save_task_guard_Inr:
  assumes "save_task_guard st expected allow s = Inr ex"
  shows "ts_status st = RUN_COMPLETED \<Longrightarrow> allow"
    and "load_task s (ts_task_id st) False = Inr ex"
    and "ex = Some e \<Longrightarrow> may_follow allowed_run (ts_status e) (ts_status st)"
  using assms
  by (auto simp: save_task_guard_def rbind_def split: sum.splits option.splits if_splits)

lemma save_taskE:
  assumes "save_task st kind expected allow s = (r, t)"
  obtains e where "r = Inl e" and "t = s"
  | ex where "save_task_guard st expected allow s = Inr ex"
      and "r = Inr (stamp_task ex kind (peek s) st)"
      and "t = saved_store (stamp_task ex kind (peek s) st) kind s"
  using assms by (auto simp: save_task_eq split: sum.splits)

subsection \<open>The status a task row holds\<close>

text \<open>The clock a reader is given only fills in missing times: it changes nothing else.\<close>

definition same_but_times :: "task_state \<Rightarrow> task_state \<Rightarrow> bool" where
  "same_but_times a b \<longleftrightarrow> ts_status a = ts_status b \<and> ts_task_id a = ts_task_id b"

lemma rel_rbind:
  "rel_sum (=) A r r' \<Longrightarrow> (\<And>x y. A x y \<Longrightarrow> rel_sum (=) B (f x) (g y)) \<Longrightarrow>
     rel_sum (=) B (rbind r f) (rbind r' g)"
  by (cases r; cases r') (auto simp: rbind_def)

lemma rel_sum_eq_refl: "rel_sum (=) (=) r r"
  by (cases r) auto

lemma rel_str_opt: "rel_sum (=) (\<lambda>_ _. True) (str_opt d k t) (str_opt d k t')"
  by (auto simp: str_opt_def split: option.splits json.splits)

lemma task_from_dict_times:
  "rel_sum (=) same_but_times (task_from_dict t d) (task_from_dict t' d)"
  unfolding task_from_dict_def
  by (intro rel_rbind[OF rel_sum_eq_refl] rel_rbind[OF rel_str_opt])
    (simp add: same_but_times_def)

definition payload_status :: "json_text \<Rightarrow> run_status option" where
  "payload_status payload = (case decode (task_from_dict []) [] payload of Inr st \<Rightarrow> Some (ts_status st) | Inl _ \<Rightarrow> None)"

definition task_row_status :: "store \<Rightarrow> string \<Rightarrow> run_status option" where
  "task_row_status s task_id = (case map_of (st_tasks s) task_id of None \<Rightarrow> None
     | Some (_, _, payload) \<Rightarrow> payload_status payload)"

lemma payload_status_dumps [simp]: "payload_status (dumps (JObj (task_to_dict st))) = Some (ts_status st)"
  by (simp add: payload_status_def)

lemma payload_status_decode:
  assumes "decode (task_from_dict t) l payload = Inr st"
  shows "payload_status payload = Some (ts_status st)"
proof -
  from assms obtain d where d: "loads_object payload l = Inr d" and st: "task_from_dict t d = Inr st"
    by (auto simp: decode_def rbind_def split: sum.splits)
  from d have p: "payload = dumps (JObj d)"
    by (auto simp: loads_object_def dumps_def split: json_text.splits json.splits)
  from task_from_dict_times[of t d "[]"] st obtain st' where "task_from_dict [] d = Inr st'" "ts_status st' = ts_status st"
    by (cases "task_from_dict [] d") (auto simp: same_but_times_def)
  then show ?thesis by (simp add: payload_status_def p)
qed

lemma load_task_status:
  assumes "load_task s tid False = Inr found"
  shows "case found of None \<Rightarrow> map_of (st_tasks s) tid = None
    | Some st \<Rightarrow> task_row_status s tid = Some (ts_status st)"
proof (cases "map_of (st_tasks s) tid")
  case None
  with assms show ?thesis by (auto simp: load_task_def)
next
  case (Some row)
  obtain r u payload where row: "row = (r, u, payload)" by (cases row)
  show ?thesis
  proof (cases "decode (task_from_dict (peek s)) (''task '' @ tid) payload")
    case (Inl e)
    with assms Some row show ?thesis by (cases e) (simp_all add: load_task_def)
  next
    case (Inr st)
    with assms Some row payload_status_decode[OF Inr] show ?thesis
      by (auto simp: load_task_def task_row_status_def)
  qed
qed

lemma task_row_status_saved [simp]:
  "task_row_status (saved_store st kind s) tid =
     (if tid = ts_task_id st then Some (ts_status st) else task_row_status s tid)"
  by (simp add: task_row_status_def)

lemma task_row_status_cong: "st_tasks t = st_tasks s \<Longrightarrow> task_row_status t = task_row_status s"
  by (simp add: task_row_status_def fun_eq_iff)

lemma insert_evidence_tasks:
  "st_tasks (snd (insert_evidence e sig s)) = st_tasks s"
  "st_checkpoints (snd (insert_evidence e sig s)) = st_checkpoints s"
  by (simp_all add: insert_evidence_def)

subsection \<open>Statuses move along the table\<close>

definition status_follows :: "store \<Rightarrow> store \<Rightarrow> bool" where
  "status_follows s t \<longleftrightarrow> (\<forall>tid x. task_row_status s tid = Some x \<longrightarrow>
     (\<exists>y. task_row_status t tid = Some y \<and> (may_follow allowed_run)\<^sup>*\<^sup>* x y))"

lemma status_follows_same:
  assumes "st_tasks t = st_tasks s"
  shows "status_follows s t"
  unfolding status_follows_def task_row_status_cong[OF assms] by blast

lemma status_follows_save: "evolves status_follows (save_task st kind expected allow) s"
proof (unfold evolves_def, cases "save_task st kind expected allow s" rule: prod.exhaust)
  case (Pair r t)
  then show "status_follows s (snd (save_task st kind expected allow s))"
  proof (cases rule: save_taskE)
    case (1 e)
    with Pair show ?thesis by (simp add: status_follows_same)
  next
    case (2 ex)
    have "\<exists>y. task_row_status t tid = Some y \<and> (may_follow allowed_run)\<^sup>*\<^sup>* x y"
      if "task_row_status s tid = Some x" for tid x
    proof (cases "tid = ts_task_id st")
      case True
      with that load_task_status[OF save_task_guard_Inr(2)[OF 2(1)]]
      obtain e where "ex = Some e" and "x = ts_status e"
        by (auto simp: task_row_status_def split: option.splits)
      with save_task_guard_Inr(3)[OF 2(1)] True show ?thesis by (auto simp: 2)
    next
      case False
      with that show ?thesis by (auto simp: 2)
    qed
    with Pair show ?thesis by (auto simp: status_follows_def)
  qed
qed

interpretation follows: completing_evolution status_follows
proof unfold_locales
  fix s t u :: store
  show "status_follows s s" by (simp add: status_follows_same)
  show "status_follows s t \<Longrightarrow> status_follows t u \<Longrightarrow> status_follows s u"
    unfolding status_follows_def by (meson rtranclp_trans)
qed (auto simp: status_follows_same status_follows_save[unfolded evolves_def] evolves_def insert_evidence_tasks)

lemma status_follows_terminal:
  "status_follows s t \<Longrightarrow> task_row_status s tid = Some x \<Longrightarrow> terminal_run x \<Longrightarrow> task_row_status t tid = Some x"
  unfolding status_follows_def using run_life.terminal_stays_path by blast

subsection \<open>Completion has one door\<close>

definition no_new_completion :: "store \<Rightarrow> store \<Rightarrow> bool" where
  "no_new_completion s t \<longleftrightarrow> (\<forall>tid. task_row_status t tid = Some RUN_COMPLETED \<longrightarrow>
     task_row_status s tid = Some RUN_COMPLETED)"

lemma no_new_completion_save: "evolves no_new_completion (save_task st kind expected False) s"
  unfolding evolves_def no_new_completion_def
  by (auto simp: save_task_eq dest: save_task_guard_Inr(1) split: sum.splits if_splits)

interpretation uncompleted: store_evolution no_new_completion
  by unfold_locales (auto simp: no_new_completion_def task_row_status_def insert_evidence_tasks evolves_def
      no_new_completion_save[unfolded evolves_def no_new_completion_def task_row_status_def])

subsection \<open>Evidence is append-only and unique\<close>

definition evidence_keys_unique :: "store \<Rightarrow> bool" where
  "evidence_keys_unique s \<longleftrightarrow> distinct (map fst (st_evidence s)) \<and>
     distinct (map (\<lambda>(_, _, _, _, sig, _). sig) (st_evidence s))"

definition evidence_grows :: "store \<Rightarrow> store \<Rightarrow> bool" where
  "evidence_grows s t \<longleftrightarrow> prefix (st_evidence s) (st_evidence t) \<and>
     (evidence_keys_unique s \<longrightarrow> evidence_keys_unique t)"

lemma evidence_keys_unique_cong: "st_evidence t = st_evidence s \<Longrightarrow> evidence_keys_unique t = evidence_keys_unique s"
  by (simp add: evidence_keys_unique_def)

lemma evidence_grows_same: "st_evidence t = st_evidence s \<Longrightarrow> evidence_grows s t"
  by (simp add: evidence_grows_def evidence_keys_unique_def)

lemma evidence_grows_insert: "evolves evidence_grows (insert_evidence e sig) s"
proof -
  let ?row = "(er_evidence_id e, er_task_id e, er_step_id e, er_timestamp e, sig, dumps (JObj (evidence_to_dict e)))"
  show ?thesis
  proof (cases "(\<exists>(i, _) \<in> set (st_evidence s). i = er_evidence_id e) \<or>
      (\<exists>(_, _, _, _, g, _) \<in> set (st_evidence s). g = sig)")
    case True
    then show ?thesis by (auto simp: evolves_def insert_evidence_def evidence_grows_same)
  next
    case False
    then have "er_evidence_id e \<notin> set (map fst (st_evidence s))"
      and "sig \<notin> set (map (\<lambda>(_, _, _, _, sig, _). sig) (st_evidence s))"
      by (auto split: prod.splits)
    with False show ?thesis
      by (simp add: evolves_def insert_evidence_def evidence_grows_def evidence_keys_unique_def)
  qed
qed

lemma evidence_grows_save: "evolves evidence_grows (save_task st kind expected allow) s"
  by (simp add: evolves_def evidence_grows_same save_task_eq split: sum.splits)

interpretation evidence: completing_evolution evidence_grows
proof unfold_locales
  fix s t u :: store
  show "evidence_grows s t \<Longrightarrow> evidence_grows t u \<Longrightarrow> evidence_grows s u"
    unfolding evidence_grows_def using prefix_order.trans by blast
qed (auto simp: evidence_grows_same evidence_grows_insert evidence_grows_save)

subsection \<open>Checkpoints are append-only\<close>

definition checkpoints_grow :: "store \<Rightarrow> store \<Rightarrow> bool" where
  "checkpoints_grow s t \<longleftrightarrow> prefix (st_checkpoints s) (st_checkpoints t)"

lemma checkpoints_grow_save: "evolves checkpoints_grow (save_task st kind expected allow) s"
  by (simp add: evolves_def checkpoints_grow_def save_task_eq add_checkpoint_def split: sum.splits option.splits)

interpretation checkpoints: completing_evolution checkpoints_grow
  by unfold_locales (auto simp: checkpoints_grow_def checkpoints_grow_save[unfolded evolves_def checkpoints_grow_def]
      insert_evidence_tasks evolves_def intro: prefix_order.trans)

subsection \<open>Rows are stored under the identifier they hold\<close>

definition holds_task :: "string \<Rightarrow> json_text \<Rightarrow> bool" where
  "holds_task tid payload \<longleftrightarrow>
     (\<forall>t l st. decode (task_from_dict t) l payload = Inr st \<longrightarrow> ts_task_id st = tid)"

definition task_keys_ok :: "store \<Rightarrow> bool" where
  "task_keys_ok s \<longleftrightarrow> (\<forall>tid r u p. map_of (st_tasks s) tid = Some (r, u, p) \<longrightarrow> holds_task tid p) \<and>
     (\<forall>(tid, p) \<in> set (st_checkpoints s). holds_task tid p)"

definition keys_kept :: "store \<Rightarrow> store \<Rightarrow> bool" where
  "keys_kept s t \<longleftrightarrow> (task_keys_ok s \<longrightarrow> task_keys_ok t)"

lemma holds_task_dumps [simp]: "holds_task (ts_task_id st) (dumps (JObj (task_to_dict st)))"
  by (simp add: holds_task_def)

lemma keys_kept_same: "st_tasks t = st_tasks s \<Longrightarrow> st_checkpoints t = st_checkpoints s \<Longrightarrow> keys_kept s t"
  by (simp add: keys_kept_def task_keys_ok_def)

lemma keys_kept_saved: "keys_kept s (saved_store st kind s)"
  by (auto simp: keys_kept_def task_keys_ok_def add_checkpoint_def split: option.splits if_splits)

lemma keys_kept_save: "evolves keys_kept (save_task st kind expected allow) s"
  by (simp add: evolves_def save_task_eq keys_kept_saved keys_kept_same split: sum.splits)

interpretation keys: completing_evolution keys_kept
proof unfold_locales
  fix s t u :: store
  show "keys_kept s t \<Longrightarrow> keys_kept t u \<Longrightarrow> keys_kept s u" by (simp add: keys_kept_def)
qed (auto simp: keys_kept_same keys_kept_save evolves_def insert_evidence_tasks keys_kept_save[unfolded evolves_def])

lemma latest_checkpoint_id:
  "latest_checkpoint t tid ps = Inr (Some st) \<Longrightarrow> \<forall>p \<in> set ps. holds_task tid p \<Longrightarrow> ts_task_id st = tid"
  by (induction t tid ps rule: latest_checkpoint.induct)
    (auto simp: holds_task_def split: sum.splits py_error.splits)

lemma load_task_id:
  assumes "task_keys_ok s" and "load_task s tid b = Inr (Some st)"
  shows "ts_task_id st = tid"
proof -
  have rec: "recover_latest_checkpoint s tid = Inr (Some st) \<Longrightarrow> ts_task_id st = tid"
    unfolding recover_latest_checkpoint_def
    by (erule latest_checkpoint_id) (use assms(1) in \<open>auto simp: task_keys_ok_def\<close>)
  show ?thesis
  proof (cases "map_of (st_tasks s) tid")
    case None
    with assms(2) rec show ?thesis by (auto simp: load_task_def split: if_splits)
  next
    case (Some row)
    obtain r u p where row: "row = (r, u, p)" by (cases row)
    with Some assms(1) have "holds_task tid p" by (auto simp: task_keys_ok_def)
    then show ?thesis
      using assms(2) Some row rec
      by (cases "decode (task_from_dict (peek s)) (''task '' @ tid) p")
        (auto simp: load_task_def holds_task_def split: py_error.splits if_splits)
  qed
qed

lemma require_taskE:
  assumes "require_task tid s = (Inr st, t)"
  shows "t = s" and "load_task s tid True = Inr (Some st)"
  using assms by (auto simp: require_task_def rbind_def split: sum.splits option.splits)

end
