(* ===== verification/RuntimeDemo.thy ===== *)
theory RuntimeDemo
  imports RuntimeSafety
begin

text \<open>
  Concrete databases: one running task, with a passed test filed under the task or under its only
  step, and one execution plan. They show that the hypotheses of the properties can hold; the facts
  in \<open>demo_defs\<close> evaluate the methods on them.
\<close>

definition demo_task :: task_state where
  "demo_task = \<lparr>ts_task_id = ''T'', ts_run_id = ''R'', ts_project_id = ''p'', ts_user_request = ''fix'',
     ts_status = RUN_RUNNING, ts_current_phase = ''running'', ts_current_step_id = [], ts_plan_id = [],
     ts_action_count = 0, ts_repair_count = 0, ts_replan_count = 0, ts_changed_files = [],
     ts_required_evidence = [''test_passed''], ts_collected_evidence = [], ts_pending_approvals = [],
     ts_last_tool_call = [], ts_last_tool_result = [], ts_last_checkpoint = [], ts_created_at = ''t100'',
     ts_updated_at = ''t100''\<rparr>"

definition demo_step :: step_state where
  "demo_step = \<lparr>ss_step_id = ''S'', ss_task_id = ''T'', ss_run_id = ''R'', ss_status = STEP_RUNNING,
     ss_phase = ''running'', ss_description = [], ss_tool_name = ''test.run'', ss_tool_call = [],
     ss_tool_result = [], ss_required_evidence = [''test_passed''], ss_started_at = ''t101'',
     ss_updated_at = ''t101'', ss_completed_at = []\<rparr>"

definition demo_evidence :: "string \<Rightarrow> evidence_record" where
  "demo_evidence step = \<lparr>er_evidence_id = ''E'', er_task_id = ''T'', er_step_id = step,
     er_evidence_type = TEST_PASSED, er_source_tool = ''test.run'', er_timestamp = ''t200'',
     er_status = EV_PASSED, er_details = [], er_related_files = [], er_related_command = ''pytest'',
     er_exit_code = Some 0, er_checkpoint_id = []\<rparr>"

definition demo_plan_step :: "string \<Rightarrow> plan_step_status \<Rightarrow> string list \<Rightarrow> plan_step" where
  "demo_plan_step sid status deps = \<lparr>ps_step_id = sid, ps_title = ''Run'', ps_goal = ''Pass'', ps_inputs = [],
     ps_expected_outputs = [], ps_constraints = [], ps_allowed_tools = [''test.run''],
     ps_acceptance_criteria = [''tests pass''], ps_required_evidence = [''test_passed''],
     ps_risk_level = RISK_LOW, ps_approval_required = False, ps_status = status, ps_dependencies = deps\<rparr>"

definition demo_plan :: "plan_step_status \<Rightarrow> plan_step_status \<Rightarrow> execution_plan" where
  "demo_plan a b = \<lparr>ep_plan_id = ''P'', ep_task_id = ''T'', ep_run_id = ''R'', ep_title = ''Plan'', ep_summary = [],
     ep_steps = [demo_plan_step ''S'' a [], demo_plan_step ''S2'' b [''S'']],
     ep_created_at = ''t100'', ep_updated_at = ''t100''\<rparr>"

definition demo_store :: "task_state \<Rightarrow> store" where
  "demo_store st = \<lparr>st_clock = (\<lambda>n. ''t300''), st_ticks = 0, st_uuid = nat_str, st_drawn = 0,
     st_digest = (\<lambda>_. ''d''), st_repr = (\<lambda>_. ''r''), st_runs = [],
     st_tasks = [(''T'', ''R'', ''t100'', dumps (JObj (task_to_dict st)))], st_steps = [], st_repairs = [],
     st_plans = [], st_evidence = [], st_failures = [], st_checkpoints = []\<rparr>"

definition demo_tested :: "string \<Rightarrow> store" where
  "demo_tested step = (demo_store demo_task)\<lparr>st_evidence := [(''E'', ''T'', step, ''t200'',
     evidence_signature (demo_evidence step), dumps (JObj (evidence_to_dict (demo_evidence step))))]\<rparr>"

definition demo_stepped :: store where
  "demo_stepped = (demo_tested ''S'')\<lparr>st_steps := [((''T'', ''S''), ''t101'', dumps (JObj (step_to_dict demo_step)))]\<rparr>"

definition demo_planned :: "plan_step_status \<Rightarrow> plan_step_status \<Rightarrow> store" where
  "demo_planned a b = demo_stepped\<lparr>st_plans := [(''P'', ''T'', ''t100'', dumps (JObj (plan_to_dict (demo_plan a b))))]\<rparr>"

lemmas demo_records = demo_task_def demo_step_def demo_evidence_def demo_plan_step_def demo_plan_def

lemmas demo_stores = demo_store_def demo_tested_def demo_stepped_def demo_planned_def

lemmas demo_reads = require_task_def load_task_def load_step_def list_steps_def load_task_plan_def
  load_execution_plan_def list_evidence_def check_required_evidence_def judge_evidence_def
  normalize_evidence_types_def or_else_def incomplete_plan_steps_def incomplete_steps_def
  seq_read peek_def now_def rbind_def Let_def gate_ok_def enum_parse_def evidence_types_def add_new_def

lemmas demo_writes = save_task_def save_task_guard_def stamp_task_def add_checkpoint_def record_step_def validate_transition_def

lemma demo_keys: "task_keys_ok (demo_tested x)" "task_keys_ok demo_stepped"
  using holds_task_dumps[of demo_task] by (simp_all add: task_keys_ok_def demo_stores demo_task_def)

lemma demo_task_completes:
  "\<exists>g t. request_task_complete ''T'' None (demo_tested []) = (Inr g, t) \<and> gr_ok g"
  by (simp add: request_task_complete_def demo_reads demo_writes demo_stores demo_records
      seq_def)

lemma demo_step_completes:
  "\<exists>g t. request_step_complete ''T'' ''S'' None demo_stepped = (Inr g, t) \<and> gr_ok g"
  by (simp add: request_step_complete_def demo_reads demo_writes demo_stores demo_records
      seq_def)

lemma demo_task_gate:
  "\<exists>g t. request_task_complete ''T'' None (demo_tested ''S'') = (Inr g, t)"
  by (simp add: request_task_complete_def demo_reads demo_writes demo_stores demo_records seq_def)

lemma demo_saves:
  "\<exists>st t. save_task demo_task (Some ''plan_created'') None False (demo_store demo_task) = (Inr st, t)"
  by (simp add: demo_reads demo_writes demo_stores demo_records seq_def)

lemma demo_row_status [simp]:
  "task_row_status (demo_store st) ''T'' = Some (ts_status st)"
  "task_row_status (demo_tested x) ''T'' = Some RUN_RUNNING"
  by (simp_all add: task_row_status_def demo_stores demo_task_def)

lemma demo_evidence_keeps_status:
  "task_row_status (snd (record_evidence (demo_evidence x) (demo_store st))) ''T'' = Some (ts_status st)"
  by (simp add: record_evidence_def demo_evidence_def insert_evidence_def evidence_by_signature_def
      demo_store_def task_row_status_def seq_def Let_def)

lemma demo_task_plan: "load_task_plan (demo_planned a b) ''T'' = Inr (Some (demo_plan a b))"
  by (simp add: demo_reads demo_stores demo_task_def)

lemma demo_plan_ok: "plan_well_formed (demo_plan a b) None"
proof -
  have "validate_execution_plan (demo_plan a b) None = []"
    by (cases a; cases b; code_simp)
  then show ?thesis by (simp add: validate_execution_plan_iff)
qed

lemma demo_no_active:
  "current_active_step ''T'' (demo_planned PLAN_COMPLETED PLAN_COMPLETED) =
     (Inr None, demo_planned PLAN_COMPLETED PLAN_COMPLETED)"
  by (simp add: current_active_step_def seq_read demo_task_plan) (simp add: demo_records is_ready_def)

lemma demo_active_step:
  "\<exists>st t. current_active_step ''T'' (demo_planned PLAN_COMPLETED PLAN_PENDING) = (Inr (Some st), t)"
  by (simp add: current_active_step_def seq_read demo_task_plan)
    (simp add: activate_step_def persist_plan_def is_ready_def completed_ids_def demo_reads demo_writes
      demo_stores demo_records seq_def)

definition demo_failure :: failure_record where
  "demo_failure = \<lparr>fr_failure_type = VERIFICATION_FAILURE, fr_task_id = ''T'', fr_step_id = ''S'', fr_action = ''test.run'',
     fr_error_signature = ''d'', fr_evidence = [], fr_retry_count = 0, fr_first_seen = ''t100'',
     fr_last_seen = ''t100''\<rparr>"

end
