(* ===== verification/RuntimeGate.thy ===== *)
theory RuntimeGate
  imports RuntimeSafety RuntimeDemo
begin

text \<open>
  The properties of the runtime store: its steps as a relation, the life of a task along any run of
  them, what an open completion gate proves about steps and evidence, recovery from a checkpoint,
  progress of a valid plan, and the counting of failures.
\<close>

subsection \<open>Steps of the store\<close>

inductive store_step :: "store \<Rightarrow> store \<Rightarrow> bool" where
  step_save_run: "store_step s (snd (save_run r s))"
| step_create_run: "store_step s (snd (create_run i st d s))"
| step_create_task: "store_step s (snd (create_task r u p ti i s))"
| step_save_task: "store_step s (snd (save_task st kind expected False s))"
| step_update_status: "store_step s (snd (update_task_status tid st ph k s))"
| step_record_step: "store_step s (snd (record_step ss s))"
| step_record_repair: "store_step s (snd (record_repair rp s))"
| step_save_plan: "store_step s (snd (save_execution_plan plan tools s))"
| step_active: "store_step s (snd (current_active_step tid s))"
| step_plan_status: "store_step s (snd (update_plan_step_status tid sid ps k s))"
| step_complete_plan_step: "store_step s (snd (complete_plan_step tid sid s))"
| step_evidence: "store_step s (snd (record_evidence e s))"
| step_step_complete: "store_step s (snd (request_step_complete tid sid req s))"
| step_plan_created: "store_step s (snd (record_plan_created tid i s))"
| step_approval_requested: "store_step s (snd (record_approval_requested tid q s))"
| step_approval_resolved: "store_step s (snd (record_approval_resolved tid b s))"
| step_successful: "store_step s (snd (record_successful_step tid sid c r fs reqs s))"
| step_replan: "store_step s (snd (record_replan tid i s))"
| step_repair: "store_step s (snd (record_repair_attempt tid fs er s))"
| step_failure: "store_step s (snd (record_failure f s))"
| step_create_failure: "store_step s (snd (create_failure tid ft sid a es d s))"

text \<open>Steps, and the one method that may complete a task.\<close>

inductive task_step :: "store \<Rightarrow> store \<Rightarrow> bool" where
  ordinary: "store_step s t \<Longrightarrow> task_step s t"
| completing: "task_step s (snd (request_task_complete tid req s))"

context store_evolution begin

lemmas ev_methods = ev_save_run ev_create_run ev_create_task R_save ev_update_task_status
  ev_record_step ev_record_repair ev_save_execution_plan ev_current_active_step
  ev_update_plan_step_status ev_complete_plan_step ev_record_evidence ev_request_step_complete
  ev_record_plan_created ev_record_approval_requested ev_record_approval_resolved
  ev_record_successful_step ev_record_replan ev_record_repair_attempt ev_record_failure
  ev_create_failure

lemma store_step_R: "store_step s t \<Longrightarrow> R s t"
  by (induction rule: store_step.induct) (rule ev_methods[unfolded evolves_def])+

lemma store_steps_R: "store_step\<^sup>*\<^sup>* s t \<Longrightarrow> R s t"
  by (induction rule: rtranclp_induct) (auto intro: refl_R trans_R store_step_R)

end

context completing_evolution begin

lemma task_step_R: "task_step s t \<Longrightarrow> R s t"
  by (induction rule: task_step.induct)
    (rule store_step_R ev_request_task_complete[unfolded evolves_def], assumption?)+

lemma task_steps_R: "task_step\<^sup>*\<^sup>* s t \<Longrightarrow> R s t"
  by (induction rule: rtranclp_induct) (auto intro: refl_R trans_R task_step_R)

end

subsection \<open>Reading lists of rows\<close>

lemma rmap_mem: "rmap f xs = Inr ys \<Longrightarrow> y \<in> set ys \<Longrightarrow> \<exists>x \<in> set xs. f x = Inr y"
proof (induction xs arbitrary: ys)
  case (Cons x xs)
  then obtain z zs where "f x = Inr z" "rmap f xs = Inr zs" "ys = z # zs"
    by (auto simp: rbind_def split: sum.splits)
  with Cons show ?case by auto
qed simp

lemma rmap_all: "rmap f xs = Inr ys \<Longrightarrow> x \<in> set xs \<Longrightarrow> \<exists>y \<in> set ys. f x = Inr y"
proof (induction xs arbitrary: ys)
  case (Cons a xs)
  then obtain z zs where "f a = Inr z" "rmap f xs = Inr zs" "ys = z # zs"
    by (auto simp: rbind_def split: sum.splits)
  with Cons show ?case by auto
qed simp

text \<open>A record of the evidence log, filed under a task and a step.\<close>

definition logged :: "store \<Rightarrow> string \<Rightarrow> string \<Rightarrow> evidence_record \<Rightarrow> bool" where
  "logged s tid sid e \<longleftrightarrow> (\<exists>eid ts sig p. (eid, tid, sid, ts, sig, p) \<in> set (st_evidence s) \<and>
     (\<exists>l. decode (evidence_from_dict (peek s)) l p = Inr e))"

lemma list_evidence_logged:
  "list_evidence s tid (Some sid) = Inr es \<Longrightarrow> e \<in> set es \<Longrightarrow> logged s tid sid e"
  unfolding list_evidence_def logged_def by (drule (1) rmap_mem, clarsimp) blast

definition proven :: "store \<Rightarrow> string \<Rightarrow> string \<Rightarrow> string \<Rightarrow> evidence_type \<Rightarrow> bool" where
  "proven s tid sid since t \<longleftrightarrow> (\<exists>e. logged s tid sid e \<and> er_evidence_type e = t \<and>
     er_status e = EV_PASSED \<and> (since = [] \<or> since \<le> er_timestamp e))"

lemma judge_verified:
  "judge_evidence es since t = Verified \<Longrightarrow>
     \<exists>e \<in> set es. er_evidence_type e = t \<and> er_status e = EV_PASSED \<and> (since = [] \<or> since \<le> er_timestamp e)"
  by (auto simp: judge_evidence_def Let_def split: if_splits)

lemma judge_cases:
  "judge_evidence es since t \<notin> {Missing, Stale, Failing} \<Longrightarrow> judge_evidence es since t = Verified"
  by (cases "judge_evidence es since t") auto

lemma check_required_evidence_ok:
  assumes "check_required_evidence s tid sid required since = Inr g" and "gr_ok g" and "t \<in> set required"
  shows "proven s tid sid since t"
proof -
  from assms obtain es where es: "list_evidence s tid (Some sid) = Inr es"
    and none: "\<And>v. v \<in> {Missing, Stale, Failing} \<Longrightarrow> filter (\<lambda>t. judge_evidence es since t = v) required = []"
    by (auto simp: check_required_evidence_def Let_def rbind_def split: if_splits sum.splits)
  have "judge_evidence es since t \<notin> {Missing, Stale, Failing}"
    using none[of "judge_evidence es since t"] assms(3) by (auto simp: filter_empty_conv)
  with judge_cases judge_verified obtain e where "e \<in> set es" "er_evidence_type e = t"
    "er_status e = EV_PASSED" "since = [] \<or> since \<le> er_timestamp e" by metis
  with es show ?thesis by (auto simp: proven_def dest: list_evidence_logged)
qed

lemma normalize_evidence_from_set:
  "normalize_evidence_from acc vs = Inr ts \<Longrightarrow> set ts = set acc \<union> {t. evidence_type_value t \<in> set vs}"
proof (induction vs arbitrary: acc)
  case (Cons v vs)
  then obtain t where t: "enum_parse evidence_type_value evidence_types v = Inr t"
    and rest: "normalize_evidence_from (add_new acc t) vs = Inr ts"
    by (auto simp: rbind_def split: sum.splits)
  from t have v: "evidence_type_value t = v" by (simp add: evidence_type.parse_Inr)
  have "{u. evidence_type_value u \<in> set (v # vs)} = insert t {u. evidence_type_value u \<in> set vs}"
    using v evidence_type.val_inj by auto
  with Cons.IH[OF rest] show ?case by auto
qed simp

lemma normalize_evidence_types_set:
  "normalize_evidence_types vs = Inr ts \<Longrightarrow> set ts = {t. evidence_type_value t \<in> set vs}"
  by (simp add: normalize_evidence_types_def normalize_evidence_from_set)

subsection \<open>An open gate\<close>

lemma save_task_InrE:
  assumes "save_task st kind expected allow s = (Inr st', t)"
  obtains ex where "save_task_guard st expected allow s = Inr ex"
    and "st' = stamp_task ex kind (peek s) st" and "t = saved_store st' kind s"
  using assms by (rule save_taskE) auto

lemma require_taskD:
  "require_task tid s = (Inr st, t) \<Longrightarrow> t = s \<and> load_task s tid True = Inr (Some st)"
  using require_taskE by blast

lemma record_step_eq:
  "record_step st s = (Inr (st\<lparr>ss_updated_at := peek s\<rparr>), s\<lparr>st_ticks := Suc (st_ticks s),
     st_steps := AList.update (ss_task_id st, ss_step_id st)
       (peek s, dumps (JObj (step_to_dict (st\<lparr>ss_updated_at := peek s\<rparr>)))) (st_steps s)\<rparr>)"
  by (simp add: record_step_def now_def Let_def seq_def peek_def)

lemma now_eq: "now s = (Inr (peek s), s\<lparr>st_ticks := Suc (st_ticks s)\<rparr>)"
  by (simp add: now_def peek_def)

lemma task_completeD:
  assumes "request_task_complete tid req s = (Inr g, t)" and "gr_ok g"
  shows "\<exists>st plan steps required gate ex.
    load_task s tid True = Inr (Some st) \<and>
    load_task_plan s tid = Inr plan \<and> incomplete_plan_steps plan = [] \<and>
    list_steps s tid = Inr steps \<and> incomplete_steps steps = [] \<and>
    normalize_evidence_types (or_else req (ts_required_evidence st)) = Inr required \<and>
    check_required_evidence s tid [] required [] = Inr gate \<and> gr_ok gate \<and>
    t = saved_store (stamp_task ex (Some ''before_final_completion'') (peek s)
           (st\<lparr>ts_status := RUN_COMPLETED, ts_current_phase := ''completed''\<rparr>)) (Some ''before_final_completion'') s"
  using assms unfolding request_task_complete_def
  by (auto simp: gate_refused_def seq_read split: sum.splits if_splits elim!: seq_InrE save_task_InrE dest!: require_taskD)
    blast

lemma step_completeD:
  assumes "request_step_complete tid sid req s = (Inr g, t)" and "gr_ok g"
  shows "\<exists>st required gate ss u. load_step s tid sid = Inr (Some st) \<and>
    normalize_evidence_types (or_else req (ss_required_evidence st)) = Inr required \<and>
    check_required_evidence s tid sid required (ss_started_at st) = Inr gate \<and> gr_ok gate \<and>
    ss = st\<lparr>ss_status := STEP_DONE, ss_completed_at := peek s, ss_updated_at := u\<rparr> \<and>
    st_steps t = AList.update (ss_task_id st, ss_step_id st) (u, dumps (JObj (step_to_dict ss))) (st_steps s)"
  using assms unfolding request_step_complete_def
  by (auto simp: seq_read gate_refused_def record_step_eq now_eq elim!: seq_InrE save_task_InrE
      dest!: require_taskD split: sum.splits if_splits option.splits)
    blast
text \<open>
  C2. When \<open>request_task_complete\<close> reports success, the task row is COMPLETED, every step of its
  execution plan is completed, every recorded step is done or skipped, and each required evidence
  type has a passed record in the log filed under the task itself.
\<close>

theorem request_task_complete_sound:
  assumes keys: "task_keys_ok s"
    and run: "request_task_complete tid req s = (Inr g, t)" and ok: "gr_ok g"
  shows "\<exists>st. load_task s tid True = Inr (Some st) \<and> task_row_status t tid = Some RUN_COMPLETED \<and>
    (\<forall>plan. load_task_plan s tid = Inr (Some plan) \<longrightarrow> (\<forall>p \<in> set (ep_steps plan). ps_status p = PLAN_COMPLETED)) \<and>
    (\<exists>steps. list_steps s tid = Inr steps \<and> (\<forall>x \<in> set steps. ss_status x \<in> {STEP_DONE, STEP_SKIPPED})) \<and>
    (\<forall>ty. evidence_type_value ty \<in> set (or_else req (ts_required_evidence st)) \<longrightarrow> proven s tid [] [] ty)"
proof -
  from run ok obtain st plan steps required gate ex where st: "load_task s tid True = Inr (Some st)"
    and plan: "load_task_plan s tid = Inr plan" "incomplete_plan_steps plan = []"
    and steps: "list_steps s tid = Inr steps" "incomplete_steps steps = []"
    and req: "normalize_evidence_types (or_else req (ts_required_evidence st)) = Inr required"
    and gate: "check_required_evidence s tid [] required [] = Inr gate" "gr_ok gate"
    and t: "t = saved_store (stamp_task ex (Some ''before_final_completion'') (peek s)
           (st\<lparr>ts_status := RUN_COMPLETED, ts_current_phase := ''completed''\<rparr>)) (Some ''before_final_completion'') s"
    using task_completeD by blast
  have "task_row_status t tid = Some RUN_COMPLETED"
    using load_task_id[OF keys st] by (simp add: t)
  moreover have "\<forall>ty. evidence_type_value ty \<in> set (or_else req (ts_required_evidence st)) \<longrightarrow> proven s tid [] [] ty"
    using check_required_evidence_ok[OF gate] normalize_evidence_types_set[OF req] by auto
  ultimately show ?thesis
    using st plan steps by (auto simp: incomplete_plan_steps_def incomplete_steps_def filter_empty_conv)
qed

theorem request_task_complete_sound_witness:
  "\<exists>g t. request_task_complete ''T'' None (demo_tested []) = (Inr g, t) \<and> gr_ok g \<and>
     task_row_status t ''T'' = Some RUN_COMPLETED"
  using demo_task_completes request_task_complete_sound[OF demo_keys(1)] by blast

text \<open>
  C33. When \<open>request_step_complete\<close> reports success, the step row is DONE and each evidence type it
  requires has a passed record, filed under this step and not older than the step's start.
\<close>

theorem request_step_complete_sound:
  assumes run: "request_step_complete tid sid req s = (Inr g, t)" and ok: "gr_ok g"
  shows "\<exists>st st'. load_step s tid sid = Inr (Some st) \<and>
    (\<forall>ty. evidence_type_value ty \<in> set (or_else req (ss_required_evidence st)) \<longrightarrow>
       proven s tid sid (ss_started_at st) ty) \<and>
    load_step t (ss_task_id st) (ss_step_id st) = Inr (Some st') \<and> ss_status st' = STEP_DONE"
proof -
  from run ok obtain st required gate ss u where st: "load_step s tid sid = Inr (Some st)"
    and req: "normalize_evidence_types (or_else req (ss_required_evidence st)) = Inr required"
    and gate: "check_required_evidence s tid sid required (ss_started_at st) = Inr gate" "gr_ok gate"
    and ss: "ss = st\<lparr>ss_status := STEP_DONE, ss_completed_at := peek s, ss_updated_at := u\<rparr>"
    and t: "st_steps t = AList.update (ss_task_id st, ss_step_id st) (u, dumps (JObj (step_to_dict ss))) (st_steps s)"
    using step_completeD by blast
  have "\<forall>ty. evidence_type_value ty \<in> set (or_else req (ss_required_evidence st)) \<longrightarrow>
      proven s tid sid (ss_started_at st) ty"
    using check_required_evidence_ok[OF gate] normalize_evidence_types_set[OF req] by auto
  moreover have "load_step t (ss_task_id st) (ss_step_id st) = Inr (Some ss)"
    by (simp add: load_step_def t update_conv')
  ultimately show ?thesis using st ss by auto
qed

theorem request_step_complete_sound_witness:
  "\<exists>g t. request_step_complete ''T'' ''S'' None demo_stepped = (Inr g, t) \<and> gr_ok g \<and>
     proven demo_stepped ''T'' ''S'' ''t101'' TEST_PASSED"
proof -
  obtain g t where run: "request_step_complete ''T'' ''S'' None demo_stepped = (Inr g, t)" "gr_ok g"
    using demo_step_completes by blast
  moreover have "load_step demo_stepped ''T'' ''S'' = Inr (Some demo_step)"
    by (simp add: demo_reads demo_stores)
  ultimately show ?thesis
    using request_step_complete_sound[OF run] by (force simp: or_else_def demo_step_def)
qed

subsection \<open>The life of a task\<close>

text \<open>
  C39. Terminal statuses are final: along any run of store methods, the completing one included, the
  status of a task row only moves along the transition table, and a completed, failed or cancelled
  task keeps its status.
\<close>

theorem terminal_status_is_final:
  assumes "task_step\<^sup>*\<^sup>* s t" and "task_row_status s tid = Some x"
  shows "\<exists>y. task_row_status t tid = Some y \<and> (may_follow allowed_run)\<^sup>*\<^sup>* x y \<and> (terminal_run x \<longrightarrow> y = x)"
  using follows.task_steps_R[OF assms(1)] assms(2) status_follows_terminal
  unfolding status_follows_def by (metis option.inject)

theorem terminal_status_is_final_witness:
  "\<exists>y. task_row_status (snd (request_task_complete ''T'' None (demo_tested []))) ''T'' = Some y \<and>
     (may_follow allowed_run)\<^sup>*\<^sup>* RUN_RUNNING y"
proof -
  have "task_step\<^sup>*\<^sup>* (demo_tested []) (snd (request_task_complete ''T'' None (demo_tested [])))"
    by (rule r_into_rtranclp, rule completing)
  from terminal_status_is_final[OF this, of "''T''" RUN_RUNNING] show ?thesis by auto
qed

text \<open>
  C4. Completion has one door: no sequence of the other store methods brings a task row to
  COMPLETED. Only \<open>request_task_complete\<close> does.
\<close>

theorem completion_only_through_the_gate:
  assumes "store_step\<^sup>*\<^sup>* s t" and "task_row_status t tid = Some RUN_COMPLETED"
  shows "task_row_status s tid = Some RUN_COMPLETED"
  using uncompleted.store_steps_R[OF assms(1)] assms(2) by (simp add: no_new_completion_def)

theorem completion_only_through_the_gate_witness:
  "task_row_status (demo_store (demo_task\<lparr>ts_status := RUN_COMPLETED\<rparr>)) ''T'' = Some RUN_COMPLETED"
proof -
  let ?s = "demo_store (demo_task\<lparr>ts_status := RUN_COMPLETED\<rparr>)"
  have "store_step\<^sup>*\<^sup>* ?s (snd (record_evidence (demo_evidence ''S'') ?s))"
    by (rule r_into_rtranclp, rule step_evidence)
  moreover have "task_row_status (snd (record_evidence (demo_evidence ''S'') ?s)) ''T'' = Some RUN_COMPLETED"
    using demo_evidence_keeps_status by simp
  ultimately show ?thesis by (rule completion_only_through_the_gate)
qed

text \<open>
  The evidence log is append-only and free of duplicates: along any run of store methods the old
  log stays a prefix of the new one, and evidence identifiers and signatures stay pairwise distinct.
\<close>

theorem evidence_log_append_only:
  assumes "task_step\<^sup>*\<^sup>* s t" and "evidence_keys_unique s"
  shows "prefix (st_evidence s) (st_evidence t) \<and> evidence_keys_unique t"
  using evidence.task_steps_R[OF assms(1)] assms(2) by (simp add: evidence_grows_def)

theorem evidence_log_append_only_witness:
  "evidence_keys_unique (snd (record_evidence (demo_evidence ''S'') (demo_tested [])))"
proof -
  have "task_step\<^sup>*\<^sup>* (demo_tested []) (snd (record_evidence (demo_evidence ''S'') (demo_tested [])))"
    by (rule r_into_rtranclp, rule ordinary, rule step_evidence)
  moreover have "evidence_keys_unique (demo_tested [])"
    by (simp add: evidence_keys_unique_def demo_stores)
  ultimately show ?thesis using evidence_log_append_only by blast
qed

subsection \<open>Recovery from a checkpoint\<close>

lemma decode_Garbage [simp]: "decode reader l (Garbage g) = Inl (CorruptRuntimeState (''Corrupt '' @ l))"
  by (simp add: decode_def loads_object_def)

text \<open>
  A task saved with a checkpoint survives a corrupted payload: after the row is overwritten with
  text that is not JSON, \<open>load_task\<close> returns exactly the state that was saved.
\<close>

theorem checkpoint_recovers:
  assumes run: "save_task st (Some kind) expected allow s = (Inr st', t)" and kind: "kind \<noteq> []"
  shows "load_task (snd (corrupt_task_payload_for_test (ts_task_id st) (Garbage g) t)) (ts_task_id st) True
    = Inr (Some st')"
proof -
  from run obtain ex where st': "st' = stamp_task ex (Some kind) (peek s) st"
    and t: "t = saved_store st' (Some kind) s" by (rule save_task_InrE)
  let ?u = "snd (corrupt_task_payload_for_test (ts_task_id st) (Garbage g) t)"
  have "map_of (st_tasks ?u) (ts_task_id st) = Some (ts_run_id st', ts_updated_at st', Garbage g)"
    by (simp add: corrupt_task_payload_for_test_def map_of_map_entry t st')
  moreover have "st_checkpoints ?u = st_checkpoints s @ [(ts_task_id st, dumps (JObj (task_to_dict st')))]"
    using kind by (simp add: corrupt_task_payload_for_test_def t st' add_checkpoint_def)
  ultimately show ?thesis
    by (simp add: load_task_def recover_latest_checkpoint_def)
qed

theorem checkpoint_recovers_witness:
  "\<exists>st' t. save_task demo_task (Some ''plan_created'') None False (demo_store demo_task) = (Inr st', t) \<and>
     load_task (snd (corrupt_task_payload_for_test ''T'' (Garbage ''{'') t)) ''T'' True = Inr (Some st')"
proof -
  obtain st' t where "save_task demo_task (Some ''plan_created'') None False (demo_store demo_task) = (Inr st', t)"
    using demo_saves by blast
  with checkpoint_recovers[OF this, of "''{''"] show ?thesis by (simp add: demo_task_def)
qed

subsection \<open>Evidence filed under a step does not complete the task\<close>

text \<open>
  C40. The task gate counts only evidence filed without a step: when every record of the log names a
  step (as \<open>record_successful_step\<close> files them) and the task requires some evidence,
  \<open>request_task_complete\<close> never succeeds.
\<close>

theorem task_gate_ignores_step_evidence:
  assumes filed: "\<And>eid ts sid t sig p. (eid, tid, sid, ts, sig, p) \<in> set (st_evidence s) \<Longrightarrow> sid \<noteq> []"
    and required: "\<And>st. load_task s tid True = Inr (Some st) \<Longrightarrow> or_else req (ts_required_evidence st) \<noteq> []"
    and run: "request_task_complete tid req s = (Inr g, t)"
  shows "\<not> gr_ok g"
proof
  assume "gr_ok g"
  with run obtain st required gate where st: "load_task s tid True = Inr (Some st)"
    and norm: "normalize_evidence_types (or_else req (ts_required_evidence st)) = Inr required"
    and gate: "check_required_evidence s tid [] required [] = Inr gate" "gr_ok gate"
    using task_completeD by blast
  obtain v vs where v: "or_else req (ts_required_evidence st) = v # vs"
    using required[OF st] by (cases "or_else req (ts_required_evidence st)") auto
  with norm obtain ty where "enum_parse evidence_type_value evidence_types v = Inr ty"
    by (auto simp: normalize_evidence_types_def rbind_def split: sum.splits)
  then have "evidence_type_value ty = v" by (simp add: evidence_type.parse_Inr)
  with normalize_evidence_types_set[OF norm] v have "ty \<in> set required" by auto
  from check_required_evidence_ok[OF gate this] obtain eid ts sig p
    where "(eid, tid, [], ts, sig, p) \<in> set (st_evidence s)"
    by (auto simp: proven_def logged_def)
  from filed[OF this] show False by simp
qed

theorem task_gate_ignores_step_evidence_witness:
  "\<exists>g t. request_task_complete ''T'' None (demo_tested ''S'') = (Inr g, t) \<and> \<not> gr_ok g"
proof -
  obtain g t where run: "request_task_complete ''T'' None (demo_tested ''S'') = (Inr g, t)"
    using demo_task_gate by blast
  have "\<not> gr_ok g"
    by (rule task_gate_ignores_step_evidence[OF _ _ run])
      (simp_all add: demo_stores demo_reads split: option.splits, auto simp: demo_task_def)
  with run show ?thesis by blast
qed

subsection \<open>A valid plan never stalls\<close>

lemma plan_edges_finite: "finite (plan_edges steps)"
proof -
  have "plan_edges steps = (\<Union>st \<in> set steps. {ps_step_id st} \<times> set (ps_dependencies st))"
    by (auto simp: plan_edges_def)
  then show ?thesis by simp
qed

lemma same_id_same_step:
  "distinct (map ps_step_id steps) \<Longrightarrow> a \<in> set steps \<Longrightarrow> b \<in> set steps \<Longrightarrow> ps_step_id a = ps_step_id b \<Longrightarrow> a = b"
  by (auto simp: distinct_map dest: inj_onD)

lemma ready_step_exists:
  assumes wf: "plan_well_formed plan tools"
    and open_steps: "\<forall>st \<in> set (ep_steps plan). ps_status st \<in> {PLAN_PENDING, PLAN_COMPLETED}"
    and left: "st0 \<in> set (ep_steps plan)" "ps_status st0 \<noteq> PLAN_COMPLETED"
  shows "\<exists>st \<in> set (ep_steps plan). is_ready (ep_steps plan) st"
proof -
  let ?steps = "ep_steps plan"
  let ?pending = "{ps_step_id st | st. st \<in> set ?steps \<and> ps_status st = PLAN_PENDING}"
  have "wf ((plan_edges ?steps)\<inverse>)"
    using wf plan_edges_finite by (intro finite_acyclic_wf_converse) (auto simp: plan_well_formed_def)
  moreover have "ps_step_id st0 \<in> ?pending" using left open_steps by auto
  ultimately obtain z where z: "z \<in> ?pending" and min: "\<And>y. (z, y) \<in> plan_edges ?steps \<Longrightarrow> y \<notin> ?pending"
    by (rule wfE_min) auto
  from z obtain st where st: "st \<in> set ?steps" "ps_step_id st = z" "ps_status st = PLAN_PENDING" by auto
  have "dep \<in> set (completed_ids ?steps)" if dep: "dep \<in> set (ps_dependencies st)" for dep
  proof -
    from wf st(1) have "set (ps_dependencies st) \<subseteq> ps_step_id ` set ?steps"
      by (simp add: plan_well_formed_def step_well_formed_def)
    with dep obtain other where other: "other \<in> set ?steps" "ps_step_id other = dep" by auto
    have "(z, dep) \<in> plan_edges ?steps" using st dep by (auto simp: plan_edges_def)
    with min have "dep \<notin> ?pending" by blast
    with other open_steps have "ps_status other = PLAN_COMPLETED" by auto
    with other show ?thesis by (auto simp: completed_ids_def)
  qed
  with st show ?thesis by (auto simp: is_ready_def)
qed

text \<open>
  Progress of a valid plan: when \<open>current_active_step\<close> finds nothing to run and no step is blocked
  or being verified, every step of the plan is completed.
\<close>

theorem scheduler_only_stops_when_done:
  assumes plan: "load_task_plan s tid = Inr (Some plan)" and wf: "plan_well_formed plan tools"
    and unblocked: "\<forall>st \<in> set (ep_steps plan). ps_status st \<in> {PLAN_PENDING, PLAN_ACTIVE, PLAN_COMPLETED}"
    and run: "current_active_step tid s = (Inr None, t)"
  shows "\<forall>st \<in> set (ep_steps plan). ps_status st = PLAN_COMPLETED"
proof -
  from run plan have none: "find (\<lambda>st. ps_status st = PLAN_ACTIVE) (ep_steps plan) = None"
    and not_ready: "find (is_ready (ep_steps plan)) (ep_steps plan) = None"
    by (auto simp: current_active_step_def seq_read split: option.splits elim!: seq_InrE)
  then have "\<forall>st \<in> set (ep_steps plan). ps_status st \<in> {PLAN_PENDING, PLAN_COMPLETED}"
    using unblocked by (auto simp: find_None_iff)
  with not_ready ready_step_exists[OF wf] show ?thesis by (auto simp: find_None_iff)
qed

theorem scheduler_only_stops_when_done_witness:
  "list_all (\<lambda>st. ps_status st = PLAN_COMPLETED) (ep_steps (demo_plan PLAN_COMPLETED PLAN_COMPLETED))"
  unfolding list_all_iff
  by (rule scheduler_only_stops_when_done[OF demo_task_plan demo_plan_ok _ demo_no_active])
    (simp add: demo_records)

lemma activate_step_result: "activate_step tid plan st s = (Inr st', t) \<Longrightarrow> st' = st\<lparr>ps_status := PLAN_ACTIVE\<rparr>"
  unfolding activate_step_def Let_def by (auto elim!: seq_InrE)

text \<open>
  The step \<open>current_active_step\<close> hands out is active; it either was active already or was pending
  with every step it depends on completed.
\<close>

theorem active_step_has_its_dependencies:
  assumes run: "current_active_step tid s = (Inr (Some st), t)"
  shows "\<exists>plan. load_task_plan s tid = Inr (Some plan) \<and> ps_status st = PLAN_ACTIVE \<and>
    (st \<in> set (ep_steps plan) \<or>
     (\<exists>p \<in> set (ep_steps plan). st = p\<lparr>ps_status := PLAN_ACTIVE\<rparr> \<and> ps_status p = PLAN_PENDING \<and>
        (\<forall>dep \<in> set (ps_dependencies p). \<exists>d \<in> set (ep_steps plan). ps_step_id d = dep \<and> ps_status d = PLAN_COMPLETED)))"
proof -
  from run obtain plan where plan: "load_task_plan s tid = Inr (Some plan)"
    by (auto simp: current_active_step_def seq_read split: sum.splits option.splits)
  show ?thesis
  proof (cases "find (\<lambda>st. ps_status st = PLAN_ACTIVE) (ep_steps plan)")
    case (Some a)
    with run plan have "st = a" by (auto simp: current_active_step_def seq_read)
    with Some plan show ?thesis by (auto simp: find_Some_iff)
  next
    case None
    with run plan obtain p where p: "find (is_ready (ep_steps plan)) (ep_steps plan) = Some p"
      and st: "st = p\<lparr>ps_status := PLAN_ACTIVE\<rparr>"
      by (auto simp: current_active_step_def seq_read split: option.splits elim!: seq_InrE
          dest: activate_step_result)
    then have mem: "p \<in> set (ep_steps plan)" and ready: "is_ready (ep_steps plan) p"
      by (auto simp: find_Some_iff)
    from ready have "\<forall>dep \<in> set (ps_dependencies p). \<exists>d \<in> set (ep_steps plan).
        ps_step_id d = dep \<and> ps_status d = PLAN_COMPLETED"
      by (auto simp: is_ready_def completed_ids_def)
    with plan st mem ready show ?thesis
      by (intro exI[of _ plan] conjI disjI2 bexI[of _ p]) (simp_all add: is_ready_def)
  qed
qed

theorem active_step_has_its_dependencies_witness:
  "\<exists>st t. current_active_step ''T'' (demo_planned PLAN_COMPLETED PLAN_PENDING) = (Inr (Some st), t) \<and>
     ps_status st = PLAN_ACTIVE"
  using demo_active_step active_step_has_its_dependencies by blast

subsection \<open>Failures are counted by signature\<close>

fun record_repeatedly :: "nat \<Rightarrow> failure_record \<Rightarrow> failure_record store_eff" where
  "record_repeatedly 0 f = record_failure f"
| "record_repeatedly (Suc n) f = seq (record_repeatedly n f) (\<lambda>_. record_failure f)"

lemma record_failure_found:
  assumes "fr_error_signature f \<noteq> []" and "load_failure s (fr_task_id f) (fr_error_signature f) = Inr (Some ex)"
  shows "\<exists>t. record_failure f s = (Inr (f\<lparr>fr_first_seen := fr_first_seen ex, fr_retry_count := fr_retry_count ex + 1\<rparr>), t) \<and>
    load_failure t (fr_task_id f) (fr_error_signature f) =
      Inr (Some (f\<lparr>fr_first_seen := fr_first_seen ex, fr_retry_count := fr_retry_count ex + 1\<rparr>))"
  using assms by (simp add: record_failure_def Let_def seq_read) (simp add: load_failure_def update_conv')

lemma record_failure_new:
  assumes "fr_error_signature f \<noteq> []" and "load_failure s (fr_task_id f) (fr_error_signature f) = Inr None"
  shows "\<exists>t. record_failure f s = (Inr f, t) \<and> load_failure t (fr_task_id f) (fr_error_signature f) = Inr (Some f)"
  using assms by (simp add: record_failure_def Let_def seq_read) (simp add: load_failure_def update_conv')

text \<open>
  Recording the same failure again keeps its first-seen time and counts the retries: after the
  first record and n more, the stored record has retry count n.
\<close>

theorem failure_retries_counted:
  assumes sig: "fr_error_signature f \<noteq> []"
    and new: "load_failure s (fr_task_id f) (fr_error_signature f) = Inr None" and zero: "fr_retry_count f = 0"
  shows "\<exists>r t. record_repeatedly n f s = (Inr r, t) \<and> fr_retry_count r = int n \<and>
    fr_first_seen r = fr_first_seen f \<and> load_failure t (fr_task_id f) (fr_error_signature f) = Inr (Some r)"
proof (induction n)
  case 0
  with record_failure_new[OF sig new] zero show ?case by auto
next
  case (Suc n)
  then obtain r t where r: "record_repeatedly n f s = (Inr r, t)" "fr_retry_count r = int n"
    "fr_first_seen r = fr_first_seen f" "load_failure t (fr_task_id f) (fr_error_signature f) = Inr (Some r)"
    by blast
  from record_failure_found[OF sig r(4)] r show ?case
    by (auto simp: seq_def)
qed

theorem failure_retries_counted_witness:
  "\<exists>r t. record_repeatedly 2 demo_failure (demo_store demo_task) = (Inr r, t) \<and> fr_retry_count r = 2"
  using failure_retries_counted[of demo_failure "demo_store demo_task" 2]
  by (auto simp: demo_failure_def demo_stores load_failure_def)

subsection \<open>Records survive storage\<close>

text \<open>
  Every record the store writes reads back as it was, whatever time the reader would fill in
  for a missing field: run, step, task, evidence, plan and failure records.
\<close>

theorem records_roundtrip:
  "run_from_dict clock (run_to_dict r) = Inr r \<and> step_from_dict clock (step_to_dict st) = Inr st \<and>
   evidence_from_dict clock (evidence_to_dict e) = Inr e \<and> execution_plan_from_dict clock (plan_to_dict p) = Inr p \<and>
   task_from_dict clock (task_to_dict ts) = Inr ts \<and> failure_from_dict clock (failure_to_dict f) = Inr f"
  by simp

end
