(* ===== verification/ControlPlane.thy ===== *)
theory ControlPlane
  imports PyText
begin

text \<open>
  The control plane of \<open>shamsu/control/store.py\<close>: one database that the terminal, the web portal and
  the Telegram bot coordinate through. Its tables are lists of rows; every method is one transaction
  at one instant of an environment, which gives the process that calls it, the clock and the answers
  of the operating system. Instants are microseconds since the epoch: the ISO text the code stores
  parses back to the same instant and sorts like it. A column that another program filled with text
  that is not a time is kept as such.
\<close>

subsection \<open>Rows\<close>

datatype stamp = At int | Unreadable string

record lease =
  le_workspace :: string
  le_session :: string
  le_pid :: int
  le_surface :: string
  le_heartbeat :: stamp

record queued =
  qu_id :: nat
  qu_workspace :: string
  qu_session :: string
  qu_source :: string
  qu_text :: string
  qu_status :: string
  qu_claimed_by :: int
  qu_created :: int
  qu_updated :: int

record approval =
  ap_id :: string
  ap_workspace :: string
  ap_session :: string
  ap_run_id :: string
  ap_action :: string
  ap_description :: string
  ap_risk :: string
  ap_preview :: string
  ap_created :: int
  ap_expires :: stamp
  ap_decision :: string
  ap_decided_by :: string

record control =
  ct_leases :: "lease list"
  ct_queue :: "queued list"
  ct_next :: nat
  ct_approvals :: "approval list"

text \<open>What a process sees when it calls a method. \<open>os.kill(pid, 0)\<close> has four outcomes.\<close>

datatype kill_result = Signalled | NoSuchProcess | NotPermitted | OtherOSError

record env =
  en_pid :: int
  en_now :: int
  en_psutil :: "int \<Rightarrow> bool option"
  en_windows :: bool
  en_kill :: "int \<Rightarrow> kill_result"
  en_resolve :: "string \<Rightarrow> string"
  en_uuid :: string

definition QUEUED :: string where "QUEUED = ''queued''"
definition RUNNING :: string where "RUNNING = ''running''"
definition DONE :: string where "DONE = ''done''"
definition CANCELLED :: string where "CANCELLED = ''cancelled''"
definition ALLOW :: string where "ALLOW = ''allow''"
definition DENY :: string where "DENY = ''deny''"
definition MACHINE_KEY :: string where "MACHINE_KEY = ''*machine*''"

definition second :: int where "second = 1000000"

definition LEASE_STALE :: int where "LEASE_STALE = 90 * second"

definition LEASE_HEARTBEAT :: int where "LEASE_HEARTBEAT = 20 * second"

definition key_of :: "env \<Rightarrow> string \<Rightarrow> string" where
  "key_of env workspace = (if workspace = MACHINE_KEY then MACHINE_KEY else en_resolve env workspace)"

definition pid_alive :: "env \<Rightarrow> int \<Rightarrow> bool" where
  "pid_alive env pid =
     (if pid \<le> 0 then False
      else case en_psutil env pid of
        Some b \<Rightarrow> b
      | None \<Rightarrow>
          if en_windows env then True
          else (case en_kill env pid of NoSuchProcess \<Rightarrow> False | NotPermitted \<Rightarrow> True
                | OtherOSError \<Rightarrow> True | Signalled \<Rightarrow> True))"

text \<open>\<open>_age_seconds\<close>: the age of an unreadable stamp is infinite.\<close>

definition age :: "env \<Rightarrow> stamp \<Rightarrow> int option" where
  "age env st = (case st of At t \<Rightarrow> Some (en_now env - t) | Unreadable _ \<Rightarrow> None)"

definition lease_is_live :: "env \<Rightarrow> lease \<Rightarrow> bool" where
  "lease_is_live env l \<longleftrightarrow> pid_alive env (le_pid l) \<and>
     (case age env (le_heartbeat l) of Some a \<Rightarrow> a \<le> LEASE_STALE | None \<Rightarrow> False)"

definition expired :: "env \<Rightarrow> approval \<Rightarrow> bool" where
  "expired env a = (if ap_decision a \<noteq> [] then False
     else case ap_expires a of At t \<Rightarrow> t \<le> en_now env | Unreadable _ \<Rightarrow> False)"

subsection \<open>Leases\<close>

definition lease_at :: "string \<Rightarrow> string \<Rightarrow> lease \<Rightarrow> bool" where
  "lease_at k sid l \<longleftrightarrow> le_workspace l = k \<and> le_session l = sid"

definition lease_row :: "control \<Rightarrow> string \<Rightarrow> string \<Rightarrow> lease option" where
  "lease_row s k sid = find (lease_at k sid) (ct_leases s)"

definition lease_holder :: "env \<Rightarrow> string \<Rightarrow> string \<Rightarrow> control \<Rightarrow> lease option" where
  "lease_holder env workspace sid s = (case lease_row s (key_of env workspace) sid of
     None \<Rightarrow> None
   | Some l \<Rightarrow> if lease_is_live env l then Some l else None)"

text \<open>\<open>INSERT ... ON CONFLICT(workspace, session_id) DO UPDATE\<close>.\<close>

fun upsert_lease :: "lease \<Rightarrow> lease list \<Rightarrow> lease list" where
  "upsert_lease l [] = [l]"
| "upsert_lease l (r # rs) =
     (if lease_at (le_workspace l) (le_session l) r
      then r\<lparr>le_pid := le_pid l, le_surface := le_surface l, le_heartbeat := le_heartbeat l\<rparr> # rs
      else r # upsert_lease l rs)"

definition acquire_lease :: "env \<Rightarrow> string \<Rightarrow> string \<Rightarrow> string \<Rightarrow> bool \<Rightarrow> control \<Rightarrow> bool \<times> control" where
  "acquire_lease env workspace sid surface reentrant s =
     (let k = key_of env workspace;
          refused = (case lease_row s k sid of
            Some l \<Rightarrow> lease_is_live env l \<and> (le_pid l \<noteq> en_pid env \<or> \<not> reentrant)
          | None \<Rightarrow> False)
      in if refused then (False, s)
         else (True, s\<lparr>ct_leases := upsert_lease \<lparr>le_workspace = k, le_session = sid,
                le_pid = en_pid env, le_surface = surface, le_heartbeat = At (en_now env)\<rparr> (ct_leases s)\<rparr>))"

definition mine :: "env \<Rightarrow> string \<Rightarrow> string \<Rightarrow> lease \<Rightarrow> bool" where
  "mine env workspace sid l \<longleftrightarrow> lease_at (key_of env workspace) sid l \<and> le_pid l = en_pid env"

definition renew_lease :: "env \<Rightarrow> string \<Rightarrow> string \<Rightarrow> control \<Rightarrow> bool \<times> control" where
  "renew_lease env workspace sid s =
     (list_ex (mine env workspace sid) (ct_leases s),
      s\<lparr>ct_leases := map (\<lambda>l. if mine env workspace sid l then l\<lparr>le_heartbeat := At (en_now env)\<rparr> else l)
         (ct_leases s)\<rparr>)"

definition release_lease :: "env \<Rightarrow> string \<Rightarrow> string \<Rightarrow> control \<Rightarrow> bool \<times> control" where
  "release_lease env workspace sid s =
     (list_ex (mine env workspace sid) (ct_leases s),
      s\<lparr>ct_leases := filter (\<lambda>l. \<not> mine env workspace sid l) (ct_leases s)\<rparr>)"

definition active_leases :: "env \<Rightarrow> control \<Rightarrow> lease list" where
  "active_leases env s = filter (lease_is_live env) (ct_leases s)"

text \<open>\<open>DELETE FROM leases WHERE workspace = ? AND session_id = ?\<close> for each row that is to go.\<close>

definition delete_leases :: "(lease \<Rightarrow> bool) \<Rightarrow> lease list \<Rightarrow> lease list" where
  "delete_leases gone rows =
     fold (\<lambda>l kept. if gone l then filter (\<lambda>x. \<not> lease_at (le_workspace l) (le_session l) x) kept else kept) rows rows"

definition clear_stale_leases :: "env \<Rightarrow> control \<Rightarrow> nat \<times> control" where
  "clear_stale_leases env s =
     (length (filter (\<lambda>l. \<not> lease_is_live env l) (ct_leases s)),
      s\<lparr>ct_leases := delete_leases (\<lambda>l. \<not> lease_is_live env l) (ct_leases s)\<rparr>)"

subsection \<open>The queue\<close>

definition enqueue :: "env \<Rightarrow> string \<Rightarrow> string \<Rightarrow> string \<Rightarrow> string \<Rightarrow> control \<Rightarrow> nat \<times> control" where
  "enqueue env workspace sid text source s =
     (ct_next s, s\<lparr>ct_next := Suc (ct_next s),
        ct_queue := ct_queue s @ [\<lparr>qu_id = ct_next s, qu_workspace = key_of env workspace, qu_session = sid,
          qu_source = source, qu_text = text, qu_status = QUEUED, qu_claimed_by = 0,
          qu_created = en_now env, qu_updated = en_now env\<rparr>]\<rparr>)"

definition waiting :: "string \<Rightarrow> string \<Rightarrow> queued \<Rightarrow> bool" where
  "waiting k sid q \<longleftrightarrow> qu_workspace q = k \<and> qu_session q = sid \<and> qu_status q = QUEUED"

text \<open>\<open>UPDATE queue SET ... WHERE ...\<close>.\<close>

definition update_queue :: "(queued \<Rightarrow> bool) \<Rightarrow> (queued \<Rightarrow> queued) \<Rightarrow> control \<Rightarrow> control" where
  "update_queue P f s = s\<lparr>ct_queue := map (\<lambda>q. if P q then f q else q) (ct_queue s)\<rparr>"

definition claim_next :: "env \<Rightarrow> string \<Rightarrow> string \<Rightarrow> control \<Rightarrow> queued option \<times> control" where
  "claim_next env workspace sid s =
     (case find (waiting (key_of env workspace) sid) (sort_key qu_id (ct_queue s)) of
        None \<Rightarrow> (None, s)
      | Some row \<Rightarrow>
          (let P = (\<lambda>q. qu_id q = qu_id row \<and> qu_status q = QUEUED);
               t = update_queue P (\<lambda>q. q\<lparr>qu_status := RUNNING, qu_claimed_by := en_pid env, qu_updated := en_now env\<rparr>) s
           in if \<not> list_ex P (ct_queue s) then (None, t)
              else (Some (row\<lparr>qu_status := RUNNING\<rparr>), t)))"

definition finish :: "env \<Rightarrow> nat \<Rightarrow> string \<Rightarrow> control \<Rightarrow> control" where
  "finish env i status s =
     update_queue (\<lambda>q. qu_id q = i) (\<lambda>q. q\<lparr>qu_status := status, qu_updated := en_now env\<rparr>) s"

definition cancel_queued :: "env \<Rightarrow> nat \<Rightarrow> control \<Rightarrow> bool \<times> control" where
  "cancel_queued env i s =
     (let P = (\<lambda>q. qu_id q = i \<and> qu_status q = QUEUED)
      in (list_ex P (ct_queue s),
          update_queue P (\<lambda>q. q\<lparr>qu_status := CANCELLED, qu_updated := en_now env\<rparr>) s))"

definition pending :: "env \<Rightarrow> string \<Rightarrow> string \<Rightarrow> control \<Rightarrow> queued list" where
  "pending env workspace sid s = filter (waiting (key_of env workspace) sid) (sort_key qu_id (ct_queue s))"

definition queue_depth :: "env \<Rightarrow> string \<Rightarrow> string \<Rightarrow> control \<Rightarrow> nat" where
  "queue_depth env workspace sid s = length (pending env workspace sid s)"

text \<open>
  Grouping the waiting rows by session and ordering the groups by their smallest id lists the
  sessions by their first occurrence in id order.
\<close>

definition queued_sessions :: "control \<Rightarrow> (string \<times> string) list" where
  "queued_sessions s = uniq (map (\<lambda>q. (qu_workspace q, qu_session q))
     (filter (\<lambda>q. qu_status q = QUEUED) (sort_key qu_id (ct_queue s))))"

definition abandoned :: "env \<Rightarrow> bool \<Rightarrow> control \<Rightarrow> queued \<Rightarrow> bool" where
  "abandoned env include_own s q =
     (case lease_row s (qu_workspace q) (qu_session q) of
        None \<Rightarrow> True
      | Some l \<Rightarrow> \<not> lease_is_live env l \<or> (include_own \<and> le_pid l = en_pid env))"

definition recover_interrupted :: "env \<Rightarrow> bool \<Rightarrow> control \<Rightarrow> queued list \<times> control" where
  "recover_interrupted env include_own s =
     (let gone = filter (abandoned env include_own s) (filter (\<lambda>q. qu_status q = RUNNING) (ct_queue s));
          t = fold (\<lambda>row. update_queue (\<lambda>q. qu_id q = qu_id row)
                (\<lambda>q. q\<lparr>qu_status := CANCELLED, qu_updated := en_now env\<rparr>)) gone s
      in (gone, t\<lparr>ct_leases := delete_leases
            (\<lambda>l. \<not> lease_is_live env l \<or> (include_own \<and> le_pid l = en_pid env)) (ct_leases t)\<rparr>))"

subsection \<open>Approvals\<close>

definition approval_row :: "control \<Rightarrow> string \<Rightarrow> approval option" where
  "approval_row s aid = find (\<lambda>a. ap_id a = aid) (ct_approvals s)"

record question =
  qn_workspace :: string
  qn_session :: string
  qn_run_id :: string
  qn_action :: string
  qn_description :: string
  qn_risk :: string
  qn_preview :: string

definition raise_approval :: "env \<Rightarrow> question \<Rightarrow> int \<Rightarrow> string \<Rightarrow> (control, string) eff" where
  "raise_approval env q timeout approval_id =
     (let aid = (if approval_id = [] then ''approval-'' @ take 16 (en_uuid env) else approval_id)
      in (\<lambda>s. if approval_row s aid \<noteq> None then (Inl (IntegrityError ''approval_id''), s)
         else (Inr aid, s\<lparr>ct_approvals := ct_approvals s @ [\<lparr>ap_id = aid,
           ap_workspace = key_of env (qn_workspace q), ap_session = qn_session q, ap_run_id = qn_run_id q,
           ap_action = qn_action q, ap_description = qn_description q, ap_risk = qn_risk q,
           ap_preview = qn_preview q, ap_created = en_now env, ap_expires = At (en_now env + timeout),
           ap_decision = [], ap_decided_by = []\<rparr>]\<rparr>)))"

definition open_question :: "string \<Rightarrow> approval \<Rightarrow> bool" where
  "open_question aid a \<longleftrightarrow> ap_id a = aid \<and> ap_decision a = []"

definition resolve_approval :: "string \<Rightarrow> string \<Rightarrow> string \<Rightarrow> (control, bool) eff" where
  "resolve_approval aid decision decided_by = (\<lambda>s.
     if decision \<notin> {ALLOW, DENY} then (Inl (ValueError ''decision must be allow or deny''), s)
     else (Inr (list_ex (open_question aid) (ct_approvals s)),
           s\<lparr>ct_approvals := map (\<lambda>a. if open_question aid a
              then a\<lparr>ap_decision := decision, ap_decided_by := decided_by\<rparr> else a) (ct_approvals s)\<rparr>))"

definition pending_approvals :: "env \<Rightarrow> string option \<Rightarrow> string \<Rightarrow> control \<Rightarrow> approval list" where
  "pending_approvals env workspace sid s =
     filter (\<lambda>a. \<not> expired env a)
       (sort_key ap_created
         (filter (\<lambda>a. ap_decision a = [] \<and>
            (case workspace of None \<Rightarrow> True | Some w \<Rightarrow> ap_workspace a = key_of env w) \<and>
            (sid = [] \<or> ap_session a = sid)) (ct_approvals s)))"

fun expire_each :: "env \<Rightarrow> approval list \<Rightarrow> nat \<Rightarrow> (control, nat) eff" where
  "expire_each env [] n = ret n"
| "expire_each env (a # as) n =
     (if expired env a then
        seq (resolve_approval (ap_id a) DENY ''timeout'') (\<lambda>won. expire_each env as (if won then Suc n else n))
      else expire_each env as n)"

definition expire_approvals :: "env \<Rightarrow> (control, nat) eff" where
  "expire_approvals env =
     seq (gets (\<lambda>s. filter (\<lambda>a. ap_decision a = []) (ct_approvals s))) (\<lambda>rows. expire_each env rows 0)"

text \<open>
  What happens around a waiting process: the n-th look at the monotonic clock, whether it is told to
  stop, the environment of its n-th poll, and what the other processes do to the database while it
  sleeps.
\<close>

record outside =
  ou_mono :: "nat \<Rightarrow> int"
  ou_stop :: "nat \<Rightarrow> bool"
  ou_env :: "nat \<Rightarrow> env"
  ou_others :: "nat \<Rightarrow> control \<Rightarrow> control"

text \<open>The loop of \<open>wait_for_decision\<close>; no answer within the fuel is \<open>None\<close>.\<close>

fun wait_loop :: "nat \<Rightarrow> outside \<Rightarrow> int \<Rightarrow> string \<Rightarrow> nat \<Rightarrow> control \<Rightarrow> (string \<times> control) option" where
  "wait_loop 0 w deadline aid n s = None"
| "wait_loop (Suc fuel) w deadline aid n s =
     (let timed_out = Some (DENY, snd (resolve_approval aid DENY ''timeout'' s))
      in if ou_mono w n < deadline \<and> \<not> ou_stop w n then
           (case approval_row s aid of
              None \<Rightarrow> Some (DENY, s)
            | Some a \<Rightarrow>
                if ap_decision a \<noteq> [] then Some (ap_decision a, s)
                else if expired (ou_env w n) a then timed_out
                else wait_loop fuel w deadline aid (Suc n) (ou_others w n s))
         else timed_out)"

definition wait_for_decision :: "nat \<Rightarrow> outside \<Rightarrow> int \<Rightarrow> int \<Rightarrow> string \<Rightarrow> control \<Rightarrow> (string \<times> control) option" where
  "wait_for_decision fuel w started timeout aid s = wait_loop fuel w (started + timeout) aid 0 s"

end
