(* ===== verification/ControlSafety.thy ===== *)
theory ControlSafety
  imports ControlPlane
begin

text \<open>
  The promises of the control plane: its tables keep their primary keys, the lease table is a map
  from threads to leases, an approval has exactly one answer, the wait for it ends and fails closed,
  and a queued prompt is claimed at most once. The promises the callers rely on are the laws of two
  locales, \<open>lease_service\<close> and \<open>approval_board\<close>, both interpreted on the tables.
\<close>

subsection \<open>Keys\<close>

definition lease_key :: "lease \<Rightarrow> string \<times> string" where
  "lease_key l = (le_workspace l, le_session l)"

definition leases_unique :: "control \<Rightarrow> bool" where
  "leases_unique s \<longleftrightarrow> distinct (map lease_key (ct_leases s))"

definition approvals_unique :: "control \<Rightarrow> bool" where
  "approvals_unique s \<longleftrightarrow> distinct (map ap_id (ct_approvals s))"

definition queue_ordered :: "control \<Rightarrow> bool" where
  "queue_ordered s \<longleftrightarrow> sorted (map qu_id (ct_queue s)) \<and> distinct (map qu_id (ct_queue s)) \<and>
     (\<forall>q \<in> set (ct_queue s). qu_id q < ct_next s)"

lemma lease_at_key: "lease_at k sid l \<longleftrightarrow> lease_key l = (k, sid)"
  by (auto simp: lease_at_def lease_key_def)

lemma find_key_map_of: "find (\<lambda>x. f x = k) xs = map_of (map (\<lambda>x. (f x, x)) xs) k"
  by (induction xs) auto

lemma lease_row_map_of: "lease_row s k sid = map_of (map (\<lambda>l. (lease_key l, l)) (ct_leases s)) (k, sid)"
  unfolding lease_row_def lease_at_key[abs_def] by (rule find_key_map_of)

lemma lease_key_update [simp]:
  "lease_key (r\<lparr>le_pid := p\<rparr>) = lease_key r"
  "lease_key (r\<lparr>le_surface := sf\<rparr>) = lease_key r"
  "lease_key (r\<lparr>le_heartbeat := h\<rparr>) = lease_key r"
  "lease_at (le_workspace l) (le_session l) r \<longleftrightarrow> lease_key r = lease_key l"
  by (auto simp: lease_key_def lease_at_def)

lemma upsert_lease_find:
  "find (\<lambda>x. lease_key x = k) (upsert_lease l rows) =
     (if lease_key l = k then Some (case find (\<lambda>x. lease_key x = k) rows of
          Some r \<Rightarrow> r\<lparr>le_pid := le_pid l, le_surface := le_surface l, le_heartbeat := le_heartbeat l\<rparr>
        | None \<Rightarrow> l)
      else find (\<lambda>x. lease_key x = k) rows)"
  by (induction rows) auto

lemma upsert_lease_keys:
  "map lease_key (upsert_lease l rows) =
     (if lease_key l \<in> lease_key ` set rows then map lease_key rows else map lease_key rows @ [lease_key l])"
  by (induction rows) auto

lemma find_filter:
  "distinct (map f rows) \<Longrightarrow> find (\<lambda>x. f x = k) (filter P rows) =
     (case find (\<lambda>x. f x = k) rows of Some r \<Rightarrow> if P r then Some r else None | None \<Rightarrow> None)"
proof (induction rows)
  case (Cons r rows)
  have none: "f r = k \<Longrightarrow> find (\<lambda>x. f x = k) rows = None"
    using Cons.prems by (auto simp: find_None_iff image_iff)
  from Cons none show ?case
    by (cases "f r = k") (auto split: option.splits)
qed simp

lemma find_map_same:
  "(\<And>x. f (g x) = f x) \<Longrightarrow> find (\<lambda>x. f x = k) (map g rows) = map_option g (find (\<lambda>x. f x = k) rows)"
  by (induction rows) auto

lemma distinct_filter_map: "distinct (map f rows) \<Longrightarrow> distinct (map f (filter P rows))"
  by (rule distinct_map_filter)

lemma delete_leases_filter:
  "delete_leases gone rows = filter (\<lambda>x. \<not> (\<exists>l \<in> set rows. gone l \<and> lease_key l = lease_key x)) rows"
proof -
  have "fold (\<lambda>l kept. if gone l then filter (\<lambda>x. \<not> lease_at (le_workspace l) (le_session l) x) kept else kept) ls rows
    = filter (\<lambda>x. \<not> (\<exists>l \<in> set ls. gone l \<and> lease_key l = lease_key x)) rows" for ls rows
  proof (induction ls arbitrary: rows)
    case (Cons l ls)
    show ?case
      by (simp add: Cons.IH lease_at_key lease_key_def) (auto intro!: filter_cong)
  qed simp
  then show ?thesis by (simp add: delete_leases_def)
qed

lemma delete_leases_unique:
  assumes "distinct (map lease_key rows)"
  shows "delete_leases gone rows = filter (\<lambda>l. \<not> gone l) rows"
  unfolding delete_leases_filter
  by (rule filter_cong[OF refl]) (use assms in \<open>auto simp: distinct_map dest: inj_onD\<close>)

subsection \<open>The lease table is a map\<close>

locale lease_service =
  fixes inv :: "'s \<Rightarrow> bool"
    and row :: "'s \<Rightarrow> string \<Rightarrow> string \<Rightarrow> lease option"
    and acquire :: "env \<Rightarrow> string \<Rightarrow> string \<Rightarrow> string \<Rightarrow> bool \<Rightarrow> 's \<Rightarrow> bool \<times> 's"
    and renew :: "env \<Rightarrow> string \<Rightarrow> string \<Rightarrow> 's \<Rightarrow> bool \<times> 's"
    and release :: "env \<Rightarrow> string \<Rightarrow> string \<Rightarrow> 's \<Rightarrow> bool \<times> 's"
  assumes inv_acquire: "inv s \<Longrightarrow> inv (snd (acquire env w sid sf re s))"
    and inv_renew: "inv s \<Longrightarrow> inv (snd (renew env w sid s))"
    and inv_release: "inv s \<Longrightarrow> inv (snd (release env w sid s))"
    and acquire_iff: "fst (acquire env w sid sf re s) \<longleftrightarrow>
      (\<forall>l. row s (key_of env w) sid = Some l \<longrightarrow> lease_is_live env l \<longrightarrow> le_pid l = en_pid env \<and> re)"
    and acquire_row: "row (snd (acquire env w sid sf re s)) k x =
      (if fst (acquire env w sid sf re s) \<and> k = key_of env w \<and> x = sid
       then Some \<lparr>le_workspace = k, le_session = x, le_pid = en_pid env, le_surface = sf,
              le_heartbeat = At (en_now env)\<rparr>
       else row s k x)"
    and renew_row: "row (snd (renew env w sid s)) k x =
      map_option (\<lambda>l. if k = key_of env w \<and> x = sid \<and> le_pid l = en_pid env
        then l\<lparr>le_heartbeat := At (en_now env)\<rparr> else l) (row s k x)"
    and release_row: "inv s \<Longrightarrow> row (snd (release env w sid s)) k x =
      (case row s k x of None \<Rightarrow> None
       | Some l \<Rightarrow> if k = key_of env w \<and> x = sid \<and> le_pid l = en_pid env then None else Some l)"
begin

definition holds :: "'s \<Rightarrow> int \<Rightarrow> string \<Rightarrow> string \<Rightarrow> bool" where
  "holds s p k x \<longleftrightarrow> (\<exists>l. row s k x = Some l \<and> le_pid l = p)"

lemma acquire_won: "fst (acquire env w sid sf re s) \<Longrightarrow>
    holds (snd (acquire env w sid sf re s)) (en_pid env) (key_of env w) sid"
  by (simp add: holds_def acquire_row)

lemma held_is_refused:
  assumes "row s (key_of env w) sid = Some l" and "lease_is_live env l" and "le_pid l \<noteq> en_pid env"
  shows "\<not> fst (acquire env w sid sf re s)" and "row (snd (acquire env w sid sf re s)) = row s"
proof -
  show "\<not> fst (acquire env w sid sf re s)" using assms by (auto simp: acquire_iff)
  then show "row (snd (acquire env w sid sf re s)) = row s" by (auto simp: acquire_row fun_eq_iff)
qed

lemma foreign_renew_keeps:
  "row s k x = Some l \<Longrightarrow> le_pid l \<noteq> en_pid env \<Longrightarrow> row (snd (renew env w sid s)) k x = Some l"
  by (simp add: renew_row)

lemma foreign_release_keeps:
  "inv s \<Longrightarrow> row s k x = Some l \<Longrightarrow> le_pid l \<noteq> en_pid env \<Longrightarrow> row (snd (release env w sid s)) k x = Some l"
  by (simp add: release_row)

lemma released: "inv s \<Longrightarrow> \<not> holds (snd (release env w sid s)) (en_pid env) (key_of env w) sid"
  by (auto simp: holds_def release_row split: option.splits)

end

lemma lease_row_key: "lease_row s k x = find (\<lambda>l. lease_key l = (k, x)) (ct_leases s)"
  by (simp add: lease_row_def lease_at_key[abs_def])

lemma lease_overwritten:
  "lease_key r = lease_key l \<Longrightarrow>
     r\<lparr>le_pid := le_pid l, le_surface := le_surface l, le_heartbeat := le_heartbeat l\<rparr> = (l :: lease)"
  by (cases r; cases l) (simp add: lease_key_def)

lemma lease_row_upsert:
  "lease_row (s\<lparr>ct_leases := upsert_lease l (ct_leases s)\<rparr>) k x =
     (if lease_key l = (k, x) then Some l else lease_row s k x)"
  by (auto simp: lease_row_key upsert_lease_find lease_overwritten find_Some_iff split: option.splits)

lemma leases_unique_upsert: "leases_unique s \<Longrightarrow> leases_unique (s\<lparr>ct_leases := upsert_lease l (ct_leases s)\<rparr>)"
  by (auto simp: leases_unique_def upsert_lease_keys)

lemma mine_key: "mine env w sid l \<longleftrightarrow> lease_key l = (key_of env w, sid) \<and> le_pid l = en_pid env"
  by (simp add: mine_def lease_at_key)

lemma lease_row_found: "lease_row s k x = Some l \<Longrightarrow> lease_key l = (k, x)"
  by (auto simp: lease_row_key find_Some_iff)

lemma lease_row_release:
  assumes "leases_unique s"
  shows "lease_row (snd (release_lease env w sid s)) k x =
    (case lease_row s k x of None \<Rightarrow> None
     | Some l \<Rightarrow> if k = key_of env w \<and> x = sid \<and> le_pid l = en_pid env then None else Some l)"
proof -
  have "lease_row (snd (release_lease env w sid s)) k x =
      (case lease_row s k x of Some r \<Rightarrow> if \<not> mine env w sid r then Some r else None | None \<Rightarrow> None)"
    unfolding lease_row_key release_lease_def
    by (simp add: find_filter[OF assms[unfolded leases_unique_def]])
  then show ?thesis
    by (cases "lease_row s k x") (auto simp: mine_key dest: lease_row_found)
qed

lemma lease_row_renew:
  "lease_row (snd (renew_lease env w sid s)) k x =
    map_option (\<lambda>l. if k = key_of env w \<and> x = sid \<and> le_pid l = en_pid env
      then l\<lparr>le_heartbeat := At (en_now env)\<rparr> else l) (lease_row s k x)"
proof -
  have "lease_row (snd (renew_lease env w sid s)) k x =
      map_option (\<lambda>l. if mine env w sid l then l\<lparr>le_heartbeat := At (en_now env)\<rparr> else l) (lease_row s k x)"
    unfolding lease_row_key renew_lease_def by (simp add: find_map_same)
  then show ?thesis
    by (cases "lease_row s k x") (auto simp: mine_key dest: lease_row_found)
qed

interpretation leases: lease_service leases_unique lease_row acquire_lease renew_lease release_lease
proof unfold_locales
  fix env w sid sf re k x and s :: control
  show "leases_unique s \<Longrightarrow> leases_unique (snd (acquire_lease env w sid sf re s))"
    by (simp add: acquire_lease_def Let_def leases_unique_upsert)
  show "leases_unique s \<Longrightarrow> leases_unique (snd (renew_lease env w sid s))"
    by (simp add: leases_unique_def renew_lease_def comp_def if_distrib cong: if_cong)
  show "leases_unique s \<Longrightarrow> leases_unique (snd (release_lease env w sid s))"
    by (simp add: leases_unique_def release_lease_def distinct_filter_map)
  show "fst (acquire_lease env w sid sf re s) \<longleftrightarrow>
      (\<forall>l. lease_row s (key_of env w) sid = Some l \<longrightarrow> lease_is_live env l \<longrightarrow> le_pid l = en_pid env \<and> re)"
    by (auto simp: acquire_lease_def Let_def split: option.splits)
  show "lease_row (snd (acquire_lease env w sid sf re s)) k x =
      (if fst (acquire_lease env w sid sf re s) \<and> k = key_of env w \<and> x = sid
       then Some \<lparr>le_workspace = k, le_session = x, le_pid = en_pid env, le_surface = sf,
              le_heartbeat = At (en_now env)\<rparr>
       else lease_row s k x)"
    by (simp add: acquire_lease_def Let_def lease_row_upsert) (auto simp: lease_key_def)
  show "lease_row (snd (renew_lease env w sid s)) k x =
      map_option (\<lambda>l. if k = key_of env w \<and> x = sid \<and> le_pid l = en_pid env
        then l\<lparr>le_heartbeat := At (en_now env)\<rparr> else l) (lease_row s k x)"
    by (rule lease_row_renew)
qed (rule lease_row_release)

subsection \<open>An approval has one answer\<close>

text \<open>Several surfaces answering one question in turn; each learns whether its answer counted.\<close>

fun answers :: "(string \<Rightarrow> string \<Rightarrow> string \<Rightarrow> ('s, bool) eff) \<Rightarrow> string \<Rightarrow> (string \<times> string) list \<Rightarrow>
    's \<Rightarrow> bool list \<times> 's" where
  "answers answer aid [] s = ([], s)"
| "answers answer aid ((d, who) # rest) s =
     (let (won, t) = answer aid d who s; (wins, u) = answers answer aid rest t
      in ((won = Inr True) # wins, u))"

text \<open>
  The contract of a board of questions: the first answer to an open question is recorded and wins;
  every later one loses and changes nothing.
\<close>

locale approval_board =
  fixes inv :: "'s \<Rightarrow> bool"
    and answer :: "string \<Rightarrow> string \<Rightarrow> string \<Rightarrow> ('s, bool) eff"
    and decision :: "'s \<Rightarrow> string \<Rightarrow> string option"
  assumes inv_answer: "inv s \<Longrightarrow> inv (snd (answer aid d who s))"
    and answer_wins: "inv s \<Longrightarrow> d \<in> {ALLOW, DENY} \<Longrightarrow> fst (answer aid d who s) = Inr (decision s aid = Some [])"
    and answer_records: "inv s \<Longrightarrow> d \<in> {ALLOW, DENY} \<Longrightarrow> decision (snd (answer aid d who s)) x =
      (if x = aid \<and> decision s aid = Some [] then Some d else decision s x)"
begin

lemma decided_answers:
  "inv s \<Longrightarrow> decision s aid = Some d \<Longrightarrow> d \<noteq> [] \<Longrightarrow> \<forall>(x, _) \<in> set as. x \<in> {ALLOW, DENY} \<Longrightarrow>
     answers answer aid as s = (map (\<lambda>_. False) as, snd (answers answer aid as s)) \<and> decision (snd (answers answer aid as s)) aid = Some d"
proof (induction as arbitrary: s)
  case (Cons a as)
  obtain x who where a: "a = (x, who)" by (cases a)
  obtain won t where run: "answer aid x who s = (won, t)" by (cases "answer aid x who s")
  have ok: "x \<in> {ALLOW, DENY}" using Cons.prems(4) a by simp
  have "won = Inr False" and "decision t aid = Some d" and "inv t"
    using answer_wins[OF Cons.prems(1) ok, of aid who] answer_records[OF Cons.prems(1) ok, of aid who aid]
      inv_answer[OF Cons.prems(1), of aid x who] Cons.prems(2,3) by (simp_all add: run)
  with Cons.IH[of t] Cons.prems(3,4) show ?case
    by (cases "answers answer aid as t") (simp add: a run)
qed simp

lemma one_winner:
  assumes "inv s" and "decision s aid = Some []" and "\<forall>(x, _) \<in> set ((d, who) # as). x \<in> {ALLOW, DENY}"
  shows "fst (answers answer aid ((d, who) # as) s) = True # map (\<lambda>_. False) as \<and>
    decision (snd (answers answer aid ((d, who) # as) s)) aid = Some d"
proof -
  obtain won t where run: "answer aid d who s = (won, t)" by (cases "answer aid d who s")
  have d: "d \<in> {ALLOW, DENY}" using assms(3) by simp
  have "won = Inr True" and "decision t aid = Some d" and "inv t"
    using answer_wins[OF assms(1) d, of aid who] answer_records[OF assms(1) d, of aid who aid]
      inv_answer[OF assms(1), of aid d who] assms(2) by (simp_all add: run)
  moreover have "d \<noteq> []" using d by (auto simp: ALLOW_def DENY_def)
  ultimately show ?thesis
    using decided_answers[of t aid d as] assms(3) by (cases "answers answer aid as t") (simp add: run)
qed

end

definition recorded :: "control \<Rightarrow> string \<Rightarrow> string option" where
  "recorded s aid = map_option ap_decision (approval_row s aid)"

lemma approval_row_find: "approval_row s aid = find (\<lambda>a. ap_id a = aid) (ct_approvals s)"
  by (simp add: approval_row_def)

lemma approval_row_id: "approval_row s x = Some a \<Longrightarrow> ap_id a = x"
  by (auto simp: approval_row_def find_Some_iff)

lemma answered_id [simp]: "ap_id (if open_question aid a then a\<lparr>ap_decision := d, ap_decided_by := w\<rparr> else a) = ap_id a"
  by simp

lemma approvals_unique_map:
  "(\<And>a. ap_id (f a) = ap_id a) \<Longrightarrow> approvals_unique (s\<lparr>ct_approvals := map f (ct_approvals s)\<rparr>) = approvals_unique s"
  by (simp add: approvals_unique_def comp_def)

lemma approval_row_map:
  "(\<And>a. ap_id (f a) = ap_id a) \<Longrightarrow>
     approval_row (s\<lparr>ct_approvals := map f (ct_approvals s)\<rparr>) x = map_option f (approval_row s x)"
  by (simp add: approval_row_def find_map_same)

lemma resolve_row:
  assumes "d \<in> {ALLOW, DENY}"
  shows "approval_row (snd (resolve_approval aid d who s)) x =
    map_option (\<lambda>a. if open_question aid a then a\<lparr>ap_decision := d, ap_decided_by := who\<rparr> else a) (approval_row s x)"
  using assms by (simp add: resolve_approval_def approval_row_map)

lemma list_ex_find:
  "distinct (map f rows) \<Longrightarrow> list_ex (\<lambda>a. f a = k \<and> P a) rows \<longleftrightarrow>
     (\<exists>a. find (\<lambda>a. f a = k) rows = Some a \<and> P a)"
proof (induction rows)
  case (Cons r rows)
  have none: "f r = k \<Longrightarrow> \<not> list_ex (\<lambda>a. f a = k \<and> P a) rows"
    using Cons.prems by (auto simp: list_ex_iff image_iff)
  from Cons none show ?case by (cases "f r = k") simp_all
qed simp

lemma resolve_wins:
  assumes "approvals_unique s" and "d \<in> {ALLOW, DENY}"
  shows "fst (resolve_approval aid d who s) = Inr (recorded s aid = Some [])"
proof -
  have "list_ex (open_question aid) (ct_approvals s) \<longleftrightarrow> recorded s aid = Some []"
    using list_ex_find[OF assms(1)[unfolded approvals_unique_def], of aid "\<lambda>a. ap_decision a = []"]
    by (auto simp: recorded_def approval_row_def open_question_def[abs_def])
  with assms(2) show ?thesis by (auto simp: resolve_approval_def)
qed

interpretation board: approval_board approvals_unique resolve_approval recorded
proof unfold_locales
  fix s :: control and d aid who x
  show "approvals_unique s \<Longrightarrow> approvals_unique (snd (resolve_approval aid d who s))"
    by (simp add: resolve_approval_def approvals_unique_map)
  show "approvals_unique s \<Longrightarrow> d \<in> {ALLOW, DENY} \<Longrightarrow> recorded (snd (resolve_approval aid d who s)) x =
      (if x = aid \<and> recorded s aid = Some [] then Some d else recorded s x)"
    by (cases "approval_row s x")
      (auto simp: recorded_def resolve_row open_question_def dest: approval_row_id)
qed (rule resolve_wins)

subsection \<open>Steps of the control plane\<close>

text \<open>
  Every method call of every process that writes. \<open>finish\<close> is called with \<open>done\<close> and \<open>cancelled\<close> only.
\<close>

inductive control_step :: "control \<Rightarrow> control \<Rightarrow> bool" where
  ctl_acquire: "control_step s (snd (acquire_lease env w sid sf re s))"
| ctl_renew: "control_step s (snd (renew_lease env w sid s))"
| ctl_release: "control_step s (snd (release_lease env w sid s))"
| ctl_clear: "control_step s (snd (clear_stale_leases env s))"
| ctl_enqueue: "control_step s (snd (enqueue env w sid txt src s))"
| ctl_claim: "control_step s (snd (claim_next env w sid s))"
| ctl_finish: "st \<in> {DONE, CANCELLED} \<Longrightarrow> control_step s (finish env i st s)"
| ctl_cancel: "control_step s (snd (cancel_queued env i s))"
| ctl_recover: "control_step s (snd (recover_interrupted env own s))"
| ctl_raise: "control_step s (snd (raise_approval env q timeout aid s))"
| ctl_resolve: "control_step s (snd (resolve_approval aid d who s))"
| ctl_expire: "control_step s (snd (expire_approvals env s))"

text \<open>What the leases and the queue methods leave of the approvals, and the other way round.\<close>

lemma fold_update_queue_approvals:
  "ct_approvals (fold (\<lambda>row. update_queue (P row) (f row)) rows s) = ct_approvals s"
  "ct_leases (fold (\<lambda>row. update_queue (P row) (f row)) rows s) = ct_leases s"
  "ct_next (fold (\<lambda>row. update_queue (P row) (f row)) rows s) = ct_next s"
  by (induction rows arbitrary: s) (simp_all add: update_queue_def)

lemma approvals_frame [simp]:
  "ct_approvals (snd (acquire_lease env w sid sf re s)) = ct_approvals s"
  "ct_approvals (snd (renew_lease env w sid s)) = ct_approvals s"
  "ct_approvals (snd (release_lease env w sid s)) = ct_approvals s"
  "ct_approvals (snd (clear_stale_leases env s)) = ct_approvals s"
  "ct_approvals (snd (enqueue env w sid txt src s)) = ct_approvals s"
  "ct_approvals (snd (claim_next env w sid s)) = ct_approvals s"
  "ct_approvals (finish env i st s) = ct_approvals s"
  "ct_approvals (snd (cancel_queued env i s)) = ct_approvals s"
  "ct_approvals (snd (recover_interrupted env own s)) = ct_approvals s"
  by (simp_all add: acquire_lease_def renew_lease_def release_lease_def clear_stale_leases_def enqueue_def
      claim_next_def finish_def cancel_queued_def recover_interrupted_def update_queue_def Let_def
      fold_update_queue_approvals split: option.splits)

text \<open>Decisions only appear: an open question may be answered, an answer stays.\<close>

definition decisions_kept :: "control \<Rightarrow> control \<Rightarrow> bool" where
  "decisions_kept s t \<longleftrightarrow> (approvals_unique s \<longrightarrow> approvals_unique t) \<and>
     (\<forall>aid. (recorded s aid \<noteq> None \<longrightarrow> recorded t aid \<noteq> None) \<and>
        (\<forall>d. d \<noteq> [] \<longrightarrow> recorded s aid = Some d \<longrightarrow> recorded t aid = Some d))"

lemma decisions_kept_same: "ct_approvals t = ct_approvals s \<Longrightarrow> decisions_kept s t"
  by (simp add: decisions_kept_def approvals_unique_def recorded_def approval_row_def)

interpretation decisions: evolution decisions_kept
proof unfold_locales
  fix s t u :: control
  show "decisions_kept s s" by (rule decisions_kept_same) simp
  show "decisions_kept s t \<Longrightarrow> decisions_kept t u \<Longrightarrow> decisions_kept s u"
    by (simp add: decisions_kept_def)
qed

lemma decisions_kept_resolve: "evolves decisions_kept (resolve_approval aid d who) s"
proof (cases "d \<in> {ALLOW, DENY}")
  case True
  have "recorded (snd (resolve_approval aid d who s)) x =
      (case approval_row s x of None \<Rightarrow> None
       | Some a \<Rightarrow> Some (if open_question aid a then d else ap_decision a))" for x
    by (simp add: recorded_def resolve_row[OF True] split: option.splits)
  moreover have "approvals_unique s \<Longrightarrow> approvals_unique (snd (resolve_approval aid d who s))"
    by (rule board.inv_answer)
  ultimately show ?thesis
    by (auto simp: evolves_def decisions_kept_def recorded_def open_question_def split: option.splits if_splits)
next
  case False
  then show ?thesis by (simp add: evolves_def resolve_approval_def decisions.refl_R)
qed

lemma decisions_kept_expire: "evolves decisions_kept (expire_each env as n) s"
proof (induction as arbitrary: n s)
  case Nil
  then show ?case by (simp add: evolves_def decisions.refl_R)
next
  case (Cons a as)
  then show ?case by (auto intro!: decisions.evolves_seq decisions_kept_resolve)
qed

lemma find_append: "find P (xs @ ys) = (case find P xs of None \<Rightarrow> find P ys | Some x \<Rightarrow> Some x)"
  by (induction xs) auto

lemma decisions_kept_append:
  assumes "approval_row s (ap_id a) = None" and "ct_approvals t = ct_approvals s @ [a]"
  shows "decisions_kept s t"
proof -
  have row: "approval_row t x = (case approval_row s x of None \<Rightarrow> if ap_id a = x then Some a else None | Some b \<Rightarrow> Some b)" for x
    by (simp add: approval_row_def assms(2) find_append split: option.splits)
  have "ap_id a \<notin> ap_id ` set (ct_approvals s)"
    using assms(1) by (auto simp: approval_row_def find_None_iff)
  then have "approvals_unique s \<longrightarrow> approvals_unique t" by (simp add: approvals_unique_def assms(2))
  with row show ?thesis by (auto simp: decisions_kept_def recorded_def)
qed

lemma decisions_kept_raise: "evolves decisions_kept (raise_approval env q timeout aid) s"
  unfolding evolves_def raise_approval_def Let_def
  by (auto simp: decisions.refl_R intro!: decisions_kept_append)

lemma control_step_decisions: "control_step s t \<Longrightarrow> decisions_kept s t"
  by (induction rule: control_step.induct)
    (simp_all add: decisions_kept_same decisions_kept_raise[unfolded evolves_def]
      decisions_kept_resolve[unfolded evolves_def] expire_approvals_def
      decisions_kept_expire[unfolded evolves_def])

lemma control_steps_decisions: "control_step\<^sup>*\<^sup>* s t \<Longrightarrow> decisions_kept s t"
  by (induction rule: rtranclp_induct) (auto intro: decisions.refl_R decisions.trans_R control_step_decisions)

subsection \<open>Waiting for an answer\<close>

lemma wait_loop_answer:
  "wait_loop fuel w deadline aid n s = Some (d, t) \<Longrightarrow> d = DENY \<or> recorded t aid = Some d"
  by (induction fuel w deadline aid n s rule: wait_loop.induct)
    (auto simp: Let_def recorded_def split: if_splits option.splits)

lemma wait_loop_closes:
  assumes "wait_loop fuel w deadline aid n s = Some (d, t)" and "approvals_unique s"
    and "\<And>n s. control_step\<^sup>*\<^sup>* s (ou_others w n s)"
  shows "recorded t aid \<noteq> Some []"
  using assms
proof (induction fuel w deadline aid n s rule: wait_loop.induct)
  case (2 fuel w deadline aid n s)
  have timed_out: "recorded (snd (resolve_approval aid DENY ''timeout'' s)) aid \<noteq> Some []"
    using board.answer_records[OF "2.prems"(2), of DENY aid "''timeout''" aid] by (auto simp: DENY_def)
  have kept: "approvals_unique (ou_others w n s)"
    using control_steps_decisions[OF "2.prems"(3)[of s n]] "2.prems"(2) by (simp add: decisions_kept_def)
  show ?case
  proof (cases "ou_mono w n < deadline \<and> \<not> ou_stop w n")
    case False
    with "2.prems"(1) timed_out show ?thesis by auto
  next
    case go: True
    show ?thesis
    proof (cases "approval_row s aid")
      case None
      with "2.prems"(1) go show ?thesis by (auto simp: recorded_def)
    next
      case (Some a)
      show ?thesis
      proof (cases "ap_decision a = [] \<and> \<not> expired (ou_env w n) a")
        case True
        with "2.prems"(1) go Some have "wait_loop fuel w deadline aid (Suc n) (ou_others w n s) = Some (d, t)"
          by simp
        from "2.IH"[OF refl go Some _ _ this kept "2.prems"(3)] True show ?thesis by simp
      next
        case False
        with "2.prems"(1) go Some timed_out show ?thesis by (auto simp: recorded_def split: if_splits)
      qed
    qed
  qed
qed simp

lemma wait_loop_returns:
  "(\<And>n. ou_mono w n \<le> ou_mono w (Suc n)) \<Longrightarrow> deadline \<le> ou_mono w (n + k) \<Longrightarrow>
     \<exists>r. wait_loop (Suc k) w deadline aid n s = Some r"
proof (induction k arbitrary: n s)
  case 0
  then show ?case by simp
next
  case (Suc k)
  then have "\<exists>r. wait_loop (Suc k) w deadline aid (Suc n) (ou_others w n s) = Some r"
    by simp
  then show ?case by (subst wait_loop.simps) (auto simp del: wait_loop.simps simp: Let_def split: option.splits)
qed

lemma clock_runs:
  "(\<And>n. ou_mono w n + poll \<le> ou_mono w (Suc n)) \<Longrightarrow> ou_mono w 0 + int n * poll \<le> ou_mono w n"
proof (induction n)
  case (Suc n)
  from Suc.IH[OF Suc.prems] Suc.prems[of n] show ?case by (simp add: algebra_simps)
qed simp

subsection \<open>Prompts are claimed once, in order\<close>

definition settled :: "nat \<Rightarrow> control \<Rightarrow> bool" where
  "settled i s \<longleftrightarrow> i < ct_next s \<and> (\<forall>q \<in> set (ct_queue s). qu_id q = i \<longrightarrow> qu_status q \<noteq> QUEUED)"

lemma statuses_distinct [simp]: "RUNNING \<noteq> QUEUED" "DONE \<noteq> QUEUED" "CANCELLED \<noteq> QUEUED" "QUEUED \<noteq> RUNNING"
  "QUEUED \<noteq> DONE" "QUEUED \<noteq> CANCELLED"
  by (simp_all add: RUNNING_def DONE_def CANCELLED_def QUEUED_def)

lemma settled_update:
  assumes "settled i s" and "\<And>q. qu_id (f q) = qu_id q" and "\<And>q. qu_status (f q) \<noteq> QUEUED"
  shows "settled i (update_queue P f s)"
  using assms by (auto simp: settled_def update_queue_def)

lemma settled_fold:
  "settled i s \<Longrightarrow> settled i (fold (\<lambda>row. update_queue (\<lambda>q. qu_id q = qu_id row)
     (\<lambda>q. q\<lparr>qu_status := CANCELLED, qu_updated := t\<rparr>)) rows s)"
  by (induction rows arbitrary: s) (simp_all add: settled_update)

lemma settled_cong: "ct_queue t = ct_queue s \<Longrightarrow> ct_next t = ct_next s \<Longrightarrow> settled i t = settled i s"
  by (simp add: settled_def)

lemma queue_frame [simp]:
  "ct_queue (snd (resolve_approval aid d who s)) = ct_queue s" "ct_next (snd (resolve_approval aid d who s)) = ct_next s"
  "ct_queue (snd (raise_approval env q timeout aid s)) = ct_queue s"
  "ct_next (snd (raise_approval env q timeout aid s)) = ct_next s"
  "ct_queue (snd (acquire_lease env w sid sf re s)) = ct_queue s" "ct_next (snd (acquire_lease env w sid sf re s)) = ct_next s"
  "ct_queue (snd (renew_lease env w sid s)) = ct_queue s" "ct_next (snd (renew_lease env w sid s)) = ct_next s"
  "ct_queue (snd (release_lease env w sid s)) = ct_queue s" "ct_next (snd (release_lease env w sid s)) = ct_next s"
  "ct_queue (snd (clear_stale_leases env s)) = ct_queue s" "ct_next (snd (clear_stale_leases env s)) = ct_next s"
  by (simp_all add: resolve_approval_def raise_approval_def acquire_lease_def renew_lease_def release_lease_def
      clear_stale_leases_def Let_def)

lemma expire_each_queue:
  "ct_queue (snd (expire_each env as n s)) = ct_queue s \<and> ct_next (snd (expire_each env as n s)) = ct_next s"
proof (induction as arbitrary: n s)
  case (Cons a as)
  obtain r t where run: "resolve_approval (ap_id a) DENY ''timeout'' s = (r, t)"
    by (cases "resolve_approval (ap_id a) DENY ''timeout'' s")
  have "ct_queue t = ct_queue s" "ct_next t = ct_next s"
    using queue_frame(1,2)[of "ap_id a" DENY "''timeout''" s] by (simp_all add: run)
  with Cons.IH show ?case by (simp add: seq_def run split: sum.splits)
qed simp

lemma settled_enqueue: "settled i s \<Longrightarrow> settled i (snd (enqueue env w sid txt src s))"
  by (auto simp: enqueue_def settled_def)

lemma settled_claim: "settled i s \<Longrightarrow> settled i (snd (claim_next env w sid s))"
  by (simp add: claim_next_def Let_def settled_update split: option.split)

lemma settled_finish: "st \<in> {DONE, CANCELLED} \<Longrightarrow> settled i s \<Longrightarrow> settled i (finish env j st s)"
  unfolding finish_def by (rule settled_update) auto

lemma settled_cancel: "settled i s \<Longrightarrow> settled i (snd (cancel_queued env j s))"
  by (simp add: cancel_queued_def Let_def settled_update)

lemma settled_recover: "settled i s \<Longrightarrow> settled i (snd (recover_interrupted env own s))"
proof -
  assume "settled i s"
  from settled_fold[OF this] show ?thesis
    by (simp add: recover_interrupted_def Let_def settled_def)
qed

lemma settled_expire: "settled i s \<Longrightarrow> settled i (snd (expire_approvals env s))"
  using expire_each_queue by (simp add: expire_approvals_def settled_def)

lemma settled_step: "control_step s t \<Longrightarrow> settled i s \<Longrightarrow> settled i t"
  by (induction rule: control_step.induct)
    (simp_all add: settled_enqueue settled_claim settled_finish settled_cancel settled_recover settled_expire,
     simp_all add: settled_def)

lemma settled_steps: "control_step\<^sup>*\<^sup>* s t \<Longrightarrow> settled i s \<Longrightarrow> settled i t"
  by (induction rule: rtranclp_induct) (auto intro: settled_step)

lemma find_sort_least:
  assumes "find P (sort_key f xs) = Some r"
  shows "r \<in> set xs \<and> P r \<and> (\<forall>x \<in> set xs. P x \<longrightarrow> f r \<le> f x)"
proof -
  from assms obtain i where i: "i < length xs" "P (sort_key f xs ! i)" "r = sort_key f xs ! i"
    and before: "\<And>j. j < i \<Longrightarrow> \<not> P (sort_key f xs ! j)"
    by (auto simp: find_Some_iff)
  have mem: "r \<in> set xs" using i nth_mem[of i "sort_key f xs"] by simp
  have "f r \<le> f x" if x: "x \<in> set xs" "P x" for x
  proof -
    from x(1) obtain j where j: "j < length xs" "x = sort_key f xs ! j"
      by (metis in_set_conv_nth length_sort set_sort)
    with before x(2) have "i \<le> j" by (meson not_le)
    with i j show ?thesis
      using sorted_sort_key[of f xs] by (simp add: sorted_iff_nth_mono)
  qed
  with mem i show ?thesis by simp
qed

lemma claim_next_cases:
  assumes "claim_next env w sid s = (Some q, t)"
  obtains row where "row \<in> set (ct_queue s)" and "waiting (key_of env w) sid row"
    and "\<And>x. x \<in> set (ct_queue s) \<Longrightarrow> waiting (key_of env w) sid x \<Longrightarrow> qu_id row \<le> qu_id x"
    and "q = row\<lparr>qu_status := RUNNING\<rparr>"
    and "t = update_queue (\<lambda>q. qu_id q = qu_id row \<and> qu_status q = QUEUED)
      (\<lambda>q. q\<lparr>qu_status := RUNNING, qu_claimed_by := en_pid env, qu_updated := en_now env\<rparr>) s"
proof -
  from assms obtain row where found: "find (waiting (key_of env w) sid) (sort_key qu_id (ct_queue s)) = Some row"
    and q: "q = row\<lparr>qu_status := RUNNING\<rparr>"
    and t: "t = update_queue (\<lambda>q. qu_id q = qu_id row \<and> qu_status q = QUEUED)
      (\<lambda>q. q\<lparr>qu_status := RUNNING, qu_claimed_by := en_pid env, qu_updated := en_now env\<rparr>) s"
    by (auto simp: claim_next_def Let_def split: option.splits if_splits)
  with find_sort_least[OF found] that show thesis by blast
qed

lemma claim_settles:
  assumes "claim_next env w sid s = (Some q, t)" and "queue_ordered s"
  shows "settled (qu_id q) t"
  using assms(1) by (rule claim_next_cases)
    (use assms(2) in \<open>auto simp: settled_def update_queue_def queue_ordered_def\<close>)

subsection \<open>Overdue questions are closed\<close>

definition timed_out :: "approval \<Rightarrow> approval" where
  "timed_out a = a\<lparr>ap_decision := DENY, ap_decided_by := ''timeout''\<rparr>"

lemma timed_out_id [simp]: "ap_id (timed_out a) = ap_id a"
  by (simp add: timed_out_def)

lemma expire_each_eq:
  assumes "approvals_unique s" and "distinct (map ap_id as)" and "\<forall>a \<in> set as. a \<in> set (ct_approvals s) \<and> ap_decision a = []"
  shows "expire_each env as n s = (Inr (n + length (filter (expired env) as)),
    s\<lparr>ct_approvals := map (\<lambda>a. if a \<in> set as \<and> expired env a then timed_out a else a) (ct_approvals s)\<rparr>)"
  using assms
proof (induction as arbitrary: n s)
  case (Cons x as)
  have x: "x \<in> set (ct_approvals s)" "ap_decision x = []" using Cons.prems(3) by auto
  have same: "open_question (ap_id x) a \<longleftrightarrow> a = x" if "a \<in> set (ct_approvals s)" for a
    using that x inj_onD[of ap_id "set (ct_approvals s)" a x] Cons.prems(1)
    unfolding open_question_def approvals_unique_def distinct_map by blast
  show ?case
  proof (cases "expired env x")
    case False
    then have "(\<lambda>a. if a \<in> set (x # as) \<and> expired env a then timed_out a else a) =
        (\<lambda>a. if a \<in> set as \<and> expired env a then timed_out a else a)"
      by (simp add: fun_eq_iff) metis
    with False Cons.IH[of s n] Cons.prems show ?thesis by simp
  next
    case True
    let ?t = "s\<lparr>ct_approvals := map (\<lambda>a. if a = x then timed_out a else a) (ct_approvals s)\<rparr>"
    have "list_ex (open_question (ap_id x)) (ct_approvals s)"
      using x by (auto simp: list_ex_iff open_question_def)
    then have run: "resolve_approval (ap_id x) DENY ''timeout'' s = (Inr True, ?t)"
      by (auto simp: resolve_approval_def timed_out_def same)
    have "approvals_unique ?t" using Cons.prems(1) by (simp add: approvals_unique_map)
    moreover have "a \<in> set (ct_approvals ?t) \<and> ap_decision a = []" if a: "a \<in> set as" for a
    proof -
      have "a \<noteq> x" using a Cons.prems(2) by auto
      with a Cons.prems(3) show ?thesis by (auto simp: image_iff)
    qed
    then have kept: "\<forall>a \<in> set as. a \<in> set (ct_approvals ?t) \<and> ap_decision a = []" by blast
    ultimately have "expire_each env as (Suc n) ?t = (Inr (Suc n + length (filter (expired env) as)),
        ?t\<lparr>ct_approvals := map (\<lambda>a. if a \<in> set as \<and> expired env a then timed_out a else a) (ct_approvals ?t)\<rparr>)"
      using Cons.prems(2) by (intro Cons.IH) auto
    moreover have "timed_out x \<notin> set as"
      using Cons.prems(3) by (auto simp: timed_out_def DENY_def)
    then have "(\<lambda>a. if a \<in> set as \<and> expired env a then timed_out a else a) \<circ> (\<lambda>a. if a = x then timed_out a else a) =
        (\<lambda>a. if a \<in> set (x # as) \<and> expired env a then timed_out a else a)"
      using True by (auto simp: fun_eq_iff)
    ultimately show ?thesis
      using True by (simp add: run seq_def)
  qed
qed simp

lemma expire_approvals_eq:
  assumes "approvals_unique s"
  shows "expire_approvals env s = (Inr (length (filter (expired env) (ct_approvals s))),
    s\<lparr>ct_approvals := map (\<lambda>a. if expired env a then timed_out a else a) (ct_approvals s)\<rparr>)"
proof -
  let ?open = "filter (\<lambda>a. ap_decision a = []) (ct_approvals s)"
  have expired_open: "expired env a \<Longrightarrow> ap_decision a = []" for a by (simp add: expired_def split: if_splits)
  have ids: "distinct (map ap_id ?open)"
    using assms unfolding approvals_unique_def by (rule distinct_filter_map)
  have opens: "\<forall>a \<in> set ?open. a \<in> set (ct_approvals s) \<and> ap_decision a = []" by simp
  have run: "expire_each env ?open 0 s = (Inr (0 + length (filter (expired env) ?open)),
      s\<lparr>ct_approvals := map (\<lambda>a. if a \<in> set ?open \<and> expired env a then timed_out a else a) (ct_approvals s)\<rparr>)"
    by (fact expire_each_eq[OF assms ids opens])
  have counted: "filter (expired env) ?open = filter (expired env) (ct_approvals s)"
    unfolding filter_filter by (rule filter_cong[OF refl]) (use expired_open in blast)
  have closed: "map (\<lambda>a. if a \<in> set ?open \<and> expired env a then timed_out a else a) (ct_approvals s) =
      map (\<lambda>a. if expired env a then timed_out a else a) (ct_approvals s)"
  proof (unfold map_eq_conv, intro ballI)
    fix a assume "a \<in> set (ct_approvals s)"
    then show "(if a \<in> set ?open \<and> expired env a then timed_out a else a) = (if expired env a then timed_out a else a)"
      using expired_open[of a] by (cases "expired env a") simp_all
  qed
  have "expire_approvals env s = expire_each env ?open 0 s" by (simp add: expire_approvals_def)
  then show ?thesis unfolding run closed counted add_0 .
qed

end
