(* ===== verification/ControlRunner.thy ===== *)
theory ControlRunner
  imports ControlSafety
begin

text \<open>
  The two clients of the control plane: \<open>SharedApprovalBroker\<close> of \<open>shamsu/control/approvals.py\<close>,
  which turns a blocking question into a row anyone can answer, and \<open>QueuedRunner\<close> of
  \<open>shamsu/control/runner.py\<close>, which runs one queued prompt at a time per machine. The turn a prompt
  runs and the redaction of secrets are parameters.
\<close>

subsection \<open>The approval broker\<close>

text \<open>
  A hook of the broker may raise; the broker swallows that, so only what it did to the database
  remains.
\<close>

type_synonym hook = "(string \<Rightarrow> string \<Rightarrow> (control, unit) eff) option"

definition run_hook :: "hook \<Rightarrow> string \<Rightarrow> string \<Rightarrow> control \<Rightarrow> control" where
  "run_hook h aid d s = (case h of None \<Rightarrow> s | Some f \<Rightarrow> snd (f aid d s))"

record broker =
  br_timeout :: int
  br_on_raised :: hook
  br_on_resolved :: hook
  br_redact :: "string \<Rightarrow> string"

definition redacted :: "broker \<Rightarrow> question \<Rightarrow> question" where
  "redacted b q = q\<lparr>qn_description := br_redact b (qn_description q),
     qn_preview := take 2000 (br_redact b (qn_preview q))\<rparr>"

definition approve :: "nat \<Rightarrow> broker \<Rightarrow> env \<Rightarrow> outside \<Rightarrow> int \<Rightarrow> question \<Rightarrow> control \<Rightarrow>
    ((py_error + bool) \<times> control) option" where
  "approve fuel b env w started q s =
     (case raise_approval env (redacted b q) (br_timeout b) [] s of
        (Inl e, t) \<Rightarrow> Some (Inl e, t)
      | (Inr aid, t) \<Rightarrow>
          (case wait_for_decision fuel w started (br_timeout b) aid (run_hook (br_on_raised b) aid [] t) of
             None \<Rightarrow> None
           | Some (d, u) \<Rightarrow> Some (Inr (d = ALLOW), run_hook (br_on_resolved b) aid d u)))"

definition broker_resolve :: "broker \<Rightarrow> string \<Rightarrow> bool \<Rightarrow> string \<Rightarrow> (control, bool) eff" where
  "broker_resolve b aid approved surface =
     (let d = (if approved then ALLOW else DENY)
      in seq (resolve_approval aid d surface) (\<lambda>won.
         seq (modify (\<lambda>s. if won then run_hook (br_on_resolved b) aid d s else s)) (\<lambda>_.
         ret won)))"

subsection \<open>The queued runner\<close>

text \<open>
  The workers of a process are the threads that drain a session; a thread takes itself out of the
  table when it ends.
\<close>

record runner =
  rn_surface :: string
  rn_workers :: "(string \<times> string) list"
  rn_stopping :: bool

datatype start_result = STARTED | ALREADY_DRAINING | BUSY

definition start_worker :: "env \<Rightarrow> string \<Rightarrow> string \<Rightarrow> runner \<times> control \<Rightarrow> start_result \<times> runner \<times> control" where
  "start_worker env workspace sid = (\<lambda>(r, s).
     let k = (en_resolve env workspace, sid)
     in if rn_stopping r then (BUSY, r, s)
        else if k \<in> set (rn_workers r) then (ALREADY_DRAINING, r, s)
        else if rn_workers r \<noteq> [] then (BUSY, r, s)
        else if lease_holder env MACHINE_KEY MACHINE_KEY s \<noteq> None then (BUSY, r, s)
        else let (mine, t) = acquire_lease env workspace sid (rn_surface r) True s
             in if \<not> mine then (BUSY, r, t)
                else let (machine, u) = acquire_lease env MACHINE_KEY MACHINE_KEY (rn_surface r) False t
                     in if \<not> machine then (BUSY, r, snd (release_lease env workspace sid u))
                        else (STARTED, r\<lparr>rn_workers := rn_workers r @ [k]\<rparr>, u))"

definition busy_reason :: "env \<Rightarrow> string \<Rightarrow> string \<Rightarrow> nat \<Rightarrow> control \<Rightarrow> string" where
  "busy_reason env workspace sid depth s =
     (case lease_holder env workspace sid s of
        Some l \<Rightarrow> ''queued - this thread is running on '' @ le_surface l @ '' ('' @ nat_str depth @ '' waiting)''
      | None \<Rightarrow>
          (case lease_holder env MACHINE_KEY MACHINE_KEY s of
             Some _ \<Rightarrow> ''queued - another run is using the model ('' @ nat_str depth @ '' waiting)''
           | None \<Rightarrow> ''queued ('' @ nat_str depth @ '' waiting)''))"

record run_outcome =
  ro_accepted :: bool
  ro_queued :: bool
  ro_queue_id :: nat
  ro_reason :: string

definition submit :: "env \<Rightarrow> string \<Rightarrow> string \<Rightarrow> string \<Rightarrow> runner \<times> control \<Rightarrow> run_outcome \<times> runner \<times> control" where
  "submit env workspace sid text = (\<lambda>(r, s).
     let text = strip text
     in if text = [] then
          (\<lparr>ro_accepted = False, ro_queued = False, ro_queue_id = 0, ro_reason = ''empty prompt''\<rparr>, r, s)
        else
          let (i, t) = enqueue env workspace sid text (rn_surface r) s;
              (started, r', u) = start_worker env workspace sid (r, t)
          in if started = STARTED then
               (\<lparr>ro_accepted = True, ro_queued = False, ro_queue_id = i, ro_reason = []\<rparr>, r', u)
             else
               (\<lparr>ro_accepted = True, ro_queued = True, ro_queue_id = i,
                  ro_reason = busy_reason env workspace sid (queue_depth env workspace sid u) u\<rparr>, r', u))"

text \<open>
  The loop of \<open>_drain\<close>: \<open>env n\<close> is the environment of the n-th pass, \<open>turn\<close> runs one prompt and tells
  whether it raised nothing. The results are the prompts it took, with their outcome.
\<close>

fun drain_loop :: "nat \<Rightarrow> (nat \<Rightarrow> env) \<Rightarrow> (nat \<Rightarrow> bool) \<Rightarrow> (queued \<Rightarrow> control \<Rightarrow> bool \<times> control) \<Rightarrow> string \<Rightarrow> string \<Rightarrow>
    nat \<Rightarrow> control \<Rightarrow> ((queued \<times> bool) list \<times> control) option" where
  "drain_loop 0 env stopping turn workspace sid n s = None"
| "drain_loop (Suc fuel) env stopping turn workspace sid n s =
     (if stopping n then Some ([], s)
      else case claim_next (env n) workspace sid s of
        (None, t) \<Rightarrow> Some ([], t)
      | (Some item, t) \<Rightarrow>
          (let (ok, u) = turn item t;
               v = finish (env n) (qu_id item) (if ok then DONE else CANCELLED) u
           in map_option (\<lambda>(items, z). ((item, ok) # items, z))
                (drain_loop fuel env stopping turn workspace sid (Suc n) v)))"

text \<open>The \<open>finally\<close> of the worker: both leases go, the thread leaves the table.\<close>

definition end_worker :: "env \<Rightarrow> string \<Rightarrow> string \<Rightarrow> runner \<times> control \<Rightarrow> runner \<times> control" where
  "end_worker env workspace sid = (\<lambda>(r, s).
     let t = snd (release_lease env workspace sid s);
         u = snd (release_lease env MACHINE_KEY MACHINE_KEY t)
     in (r\<lparr>rn_workers := removeAll (workspace, sid) (rn_workers r)\<rparr>, u))"

definition drain :: "nat \<Rightarrow> (nat \<Rightarrow> env) \<Rightarrow> (nat \<Rightarrow> bool) \<Rightarrow> (queued \<Rightarrow> control \<Rightarrow> bool \<times> control) \<Rightarrow> string \<Rightarrow> string \<Rightarrow>
    runner \<times> control \<Rightarrow> ((queued \<times> bool) list \<times> runner \<times> control) option" where
  "drain fuel env stopping turn workspace sid = (\<lambda>(r, s).
     map_option (\<lambda>(items, t). (items, end_worker (env (length items)) workspace sid (r, t)))
       (drain_loop fuel env stopping turn workspace sid 0 s))"

definition heartbeat :: "env \<Rightarrow> string \<Rightarrow> string \<Rightarrow> control \<Rightarrow> control" where
  "heartbeat env workspace sid s =
     snd (renew_lease env MACHINE_KEY MACHINE_KEY (snd (renew_lease env workspace sid s)))"

text \<open>One pass of \<open>_dispatch_pending\<close>: overdue questions are closed, then the first session that can start does.\<close>

fun start_first :: "env \<Rightarrow> (string \<times> string) list \<Rightarrow> runner \<times> control \<Rightarrow> runner \<times> control" where
  "start_first env [] rs = rs"
| "start_first env ((w, sid) # rest) rs =
     (let (started, rs') = start_worker env w sid rs
      in if started = STARTED then rs' else start_first env rest rs')"

definition dispatch_pass :: "env \<Rightarrow> runner \<times> control \<Rightarrow> runner \<times> control" where
  "dispatch_pass env = (\<lambda>(r, s).
     let t = snd (expire_approvals env s)
     in if rn_stopping r then (r, t) else start_first env (queued_sessions t) (r, t))"

text \<open>\<open>start\<close>: what a restart does to the prompts of a process that died.\<close>

definition recover :: "env \<Rightarrow> bool \<Rightarrow> runner \<times> control \<Rightarrow> queued list \<times> runner \<times> control" where
  "recover env own = (\<lambda>(r, s).
     let (items, t) = recover_interrupted env own s in (items, r\<lparr>rn_stopping := False\<rparr>, t))"

subsection \<open>One turn per machine\<close>

text \<open>
  All processes of a machine over one database. A process acts in an environment of its own; the
  environment is timely when the machine lease of a running process is live in it: its process is
  alive and its last heartbeat is within the stale window.
\<close>

record system =
  sy_control :: control
  sy_runners :: "int \<Rightarrow> runner"

definition running :: "system \<Rightarrow> int \<Rightarrow> string \<times> string \<Rightarrow> bool" where
  "running y p k \<longleftrightarrow> k \<in> set (rn_workers (sy_runners y p))"

definition machine_owner :: "control \<Rightarrow> int \<Rightarrow> bool" where
  "machine_owner s p \<longleftrightarrow> (\<exists>l. lease_row s MACHINE_KEY MACHINE_KEY = Some l \<and> le_pid l = p)"

definition timely :: "env \<Rightarrow> system \<Rightarrow> bool" where
  "timely env y \<longleftrightarrow> (\<forall>p k l. running y p k \<longrightarrow>
     lease_row (sy_control y) MACHINE_KEY MACHINE_KEY = Some l \<longrightarrow> le_pid l = p \<longrightarrow> lease_is_live env l)"

text \<open>
  The first argument of a step is the environment it acts in, where it may take leases or delete those of others:
  starting a worker, clearing, acquiring, and recovering. A thread that ends gives back the leases of its own
  process, and a process that runs a turn neither releases its machine lease otherwise nor recovers its own prompts.
\<close>

inductive system_step :: "env option \<Rightarrow> system \<Rightarrow> system \<Rightarrow> bool" where
  sys_start: "start_worker env w sid (sy_runners y (en_pid env), sy_control y) = (res, r, t) \<Longrightarrow>
    system_step (Some env) y \<lparr>sy_control = t, sy_runners = (sy_runners y)(en_pid env := r)\<rparr>"
| sys_end: "end_worker env w sid (sy_runners y (en_pid env), sy_control y) = (r, t) \<Longrightarrow>
    rn_workers (sy_runners y (en_pid env)) = [(w, sid)] \<Longrightarrow>
    system_step None y \<lparr>sy_control = t, sy_runners = (sy_runners y)(en_pid env := r)\<rparr>"
| sys_beat: "system_step None y (y\<lparr>sy_control := heartbeat env w sid (sy_control y)\<rparr>)"
| sys_rows: "control_step (sy_control y) t \<Longrightarrow> ct_leases t = ct_leases (sy_control y) \<Longrightarrow>
    system_step None y (y\<lparr>sy_control := t\<rparr>)"
| sys_clear: "system_step (Some env) y (y\<lparr>sy_control := snd (clear_stale_leases env (sy_control y))\<rparr>)"
| sys_acquire: "system_step (Some env) y (y\<lparr>sy_control := snd (acquire_lease env w sid sf re (sy_control y))\<rparr>)"
| sys_release: "rn_workers (sy_runners y (en_pid env)) = [] \<or> (key_of env w, sid) \<noteq> (MACHINE_KEY, MACHINE_KEY) \<Longrightarrow>
    system_step None y (y\<lparr>sy_control := snd (release_lease env w sid (sy_control y))\<rparr>)"
| sys_recover: "own \<longrightarrow> rn_workers (sy_runners y (en_pid env)) = [] \<Longrightarrow>
    recover env own (sy_runners y (en_pid env), sy_control y) = (items, r, t) \<Longrightarrow>
    system_step (Some env) y \<lparr>sy_control = t, sy_runners = (sy_runners y)(en_pid env := r)\<rparr>"
| sys_stop: "system_step None y (y\<lparr>sy_runners := (sy_runners y)(p := (sy_runners y p)\<lparr>rn_stopping := True\<rparr>)\<rparr>)"

definition any_step :: "system \<Rightarrow> system \<Rightarrow> bool" where
  "any_step y z \<longleftrightarrow> (\<exists>a. system_step a y z)"

definition punctual_step :: "system \<Rightarrow> system \<Rightarrow> bool" where
  "punctual_step y z \<longleftrightarrow> (\<exists>a. system_step a y z \<and> (\<forall>env. a = Some env \<longrightarrow> timely env y))"

definition slot_ok :: "system \<Rightarrow> bool" where
  "slot_ok y \<longleftrightarrow> leases_unique (sy_control y) \<and>
     (\<forall>p. length (rn_workers (sy_runners y p)) \<le> 1) \<and>
     (\<forall>p k. running y p k \<longrightarrow> machine_owner (sy_control y) p)"

lemma slot_unique: "slot_ok y \<Longrightarrow> leases_unique (sy_control y)"
  by (simp add: slot_ok_def)

lemma slot_one: "slot_ok y \<Longrightarrow> length (rn_workers (sy_runners y p)) \<le> 1"
  by (simp add: slot_ok_def)

lemma slot_owner: "slot_ok y \<Longrightarrow> running y p k \<Longrightarrow> machine_owner (sy_control y) p"
  unfolding slot_ok_def by blast

lemma key_of_machine [simp]: "key_of env MACHINE_KEY = MACHINE_KEY"
  by (simp add: key_of_def)

lemma machine_owner_unique: "machine_owner s p \<Longrightarrow> machine_owner s q \<Longrightarrow> p = q"
  by (auto simp: machine_owner_def)

lemma lease_row_delete:
  "leases_unique s \<Longrightarrow> lease_row (s\<lparr>ct_leases := delete_leases gone (ct_leases s)\<rparr>) k x =
     (case lease_row s k x of None \<Rightarrow> None | Some l \<Rightarrow> if gone l then None else Some l)"
  by (simp add: lease_row_key leases_unique_def delete_leases_unique find_filter split: option.split)

lemma leases_unique_delete:
  "leases_unique s \<Longrightarrow> leases_unique (s\<lparr>ct_leases := delete_leases gone (ct_leases s)\<rparr>)"
  by (simp add: leases_unique_def delete_leases_unique distinct_filter_map)

lemma lease_row_cong: "ct_leases t = ct_leases s \<Longrightarrow> lease_row t = lease_row s"
  by (simp add: lease_row_def fun_eq_iff)

lemma owner_acquire:
  assumes "machine_owner s p" and "\<And>l. lease_row s MACHINE_KEY MACHINE_KEY = Some l \<Longrightarrow> lease_is_live env l"
  shows "machine_owner (snd (acquire_lease env w sid sf re s)) p"
proof -
  from assms obtain l where l: "lease_row s MACHINE_KEY MACHINE_KEY = Some l" "le_pid l = p" "lease_is_live env l"
    by (auto simp: machine_owner_def)
  show ?thesis
  proof (cases "fst (acquire_lease env w sid sf re s) \<and> MACHINE_KEY = key_of env w \<and> MACHINE_KEY = sid")
    case True
    with l have "en_pid env = p"
      using leases.acquire_iff[of env w sid sf re s] by auto
    with True show ?thesis by (auto simp: machine_owner_def leases.acquire_row)
  next
    case False
    with l show ?thesis by (auto simp: machine_owner_def leases.acquire_row)
  qed
qed

lemma owner_renew: "machine_owner s p \<Longrightarrow> machine_owner (snd (renew_lease env w sid s)) p"
  by (auto simp: machine_owner_def leases.renew_row map_option_case)

lemma owner_release:
  assumes "leases_unique s" and "machine_owner s p"
    and "p \<noteq> en_pid env \<or> (key_of env w, sid) \<noteq> (MACHINE_KEY, MACHINE_KEY)"
  shows "machine_owner (snd (release_lease env w sid s)) p"
  using assms by (auto simp: machine_owner_def leases.release_row)

lemma owner_delete:
  assumes "leases_unique s" and "machine_owner s p"
    and "\<And>l. lease_row s MACHINE_KEY MACHINE_KEY = Some l \<Longrightarrow> \<not> gone l"
  shows "machine_owner (s\<lparr>ct_leases := delete_leases gone (ct_leases s)\<rparr>) p"
  using assms by (auto simp: machine_owner_def lease_row_delete)

lemma slot_okI:
  assumes "leases_unique t" and "\<And>p. length (rn_workers (rs p)) \<le> 1"
    and "\<And>p k. k \<in> set (rn_workers (rs p)) \<Longrightarrow> machine_owner t p"
  shows "slot_ok \<lparr>sy_control = t, sy_runners = rs\<rparr>"
  using assms by (auto simp: slot_ok_def running_def)

text \<open>A process that runs keeps the others from starting.\<close>

lemma start_worker_cases:
  assumes "start_worker env w sid (r, s) = (res, r', t)"
  obtains (unchanged) "r' = r" "t = s"
  | (released) "r' = r" "lease_holder env MACHINE_KEY MACHINE_KEY s = None" "rn_workers r = []"
      "t = snd (release_lease env w sid (snd (acquire_lease env MACHINE_KEY MACHINE_KEY (rn_surface r) False
        (snd (acquire_lease env w sid (rn_surface r) True s)))))"
  | (started) "res = STARTED" "lease_holder env MACHINE_KEY MACHINE_KEY s = None" "rn_workers r = []"
      "r' = r\<lparr>rn_workers := [(en_resolve env w, sid)]\<rparr>"
      "fst (acquire_lease env MACHINE_KEY MACHINE_KEY (rn_surface r) False (snd (acquire_lease env w sid (rn_surface r) True s)))"
      "t = snd (acquire_lease env MACHINE_KEY MACHINE_KEY (rn_surface r) False (snd (acquire_lease env w sid (rn_surface r) True s)))"
proof -
  obtain m1 s1 where a1: "acquire_lease env w sid (rn_surface r) True s = (m1, s1)" by fastforce
  obtain m2 s2 where a2: "acquire_lease env MACHINE_KEY MACHINE_KEY (rn_surface r) False s1 = (m2, s2)" by fastforce
  let ?free = "\<not> rn_stopping r \<and> (en_resolve env w, sid) \<notin> set (rn_workers r) \<and> rn_workers r = [] \<and>
    lease_holder env MACHINE_KEY MACHINE_KEY s = None"
  have refused: "\<not> m1 \<Longrightarrow> s1 = s"
    using a1 by (simp add: acquire_lease_def Let_def split: if_splits)
  consider "\<not> ?free" | "?free" "\<not> m1" | "?free" "m1" "\<not> m2" | "?free" "m1" "m2" by blast
  then show thesis
  proof cases
    case 1
    with assms show ?thesis by (intro unchanged) (auto simp: start_worker_def Let_def split: if_splits)
  next
    case 2
    with assms refused show ?thesis by (intro unchanged) (simp_all add: start_worker_def Let_def a1)
  next
    case 3
    with assms have "r' = r" and "t = snd (release_lease env w sid s2)"
      by (simp_all add: start_worker_def Let_def a1 a2)
    with 3 show ?thesis by (intro released) (simp_all add: a1 a2)
  next
    case 4
    with assms show ?thesis by (intro started) (simp_all add: start_worker_def Let_def a1 a2)
  qed
qed

lemma holder_None_owner:
  "lease_holder env MACHINE_KEY MACHINE_KEY s = None \<Longrightarrow> machine_owner s p \<Longrightarrow>
     \<exists>l. lease_row s MACHINE_KEY MACHINE_KEY = Some l \<and> le_pid l = p \<and> \<not> lease_is_live env l"
  by (auto simp: lease_holder_def machine_owner_def split: option.splits if_splits)

lemma busy_runs: "rn_workers (sy_runners y p) \<noteq> [] \<Longrightarrow> \<exists>k. running y p k"
  unfolding running_def using hd_in_set by blast

lemma slot_start:
  assumes ok: "slot_ok y" and time: "timely env y"
    and run: "start_worker env w sid (sy_runners y (en_pid env), sy_control y) = (res, r, t)"
  shows "slot_ok \<lparr>sy_control = t, sy_runners = (sy_runners y)(en_pid env := r)\<rparr>"
proof -
  let ?s = "sy_control y"
  have uniq: "leases_unique ?s" using ok by (simp add: slot_ok_def)
  have idle: "rn_workers (sy_runners y p) = []"
    if "lease_holder env MACHINE_KEY MACHINE_KEY ?s = None" for p
  proof (rule ccontr)
    assume "rn_workers (sy_runners y p) \<noteq> []"
    then obtain k where k: "running y p k" using busy_runs by blast
    from holder_None_owner[OF that slot_owner[OF ok k]] obtain l where
      "lease_row ?s MACHINE_KEY MACHINE_KEY = Some l" "le_pid l = p" "\<not> lease_is_live env l" by blast
    with time k show False unfolding timely_def by blast
  qed
  from run show ?thesis
  proof (cases rule: start_worker_cases)
    case unchanged
    with ok show ?thesis by (auto simp: slot_ok_def running_def)
  next
    case released
    show ?thesis
      by (rule slot_okI) (simp_all add: released(1,3,4) idle[OF released(2)] uniq leases.inv_release leases.inv_acquire)
  next
    case started
    show ?thesis
    proof (rule slot_okI)
      show "leases_unique t" by (simp add: started(6) uniq leases.inv_acquire)
      show "length (rn_workers (((sy_runners y)(en_pid env := r)) p)) \<le> 1" for p
        by (simp add: started(4) idle[OF started(2)])
      fix p k assume "k \<in> set (rn_workers (((sy_runners y)(en_pid env := r)) p))"
      then have p: "p = en_pid env" by (cases "p = en_pid env") (simp_all add: idle[OF started(2)])
      show "machine_owner t p"
        using leases.acquire_won[OF started(5)] by (simp add: p started(6) machine_owner_def leases.holds_def)
    qed
  qed
qed

lemma slot_end:
  assumes ok: "slot_ok y" and work: "rn_workers (sy_runners y (en_pid env)) = [(w, sid)]"
    and run: "end_worker env w sid (sy_runners y (en_pid env), sy_control y) = (r, t)"
  shows "slot_ok \<lparr>sy_control = t, sy_runners = (sy_runners y)(en_pid env := r)\<rparr>"
proof -
  let ?s = "sy_control y"
  have uniq: "leases_unique ?s" using ok by (simp add: slot_ok_def)
  from run have r: "rn_workers r = []" and t: "t = snd (release_lease env MACHINE_KEY MACHINE_KEY
      (snd (release_lease env w sid ?s)))"
    by (auto simp: end_worker_def Let_def work)
  have mine: "running y (en_pid env) (w, sid)" using work by (simp add: running_def)
  have others: "rn_workers (sy_runners y p) = []" if "p \<noteq> en_pid env" for p
  proof (rule ccontr)
    assume "rn_workers (sy_runners y p) \<noteq> []"
    then obtain k where "running y p k" using busy_runs by blast
    with slot_owner[OF ok] mine have "p = en_pid env" using machine_owner_unique by blast
    with that show False by simp
  qed
  show ?thesis
    by (rule slot_okI) (auto simp: t r others uniq leases.inv_release split: if_splits)
qed

lemma slot_leases:
  assumes "slot_ok y" and "leases_unique t"
    and "\<And>p. machine_owner (sy_control y) p \<Longrightarrow> \<exists>k. running y p k \<Longrightarrow> machine_owner t p"
  shows "slot_ok (y\<lparr>sy_control := t\<rparr>)"
  using assms by (auto simp: slot_ok_def running_def)

lemma timely_row:
  "timely env y \<Longrightarrow> running y p k \<Longrightarrow> machine_owner (sy_control y) p \<Longrightarrow>
     lease_row (sy_control y) MACHINE_KEY MACHINE_KEY = Some l \<Longrightarrow> lease_is_live env l"
  unfolding timely_def machine_owner_def by (metis option.inject)

lemma recover_leases:
  "ct_leases (snd (recover_interrupted env own s)) = delete_leases
     (\<lambda>l. \<not> lease_is_live env l \<or> (own \<and> le_pid l = en_pid env)) (ct_leases s)"
  by (simp add: recover_interrupted_def Let_def fold_update_queue_approvals)

lemma owner_cong: "ct_leases t = ct_leases s \<Longrightarrow> machine_owner t = machine_owner s"
  by (rule ext) (simp only: machine_owner_def lease_row_cong[of t s])

lemma slot_step: "system_step a y z \<Longrightarrow> slot_ok y \<Longrightarrow> \<forall>env. a = Some env \<longrightarrow> timely env y \<Longrightarrow> slot_ok z"
proof (induction rule: system_step.induct)
  case (sys_start env w sid y res r t)
  then show ?case by (intro slot_start) auto
next
  case (sys_end env w sid y r t)
  then show ?case by (intro slot_end)
next
  case (sys_beat y env w sid)
  then have "leases_unique (sy_control y)" by (simp add: slot_ok_def)
  with sys_beat show ?case
    by (intro slot_leases) (simp_all add: heartbeat_def leases.inv_renew owner_renew)
next
  case (sys_rows y t)
  from sys_rows(2) have "leases_unique t = leases_unique (sy_control y)" by (simp only: leases_unique_def)
  with sys_rows slot_unique[OF sys_rows(3)] show ?case
    by (intro slot_leases) (simp_all only: owner_cong[of t "sy_control y"])
next
  case (sys_clear env y)
  have uniq: "leases_unique (sy_control y)" by (rule slot_unique[OF sys_clear(1)])
  show ?case
  proof (rule slot_leases[OF sys_clear(1)])
    show "leases_unique (snd (clear_stale_leases env (sy_control y)))"
      by (simp add: clear_stale_leases_def leases_unique_delete uniq)
    fix p assume owner: "machine_owner (sy_control y) p" and "\<exists>k. running y p k"
    then obtain k where k: "running y p k" by blast
    show "machine_owner (snd (clear_stale_leases env (sy_control y))) p"
      unfolding clear_stale_leases_def snd_conv
      using timely_row[OF _ k owner] sys_clear(2) by (intro owner_delete[OF uniq owner]) simp
  qed
next
  case (sys_acquire env y w sid sf re)
  show ?case
  proof (rule slot_leases[OF sys_acquire(1)])
    show "leases_unique (snd (acquire_lease env w sid sf re (sy_control y)))"
      by (rule leases.inv_acquire[OF slot_unique[OF sys_acquire(1)]])
    fix p assume owner: "machine_owner (sy_control y) p" and "\<exists>k. running y p k"
    then obtain k where k: "running y p k" by blast
    show "machine_owner (snd (acquire_lease env w sid sf re (sy_control y))) p"
      using timely_row[OF _ k owner] sys_acquire(2) by (intro owner_acquire[OF owner]) simp
  qed
next
  case (sys_release y env w sid)
  have uniq: "leases_unique (sy_control y)" by (rule slot_unique[OF sys_release(2)])
  show ?case
  proof (rule slot_leases[OF sys_release(2)])
    show "leases_unique (snd (release_lease env w sid (sy_control y)))" by (rule leases.inv_release[OF uniq])
    fix p assume owner: "machine_owner (sy_control y) p" and "\<exists>k. running y p k"
    then have "rn_workers (sy_runners y p) \<noteq> []" by (auto simp: running_def)
    with sys_release(1) have "p \<noteq> en_pid env \<or> (key_of env w, sid) \<noteq> (MACHINE_KEY, MACHINE_KEY)" by blast
    then show "machine_owner (snd (release_lease env w sid (sy_control y))) p" by (rule owner_release[OF uniq owner])
  qed
next
  case (sys_recover own y env items r t)
  let ?s = "sy_control y"
  have uniq: "leases_unique ?s" using sys_recover.prems(1) by (simp add: slot_ok_def)
  from sys_recover.hyps(2) have t: "ct_leases t = delete_leases
      (\<lambda>l. \<not> lease_is_live env l \<or> (own \<and> le_pid l = en_pid env)) (ct_leases ?s)"
    and r: "rn_workers r = rn_workers (sy_runners y (en_pid env))"
    using recover_leases[of env own ?s] by (auto simp: recover_def split: prod.splits)
  let ?t = "?s\<lparr>ct_leases := delete_leases (\<lambda>l. \<not> lease_is_live env l \<or> (own \<and> le_pid l = en_pid env)) (ct_leases ?s)\<rparr>"
  show ?case
  proof (rule slot_okI)
    show "leases_unique t"
      using leases_unique_delete[OF uniq] by (simp add: leases_unique_def t)
    show "length (rn_workers (((sy_runners y)(en_pid env := r)) p)) \<le> 1" for p
      using sys_recover.prems(1) by (simp add: slot_ok_def r)
    fix p k assume "k \<in> set (rn_workers (((sy_runners y)(en_pid env := r)) p))"
    then have k: "running y p k" by (cases "p = en_pid env") (simp_all add: running_def r)
    then have owner: "machine_owner ?s p" by (rule slot_owner[OF sys_recover.prems(1)])
    have "machine_owner ?t p"
    proof (rule owner_delete[OF uniq owner])
      fix l assume l: "lease_row ?s MACHINE_KEY MACHINE_KEY = Some l"
      with owner have "le_pid l = p" by (simp add: machine_owner_def)
      with timely_row[OF _ k owner l] k sys_recover.hyps(1) sys_recover.prems(2)
      show "\<not> (\<not> lease_is_live env l \<or> (own \<and> le_pid l = en_pid env))"
        by (auto simp: running_def)
    qed
    then show "machine_owner t p" using owner_cong[of t ?t] by (simp add: t)
  qed
next
  case (sys_stop y p)
  then show ?case by (auto simp: slot_ok_def running_def)
qed

lemma slot_steps: "punctual_step\<^sup>*\<^sup>* y z \<Longrightarrow> slot_ok y \<Longrightarrow> slot_ok z"
proof (induction rule: rtranclp_induct)
  case (step y z)
  then obtain a where "system_step a y z" "\<forall>env. a = Some env \<longrightarrow> timely env y" by (auto simp: punctual_step_def)
  then show ?case using slot_step step by blast
qed

lemma punctual_or_late:
  assumes "any_step\<^sup>*\<^sup>* y z"
  shows "punctual_step\<^sup>*\<^sup>* y z \<or>
    (\<exists>u v env. punctual_step\<^sup>*\<^sup>* y u \<and> system_step (Some env) u v \<and> \<not> timely env u \<and> any_step\<^sup>*\<^sup>* v z)"
  using assms
proof (induction rule: rtranclp_induct)
  case (step u v)
  from step.IH show ?case
  proof
    assume u: "punctual_step\<^sup>*\<^sup>* y u"
    obtain a where a: "system_step a u v" using step.hyps(2) by (auto simp: any_step_def)
    show ?thesis
    proof (cases "\<forall>env. a = Some env \<longrightarrow> timely env u")
      case True
      with a have "punctual_step u v" by (auto simp: punctual_step_def)
      with u show ?thesis by (meson rtranclp.rtrancl_into_rtrancl)
    next
      case False
      with a u show ?thesis by blast
    qed
  next
    assume "\<exists>x w env. punctual_step\<^sup>*\<^sup>* y x \<and> system_step (Some env) x w \<and> \<not> timely env x \<and> any_step\<^sup>*\<^sup>* w u"
    then show ?thesis using step.hyps(2) by (meson rtranclp.rtrancl_into_rtrancl)
  qed
qed simp

subsection \<open>Draining a session\<close>

lemma sort_ordered: "queue_ordered s \<Longrightarrow> sort_key qu_id (ct_queue s) = ct_queue s"
  by (simp add: queue_ordered_def sorted_map sort_key_id_if_sorted sorted_sort_id)

lemma first_waiting: "filter W rows = q # qs \<Longrightarrow> q \<in> set rows \<and> W q \<and> find W rows = Some q"
  by (induction rows) (auto split: if_splits)

lemma waiting_after:
  assumes "distinct (map qu_id rows)" and "filter W rows = q # qs"
    and "\<And>x. qu_id x \<noteq> qu_id q \<Longrightarrow> h x = x" and "\<And>x. qu_id x = qu_id q \<Longrightarrow> \<not> W (h x)"
  shows "filter W (map h rows) = qs"
proof -
  have same: "filter W (map h xs) = filter W xs" if "qu_id q \<notin> qu_id ` set xs" for xs
    using that assms(3) by (induction xs) auto
  show ?thesis
    using assms(1,2)
  proof (induction rows)
    case (Cons r rows)
    show ?case
    proof (cases "W r")
      case True
      with Cons.prems have "r = q" "qu_id q \<notin> qu_id ` set rows" "filter W rows = qs" by auto
      with same[of rows] assms(4)[of q] show ?thesis by simp
    next
      case False
      with Cons.prems have rest: "filter W rows = q # qs" by simp
      then have "q \<in> set rows" using first_waiting by fastforce
      with Cons.prems(1) have "qu_id r \<noteq> qu_id q" by auto
      with assms(3)[of r] False Cons.IH rest Cons.prems(1) show ?thesis by simp
    qed
  qed simp
qed

text \<open>Turns during which prompts may arrive; from the prompt numbered \<open>N\<close> on none do.\<close>

definition only_adds :: "nat \<Rightarrow> (queued \<Rightarrow> control \<Rightarrow> bool \<times> control) \<Rightarrow> bool" where
  "only_adds N turn \<longleftrightarrow> (\<forall>q s. queue_ordered s \<longrightarrow> queue_ordered (snd (turn q s)) \<and>
     (\<exists>rows. ct_queue (snd (turn q s)) = ct_queue s @ rows \<and> (N \<le> qu_id q \<longrightarrow> rows = [])))"

text \<open>The prompts on a session that are not numbered below \<open>m\<close>.\<close>

definition numbered_from :: "nat \<Rightarrow> string \<Rightarrow> string \<Rightarrow> control \<Rightarrow> bool" where
  "numbered_from m k sid s \<longleftrightarrow> m \<le> ct_next s \<and> (\<forall>r \<in> set (filter (waiting k sid) (ct_queue s)). m \<le> qu_id r)"

lemma one_pass:
  assumes ordered: "queue_ordered s" and adds: "only_adds N turn"
    and wait: "filter (waiting (key_of env w) sid) (ct_queue s) = q # qs"
    and t: "claim_next env w sid s = (item, t)" and u: "turn (q\<lparr>qu_status := RUNNING\<rparr>) t = (ok, u)"
    and v: "v = finish env (qu_id q) (if ok then DONE else CANCELLED) u"
  shows "item = Some (q\<lparr>qu_status := RUNNING\<rparr>) \<and> queue_ordered v \<and> numbered_from (Suc (qu_id q)) (key_of env w) sid v \<and>
    (\<exists>rows. filter (waiting (key_of env w) sid) (ct_queue v) = qs @ rows \<and> (N \<le> qu_id q \<longrightarrow> rows = []))"
proof -
  let ?W = "waiting (key_of env w) sid"
  from first_waiting[OF wait] have q: "q \<in> set (ct_queue s)" "qu_status q = QUEUED"
    and "find ?W (ct_queue s) = Some q" by (simp_all add: waiting_def)
  moreover have "list_ex (\<lambda>x. qu_id x = qu_id q \<and> qu_status x = QUEUED) (ct_queue s)"
    using q by (auto simp: list_ex_iff)
  ultimately have item: "item = Some (q\<lparr>qu_status := RUNNING\<rparr>)"
    and t': "t = update_queue (\<lambda>x. qu_id x = qu_id q \<and> qu_status x = QUEUED)
      (\<lambda>q. q\<lparr>qu_status := RUNNING, qu_claimed_by := en_pid env, qu_updated := en_now env\<rparr>) s"
    using t by (auto simp: claim_next_def sort_ordered[OF ordered] Let_def)
  define f where "f = (\<lambda>x :: queued. if qu_id x = qu_id q \<and> qu_status x = QUEUED
      then x\<lparr>qu_status := RUNNING, qu_claimed_by := en_pid env, qu_updated := en_now env\<rparr> else x)"
  define g where "g = (\<lambda>x :: queued. if qu_id x = qu_id q
      then x\<lparr>qu_status := (if ok then DONE else CANCELLED), qu_updated := en_now env\<rparr> else x)"
  have ids: "qu_id (f x) = qu_id x" "qu_id (g x) = qu_id x" for x by (simp_all add: f_def g_def)
  have tq: "ct_queue t = map f (ct_queue s)" "ct_next t = ct_next s" by (simp_all add: t' update_queue_def f_def)
  then have "queue_ordered t" using ordered by (simp add: queue_ordered_def comp_def ids)
  from adds[unfolded only_adds_def, rule_format, OF this, of "q\<lparr>qu_status := RUNNING\<rparr>"]
  obtain rows where uq: "ct_queue u = map f (ct_queue s) @ rows" "N \<le> qu_id q \<longrightarrow> rows = []" "queue_ordered u"
    by (auto simp: u tq(1))
  have vq: "ct_queue v = map (g \<circ> f) (ct_queue s) @ map g rows" "ct_next v = ct_next u"
    by (simp_all add: v finish_def update_queue_def uq(1) g_def comp_def)
  have below: "qu_id x < ct_next u" if "x \<in> set (ct_queue s)" for x
    using uq(3) that ids(1)[of x] by (metis UnCI imageI list.set_map queue_ordered_def set_append uq(1))
  have "queue_ordered v"
    using uq(3) below by (auto simp: queue_ordered_def vq uq(1) comp_def ids)
  moreover have left: "filter ?W (map (g \<circ> f) (ct_queue s)) = qs"
    by (rule waiting_after[OF _ wait]) (use ordered in \<open>auto simp: queue_ordered_def f_def g_def waiting_def\<close>)
  moreover have "numbered_from (Suc (qu_id q)) (key_of env w) sid v"
  proof -
    have "Suc (qu_id q) \<le> ct_next v" using below[OF q(1)] by (simp add: vq(2))
    moreover have "qu_id q < qu_id r" if "r \<in> set qs" for r
    proof -
      have "sorted (map qu_id (q # qs))" "distinct (map qu_id (q # qs))"
        using ordered wait[symmetric] by (simp_all add: queue_ordered_def sorted_filter distinct_map_filter del: list.map)
      with that show ?thesis by (auto simp: order.strict_iff_order)
    qed
    moreover have "qu_id q < qu_id r" if "r \<in> set rows" for r
      using uq(3) that q by (fastforce simp: queue_ordered_def uq(1) sorted_append ids order.strict_iff_order image_iff)
    ultimately show ?thesis
      using left by (auto simp: numbered_from_def vq(1) ids Suc_le_eq)
  qed
  ultimately show ?thesis using item uq(2) by (auto simp: vq(1))
qed

lemma nothing_waiting:
  "queue_ordered s \<Longrightarrow> filter (waiting (key_of env w) sid) (ct_queue s) = [] \<Longrightarrow> claim_next env w sid s = (None, s)"
proof -
  assume ordered: "queue_ordered s" and "filter (waiting (key_of env w) sid) (ct_queue s) = []"
  then have "find (waiting (key_of env w) sid) (ct_queue s) = None" by (simp add: find_None_iff filter_empty_conv)
  with ordered show ?thesis by (simp add: claim_next_def sort_ordered)
qed

text \<open>What the loop has done when it ends.\<close>

lemma drain_takes:
  assumes "drain_loop fuel env stopping turn w sid n s = Some (items, z)" and "queue_ordered s"
    and adds: "only_adds N turn" and key: "\<And>n. key_of (env n) w = k" and "numbered_from m k sid s"
  defines "run \<equiv> \<lambda>q :: queued. q\<lparr>qu_status := RUNNING\<rparr>"
  shows "sorted_wrt (<) (map (qu_id \<circ> fst) items) \<and> (\<forall>x \<in> set items. m \<le> qu_id (fst x)) \<and>
    (prefix (map run (filter (waiting k sid) (ct_queue s))) (map fst items) \<and> filter (waiting k sid) (ct_queue z) = [] \<or>
     stopping (n + length items) \<and> (prefix (map fst items) (map run (filter (waiting k sid) (ct_queue s))) \<or>
       prefix (map run (filter (waiting k sid) (ct_queue s))) (map fst items))) \<and>
    drain_loop (Suc (length items)) env stopping turn w sid n s = Some (items, z)"
  using assms(1,2,5)
proof (induction fuel arbitrary: m n s items)
  case (Suc fuel)
  consider "stopping n" | "\<not> stopping n" "filter (waiting k sid) (ct_queue s) = []"
    | q qs where "\<not> stopping n" "filter (waiting k sid) (ct_queue s) = q # qs"
    by (cases "filter (waiting k sid) (ct_queue s)") auto
  then show ?case
  proof cases
    case 1
    with Suc.prems(1) show ?thesis by simp
  next
    case 2
    then have "claim_next (env n) w sid s = (None, s)" by (intro nothing_waiting) (simp_all add: Suc.prems(2) key)
    with 2 Suc.prems(1) show ?thesis by auto
  next
    case 3
    obtain item t where t: "claim_next (env n) w sid s = (item, t)" by fastforce
    obtain ok u where u: "turn (run q) t = (ok, u)" by fastforce
    let ?v = "finish (env n) (qu_id q) (if ok then DONE else CANCELLED) u"
    from one_pass[OF Suc.prems(2) adds _ t u[unfolded run_def] refl] 3(2) obtain rows where
      pass: "item = Some (run q)" "queue_ordered ?v" "numbered_from (Suc (qu_id q)) k sid ?v"
        "filter (waiting k sid) (ct_queue ?v) = qs @ rows"
      unfolding key run_def by blast
    have id: "qu_id (run q) = qu_id q" by (simp add: run_def)
    from Suc.prems(1) 3(1) t u pass(1) obtain rest where rest: "items = (run q, ok) # rest"
        "drain_loop fuel env stopping turn w sid (Suc n) ?v = Some (rest, z)"
      by (auto simp: Let_def id)
    note ih = Suc.IH[OF rest(2) pass(2,3)]
    note sorted_rest = ih[THEN conjunct1] and later = ih[THEN conjunct2, THEN conjunct1]
      and outcome = ih[THEN conjunct2, THEN conjunct2, THEN conjunct1]
      and again_rest = ih[THEN conjunct2, THEN conjunct2, THEN conjunct2]
    have again: "drain_loop (Suc (length items)) env stopping turn w sid n s = Some (items, z)"
      using again_rest 3(1) t u pass(1) unfolding rest(1) list.size(4) add_Suc_right add_0_right
      by (subst drain_loop.simps(2)) (simp add: Let_def id del: drain_loop.simps)
    have "m \<le> qu_id q" using Suc.prems(3) 3(2) by (simp add: numbered_from_def)
    with sorted_rest later have ids: "sorted_wrt (<) (map (qu_id \<circ> fst) items)" "\<forall>x \<in> set items. m \<le> qu_id (fst x)"
      by (auto simp: rest(1) id Suc_le_eq comp_def)
    have "prefix (map fst rest) (xs @ ys) \<Longrightarrow> prefix (map fst rest) xs \<or> prefix xs (map fst rest)" for xs ys
      by (meson prefixI prefix_same_cases)
    moreover have "prefix (xs @ ys) (map fst rest) \<Longrightarrow> prefix xs (map fst rest)" for xs ys
      by (meson append_prefixD)
    ultimately show ?thesis
      using outcome ids again unfolding rest(1) 3(2) pass(4) by (auto simp: comp_def simp del: drain_loop.simps)
  qed
qed simp

text \<open>The loop ends: every pass takes a prompt with a larger number, and from \<open>N\<close> on the line only gets shorter.\<close>

lemma drain_pass:
  assumes "queue_ordered s" and "only_adds N turn" and "key_of (env n) w = k" and "filter (waiting k sid) (ct_queue s) = q # qs"
  obtains v rows where "queue_ordered v" "numbered_from (Suc (qu_id q)) k sid v" "filter (waiting k sid) (ct_queue v) = qs @ rows"
    "N \<le> qu_id q \<Longrightarrow> rows = []"
    "\<And>fuel r. drain_loop fuel env stopping turn w sid (Suc n) v = Some r \<Longrightarrow> \<exists>r. drain_loop (Suc fuel) env stopping turn w sid n s = Some r"
proof -
  obtain item t where t: "claim_next (env n) w sid s = (item, t)" by fastforce
  obtain ok u where u: "turn (q\<lparr>qu_status := RUNNING\<rparr>) t = (ok, u)" by fastforce
  let ?v = "finish (env n) (qu_id q) (if ok then DONE else CANCELLED) u"
  from one_pass[OF assms(1,2) _ t u refl] assms(3,4) obtain rows where
    pass: "item = Some (q\<lparr>qu_status := RUNNING\<rparr>)" "queue_ordered ?v" "numbered_from (Suc (qu_id q)) k sid ?v"
      "filter (waiting k sid) (ct_queue ?v) = qs @ rows" "N \<le> qu_id q \<longrightarrow> rows = []" by blast
  show thesis
    by (rule that[OF pass(2,3,4)]) (use pass t u in \<open>auto simp: Let_def\<close>)
qed

lemma drain_ends_quiet:
  assumes "queue_ordered s" and adds: "only_adds N turn" and key: "\<And>n. key_of (env n) w = k" and "numbered_from N k sid s"
  shows "\<exists>fuel r. drain_loop fuel env stopping turn w sid n s = Some r"
  using assms(1,4)
proof (induction "length (filter (waiting k sid) (ct_queue s))" arbitrary: n s)
  case 0
  then have "claim_next (env n) w sid s = (None, s)" by (intro nothing_waiting) (simp_all add: key)
  then have "drain_loop 1 env stopping turn w sid n s = Some ([], s)" by simp
  then show ?case by blast
next
  case (Suc l)
  then obtain q qs where wait: "filter (waiting k sid) (ct_queue s) = q # qs" by (metis length_Suc_conv)
  with Suc.prems(2) have q: "N \<le> qu_id q" by (simp add: numbered_from_def)
  obtain v rows where v: "queue_ordered v" "numbered_from (Suc (qu_id q)) k sid v" "filter (waiting k sid) (ct_queue v) = qs @ rows"
      "N \<le> qu_id q \<Longrightarrow> rows = []"
      "\<And>fuel r. drain_loop fuel env stopping turn w sid (Suc n) v = Some r \<Longrightarrow> \<exists>r. drain_loop (Suc fuel) env stopping turn w sid n s = Some r"
    by (rule drain_pass[OF Suc.prems(1) adds key wait, where stopping = stopping]) (rule that; assumption)
  then have "l = length (filter (waiting k sid) (ct_queue v))" "numbered_from N k sid v"
    using Suc.hyps(2) wait q by (auto simp: numbered_from_def)
  from Suc.hyps(1)[OF this(1) v(1) this(2), of "Suc n"] obtain fuel r where
    "drain_loop fuel env stopping turn w sid (Suc n) v = Some r" by blast
  from v(5)[OF this] show ?case by blast
qed

lemma drain_ends:
  assumes "queue_ordered s" and adds: "only_adds N turn" and key: "\<And>n. key_of (env n) w = k" and "numbered_from (N - d) k sid s"
  shows "\<exists>fuel r. drain_loop fuel env stopping turn w sid n s = Some r"
  using assms(1,4)
proof (induction d arbitrary: n s)
  case 0
  then show ?case using drain_ends_quiet[OF _ adds key] by simp
next
  case (Suc d)
  show ?case
  proof (cases "filter (waiting k sid) (ct_queue s)")
    case Nil
    with Suc.prems(1) have "claim_next (env n) w sid s = (None, s)" by (intro nothing_waiting) (simp_all add: key)
    then have "drain_loop 1 env stopping turn w sid n s = Some ([], s)" by simp
    then show ?thesis by blast
  next
    case (Cons q qs)
    obtain v rows where v: "queue_ordered v" "numbered_from (Suc (qu_id q)) k sid v" "filter (waiting k sid) (ct_queue v) = qs @ rows"
        "\<And>fuel r. drain_loop fuel env stopping turn w sid (Suc n) v = Some r \<Longrightarrow> \<exists>r. drain_loop (Suc fuel) env stopping turn w sid n s = Some r"
      by (rule drain_pass[OF Suc.prems(1) adds key Cons, where stopping = stopping]) (rule that; assumption)
    have "N - Suc d \<le> qu_id q" using Suc.prems(2) Cons by (simp add: numbered_from_def)
    then have "numbered_from (N - d) k sid v" using v(2) by (fastforce simp: numbered_from_def)
    from Suc.IH[OF v(1) this, of "Suc n"] obtain fuel r where
      "drain_loop fuel env stopping turn w sid (Suc n) v = Some r" by blast
    from v(4)[OF this] show ?thesis by blast
  qed
qed

subsection \<open>Concrete databases\<close>

definition demo_env :: "int \<Rightarrow> int \<Rightarrow> env" where
  "demo_env pid t = \<lparr>en_pid = pid, en_now = t, en_psutil = (\<lambda>_. Some True), en_windows = False,
     en_kill = (\<lambda>_. Signalled), en_resolve = (\<lambda>w. w), en_uuid = ''0123456789abcdef0123''\<rparr>"

definition demo_question :: question where
  "demo_question = \<lparr>qn_workspace = ''/p'', qn_session = ''S'', qn_run_id = [], qn_action = ''shell'',
     qn_description = ''make'', qn_risk = ''high'', qn_preview = []\<rparr>"

definition demo_approval :: approval where
  "demo_approval = \<lparr>ap_id = ''A'', ap_workspace = ''/p'', ap_session = ''S'', ap_run_id = [], ap_action = ''shell'',
     ap_description = ''make'', ap_risk = ''high'', ap_preview = [], ap_created = 0, ap_expires = At 100,
     ap_decision = [], ap_decided_by = []\<rparr>"

definition demo_control :: control where
  "demo_control = \<lparr>ct_leases = [], ct_queue = [], ct_next = 1, ct_approvals = [demo_approval]\<rparr>"

definition demo_queue :: control where
  "demo_queue = snd (enqueue (demo_env 1 0) ''/p'' ''S'' ''second'' ''web''
     (snd (enqueue (demo_env 1 0) ''/p'' ''S'' ''first'' ''web'' demo_control)))"

definition demo_runner :: runner where
  "demo_runner = \<lparr>rn_surface = ''web'', rn_workers = [], rn_stopping = False\<rparr>"

text \<open>Nobody answers in the first world; in the second somebody allows it while the waiter sleeps for the last time.\<close>

definition demo_silence :: outside where
  "demo_silence = \<lparr>ou_mono = (\<lambda>n. int n * 60), ou_stop = (\<lambda>_. False), ou_env = (\<lambda>n. demo_env 1 (int n * 60)),
     ou_others = (\<lambda>_ s. s)\<rparr>"

definition demo_late :: outside where
  "demo_late = demo_silence\<lparr>ou_others := (\<lambda>_ s. snd (resolve_approval ''A'' ALLOW ''web'' s))\<rparr>"

lemma demo_control_ok: "approvals_unique demo_control" "recorded demo_control ''A'' = Some []"
  "queue_ordered demo_queue" "leases_unique demo_control"
  by (simp_all add: approvals_unique_def recorded_def approval_row_def demo_control_def demo_approval_def
      queue_ordered_def demo_queue_def enqueue_def leases_unique_def)

lemma demo_others: "control_step\<^sup>*\<^sup>* s (ou_others demo_late n s)" "control_step\<^sup>*\<^sup>* s (ou_others demo_silence n s)"
  by (auto simp: demo_late_def demo_silence_def intro: ctl_resolve)

subsection \<open>Properties\<close>

text \<open>
  C28. The first answer to an open question wins and every later one loses: of several answers given
  in turn exactly the first reports success, its decision is what the row holds, and no step of any
  process ever changes it again.
\<close>

theorem first_answer_wins:
  assumes "approvals_unique s" and "recorded s aid = Some []"
    and "\<forall>(x, _) \<in> set ((d, who) # as). x \<in> {ALLOW, DENY}"
  shows "fst (answers resolve_approval aid ((d, who) # as) s) = True # map (\<lambda>_. False) as \<and>
    (\<forall>t. control_step\<^sup>*\<^sup>* (snd (answers resolve_approval aid ((d, who) # as) s)) t \<longrightarrow> recorded t aid = Some d)"
proof -
  have "d \<noteq> []" using assms(3) by (auto simp: ALLOW_def DENY_def)
  with board.one_winner[OF assms] control_steps_decisions show ?thesis by (simp add: decisions_kept_def)
qed

theorem first_answer_wins_witness:
  "fst (answers resolve_approval ''A'' [(ALLOW, ''web''), (DENY, ''telegram'')] demo_control) = [True, False]"
  using first_answer_wins[OF demo_control_ok(1,2), of ALLOW "''web''" "[(DENY, ''telegram'')]"] by simp

text \<open>
  Waiting fails closed. Whatever the other processes do meanwhile, when \<open>wait_for_decision\<close>
  returns \<open>allow\<close> the row holds that answer, and the question is no longer open.
\<close>

theorem wait_fails_closed:
  assumes "approvals_unique s" and "\<And>n s. control_step\<^sup>*\<^sup>* s (ou_others w n s)"
    and "wait_for_decision fuel w started timeout aid s = Some (d, t)"
  shows "(d = DENY \<or> recorded t aid = Some d) \<and> recorded t aid \<noteq> Some []"
  using assms wait_loop_answer wait_loop_closes unfolding wait_for_decision_def by blast

theorem wait_fails_closed_witness:
  "\<exists>d t. wait_for_decision 5 demo_silence 0 120 ''A'' demo_control = Some (d, t) \<and> recorded t ''A'' \<noteq> Some []"
proof -
  obtain d t where run: "wait_for_decision 5 demo_silence 0 120 ''A'' demo_control = Some (d, t)"
    by (simp add: wait_for_decision_def eval_nat_numeral demo_silence_def demo_control_def approval_row_def
        demo_approval_def expired_def demo_env_def)
  show ?thesis using run wait_fails_closed[OF demo_control_ok(1) demo_others(2) run] by blast
qed

text \<open>
  The wait ends: when the monotonic clock advances by at least the poll interval between two
  polls, \<open>wait_for_decision\<close> returns within one poll per interval of the timeout and two more.
\<close>

theorem wait_returns:
  assumes "0 < poll" and "\<And>n. ou_mono w n + poll \<le> ou_mono w (Suc n)" and "started \<le> ou_mono w 0"
  shows "\<exists>r. wait_for_decision (Suc (Suc (nat (timeout div poll)))) w started timeout aid s = Some r"
proof -
  let ?n = "Suc (nat (timeout div poll))"
  have "timeout \<le> int ?n * poll"
  proof -
    have "timeout = timeout div poll * poll + timeout mod poll" by simp
    also have "\<dots> \<le> timeout div poll * poll + poll" using pos_mod_bound[OF assms(1), of timeout] by linarith
    also have "\<dots> \<le> int ?n * poll" using assms(1) by (simp add: algebra_simps mult_right_mono)
    finally show ?thesis .
  qed
  with clock_runs[of w poll, OF assms(2), of ?n] assms(3) have "started + timeout \<le> ou_mono w (0 + ?n)"
    by (simp add: algebra_simps)
  moreover have "ou_mono w n \<le> ou_mono w (Suc n)" for n using assms(1) assms(2)[of n] by linarith
  ultimately show ?thesis
    unfolding wait_for_decision_def by (intro wait_loop_returns)
qed

theorem wait_returns_witness: "\<exists>r. wait_for_decision 4 demo_silence 0 120 ''A'' demo_control = Some r"
  using wait_returns[of 60 demo_silence 0 120 "''A''" demo_control] by (simp add: demo_silence_def eval_nat_numeral)

text \<open>
  C37. An answer that arrives after the last poll is recorded and lost: the surface is told its
  \<open>allow\<close> counted, the row holds it, and the waiting agent is told \<open>deny\<close>.
\<close>

theorem late_answer_is_lost:
  assumes "approval_row s aid = Some a" and "ap_decision a = []" and "\<not> expired (ou_env w 0) a"
    and "ou_mono w 0 < started + timeout" and "started + timeout \<le> ou_mono w 1" and "\<not> ou_stop w 0"
    and "ou_others w 0 s = snd (resolve_approval aid ALLOW who s)"
  shows "\<exists>t. wait_for_decision (Suc (Suc fuel)) w started timeout aid s = Some (DENY, t) \<and> recorded t aid = Some ALLOW"
proof -
  let ?t = "snd (resolve_approval aid ALLOW who s)"
  have "ap_id a = aid" using assms(1) by (rule approval_row_id)
  with assms(1,2) have row: "approval_row ?t aid = Some (a\<lparr>ap_decision := ALLOW, ap_decided_by := who\<rparr>)"
    by (simp add: resolve_row open_question_def)
  then have "approval_row (snd (resolve_approval aid DENY ''timeout'' ?t)) aid =
      Some (a\<lparr>ap_decision := ALLOW, ap_decided_by := who\<rparr>)"
    by (subst resolve_row) (simp_all add: open_question_def ALLOW_def)
  with assms show ?thesis by (simp add: wait_for_decision_def recorded_def)
qed

theorem late_answer_is_lost_witness:
  "\<exists>t. wait_for_decision 2 demo_late 0 60 ''A'' demo_control = Some (DENY, t) \<and> recorded t ''A'' = Some ALLOW"
  using late_answer_is_lost[of demo_control "''A''" demo_approval demo_late 0 60 "''web''" 0]
  by (simp add: demo_late_def demo_silence_def demo_control_def approval_row_def demo_approval_def expired_def
      demo_env_def eval_nat_numeral)

definition hook_ok :: "hook \<Rightarrow> bool" where
  "hook_ok h \<longleftrightarrow> (\<forall>aid d s. control_step\<^sup>*\<^sup>* s (run_hook h aid d s))"

text \<open>The row asks this question.\<close>

definition asks :: "env \<Rightarrow> question \<Rightarrow> string \<Rightarrow> approval \<Rightarrow> bool" where
  "asks env q aid a \<longleftrightarrow> ap_id a = aid \<and> ap_workspace a = key_of env (qn_workspace q) \<and> ap_session a = qn_session q \<and>
     ap_run_id a = qn_run_id q \<and> ap_action a = qn_action q \<and> ap_description a = qn_description q \<and>
     ap_risk a = qn_risk q \<and> ap_preview a = qn_preview q"

lemma asks_answered [simp]: "asks env q aid (a\<lparr>ap_decision := d, ap_decided_by := who\<rparr>) = asks env q aid a"
  by (simp add: asks_def)

definition asked :: "env \<Rightarrow> question \<Rightarrow> string \<Rightarrow> control \<Rightarrow> bool" where
  "asked env q aid s \<longleftrightarrow> (\<exists>a. approval_row s aid = Some a \<and> asks env q aid a)"

lemma asked_same: "ct_approvals t = ct_approvals s \<Longrightarrow> asked env q aid s \<longrightarrow> asked env q aid t"
  by (simp add: asked_def approval_row_def)

interpretation asking: evolution "\<lambda>s t. asked env q aid s \<longrightarrow> asked env q aid t" for env q aid
  by unfold_locales auto

lemma asked_resolve: "evolves (\<lambda>s t. asked env q aid s \<longrightarrow> asked env q aid t) (resolve_approval x d who) s"
proof (cases "d \<in> {ALLOW, DENY}")
  case True
  have "asked env q aid (snd (resolve_approval x d who s))" if "approval_row s aid = Some a" "asks env q aid a" for a
    using that by (simp add: asked_def resolve_row[OF True])
  then show ?thesis by (auto simp: evolves_def asked_def[of env q aid s])
qed (simp add: evolves_def resolve_approval_def)

lemma asked_expire: "evolves (\<lambda>s t. asked env q aid s \<longrightarrow> asked env q aid t) (expire_each e as n) s"
  by (induction as arbitrary: n s) (auto simp: evolves_def[of _ "ret _"] intro!: asking.evolves_seq asked_resolve)

lemma control_step_asked: "control_step s t \<Longrightarrow> asked env q aid s \<longrightarrow> asked env q aid t"
proof (induction rule: control_step.induct)
  case (ctl_raise s e q' timeout x)
  then show ?case
    by (auto simp: raise_approval_def Let_def asked_def approval_row_def find_append)
qed (simp_all add: asked_same asked_resolve[unfolded evolves_def] expire_approvals_def asked_expire[unfolded evolves_def])

lemma control_steps_asked: "control_step\<^sup>*\<^sup>* s t \<Longrightarrow> asked env q aid s \<Longrightarrow> asked env q aid t"
  by (induction rule: rtranclp_induct) (auto dest: control_step_asked)

text \<open>Only an answer \<open>allow\<close> to the question makes its row say so.\<close>

lemma recorded_resolve:
  "d \<in> {ALLOW, DENY} \<Longrightarrow> recorded (snd (resolve_approval x d who s)) aid =
     map_option (\<lambda>a. if open_question x a then d else ap_decision a) (approval_row s aid)"
  by (cases "approval_row s aid") (simp_all add: recorded_def resolve_row)

lemma expired_not_allowed:
  "recorded s aid = Some [] \<Longrightarrow> recorded (snd (expire_each e as n s)) aid \<noteq> Some ALLOW"
proof (induction as arbitrary: n s)
  case (Cons a as)
  show ?case
  proof (cases "expired e a")
    case True
    let ?t = "snd (resolve_approval (ap_id a) DENY ''timeout'' s)"
    have "recorded ?t aid = Some [] \<or> recorded ?t aid = Some DENY"
      using Cons.prems by (auto simp: recorded_resolve) (auto simp: recorded_def)
    moreover have "recorded ?t aid = Some DENY \<Longrightarrow> recorded (snd (expire_each e as m ?t)) aid = Some DENY" for m
      using decisions_kept_expire[of e as m ?t] by (simp add: evolves_def decisions_kept_def DENY_def)
    moreover have "\<exists>m. snd (expire_each e (a # as) n s) = snd (expire_each e as m ?t)"
      using True by (auto simp: seq_def resolve_approval_def)
    ultimately show ?thesis using Cons.IH by (auto simp: ALLOW_def DENY_def)
  qed (use Cons in simp)
qed (simp add: ALLOW_def)

lemma step_allows:
  assumes "control_step s t" and "recorded s aid = Some []" and "recorded t aid = Some ALLOW"
  shows "\<exists>who. resolve_approval aid ALLOW who s = (Inr True, t)"
  using assms
proof (induction rule: control_step.induct)
  case (ctl_resolve s x d who)
  then have d: "d \<in> {ALLOW, DENY}" by (auto simp: resolve_approval_def split: if_splits simp: ALLOW_def)
  from ctl_resolve(1) obtain a where a: "approval_row s aid = Some a" "ap_decision a = []" by (auto simp: recorded_def)
  with ctl_resolve(2) have a_open: "open_question x a" "d = ALLOW"
    by (auto simp: recorded_resolve[OF d] ALLOW_def split: if_splits)
  moreover have "a \<in> set (ct_approvals s)" "ap_id a = aid"
    using a(1) by (auto simp: approval_row_def find_Some_iff)
  ultimately have "x = aid" "list_ex (open_question aid) (ct_approvals s)"
    by (auto simp: open_question_def list_ex_iff)
  then show ?case using a_open(2) by (auto simp: resolve_approval_def)
next
  case (ctl_expire s e)
  then show ?case using expired_not_allowed by (simp add: expire_approvals_def)
next
  case (ctl_raise s e q timeout x)
  then show ?case by (auto simp: raise_approval_def Let_def recorded_def approval_row_def find_append ALLOW_def split: if_splits option.splits)
qed (auto simp: recorded_def approval_row_def ALLOW_def)

lemma steps_allow:
  assumes "control_step\<^sup>*\<^sup>* s t" and "recorded s aid = Some []" and "recorded t aid = Some ALLOW"
  shows "\<exists>u who v. control_step\<^sup>*\<^sup>* s u \<and> resolve_approval aid ALLOW who u = (Inr True, v) \<and> control_step\<^sup>*\<^sup>* v t"
  using assms
proof (induction rule: rtranclp_induct)
  case (step u t)
  have "recorded u aid \<noteq> None" using control_steps_decisions[OF step.hyps(1)] step.prems(1) by (auto simp: decisions_kept_def)
  then consider "recorded u aid = Some []" | "recorded u aid = Some ALLOW"
    using control_step_decisions[OF step.hyps(2)] step.prems(2) by (fastforce simp: decisions_kept_def)
  then show ?case
  proof cases
    case 1
    then show ?thesis using step_allows[OF step.hyps(2) _ step.prems(2)] step.hyps(1) by blast
  next
    case 2
    with step show ?thesis by (meson rtranclp.rtrancl_into_rtrancl)
  qed
qed (simp add: ALLOW_def)

lemma wait_loop_steps:
  assumes "wait_loop fuel w deadline aid n s = Some (d, t)" and "\<And>n s. control_step\<^sup>*\<^sup>* s (ou_others w n s)"
  shows "control_step\<^sup>*\<^sup>* s t"
  using assms
proof (induction fuel w deadline aid n s rule: wait_loop.induct)
  case (2 fuel w deadline aid n s)
  have "control_step\<^sup>*\<^sup>* s (snd (resolve_approval aid DENY ''timeout'' s))" by (auto intro: ctl_resolve)
  with 2 show ?case by (auto simp: Let_def split: if_splits option.splits) (meson rtranclp_trans)
qed simp

text \<open>
  C29. The approval function a tool calls returns true only when somebody allowed the very question it raised. It
  recorded the question, redacted, in a row that was not there before; later somebody answered \<open>allow\<close> to the row,
  the first to answer; and when the function returns, the row still asks that question and holds \<open>allow\<close>. Hooks and
  other processes may do anything the control plane offers, meanwhile and before the answer.
\<close>

theorem broker_fails_closed:
  assumes "hook_ok (br_on_raised b)" and "hook_ok (br_on_resolved b)" and "\<And>n s. control_step\<^sup>*\<^sup>* s (ou_others w n s)"
    and "approve fuel b env w started q s = Some (Inr True, t)"
  shows "\<exists>aid s1 u who v a. approval_row s aid = None \<and> raise_approval env (redacted b q) (br_timeout b) [] s = (Inr aid, s1) \<and>
    control_step\<^sup>*\<^sup>* s1 u \<and> resolve_approval aid ALLOW who u = (Inr True, v) \<and> control_step\<^sup>*\<^sup>* v t \<and>
    approval_row t aid = Some a \<and> asks env (redacted b q) aid a \<and> ap_decision a = ALLOW"
proof -
  from assms(4) obtain aid s1 u where raised: "raise_approval env (redacted b q) (br_timeout b) [] s = (Inr aid, s1)"
    and waited: "wait_for_decision fuel w started (br_timeout b) aid (run_hook (br_on_raised b) aid [] s1) = Some (ALLOW, u)"
    and t: "t = run_hook (br_on_resolved b) aid ALLOW u"
    by (auto simp: approve_def split: prod.splits sum.splits option.splits)
  note loop = waited[unfolded wait_for_decision_def]
  have free: "approval_row s aid = None" and here: "recorded s1 aid = Some []" "asked env (redacted b q) aid s1"
    using raised by (auto simp: raise_approval_def Let_def recorded_def asked_def asks_def approval_row_def find_append split: if_splits)
  have after: "control_step\<^sup>*\<^sup>* u t" using assms(2) t by (simp add: hook_ok_def)
  have "recorded u aid = Some ALLOW" using wait_loop_answer[OF loop] by (auto simp: ALLOW_def DENY_def)
  then have allowed: "recorded t aid = Some ALLOW"
    using control_steps_decisions[OF after] by (simp add: decisions_kept_def ALLOW_def)
  have "control_step\<^sup>*\<^sup>* s1 (run_hook (br_on_raised b) aid [] s1)" using assms(1) by (simp add: hook_ok_def)
  from this wait_loop_steps[OF loop assms(3)] after have steps: "control_step\<^sup>*\<^sup>* s1 t" by (meson rtranclp_trans)
  from control_steps_asked[OF steps here(2)] allowed obtain a where
    "approval_row t aid = Some a" "asks env (redacted b q) aid a" "ap_decision a = ALLOW"
    by (auto simp: asked_def recorded_def)
  with steps_allow[OF steps here(1) allowed] free raised show ?thesis by blast
qed

definition demo_broker :: broker where
  "demo_broker = \<lparr>br_timeout = 120, br_on_raised = Some (\<lambda>aid d s. (Inr (), snd (resolve_approval aid ALLOW ''web'' s))),
     br_on_resolved = None, br_redact = (\<lambda>x. x)\<rparr>"

theorem broker_fails_closed_witness:
  "\<exists>t aid a. approve 2 demo_broker (demo_env 1 0) demo_silence 0 demo_question demo_control = Some (Inr True, t) \<and>
     approval_row demo_control aid = None \<and> approval_row t aid = Some a \<and> ap_description a = ''make'' \<and> ap_decision a = ALLOW"
proof -
  have hooks: "hook_ok (br_on_raised demo_broker)" "hook_ok (br_on_resolved demo_broker)"
    by (auto simp: hook_ok_def run_hook_def demo_broker_def intro: ctl_resolve)
  obtain t where run: "approve 2 demo_broker (demo_env 1 0) demo_silence 0 demo_question demo_control = Some (Inr True, t)"
    by (simp add: approve_def demo_broker_def raise_approval_def demo_control_def demo_approval_def approval_row_def
        redacted_def demo_env_def run_hook_def resolve_approval_def open_question_def wait_for_decision_def
        numeral_2_eq_2 demo_silence_def Let_def ALLOW_def)
  have "qn_description (redacted demo_broker demo_question) = ''make''"
    by (simp add: redacted_def demo_broker_def demo_question_def)
  with broker_fails_closed[OF hooks demo_others(2) run] run show ?thesis by (fastforce simp: asks_def)
qed

text \<open>
  \<open>expire_approvals\<close> stamps exactly the overdue unanswered questions as timeout denials, leaves
  every other row as it is and returns how many it stamped.
\<close>

theorem overdue_questions_are_denied:
  assumes "approvals_unique s"
  shows "expire_approvals env s = (Inr (length (filter (expired env) (ct_approvals s))),
    s\<lparr>ct_approvals := map (\<lambda>a. if expired env a then timed_out a else a) (ct_approvals s)\<rparr>)"
  using assms by (rule expire_approvals_eq)

theorem overdue_questions_are_denied_witness: "fst (expire_approvals (demo_env 1 200) demo_control) = Inr 1"
  using overdue_questions_are_denied[OF demo_control_ok(1), of "demo_env 1 200"]
  by (simp add: demo_control_def expired_def demo_approval_def demo_env_def)

text \<open>
  A prompt is claimed once: after one process claimed it, no later claim by any process, after any
  further steps of the control plane, returns the same prompt.
\<close>

theorem prompt_claimed_once:
  assumes "queue_ordered s" and "claim_next env w sid s = (Some q, t)" and "control_step\<^sup>*\<^sup>* t u"
    and "claim_next env' w' sid' u = (Some q', v)"
  shows "qu_id q' \<noteq> qu_id q"
proof -
  have "settled (qu_id q) u" using claim_settles[OF assms(2,1)] settled_steps[OF assms(3)] by blast
  moreover from assms(4) obtain row where "row \<in> set (ct_queue u)" "waiting (key_of env' w') sid' row"
    "q' = row\<lparr>qu_status := RUNNING\<rparr>" by (rule claim_next_cases)
  ultimately show ?thesis by (auto simp: settled_def waiting_def)
qed

lemma demo_claims:
  "\<exists>q t q' v. claim_next (demo_env 1 0) ''/p'' ''S'' demo_queue = (Some q, t) \<and> qu_id q = 1 \<and> qu_text q = ''first'' \<and>
     claim_next (demo_env 2 0) ''/p'' ''S'' t = (Some q', v) \<and> qu_id q' = 2"
  by (simp add: claim_next_def demo_queue_def enqueue_def demo_control_def waiting_def key_of_def MACHINE_KEY_def
      demo_env_def Let_def update_queue_def)

theorem prompt_claimed_once_witness:
  "\<exists>q t q' v. claim_next (demo_env 1 0) ''/p'' ''S'' demo_queue = (Some q, t) \<and>
     claim_next (demo_env 2 0) ''/p'' ''S'' t = (Some q', v) \<and> qu_id q' \<noteq> qu_id q"
proof -
  obtain q t q' v where c: "claim_next (demo_env 1 0) ''/p'' ''S'' demo_queue = (Some q, t)"
    "claim_next (demo_env 2 0) ''/p'' ''S'' t = (Some q', v)" using demo_claims by blast
  from prompt_claimed_once[OF demo_control_ok(3) c(1) rtranclp.rtrancl_refl c(2)] c show ?thesis by blast
qed

text \<open>
  C9. Two turns run on the machine at once only after a lapse. From a state where nothing runs, let the processes
  take any steps of the code: a process that runs a turn releases its machine lease when the turn's thread ends, and
  takes up its own unfinished prompts only while it runs none. If then two worker threads run that are not the same thread of the same process, there was a first
  moment at which some process took leases or deleted those of others while the machine lease of a running worker was
  not live: its process gone, or its heartbeat older than the stale window although the process was alive.
\<close>

theorem one_turn_per_machine:
  assumes "leases_unique (sy_control y)" and "\<And>p. rn_workers (sy_runners y p) = []" and "any_step\<^sup>*\<^sup>* y z"
    and "running z p k" and "running z q k'"
  shows "p = q \<and> k = k' \<or>
    (\<exists>u v env. punctual_step\<^sup>*\<^sup>* y u \<and> system_step (Some env) u v \<and> \<not> timely env u \<and> any_step\<^sup>*\<^sup>* v z)"
  using punctual_or_late[OF assms(3)]
proof
  assume "punctual_step\<^sup>*\<^sup>* y z"
  then have ok: "slot_ok z" by (rule slot_steps) (use assms(1,2) in \<open>simp add: slot_ok_def running_def\<close>)
  have pq: "p = q" using machine_owner_unique slot_owner[OF ok] assms(4,5) by blast
  obtain x where "rn_workers (sy_runners z p) = [x]"
    using slot_one[OF ok, of p] assms(4) by (cases "rn_workers (sy_runners z p)") (auto simp: running_def)
  with pq assms(4,5) show ?thesis by (simp add: running_def)
qed simp

definition demo_system :: system where
  "demo_system = \<lparr>sy_control = demo_queue, sy_runners = (\<lambda>_. demo_runner)\<rparr>"

lemma demo_starts:
  "\<exists>t. start_worker (demo_env 1 0) ''/p'' ''S'' (demo_runner, demo_queue) =
     (STARTED, demo_runner\<lparr>rn_workers := [(''/p'', ''S'')]\<rparr>, t)"
  by (simp add: start_worker_def demo_runner_def demo_env_def lease_holder_def lease_row_def demo_queue_def enqueue_def
      demo_control_def acquire_lease_def Let_def key_of_def MACHINE_KEY_def lease_at_def)

text \<open>A second process finds the heartbeat of the first one late, though the first one is alive: both run.\<close>

lemma demo_second_starts:
  assumes "start_worker (demo_env 1 0) ''/p'' ''S'' (demo_runner, demo_queue) = (STARTED, r, t)"
  shows "\<exists>u. start_worker (demo_env 2 (1000 * second)) ''/p'' ''S'' (demo_runner, t) =
     (STARTED, demo_runner\<lparr>rn_workers := [(''/p'', ''S'')]\<rparr>, u)"
  using assms
  by (auto simp: start_worker_def demo_runner_def demo_env_def lease_holder_def lease_row_def demo_queue_def enqueue_def
      demo_control_def acquire_lease_def Let_def key_of_def MACHINE_KEY_def lease_at_def lease_is_live_def pid_alive_def age_def LEASE_STALE_def second_def)

theorem one_turn_per_machine_witness:
  "\<exists>z u v env. running z 1 (''/p'', ''S'') \<and> running z 2 (''/p'', ''S'') \<and> any_step\<^sup>*\<^sup>* demo_system z \<and>
     punctual_step\<^sup>*\<^sup>* demo_system u \<and> system_step (Some env) u v \<and> \<not> timely env u \<and> any_step\<^sup>*\<^sup>* v z"
proof -
  let ?busy = "demo_runner\<lparr>rn_workers := [(''/p'', ''S'')]\<rparr>"
  obtain t where one: "start_worker (demo_env 1 0) ''/p'' ''S'' (demo_runner, demo_queue) = (STARTED, ?busy, t)"
    using demo_starts by blast
  from demo_second_starts[OF one] obtain u where
    two: "start_worker (demo_env 2 (1000 * second)) ''/p'' ''S'' (demo_runner, t) = (STARTED, ?busy, u)" by blast
  let ?y = "\<lparr>sy_control = t, sy_runners = (\<lambda>_. demo_runner)(1 := ?busy)\<rparr>"
  let ?z = "\<lparr>sy_control = u, sy_runners = (\<lambda>_. demo_runner)(1 := ?busy, 2 := ?busy)\<rparr>"
  have "any_step demo_system ?y" "any_step ?y ?z"
    using sys_start[of "demo_env 1 0" "''/p''" "''S''" demo_system] one sys_start[of "demo_env 2 (1000 * second)" "''/p''" "''S''" ?y] two
    by (auto simp: any_step_def demo_system_def demo_env_def)
  then have steps: "any_step\<^sup>*\<^sup>* demo_system ?z" by simp
  have both: "running ?z 1 (''/p'', ''S'')" "running ?z 2 (''/p'', ''S'')" by (simp_all add: running_def)
  have start: "leases_unique (sy_control demo_system)" "\<And>p. rn_workers (sy_runners demo_system p) = []"
    by (simp_all add: demo_system_def demo_runner_def demo_queue_def enqueue_def leases_unique_def demo_control_def)
  from one_turn_per_machine[OF start steps both] both steps show ?thesis by auto
qed

text \<open>
  C36. A worker runs what waits on its session, oldest first. While it runs its turns, further prompts may arrive, of
  this session and of others, in any number until the turn of some prompt \<open>N\<close>. Then the loop ends, it took the prompts in the order
  of their numbers, and either it took everything that waited at the start and nothing is left waiting, or the runner
  was told to stop after the last of them, and up to there it took the prompts of the start first, in their order. The
  thread is out of the table. Turns change the queue in no other way: a prompt that is taken back during a turn
  is excluded, and prompts that never cease to arrive are.
\<close>

theorem drain_runs_everything_in_order:
  assumes "queue_ordered s" and "only_adds N turn" and "\<And>n. key_of (env n) w = k"
  shows "\<exists>items r' t. drain (Suc (length items)) env stopping turn w sid (r, s) = Some (items, r', t) \<and>
    sorted_wrt (<) (map (qu_id \<circ> fst) items) \<and> (w, sid) \<notin> set (rn_workers r') \<and>
    (let first = map (\<lambda>q. q\<lparr>qu_status := RUNNING\<rparr>) (filter (waiting k sid) (ct_queue s)); taken = map fst items
     in prefix first taken \<and> filter (waiting k sid) (ct_queue t) = [] \<or>
        stopping (length items) \<and> (prefix taken first \<or> prefix first taken))"
proof -
  have "numbered_from (N - N) k sid s" by (simp add: numbered_from_def)
  from drain_ends[where n = 0 and stopping = stopping, OF assms this] obtain fuel items u where
    run: "drain_loop fuel env stopping turn w sid 0 s = Some (items, u)" by fastforce
  from drain_takes[OF run assms, of 0] have
    "drain_loop (Suc (length items)) env stopping turn w sid 0 s = Some (items, u)" "sorted_wrt (<) (map (qu_id \<circ> fst) items)"
    "let first = map (\<lambda>q. q\<lparr>qu_status := RUNNING\<rparr>) (filter (waiting k sid) (ct_queue s)); taken = map fst items
     in prefix first taken \<and> filter (waiting k sid) (ct_queue u) = [] \<or>
        stopping (length items) \<and> (prefix taken first \<or> prefix first taken)"
    by (simp_all add: numbered_from_def Let_def del: drain_loop.simps)
  then show ?thesis
    by (intro exI[of _ items]) (auto simp: drain_def end_worker_def Let_def simp del: drain_loop.simps)
qed

theorem drain_runs_everything_in_order_witness:
  "\<exists>items r' t. drain (Suc (length items)) (\<lambda>n. demo_env 1 (int n)) (\<lambda>_. False) (\<lambda>q s. (True, s)) ''/p'' ''S''
       (demo_runner, demo_queue) = Some (items, r', t) \<and> prefix [''first'', ''second''] (map (qu_text \<circ> fst) items)"
proof -
  have key: "\<And>n. key_of (demo_env 1 (int n)) ''/p'' = ''/p''" by (simp add: key_of_def demo_env_def)
  have adds: "only_adds 0 (\<lambda>q s. (True, s))" by (simp add: only_adds_def)
  have wait: "map qu_text (filter (waiting ''/p'' ''S'') (ct_queue demo_queue)) = [''first'', ''second'']"
    by (simp add: demo_queue_def enqueue_def demo_control_def waiting_def key_of_def MACHINE_KEY_def demo_env_def)
  from drain_runs_everything_in_order[where env = "\<lambda>n. demo_env 1 (int n)" and stopping = "\<lambda>_. False" and sid = "''S''"
      and r = demo_runner, OF demo_control_ok(3) adds key]
  obtain items r' t where run: "drain (Suc (length items)) (\<lambda>n. demo_env 1 (int n)) (\<lambda>_. False) (\<lambda>q s. (True, s)) ''/p'' ''S''
      (demo_runner, demo_queue) = Some (items, r', t)"
    and "prefix (map (\<lambda>q. q\<lparr>qu_status := RUNNING\<rparr>) (filter (waiting ''/p'' ''S'') (ct_queue demo_queue))) (map fst items)"
    by (auto simp: Let_def)
  from map_mono_prefix[OF this(2), of qu_text] run wait show ?thesis by (auto simp: comp_def)
qed

text \<open>
  A prompt is recorded before anything runs: \<open>submit\<close> refuses exactly the blank prompts, and an
  accepted one is in the queue, waiting, with its text stripped, whether or not a worker started.
\<close>

theorem submitted_prompt_is_recorded:
  assumes "submit env w sid text (r, s) = (out, r', t)"
  shows "(ro_accepted out \<longleftrightarrow> strip text \<noteq> []) \<and> (ro_queued out \<longrightarrow> ro_accepted out) \<and>
    (ro_accepted out \<longrightarrow> (\<exists>q \<in> set (ct_queue t). qu_id q = ro_queue_id out \<and> qu_text q = strip text \<and>
       waiting (key_of env w) sid q \<and> qu_source q = rn_surface r))"
proof (cases "strip text = []")
  case True
  with assms show ?thesis by (auto simp: submit_def)
next
  case False
  obtain started r1 u where start: "start_worker env w sid (r, snd (enqueue env w sid (strip text) (rn_surface r) s)) =
      (started, r1, u)" by (metis prod_cases3)
  have queue: "ct_queue u = ct_queue (snd (enqueue env w sid (strip text) (rn_surface r) s))"
    using start by (rule start_worker_cases) simp_all
  from assms start False have out: "t = u" "ro_accepted out" "ro_queue_id out = ct_next s"
    by (auto simp: submit_def enqueue_def Let_def split: if_splits)
  show ?thesis unfolding out(1) queue using out(2,3) False by (auto simp: enqueue_def waiting_def)
qed

theorem submitted_prompt_is_recorded_witness:
  "\<exists>out r t. submit (demo_env 1 0) ''/p'' ''S'' '' go '' (demo_runner, demo_control) = (out, r, t) \<and> ro_accepted out"
proof -
  obtain out r t where run: "submit (demo_env 1 0) ''/p'' ''S'' '' go '' (demo_runner, demo_control) = (out, r, t)"
    by (metis prod_cases3)
  moreover have "strip '' go '' \<noteq> []" by code_simp
  ultimately show ?thesis using submitted_prompt_is_recorded[OF run] by blast
qed

end
