(* ===== verification/RunControl.thy ===== *)
theory RunControl
  imports Json RuntimeTypes "HOL-Library.AList"
begin

text \<open>
  The run control of \<open>shamsu/runtime/run_control.py\<close>. Run objects live on a heap and are shared (the first \<open>rc_size\<close> addresses are in use): the
  dictionaries of active and of known runs and the current-run variable hold addresses, so two names
  may mean one object and a replaced object may still be somebody's current run. What is written to
  the session logger and to the action ledger is one list of entries. Asyncio events are flags; a
  model task is a handle whose completion the state records. Dictionaries that stay in memory keep
  the order in which the code writes their entries.
\<close>

subsection \<open>Run objects\<close>

record run_event =
  re_type :: string
  re_run_id :: string
  re_timestamp :: string
  re_payload :: dict

record run_obj =
  co_run_id :: string
  co_status :: run_status
  co_feedback :: "string list"
  co_cancel :: bool
  co_feedback_set :: bool
  co_unpaused :: bool
  co_task :: "nat option"
  co_started :: string
  co_updated :: string
  co_deadline :: "real option"
  co_max :: "real option"
  co_iterations :: int
  co_last :: string
  co_session :: "string option"
  co_ledger :: bool
  co_events :: "run_event list"
  co_active :: bool

datatype log_entry = SessionLog string string string | LedgerLog string string

record rc =
  rc_heap :: "nat \<Rightarrow> run_obj"
  rc_size :: nat
  rc_runs :: "(string \<times> nat) list"
  rc_history :: "(string \<times> nat) list"
  rc_current :: "nat option"
  rc_done :: "nat \<Rightarrow> bool"
  rc_cancelled :: "nat list"
  rc_log :: "log_entry list"
  rc_clock :: "nat \<Rightarrow> string"
  rc_ticks :: nat

definition terminal_statuses :: "run_status list" where
  "terminal_statuses = [RUN_CANCELLED, RUN_TIMED_OUT, RUN_FAILED, RUN_COMPLETED]"

definition obj :: "rc \<Rightarrow> nat \<Rightarrow> run_obj" where
  "obj s a = rc_heap s a"

definition update_obj :: "nat \<Rightarrow> (run_obj \<Rightarrow> run_obj) \<Rightarrow> rc \<Rightarrow> rc" where
  "update_obj a f s = s\<lparr>rc_heap := (rc_heap s)(a := f (rc_heap s a))\<rparr>"

definition tick :: "rc \<Rightarrow> rc" where
  "tick s = s\<lparr>rc_ticks := Suc (rc_ticks s)\<rparr>"

definition rc_now :: "rc \<Rightarrow> string" where
  "rc_now s = rc_clock s (rc_ticks s)"

definition record_event :: "nat \<Rightarrow> string \<Rightarrow> dict \<Rightarrow> rc \<Rightarrow> rc" where
  "record_event a kind payload s =
     (let t = rc_now s
      in update_obj a (\<lambda>r. r\<lparr>co_updated := t, co_events := co_events r @
           [\<lparr>re_type = kind, re_run_id = co_run_id r, re_timestamp = t, re_payload = payload\<rparr>]\<rparr>) (tick s))"

text \<open>The payload of \<open>mark\<close> is empty in every call of the module.\<close>

definition mark :: "nat \<Rightarrow> run_status \<Rightarrow> string \<Rightarrow> rc \<Rightarrow> rc" where
  "mark a status message s =
     (let previous = co_status (obj s a); t = rc_now s;
          s = update_obj a (\<lambda>r. r\<lparr>co_status := status, co_updated := t,
                co_last := (if message = [] then co_last r else message)\<rparr>) (tick s)
      in record_event a ''status_changed''
           [(''previous_status'', JStr (run_status_value previous)),
            (''status'', JStr (run_status_value status)), (''message'', JStr message)] s)"

definition log_session :: "nat \<Rightarrow> string \<Rightarrow> string \<Rightarrow> rc \<Rightarrow> rc" where
  "log_session a kind detail s = (case co_session (obj s a) of
     None \<Rightarrow> s | Some sid \<Rightarrow> s\<lparr>rc_log := rc_log s @ [SessionLog sid kind detail]\<rparr>)"

definition log_ledger :: "nat \<Rightarrow> string \<Rightarrow> string \<Rightarrow> rc \<Rightarrow> rc" where
  "log_ledger a kind detail s =
     (if co_ledger (obj s a) then s\<lparr>rc_log := rc_log s @ [LedgerLog kind detail]\<rparr> else s)"

subsection \<open>Registering\<close>

definition new_run :: "string \<Rightarrow> string option \<Rightarrow> bool \<Rightarrow> real option \<Rightarrow> real option \<Rightarrow> string \<Rightarrow> string \<Rightarrow> run_obj" where
  "new_run run_id session ledger max_runtime deadline started updated =
     \<lparr>co_run_id = run_id, co_status = RUN_CREATED, co_feedback = [], co_cancel = False, co_feedback_set = False,
      co_unpaused = True, co_task = None, co_started = started, co_updated = updated, co_deadline = deadline,
      co_max = max_runtime, co_iterations = 0, co_last = [], co_session = session, co_ledger = ledger,
      co_events = [], co_active = True\<rparr>"

definition register_run :: "string \<Rightarrow> string option \<Rightarrow> bool \<Rightarrow> real option \<Rightarrow> real \<Rightarrow> rc \<Rightarrow> nat \<times> rc" where
  "register_run run_id session ledger max_runtime monotonic s =
     (let deadline = (case max_runtime of Some m \<Rightarrow> if 0 < m then Some (monotonic + m) else None | None \<Rightarrow> None);
          a = rc_size s;
          run = new_run run_id session ledger max_runtime deadline (rc_now s) (rc_now (tick s));
          s = (tick (tick s))\<lparr>rc_heap := (rc_heap s)(a := run), rc_size := Suc a,
                 rc_runs := AList.update run_id a (rc_runs s),
                 rc_history := AList.update run_id a (rc_history s)\<rparr>;
          s = record_event a ''run_created'' [(''status'', JStr (run_status_value RUN_CREATED)),
                (''max_runtime_seconds'', case max_runtime of None \<Rightarrow> JNull | Some m \<Rightarrow> JFloat m)] s;
          s = mark a RUN_RUNNING ''Run started.'' s;
          s = log_session a ''agent.run.started'' run_id s;
          s = log_ledger a ''controlled_run_started'' run_id s
      in (a, s))"

text \<open>\<open>bind_run\<close> sets the current run and puts the old one back when the block ends, however it ends.\<close>

definition bind_run :: "nat \<Rightarrow> (rc, 'a) eff \<Rightarrow> (rc, 'a) eff" where
  "bind_run a body = (\<lambda>s. case body (s\<lparr>rc_current := Some a\<rparr>) of (r, t) \<Rightarrow> (r, t\<lparr>rc_current := rc_current s\<rparr>))"

definition get_run :: "rc \<Rightarrow> string \<Rightarrow> nat option" where
  "get_run s run_id = map_of (rc_runs s) run_id"

definition get_known_run :: "rc \<Rightarrow> string \<Rightarrow> nat option" where
  "get_known_run s run_id = (case get_run s run_id of Some a \<Rightarrow> Some a | None \<Rightarrow> map_of (rc_history s) run_id)"

definition active_run_ids :: "rc \<Rightarrow> string list" where
  "active_run_ids s = sort (map fst (rc_runs s))"

definition active_runs_for_session :: "rc \<Rightarrow> string \<Rightarrow> nat list" where
  "active_runs_for_session s sid = filter (\<lambda>a. co_session (obj s a) = Some sid) (map snd (rc_runs s))"

definition cleanup_run :: "nat \<Rightarrow> rc \<Rightarrow> rc" where
  "cleanup_run a s =
     (let s = update_obj a (\<lambda>r. r\<lparr>co_active := False, co_task := None\<rparr>) s;
          s = s\<lparr>rc_runs := AList.delete (co_run_id (obj s a)) (rc_runs s)\<rparr>
      in record_event a ''run_cleaned_up'' [(''status'', JStr (run_status_value (co_status (obj s a))))] s)"

subsection \<open>Requests from outside\<close>

definition cancel_task :: "nat \<Rightarrow> string \<Rightarrow> rc \<Rightarrow> rc" where
  "cancel_task a kind s = (case co_task (obj s a) of
     None \<Rightarrow> s
   | Some m \<Rightarrow> if rc_done s m then s
       else (record_event a kind [] s)\<lparr>rc_cancelled := rc_cancelled s @ [m]\<rparr>)"

definition cancel_run :: "string \<Rightarrow> rc \<Rightarrow> bool \<times> rc" where
  "cancel_run run_id s = (case get_run s run_id of
     None \<Rightarrow> (False, s)
   | Some a \<Rightarrow>
       (let s = mark a RUN_CANCELLING ''Cancellation requested.'' s;
            s = update_obj a (\<lambda>r. r\<lparr>co_cancel := True\<rparr>) s;
            s = cancel_task a ''model_call_cancel_requested'' s;
            s = log_session a ''agent.run.cancel_requested'' run_id s;
            s = log_ledger a ''cancel_requested'' [] s
        in (True, s)))"

definition pause_run :: "string \<Rightarrow> rc \<Rightarrow> bool \<times> rc" where
  "pause_run run_id s = (case get_run s run_id of
     None \<Rightarrow> (False, s)
   | Some a \<Rightarrow>
       (let s = update_obj a (\<lambda>r. r\<lparr>co_unpaused := False\<rparr>) s;
            s = record_event a ''pause_requested'' [] s;
            s = log_session a ''agent.run.pause_requested'' run_id s
        in (True, s)))"

definition resume_run :: "string \<Rightarrow> rc \<Rightarrow> bool \<times> rc" where
  "resume_run run_id s = (case get_run s run_id of
     None \<Rightarrow> (False, s)
   | Some a \<Rightarrow>
       (let s = update_obj a (\<lambda>r. r\<lparr>co_unpaused := True\<rparr>) s;
            s = record_event a ''resume_requested'' [] s;
            s = log_session a ''agent.run.resume_requested'' run_id s
        in (True, s)))"

text \<open>
  \<open>wait_if_paused\<close>: what it writes before it blocks, and after the event was set. What others do in
  between is an argument.
\<close>

definition wait_if_paused :: "nat \<Rightarrow> (rc \<Rightarrow> rc) \<Rightarrow> rc \<Rightarrow> rc" where
  "wait_if_paused a meanwhile s =
     (if co_unpaused (obj s a) then s
      else record_event a ''run_resumed'' [] (meanwhile (record_event a ''run_paused'' [] s)))"

definition accepts_feedback :: "run_status list" where
  "accepts_feedback = [RUN_CREATED, RUN_QUEUED, RUN_RUNNING, RUN_WAITING_FOR_APPROVAL, RUN_CANCELLING]"

definition add_feedback :: "string \<Rightarrow> string \<Rightarrow> rc \<Rightarrow> bool \<times> rc" where
  "add_feedback run_id text s = (case get_run s run_id of
     None \<Rightarrow> (False, s)
   | Some a \<Rightarrow>
       if co_status (obj s a) \<notin> set accepts_feedback then (False, s)
       else
         (let t = rc_now s;
              s = update_obj a (\<lambda>r. r\<lparr>co_feedback := co_feedback r @ [text], co_feedback_set := True,
                    co_updated := t\<rparr>) (tick s);
              s = record_event a ''feedback_added'' [(''text_preview'', JStr (take 500 text))] s;
              s = cancel_task a ''model_call_interrupted_for_feedback'' s;
              s = log_session a ''agent.feedback_added'' text s;
              s = log_ledger a ''feedback_added'' text s
          in (True, s)))"

subsection \<open>Approvals of the current run\<close>

definition mark_waiting_for_approval :: "string \<Rightarrow> rc \<Rightarrow> run_status option \<times> rc" where
  "mark_waiting_for_approval message s = (case rc_current s of
     None \<Rightarrow> (None, s)
   | Some a \<Rightarrow> if co_status (obj s a) \<in> set terminal_statuses then (None, s)
       else (Some (co_status (obj s a)), mark a RUN_WAITING_FOR_APPROVAL message s))"

definition restore_after_approval :: "run_status option \<Rightarrow> rc \<Rightarrow> rc" where
  "restore_after_approval previous s = (case rc_current s of
     None \<Rightarrow> s
   | Some a \<Rightarrow>
       if previous = None \<or> co_status (obj s a) \<in> set terminal_statuses then s
       else if co_cancel (obj s a) then mark a RUN_CANCELLING ''Cancellation requested.'' s
       else mark a RUN_RUNNING ''Approval resolved.'' s)"

subsection \<open>Deadlines and reports\<close>

definition time_remaining :: "real \<Rightarrow> run_obj \<Rightarrow> real option" where
  "time_remaining monotonic r = map_option (\<lambda>d. max 0 (d - monotonic)) (co_deadline r)"

definition run_timed_out :: "real \<Rightarrow> run_obj \<Rightarrow> bool" where
  "run_timed_out monotonic r = (case time_remaining monotonic r of None \<Rightarrow> False | Some x \<Rightarrow> x \<le> 0)"

definition get_run_status :: "string \<Rightarrow> rc \<Rightarrow> dict option" where
  "get_run_status run_id s = map_option (\<lambda>a. let r = obj s a in
     [(''run_id'', JStr (co_run_id r)), (''status'', JStr (run_status_value (co_status r))),
      (''started_at'', JStr (co_started r)), (''updated_at'', JStr (co_updated r)),
      (''max_runtime_seconds'', case co_max r of None \<Rightarrow> JNull | Some m \<Rightarrow> JFloat m),
      (''deadline_at'', case co_deadline r of None \<Rightarrow> JNull | Some d \<Rightarrow> JFloat d),
      (''iterations'', JInt (co_iterations r)), (''feedback_pending'', JInt (int (length (co_feedback r)))),
      (''cancel_requested'', JBool (co_cancel r)), (''paused'', JBool (\<not> co_unpaused r)),
      (''active'', JBool (co_active r)),
      (''current_model_task_active'', JBool (case co_task r of None \<Rightarrow> False | Some m \<Rightarrow> \<not> rc_done s m)),
      (''last_message'', JStr (co_last r))]) (get_known_run s run_id)"

definition get_run_events :: "string \<Rightarrow> rc \<Rightarrow> run_event list" where
  "get_run_events run_id s = (case get_known_run s run_id of None \<Rightarrow> [] | Some a \<Rightarrow> co_events (obj s a))"

subsection \<open>Completion\<close>

definition complete_run :: "string \<Rightarrow> run_status \<Rightarrow> string \<Rightarrow> rc \<Rightarrow> rc" where
  "complete_run run_id status message s = (case get_known_run s run_id of
     None \<Rightarrow> s
   | Some a \<Rightarrow>
       (let s = mark a status message s;
            s = log_session a ''agent.run.finished'' (run_status_value status) s;
            s = (if status = RUN_CANCELLED then log_ledger a ''run_cancelled'' [] s else s)
        in if status \<in> set terminal_statuses then cleanup_run a s else s))"

end
