(* ===== verification/RunControlSafety.thy ===== *)
theory RunControlSafety
  imports RunControl
begin

text \<open>
  The properties of run control: what is registered is alive, feedback reaches every registered run,
  a cancelled run does not run again, and the event log of a run replays its status.
\<close>

subsection \<open>What the operations leave alone\<close>

lemma obj_update [simp]:
  "obj (update_obj a f s) b = (if a = b then f (obj s b) else obj s b)"
  by (auto simp: obj_def update_obj_def)

lemma obj_frames [simp]:
  "obj (tick s) b = obj s b" "obj (log_session a k d s) b = obj s b" "obj (log_ledger a k d s) b = obj s b"
  "obj (s\<lparr>rc_cancelled := c\<rparr>) b = obj s b" "obj (s\<lparr>rc_runs := r\<rparr>) b = obj s b" "obj (s\<lparr>rc_current := u\<rparr>) b = obj s b"
  by (simp_all add: obj_def tick_def log_session_def log_ledger_def split: option.split)

lemma update_frames [simp]:
  "rc_runs (update_obj a f s) = rc_runs s" "rc_history (update_obj a f s) = rc_history s"
  "rc_current (update_obj a f s) = rc_current s" "rc_size (update_obj a f s) = rc_size s"
  "rc_runs (tick s) = rc_runs s" "rc_history (tick s) = rc_history s"
  "rc_current (tick s) = rc_current s" "rc_heap (tick s) = rc_heap s" "rc_size (tick s) = rc_size s"
  "rc_runs (log_session a k d s) = rc_runs s" "rc_history (log_session a k d s) = rc_history s"
  "rc_current (log_session a k d s) = rc_current s" "rc_heap (log_session a k d s) = rc_heap s" "rc_size (log_session a k d s) = rc_size s"
  "rc_runs (log_ledger a k d s) = rc_runs s" "rc_history (log_ledger a k d s) = rc_history s"
  "rc_current (log_ledger a k d s) = rc_current s" "rc_heap (log_ledger a k d s) = rc_heap s" "rc_size (log_ledger a k d s) = rc_size s"
  by (simp_all add: update_obj_def tick_def log_session_def log_ledger_def split: option.split)

lemma record_event_frames [simp]:
  "rc_runs (record_event a k p s) = rc_runs s" "rc_history (record_event a k p s) = rc_history s"
  "rc_current (record_event a k p s) = rc_current s" "rc_size (record_event a k p s) = rc_size s"
  "co_run_id (obj (record_event a k p s) b) = co_run_id (obj s b)"
  "co_status (obj (record_event a k p s) b) = co_status (obj s b)"
  "co_active (obj (record_event a k p s) b) = co_active (obj s b)"
  "co_cancel (obj (record_event a k p s) b) = co_cancel (obj s b)"
  "co_feedback (obj (record_event a k p s) b) = co_feedback (obj s b)"
  by (simp_all add: record_event_def Let_def)

lemma mark_frames [simp]:
  "rc_runs (mark a st m s) = rc_runs s" "rc_history (mark a st m s) = rc_history s"
  "rc_current (mark a st m s) = rc_current s" "rc_size (mark a st m s) = rc_size s"
  "co_run_id (obj (mark a st m s) b) = co_run_id (obj s b)"
  "co_status (obj (mark a st m s) b) = (if a = b then st else co_status (obj s b))"
  "co_active (obj (mark a st m s) b) = co_active (obj s b)"
  "co_cancel (obj (mark a st m s) b) = co_cancel (obj s b)"
  "co_feedback (obj (mark a st m s) b) = co_feedback (obj s b)"
  by (simp_all add: mark_def Let_def)

lemma cancel_task_frames [simp]:
  "rc_runs (cancel_task a k s) = rc_runs s" "rc_history (cancel_task a k s) = rc_history s"
  "rc_current (cancel_task a k s) = rc_current s" "rc_size (cancel_task a k s) = rc_size s"
  "co_run_id (obj (cancel_task a k s) b) = co_run_id (obj s b)"
  "co_status (obj (cancel_task a k s) b) = co_status (obj s b)"
  "co_active (obj (cancel_task a k s) b) = co_active (obj s b)"
  "co_cancel (obj (cancel_task a k s) b) = co_cancel (obj s b)"
  "co_feedback (obj (cancel_task a k s) b) = co_feedback (obj s b)"
  by (simp_all add: cancel_task_def split: option.split)

lemma cleanup_frames [simp]:
  "rc_runs (cleanup_run a s) = AList.delete (co_run_id (obj s a)) (rc_runs s)"
  "rc_history (cleanup_run a s) = rc_history s"
  "rc_current (cleanup_run a s) = rc_current s" "rc_size (cleanup_run a s) = rc_size s"
  "co_run_id (obj (cleanup_run a s) b) = co_run_id (obj s b)"
  "co_status (obj (cleanup_run a s) b) = co_status (obj s b)"
  "co_active (obj (cleanup_run a s) b) = (if a = b then False else co_active (obj s b))"
  "co_cancel (obj (cleanup_run a s) b) = co_cancel (obj s b)"
  by (simp_all add: cleanup_run_def Let_def)

subsection \<open>Steps\<close>

text \<open>
  The operations of the module, and what the chat loop does to a run object besides: it installs and
  drops model tasks, counts iterations and consumes feedback.
\<close>

inductive rc_step :: "rc \<Rightarrow> rc \<Rightarrow> bool" where
  rcs_register: "rc_step s (snd (register_run i session ledger max_runtime clk s))"
| rcs_bind: "a < rc_size s \<Longrightarrow> rc_step s (s\<lparr>rc_current := Some a\<rparr>)"
| rcs_unbind: "rc_step s (s\<lparr>rc_current := None\<rparr>)"
| rcs_cancel: "rc_step s (snd (cancel_run i s))"
| rcs_pause: "rc_step s (snd (pause_run i s))"
| rcs_resume: "rc_step s (snd (resume_run i s))"
| rcs_paused: "rc_step s (record_event a ''run_paused'' [] s)"
| rcs_resumed: "rc_step s (record_event a ''run_resumed'' [] s)"
| rcs_feedback: "rc_step s (snd (add_feedback i txt s))"
| rcs_waiting: "rc_step s (snd (mark_waiting_for_approval m s))"
| rcs_restore: "rc_step s (restore_after_approval p s)"
| rcs_complete: "st \<noteq> RUN_RUNNING \<Longrightarrow> rc_step s (complete_run i st m s)"
| rcs_task: "rc_step s (update_obj a (\<lambda>r. r\<lparr>co_task := h\<rparr>) s)"
| rcs_iterate: "rc_step s (update_obj a (\<lambda>r. r\<lparr>co_iterations := co_iterations r + 1\<rparr>) s)"
| rcs_consume: "rc_step s (update_obj a (\<lambda>r. r\<lparr>co_feedback := drop n (co_feedback r)\<rparr>) s)"

text \<open>What is registered: an active object with a status that is not terminal, under its own name.\<close>

definition registered_ok :: "rc \<Rightarrow> bool" where
  "registered_ok s \<longleftrightarrow> distinct (map fst (rc_runs s)) \<and>
     (\<forall>(i, a) \<in> set (rc_runs s). a < rc_size s \<and> co_run_id (obj s a) = i \<and> co_active (obj s a) \<and>
        co_status (obj s a) \<notin> set terminal_statuses \<and> map_of (rc_history s) i = Some a)"

lemma registered_row:
  "registered_ok s \<Longrightarrow> (i, a) \<in> set (rc_runs s) \<Longrightarrow> a < rc_size s \<and> co_run_id (obj s a) = i \<and>
     co_active (obj s a) \<and> co_status (obj s a) \<notin> set terminal_statuses \<and> map_of (rc_history s) i = Some a"
  by (auto simp: registered_ok_def)

lemma registered_get: "registered_ok s \<Longrightarrow> get_run s i = Some a \<Longrightarrow> (i, a) \<in> set (rc_runs s)"
  by (simp add: get_run_def map_of_SomeD)

text \<open>Steps that keep the dictionaries only have to keep what is recorded of each object.\<close>

lemma registered_keep:
  assumes "registered_ok s" and "rc_runs t = rc_runs s" and "rc_history t = rc_history s"
    and "rc_size t = rc_size s"
    and "\<And>b. co_run_id (obj t b) = co_run_id (obj s b)" and "\<And>b. co_active (obj t b) = co_active (obj s b)"
    and "\<And>b. co_status (obj s b) \<notin> set terminal_statuses \<Longrightarrow> co_status (obj t b) \<notin> set terminal_statuses"
  shows "registered_ok t"
  using assms unfolding registered_ok_def by fastforce

lemma terminal_simps [simp]:
  "RUN_CANCELLING \<notin> set terminal_statuses" "RUN_RUNNING \<notin> set terminal_statuses"
  "RUN_WAITING_FOR_APPROVAL \<notin> set terminal_statuses" "RUN_CREATED \<notin> set terminal_statuses"
  by (simp_all add: terminal_statuses_def)

lemma nonterminal_accepts: "st \<notin> set terminal_statuses \<longleftrightarrow> st \<in> set accepts_feedback"
  by (cases st) (simp_all add: terminal_statuses_def accepts_feedback_def)

lemma register_run_state:
  assumes "register_run i session ledger max_runtime clk s = (a, t)"
  shows "a = rc_size s" and "rc_runs t = AList.update i a (rc_runs s)"
    and "rc_history t = AList.update i a (rc_history s)" and "rc_size t = Suc (rc_size s)"
    and "rc_current t = rc_current s"
    and "\<And>b. b < rc_size s \<Longrightarrow> obj t b = obj s b"
    and "co_run_id (obj t a) = i" and "co_status (obj t a) = RUN_RUNNING" and "co_active (obj t a)"
proof -
  show "a = rc_size s" "rc_runs t = AList.update i a (rc_runs s)"
    "rc_history t = AList.update i a (rc_history s)" "rc_size t = Suc (rc_size s)"
    "rc_current t = rc_current s"
    using assms by (auto simp: register_run_def Let_def)
  show "\<And>b. b < rc_size s \<Longrightarrow> obj t b = obj s b"
    using assms by (auto simp: register_run_def Let_def record_event_def mark_def) (simp_all add: obj_def)
  show "co_run_id (obj t a) = i" "co_status (obj t a) = RUN_RUNNING" "co_active (obj t a)"
    using assms by (auto simp: register_run_def Let_def) (simp_all add: obj_def new_run_def)
qed

lemma registered_register: "registered_ok s \<Longrightarrow> registered_ok (snd (register_run i session ledger max_runtime clk s))"
proof -
  assume ok: "registered_ok s"
  obtain a t where run: "register_run i session ledger max_runtime clk s = (a, t)" by fastforce
  note st = register_run_state[OF run]
  have "distinct (map fst (AList.update i a (rc_runs s)))"
    using ok by (simp add: registered_ok_def distinct_update)
  moreover have "b < rc_size t \<and> co_run_id (obj t b) = j \<and> co_active (obj t b) \<and>
      co_status (obj t b) \<notin> set terminal_statuses \<and> map_of (rc_history t) j = Some b"
    if row: "(j, b) \<in> set (AList.update i a (rc_runs s))" for j b
  proof (cases "j = i")
    case True
    have "map_of (AList.update i a (rc_runs s)) j = Some b"
      using row calculation by simp
    with True st show ?thesis by (simp add: update_conv')
  next
    case False
    have "map_of (AList.update i a (rc_runs s)) j = Some b"
      using row calculation by simp
    with False have "(j, b) \<in> set (rc_runs s)" by (simp add: update_conv' map_of_SomeD)
    from registered_row[OF ok this] False st show ?thesis by (simp add: update_conv')
  qed
  ultimately show ?thesis unfolding registered_ok_def run snd_conv st(2) by blast
qed

lemma registered_complete: "registered_ok s \<Longrightarrow> registered_ok (complete_run i st m s)"
proof (cases "get_known_run s i")
  case (Some a)
  assume ok: "registered_ok s"
  let ?u = "log_session a ''agent.run.finished'' (run_status_value st) (mark a st m s)"
  let ?v = "if st = RUN_CANCELLED then log_ledger a ''run_cancelled'' [] ?u else ?u"
  have v: "rc_runs ?v = rc_runs s" "rc_history ?v = rc_history s" "rc_size ?v = rc_size s"
    "\<And>b. co_run_id (obj ?v b) = co_run_id (obj s b)" "\<And>b. co_active (obj ?v b) = co_active (obj s b)"
    "\<And>b. co_status (obj ?v b) = (if a = b then st else co_status (obj s b))"
    by simp_all
  have eq: "complete_run i st m s = (if st \<in> set terminal_statuses then cleanup_run a ?v else ?v)"
    by (simp add: complete_run_def Some Let_def)
  show ?thesis
  proof (cases "st \<in> set terminal_statuses")
    case False
    have "registered_ok ?v"
      by (rule registered_keep[OF ok]) (simp_all add: v False)
    with False show ?thesis by (simp add: eq)
  next
    case True
    let ?key = "co_run_id (obj s a)"
    have "distinct (map fst (AList.delete ?key (rc_runs s)))"
      using ok by (simp add: registered_ok_def distinct_delete)
    moreover have "b < rc_size s \<and> co_run_id (obj (cleanup_run a ?v) b) = j \<and> co_active (obj (cleanup_run a ?v) b) \<and>
        co_status (obj (cleanup_run a ?v) b) \<notin> set terminal_statuses \<and> map_of (rc_history s) j = Some b"
      if row: "(j, b) \<in> set (AList.delete ?key (rc_runs s))" for j b
    proof -
      have "(j, b) \<in> set (rc_runs s)" and "j \<noteq> ?key" using row by (auto simp: AList.delete_eq)
      with registered_row[OF ok this(1)] show ?thesis by (auto simp: v)
    qed
    ultimately have "registered_ok (cleanup_run a ?v)"
      unfolding registered_ok_def cleanup_frames v by blast
    with True show ?thesis by (simp add: eq)
  qed
qed (simp add: complete_run_def)

lemma registered_step: "rc_step s t \<Longrightarrow> registered_ok s \<Longrightarrow> registered_ok t"
proof (induction rule: rc_step.induct)
  case (rcs_register s i session ledger max_runtime clk)
  then show ?case by (rule registered_register)
next
  case (rcs_complete st s i m)
  then show ?case by (intro registered_complete)
qed (auto elim!: registered_keep simp: cancel_run_def pause_run_def resume_run_def add_feedback_def Let_def
      mark_waiting_for_approval_def restore_after_approval_def split: option.splits if_splits)

lemma registered_steps: "rc_step\<^sup>*\<^sup>* s t \<Longrightarrow> registered_ok s \<Longrightarrow> registered_ok t"
  by (induction rule: rtranclp_induct) (auto intro: registered_step)

lemma feedback_accepted:
  assumes "registered_ok s"
  shows "fst (add_feedback i txt s) \<longleftrightarrow> get_run s i \<noteq> None"
proof (cases "get_run s i")
  case None
  then show ?thesis by (simp add: add_feedback_def)
next
  case (Some a)
  then have "co_status (obj s a) \<in> set accepts_feedback"
    using registered_row[OF assms registered_get[OF assms Some]] nonterminal_accepts by blast
  with Some show ?thesis by (simp add: add_feedback_def Let_def)
qed

text \<open>A run that was told to cancel is not running, whoever asks.\<close>

definition cancel_sticks :: "nat \<Rightarrow> rc \<Rightarrow> bool" where
  "cancel_sticks a s \<longleftrightarrow> a < rc_size s \<and> co_cancel (obj s a) \<and> co_status (obj s a) \<noteq> RUN_RUNNING"

lemma cancel_sticks_step: "rc_step s t \<Longrightarrow> cancel_sticks a s \<Longrightarrow> cancel_sticks a t"
proof (induction rule: rc_step.induct)
  case (rcs_register s i session ledger max_runtime clk)
  obtain b t where run: "register_run i session ledger max_runtime clk s = (b, t)" by fastforce
  from rcs_register register_run_state(4,6)[OF run] show ?case by (simp add: cancel_sticks_def run)
next
  case (rcs_restore s p)
  then show ?case by (auto simp: cancel_sticks_def restore_after_approval_def split: option.splits)
qed (auto simp: cancel_sticks_def cancel_run_def pause_run_def resume_run_def add_feedback_def Let_def
      mark_waiting_for_approval_def complete_run_def split: option.splits)

lemma cancel_sticks_steps: "rc_step\<^sup>*\<^sup>* s t \<Longrightarrow> cancel_sticks a s \<Longrightarrow> cancel_sticks a t"
  by (induction rule: rtranclp_induct) (auto intro: cancel_sticks_step)

subsection \<open>The event log replays the status\<close>

definition replayed :: "run_event list \<Rightarrow> json option" where
  "replayed es = fold (\<lambda>e acc. if re_type e = ''status_changed'' then dict_get (re_payload e) ''status'' else acc) es None"

definition log_replays :: "rc \<Rightarrow> bool" where
  "log_replays s \<longleftrightarrow> (\<forall>a < rc_size s. replayed (co_events (obj s a)) = Some (JStr (run_status_value (co_status (obj s a)))))"

lemma replayed_append [simp]:
  "replayed (es @ [e]) = (if re_type e = ''status_changed'' then dict_get (re_payload e) ''status'' else replayed es)"
  by (simp add: replayed_def)

lemma events_record [simp]:
  "k \<noteq> ''status_changed'' \<Longrightarrow> replayed (co_events (obj (record_event a k p s) b)) = replayed (co_events (obj s b))"
  by (simp add: record_event_def Let_def)

lemma events_mark [simp]:
  "replayed (co_events (obj (mark a st m s) b)) =
     (if a = b then Some (JStr (run_status_value st)) else replayed (co_events (obj s b)))"
  by (simp add: mark_def record_event_def Let_def dict_get_def)

lemma events_cancel_task [simp]:
  "k \<noteq> ''status_changed'' \<Longrightarrow> replayed (co_events (obj (cancel_task a k s) b)) = replayed (co_events (obj s b))"
  by (simp add: cancel_task_def split: option.split)

lemma events_cleanup [simp]: "replayed (co_events (obj (cleanup_run a s) b)) = replayed (co_events (obj s b))"
  by (simp add: cleanup_run_def Let_def)

lemma log_replays_step: "rc_step s t \<Longrightarrow> log_replays s \<Longrightarrow> log_replays t"
proof (induction rule: rc_step.induct)
  case (rcs_register s i session ledger max_runtime clk)
  then show ?case
    by (auto simp: log_replays_def register_run_def Let_def) (auto simp: obj_def less_Suc_eq)
qed (auto simp: log_replays_def cancel_run_def pause_run_def resume_run_def add_feedback_def Let_def
      mark_waiting_for_approval_def restore_after_approval_def complete_run_def split: option.splits)

lemma log_replays_steps: "rc_step\<^sup>*\<^sup>* s t \<Longrightarrow> log_replays s \<Longrightarrow> log_replays t"
  by (induction rule: rtranclp_induct) (auto intro: log_replays_step)

subsection \<open>Properties\<close>

definition demo_rc :: rc where
  "demo_rc = \<lparr>rc_heap = (\<lambda>_. new_run [] None False None None [] []), rc_size = 0, rc_runs = [], rc_history = [],
     rc_current = None, rc_done = (\<lambda>_. False), rc_cancelled = [], rc_log = [], rc_clock = (\<lambda>_. ''t''), rc_ticks = 0\<rparr>"

definition demo_registered :: rc where
  "demo_registered = snd (register_run ''r'' (Some ''S'') True None 0 demo_rc)"

lemma demo_rc_ok: "registered_ok demo_rc" "log_replays demo_rc"
  by (simp_all add: registered_ok_def log_replays_def demo_rc_def)

lemma demo_registered_ok: "rc_step\<^sup>*\<^sup>* demo_rc demo_registered" "registered_ok demo_registered"
  "get_run demo_registered ''r'' = Some 0"
proof -
  show "rc_step\<^sup>*\<^sup>* demo_rc demo_registered"
    unfolding demo_registered_def by (rule r_into_rtranclp, rule rcs_register)
  then show "registered_ok demo_registered" using registered_steps demo_rc_ok(1) by blast
  obtain a t where run: "register_run ''r'' (Some ''S'') True None 0 demo_rc = (a, t)" by fastforce
  from register_run_state(1,2)[OF run] show "get_run demo_registered ''r'' = Some 0"
    unfolding demo_registered_def run snd_conv get_run_def by (simp add: demo_rc_def)
qed

text \<open>
  Whatever the run-control functions and the chat loop do, a run that is registered as active is
  an active object with a status that is not terminal, stored under its own identifier, and the
  lookup of known runs finds the same object.
\<close>

theorem registered_runs_are_live:
  assumes "registered_ok s" and "rc_step\<^sup>*\<^sup>* s t" and "get_run t i = Some a"
  shows "co_run_id (obj t a) = i \<and> co_active (obj t a) \<and> co_status (obj t a) \<notin> set terminal_statuses \<and>
    get_known_run t i = Some a"
proof -
  have "registered_ok t" using registered_steps assms(1,2) by blast
  from registered_row[OF this registered_get[OF this assms(3)]] assms(3) show ?thesis
    by (simp add: get_known_run_def)
qed

theorem registered_runs_are_live_witness: "co_active (obj demo_registered 0) \<and> co_run_id (obj demo_registered 0) = ''r''"
  using registered_runs_are_live[OF demo_rc_ok(1) demo_registered_ok(1,3)] by simp

text \<open>
  Feedback reaches every registered run: \<open>add_feedback\<close> succeeds exactly for the registered
  identifiers, whatever the status, and then the text is the last one of the run's queue.
\<close>

theorem feedback_reaches_registered_runs:
  assumes "registered_ok s"
  shows "(fst (add_feedback i txt s) \<longleftrightarrow> get_run s i \<noteq> None) \<and>
    (\<forall>a. get_run s i = Some a \<longrightarrow> co_feedback (obj (snd (add_feedback i txt s)) a) = co_feedback (obj s a) @ [txt])"
proof -
  have "co_status (obj s a) \<in> set accepts_feedback" if "get_run s i = Some a" for a
    using registered_row[OF assms registered_get[OF assms that]] nonterminal_accepts by blast
  with feedback_accepted[OF assms] show ?thesis by (simp add: add_feedback_def Let_def)
qed

theorem feedback_reaches_registered_runs_witness: "fst (add_feedback ''r'' ''stop'' demo_registered)"
  using feedback_reaches_registered_runs[OF demo_registered_ok(2), of "''r''"] demo_registered_ok(3) by simp

text \<open>
  C27. A cancelled run does not resume: after \<open>cancel_run\<close> no step of the module brings the run back to
  RUNNING, an approval that is resolved late included, and the cancel request stays set.
\<close>

theorem cancelled_run_does_not_resume:
  assumes "registered_ok s" and "get_run s i = Some a" and "rc_step\<^sup>*\<^sup>* (snd (cancel_run i s)) t"
  shows "co_cancel (obj t a) \<and> co_status (obj t a) \<noteq> RUN_RUNNING"
proof -
  have "a < rc_size s" using registered_row[OF assms(1) registered_get[OF assms(1,2)]] by simp
  with assms(2) have "cancel_sticks a (snd (cancel_run i s))"
    by (simp add: cancel_sticks_def cancel_run_def Let_def)
  with assms(3) show ?thesis using cancel_sticks_steps by (auto simp: cancel_sticks_def)
qed

theorem cancelled_run_does_not_resume_witness:
  "co_cancel (obj (snd (cancel_run ''r'' demo_registered)) 0)"
  using cancelled_run_does_not_resume[OF demo_registered_ok(2,3) rtranclp.rtrancl_refl] by simp

text \<open>
  The event log is the history of the status: in every state the module can reach from one where
  it holds, the status of the last \<open>status_changed\<close> event of each run is the run's status.
\<close>

theorem event_log_replays_status:
  assumes "log_replays s" and "rc_step\<^sup>*\<^sup>* s t" and "a < rc_size t"
  shows "replayed (co_events (obj t a)) = Some (JStr (run_status_value (co_status (obj t a))))"
  using log_replays_steps[OF assms(2,1)] assms(3) by (simp add: log_replays_def)

theorem event_log_replays_status_witness:
  "replayed (co_events (obj demo_registered 0)) = Some (JStr ''running'')"
proof -
  obtain a t where run: "register_run ''r'' (Some ''S'') True None 0 demo_rc = (a, t)" by fastforce
  have t: "demo_registered = t" "a = 0" using register_run_state(1)[OF run]
    unfolding demo_registered_def run snd_conv by (simp_all add: demo_rc_def)
  with register_run_state(4,8)[OF run] event_log_replays_status[OF demo_rc_ok(2) demo_registered_ok(1), of 0]
  show ?thesis by simp
qed

end
