(* ===== verification/Engine.thy ===== *)
theory Engine
  imports RuntimeGate RunControlSafety
begin

text \<open>
  The production engine: \<open>runtime/engine.py\<close>, \<open>runtime/run_controller.py\<close>, \<open>runtime/transitions.py\<close> and
  \<open>verification/completion.py\<close>, with the two methods of \<open>AgentChatLoop\<close> it calls that write the runtime
  store. A world is the store, the run control and the task identifier the agent holds. The executor
  that runs the turn is a parameter: any function of the world that returns a result, is cancelled or
  raises.
\<close>

subsection \<open>Results\<close>

record loop_result =
  lr_final :: string
  lr_tool_rounds :: int
  lr_stopped :: bool
  lr_awaiting_user :: bool
  lr_timeout_category :: "string option"
  lr_run_id :: string
  lr_task_id :: string
  lr_status :: run_status
  lr_changed_files :: "string list"

definition status_from_result :: "loop_result \<Rightarrow> run_status" where
  "status_from_result r =
     (if lr_status r \<noteq> RUN_COMPLETED then lr_status r
      else if (case lr_timeout_category r of None \<Rightarrow> False | Some c \<Rightarrow> c \<noteq> []) then RUN_TIMED_OUT
      else if lr_stopped r \<and> \<not> lr_awaiting_user r then RUN_FAILED
      else RUN_COMPLETED)"

definition newline2 :: string where "newline2 = [newline, newline]"

definition apply_completion_gate_failure :: "loop_result \<Rightarrow> gate_result option \<Rightarrow> loop_result" where
  "apply_completion_gate_failure r gate = (case gate of
     None \<Rightarrow> r\<lparr>lr_final := strip (lr_final r @ newline2 @
         ''Completion not registered: runtime completion gate was unavailable.''), lr_stopped := True\<rparr>
   | Some g \<Rightarrow>
       (let reason = (if gr_message g = [] then ''Completion evidence gate failed.'' else gr_message g);
            detail = (if gr_missing_evidence g = [] then []
              else '' Missing evidence: '' @ join '', '' (gr_missing_evidence g) @ ''.'');
            detail = (if gr_incomplete_steps g = [] then detail
              else detail @ '' Incomplete steps: '' @ join '', '' (gr_incomplete_steps g) @ ''.'')
        in r\<lparr>lr_final := strip (lr_final r @ newline2 @ ''Completion not registered: '' @ reason @ detail),
             lr_stopped := True\<rparr>))"

subsection \<open>The completion coordinator\<close>

definition request_completion :: "string \<Rightarrow> gate_result store_eff" where
  "request_completion task_id =
     seq (current_active_step task_id) (\<lambda>active. case active of
       None \<Rightarrow> request_task_complete task_id None
     | Some st \<Rightarrow> seq (complete_plan_step task_id (ps_step_id st)) (\<lambda>gate.
         if \<not> gr_ok gate then ret gate else request_task_complete task_id None))"

subsection \<open>The agent\<close>

text \<open>
  What the agent is built with: its run, project and time limit, its loggers, and the plan its task
  contract asks for.
\<close>

record agent =
  ag_run_id :: string
  ag_project :: string
  ag_max_runtime :: "real option"
  ag_session :: "string option"
  ag_ledger :: bool
  ag_contract :: "(string \<Rightarrow> execution_plan) option"

record world =
  wd_store :: store
  wd_rc :: rc
  wd_task :: string

type_synonym 'a world_eff = "(world, 'a) eff"

definition on_store :: "'a store_eff \<Rightarrow> 'a world_eff" where
  "on_store m w = (case m (wd_store w) of (r, s) \<Rightarrow> (r, w\<lparr>wd_store := s\<rparr>))"

definition on_rc :: "(rc \<Rightarrow> rc) \<Rightarrow> unit world_eff" where
  "on_rc f = modify (\<lambda>w. w\<lparr>wd_rc := f (wd_rc w)\<rparr>)"

definition suppress :: "('s, 'a) eff \<Rightarrow> ('s, unit) eff" where
  "suppress m = catch (seq m (\<lambda>_. ret ())) (\<lambda>_. ret ())"

definition checkpoint_task_status :: "run_status \<Rightarrow> string \<Rightarrow> string \<Rightarrow> unit world_eff" where
  "checkpoint_task_status status phase kind =
     seq (gets wd_task) (\<lambda>tid. suppress (on_store (update_task_status tid status (Some phase) (Some kind))))"

definition fresh_suffix :: "string store_eff" where
  "fresh_suffix = (\<lambda>s. (Inr (take 6 (st_uuid s (st_drawn s))), s\<lparr>st_drawn := Suc (st_drawn s)\<rparr>))"

definition initialize_runtime_task :: "agent \<Rightarrow> string \<Rightarrow> real option \<Rightarrow> task_state world_eff" where
  "initialize_runtime_task ag user_input deadline =
     seq (on_store (create_run (ag_run_id ag) RUN_RUNNING deadline)) (\<lambda>_.
     seq (gets wd_task) (\<lambda>tid.
     seq (on_store (read (\<lambda>s. load_task s tid False))) (\<lambda>found.
     seq (case found of
            None \<Rightarrow> on_store (create_task (ag_run_id ag) user_input (ag_project ag) (Some tid) [])
          | Some st \<Rightarrow>
              if terminal_run (ts_status st) then
                seq (on_store fresh_suffix) (\<lambda>suffix.
                seq (modify (\<lambda>w. w\<lparr>wd_task := tid @ ''-'' @ suffix\<rparr>)) (\<lambda>_.
                on_store (create_task (ag_run_id ag) user_input (ag_project ag) (Some (tid @ ''-'' @ suffix)) [])))
              else ret (st\<lparr>ts_user_request := user_input, ts_project_id := ag_project ag\<rparr>)) (\<lambda>st.
     seq (on_store (save_task (st\<lparr>ts_status := RUN_RUNNING, ts_current_phase := ''EXPLORE''\<rparr>)
            (Some ''task_started'') None False)) (\<lambda>st.
     seq (case ag_contract ag of None \<Rightarrow> ret ()
          | Some plan \<Rightarrow> seq (gets wd_task) (\<lambda>t. suppress (on_store (save_execution_plan (plan t) None)))) (\<lambda>_.
     ret st))))))"

subsection \<open>The engine\<close>

datatype outcome = Finished loop_result | Cancelled | Raised py_error

text \<open>
  \<open>execute user_input control\<close> is what the executor does. A task may also be cancelled before it
  started: the \<open>sleep(0)\<close> at the beginning of the run.
\<close>

type_synonym executor = "string \<Rightarrow> nat \<Rightarrow> world \<Rightarrow> outcome \<times> world"

definition start_turn :: "agent \<Rightarrow> bool \<Rightarrow> executor \<Rightarrow> string \<Rightarrow> nat \<Rightarrow> world \<Rightarrow> outcome \<times> world" where
  "start_turn ag early execute user_input a w =
     (if early then (Cancelled, w)
      else case initialize_runtime_task ag user_input (co_deadline (obj (wd_rc w) a)) w of
        (Inl e, w) \<Rightarrow> (Raised e, w)
      | (Inr _, w) \<Rightarrow> execute user_input a w)"

definition controller_complete :: "agent \<Rightarrow> run_status \<Rightarrow> string \<Rightarrow> unit world_eff" where
  "controller_complete ag status message = on_rc (complete_run (ag_run_id ag) status message)"

definition terminal_result :: "agent \<Rightarrow> string \<Rightarrow> string \<Rightarrow> run_status \<Rightarrow> loop_result" where
  "terminal_result ag task_id final status = \<lparr>lr_final = final, lr_tool_rounds = 0, lr_stopped = True,
     lr_awaiting_user = False, lr_timeout_category = None, lr_run_id = ag_run_id ag, lr_task_id = task_id,
     lr_status = status, lr_changed_files = []\<rparr>"

text \<open>
  After the turn: the gate is asked about the task identifier the coordinator was built with.
\<close>

definition finish_turn :: "agent \<Rightarrow> string \<Rightarrow> loop_result \<Rightarrow> loop_result world_eff" where
  "finish_turn ag coordinated result =
     (let status = status_from_result result
      in seq (if status = RUN_COMPLETED then
                seq (on_store (request_completion coordinated)) (\<lambda>gate.
                if gr_ok gate then ret (RUN_COMPLETED, result)
                else
                  let evidence = gr_missing_evidence gate @ gr_incomplete_steps gate @ gr_failed_evidence gate @
                        gr_stale_evidence gate
                  in seq (gets wd_task) (\<lambda>tid.
                     seq (suppress (on_store (create_failure tid (failure_type_value PREMATURE_COMPLETION) []
                       ''TASK_COMPLETE'' evidence (JStr (gr_message gate))))) (\<lambda>_.
                     seq (checkpoint_task_status RUN_FAILED ''failed'' ''completion_gate_failed'') (\<lambda>_.
                     ret (RUN_FAILED, apply_completion_gate_failure result (Some gate))))))
              else seq (checkpoint_task_status status (run_status_value status) (run_status_value status)) (\<lambda>_.
                ret (status, result))) (\<lambda>(status, result).
         seq (controller_complete ag status (take 500 (lr_final result))) (\<lambda>_.
         seq (gets wd_task) (\<lambda>tid.
         ret (result\<lparr>lr_run_id := ag_run_id ag, lr_task_id := tid, lr_status := status\<rparr>)))))"

definition engine_run :: "agent \<Rightarrow> bool \<Rightarrow> real \<Rightarrow> (py_error \<Rightarrow> string) \<Rightarrow> executor \<Rightarrow> string \<Rightarrow> loop_result world_eff" where
  "engine_run ag early monotonic describe execute user_input w =
     (let coordinated = wd_task w;
          (a, rc) = register_run (ag_run_id ag) (ag_session ag) (ag_ledger ag) (ag_max_runtime ag) monotonic (wd_rc w);
          outer = rc_current rc;
          unbind = on_rc (\<lambda>rc. rc\<lparr>rc_current := outer\<rparr>);
          (outcome, w) = start_turn ag early execute user_input a (w\<lparr>wd_rc := rc\<lparr>rc_current := Some a\<rparr>\<rparr>)
      in case outcome of
           Cancelled \<Rightarrow>
             seq (gets (\<lambda>w. if co_cancel (obj (wd_rc w) a) then RUN_CANCELLED else RUN_FAILED)) (\<lambda>status.
             seq (checkpoint_task_status status (run_status_value status) ''cancelled'') (\<lambda>_.
             seq (controller_complete ag status ''Run cancelled.'') (\<lambda>_.
             seq (gets wd_task) (\<lambda>tid.
             seq unbind (\<lambda>_. ret (terminal_result ag tid ''Run cancelled.'' status)))))) w
         | Raised e \<Rightarrow>
             seq (checkpoint_task_status RUN_FAILED ''failed'' ''failed'') (\<lambda>_.
             seq (controller_complete ag RUN_FAILED (describe e)) (\<lambda>_.
             seq unbind (\<lambda>_. raise e))) w
         | Finished result \<Rightarrow> seq unbind (\<lambda>_. finish_turn ag coordinated result) w)"

end
