(* ===== verification/EngineSafety.thy ===== *)
theory EngineSafety
  imports Engine
begin

text \<open>
  Properties of the engine, over the contracts of the store: a relation the store's methods respect
  is respected by a whole run when the executor respects it. From this: what a completed run proves
  about the task row, and what happens when a finished task is run again.
\<close>

subsection \<open>Runs respect what the store respects\<close>

sublocale completing_evolution \<subseteq> world: evolution "\<lambda>w v. R (wd_store w) (wd_store v)"
  by unfold_locales (auto intro: refl_R trans_R)

context completing_evolution begin

abbreviation "W \<equiv> (\<lambda>w v. R (wd_store w) (wd_store v))"

lemma ev_on_store: "evolves R m (wd_store w) \<Longrightarrow> evolves W (on_store m) w"
  by (cases "m (wd_store w)") (simp add: evolves_def on_store_def)

lemma ev_on_rc: "evolves W (on_rc f) w"
  by (simp add: evolves_def on_rc_def refl_R)

lemma ev_suppress: "(\<And>w. evolves W m w) \<Longrightarrow> evolves W (suppress m) w"
  unfolding suppress_def by (intro world.evolves_catch world.evolves_seq_all world.evolves_ret)

lemma ev_w_if: "evolves W m w \<Longrightarrow> evolves W n w \<Longrightarrow> evolves W (if b then m else n) w"
  by simp

lemma ev_w_option:
  "evolves W m w \<Longrightarrow> (\<And>x. evolves W (f x) w) \<Longrightarrow> evolves W (case v of None \<Rightarrow> m | Some x \<Rightarrow> f x) w"
  by (cases v) simp_all

lemma ev_w_pair: "(\<And>x y. evolves W (f x y) w) \<Longrightarrow> evolves W (case p of (x, y) \<Rightarrow> f x y) w"
  by (cases p) simp

lemma ev_set_task: "evolves W (modify (\<lambda>w. w\<lparr>wd_task := t\<rparr>)) w"
  by (simp add: evolves_def refl_R)

lemmas ev_world = world.evolves_ret world.evolves_raise world.evolves_gets world.evolves_lift
  ev_w_if ev_w_option ev_w_pair ev_set_task ev_on_rc ev_suppress ev_on_store world.evolves_seq_all

lemma ev_fresh_suffix: "evolves R fresh_suffix s"
  by (simp add: evolves_def fresh_suffix_def R_drawn)

lemma ev_checkpoint: "evolves W (checkpoint_task_status st ph k) w"
  unfolding checkpoint_task_status_def by (intro ev_world ev_update_task_status)

lemma ev_initialize: "evolves W (initialize_runtime_task ag i d) w"
  unfolding initialize_runtime_task_def
  by (intro ev_world evolves_read ev_create_run ev_create_task ev_fresh_suffix R_save ev_save_execution_plan)

lemma ev_request_completion: "evolves R (request_completion t) s"
  unfolding request_completion_def
  by (intro ev_basic ev_current_active_step ev_complete_plan_step ev_request_task_complete)

lemma ev_start_turn:
  assumes "\<And>i a w. W w (snd (execute i a w))"
  shows "W w (snd (start_turn ag early execute i a w))"
  using assms trans_R evolvesD[OF ev_initialize, of ag i "co_deadline (obj (wd_rc w) a)" w]
  by (fastforce simp: start_turn_def refl_R split: prod.splits sum.splits)

end

subsection \<open>What a completed run proves\<close>

lemma request_task_complete_row:
  assumes "task_keys_ok s" and "request_task_complete tid req s = (Inr g, t)" and "gr_ok g"
  shows "task_row_status t tid = Some RUN_COMPLETED"
proof -
  from task_completeD[OF assms(2,3)] obtain st ex where st: "load_task s tid True = Inr (Some st)"
    and t: "t = saved_store (stamp_task ex (Some ''before_final_completion'') (peek s)
           (st\<lparr>ts_status := RUN_COMPLETED, ts_current_phase := ''completed''\<rparr>)) (Some ''before_final_completion'') s"
    by blast
  show ?thesis using load_task_id[OF assms(1) st] by (simp add: t)
qed

lemma request_completion_row:
  assumes keys: "task_keys_ok s" and run: "request_completion tid s = (Inr g, t)" and ok: "gr_ok g"
  shows "task_row_status t tid = Some RUN_COMPLETED"
proof -
  from run obtain active u where active: "current_active_step tid s = (Inr active, u)"
    and rest: "(case active of None \<Rightarrow> request_task_complete tid None
       | Some st \<Rightarrow> seq (complete_plan_step tid (ps_step_id st)) (\<lambda>gate.
           if \<not> gr_ok gate then ret gate else request_task_complete tid None)) u = (Inr g, t)"
    unfolding request_completion_def by (rule seq_InrE)
  have u: "task_keys_ok u"
    using evolvesD[OF keys.ev_current_active_step active] keys by (simp add: keys_kept_def)
  show ?thesis
  proof (cases active)
    case None
    with rest request_task_complete_row[OF u _ ok] show ?thesis by simp
  next
    case (Some st)
    with rest obtain gate x where gate: "complete_plan_step tid (ps_step_id st) u = (Inr gate, x)"
      and last: "(if \<not> gr_ok gate then ret gate else request_task_complete tid None) x = (Inr g, t)"
      by (auto elim: seq_InrE)
    have x: "task_keys_ok x"
      using evolvesD[OF keys.ev_complete_plan_step gate] u by (simp add: keys_kept_def)
    from last ok have "request_task_complete tid None x = (Inr g, t)" by (auto split: if_splits)
    then show ?thesis using request_task_complete_row[OF x _ ok] by blast
  qed
qed

lemma on_store_InrE:
  assumes "on_store m w = (Inr x, v)"
  obtains s where "m (wd_store w) = (Inr x, s)" and "v = w\<lparr>wd_store := s\<rparr>"
  using assms by (auto simp: on_store_def split: prod.splits)

lemma on_rc_simp [simp]: "on_rc f w = (Inr (), w\<lparr>wd_rc := f (wd_rc w)\<rparr>)"
  by (simp add: on_rc_def)

lemma finish_turn_completed:
  assumes "finish_turn ag c r w = (Inr r', v)" and "lr_status r' = RUN_COMPLETED"
  obtains g s where "request_completion c (wd_store w) = (Inr g, s)" and "gr_ok g" and "wd_store v = s"
    and "lr_task_id r' = wd_task w" and "wd_rc v = complete_run (ag_run_id ag) RUN_COMPLETED (take 500 (lr_final r)) (wd_rc w)"
proof (cases "status_from_result r = RUN_COMPLETED")
  case True
  with assms(1) obtain p x where p: "seq (on_store (request_completion c)) (\<lambda>gate.
        if gr_ok gate then ret (RUN_COMPLETED, r)
        else
          let evidence = gr_missing_evidence gate @ gr_incomplete_steps gate @ gr_failed_evidence gate @
                gr_stale_evidence gate
          in seq (gets wd_task) (\<lambda>tid.
             seq (suppress (on_store (create_failure tid (failure_type_value PREMATURE_COMPLETION) []
               ''TASK_COMPLETE'' evidence (JStr (gr_message gate))))) (\<lambda>_.
             seq (checkpoint_task_status RUN_FAILED ''failed'' ''completion_gate_failed'') (\<lambda>_.
             ret (RUN_FAILED, apply_completion_gate_failure r (Some gate)))))) w = (Inr p, x)"
    and last: "(case p of (status, result) \<Rightarrow>
         seq (controller_complete ag status (take 500 (lr_final result))) (\<lambda>_.
         seq (gets wd_task) (\<lambda>tid.
         ret (result\<lparr>lr_run_id := ag_run_id ag, lr_task_id := tid, lr_status := status\<rparr>)))) x = (Inr r', v)"
    unfolding finish_turn_def Let_def by (auto elim: seq_InrE)
  from p obtain g u where g: "on_store (request_completion c) w = (Inr g, u)"
    and branch: "(if gr_ok g then ret (RUN_COMPLETED, r)
        else
          let evidence = gr_missing_evidence g @ gr_incomplete_steps g @ gr_failed_evidence g @ gr_stale_evidence g
          in seq (gets wd_task) (\<lambda>tid.
             seq (suppress (on_store (create_failure tid (failure_type_value PREMATURE_COMPLETION) []
               ''TASK_COMPLETE'' evidence (JStr (gr_message g))))) (\<lambda>_.
             seq (checkpoint_task_status RUN_FAILED ''failed'' ''completion_gate_failed'') (\<lambda>_.
             ret (RUN_FAILED, apply_completion_gate_failure r (Some g)))))) u = (Inr p, x)"
    by (rule seq_InrE)
  have status: "fst p = RUN_COMPLETED"
    using last assms(2) by (cases p) (auto simp: controller_complete_def seq_def)
  have ok: "gr_ok g"
  proof (rule ccontr)
    assume "\<not> gr_ok g"
    with branch have "fst p = RUN_FAILED" by (auto simp: Let_def elim!: seq_InrE)
    with status show False by simp
  qed
  with branch have p': "p = (RUN_COMPLETED, r)" "x = u" by simp_all
  from g obtain s where s: "request_completion c (wd_store w) = (Inr g, s)" "u = w\<lparr>wd_store := s\<rparr>"
    by (rule on_store_InrE)
  show thesis
    by (rule that[OF s(1) ok]) (use last p' s(2) in \<open>auto simp: controller_complete_def seq_def\<close>)
next
  case False
  with assms have False
    unfolding finish_turn_def Let_def by (auto simp: controller_complete_def elim!: seq_InrE)
  then show thesis ..
qed

lemma seq_on_rc [simp]: "seq (on_rc f) g w = g () (w\<lparr>wd_rc := f (wd_rc w)\<rparr>)"
  by (simp add: seq_def)

lemma seq_suppress [simp]: "seq (suppress m) f s = f () (snd (suppress m s))"
  by (auto simp: suppress_def catch_def seq_def split: prod.split sum.split)

lemma seq_checkpoint [simp]: "seq (checkpoint_task_status st ph k) f w = f () (snd (checkpoint_task_status st ph k w))"
proof -
  have "seq (checkpoint_task_status st ph k) f w =
      seq (suppress (on_store (update_task_status (wd_task w) st (Some ph) (Some k)))) f w"
    by (simp add: checkpoint_task_status_def seq_def)
  then show ?thesis by (simp add: checkpoint_task_status_def)
qed

lemma finish_turn_returns:
  assumes "request_completion c (wd_store w) = (Inr g, s)"
  shows "\<exists>r v. finish_turn ag c res w = (Inr r, v)"
proof (cases "status_from_result res = RUN_COMPLETED")
  case True
  have "on_store (request_completion c) w = (Inr g, w\<lparr>wd_store := s\<rparr>)" using assms by (simp add: on_store_def)
  with True show ?thesis
    by (simp add: finish_turn_def controller_complete_def Let_def seq_def [of "seq _ _"] seq_Inr)
next
  case False
  then show ?thesis by (simp add: finish_turn_def controller_complete_def Let_def seq_def [of "seq _ _"])
qed


lemma engine_run_completed:
  assumes run: "engine_run ag early clk describe execute i w = (Inr r, v)" and "lr_status r = RUN_COMPLETED"
  obtains a rc u res g s where
    "start_turn ag early execute i a (w\<lparr>wd_rc := rc\<rparr>) = (Finished res, u)"
    and "request_completion (wd_task w) (wd_store u) = (Inr g, s)" and "gr_ok g" and "wd_store v = s"
    and "lr_task_id r = wd_task u"
proof -
  obtain a rc where reg: "register_run (ag_run_id ag) (ag_session ag) (ag_ledger ag) (ag_max_runtime ag) clk (wd_rc w) = (a, rc)"
    by (rule prod.exhaust)
  obtain oc u where turn: "start_turn ag early execute i a (w\<lparr>wd_rc := rc\<lparr>rc_current := Some a\<rparr>\<rparr>) = (oc, u)"
    by (rule prod.exhaust)
  note body = run[unfolded engine_run_def Let_def reg prod.case turn]
  show thesis
  proof (cases oc)
    case (Finished res)
    with body obtain x where fin: "finish_turn ag (wd_task w) res x = (Inr r, v)"
      and x: "x = u\<lparr>wd_rc := (wd_rc u)\<lparr>rc_current := rc_current rc\<rparr>\<rparr>"
      by (auto elim!: seq_InrE)
    from finish_turn_completed[OF fin assms(2)] obtain g s where
      "request_completion (wd_task w) (wd_store x) = (Inr g, s)" "gr_ok g" "wd_store v = s" "lr_task_id r = wd_task x"
      by metis
    with x Finished turn that show thesis by simp
  next
    case Cancelled
    with body assms(2) have False
      by (auto simp: terminal_result_def elim!: seq_InrE split: if_splits)
    then show thesis ..
  next
    case (Raised e)
    with body have False by (auto elim!: seq_InrE)
    then show thesis ..
  qed
qed

subsection \<open>Demo runs\<close>

text \<open>
  An agent whose executor does nothing and says it is done, on the demo stores: with the task in the
  status given, and a passed test filed under it.
\<close>

definition demo_agent :: agent where
  "demo_agent = \<lparr>ag_run_id = ''R'', ag_project = ''p'', ag_max_runtime = None, ag_session = None,
     ag_ledger = False, ag_contract = None\<rparr>"

definition demo_result :: loop_result where
  "demo_result = \<lparr>lr_final = ''done'', lr_tool_rounds = 1, lr_stopped = False, lr_awaiting_user = False,
     lr_timeout_category = None, lr_run_id = ''R'', lr_task_id = ''T'', lr_status = RUN_COMPLETED,
     lr_changed_files = []\<rparr>"

definition demo_world :: "store \<Rightarrow> world" where
  "demo_world s = \<lparr>wd_store = s, wd_rc = demo_rc, wd_task = ''T''\<rparr>"

definition demo_execute :: executor where
  "demo_execute i a w = (Finished demo_result, w)"

definition demo_finished :: "run_status \<Rightarrow> store" where
  "demo_finished x = (demo_tested [])\<lparr>st_tasks := st_tasks (demo_store (demo_task\<lparr>ts_status := x\<rparr>))\<rparr>"

abbreviation "demo_engine_run \<equiv> engine_run demo_agent False 0 (\<lambda>_. []) demo_execute ''fix''"

lemma register_run_addr: "register_run i session ledger m clk s = (rc_size s, snd (register_run i session ledger m clk s))"
  by (simp add: register_run_def Let_def)

lemmas demo_engine_defs = start_turn_def initialize_runtime_task_def on_store_def seq_def
  create_run_def save_run_def create_task_def load_run_def fresh_suffix_def finish_turn_def request_completion_def
  current_active_step_def request_task_complete_def status_from_result_def controller_complete_def
  demo_execute_def demo_agent_def demo_world_def demo_result_def demo_finished_def

lemma demo_world_parts: "wd_store (demo_world s) = s" "wd_rc (demo_world s) = demo_rc" "wd_task (demo_world s) = ''T''"
  by (simp_all add: demo_world_def)

lemma engine_run_finished:
  assumes "rc = snd (register_run (ag_run_id ag) (ag_session ag) (ag_ledger ag) (ag_max_runtime ag) clk (wd_rc w))"
    and "turn = start_turn ag early execute i (rc_size (wd_rc w)) (w\<lparr>wd_rc := rc\<lparr>rc_current := Some (rc_size (wd_rc w))\<rparr>\<rparr>)"
    and "fst turn = Finished res"
  shows "engine_run ag early clk d execute i w =
    finish_turn ag (wd_task w) res ((snd turn)\<lparr>wd_rc := (wd_rc (snd turn))\<lparr>rc_current := rc_current rc\<rparr>\<rparr>)"
proof -
  have reg: "register_run (ag_run_id ag) (ag_session ag) (ag_ledger ag) (ag_max_runtime ag) clk (wd_rc w) = (rc_size (wd_rc w), rc)"
    using assms(1) register_run_addr by simp
  obtain u where turn: "turn = (Finished res, u)" using assms(3) by (metis prod.collapse)
  show ?thesis unfolding engine_run_def Let_def reg prod.case assms(2)[symmetric] unfolding turn prod.case by simp
qed

lemma demo_run:
  assumes "\<And>a rc. fst (start_turn demo_agent False demo_execute ''fix'' a ((demo_world s)\<lparr>wd_rc := rc\<rparr>)) = Finished demo_result"
  obtains a rc b where "demo_engine_run (demo_world s) = finish_turn demo_agent ''T'' demo_result
    ((snd (start_turn demo_agent False demo_execute ''fix'' a ((demo_world s)\<lparr>wd_rc := rc\<rparr>)))\<lparr>wd_rc := b\<rparr>)"
  using engine_run_finished[OF refl refl assms] by (metis demo_world_parts(3))

lemma demo_engine_completes:
  "\<exists>r v. demo_engine_run (demo_world (demo_tested [])) = (Inr r, v) \<and> lr_status r = RUN_COMPLETED"
  by (rule demo_run[of "demo_tested []"])
    (simp_all add: demo_engine_defs demo_reads demo_writes demo_stores demo_records)

abbreviation "demo_failed_world \<equiv> demo_world (demo_store (demo_task\<lparr>ts_status := RUN_FAILED\<rparr>))"

lemma demo_engine_starts: "fst (start_turn demo_agent False demo_execute ''fix'' a (demo_failed_world\<lparr>wd_rc := rc\<rparr>)) = Finished demo_result"
  by (simp add: demo_engine_defs demo_reads demo_writes demo_stores demo_records)

lemma demo_gate_answers:
  "\<exists>g. fst (request_completion ''T'' (wd_store (snd (start_turn demo_agent False demo_execute ''fix'' a
     (demo_failed_world\<lparr>wd_rc := rc\<rparr>))))) = Inr g"
  by (simp add: demo_engine_defs demo_reads demo_writes demo_stores demo_records)

lemma demo_engine_fails: "\<exists>r v. demo_engine_run demo_failed_world = (Inr r, v)"
proof (rule demo_run[OF demo_engine_starts])
  fix a rc b
  let ?turn = "snd (start_turn demo_agent False demo_execute ''fix'' a (demo_failed_world\<lparr>wd_rc := rc\<rparr>))"
  assume run: "demo_engine_run demo_failed_world = finish_turn demo_agent ''T'' demo_result (?turn\<lparr>wd_rc := b\<rparr>)"
  obtain g s where "request_completion ''T'' (wd_store ?turn) = (Inr g, s)"
    using demo_gate_answers[of a rc] by (metis prod.collapse)
  then show ?thesis unfolding run by (intro finish_turn_returns) simp
qed

lemma demo_execute_same: "snd (demo_execute i a w) = w"
  by (simp add: demo_execute_def)

subsection \<open>The gate and the run\<close>

lemma demo_store_keys: "task_keys_ok (demo_store (demo_task\<lparr>ts_status := x\<rparr>))"
  using holds_task_dumps[of "demo_task\<lparr>ts_status := x\<rparr>"] by (simp add: task_keys_ok_def demo_stores demo_task_def)

lemma demo_suffix: "take 6 (nat_str 0) = ''0''"
  by code_simp

text \<open>
  C7. A run of the engine that ends COMPLETED has passed the completion gate: whatever the executor
  did, as long as it wrote the store through its own methods, the row of the task the agent held when
  the run began says COMPLETED afterwards.
\<close>

theorem engine_completion_is_gated:
  assumes keys: "task_keys_ok (wd_store w)"
    and executor: "\<And>i a w. keys_kept (wd_store w) (wd_store (snd (execute i a w)))"
    and run: "engine_run ag early clk describe execute i w = (Inr r, v)" and status: "lr_status r = RUN_COMPLETED"
  shows "task_row_status (wd_store v) (wd_task w) = Some RUN_COMPLETED"
proof -
  from engine_run_completed[OF run status] obtain a rc u res g s where
    turn: "start_turn ag early execute i a (w\<lparr>wd_rc := rc\<rparr>) = (Finished res, u)"
    and gate: "request_completion (wd_task w) (wd_store u) = (Inr g, s)" "gr_ok g" "wd_store v = s"
    by metis
  have "keys_kept (wd_store w) (wd_store u)"
    using keys.ev_start_turn[of execute, OF executor, of "w\<lparr>wd_rc := rc\<rparr>" ag early i a] turn by simp
  with keys have "task_keys_ok (wd_store u)" by (simp add: keys_kept_def)
  then show ?thesis using request_completion_row gate by blast
qed

theorem engine_completion_is_gated_witness:
  "\<exists>r v. demo_engine_run (demo_world (demo_tested [])) = (Inr r, v) \<and> lr_status r = RUN_COMPLETED \<and>
     task_row_status (wd_store v) ''T'' = Some RUN_COMPLETED"
proof -
  from demo_engine_completes obtain r v where run: "demo_engine_run (demo_world (demo_tested [])) = (Inr r, v)"
    and status: "lr_status r = RUN_COMPLETED" by blast
  have "task_row_status (wd_store v) (wd_task (demo_world (demo_tested []))) = Some RUN_COMPLETED"
    by (rule engine_completion_is_gated[OF _ _ run status])
      (simp_all add: demo_world_parts demo_keys demo_execute_same keys.refl_R)
  with run status show ?thesis by (simp add: demo_world_parts)
qed

text \<open>
  C38. A task that has failed, timed out or was cancelled is never reported completed when it is run
  again under the same agent, whatever the executor proves: the run works on a fresh task, but the
  coordinator keeps asking the gate about the old one.
\<close>

theorem retried_task_never_completes:
  assumes keys: "task_keys_ok (wd_store w)"
    and executor: "\<And>i a w. keys_kept (wd_store w) (wd_store (snd (execute i a w)))"
      "\<And>i a w. status_follows (wd_store w) (wd_store (snd (execute i a w)))"
    and old: "task_row_status (wd_store w) (wd_task w) = Some x" "terminal_run x" "x \<noteq> RUN_COMPLETED"
    and run: "engine_run ag early clk describe execute i w = (Inr r, v)"
  shows "lr_status r \<noteq> RUN_COMPLETED"
proof
  assume status: "lr_status r = RUN_COMPLETED"
  from engine_run_completed[OF run status] obtain a rc u res g s where
    turn: "start_turn ag early execute i a (w\<lparr>wd_rc := rc\<rparr>) = (Finished res, u)"
    and gate: "request_completion (wd_task w) (wd_store u) = (Inr g, s)" "gr_ok g" "wd_store v = s"
    by metis
  have k: "keys_kept (wd_store w) (wd_store u)" and f: "status_follows (wd_store w) (wd_store u)"
    using keys.ev_start_turn[of execute, OF executor(1), of "w\<lparr>wd_rc := rc\<rparr>" ag early i a]
      follows.ev_start_turn[of execute, OF executor(2), of "w\<lparr>wd_rc := rc\<rparr>" ag early i a] turn by simp_all
  from k keys have "task_keys_ok (wd_store u)" by (simp add: keys_kept_def)
  then have "task_row_status s (wd_task w) = Some RUN_COMPLETED" using request_completion_row gate by blast
  moreover have "task_row_status s (wd_task w) = Some x"
    using status_follows_terminal[OF evolvesD[OF follows.ev_request_completion gate(1)]]
      status_follows_terminal[OF f] old by blast
  ultimately show False using old by simp
qed

theorem retried_task_never_completes_witness:
  "\<exists>r v. demo_engine_run (demo_world (demo_store (demo_task\<lparr>ts_status := RUN_FAILED\<rparr>))) = (Inr r, v) \<and>
     lr_status r \<noteq> RUN_COMPLETED"
proof -
  let ?w = "demo_world (demo_store (demo_task\<lparr>ts_status := RUN_FAILED\<rparr>))"
  from demo_engine_fails obtain r v where run: "demo_engine_run ?w = (Inr r, v)" by blast
  have "lr_status r \<noteq> RUN_COMPLETED"
    by (rule retried_task_never_completes[where x = RUN_FAILED, OF _ _ _ _ _ _ run])
      (simp_all add: demo_world_parts demo_store_keys demo_execute_same keys.refl_R follows.refl_R)
  with run show ?thesis by blast
qed

text \<open>
  Running a completed task again reports the new task completed although nothing was checked for
  it: the gate confirms the old row, the result names the new task, whose row is still RUNNING.
\<close>

lemma stale_gate_completes_unfinished_task:
  "\<exists>r v. demo_engine_run (demo_world (demo_finished RUN_COMPLETED)) = (Inr r, v) \<and>
     lr_status r = RUN_COMPLETED \<and> lr_task_id r = ''T-0'' \<and> task_row_status (wd_store v) ''T-0'' = Some RUN_RUNNING"
  by (rule demo_run[of "demo_finished RUN_COMPLETED"])
    (simp_all add: demo_engine_defs demo_reads demo_writes demo_stores demo_records task_row_status_def demo_suffix)

subsection \<open>Registration\<close>

text \<open>What works on the store leaves run control alone.\<close>

interpretation rc_frame: evolution "\<lambda>w v. wd_rc v = wd_rc w"
  by unfold_locales simp_all

lemma rc_on_store: "wd_rc (snd (on_store m w)) = wd_rc w"
  by (simp add: on_store_def split: prod.split)

lemma rc_on_storeD: "on_store m w = (r, v) \<Longrightarrow> wd_rc v = wd_rc w"
  by (metis rc_on_store snd_conv)

lemma rc_suppress: "wd_rc (snd (suppress (on_store m) w)) = wd_rc w"
  unfolding suppress_def
  using rc_frame.evolves_catch[of "seq (on_store m) (\<lambda>_. ret ())" "\<lambda>_. ret ()" w]
    rc_frame.evolves_seq_all[of "on_store m" "\<lambda>_. ret ()"]
  by (simp add: evolves_def rc_on_store)

lemma rc_checkpoint [simp]: "wd_rc (snd (checkpoint_task_status st ph k w)) = wd_rc w"
  unfolding checkpoint_task_status_def by (simp add: rc_suppress)

lemma finish_turn_rc:
  assumes "finish_turn ag c r w = (Inr r', v)"
  shows "wd_rc v = complete_run (ag_run_id ag) (lr_status r') (take 500 (lr_final r')) (wd_rc w)"
proof (cases "status_from_result r = RUN_COMPLETED")
  case True
  from assms obtain g s where gate: "request_completion c (wd_store w) = (Inr g, s)"
    unfolding finish_turn_def Let_def by (auto simp: True elim!: seq_InrE on_store_InrE)
  then have "on_store (request_completion c) w = (Inr g, w\<lparr>wd_store := s\<rparr>)" by (simp add: on_store_def)
  with assms True show ?thesis
    by (cases "gr_ok g")
      (auto simp: finish_turn_def controller_complete_def Let_def seq_def [of "seq _ _"] seq_Inr rc_suppress)
next
  case False
  with assms show ?thesis
    by (auto simp: finish_turn_def controller_complete_def Let_def seq_def [of "seq _ _"])
qed

lemma complete_run_unregisters:
  assumes "registered_ok s" and "st \<in> set terminal_statuses"
  shows "get_run (complete_run i st m s) i = None"
proof (cases "get_run s i")
  case None
  then show ?thesis using assms(2)
    by (auto simp: complete_run_def get_run_def Let_def delete_conv' split: option.splits)
next
  case (Some a)
  then have "co_run_id (obj s a) = i" using registered_row[OF assms(1)] registered_get[OF assms(1)] by blast
  with Some assms(2) show ?thesis
    by (simp add: complete_run_def get_known_run_def Let_def) (simp add: get_run_def delete_conv')
qed

lemma start_turn_registered:
  assumes "\<And>i a w. registered_ok (wd_rc w) \<Longrightarrow> registered_ok (wd_rc (snd (execute i a w)))"
    and "registered_ok (wd_rc w)"
  shows "registered_ok (wd_rc (snd (start_turn ag early execute i a w)))"
proof -
  have "wd_rc (snd (initialize_runtime_task ag j d w)) = wd_rc w" for j d
  proof -
    have "evolves (\<lambda>w v. wd_rc v = wd_rc w) (initialize_runtime_task ag j d) w"
      unfolding initialize_runtime_task_def
      by (intro rc_frame.evolves_seq_all rc_frame.evolves_ret rc_frame.evolves_gets)
        (auto simp: evolves_def rc_on_store rc_suppress seq_def dest: rc_on_storeD
          split: option.splits sum.splits prod.splits)
    then show ?thesis by (simp add: evolves_def)
  qed
  then show ?thesis using assms
    by (auto simp: start_turn_def split: prod.splits sum.splits) (metis snd_conv)+
qed

text \<open>
  A run of the engine that ends in a terminal status, by any of its ways out that return a result,
  leaves no registration behind, if the executor used run control only through its operations.
\<close>

theorem ended_runs_are_unregistered:
  assumes ok: "registered_ok (wd_rc w)"
    and executor: "\<And>i a w. registered_ok (wd_rc w) \<Longrightarrow> registered_ok (wd_rc (snd (execute i a w)))"
    and run: "engine_run ag early clk describe execute i w = (Inr r, v)"
    and status: "lr_status r \<in> set terminal_statuses"
  shows "get_run (wd_rc v) (ag_run_id ag) = None"
proof -
  obtain a rc where reg: "register_run (ag_run_id ag) (ag_session ag) (ag_ledger ag) (ag_max_runtime ag) clk (wd_rc w) = (a, rc)"
    by (rule prod.exhaust)
  have rc: "registered_ok (rc\<lparr>rc_current := x\<rparr>)" for x
    using registered_register[OF ok, of "ag_run_id ag" "ag_session ag" "ag_ledger ag" "ag_max_runtime ag" clk]
    unfolding reg by (rule registered_keep) simp_all
  obtain oc u where turn: "start_turn ag early execute i a (w\<lparr>wd_rc := rc\<lparr>rc_current := Some a\<rparr>\<rparr>) = (oc, u)"
    by (rule prod.exhaust)
  have u: "registered_ok (wd_rc u)"
    using start_turn_registered[of execute, OF executor, of "w\<lparr>wd_rc := rc\<lparr>rc_current := Some a\<rparr>\<rparr>" ag early i a] rc turn
    by simp
  then have u': "registered_ok ((wd_rc u)\<lparr>rc_current := x\<rparr>)" for x
    by (rule registered_keep) simp_all
  note body = run[unfolded engine_run_def Let_def reg prod.case turn]
  show ?thesis
  proof (cases oc)
    case (Finished res)
    with body show ?thesis
      using finish_turn_rc complete_run_unregisters[OF u' status] by fastforce
  next
    case Cancelled
    with body status show ?thesis
      using complete_run_unregisters[OF u]
      by (auto simp: controller_complete_def terminal_result_def get_run_def)
  next
    case (Raised e)
    with body show ?thesis by (auto simp: controller_complete_def)
  qed
qed

theorem ended_runs_are_unregistered_witness:
  "\<exists>r v. demo_engine_run (demo_world (demo_tested [])) = (Inr r, v) \<and> get_run (wd_rc v) ''R'' = None"
proof -
  from demo_engine_completes obtain r v where run: "demo_engine_run (demo_world (demo_tested [])) = (Inr r, v)"
    and status: "lr_status r = RUN_COMPLETED" by blast
  have "get_run (wd_rc v) (ag_run_id demo_agent) = None"
    by (rule ended_runs_are_unregistered[OF _ _ run])
      (simp_all add: demo_world_parts demo_execute_same demo_rc_ok status terminal_statuses_def)
  with run show ?thesis by (simp add: demo_agent_def)
qed

lemma finish_turn_raises:
  assumes "status_from_result r = RUN_COMPLETED" and "request_completion c (wd_store w) = (Inl e, s)"
  shows "finish_turn ag c r w = (Inl e, w\<lparr>wd_store := s\<rparr>)"
proof -
  have "on_store (request_completion c) w = (Inl e, w\<lparr>wd_store := s\<rparr>)" using assms(2) by (simp add: on_store_def)
  with assms(1) show ?thesis by (simp add: finish_turn_def Let_def seq_def [of "seq _ _"] seq_Inl)
qed

text \<open>
  When the completion gate itself raises, the run stays registered as RUNNING: a task whose old row
  has failed is run again, its evidence is complete, and the transition from FAILED to COMPLETED is
  refused with an exception.
\<close>

lemma gate_error_leaves_run_registered:
  "\<exists>e v a. demo_engine_run (demo_world (demo_finished RUN_FAILED)) = (Inl e, v) \<and>
     get_run (wd_rc v) ''R'' = Some a \<and> co_status (obj (wd_rc v) a) = RUN_RUNNING"
proof -
  let ?w = "demo_world (demo_finished RUN_FAILED)"
  let ?rc = "snd (register_run ''R'' None False None 0 demo_rc)"
  let ?turn = "start_turn demo_agent False demo_execute ''fix'' 0 (?w\<lparr>wd_rc := ?rc\<lparr>rc_current := Some 0\<rparr>\<rparr>)"
  have turn: "fst ?turn = Finished demo_result" and rc: "wd_rc (snd ?turn) = ?rc\<lparr>rc_current := Some 0\<rparr>"
    and gate: "\<exists>e t. request_completion ''T'' (wd_store (snd ?turn)) = (Inl e, t)"
    by (simp_all add: demo_engine_defs demo_reads demo_writes demo_stores demo_records demo_suffix)
  have "demo_engine_run ?w = finish_turn demo_agent ''T'' demo_result
      ((snd ?turn)\<lparr>wd_rc := (wd_rc (snd ?turn))\<lparr>rc_current := rc_current ?rc\<rparr>\<rparr>)"
    using engine_run_finished[OF refl refl, of demo_agent False demo_execute "''fix''" ?w] turn
    by (simp add: demo_world_parts demo_agent_def demo_rc_def)
  moreover obtain e t where "request_completion ''T'' (wd_store (snd ?turn)) = (Inl e, t)"
    using gate by blast
  ultimately have run: "demo_engine_run ?w = (Inl e, (snd ?turn)\<lparr>wd_store := t,
      wd_rc := (wd_rc (snd ?turn))\<lparr>rc_current := rc_current ?rc\<rparr>\<rparr>)"
    using finish_turn_raises[of demo_result "''T''"] by (simp add: status_from_result_def demo_result_def)
  have "get_run ?rc ''R'' = Some 0 \<and> co_status (obj ?rc 0) = RUN_RUNNING"
    by (simp add: register_run_def Let_def get_run_def demo_rc_def)
  then show ?thesis unfolding run rc by (simp add: get_run_def obj_def)
qed

end
