(* ===== verification/Budget.thy ===== *)
theory Budget
  imports Json
begin

text \<open>
  The token budget of \<open>context/budget.py\<close>: which context window a model may be asked for, what a
  message costs, and how a text is cut down to a budget. The tokenizer is a parameter, as are the text
  \<open>json.dumps\<close> gives and what the environment, the settings file and the model server answer.
\<close>

subsection \<open>Context windows\<close>

definition model_context_windows :: "(string \<times> int) list" where
  "model_context_windows = [
     (''gemma3:4b'', 131072), (''deepseek-r1:7b'', 32768), (''qwen3:8b'', 32768),
     (''qwen3.5:9b-q4_K_M'', 262144), (''qwen2.5:3b-instruct'', 32768),
     (''qwen2.5-coder:7b-instruct'', 32768), (''qwen2.5-coder:3b-instruct'', 32768),
     (''mistral-nemo:12b'', 131072), (''qwen2.5-coder:14b'', 32768)]"

definition safe_fallback_ctx_window :: int where
  "safe_fallback_ctx_window = 8192"

definition model_context_patterns :: "(string \<times> int) list" where
  "model_context_patterns = [
     (''qwen3.5'', 262144), (''qwen3'', 32768), (''qwen2.5-coder'', 32768), (''qwen2.5'', 32768),
     (''qwen'', 32768), (''deepseek-r1'', 32768), (''deepseek'', 32768), (''gemma3'', 131072),
     (''gemma'', 8192), (''mistral-nemo'', 131072), (''mistral'', 32768), (''mixtral'', 32768),
     (''codestral'', 32768), (''llama3.3'', 131072), (''llama3.2'', 131072), (''llama3.1'', 131072),
     (''llama3'', 8192), (''codellama'', 16384), (''phi4'', 16384), (''phi3.5'', 131072),
     (''phi3'', 131072), (''granite'', 131072), (''starcoder'', 16384), (''smollm'', 8192),
     (''olmo'', 32768), (''command-r'', 131072), (''glm'', 131072), (''devstral'', 131072),
     (''gpt-oss'', 131072)]"

definition default_chat_ctx :: int where
  "default_chat_ctx = 32768"

definition min_usable_ctx_window :: int where
  "min_usable_ctx_window = 4096"

text \<open>The three table steps, and the whole function: \<open>facts\<close> is what the server reported for the name.\<close>

definition listed_ctx_window :: "string \<Rightarrow> int" where
  "listed_ctx_window model_name = (case map_of model_context_windows model_name of
     Some w \<Rightarrow> w
   | None \<Rightarrow> (case find (\<lambda>(p, _). contains p (lower (strip model_name))) model_context_patterns of
       Some (_, w) \<Rightarrow> w
     | None \<Rightarrow> safe_fallback_ctx_window))"

definition ctx_window_for_model :: "(string \<Rightarrow> int option) \<Rightarrow> string \<Rightarrow> int" where
  "ctx_window_for_model facts model_name = (case facts model_name of
     Some n \<Rightarrow> if min_usable_ctx_window \<le> n then n else listed_ctx_window model_name
   | None \<Rightarrow> listed_ctx_window model_name)"

text \<open>
  \<open>str.isdigit\<close> also accepts the superscript digits, for which \<open>int\<close> raises.
\<close>

definition isdigit_text :: "string \<Rightarrow> bool" where
  "isdigit_text s \<longleftrightarrow> s \<noteq> [] \<and> list_all (\<lambda>c. is_digit c \<or> (of_char c :: nat) \<in> {178, 179, 185}) s"

text \<open>\<open>raw.isdigit() and int(raw) >= least\<close>, with the number when it holds.\<close>

definition env_number :: "string \<Rightarrow> int \<Rightarrow> py_error + int option" where
  "env_number raw least =
     (let raw = strip raw
      in if \<not> isdigit_text raw then Inr None
         else case int_of_text raw of
           None \<Rightarrow> Inl (ValueError ''invalid literal for int() with base 10'')
         | Some n \<Rightarrow> Inr (if least \<le> n then Some n else None))"

definition reserve_output_tokens :: "string \<Rightarrow> py_error + int" where
  "reserve_output_tokens env = rbind (env_number env 512) (\<lambda>n. Inr (case n of Some n \<Rightarrow> n | None \<Rightarrow> 4096))"

text \<open>\<open>runtime.settings.chat_max_ctx\<close> over the value the settings file holds.\<close>

definition chat_max_ctx :: "json option \<Rightarrow> int option" where
  "chat_max_ctx saved = (case int_of_json saved of
     None \<Rightarrow> None | Some window \<Rightarrow> if 4096 \<le> window then Some window else None)"

definition chat_ctx_ceiling :: "string \<Rightarrow> json option \<Rightarrow> py_error + int" where
  "chat_ctx_ceiling env saved =
     rbind (env_number env min_usable_ctx_window) (\<lambda>n. Inr (case n of
       Some n \<Rightarrow> n
     | None \<Rightarrow> (case chat_max_ctx saved of
         Some c \<Rightarrow> if c \<noteq> 0 then c else default_chat_ctx
       | None \<Rightarrow> default_chat_ctx)))"

definition shared_num_ctx :: "(string \<Rightarrow> int option) \<Rightarrow> string \<Rightarrow> json option \<Rightarrow> string \<Rightarrow> py_error + int" where
  "shared_num_ctx facts env saved model_name =
     rbind (chat_ctx_ceiling env saved) (\<lambda>ceiling. Inr (min (ctx_window_for_model facts model_name) ceiling))"

subsection \<open>Counting\<close>

type_synonym counter = "string \<Rightarrow> int"

definition chars_per_token_estimate :: int where
  "chars_per_token_estimate = 4"

definition count_tokens :: "counter option \<Rightarrow> counter" where
  "count_tokens tokenizer text = (case tokenizer of
     Some t \<Rightarrow> t text
   | None \<Rightarrow> max (int (length text) div chars_per_token_estimate) 0)"

record message =
  msg_content :: "string option"
  msg_tool_calls :: "json list option"

definition per_message_overhead :: int where
  "per_message_overhead = 8"

definition message_tokens :: "(json \<Rightarrow> string) \<Rightarrow> counter \<Rightarrow> int \<Rightarrow> message \<Rightarrow> int" where
  "message_tokens dump counter overhead message =
     (let total = counter (case msg_content message of None \<Rightarrow> [] | Some c \<Rightarrow> c);
          total = (case msg_tool_calls message of
            None \<Rightarrow> total
          | Some calls \<Rightarrow> if calls \<noteq> [] then total + counter (dump (JList calls)) else total)
      in total + overhead)"

definition messages_tokens :: "(json \<Rightarrow> string) \<Rightarrow> counter \<Rightarrow> message list \<Rightarrow> int" where
  "messages_tokens dump counter messages = sum_list (map (message_tokens dump counter per_message_overhead) messages)"

definition tool_schema_tokens :: "(json \<Rightarrow> string) \<Rightarrow> counter \<Rightarrow> json list \<Rightarrow> int" where
  "tool_schema_tokens dump counter schemas = (if schemas = [] then 0 else counter (dump (JList schemas)))"

definition calibration_min :: real where
  "calibration_min = 8 / 10"

definition calibration_max :: real where
  "calibration_max = 16 / 10"

text \<open>\<open>factor\<close> is None when \<open>float(factor)\<close> raises.\<close>

definition clamp_calibration :: "real option \<Rightarrow> real" where
  "clamp_calibration factor = (case factor of
     None \<Rightarrow> 1
   | Some v \<Rightarrow> min calibration_max (max calibration_min v))"

subsection \<open>Fitting a text into a budget\<close>

function fit_search :: "counter \<Rightarrow> string \<Rightarrow> int \<Rightarrow> string \<Rightarrow> int \<Rightarrow> int \<Rightarrow> string \<Rightarrow> string" where
  "fit_search count body cap marker low high best =
     (if low \<le> high then
        let middle = (low + high) div 2;
            candidate = take (nat middle) body @ marker
        in if count candidate \<le> cap then fit_search count body cap marker (middle + 1) high candidate
           else fit_search count body cap marker low (middle - 1) best
      else best)"
  by pat_completeness auto
termination
  by (relation "measure (\<lambda>(_, _, _, _, low, high, _). nat (high - low + 1))") auto

declare fit_search.simps [simp del]

definition fit_token_budget :: "counter \<Rightarrow> string \<Rightarrow> int \<Rightarrow> string \<Rightarrow> string" where
  "fit_token_budget count body max_tokens marker =
     (let cap = max 0 max_tokens
      in if count body \<le> cap then body
         else
           let marker = (if cap < count marker then [] else marker)
           in fit_search count body cap marker 0 (int (length body)) marker)"

subsection \<open>Windows stay usable\<close>

lemma listed_windows: "list_all (\<lambda>(_, w). 8192 \<le> w) model_context_windows" "list_all (\<lambda>(_, w). 8192 \<le> w) model_context_patterns"
  by (simp_all add: model_context_windows_def model_context_patterns_def)

lemma listed_ctx_window_usable: "min_usable_ctx_window \<le> listed_ctx_window name"
proof -
  have "8192 \<le> w" if "map_of model_context_windows name = Some w" for w
    using listed_windows(1) map_of_SomeD[OF that] by (auto simp: list_all_iff)
  moreover have "8192 \<le> w" if "find P model_context_patterns = Some (q, w)" for P q w
    using listed_windows(2) that by (auto simp: list_all_iff find_Some_iff) (metis case_prodD nth_mem)
  ultimately show ?thesis
    by (fastforce simp: listed_ctx_window_def min_usable_ctx_window_def safe_fallback_ctx_window_def split: option.splits)
qed

lemma ctx_window_usable: "min_usable_ctx_window \<le> ctx_window_for_model facts name"
  by (simp add: ctx_window_for_model_def listed_ctx_window_usable split: option.split)

lemma chat_ctx_ceiling_usable: "chat_ctx_ceiling env saved = Inr c \<Longrightarrow> min_usable_ctx_window \<le> c"
  by (auto simp: chat_ctx_ceiling_def rbind_def env_number_def chat_max_ctx_def min_usable_ctx_window_def
      default_chat_ctx_def Let_def split: sum.splits option.splits if_splits)

text \<open>
  Every call asks for one window per model: whatever the server, the environment and the settings
  file say, it is at least the smallest usable window, at most what the model may be asked for, and at
  most the ceiling.
\<close>

theorem shared_window_bounds:
  assumes "shared_num_ctx facts env saved name = Inr n"
  shows "4096 \<le> n \<and> n \<le> ctx_window_for_model facts name \<and> (\<exists>c. chat_ctx_ceiling env saved = Inr c \<and> n \<le> c)"
  using assms ctx_window_usable[of facts name] chat_ctx_ceiling_usable[of env saved]
  by (auto simp: shared_num_ctx_def rbind_def min_usable_ctx_window_def split: sum.splits)

theorem shared_window_bounds_witness:
  "shared_num_ctx (\<lambda>_. None) ''16384'' None ''qwen3:8b'' = Inr 16384 \<and> (4096 :: int) \<le> 16384"
proof -
  have run: "shared_num_ctx (\<lambda>_. None) ''16384'' None ''qwen3:8b'' = Inr 16384" by code_simp
  show ?thesis using run shared_window_bounds[OF run] by blast
qed

subsection \<open>Cut texts fit\<close>

text \<open>Candidates of the search: the first \<open>k\<close> characters and the marker.\<close>

definition prefix_cut :: "string \<Rightarrow> string \<Rightarrow> nat \<Rightarrow> string" where
  "prefix_cut body marker k = take k body @ marker"

lemma fit_search_fits:
  "count best \<le> cap \<Longrightarrow> count (fit_search count body cap marker low high best) \<le> cap"
  by (induction count body cap marker low high best rule: fit_search.induct)
    (subst fit_search.simps, simp add: Let_def)

text \<open>
  Linear reference: the longest prefix that fits together with the marker. It agrees with the binary
  search when a longer prefix never costs less.
\<close>

definition longest_fit :: "counter \<Rightarrow> string \<Rightarrow> int \<Rightarrow> string \<Rightarrow> string" where
  "longest_fit count body cap marker =
     (let ks = filter (\<lambda>k. count (prefix_cut body marker k) \<le> cap) [0..<Suc (length body)]
      in if ks = [] then marker else prefix_cut body marker (last ks))"

text \<open>\<open>m\<close> is the number of prefixes that fit.\<close>

lemma fit_search_boundary:
  assumes "\<And>k. k \<le> length body \<Longrightarrow> count (prefix_cut body marker k) \<le> cap \<longleftrightarrow> k < m"
    and "0 \<le> low" and "low \<le> int m" and "int m \<le> high + 1" and "high \<le> int (length body)"
    and "best = (if low = 0 then marker else prefix_cut body marker (nat (low - 1)))"
  shows "fit_search count body cap marker low high best = (if m = 0 then marker else prefix_cut body marker (m - 1))"
  using assms
proof (induction count body cap marker low high best rule: fit_search.induct)
  case (1 count body cap marker low high best)
  let ?mid = "(low + high) div 2"
  show ?case
  proof (cases "low \<le> high")
    case False
    with "1.prems" have "low = int m" by simp
    with False "1.prems" show ?thesis by (subst fit_search.simps) (simp add: nat_diff_distrib)
  next
    case True
    then have mid: "low \<le> ?mid" "?mid \<le> high" by simp_all
    then have fits: "count (take (nat ?mid) body @ marker) \<le> cap \<longleftrightarrow> ?mid < int m"
      using "1.prems"(1)[of "nat ?mid"] "1.prems"(2,5) by (simp add: prefix_cut_def nat_less_iff)
    show ?thesis
    proof (cases "?mid < int m")
      case fit: True
      have "fit_search count body cap marker (?mid + 1) high (take (nat ?mid) body @ marker) =
          (if m = 0 then marker else prefix_cut body marker (m - 1))"
        by (rule "1.IH"(1)[OF True refl refl]) (use fits fit mid "1.prems" in \<open>auto simp: prefix_cut_def\<close>)
      with True fits fit show ?thesis by (subst fit_search.simps) (simp add: Let_def)
    next
      case fit: False
      have "fit_search count body cap marker low (?mid - 1) best =
          (if m = 0 then marker else prefix_cut body marker (m - 1))"
        by (rule "1.IH"(2)[OF True refl refl]) (use fits fit mid "1.prems" in \<open>auto\<close>)
      with True fits fit show ?thesis by (subst fit_search.simps) (simp add: Let_def)
    qed
  qed
qed

lemma downward_boundary:
  assumes "\<And>i j. i \<le> j \<Longrightarrow> j \<le> n \<Longrightarrow> P j \<Longrightarrow> P i"
  obtains m where "m \<le> Suc n" and "\<And>k. k \<le> n \<Longrightarrow> P k \<longleftrightarrow> k < m"
proof
  let ?m = "LEAST m. m = Suc n \<or> \<not> P m"
  have m: "?m = Suc n \<or> \<not> P ?m" by (rule LeastI[of _ "Suc n"]) simp
  show "?m \<le> Suc n" by (rule Least_le) simp
  show "P k \<longleftrightarrow> k < ?m" if "k \<le> n" for k
  proof
    assume "P k"
    show "k < ?m"
    proof (rule ccontr)
      assume "\<not> k < ?m"
      with m that \<open>P k\<close> assms[of ?m k] show False by auto
    qed
  qed (use not_less_Least[of k "\<lambda>m. m = Suc n \<or> \<not> P m"] in blast)
qed

lemma filter_less_upt: "m \<le> n \<Longrightarrow> filter (\<lambda>k. k < m) [0..<n] = [0..<m]"
proof -
  assume "m \<le> n"
  then have "[0..<n] = [0..<m] @ [m..<n]" using upt_add_eq_append[of 0 m "n - m"] by simp
  then show ?thesis by (simp del: upt_Suc)
qed

lemma longest_fit_boundary:
  assumes "\<And>k. k \<le> length body \<Longrightarrow> count (prefix_cut body marker k) \<le> cap \<longleftrightarrow> k < m" and "m \<le> Suc (length body)"
  shows "longest_fit count body cap marker = (if m = 0 then marker else prefix_cut body marker (m - 1))"
proof -
  have "filter (\<lambda>k. count (prefix_cut body marker k) \<le> cap) [0..<Suc (length body)] = filter (\<lambda>k. k < m) [0..<Suc (length body)]"
    by (rule filter_cong) (use assms(1) in auto)
  also have "\<dots> = [0..<m]" using assms(2) by (rule filter_less_upt)
  finally have fitting: "filter (\<lambda>k. count (prefix_cut body marker k) \<le> cap) [0..<Suc (length body)] = [0..<m]" .
  show ?thesis unfolding longest_fit_def Let_def fitting by (cases m) auto
qed

text \<open>
  C35. Cutting a text to a budget: the result never costs more than the budget when the empty text costs
  nothing, and for a counter that never charges a longer prefix less it is exactly the longest prefix
  that fits with its marker (or the whole text).
\<close>

theorem fit_token_budget_exact:
  assumes "count [] \<le> 0"
  shows "count (fit_token_budget count body n marker) \<le> max 0 n \<and>
    ((\<forall>s i j. i \<le> j \<longrightarrow> count (prefix_cut body s i) \<le> count (prefix_cut body s j)) \<longrightarrow>
      fit_token_budget count body n marker =
        (if count body \<le> max 0 n then body
         else longest_fit count body (max 0 n) (if max 0 n < count marker then [] else marker)))"
proof (intro conjI impI)
  show "count (fit_token_budget count body n marker) \<le> max 0 n"
  proof (cases "count body \<le> max 0 n")
    case False
    have "count (if max 0 n < count marker then [] else marker) \<le> max 0 n" using assms by (simp add: max_def)
    then have "count (fit_search count body (max 0 n) (if max 0 n < count marker then [] else marker) 0
        (int (length body)) (if max 0 n < count marker then [] else marker)) \<le> max 0 n"
      by (rule fit_search_fits)
    with False show ?thesis unfolding fit_token_budget_def Let_def by (simp only: if_False)
  qed (simp add: fit_token_budget_def)
next
  assume mono: "\<forall>s i j. i \<le> j \<longrightarrow> count (prefix_cut body s i) \<le> count (prefix_cut body s j)"
  define cap where "cap = max 0 n"
  define s where "s = (if cap < count marker then [] else marker)"
  obtain m where m: "m \<le> Suc (length body)"
      "\<And>k. k \<le> length body \<Longrightarrow> count (prefix_cut body s k) \<le> cap \<longleftrightarrow> k < m"
  proof (rule downward_boundary[of "length body" "\<lambda>k. count (prefix_cut body s k) \<le> cap"])
    show "count (prefix_cut body s i) \<le> cap" if "i \<le> j" "count (prefix_cut body s j) \<le> cap" for i j
      using mono that by (meson order_trans)
  qed blast
  have "fit_search count body cap s 0 (int (length body)) s = (if m = 0 then s else prefix_cut body s (m - 1))"
  proof (rule fit_search_boundary[OF m(2)])
    show "int m \<le> int (length body) + 1" using m(1) by linarith
  qed simp_all
  also have "\<dots> = longest_fit count body cap s" by (rule longest_fit_boundary[OF m(2,1), symmetric])
  finally show "fit_token_budget count body n marker =
      (if count body \<le> max 0 n then body
       else longest_fit count body (max 0 n) (if max 0 n < count marker then [] else marker))"
    unfolding fit_token_budget_def Let_def cap_def s_def by simp
qed

lemma estimate_mono: "i \<le> j \<Longrightarrow> count_tokens None (prefix_cut body s i) \<le> count_tokens None (prefix_cut body s j)"
  by (simp add: count_tokens_def prefix_cut_def chars_per_token_estimate_def zdiv_mono1)

theorem fit_token_budget_exact_witness:
  "fit_token_budget (count_tokens None) ''the quick brown fox'' 3 ''...'' = ''the quick br...''"
proof -
  have "fit_token_budget (count_tokens None) ''the quick brown fox'' 3 ''...'' =
      longest_fit (count_tokens None) ''the quick brown fox'' 3 ''...''"
    using fit_token_budget_exact[of "count_tokens None" "''the quick brown fox''" 3 "''...''"] estimate_mono
    by (simp add: count_tokens_def chars_per_token_estimate_def)
  also have "\<dots> = ''the quick br...''" by code_simp
  finally show ?thesis .
qed

end
