(* ===== verification/LoopGuards.thy ===== *)
theory LoopGuards
  imports PyText "HOL-Library.AList" "HOL-Library.Product_Lexorder"
begin

text \<open>
  The detectors of \<open>agents/loop_guards.py\<close>: the read loop, greetings in the middle of a task, replies
  that are only a tool call, invented tool names, the temperature of a retry, and tools that keep
  failing. Each is a function of its own state; the chat loop decides what to do with a signal.
\<close>

subsection \<open>The read loop\<close>

definition reads_before_nudge :: nat where
  "reads_before_nudge = 5"

definition reads_before_insisting :: nat where
  "reads_before_insisting = 8"

definition reads_after_insisting_before_stopping :: nat where
  "reads_after_insisting_before_stopping = 8"

definition read_loop_exhausted :: string where
  "read_loop_exhausted = ''read_loop_exhausted''"

definition bookkeeping_tools :: "string list" where
  "bookkeeping_tools = [''contract_create'', ''contract_status'', ''contract_from_plan'',
     ''contract_assert_pass'', ''contract_assert_fail'', ''contract_assert_skip'']"

definition looking_tools :: "string list" where
  "looking_tools = [''read_file'', ''read_symbol'', ''list_files'', ''find_files'', ''search_files'',
     ''find_and_read'', ''search_and_read'', ''graph_search'', ''explain_symbol'', ''memory_load'',
     ''memory_list'', ''history_search'', ''git_status'', ''git_diff'', ''git_log'']"

definition newlines2 :: string where
  "newlines2 = [newline, newline]"

record signal =
  sig_reason :: string
  sig_activity :: string
  sig_correction :: string

record detector =
  rd_streak :: nat
  rd_nudged :: bool
  rd_insisted :: bool
  rd_since :: nat
  rd_seen :: "string list"

definition new_detector :: detector where
  "new_detector = \<lparr>rd_streak = 0, rd_nudged = False, rd_insisted = False, rd_since = 0, rd_seen = []\<rparr>"

definition exploring :: "detector \<Rightarrow> bool" where
  "exploring d \<longleftrightarrow> rd_seen d \<noteq> [] \<and> rd_streak d \<le> length (rd_seen d)"

definition signal_exhausted :: signal where
  "signal_exhausted = (let n = nat_str reads_after_insisting_before_stopping in
     \<lparr>sig_reason = read_loop_exhausted,
      sig_activity = ''read '' @ n @ '' more things after being asked to stop; ended the turn'',
      sig_correction = ''I have stopped this turn. After being asked twice to answer, I made '' @ n @
        '' more read calls without writing anything, running anything, or answering.'' @ newlines2 @
        ''Everything I read is still in the conversation, so nothing is lost. Ask for one concrete '' @
        ''thing - a single function to change, or one question to answer - and I will do that instead '' @
        ''of looking for more context.''\<rparr>)"

definition signal_insist :: "bool \<Rightarrow> nat \<Rightarrow> signal" where
  "signal_insist fresh count = (let n = nat_str count in
     if fresh then
       \<lparr>sig_reason = ''read_loop'',
        sig_activity = ''read '' @ n @ '' different things without producing anything; asked it to say what it is after'',
        sig_correction = ''You have now opened '' @ n @ '' different files in this turn and produced nothing - '' @
          ''no answer, no file changed, no command run.'' @ newlines2 @
          ''Write down what you have found so far and what is still missing, in the reply, before reading '' @
          ''anything else. If what is missing is one specific thing, fetch exactly that and then answer. '' @
          ''If you already know the cause, make the change now.''\<rparr>
     else
       \<lparr>sig_reason = ''read_loop'',
        sig_activity = ''read '' @ n @ '' things without producing anything; asked it to answer'',
        sig_correction = ''You have now made '' @ n @ '' read or search calls in this turn and produced nothing - '' @
          ''no answer, no file changed, no command run, and you are re-reading things you already have.'' @ newlines2 @
          ''Stop reading. Write your answer, or make the change you were asked for, in this turn. If one '' @
          ''specific thing is genuinely still missing, fetch exactly that one thing and then answer immediately.''\<rparr>)"

definition signal_nudge :: "bool \<Rightarrow> nat \<Rightarrow> signal" where
  "signal_nudge fresh count = (let n = nat_str count in
     if fresh then
       \<lparr>sig_reason = ''read_loop_warning'',
        sig_activity = ''read '' @ n @ '' different things without producing anything'',
        sig_correction = ''You have opened '' @ n @ '' different files and produced nothing yet - no answer, no '' @
          ''change, nothing run.'' @ newlines2 @
          ''If you already know what is wrong, make the change now. If you are still looking, say in one '' @
          ''line WHAT you are looking for before your next read, and read only the thing that would '' @
          ''settle it. Do not open more files to see what is in them.''\<rparr>
     else
       \<lparr>sig_reason = ''read_loop_warning'',
        sig_activity = ''read '' @ n @ '' things without producing anything'',
        sig_correction = ''You have read '' @ n @ '' things and produced nothing yet, and you are re-reading what '' @
          ''you already have. You probably have enough. After your next call, write the answer or make '' @
          ''the change - do not keep reading.''\<rparr>)"

text \<open>One round: the tools called, whether anything was produced, and what was read.\<close>

type_synonym round = "string list \<times> bool \<times> string list"

definition is_looking :: "string \<Rightarrow> bool" where
  "is_looking name \<longleftrightarrow> name \<in> set looking_tools"

definition only_bookkeeping :: "string list \<Rightarrow> bool" where
  "only_bookkeeping names \<longleftrightarrow> list_all (\<lambda>n. n \<in> set bookkeeping_tools) names"

fun record_round :: "round \<Rightarrow> detector \<Rightarrow> signal option \<times> detector" where
  "record_round (names, produced, targets) d =
     (if produced then (None, d\<lparr>rd_streak := 0, rd_since := 0, rd_seen := []\<rparr>)
      else
        let d = d\<lparr>rd_seen := fold (\<lambda>t acc. add_new acc t) (filter (\<lambda>t. t \<noteq> []) targets) (rd_seen d)\<rparr>;
            looked = length (filter is_looking names)
        in if looked = 0 then
             (None, if names \<noteq> [] \<and> \<not> only_bookkeeping names then d\<lparr>rd_streak := 0\<rparr> else d)
           else
             let d = d\<lparr>rd_streak := rd_streak d + looked\<rparr>
             in if rd_insisted d then
                  let since = rd_since d + looked
                  in if reads_after_insisting_before_stopping \<le> since
                     then (Some signal_exhausted, d\<lparr>rd_since := 0\<rparr>)
                     else (None, d\<lparr>rd_since := since\<rparr>)
                else if reads_before_insisting \<le> rd_streak d then
                  (Some (signal_insist (exploring d) (rd_streak d)), d\<lparr>rd_insisted := True, rd_streak := 0\<rparr>)
                else if reads_before_nudge \<le> rd_streak d \<and> \<not> rd_nudged d then
                  (Some (signal_nudge (exploring d) (rd_streak d)), d\<lparr>rd_nudged := True\<rparr>)
                else (None, d))"

declare record_round.simps [simp del]

fun run_rounds :: "round list \<Rightarrow> detector \<Rightarrow> signal list \<times> detector" where
  "run_rounds [] d = ([], d)"
| "run_rounds (r # rs) d = (let (s, d) = record_round r d; (ss, d) = run_rounds rs d
     in (case s of None \<Rightarrow> ss | Some x \<Rightarrow> x # ss, d))"

subsection \<open>Greetings\<close>

text \<open>
  A pattern is the list of the phrases its alternatives spell out; each is looked for without regard
  to case and between word boundaries.
\<close>

definition greeting_phrases :: "string list" where
  "greeting_phrases = [
     ''how can i help'', ''how can i assist'',
     ''what would you like me to do'', ''what would you like me to work on'',
     ''what would you like to do'', ''what would you like to work on'',
     ''what can i do for you'',
     ''how may i help'', ''how may i assist'',
     ''im ready to help'', ''im ready to assist'', ''im ready to start'',
     ''i'' @ [CHR 0x27] @ ''m ready to help'', ''i'' @ [CHR 0x27] @ ''m ready to assist'', ''i'' @ [CHR 0x27] @ ''m ready to start'',
     ''hi there what'', ''hi there! what'', ''hi there. what'']"

fun phrase_search :: "bool \<Rightarrow> string \<Rightarrow> string \<Rightarrow> bool" where
  "phrase_search boundary p [] = False"
| "phrase_search boundary p (c # cs) =
     ((boundary \<and> starts_with (c # cs) p \<and>
        (case drop (length p) (c # cs) of [] \<Rightarrow> True | d # _ \<Rightarrow> \<not> is_word_char d)) \<or>
      phrase_search (\<not> is_word_char c) p cs)"

definition greeting_regression :: "string \<Rightarrow> bool \<Rightarrow> signal option" where
  "greeting_regression reply work_happened =
     (let body = strip reply
      in if \<not> work_happened then None
         else if body = [] then None
         else if \<not> list_ex (\<lambda>p. phrase_search True p (lower body)) greeting_phrases then None
         else Some \<lparr>sig_reason = ''greeting_regression'',
           sig_activity = ''greeted the user mid-task; asked it to carry on'',
           sig_correction = ''You have already been working on something in this turn, and that reply greets '' @
             ''the user as if the conversation had just started.'' @ newlines2 @
             ''Look back at what you were doing and carry on from there. Do not restart the conversation, '' @
             ''and do not ask what to work on - you were told.''\<rparr>)"

subsection \<open>Replies that are only a tool call\<close>

definition code_fence :: string where
  "code_fence = replicate 3 (CHR 0x60)"

definition is_tool_name_char :: "char \<Rightarrow> bool" where
  "is_tool_name_char c \<longleftrightarrow> is_letter c \<or> is_digit c \<or> c = CHR ''_'' \<or> c = CHR ''.''"

text \<open>What may follow the tool name: anything, a closing brace, and perhaps a closing fence.\<close>

definition closes_object :: "string \<Rightarrow> bool" where
  "closes_object s =
     (let s = rstrip s;
          ends = (\<lambda>t. t \<noteq> [] \<and> last t = CHR ''}'')
      in ends s \<or> (3 \<le> length s \<and> drop (length s - 3) s = code_fence \<and> ends (rstrip (take (length s - 3) s))))"

definition leaked_tool_call :: "string \<Rightarrow> string" where
  "leaked_tool_call reply =
     (let s = lstrip reply;
          s = (case drop_prefix code_fence s of None \<Rightarrow> s
               | Some t \<Rightarrow> lstrip (case drop_prefix ''json'' t of None \<Rightarrow> t | Some u \<Rightarrow> u));
          quote = [CHR 0x22]
      in case drop_prefix ''{'' s of None \<Rightarrow> []
         | Some s \<Rightarrow>
           (case drop_prefix quote (lstrip s) of None \<Rightarrow> []
            | Some s \<Rightarrow>
              (case find (\<lambda>k. starts_with s (k @ quote)) [''name'', ''tool'', ''function''] of None \<Rightarrow> []
               | Some k \<Rightarrow>
                 (case drop_prefix '':'' (lstrip (drop (length k + 1) s)) of None \<Rightarrow> []
                  | Some s \<Rightarrow>
                    (case drop_prefix quote (lstrip s) of None \<Rightarrow> []
                     | Some s \<Rightarrow>
                       let name = takeWhile is_tool_name_char s;
                           rest = dropWhile is_tool_name_char s
                       in if name \<noteq> [] \<and> starts_with rest quote \<and> closes_object (drop 1 rest) then name else [])))))"

subsection \<open>Invented tool names\<close>

text \<open>\<open>difflib.get_close_matches\<close>: the matching blocks of \<open>SequenceMatcher\<close> (the longest, then the earliest
  in either text), the ratio of matched characters, and the best candidates above the cutoff. Texts of
  200 characters and more, for which it ignores popular characters, are no tool names.\<close>

fun common_prefix :: "string \<Rightarrow> string \<Rightarrow> nat" where
  "common_prefix (a # as) (b # bs) = (if a = b then Suc (common_prefix as bs) else 0)"
| "common_prefix _ _ = 0"

definition better_match :: "(nat \<times> nat \<times> nat) \<Rightarrow> (nat \<times> nat \<times> nat) \<Rightarrow> nat \<times> nat \<times> nat" where
  "better_match old new = (if snd (snd old) < snd (snd new) then new else old)"

definition longest_match :: "string \<Rightarrow> string \<Rightarrow> nat \<times> nat \<times> nat" where
  "longest_match a b = fold (\<lambda>i best. fold (\<lambda>j best. better_match best (i, j, common_prefix (drop i a) (drop j b)))
     [0..<length b] best) [0..<length a] (0, 0, 0)"

lemma common_prefix_le: "common_prefix as bs \<le> length as" "common_prefix as bs \<le> length bs"
  by (induction as bs rule: common_prefix.induct) auto

lemma better_match_bound:
  "fst best + snd (snd best) \<le> n \<Longrightarrow> i + k \<le> n \<Longrightarrow>
     fst (better_match best (i, j, k)) + snd (snd (better_match best (i, j, k))) \<le> n"
  by (simp add: better_match_def)

lemma longest_match_bound:
  "fst (longest_match a b) + snd (snd (longest_match a b)) \<le> length a"
proof -
  have inner: "fst (fold (\<lambda>j best. better_match best (i, j, common_prefix (drop i a) (drop j b))) js best) +
      snd (snd (fold (\<lambda>j best. better_match best (i, j, common_prefix (drop i a) (drop j b))) js best)) \<le> length a"
    if "fst best + snd (snd best) \<le> length a" "i < length a" for i js and best :: "nat \<times> nat \<times> nat"
    using that(1)
  proof (induction js arbitrary: best)
    case (Cons j js)
    have "i + common_prefix (drop i a) (drop j b) \<le> length a"
      using common_prefix_le(1)[of "drop i a" "drop j b"] \<open>i < length a\<close> by simp
    then show ?case using Cons by (simp add: better_match_bound)
  qed simp
  have "fst (fold (\<lambda>i best. fold (\<lambda>j best. better_match best (i, j, common_prefix (drop i a) (drop j b)))
      [0..<length b] best) is best) + snd (snd (fold (\<lambda>i best. fold (\<lambda>j best. better_match best (i, j,
      common_prefix (drop i a) (drop j b))) [0..<length b] best) is best)) \<le> length a"
    if "list_all (\<lambda>i. i < length a) is" "fst best + snd (snd best) \<le> length a" for "is" and best :: "nat \<times> nat \<times> nat"
    using that by (induction "is" arbitrary: best) (simp_all add: inner)
  then show ?thesis unfolding longest_match_def by (simp add: list_all_iff)
qed

function matched :: "string \<Rightarrow> string \<Rightarrow> nat" where
  "matched a b = (let (i, j, k) = longest_match a b
     in if k = 0 then 0 else matched (take i a) (take j b) + k + matched (drop (i + k) a) (drop (j + k) b))"
  by pat_completeness auto
termination
proof (relation "measure (\<lambda>(a, _). length a)", goal_cases)
  case (2 a b m i r j k)
  then have "longest_match a b = (i, j, k)" by auto
  with 2 show ?case using longest_match_bound[of a b] by auto
next
  case (3 a b m i r j k)
  then have "longest_match a b = (i, j, k)" by auto
  with 3 show ?case using longest_match_bound[of a b] by auto
qed simp

declare matched.simps [simp del]

text \<open>The ratio \<open>2 M / T\<close> is at least 0.6 and ranks the candidates; equal ratios go by the text, last first.\<close>

definition similarity :: "string \<Rightarrow> string \<Rightarrow> rat" where
  "similarity word x = (if length x + length word = 0 then 1
     else of_nat (2 * matched x word) / of_nat (length x + length word))"

definition get_close_matches :: "string \<Rightarrow> string list \<Rightarrow> nat \<Rightarrow> string list" where
  "get_close_matches word known n =
     take n (map snd (rev (sort (map (\<lambda>x. (similarity word x, x))
       (filter (\<lambda>x. 6 / 10 \<le> similarity word x) known)))))"

definition last_part :: "string \<Rightarrow> string" where
  "last_part s = rev (takeWhile (\<lambda>c. c \<noteq> CHR ''.'') (rev s))"

definition closest_tool_names :: "string \<Rightarrow> string list \<Rightarrow> nat \<Rightarrow> string list" where
  "closest_tool_names wanted known limit =
     (let bare = last_part (lower (strip wanted))
      in if bare = [] \<or> known = [] then []
         else if bare \<in> set known then [bare]
         else let close = get_close_matches bare known limit
           in if close \<noteq> [] then close
              else take limit (filter (\<lambda>name. contains bare name \<or> contains name bare) known))"

definition invented_capabilities :: "(string \<times> string) list" where
  "invented_capabilities = [
     (''plan'', ''To start a phase of a plan document, call contract_from_plan with its number. '' @
      ''To write down what done means directly, contract_create. To save the plan as a '' @
      ''file, write_file.''),
     (''todo'', ''There is no todo tool. Keep the list in your answer, or write it to a file '' @
      ''with write_file.''),
     (''todo_write'', ''There is no todo tool. Keep the list in your answer, or write it to a file '' @
      ''with write_file.''),
     (''task'', ''There is no task tool. Do the work yourself with the tools you have.''),
     (''think'', ''There is no think tool - think in your reply, then call a tool or answer.''),
     (''finish'', ''There is no completion tool. When you are done, just answer.''),
     (''done'', ''There is no completion tool. When you are done, just answer.''),
     (''attempt_completion'', ''There is no completion tool. When you are done, just answer.''),
     (''bash'', ''Use run_command.''),
     (''shell'', ''Use run_command.''),
     (''terminal'', ''Use run_command.''),
     (''exec'', ''Use run_command.''),
     (''grep'', ''Use search_files.''),
     (''rg'', ''Use search_files.''),
     (''ls'', ''Use list_files.''),
     (''dir'', ''Use list_files.''),
     (''cat'', ''Use read_file.''),
     (''view'', ''Use read_file.''),
     (''open'', ''Use read_file.''),
     (''str_replace'', ''Use patch_file.''),
     (''str_replace_editor'', ''Use patch_file.''),
     (''apply_patch'', ''Use patch_file.'')]"

definition invented_capability_hint :: "string \<Rightarrow> string" where
  "invented_capability_hint wanted =
     (case map_of invented_capabilities (last_part (lower (strip wanted))) of None \<Rightarrow> [] | Some hint \<Rightarrow> hint)"

subsection \<open>Temperature\<close>

definition temperature_step :: real where
  "temperature_step = 15 / 100"

text \<open>\<open>round(x, 3)\<close>, halves to even, on real numbers.\<close>

definition round3 :: "real \<Rightarrow> real" where
  "round3 x = (let y = x * 1000; f = \<lfloor>y\<rfloor>; d = y - of_int f
     in of_int (if d < 1 / 2 then f else if 1 / 2 < d then f + 1 else if even f then f else f + 1) / 1000)"

definition adapted_temperature :: "real \<Rightarrow> int \<Rightarrow> real" where
  "adapted_temperature base repair_streak =
     (if repair_streak \<le> 0 then base
      else let phase = repair_streak mod 3;
               delta = (if phase = 1 then - temperature_step else if phase = 2 then temperature_step else 0)
           in round3 (min 1 (max 0 (base + delta))))"

subsection \<open>Trust\<close>

datatype trust_verdict = TRUST_OK | TRUST_WARN | TRUST_DROP

record trust =
  td_consecutive :: "(string \<times> nat) list"
  td_warn_after :: nat
  td_drop_after :: nat
  td_protected :: "string list"

definition trust_record :: "string \<Rightarrow> bool \<Rightarrow> trust \<Rightarrow> trust" where
  "trust_record tool ok t =
     (if tool = [] then t
      else if ok then t\<lparr>td_consecutive := AList.delete tool (td_consecutive t)\<rparr>
      else t\<lparr>td_consecutive := AList.update tool
        ((case map_of (td_consecutive t) tool of None \<Rightarrow> 0 | Some n \<Rightarrow> n) + 1) (td_consecutive t)\<rparr>)"

definition trust_level :: "trust \<Rightarrow> string \<Rightarrow> trust_verdict" where
  "trust_level t tool =
     (if tool \<in> set (td_protected t) then TRUST_OK
      else let failures = (case map_of (td_consecutive t) tool of None \<Rightarrow> 0 | Some n \<Rightarrow> n)
        in if td_drop_after t \<le> failures then TRUST_DROP
           else if td_warn_after t \<le> failures then TRUST_WARN else TRUST_OK)"

definition dropped :: "trust \<Rightarrow> string list" where
  "dropped t = filter (\<lambda>tool. trust_level t tool = TRUST_DROP) (map fst (td_consecutive t))"

subsection \<open>Reading ends\<close>

text \<open>What the read loop needs at most until it ends the turn, in rounds that look at something.\<close>

definition rounds_left :: "detector \<Rightarrow> nat" where
  "rounds_left d = (if rd_insisted d then max 1 (reads_after_insisting_before_stopping - rd_since d)
     else max 1 (reads_before_insisting - rd_streak d) + reads_after_insisting_before_stopping)"

definition looks :: "round \<Rightarrow> nat" where
  "looks r = length (filter is_looking (fst r))"

definition unproductive :: "round \<Rightarrow> bool" where
  "unproductive r \<longleftrightarrow> \<not> fst (snd r) \<and> (0 < looks r \<or> only_bookkeeping (fst r))"

definition exhausts :: "signal option \<Rightarrow> bool" where
  "exhausts s \<longleftrightarrow> (\<exists>x. s = Some x \<and> sig_reason x = read_loop_exhausted)"

lemma signal_reasons [simp]:
  "sig_reason signal_exhausted = read_loop_exhausted"
  "sig_reason (signal_insist b n) = ''read_loop''" "sig_reason (signal_nudge b n) = ''read_loop_warning''"
  by (simp_all add: signal_exhausted_def signal_insist_def signal_nudge_def Let_def)

lemma looking_round:
  assumes "\<not> fst (snd r)" and "0 < looks r"
  shows "exhausts (fst (record_round r d)) \<or> rounds_left (snd (record_round r d)) < rounds_left d"
proof -
  obtain names produced targets where r: "r = (names, produced, targets)" by (cases r)
  define n where "n = length (filter is_looking names)"
  have "0 < n" and "\<not> produced" using assms by (simp_all add: r n_def looks_def)
  then show ?thesis
    unfolding r record_round.simps n_def[symmetric]
    by (auto simp: Let_def exhausts_def rounds_left_def max_def reads_after_insisting_before_stopping_def
        reads_before_insisting_def)
qed

lemma bookkeeping_round:
  assumes "\<not> fst (snd r)" and "looks r = 0" and "only_bookkeeping (fst r)"
  shows "rounds_left (snd (record_round r d)) = rounds_left d"
  using assms by (cases r) (auto simp: record_round.simps Let_def looks_def rounds_left_def)

lemma signals_exhaust:
  assumes "list_all unproductive rs" and "rounds_left d \<le> length (filter (\<lambda>r. 0 < looks r) rs)"
  shows "\<exists>x \<in> set (fst (run_rounds rs d)). sig_reason x = read_loop_exhausted"
  using assms
proof (induction rs arbitrary: d)
  case Nil
  then show ?case by (simp add: rounds_left_def split: if_splits)
next
  case (Cons r rs)
  obtain s d' where step: "record_round r d = (s, d')" by (rule prod.exhaust)
  show ?case
  proof (cases "exhausts s")
    case True
    then show ?thesis using step by (auto simp: exhausts_def split: prod.splits)
  next
    case False
    have "rounds_left d' \<le> length (filter (\<lambda>r. 0 < looks r) rs)"
    proof (cases "0 < looks r")
      case True
      then show ?thesis using looking_round[of r d] False Cons.prems step by (auto simp: unproductive_def)
    next
      case none: False
      then show ?thesis using bookkeeping_round[of r d] Cons.prems step by (auto simp: unproductive_def)
    qed
    then have "\<exists>x \<in> set (fst (run_rounds rs d')). sig_reason x = read_loop_exhausted"
      using Cons by simp
    then show ?thesis using step by (auto split: prod.splits option.splits)
  qed
qed

text \<open>A fresh detector ends no turn before sixteen read calls.\<close>

lemma early_rounds:
  assumes "if rd_insisted d then 8 + rd_since d \<le> n else rd_streak d \<le> n \<and> rd_since d = 0"
    and "sig_reason x = read_loop_exhausted" and "x \<in> set (fst (run_rounds rs d))"
  shows "16 \<le> n + sum_list (map looks rs)"
  using assms
proof (induction rs arbitrary: d n)
  case (Cons r rs)
  obtain s d' where step: "record_round r d = (s, d')" by (rule prod.exhaust)
  have next_ok: "if rd_insisted d' then 8 + rd_since d' \<le> n + looks r else rd_streak d' \<le> n + looks r \<and> rd_since d' = 0"
    using Cons.prems(1) step by (cases r) (auto simp: record_round.simps Let_def looks_def
      reads_after_insisting_before_stopping_def reads_before_insisting_def split: if_splits)
  show ?case
  proof (cases "s = Some x")
    case True
    then have "16 \<le> n + looks r"
      using Cons.prems(1,2) step by (cases r) (auto simp: record_round.simps Let_def looks_def
        reads_after_insisting_before_stopping_def reads_before_insisting_def read_loop_exhausted_def split: if_splits)
    then show ?thesis by simp
  next
    case False
    then have "x \<in> set (fst (run_rounds rs d'))"
      using Cons.prems(3) step by (auto split: prod.splits option.splits)
    from Cons.IH[OF next_ok Cons.prems(2) this] show ?thesis by simp
  qed
qed simp

text \<open>
  C34. A model that only reads is stopped, and not too soon: in every sequence of rounds that produce
  nothing and call only reading or bookkeeping tools, whatever the detector counted before, sixteen
  rounds with a read end the turn; and a fresh detector never ends a turn before sixteen read calls.
\<close>

theorem reading_is_bounded:
  assumes "list_all unproductive rs" and "16 \<le> length (filter (\<lambda>r. 0 < looks r) rs)"
  shows "list_ex (\<lambda>x. sig_reason x = read_loop_exhausted) (fst (run_rounds rs d)) \<and>
    (\<not> list_ex (\<lambda>x. sig_reason x = read_loop_exhausted) (fst (run_rounds qs new_detector)) \<or>
      16 \<le> sum_list (map looks qs))"
proof (intro conjI)
  have "rounds_left d \<le> 16"
    by (auto simp: rounds_left_def max_def reads_after_insisting_before_stopping_def reads_before_insisting_def)
  then show "list_ex (\<lambda>x. sig_reason x = read_loop_exhausted) (fst (run_rounds rs d))"
    using signals_exhaust[of rs d] assms by (auto simp: list_ex_iff)
  show "\<not> list_ex (\<lambda>x. sig_reason x = read_loop_exhausted) (fst (run_rounds qs new_detector)) \<or>
      16 \<le> sum_list (map looks qs)"
    using early_rounds[of new_detector 0 _ qs] by (auto simp: list_ex_iff new_detector_def)
qed

theorem reading_is_bounded_witness:
  "list_ex (\<lambda>x. sig_reason x = read_loop_exhausted)
     (fst (run_rounds (replicate 16 ([''read_file''], False, [''a.py''])) new_detector))"
  using reading_is_bounded[of "replicate 16 ([''read_file''], False, [''a.py''])" new_detector "[]"]
  by (simp add: unproductive_def looks_def is_looking_def looking_tools_def only_bookkeeping_def list_all_iff)

text \<open>
  The word for a model that opens new files only is also said to one that reads old files again: what
  was seen survives a round that resets the streak, so fewer new things look like enough.
\<close>

lemma exploring_counts_forgotten_files:
  "fst (run_rounds ([([''read_file'', ''read_file'', ''read_file'', ''read_file''], False, [''a'', ''b'', ''c'', ''d'']),
       ([''ask_user''], False, []),
       ([''read_file'', ''read_file'', ''read_file'', ''read_file''], False, [''e'', ''f'', ''g'', ''h'']),
       ([''ask_user''], False, [])] @
       replicate 8 ([''read_file''], False, [''a''])) new_detector) =
     [signal_nudge True 5, signal_insist True 8]"
  by (simp add: numeral_eq_Suc record_round.simps new_detector_def is_looking_def looking_tools_def
      only_bookkeeping_def bookkeeping_tools_def exploring_def add_new_def Let_def
      reads_after_insisting_before_stopping_def reads_before_insisting_def reads_before_nudge_def)

subsection \<open>Trust follows the last failures\<close>

text \<open>How many of the last events of a tool were failures, without a success in between.\<close>

fun failing_tail :: "string \<Rightarrow> (string \<times> bool) list \<Rightarrow> nat \<Rightarrow> nat" where
  "failing_tail tool [] n = n"
| "failing_tail tool ((t, ok) # es) n =
     failing_tail tool es (if t = tool then if ok then 0 else Suc n else n)"

definition trust_run :: "(string \<times> bool) list \<Rightarrow> trust \<Rightarrow> trust" where
  "trust_run es t = fold (\<lambda>(tool, ok). trust_record tool ok) es t"

definition failures_of :: "trust \<Rightarrow> string \<Rightarrow> nat" where
  "failures_of t tool = (case map_of (td_consecutive t) tool of None \<Rightarrow> 0 | Some n \<Rightarrow> n)"

lemma trust_record_failures:
  "tool \<noteq> [] \<Longrightarrow> distinct (map fst (td_consecutive t)) \<Longrightarrow>
     failures_of (trust_record u ok t) tool = (if u = tool then if ok then 0 else Suc (failures_of t tool) else failures_of t tool)"
  by (auto simp: trust_record_def failures_of_def update_conv' delete_conv' split: option.splits)

lemma trust_record_frames [simp]:
  "td_warn_after (trust_record u ok t) = td_warn_after t" "td_drop_after (trust_record u ok t) = td_drop_after t"
  "td_protected (trust_record u ok t) = td_protected t"
  by (simp_all add: trust_record_def)

lemma trust_record_distinct:
  "distinct (map fst (td_consecutive t)) \<Longrightarrow> distinct (map fst (td_consecutive (trust_record u ok t)))"
  by (simp add: trust_record_def distinct_update distinct_delete)

lemma trust_run_failures:
  assumes "tool \<noteq> []" and "distinct (map fst (td_consecutive t))"
  shows "failures_of (trust_run es t) tool = failing_tail tool es (failures_of t tool) \<and>
    td_warn_after (trust_run es t) = td_warn_after t \<and> td_drop_after (trust_run es t) = td_drop_after t \<and>
    td_protected (trust_run es t) = td_protected t"
  using assms(2) unfolding trust_run_def
proof (induction es arbitrary: t)
  case (Cons e es)
  then show ?case
    using trust_record_failures[OF assms(1)] trust_record_distinct by (cases e) simp
qed simp

text \<open>
  After any history a tool is withheld exactly when it is not protected and has failed at least
  \<open>drop_after\<close> times since its last success, and it is warned about under the same rule; so a protected
  tool is never withheld.
\<close>

theorem trust_follows_failures:
  assumes "tool \<noteq> []" and "td_consecutive t = []"
  shows "trust_level (trust_run es t) tool =
    (if tool \<in> set (td_protected t) then TRUST_OK
     else if td_drop_after t \<le> failing_tail tool es 0 then TRUST_DROP
     else if td_warn_after t \<le> failing_tail tool es 0 then TRUST_WARN else TRUST_OK)"
  using trust_run_failures[OF assms(1), of t es] assms(2)
  unfolding trust_level_def failures_of_def[symmetric] by (simp add: failures_of_def)

theorem trust_follows_failures_witness:
  "trust_level (trust_run [(''grep'', False), (''grep'', True), (''grep'', False), (''grep'', False), (''grep'', False)]
     \<lparr>td_consecutive = [], td_warn_after = 3, td_drop_after = 5, td_protected = [''edit'']\<rparr>) ''grep'' = TRUST_WARN"
  by (subst trust_follows_failures) simp_all

end
