(* ===== verification/Paths.thy ===== *)
theory Paths
  imports PyText
begin

text \<open>
  What the patch engine uses of \<open>pathlib\<close>: the parts of a path in POSIX and in Windows spelling, and
  whether it is absolute. The paths the code accepts are relative, so a location in the workspace is
  the list of its parts.
\<close>

type_synonym path = "string list"

definition backslash :: char where
  "backslash = CHR 0x5C"

definition clean_parts :: "string list \<Rightarrow> string list" where
  "clean_parts ps = filter (\<lambda>p. p \<noteq> [] \<and> p \<noteq> ''.'') ps"

definition posix_absolute :: "string \<Rightarrow> bool" where
  "posix_absolute p \<longleftrightarrow> starts_with p ''/''"

text \<open>The parts without the root.\<close>

definition posix_parts :: "string \<Rightarrow> path" where
  "posix_parts p = clean_parts (split_char (CHR ''/'') p)"

text \<open>Drive, whether there is a root, and the rest, after \<open>ntpath.splitroot\<close> and the repair of UNC roots.\<close>

definition upper_ascii :: "string \<Rightarrow> string" where
  "upper_ascii s = map (\<lambda>c. let n = (of_char c :: nat) in if 97 \<le> n \<and> n \<le> 122 then char_of (n - 32) else c) s"

definition unc_root :: "string \<Rightarrow> bool" where
  "unc_root drive = (let ps = split_char backslash drive
     in (length ps = 4 \<and> ps ! 2 \<notin> {[], ''?'', ''.'', ''?.''}) \<or> length ps = 6)"

definition windows_split :: "string \<Rightarrow> string \<times> bool \<times> string" where
  "windows_split p =
     (let p = replace_char (CHR ''/'') backslash p;
          from_sep = dropWhile (\<lambda>c. c \<noteq> backslash)
      in if starts_with p [backslash, backslash] then
           let start = (if upper_ascii (take 8 p) = [backslash, backslash] @ ''?'' @ [backslash] @ ''UNC'' @ [backslash]
                        then 8 else 2);
               after = from_sep (drop start p)
           in if after = [] then (p, unc_root p, [])
              else let left = from_sep (drop 1 after)
                in if left = [] then (p, unc_root p \<and> last p \<noteq> backslash, [])
                   else (take (length p - length left) p, True, drop 1 left)
         else if starts_with p [backslash] then ([], True, drop 1 p)
         else if take 1 (drop 1 p) = '':'' then
           (if take 1 (drop 2 p) = [backslash] then (take 2 p, True, drop 3 p) else (take 2 p, False, drop 2 p))
         else ([], False, p))"

definition windows_absolute :: "string \<Rightarrow> bool" where
  "windows_absolute p = (case windows_split p of (drive, rooted, _) \<Rightarrow> drive \<noteq> [] \<and> rooted)"

definition windows_parts :: "string \<Rightarrow> path" where
  "windows_parts p = (case windows_split p of (_, _, rest) \<Rightarrow> clean_parts (split_char backslash rest))"

subsection \<open>Plain names\<close>

text \<open>
  A path spelled the way the code prints it: nonempty parts that are no dots and hold no separator or
  colon, joined by slashes.
\<close>

definition plain_part :: "string \<Rightarrow> bool" where
  "plain_part p \<longleftrightarrow> p \<noteq> [] \<and> p \<noteq> ''.'' \<and> p \<noteq> ''..'' \<and> CHR ''/'' \<notin> set p \<and> backslash \<notin> set p \<and> CHR '':'' \<notin> set p"

definition plain_path :: "string \<Rightarrow> bool" where
  "plain_path p \<longleftrightarrow> split_char (CHR ''/'') p \<noteq> [] \<and> list_all plain_part (split_char (CHR ''/'') p)"

lemma split_char_nonempty [simp]: "split_char d s \<noteq> []"
  by (cases s) (auto split: list.splits)

lemma clean_parts_plain: "list_all plain_part ps \<Longrightarrow> clean_parts ps = ps"
  by (induction ps) (auto simp: clean_parts_def plain_part_def)

lemma plain_posix_parts: "plain_path p \<Longrightarrow> posix_parts p = split_char (CHR ''/'') p"
  by (simp add: posix_parts_def plain_path_def clean_parts_plain)

lemma split_char_sep: "w \<in> set (split_char d s) \<Longrightarrow> d \<notin> set w"
  by (induction s arbitrary: w) (auto split: list.splits if_splits)

lemma set_split_char: "x \<in> set s \<Longrightarrow> x = d \<or> (\<exists>w \<in> set (split_char d s). x \<in> set w)"
  by (induction s) (auto split: list.splits)

lemma plain_chars: "plain_path p \<Longrightarrow> backslash \<notin> set p \<and> CHR '':'' \<notin> set p"
  using set_split_char[of _ p "CHR ''/''"]
  by (fastforce simp: plain_path_def list_all_iff plain_part_def backslash_def)

lemma plain_relative: "plain_path p \<Longrightarrow> p \<noteq> [] \<and> \<not> posix_absolute p"
  by (cases p) (auto simp: plain_path_def plain_part_def posix_absolute_def starts_with_def split: if_splits)

end
