(* ===== verification/Diff.thy ===== *)
theory Diff
  imports Paths
begin

text \<open>
  Unified diffs as \<open>patch/engine.py\<close> reads and applies them: the parser with its path checks, the search
  for the place of a hunk, and the application of hunks to the lines of a file. A sandbox is an
  optional check of a path that may refuse it.
\<close>

type_synonym 'a checked = "py_error + 'a"

subsection \<open>Patches\<close>

record hunk =
  hk_old_start :: nat
  hk_old_count :: nat
  hk_new_start :: nat
  hk_new_count :: nat
  hk_lines :: "string list"

record file_patch =
  fp_old :: string
  fp_new :: string
  fp_hunks :: "hunk list"

definition dev_null :: string where
  "dev_null = ''/dev/null''"

definition is_create :: "file_patch \<Rightarrow> bool" where
  "is_create p \<longleftrightarrow> fp_old p = dev_null"

definition is_delete :: "file_patch \<Rightarrow> bool" where
  "is_delete p \<longleftrightarrow> fp_new p = dev_null"

definition display_path :: "string \<Rightarrow> string \<Rightarrow> string" where
  "display_path old new = (if new \<noteq> dev_null then new else old)"

definition patch_paths :: "file_patch list \<Rightarrow> string list" where
  "patch_paths ps = map (\<lambda>p. display_path (fp_old p) (fp_new p)) ps"

subsection \<open>Paths in headers\<close>

definition tab :: char where
  "tab = CHR 0x09"

definition ends_with :: "string \<Rightarrow> string \<Rightarrow> bool" where
  "ends_with s p \<longleftrightarrow> starts_with (rev s) (rev p)"

definition clean_header_path :: "string \<Rightarrow> string" where
  "clean_header_path raw =
     (let path = strip raw;
          path = takeWhile (\<lambda>c. c \<noteq> tab) path;
          path = (if starts_with path [CHR 0x22] \<and> ends_with path [CHR 0x22]
                  then drop 1 (take (length path - 1) path) else path)
      in if path = dev_null \<or> path = ''dev/null'' then dev_null
         else
           let path = (if starts_with path ''a/'' \<or> starts_with path ''b/'' then drop 2 path else path)
           in replace_char backslash (CHR ''/'') path)"

definition reject_unsafe_path :: "string \<Rightarrow> unit checked" where
  "reject_unsafe_path p =
     (if p = [] then Inl (DiffValidationError ''Patch path is empty.'')
      else if posix_absolute p \<or> windows_absolute p then
        Inl (DiffValidationError (''Patch path must be relative: '' @ p))
      else if ''..'' \<in> set (posix_parts p) \<or> ''..'' \<in> set (windows_parts p) then
        Inl (DiffValidationError (''Patch path escapes workspace: '' @ p))
      else Inr ())"

type_synonym sandbox = "string \<Rightarrow> path checked"

definition check_patch_path :: "sandbox option \<Rightarrow> string \<Rightarrow> unit checked" where
  "check_patch_path sandbox p =
     (if p = dev_null then Inr ()
      else rbind (reject_unsafe_path p) (\<lambda>_. case sandbox of
        None \<Rightarrow> Inr ()
      | Some validate \<Rightarrow> (case validate p of
          Inl (SecurityError m) \<Rightarrow> Inl (DiffValidationError m)
        | Inl e \<Rightarrow> Inl e
        | Inr _ \<Rightarrow> Inr ())))"

definition validate_patch_paths :: "string \<Rightarrow> string \<Rightarrow> sandbox option \<Rightarrow> unit checked" where
  "validate_patch_paths old new sandbox =
     (if old = dev_null \<and> new = dev_null then
        Inl (DiffValidationError ''Patch cannot use /dev/null for both file paths.'')
      else rbind (check_patch_path sandbox old) (\<lambda>_. check_patch_path sandbox new))"

subsection \<open>Parsing\<close>

definition number_of_digits :: "string \<Rightarrow> nat" where
  "number_of_digits ds = foldl (\<lambda>n c. 10 * n + ((of_char c :: nat) - 48)) 0 ds"

text \<open>\<open>start\<close> and perhaps \<open>,count\<close>, and what follows them.\<close>

definition read_range :: "string \<Rightarrow> (nat \<times> string) option" where
  "read_range s =
     (let ds = takeWhile is_digit s; s = dropWhile is_digit s
      in if ds = [] then None
         else case drop_prefix '','' s of
           None \<Rightarrow> Some (number_of_digits ds, s)
         | Some t \<Rightarrow> if takeWhile is_digit t = [] then Some (number_of_digits ds, s)
             else Some (number_of_digits ds, dropWhile is_digit t))"

definition hunk_header :: "string \<Rightarrow> (nat \<times> nat) option" where
  "hunk_header header =
     (case drop_prefix ''@@ -'' header of None \<Rightarrow> None | Some s \<Rightarrow>
     (case read_range s of None \<Rightarrow> None | Some (old_start, s) \<Rightarrow>
     (case drop_prefix '' +'' s of None \<Rightarrow> None | Some s \<Rightarrow>
     (case read_range s of None \<Rightarrow> None | Some (new_start, s) \<Rightarrow>
     (case drop_prefix '' @@'' s of None \<Rightarrow> None | Some s \<Rightarrow>
      if s = [] \<or> starts_with s '' '' then Some (old_start, new_start) else None)))))"

definition marker :: "string \<Rightarrow> char" where
  "marker line = (case line of [] \<Rightarrow> CHR '' '' | c # _ \<Rightarrow> c)"

definition is_old :: "string \<Rightarrow> bool" where
  "is_old line \<longleftrightarrow> marker line = CHR '' '' \<or> marker line = CHR ''-''"

definition is_new :: "string \<Rightarrow> bool" where
  "is_new line \<longleftrightarrow> marker line = CHR '' '' \<or> marker line = CHR ''+''"

definition ends_hunk :: "string \<Rightarrow> bool" where
  "ends_hunk line \<longleftrightarrow> starts_with line ''@@ '' \<or> starts_with line ''--- ''"

fun hunk_body :: "string list \<Rightarrow> (string list \<times> string list) checked" where
  "hunk_body [] = Inr ([], [])"
| "hunk_body (line # rest) =
     (if ends_hunk line then Inr ([], line # rest)
      else if starts_with line [backslash] then hunk_body rest
      else if \<not> is_old line \<and> \<not> is_new line then
        Inl (DiffValidationError (''Invalid hunk line marker: '' @ line))
      else rbind (hunk_body rest) (\<lambda>(ls, rest). Inr (line # ls, rest)))"

definition parse_hunk :: "string \<Rightarrow> string list \<Rightarrow> (hunk \<times> string list) checked" where
  "parse_hunk header rest = (case hunk_header header of
     None \<Rightarrow> Inl (DiffValidationError (''Malformed hunk header: '' @ header))
   | Some (old_start, new_start) \<Rightarrow> rbind (hunk_body rest) (\<lambda>(ls, rest).
       Inr (\<lparr>hk_old_start = old_start, hk_old_count = length (filter is_old ls), hk_new_start = new_start,
         hk_new_count = length (filter is_new ls), hk_lines = ls\<rparr>, rest)))"

lemma hunk_body_rest: "hunk_body ls = Inr (b, rest) \<Longrightarrow> length rest \<le> length ls"
proof (induction ls arbitrary: b)
  case (Cons l ls)
  then show ?case by (fastforce simp: rbind_Inr split: if_splits intro: le_SucI)
qed simp

lemma parse_hunk_rest: "parse_hunk h ls = Inr (k, rest) \<Longrightarrow> length rest \<le> length ls"
  by (auto simp: parse_hunk_def rbind_Inr dest: hunk_body_rest split: option.splits)

definition skipped_line :: "string \<Rightarrow> bool" where
  "skipped_line line \<longleftrightarrow> starts_with line ''diff --git '' \<or> starts_with line ''index '' \<or>
     starts_with line ''new file mode '' \<or> starts_with line ''deleted file mode '' \<or> strip line = []"

function file_hunks :: "string list \<Rightarrow> (hunk list \<times> string list) checked" where
  "file_hunks [] = Inr ([], [])"
| "file_hunks (line # rest) =
     (if starts_with line ''--- '' then Inr ([], line # rest)
      else if starts_with line ''@@ '' then
        (case parse_hunk line rest of
           Inl e \<Rightarrow> Inl e
         | Inr (h, rest) \<Rightarrow> rbind (file_hunks rest) (\<lambda>(hs, rest). Inr (h # hs, rest)))
      else if skipped_line line then file_hunks rest
      else Inl (DiffValidationError (''Unexpected line outside hunk: '' @ line)))"
  by pat_completeness auto
termination
  by (relation "measure length") (auto dest: parse_hunk_rest simp: less_Suc_eq_le)

lemma file_hunks_rest: "file_hunks ls = Inr (hs, rest) \<Longrightarrow> length rest \<le> length ls"
proof (induction ls arbitrary: hs rest rule: file_hunks.induct)
  case (2 line rest hs rest')
  show ?case
  proof (cases "starts_with line ''@@ '' \<and> \<not> starts_with line ''--- ''")
    case True
    with 2 show ?thesis
      by (auto simp: rbind_Inr dest!: parse_hunk_rest split: sum.splits prod.splits) (metis le_SucI le_trans)
  next
    case False
    with 2 show ?thesis by (auto split: if_splits)
  qed
qed simp

function patches_from :: "sandbox option \<Rightarrow> string list \<Rightarrow> file_patch list checked" where
  "patches_from sandbox [] = Inr []"
| "patches_from sandbox (line # rest) =
     (if \<not> starts_with line ''--- '' then patches_from sandbox rest
      else case rest of
        [] \<Rightarrow> Inl (DiffValidationError ''Missing +++ header after --- header.'')
      | next # rest \<Rightarrow>
          if \<not> starts_with next ''+++ '' then Inl (DiffValidationError ''Missing +++ header after --- header.'')
          else
            let old = clean_header_path (drop 4 line); new = clean_header_path (drop 4 next)
            in (case validate_patch_paths old new sandbox of
                  Inl e \<Rightarrow> Inl e
                | Inr _ \<Rightarrow> (case file_hunks rest of
                    Inl e \<Rightarrow> Inl e
                  | Inr (hs, rest) \<Rightarrow>
                      if hs = [] then Inl (DiffValidationError (''File patch has no hunks: '' @ display_path old new))
                      else rbind (patches_from sandbox rest)
                        (\<lambda>ps. Inr (\<lparr>fp_old = old, fp_new = new, fp_hunks = hs\<rparr> # ps)))))"
  by pat_completeness auto
termination
  by (relation "measure (length \<circ> snd)") (auto dest!: file_hunks_rest simp: less_Suc_eq_le)

definition parse_file_patches :: "string \<Rightarrow> sandbox option \<Rightarrow> file_patch list checked" where
  "parse_file_patches diff_text sandbox =
     (if splitlines diff_text = [] \<or> strip diff_text = [] then Inl (DiffValidationError ''Diff is empty.'')
      else rbind (patches_from sandbox (splitlines diff_text)) (\<lambda>ps.
        if ps = [] then Inl (DiffValidationError ''No unified diff file headers found.'') else Inr ps))"

subsection \<open>Applying\<close>

text \<open>The first element with the least key.\<close>

fun first_min :: "('a \<Rightarrow> int) \<Rightarrow> 'a \<Rightarrow> 'a list \<Rightarrow> 'a" where
  "first_min f x [] = x"
| "first_min f x (y # ys) = first_min f (if f y < f x then y else x) ys"

definition slice :: "'a list \<Rightarrow> nat \<Rightarrow> nat \<Rightarrow> 'a list" where
  "slice xs a b = drop a (take b xs)"

definition locate_hunk :: "string list \<Rightarrow> string list \<Rightarrow> int \<Rightarrow> nat \<Rightarrow> nat option" where
  "locate_hunk original old_block hint min_start =
     (let span = length old_block;
          anchor = max hint (int min_start)
      in if span = 0 then Some (nat (min (max anchor (int min_start)) (int (length original))))
         else
           let target = map rstrip old_block;
               candidates = filter (\<lambda>start. map rstrip (slice original start (start + span)) = target)
                 [min_start..<length original + 1 - span]
           in case candidates of
                [] \<Rightarrow> None
              | c # cs \<Rightarrow> Some (first_min (\<lambda>start. \<bar>int start - anchor\<bar>) c cs))"

text \<open>One line of a hunk: what it appends to the output and where the cursor goes.\<close>

definition hunk_content :: "string \<Rightarrow> string" where
  "hunk_content line = (case line of [] \<Rightarrow> [] | _ # cs \<Rightarrow> cs)"

fun hunk_lines :: "string list \<Rightarrow> string list \<Rightarrow> nat \<Rightarrow> (string list \<times> nat) checked" where
  "hunk_lines original [] cursor = Inr ([], cursor)"
| "hunk_lines original (line # ls) cursor =
     (if starts_with line [backslash] then hunk_lines original ls cursor
      else if marker line = CHR '' '' then
        rbind (hunk_lines original ls (cursor + 1)) (\<lambda>(out, c).
          Inr ((if cursor < length original then original ! cursor else hunk_content line) # out, c))
      else if marker line = CHR ''-'' then hunk_lines original ls (cursor + 1)
      else if marker line = CHR ''+'' then
        rbind (hunk_lines original ls cursor) (\<lambda>(out, c). Inr (hunk_content line # out, c))
      else Inl (DiffValidationError (''Invalid hunk line marker: '' @ line)))"

definition old_block :: "hunk \<Rightarrow> string list" where
  "old_block h = map hunk_content (filter (\<lambda>l. \<not> starts_with l [backslash] \<and> is_old l) (hk_lines h))"

fun apply_from :: "string list \<Rightarrow> hunk list \<Rightarrow> nat \<Rightarrow> string list checked" where
  "apply_from original [] cursor = Inr (drop cursor original)"
| "apply_from original (h # hs) cursor =
     (case locate_hunk original (old_block h) (int (hk_old_start h) - 1) cursor of
        None \<Rightarrow> Inl (DiffValidationError ''Patch context does not match target file.'')
      | Some start \<Rightarrow> rbind (hunk_lines original (hk_lines h) start) (\<lambda>(out, c).
          rbind (apply_from original hs c) (\<lambda>tail. Inr (slice original cursor start @ out @ tail))))"

definition apply_hunks :: "string list \<Rightarrow> hunk list \<Rightarrow> string list checked" where
  "apply_hunks original hunks = apply_from original hunks 0"

end
