(* ===== verification/DiffSafety.thy ===== *)
theory DiffSafety
  imports Diff
begin

text \<open>
  What applying a diff does to a file: hunks are only placed where their old side matches, a diff with
  the right line numbers gives exactly the intended file, and a printed diff reads back as it was.
\<close>

subsection \<open>The place of a hunk\<close>

lemma first_min_in: "first_min f x ys \<in> insert x (set ys)"
  by (induction f x ys rule: first_min.induct) auto

lemma first_min_le: "y \<in> insert x (set ys) \<Longrightarrow> f (first_min f x ys) \<le> f y"
proof (induction f x ys arbitrary: y rule: first_min.induct)
  case (2 f x z ys)
  show ?case
  proof (cases "f z < f x")
    case True
    then show ?thesis using "2.IH"[of y] "2.IH"[of z] "2.prems" by auto
  next
    case False
    then show ?thesis using "2.IH"[of y] "2.IH"[of x] "2.prems" by auto
  qed
qed simp

lemma length_slice: "b \<le> length xs \<Longrightarrow> length (slice xs a b) = b - a"
  by (simp add: slice_def)

definition matches_at :: "string list \<Rightarrow> string list \<Rightarrow> nat \<Rightarrow> bool" where
  "matches_at original block start \<longleftrightarrow> start + length block \<le> length original \<and>
     map rstrip (slice original start (start + length block)) = map rstrip block"

lemma set_candidates:
  "x \<in> set (filter (\<lambda>start. map rstrip (slice original start (start + length block)) = map rstrip block)
       [cursor..<length original + 1 - length block]) \<longleftrightarrow> cursor \<le> x \<and> matches_at original block x"
  by (auto simp: matches_at_def)

text \<open>The place found lies behind the cursor, matches, and no matching place is closer to the declared one.\<close>

lemma locate_hunk_match:
  assumes "locate_hunk original block hint cursor = Some start" and "block \<noteq> []"
  shows "cursor \<le> start \<and> matches_at original block start \<and>
    (\<forall>other. cursor \<le> other \<longrightarrow> matches_at original block other \<longrightarrow>
      \<bar>int start - max hint (int cursor)\<bar> \<le> \<bar>int other - max hint (int cursor)\<bar>)"
proof -
  let ?cs = "filter (\<lambda>start. map rstrip (slice original start (start + length block)) = map rstrip block)
                 [cursor..<length original + 1 - length block]"
  let ?f = "\<lambda>start. \<bar>int start - max hint (int cursor)\<bar>"
  from assms obtain c cs where cs: "?cs = c # cs" and start: "start = first_min ?f c cs"
    by (auto simp: locate_hunk_def Let_def split: list.splits)
  have "set ?cs = insert c (set cs)" by (simp only: cs list.set)
  then have set: "x \<in> insert c (set cs) \<longleftrightarrow> cursor \<le> x \<and> matches_at original block x" for x
    using set_candidates[of x] by blast
  show ?thesis using first_min_in[of ?f c cs] first_min_le[of _ c cs ?f] set unfolding start by blast
qed

lemma locate_hunk_exact:
  assumes "matches_at original block (nat hint)" and "int cursor \<le> hint" and "block \<noteq> []"
  shows "locate_hunk original block hint cursor = Some (nat hint)"
proof -
  let ?cs = "filter (\<lambda>start. map rstrip (slice original start (start + length block)) = map rstrip block)
                 [cursor..<length original + 1 - length block]"
  have mem: "nat hint \<in> set ?cs"
    using assms by (subst set_candidates) (simp add: le_nat_iff)
  have "?cs \<noteq> []"
  proof
    assume "?cs = []"
    with mem show False by (simp only: list.set empty_iff)
  qed
  then obtain c cs where "?cs = c # cs" by (auto simp only: neq_Nil_conv)
  then obtain start where start: "locate_hunk original block hint cursor = Some start"
    using assms(3) by (simp add: locate_hunk_def Let_def)
  have "cursor \<le> nat hint" using assms(2) by linarith
  then have "\<bar>int start - max hint (int cursor)\<bar> \<le> \<bar>int (nat hint) - max hint (int cursor)\<bar>"
    using locate_hunk_match[OF start assms(3)] assms(1) by blast
  then have "start = nat hint" using assms(2) by simp
  with start show ?thesis by simp
qed

lemma locate_hunk_range:
  assumes "locate_hunk original block hint cursor = Some start" and "cursor \<le> length original"
  shows "cursor \<le> start \<and> start + length block \<le> length original \<and>
    map rstrip (slice original start (start + length block)) = map rstrip block"
proof (cases "block = []")
  case True
  with assms show ?thesis by (auto simp: locate_hunk_def Let_def slice_def)
next
  case False
  with locate_hunk_match[OF assms(1)] show ?thesis by (simp add: matches_at_def)
qed

subsection \<open>Hunks are placed where they match\<close>

text \<open>The lines of a hunk over the block of the file it matched: context keeps the file's own lines.\<close>

fun patched :: "string list \<Rightarrow> string list \<Rightarrow> string list" where
  "patched [] block = []"
| "patched (line # ls) block =
     (if starts_with line [backslash] then patched ls block
      else if marker line = CHR '' '' then hd block # patched ls (tl block)
      else if marker line = CHR ''-'' then patched ls (tl block)
      else hunk_content line # patched ls block)"

inductive placed :: "hunk list \<Rightarrow> string list \<Rightarrow> string list \<Rightarrow> bool" where
  placed_end: "placed [] rest rest"
| placed_hunk: "map rstrip block = map rstrip (old_block h) \<Longrightarrow> placed hs rest out \<Longrightarrow>
    placed (h # hs) (gap @ block @ rest) (gap @ patched (hk_lines h) block @ out)"

inductive_cases placed_ConsE: "placed (h # hs) original out"

lemma marker_backslash: "starts_with line [backslash] \<longleftrightarrow> marker line = backslash \<and> line \<noteq> []"
  by (cases line) (auto simp: starts_with_def marker_def backslash_def)

lemma not_backslash: "marker line \<noteq> backslash \<Longrightarrow> \<not> starts_with line [backslash]"
  by (simp add: marker_backslash)

definition old_lines :: "string list \<Rightarrow> string list" where
  "old_lines ls = map hunk_content (filter (\<lambda>l. \<not> starts_with l [backslash] \<and> is_old l) ls)"

lemma hunk_lines_patched:
  assumes "hunk_lines original ls c = Inr (out, c')" and "c + length (old_lines ls) \<le> length original"
  shows "out = patched ls (slice original c (c + length (old_lines ls))) \<and> c' = c + length (old_lines ls)"
  using assms
proof (induction ls arbitrary: c out c')
  case (Cons line ls)
  consider "starts_with line [backslash]" | "\<not> starts_with line [backslash]" "marker line = CHR '' ''"
    | "\<not> starts_with line [backslash]" "marker line = CHR ''-''"
    | "\<not> starts_with line [backslash]" "marker line = CHR ''+''"
    using Cons.prems(1) by (auto split: if_splits)
  then show ?case
  proof cases
    case 1
    with Cons show ?thesis by (simp add: old_lines_def)
  next
    case 2
    then have old: "old_lines (line # ls) = hunk_content line # old_lines ls" by (simp add: old_lines_def is_old_def)
    with Cons.prems(2) have c: "c < length original" by simp
    then have sl: "slice original c (Suc (c + n)) = original ! c # slice original (Suc c) (Suc (c + n))" for n
      by (simp add: slice_def take_Suc_conv_app_nth Cons_nth_drop_Suc[symmetric] drop_take)
    from 2 Cons.prems(1) obtain o2 where "hunk_lines original ls (c + 1) = Inr (o2, c')" "out = original ! c # o2"
      using c by (auto simp: rbind_Inr)
    with Cons.IH[of "c + 1" o2 c'] Cons.prems(2) show ?thesis using 2 sl by (simp add: old)
  next
    case 3
    then have old: "old_lines (line # ls) = hunk_content line # old_lines ls" by (simp add: old_lines_def is_old_def)
    with Cons.prems(2) have c: "c < length original" by simp
    then have sl: "tl (slice original c (Suc (c + n))) = slice original (Suc c) (Suc (c + n))" for n
      by (simp add: slice_def drop_Suc tl_drop)
    from 3 Cons.prems have "hunk_lines original ls (c + 1) = Inr (out, c')" by simp
    with Cons.IH[of "c + 1" out c'] Cons.prems(2) show ?thesis using 3 sl by (simp add: old)
  next
    case 4
    then have old: "old_lines (line # ls) = old_lines ls" by (simp add: old_lines_def is_old_def)
    from 4 Cons.prems(1) obtain o2 where "hunk_lines original ls c = Inr (o2, c')" "out = hunk_content line # o2"
      by (auto simp: rbind_Inr)
    with Cons.IH[of c o2 c'] Cons.prems(2) show ?thesis using 4 by (simp add: old)
  qed
qed (simp add: old_lines_def)

lemma old_block_lines: "old_block h = old_lines (hk_lines h)"
  by (simp add: old_block_def old_lines_def)

lemma split_slices: "a \<le> b \<Longrightarrow> b \<le> c \<Longrightarrow> c \<le> length xs \<Longrightarrow> drop a xs = slice xs a b @ slice xs b c @ drop c xs"
  unfolding slice_def by (metis append_assoc append_take_drop_id drop_drop drop_take le_add_diff_inverse2 take_drop)

lemma apply_from_placed:
  "apply_from original hs c = Inr out \<Longrightarrow> c \<le> length original \<Longrightarrow> placed hs (drop c original) out"
proof (induction hs arbitrary: c out)
  case (Cons h hs)
  from Cons.prems(1) obtain start o1 c' tail where
    loc: "locate_hunk original (old_block h) (int (hk_old_start h) - 1) c = Some start"
    and hl: "hunk_lines original (hk_lines h) start = Inr (o1, c')"
    and tail: "apply_from original hs c' = Inr tail" and out: "out = slice original c start @ o1 @ tail"
    by (auto simp: rbind_Inr split: option.splits)
  let ?n = "length (old_block h)"
  from locate_hunk_range[OF loc Cons.prems(2)] have range: "c \<le> start" "start + ?n \<le> length original"
    and same: "map rstrip (slice original start (start + ?n)) = map rstrip (old_block h)" by auto
  have o1: "o1 = patched (hk_lines h) (slice original start (start + ?n))" and c': "c' = start + ?n"
    using hunk_lines_patched[OF hl] range by (auto simp: old_block_lines)
  have "placed hs (drop c' original) tail" using Cons.IH[OF tail] range c' by simp
  from placed_hunk[OF same this, of "slice original c start"]
  show ?case unfolding out o1 c' using split_slices[OF range(1) _ range(2)] by simp
qed (auto intro: placed_end)

text \<open>
  C16. A diff never edits a place it does not describe: when hunks apply, the file falls into unchanged
  stretches and one block per hunk, in order, each equal to the hunk's old side up to trailing white
  space; the result keeps the stretches and replaces each block by the hunk's new side, where context
  lines are the file's own.
\<close>

theorem applied_hunks_are_placed:
  assumes "apply_hunks original hunks = Inr out"
  shows "placed hunks original out"
  using apply_from_placed[OF assms[unfolded apply_hunks_def]] by simp

definition demo_hunk :: hunk where
  "demo_hunk = \<lparr>hk_old_start = 9, hk_old_count = 2, hk_new_start = 9, hk_new_count = 2,
     hk_lines = ['' def f():'', ''-  return 1'', ''+  return 2'']\<rparr>"

lemma demo_applies: "apply_hunks [''import os'', ''def f():  '', ''  return 1'', ''x''] [demo_hunk] =
    Inr [''import os'', ''def f():  '', ''  return 2'', ''x'']"
  by code_simp

theorem applied_hunks_are_placed_witness:
  "placed [demo_hunk] [''import os'', ''def f():  '', ''  return 1'', ''x'']
     [''import os'', ''def f():  '', ''  return 2'', ''x'']"
  using applied_hunks_are_placed[OF demo_applies] .

subsection \<open>A correct diff gives the intended file\<close>

text \<open>
  An edit script: unchanged lines, then the lines of a hunk, and so on, and a tail. \<open>hunks_at\<close> is its
  diff, with the line numbers of the old file.
\<close>

type_synonym script = "(string list \<times> string list) list"

definition new_lines :: "string list \<Rightarrow> string list" where
  "new_lines ls = map hunk_content (filter is_new ls)"

fun script_old :: "script \<Rightarrow> string list \<Rightarrow> string list" where
  "script_old [] rest = rest"
| "script_old ((gap, ls) # segs) rest = gap @ old_lines ls @ script_old segs rest"

fun script_new :: "script \<Rightarrow> string list \<Rightarrow> string list" where
  "script_new [] rest = rest"
| "script_new ((gap, ls) # segs) rest = gap @ new_lines ls @ script_new segs rest"

fun hunks_at :: "nat \<Rightarrow> nat \<Rightarrow> script \<Rightarrow> hunk list" where
  "hunks_at a b [] = []"
| "hunks_at a b ((gap, ls) # segs) =
     (let a = a + length gap; b = b + length gap; m = length (old_lines ls); n = length (new_lines ls)
      in \<lparr>hk_old_start = a + 1, hk_old_count = m, hk_new_start = b + 1, hk_new_count = n, hk_lines = ls\<rparr>
         # hunks_at (a + m) (b + n) segs)"

definition valid_line :: "string \<Rightarrow> bool" where
  "valid_line l \<longleftrightarrow> is_old l \<or> is_new l"

lemma valid_no_backslash: "valid_line l \<Longrightarrow> \<not> starts_with l [backslash]"
  by (rule not_backslash) (auto simp: valid_line_def is_old_def is_new_def backslash_def)

lemma hunk_lines_exact:
  assumes "list_all valid_line ls"
  shows "hunk_lines (pre @ old_lines ls @ post) ls (length pre) = Inr (new_lines ls, length pre + length (old_lines ls))"
  using assms
proof (induction ls arbitrary: pre)
  case (Cons line ls)
  then have nb: "\<not> starts_with line [backslash]" using valid_no_backslash by simp
  consider "marker line = CHR '' ''" | "marker line = CHR ''-''" | "marker line = CHR ''+''"
    using Cons.prems by (auto simp: valid_line_def is_old_def is_new_def)
  then show ?case
  proof cases
    case 1
    then have "old_lines (line # ls) = hunk_content line # old_lines ls" "new_lines (line # ls) = hunk_content line # new_lines ls"
      using nb by (simp_all add: old_lines_def new_lines_def is_old_def is_new_def)
    then show ?thesis using Cons.IH[of "pre @ [hunk_content line]"] Cons.prems 1 nb by (simp add: nth_append)
  next
    case 2
    then have "old_lines (line # ls) = hunk_content line # old_lines ls" "new_lines (line # ls) = new_lines ls"
      using nb by (simp_all add: old_lines_def new_lines_def is_old_def is_new_def)
    then show ?thesis using Cons.IH[of "pre @ [hunk_content line]"] Cons.prems 2 nb by simp
  next
    case 3
    then have "old_lines (line # ls) = old_lines ls" "new_lines (line # ls) = hunk_content line # new_lines ls"
      using nb by (simp_all add: old_lines_def new_lines_def is_old_def is_new_def)
    then show ?thesis using Cons.IH[of pre] Cons.prems 3 nb by simp
  qed
qed (simp add: old_lines_def new_lines_def)

lemma apply_script:
  assumes "list_all (\<lambda>(_, ls). list_all valid_line ls \<and> old_lines ls \<noteq> []) segs"
  shows "apply_from (pre @ script_old segs rest) (hunks_at (length pre) b segs) (length pre) = Inr (script_new segs rest)"
  using assms
proof (induction segs arbitrary: pre b)
  case (Cons seg segs)
  obtain gap ls where seg: "seg = (gap, ls)" by (cases seg)
  let ?pre = "pre @ gap" and ?post = "script_old segs rest"
  let ?file = "?pre @ old_lines ls @ ?post"
  let ?start = "length pre + length gap"
  have valid: "list_all valid_line ls" "old_lines ls \<noteq> []" using Cons.prems seg by auto
  have "matches_at ?file (old_lines ls) (nat (int ?start))"
    by (simp add: matches_at_def slice_def)
  then have loc: "locate_hunk ?file (old_lines ls) (int ?start) (length pre) = Some ?start"
    using locate_hunk_exact[of ?file "old_lines ls" "int ?start" "length pre"] valid(2) by simp
  have hl: "hunk_lines ?file ls ?start = Inr (new_lines ls, ?start + length (old_lines ls))"
    using hunk_lines_exact[OF valid(1), of ?pre ?post] by simp
  have rest: "apply_from ?file (hunks_at (?start + length (old_lines ls)) b' segs) (?start + length (old_lines ls)) =
      Inr (script_new segs rest)" for b'
    using Cons.IH[of "?pre @ old_lines ls" b'] Cons.prems by (simp add: add.assoc)
  have "slice ?file (length pre) ?start = gap" by (simp add: slice_def)
  then show ?case using loc hl rest
    by (simp add: seg Let_def old_block_lines)
qed simp

text \<open>
  C17. A diff with the right line numbers and context gives exactly the intended file: for every edit
  script whose hunks all have an old side, a line of context or a removed one, applying its diff to the old file gives
  the new one. For a hunk without one that fails (\<open>insertion_one_line_early\<close>).
\<close>

theorem correct_diff_applies:
  assumes "list_all (\<lambda>(_, ls). list_all valid_line ls \<and> old_lines ls \<noteq> []) segs"
  shows "apply_hunks (script_old segs rest) (hunks_at 0 0 segs) = Inr (script_new segs rest)"
  using apply_script[OF assms, of "[]"] by (simp add: apply_hunks_def)

theorem correct_diff_applies_witness:
  "apply_hunks [''a'', ''b'', ''c'', ''b'', ''d''] (hunks_at 0 0 [([''a'', ''b'', ''c''], [''-b'', ''+B'', '' d''])]) =
     Inr [''a'', ''b'', ''c'', ''B'', ''d'']"
  using correct_diff_applies[of "[([''a'', ''b'', ''c''], [''-b'', ''+B'', '' d''])]" "[]"]
  by (simp add: valid_line_def is_old_def is_new_def marker_def old_lines_def new_lines_def hunk_content_def
      starts_with_def backslash_def)

text \<open>
  A hunk without an old side is put one line too early: the diff format gives the line after which the
  new lines go, the code takes it for the line they replace.
\<close>

lemma insertion_one_line_early:
  assumes "1 \<le> k" and "k \<le> length original" and "list_all (\<lambda>l. marker l = CHR ''+'') ls"
  shows "apply_hunks original [\<lparr>hk_old_start = k, hk_old_count = 0, hk_new_start = k + 1,
      hk_new_count = length ls, hk_lines = ls\<rparr>] =
    Inr (take (k - 1) original @ map hunk_content ls @ drop (k - 1) original)"
proof -
  have line: "\<not> starts_with l [backslash]" if "marker l = CHR ''+''" for l
    by (rule not_backslash) (simp add: that backslash_def)
  have "hunk_lines original ls c = Inr (map hunk_content ls, c)" for c
    using assms(3) line by (induction ls) simp_all
  moreover have "old_lines ls = []" using assms(3) by (auto simp: old_lines_def list_all_iff is_old_def filter_empty_conv)
  ultimately show ?thesis using assms
    by (auto simp: apply_hunks_def old_block_lines locate_hunk_def Let_def slice_def nat_diff_distrib min_def max_def)
qed

end
