(* ===== verification/DiffText.thy ===== *)
theory DiffText
  imports DiffSafety
begin

text \<open>
  Printed diffs read back: a reference printer for patches, and the proof that the parser inverts it
  unless a deleted line starts with two dashes and a space.
\<close>

subsection \<open>The printer\<close>

definition print_path :: "string \<Rightarrow> string \<Rightarrow> string" where
  "print_path side p = (if p = dev_null then dev_null else side @ p)"

definition print_hunk :: "hunk \<Rightarrow> string list" where
  "print_hunk h = (''@@ -'' @ nat_str (hk_old_start h) @ '','' @ nat_str (hk_old_count h) @ '' +'' @
     nat_str (hk_new_start h) @ '','' @ nat_str (hk_new_count h) @ '' @@'') # hk_lines h"

definition print_patch :: "file_patch \<Rightarrow> string list" where
  "print_patch p = (''--- '' @ print_path ''a/'' (fp_old p)) # (''+++ '' @ print_path ''b/'' (fp_new p)) #
     concat (map print_hunk (fp_hunks p))"

definition print_diff :: "file_patch list \<Rightarrow> string" where
  "print_diff ps = concat (map (\<lambda>l. l @ [newline]) (concat (map print_patch ps)))"

subsection \<open>What can be printed\<close>

definition one_line :: "string \<Rightarrow> bool" where
  "one_line s \<longleftrightarrow> list_all (\<lambda>c. \<not> is_line_end c) s"

definition hunk_ok :: "hunk \<Rightarrow> bool" where
  "hunk_ok h \<longleftrightarrow> list_all (\<lambda>l. valid_line l \<and> one_line l \<and> \<not> starts_with l ''--- '') (hk_lines h) \<and>
     hk_old_count h = length (filter is_old (hk_lines h)) \<and> hk_new_count h = length (filter is_new (hk_lines h))"

definition accepted :: "sandbox option \<Rightarrow> string \<Rightarrow> bool" where
  "accepted sandbox p \<longleftrightarrow> (case sandbox of None \<Rightarrow> True | Some validate \<Rightarrow> \<not> isl (validate p))"

definition path_ok :: "sandbox option \<Rightarrow> string \<Rightarrow> bool" where
  "path_ok sandbox p \<longleftrightarrow> p = dev_null \<or> (plain_path p \<and> one_line p \<and> tab \<notin> set p \<and> rstrip p = p \<and> accepted sandbox p)"

definition patch_ok :: "sandbox option \<Rightarrow> file_patch \<Rightarrow> bool" where
  "patch_ok sandbox p \<longleftrightarrow> path_ok sandbox (fp_old p) \<and> path_ok sandbox (fp_new p) \<and>
     \<not> (fp_old p = dev_null \<and> fp_new p = dev_null) \<and> fp_hunks p \<noteq> [] \<and> list_all hunk_ok (fp_hunks p)"

subsection \<open>Lines\<close>

lemma newline_ends: "is_line_end newline" "(of_char newline :: nat) = 10"
  by (simp_all add: newline_def is_line_end_def Let_def)

lemma splitlines_from_line:
  "one_line l \<Longrightarrow> splitlines_from acc (l @ newline # rest) = (rev acc @ l) # splitlines_from [] rest"
  by (induction l arbitrary: acc) (simp_all add: newline_ends one_line_def)

lemma splitlines_print: "list_all one_line ls \<Longrightarrow> splitlines (concat (map (\<lambda>l. l @ [newline]) ls)) = ls"
  unfolding splitlines_def by (induction ls) (simp_all add: splitlines_from_line)

subsection \<open>Numbers\<close>

lemma digit_char_value: "d < 10 \<Longrightarrow> (of_char (digit_char d) :: nat) = 48 + d"
  by (simp add: digit_char_def of_char_of)

lemma foldl_digits: "foldl (\<lambda>n c. 10 * n + ((of_char c :: nat) - 48)) 0 (nat_str n) = n"
proof (induction n rule: nat_str.induct)
  case (1 n)
  then show ?case by (subst nat_str.simps) (auto simp: digit_char_value)
qed

lemma number_of_nat_str: "number_of_digits (nat_str n) = n"
  by (simp add: number_of_digits_def foldl_digits)

lemma takeWhile_digits:
  "c = [] \<or> \<not> is_digit (hd c) \<Longrightarrow> takeWhile is_digit (nat_str n @ c) = nat_str n \<and> dropWhile is_digit (nat_str n @ c) = c"
  using nat_str_digits[of n] by (cases c) (auto simp: takeWhile_append dropWhile_append takeWhile_eq_all_conv dropWhile_eq_Nil_conv)

lemma not_digits: "\<not> is_digit (CHR '','')" "\<not> is_digit (CHR '' '')"
  by (simp_all add: is_digit_def)

lemma read_range_print:
  "c = '' '' @ d \<Longrightarrow> read_range (nat_str m @ '','' @ nat_str n @ c) = Some (m, c)"
  using takeWhile_digits[of "'','' @ nat_str n @ c" m] takeWhile_digits[of c n] nat_str_nonempty[of m] nat_str_nonempty[of n]
  by (simp add: read_range_def Let_def not_digits number_of_nat_str drop_prefix_def starts_with_def)

lemma hunk_header_print: "hunk_header (hd (print_hunk h)) = Some (hk_old_start h, hk_new_start h)"
proof -
  have "hd (print_hunk h) = ''@@ -'' @ nat_str (hk_old_start h) @ '','' @ nat_str (hk_old_count h) @ '' '' @ ''+'' @
     nat_str (hk_new_start h) @ '','' @ nat_str (hk_new_count h) @ '' '' @ ''@@''"
    by (simp add: print_hunk_def)
  then show ?thesis
    by (simp only: hunk_header_def drop_prefix_append option.case read_range_print[OF refl] prod.case)
      (simp add: drop_prefix_def starts_with_def read_range_print[simplified])
qed

subsection \<open>Hunks and files\<close>

lemma hunk_body_print:
  assumes "list_all (\<lambda>l. valid_line l \<and> one_line l \<and> \<not> starts_with l ''--- '') ls"
    and "rest = [] \<or> ends_hunk (hd rest)"
  shows "hunk_body (ls @ rest) = Inr (ls, rest)"
  using assms
proof (induction ls)
  case Nil
  then show ?case by (cases rest) auto
next
  case (Cons l ls)
  then have "\<not> ends_hunk l" by (auto simp: ends_hunk_def valid_line_def starts_with_def is_old_def is_new_def marker_def split: list.splits)
  with Cons show ?case using valid_no_backslash[of l] by (simp add: valid_line_def)
qed

lemma print_hunk_Cons: "print_hunk h = hd (print_hunk h) # hk_lines h" "starts_with (hd (print_hunk h)) ''@@ ''"
    "\<not> starts_with (hd (print_hunk h)) ''--- ''"
  by (simp_all add: print_hunk_def starts_with_def)

lemma file_hunks_print:
  assumes "list_all hunk_ok hs" and "rest = [] \<or> starts_with (hd rest) ''--- ''"
  shows "file_hunks (concat (map print_hunk hs) @ rest) = Inr (hs, rest)"
  using assms
proof (induction hs)
  case Nil
  then show ?case by (cases rest) auto
next
  case (Cons h hs)
  let ?rest = "concat (map print_hunk hs) @ rest"
  have "?rest = [] \<or> ends_hunk (hd ?rest)"
    using Cons.prems(2) print_hunk_Cons by (cases hs) (auto simp: ends_hunk_def print_hunk_def starts_with_def)
  then have "hunk_body (hk_lines h @ ?rest) = Inr (hk_lines h, ?rest)"
    using Cons.prems(1) by (intro hunk_body_print) (auto simp: hunk_ok_def)
  then have parsed: "parse_hunk (hd (print_hunk h)) (hk_lines h @ ?rest) = Inr (h, ?rest)"
    using Cons.prems(1) by (simp add: parse_hunk_def hunk_header_print hunk_ok_def)
  have eq: "concat (map print_hunk (h # hs)) @ rest = hd (print_hunk h) # hk_lines h @ ?rest"
    by (simp add: print_hunk_def)
  show ?case unfolding eq using parsed Cons.IH Cons.prems print_hunk_Cons(2,3)[of h] by simp
qed

lemma strip_header:
  assumes "rstrip p = p" and "\<not> is_space x" "\<not> is_space y"
  shows "strip (x # y # p) = x # y # p"
proof -
  have "p = [] \<or> \<not> is_space (last p)"
  proof (cases p rule: rev_cases)
    case (snoc ys y)
    have "is_space y \<Longrightarrow> length (rstrip p) < length p"
      using length_dropWhile_le[of is_space "rev ys"] by (simp add: snoc rstrip_def less_Suc_eq_le)
    with assms(1) snoc show ?thesis by auto
  qed simp
  with assms have "rstrip (x # y # p) = x # y # p"
    by (cases p rule: rev_cases) (auto simp: rstrip_def)
  with assms show ?thesis by (simp add: strip_def lstrip_def)
qed

lemma replace_backslash: "backslash \<notin> set p \<Longrightarrow> replace_char backslash (CHR ''/'') p = p"
  unfolding replace_char_def by (rule map_idI) auto

lemma clean_print_path:
  assumes "path_ok sandbox p" and "side = ''a/'' \<or> side = ''b/''"
  shows "clean_header_path (print_path side p) = p"
proof (cases "p = dev_null")
  case True
  moreover have "clean_header_path dev_null = dev_null" by code_simp
  ultimately show ?thesis by (simp add: print_path_def)
next
  case False
  with assms(1) have p: "plain_path p" "tab \<notin> set p" "rstrip p = p" by (auto simp: path_ok_def)
  from assms(2) obtain c where side: "side = [c, CHR ''/'']" "c = CHR ''a'' \<or> c = CHR ''b''" by auto
  have "strip (side @ p) = side @ p"
    using strip_header[of p c "CHR ''/''"] side p(3) by (auto simp: is_space_def)
  moreover have "takeWhile (\<lambda>c. c \<noteq> tab) (side @ p) = side @ p"
    using p(2) side by (auto simp: takeWhile_eq_all_conv tab_def)
  moreover have "side @ p \<noteq> dev_null" "side @ p \<noteq> ''dev/null''" "\<not> starts_with (side @ p) [CHR 0x22]"
    using side by (auto simp: dev_null_def starts_with_def)
  moreover have "starts_with (side @ p) ''a/'' \<or> starts_with (side @ p) ''b/''"
    using side by (auto simp: starts_with_def)
  ultimately show ?thesis
    using False side replace_backslash plain_chars[OF p(1)] by (simp add: print_path_def clean_header_path_def Let_def)
qed

lemma split_char_replace:
  "a \<noteq> b \<Longrightarrow> b \<notin> set s \<Longrightarrow> split_char b (replace_char a b s) = split_char a s"
  by (induction s) (auto simp: replace_char_def split: list.splits)

lemma plain_windows:
  assumes "plain_path p"
  shows "windows_split p = ([], False, replace_char (CHR ''/'') backslash p)"
proof -
  let ?q = "replace_char (CHR ''/'') backslash p"
  from assms plain_chars[OF assms] plain_relative[OF assms] have "\<not> starts_with ?q [backslash]"
    by (cases p) (auto simp: replace_char_def starts_with_def posix_absolute_def)
  moreover have "\<not> starts_with ?q [backslash, backslash]"
    using calculation by (cases ?q) (auto simp: starts_with_def)
  moreover have "take 1 (drop 1 ?q) \<noteq> '':''"
  proof
    assume "take 1 (drop 1 ?q) = '':''"
    then have "CHR '':'' \<in> set ?q" by (metis in_set_dropD in_set_takeD list.set_intros(1))
    then show False using plain_chars[OF assms] by (auto simp: replace_char_def backslash_def split: if_splits)
  qed
  ultimately show ?thesis by (simp add: windows_split_def Let_def)
qed

lemma check_print_path: "path_ok sandbox p \<Longrightarrow> check_patch_path sandbox p = Inr ()"
proof (cases "p = dev_null")
  case False
  assume ok: "path_ok sandbox p"
  with False have p: "plain_path p" "accepted sandbox p" by (auto simp: path_ok_def)
  have "CHR ''/'' \<noteq> backslash" by (simp add: backslash_def)
  then have "windows_parts p = split_char (CHR ''/'') p"
    using p(1) plain_chars[OF p(1)] by (simp add: windows_parts_def plain_windows split_char_replace plain_path_def clean_parts_plain)
  moreover have "''..'' \<notin> set (split_char (CHR ''/'') p)"
    using p(1) by (auto simp: plain_path_def list_all_iff plain_part_def)
  ultimately have "reject_unsafe_path p = Inr ()"
    using plain_relative[OF p(1)] plain_windows[OF p(1)] plain_posix_parts[OF p(1)]
    by (simp add: reject_unsafe_path_def windows_absolute_def)
  with False p(2) show ?thesis
    by (auto simp: check_patch_path_def accepted_def split: option.splits sum.splits)
qed (simp add: check_patch_path_def)

lemma patches_from_print:
  assumes "list_all (patch_ok sandbox) ps"
  shows "patches_from sandbox (concat (map print_patch ps)) = Inr ps"
  using assms
proof (induction ps)
  case (Cons p ps)
  let ?rest = "concat (map print_patch ps)"
  from Cons.prems have ok: "path_ok sandbox (fp_old p)" "path_ok sandbox (fp_new p)" "fp_hunks p \<noteq> []"
      "list_all hunk_ok (fp_hunks p)" "\<not> (fp_old p = dev_null \<and> fp_new p = dev_null)"
    by (auto simp: patch_ok_def)
  have "?rest = [] \<or> starts_with (hd ?rest) ''--- ''"
    by (cases ps) (auto simp: print_patch_def starts_with_def)
  with file_hunks_print[OF ok(4)] have "file_hunks (concat (map print_hunk (fp_hunks p)) @ ?rest) = Inr (fp_hunks p, ?rest)"
    by blast
  moreover have "validate_patch_paths (fp_old p) (fp_new p) sandbox = Inr ()"
    using ok by (simp add: validate_patch_paths_def check_print_path)
  moreover have "clean_header_path (print_path ''a/'' (fp_old p)) = fp_old p" "clean_header_path (print_path ''b/'' (fp_new p)) = fp_new p"
    using ok clean_print_path by blast+
  moreover have eq: "concat (map print_patch (p # ps)) = (''--- '' @ print_path ''a/'' (fp_old p)) #
      (''+++ '' @ print_path ''b/'' (fp_new p)) # concat (map print_hunk (fp_hunks p)) @ ?rest"
    by (simp add: print_patch_def)
  ultimately show ?case unfolding eq using Cons.IH Cons.prems ok(3)
    by (simp add: starts_with_def)
qed simp

lemma one_line_digits: "one_line (nat_str n)"
  using nat_str_digits[of n] by (auto simp: one_line_def list_all_iff is_digit_def is_line_end_def Let_def)

lemma one_line_hunk: "hunk_ok h \<Longrightarrow> list_all one_line (print_hunk h)"
  using one_line_digits by (auto simp: print_hunk_def hunk_ok_def list_all_iff one_line_def is_line_end_def)

lemma one_line_patch: "patch_ok sandbox p \<Longrightarrow> list_all one_line (print_patch p)"
  using one_line_hunk
  by (fastforce simp: print_patch_def patch_ok_def path_ok_def print_path_def list_all_iff one_line_def is_line_end_def dev_null_def)

text \<open>
  C11. Printed diffs read back: parsing the unified diff of one or more patches gives exactly these patches. Each names
  a file at least on one side, by a plain path of one line without tab or trailing space that the sandbox accepts, and
  has hunks; the lines of a hunk are valid, one line each, as many as its header says, and none starts with three
  dashes and a space, as the removal of a line starting with two dashes and a space would
  (\<open>removed_comment_is_refused\<close>).
\<close>

theorem printed_diff_parses:
  assumes "list_all (patch_ok sandbox) ps" and "ps \<noteq> []"
  shows "parse_file_patches (print_diff ps) sandbox = Inr ps"
proof -
  let ?lines = "concat (map print_patch ps)"
  have "list_all one_line ?lines"
    using assms(1) one_line_patch[of sandbox] by (auto simp: list_all_iff)
  then have lines: "splitlines (print_diff ps) = ?lines"
    unfolding print_diff_def by (rule splitlines_print)
  obtain p qs where "ps = p # qs" using assms(2) by (cases ps) auto
  then have "\<exists>rest. print_diff ps = CHR ''-'' # rest" by (simp add: print_diff_def print_patch_def)
  then have "strip (print_diff ps) \<noteq> []"
    by (auto simp: strip_def lstrip_def rstrip_def is_space_def dropWhile_eq_Nil_conv)
  moreover have "?lines \<noteq> []" using \<open>ps = p # qs\<close> by (simp add: print_patch_def)
  ultimately show ?thesis
    using assms patches_from_print by (simp add: parse_file_patches_def lines)
qed

definition demo_patch :: file_patch where
  "demo_patch = \<lparr>fp_old = ''src/app.py'', fp_new = ''src/app.py'', fp_hunks = [\<lparr>hk_old_start = 3, hk_old_count = 2,
     hk_new_start = 3, hk_new_count = 2, hk_lines = ['' def f():'', ''-  return 1'', ''+  return 2'']\<rparr>]\<rparr>"

theorem printed_diff_parses_witness:
  "parse_file_patches (print_diff [demo_patch]) None = Inr [demo_patch]"
proof (rule printed_diff_parses)
  show "list_all (patch_ok None) [demo_patch]" by code_simp
qed simp

text \<open>
  Removing a line that starts with two dashes and a space makes the parser see a file header: a valid
  diff is refused.
\<close>

lemma removed_comment_is_refused:
  "parse_file_patches (print_diff [\<lparr>fp_old = ''q.sql'', fp_new = ''q.sql'', fp_hunks = [\<lparr>hk_old_start = 1,
      hk_old_count = 2, hk_new_start = 1, hk_new_count = 1, hk_lines = [''--- old comment'', '' select 1;'']\<rparr>]\<rparr>]) None =
    Inl (DiffValidationError ''Missing +++ header after --- header.'')"
  by code_simp

end
