(* ===== verification/Workspace.thy ===== *)
theory Workspace
  imports Diff "HOL-Library.AList"
begin

text \<open>
  The workspace on disk, as far as the patch engine uses it: files and directories under paths relative
  to the root, the operations of \<open>pathlib\<close> and \<open>shutil\<close> on them with their errors, and the sandbox of
  \<open>safety/sandbox.py\<close>. Symbolic links are what the resolver of the sandbox makes of a path.
\<close>

subsection \<open>Nodes\<close>

datatype node = Dir | File string

type_synonym nodes = "(path \<times> node) list"

definition lookup :: "nodes \<Rightarrow> path \<Rightarrow> node option" where
  "lookup ns p = (if p = [] then Some Dir else map_of ns p)"

definition content_at :: "nodes \<Rightarrow> path \<Rightarrow> string option" where
  "content_at ns p = (case lookup ns p of Some (File c) \<Rightarrow> Some c | _ \<Rightarrow> None)"

definition is_file :: "nodes \<Rightarrow> path \<Rightarrow> bool" where
  "is_file ns p \<longleftrightarrow> content_at ns p \<noteq> None"

definition is_dir :: "nodes \<Rightarrow> path \<Rightarrow> bool" where
  "is_dir ns p \<longleftrightarrow> lookup ns p = Some Dir"

definition present :: "nodes \<Rightarrow> path \<Rightarrow> bool" where
  "present ns p \<longleftrightarrow> lookup ns p \<noteq> None"

definition has_children :: "nodes \<Rightarrow> path \<Rightarrow> bool" where
  "has_children ns p \<longleftrightarrow> list_ex (\<lambda>(q, _). q \<noteq> [] \<and> butlast q = p) ns"

subsection \<open>Operations\<close>

type_synonym 'a fs_eff = "(nodes, 'a) eff"

text \<open>\<open>mkdir(parents=True, exist_ok=True)\<close>, from the root down.\<close>

fun make_dirs :: "path \<Rightarrow> path \<Rightarrow> unit fs_eff" where
  "make_dirs base [] = ret ()"
| "make_dirs base (x # rest) =
     seq (gets (\<lambda>ns. lookup ns (base @ [x]))) (\<lambda>n. case n of
       None \<Rightarrow> seq (modify (AList.update (base @ [x]) Dir)) (\<lambda>_. make_dirs (base @ [x]) rest)
     | Some Dir \<Rightarrow> make_dirs (base @ [x]) rest
     | Some (File _) \<Rightarrow> raise (OSError ''Not a directory''))"

definition mkdir_parents :: "path \<Rightarrow> unit fs_eff" where
  "mkdir_parents p = make_dirs [] p"

definition write_text :: "path \<Rightarrow> string \<Rightarrow> unit fs_eff" where
  "write_text p c = (\<lambda>ns.
     if is_dir ns p then raise (OSError ''Is a directory'') ns
     else if \<not> is_dir ns (butlast p) then raise (OSError ''No such file or directory'') ns
     else modify (AList.update p (File c)) ns)"

text \<open>Reading as text translates the line ends.\<close>

fun universal :: "string \<Rightarrow> string" where
  "universal [] = []"
| "universal (c # cs) =
     (if (of_char c :: nat) \<noteq> 13 then c # universal cs
      else case cs of
        [] \<Rightarrow> [newline]
      | d # ds \<Rightarrow> newline # universal (if (of_char d :: nat) = 10 then ds else d # ds))"

definition read_text :: "path \<Rightarrow> string fs_eff" where
  "read_text p = read (\<lambda>ns. case content_at ns p of
     None \<Rightarrow> Inl (OSError ''No such file or directory'') | Some c \<Rightarrow> Inr (universal c))"

definition unlink :: "path \<Rightarrow> unit fs_eff" where
  "unlink p = (\<lambda>ns. if is_file ns p then modify (AList.delete p) ns else raise (OSError ''Cannot unlink'') ns)"

definition rmdir :: "path \<Rightarrow> unit fs_eff" where
  "rmdir p = (\<lambda>ns. if p \<noteq> [] \<and> is_dir ns p \<and> \<not> has_children ns p then modify (AList.delete p) ns
     else raise (OSError ''Directory not empty'') ns)"

text \<open>\<open>shutil.move\<close> and \<open>shutil.copy2\<close> put things into a directory that is named as the target.\<close>

definition real_target :: "nodes \<Rightarrow> path \<Rightarrow> path \<Rightarrow> path" where
  "real_target ns src dst = (if is_dir ns dst then dst @ [last src] else dst)"

definition move :: "path \<Rightarrow> path \<Rightarrow> unit fs_eff" where
  "move src dst = (\<lambda>ns.
     let real = real_target ns src dst
     in if is_dir ns dst \<and> present ns real then raise (OSError ''Destination path already exists'') ns
        else if \<not> is_dir ns (butlast real) then raise (OSError ''No such file or directory'') ns
        else case lookup ns src of
          None \<Rightarrow> raise (OSError ''No such file or directory'') ns
        | Some (File c) \<Rightarrow> modify (\<lambda>ns. AList.update real (File c) (AList.delete src ns)) ns
        | Some Dir \<Rightarrow>
            if prefix src real \<or> present ns real then raise (OSError ''Cannot move directory'') ns
            else modify (map (\<lambda>(q, n). (if prefix src q then real @ drop (length src) q else q, n))) ns)"

definition copy_file :: "path \<Rightarrow> path \<Rightarrow> unit fs_eff" where
  "copy_file src dst = (\<lambda>ns. case content_at ns src of
     None \<Rightarrow> raise (OSError ''No such file or directory'') ns
   | Some c \<Rightarrow> write_text (real_target ns src dst) c ns)"

subsection \<open>Sandbox\<close>

text \<open>\<open>home\<close> and \<open>resolve\<close> are absolute; what lies inside is named relative to the root.\<close>

definition validate :: "path \<Rightarrow> (path \<Rightarrow> path) \<Rightarrow> sandbox" where
  "validate home resolve p =
     (let candidate = (if posix_absolute p then posix_parts p else home @ posix_parts p);
          target = resolve candidate
      in if prefix home target then Inr (drop (length home) target)
         else Inl (SecurityError (''Access denied: /'' @ join ''/'' target @ '' is outside workspace /'' @ join ''/'' home)))"

lemma validate_inside: "validate home resolve p = Inr t \<Longrightarrow> prefix home (home @ t) \<and>
    home @ t = resolve (if posix_absolute p then posix_parts p else home @ posix_parts p)"
  by (auto simp: validate_def Let_def prefix_def split: if_splits)

lemma validate_plain:
  "plain_path p \<Longrightarrow> resolve (home @ posix_parts p) = home @ posix_parts p \<Longrightarrow> validate home resolve p = Inr (posix_parts p)"
  using plain_relative[of p] by (simp add: validate_def)

subsection \<open>Frames\<close>

lemma lookup_update [simp]:
  "p \<noteq> [] \<Longrightarrow> lookup (AList.update p n ns) q = (if q = p then Some n else lookup ns q)"
  by (simp add: lookup_def update_conv')

lemma lookup_delete [simp]:
  "p \<noteq> [] \<Longrightarrow> lookup (AList.delete p ns) q = (if q = p then None else lookup ns q)"
  by (auto simp: lookup_def delete_conv')

lemma lookup_Nil [simp]: "lookup ns [] = Some Dir"
  by (simp add: lookup_def)

lemma is_dir_Nil [simp]: "is_dir ns []"
  by (simp add: is_dir_def)

lemma write_text_lookup:
  "write_text p c ns = (r, ms) \<Longrightarrow> lookup ms q = (if q = p \<and> r = Inr () then Some (File c) else lookup ns q)"
  by (cases "p = []") (auto simp: write_text_def split: if_splits)

lemma unlink_lookup:
  "unlink p ns = (r, ms) \<Longrightarrow> lookup ms q = (if q = p \<and> r = Inr () then None else lookup ns q)"
  by (cases "p = []") (auto simp: unlink_def is_file_def content_at_def split: if_splits)

text \<open>Making directories adds some on the way and changes nothing else.\<close>

lemma make_dirs_lookup:
  "make_dirs base p ns = (r, ms) \<Longrightarrow>
     lookup ms q = lookup ns q \<or> (lookup ns q = None \<and> lookup ms q = Some Dir \<and> prefix q (base @ p))"
proof (induction base p arbitrary: ns rule: make_dirs.induct)
  case (2 base x rest)
  show ?case
  proof (cases "lookup ns (base @ [x])")
    case None
    with 2 have "make_dirs (base @ [x]) rest (AList.update (base @ [x]) Dir ns) = (r, ms)" by simp
    from "2.IH"(1)[OF this] None show ?thesis
      by (auto split: if_splits)
  next
    case (Some n)
    show ?thesis
    proof (cases n)
      case Dir
      with 2 Some have "make_dirs (base @ [x]) rest ns = (r, ms)" by simp
      from "2.IH"(1)[OF this] show ?thesis by simp
    next
      case (File c)
      with 2 Some show ?thesis by simp
    qed
  qed
qed simp

lemma make_dirs_done:
  "make_dirs base p ns = (Inr (), ms) \<Longrightarrow> is_dir ns base \<Longrightarrow> prefix q p \<Longrightarrow> is_dir ms (base @ q)"
proof (induction base p arbitrary: ns q rule: make_dirs.induct)
  case (1 base)
  then show ?case by simp
next
  case (2 base x rest)
  have keep: "is_dir ns base \<Longrightarrow> make_dirs (base @ [x]) rest ns' = (Inr (), ms) \<Longrightarrow>
      lookup ns' base = lookup ns base \<Longrightarrow> is_dir ms base" for ns'
    using make_dirs_lookup[of "base @ [x]" rest ns' "Inr ()" ms base] by (auto simp: is_dir_def)
  obtain ns' where ns': "make_dirs (base @ [x]) rest ns' = (Inr (), ms)" "is_dir ns' (base @ [x])"
      "lookup ns' base = lookup ns base"
      "\<And>q. prefix q rest \<Longrightarrow> is_dir ms ((base @ [x]) @ q)"
  proof (cases "lookup ns (base @ [x])")
    case None
    with 2 have run: "make_dirs (base @ [x]) rest (AList.update (base @ [x]) Dir ns) = (Inr (), ms)" by simp
    then show thesis
      using that[of "AList.update (base @ [x]) Dir ns"] "2.IH"(1)[OF run] by (simp add: is_dir_def)
  next
    case (Some n)
    with 2 have dir: "n = Dir" by (cases n) auto
    with 2 Some have run: "make_dirs (base @ [x]) rest ns = (Inr (), ms)" by simp
    then show thesis
      using that[of ns] "2.IH"(1)[OF run] Some dir by (simp add: is_dir_def)
  qed
  show ?case
  proof (cases q)
    case Nil
    then show ?thesis using keep[OF "2.prems"(2) ns'(1,3)] by simp
  next
    case (Cons y ys)
    with "2.prems"(3) have "y = x" "prefix ys rest" by auto
    with ns'(4)[of ys] Cons show ?thesis by simp
  qed
qed

end
