(* ===== verification/Transactions.thy ===== *)
theory Transactions
  imports Workspace Json "HOL-Library.Product_Lexorder"
begin

text \<open>
  The transactions of \<open>patch/transactions.py\<close> with the journal of \<open>patch/journal.py\<close>, the trash of
  \<open>patch/trash.py\<close> and the rollback of \<open>patch/rollback.py\<close>. The manifest, the saved patch and the journal
  are files of the transaction store that only this code writes; they are kept beside the nodes of the
  workspace as the values they hold. Backups and trashed files are nodes below \<open>.shamsu\<close>.
\<close>

subsection \<open>Data\<close>

datatype op_kind = CREATE_FILE | EDIT_FILE | APPLY_PATCH | RENAME_FILE | MOVE_FILE | DELETE_FILE | CREATE_DIRECTORY

fun op_value :: "op_kind \<Rightarrow> string" where
  "op_value CREATE_FILE = ''create_file''"
| "op_value EDIT_FILE = ''edit_file''"
| "op_value APPLY_PATCH = ''apply_patch''"
| "op_value RENAME_FILE = ''rename_file''"
| "op_value MOVE_FILE = ''move_file''"
| "op_value DELETE_FILE = ''delete_file''"
| "op_value CREATE_DIRECTORY = ''create_directory''"

record operation =
  op_kind_of :: op_kind
  op_path :: string
  op_dest :: string
  op_reason :: string
  op_content :: string

record verification_outcome =
  vo_ran :: bool
  vo_command :: string
  vo_exit :: "int option"
  vo_stdout :: string
  vo_stderr :: string
  vo_packet :: "json option"
  vo_signature :: string
  vo_stalled :: bool

definition vo_passed :: "verification_outcome \<Rightarrow> bool" where
  "vo_passed v \<longleftrightarrow> vo_ran v \<and> vo_exit v = Some 0"

text \<open>What a manifest keeps of a verification: of a change request the outcome, of a repair the exit code and the
  comparison with the errors before.\<close>

datatype saved_verification = Of_request verification_outcome | Of_repair int string

definition saved_signature :: "saved_verification option \<Rightarrow> string" where
  "saved_signature v = (case v of Some (Of_request o') \<Rightarrow> vo_signature o' | _ \<Rightarrow> [])"

record manifest =
  mf_created :: string
  mf_reason :: string
  mf_operations :: "operation list"
  mf_destructive :: bool
  mf_status :: string
  mf_touched :: "string list"
  mf_before :: "(string \<times> string option) list"
  mf_after :: "(string \<times> string option) list"
  mf_backups :: "(string \<times> path) list"
  mf_verification :: "saved_verification option"
  mf_error :: string

record journal_entry =
  je_transaction :: string
  je_created :: string
  je_reason :: string
  je_status :: string
  je_error :: string
  je_touched :: "string list"
  je_destructive :: bool
  je_verification :: "saved_verification option"

record disk =
  dk_nodes :: nodes
  dk_manifests :: "(string \<times> manifest) list"
  dk_patches :: "(string \<times> string) list"
  dk_journal :: "journal_entry list"
  dk_clock :: "nat \<Rightarrow> string"
  dk_stamp :: "nat \<Rightarrow> string"
  dk_ticks :: nat
  dk_uuid :: "nat \<Rightarrow> string"
  dk_drawn :: nat
  dk_digest :: "string \<Rightarrow> string"

type_synonym 'a tx_eff = "(disk, 'a) eff"

definition on_nodes :: "'a fs_eff \<Rightarrow> 'a tx_eff" where
  "on_nodes m d = (case m (dk_nodes d) of (r, ns) \<Rightarrow> (r, d\<lparr>dk_nodes := ns\<rparr>))"

subsection \<open>The journal\<close>

definition journal_append :: "journal_entry \<Rightarrow> unit tx_eff" where
  "journal_append e = modify (\<lambda>d. d\<lparr>dk_journal := dk_journal d @ [e]\<rparr>)"

definition journal_last :: "disk \<Rightarrow> journal_entry option" where
  "journal_last d = (if dk_journal d = [] then None else Some (last (dk_journal d)))"

text \<open>The last entry of a transaction.\<close>

definition journal_get :: "disk \<Rightarrow> string \<Rightarrow> journal_entry option" where
  "journal_get d tx = fold (\<lambda>e found. if je_transaction e = tx then Some e else found) (dk_journal d) None"

subsection \<open>Transactions\<close>

definition tx_dir :: "string \<Rightarrow> path" where
  "tx_dir tx = [''.shamsu'', ''mutations'', tx]"

definition backup_rel :: "string \<Rightarrow> path" where
  "backup_rel rel = ''backups'' # posix_parts rel"

definition hash_at :: "disk \<Rightarrow> path \<Rightarrow> string option" where
  "hash_at d target = map_option (dk_digest d) (content_at (dk_nodes d) target)"

definition load_manifest :: "disk \<Rightarrow> string \<Rightarrow> manifest option" where
  "load_manifest d tx = map_of (dk_manifests d) tx"

definition write_manifest :: "string \<Rightarrow> manifest \<Rightarrow> unit tx_eff" where
  "write_manifest tx m = modify (\<lambda>d. d\<lparr>dk_manifests := AList.update tx m (dk_manifests d)\<rparr>)"

definition known_manifest :: "string \<Rightarrow> manifest tx_eff" where
  "known_manifest tx = read (\<lambda>d. case load_manifest d tx of
     None \<Rightarrow> Inl (ValueError (''Unknown transaction: '' @ tx)) | Some m \<Rightarrow> Inr m)"

definition new_transaction_id :: "string tx_eff" where
  "new_transaction_id = (\<lambda>d. (Inr (dk_stamp d (dk_ticks d) @ ''-'' @ take 8 (dk_uuid d (dk_drawn d))),
     d\<lparr>dk_ticks := Suc (dk_ticks d), dk_drawn := Suc (dk_drawn d)\<rparr>))"

definition begin_transaction :: "string \<Rightarrow> operation list \<Rightarrow> bool \<Rightarrow> string tx_eff" where
  "begin_transaction reason operations destructive =
     seq new_transaction_id (\<lambda>tx.
     seq (on_nodes (mkdir_parents (tx_dir tx))) (\<lambda>_.
     seq (\<lambda>d. (Inr (dk_clock d (dk_ticks d)), d\<lparr>dk_ticks := Suc (dk_ticks d)\<rparr>)) (\<lambda>created.
     seq (write_manifest tx \<lparr>mf_created = created, mf_reason = reason, mf_operations = operations,
       mf_destructive = destructive, mf_status = ''pending'', mf_touched = [], mf_before = [], mf_after = [],
       mf_backups = [], mf_verification = None, mf_error = []\<rparr>) (\<lambda>_. ret tx))))"

definition backup_file :: "sandbox \<Rightarrow> string \<Rightarrow> string \<Rightarrow> unit tx_eff" where
  "backup_file sb tx rel =
     seq (known_manifest tx) (\<lambda>m.
     if map_of (mf_before m) rel \<noteq> None then ret ()
     else
       seq (lift_result (sb rel)) (\<lambda>target.
       seq (gets (\<lambda>d. hash_at d target)) (\<lambda>hash.
       let m = m\<lparr>mf_before := AList.update rel hash (mf_before m)\<rparr>
       in seq (if hash = None then ret m
               else
                 let backup = tx_dir tx @ backup_rel rel
                 in seq (on_nodes (mkdir_parents (butlast backup))) (\<lambda>_.
                    seq (on_nodes (copy_file target backup)) (\<lambda>_.
                    ret (m\<lparr>mf_backups := AList.update rel (backup_rel rel) (mf_backups m)\<rparr>)))) (\<lambda>m.
          write_manifest tx (m\<lparr>mf_touched := add_new (mf_touched m) rel\<rparr>)))))"

definition record_after :: "sandbox \<Rightarrow> string \<Rightarrow> string \<Rightarrow> unit tx_eff" where
  "record_after sb tx rel =
     seq (known_manifest tx) (\<lambda>m.
     seq (gets (\<lambda>d. case sb rel of Inl _ \<Rightarrow> None | Inr target \<Rightarrow> hash_at d target)) (\<lambda>hash.
     write_manifest tx (m\<lparr>mf_after := AList.update rel hash (mf_after m), mf_touched := add_new (mf_touched m) rel\<rparr>)))"

definition save_patch :: "string \<Rightarrow> string \<Rightarrow> unit tx_eff" where
  "save_patch tx patch_text = (if patch_text = [] then ret ()
     else modify (\<lambda>d. d\<lparr>dk_patches := AList.update tx patch_text (dk_patches d)\<rparr>))"

definition load_patch :: "disk \<Rightarrow> string \<Rightarrow> string" where
  "load_patch d tx = (case map_of (dk_patches d) tx of None \<Rightarrow> [] | Some p \<Rightarrow> p)"

definition save_verification :: "string \<Rightarrow> saved_verification option \<Rightarrow> unit tx_eff" where
  "save_verification tx v = seq (known_manifest tx) (\<lambda>m. write_manifest tx (m\<lparr>mf_verification := v\<rparr>))"

definition finalize_transaction :: "string \<Rightarrow> string \<Rightarrow> string \<Rightarrow> manifest tx_eff" where
  "finalize_transaction tx status error =
     seq (known_manifest tx) (\<lambda>m.
     let m = m\<lparr>mf_status := status, mf_error := error\<rparr>
     in seq (write_manifest tx m) (\<lambda>_.
        seq (journal_append \<lparr>je_transaction = tx, je_created = mf_created m, je_reason = mf_reason m,
          je_status = status, je_error = error, je_touched = mf_touched m, je_destructive = mf_destructive m,
          je_verification = mf_verification m\<rparr>) (\<lambda>_. ret m)))"

definition list_transaction_ids :: "disk \<Rightarrow> string list" where
  "list_transaction_ids d = sort (map fst (dk_manifests d))"

subsection \<open>Trash\<close>

definition trash_root :: path where
  "trash_root = [''.shamsu'', ''trash'']"

definition move_to_trash :: "sandbox \<Rightarrow> path \<Rightarrow> string \<Rightarrow> string \<Rightarrow> path tx_eff" where
  "move_to_trash sb target tx rel =
     seq (lift_result (sb (''.shamsu/trash/'' @ tx @ ''/'' @ rel))) (\<lambda>destination.
     seq (on_nodes (mkdir_parents (butlast destination))) (\<lambda>_.
     seq (on_nodes (move target destination)) (\<lambda>_. ret destination)))"

text \<open>Transaction, path below its directory and size of every file in the trash.\<close>

definition trash_entries :: "nodes \<Rightarrow> (string \<times> path \<times> nat) list" where
  "trash_entries ns = concat (map (\<lambda>(p, n). case n of
       File c \<Rightarrow> if prefix trash_root p \<and> 4 \<le> length p then [(p ! 2, drop 3 p, length c)] else []
     | Dir \<Rightarrow> []) ns)"

definition trash_restore :: "string \<Rightarrow> string \<Rightarrow> path \<Rightarrow> bool tx_eff" where
  "trash_restore tx rel destination =
     seq (gets (\<lambda>d. present (dk_nodes d) (trash_root @ tx # posix_parts rel))) (\<lambda>there.
     if \<not> there then ret False
     else
       seq (on_nodes (mkdir_parents (butlast destination))) (\<lambda>_.
       seq (on_nodes (move (trash_root @ tx # posix_parts rel) destination)) (\<lambda>_. ret True)))"

definition trash_clean :: "nat tx_eff" where
  "trash_clean = (\<lambda>d. if \<not> is_dir (dk_nodes d) trash_root then (Inr 0, d)
     else (Inr (length (trash_entries (dk_nodes d))),
       d\<lparr>dk_nodes := filter (\<lambda>(p, _). \<not> prefix trash_root p) (dk_nodes d)\<rparr>))"

subsection \<open>Rollback\<close>

definition latest_undoable :: "disk \<Rightarrow> (string \<times> manifest) option" where
  "latest_undoable d =
     (let candidates = filter (\<lambda>tx. case load_manifest d tx of None \<Rightarrow> False | Some m \<Rightarrow> mf_status m \<noteq> ''rolled_back'')
            (list_transaction_ids d);
          key = (\<lambda>tx. (case load_manifest d tx of None \<Rightarrow> [] | Some m \<Rightarrow> mf_created m, tx))
      in case candidates of
           [] \<Rightarrow> None
         | tx # txs \<Rightarrow>
             let best = snd (fold (\<lambda>tx best. if best < key tx then key tx else best) txs (key tx))
             in map_option (\<lambda>m. (best, m)) (load_manifest d best))"

text \<open>One file of the manifest: a message when the rollback has to stop.\<close>

definition restore_file :: "sandbox \<Rightarrow> string \<Rightarrow> manifest \<Rightarrow> string \<Rightarrow> string option tx_eff" where
  "restore_file sb tx m rel = (case sb rel of
     Inl (SecurityError e) \<Rightarrow> ret (Some (''Rollback aborted, unsafe path recorded in manifest: '' @ e))
   | Inl e \<Rightarrow> raise e
   | Inr target \<Rightarrow>
       (case map_of (mf_before m) rel of
          Some (Some _) \<Rightarrow>
            (case map_of (mf_backups m) rel of
               None \<Rightarrow> ret (Some (''Rollback aborted: no backup recorded for '' @ rel @ ''.''))
             | Some backup \<Rightarrow>
                 seq (gets (\<lambda>d. present (dk_nodes d) (tx_dir tx @ backup))) (\<lambda>there.
                 if \<not> there then ret (Some (''Rollback aborted: backup file missing for '' @ rel @ ''.''))
                 else
                   seq (on_nodes (mkdir_parents (butlast target))) (\<lambda>_.
                   seq (on_nodes (copy_file (tx_dir tx @ backup) target)) (\<lambda>_. ret None))))
        | _ \<Rightarrow>
            seq (gets (\<lambda>d. is_file (dk_nodes d) target)) (\<lambda>file.
            if file then seq (on_nodes (unlink target)) (\<lambda>_. ret None)
            else
              seq (gets (\<lambda>d. is_dir (dk_nodes d) target)) (\<lambda>dir.
              if dir then seq (catch (on_nodes (rmdir target))
                  (\<lambda>e. case e of OSError _ \<Rightarrow> ret () | _ \<Rightarrow> raise e)) (\<lambda>_. ret None)
              else ret None))))"

fun restore_files :: "sandbox \<Rightarrow> string \<Rightarrow> manifest \<Rightarrow> string list \<Rightarrow> string option tx_eff" where
  "restore_files sb tx m [] = ret None"
| "restore_files sb tx m (rel # rels) = seq (restore_file sb tx m rel) (\<lambda>stopped. case stopped of
     Some e \<Rightarrow> ret (Some e) | None \<Rightarrow> restore_files sb tx m rels)"

definition rollback_transaction :: "sandbox \<Rightarrow> string \<Rightarrow> (bool \<times> string) tx_eff" where
  "rollback_transaction sb tx =
     seq (gets (\<lambda>d. load_manifest d tx)) (\<lambda>found. case found of
       None \<Rightarrow> ret (False, ''Unknown transaction: '' @ tx)
     | Some m \<Rightarrow>
         if mf_status m = ''rolled_back'' then ret (False, ''Transaction '' @ tx @ '' was already rolled back.'')
         else seq (restore_files sb tx m (mf_touched m)) (\<lambda>stopped. case stopped of
           Some e \<Rightarrow> ret (False, e)
         | None \<Rightarrow> seq (finalize_transaction tx ''rolled_back'' []) (\<lambda>_.
             ret (True, ''Restored '' @ nat_str (length (mf_touched m)) @ '' file(s) from transaction '' @ tx @ ''.''))))"

end
