(* ===== verification/Mutations.thy ===== *)
theory Mutations
  imports Transactions
begin

text \<open>
  The path rules of \<open>patch/safety.py\<close>, the file operations of \<open>patch/file_mutations.py\<close>, the application
  of a diff inside a transaction (\<open>patch/engine.py\<close>), and the change request of \<open>patch/types.py\<close>.
\<close>

subsection \<open>Path rules\<close>

text \<open>\<open>PurePosixPath(p).parts\<close>, where an absolute path has its root as first part.\<close>

definition slash_parts :: "string \<Rightarrow> path" where
  "slash_parts p = (let p = replace_char backslash (CHR ''/'') p
     in (if posix_absolute p then [''/''] else []) @ posix_parts p)"

definition is_git_internal_path :: "string \<Rightarrow> bool" where
  "is_git_internal_path p \<longleftrightarrow> (case slash_parts p of x # _ \<Rightarrow> x = ''.git'' | [] \<Rightarrow> False)"

definition is_trash_path :: "string \<Rightarrow> bool" where
  "is_trash_path p \<longleftrightarrow> (case slash_parts p of x # y # _ \<Rightarrow> x = ''.shamsu'' \<and> y = ''trash'' | _ \<Rightarrow> False)"

text \<open>\<open>stem(\.\w+)?\<close> and its like, on names in lower case without line ends.\<close>

definition stem_and_word :: "string \<Rightarrow> string \<Rightarrow> bool" where
  "stem_and_word stem name \<longleftrightarrow> name = stem \<or>
     (case drop_prefix (stem @ ''.'') name of None \<Rightarrow> False | Some w \<Rightarrow> w \<noteq> [] \<and> list_all is_word_char w)"

definition is_secret_file :: "string \<Rightarrow> bool" where
  "is_secret_file p =
     (let parts = posix_parts (replace_char backslash (CHR ''/'') p);
          name = lower (if parts = [] then [] else last parts)
      in name = ''.env'' \<or> (case drop_prefix ''.env.'' name of None \<Rightarrow> False | Some w \<Rightarrow> w \<noteq> [])
         \<or> name = ''.npmrc'' \<or> name = ''.pypirc'' \<or> stem_and_word ''credentials'' name
         \<or> stem_and_word ''secret'' name \<or> stem_and_word ''secrets'' name
         \<or> name = ''id_rsa'' \<or> name = ''id_rsa.pub'' \<or> name = ''id_ed25519'' \<or> name = ''id_ed25519.pub''
         \<or> ends_with name ''.pem'' \<or> ends_with name ''.key'' \<or> ends_with name ''.pfx'' \<or> ends_with name ''.p12''
         \<or> (ends_with name ''.json'' \<and> (let body = take (length name - 5) name
              in contains ''service-account'' body \<or> contains ''service_account'' body)))"

definition reject_unsafe_relative_path :: "string \<Rightarrow> unit checked" where
  "reject_unsafe_relative_path p =
     (if strip p = [] then Inl (MutationSafetyError ''Path is empty.'')
      else if posix_absolute p \<or> windows_absolute p then
        Inl (MutationSafetyError (''Path must be relative to the workspace: '' @ p))
      else if ''..'' \<in> set (posix_parts p) \<or> ''..'' \<in> set (windows_parts p) then
        Inl (MutationSafetyError (''Path escapes workspace: '' @ p))
      else Inr ())"

definition validate_mutation_path :: "sandbox \<Rightarrow> string \<Rightarrow> path checked" where
  "validate_mutation_path sb p =
     rbind (reject_unsafe_relative_path p) (\<lambda>_. case sb p of
       Inl (SecurityError e) \<Rightarrow> Inl (MutationSafetyError e)
     | Inl e \<Rightarrow> Inl e
     | Inr target \<Rightarrow>
         if is_git_internal_path p then Inl (MutationSafetyError (''Refusing to edit .git internals: '' @ p))
         else Inr target)"

subsection \<open>File operations\<close>

record mutation_outcome =
  mo_ok :: bool
  mo_op :: op_kind
  mo_path :: string
  mo_dest :: string
  mo_error :: string
  mo_note :: string

definition mutated :: "op_kind \<Rightarrow> string \<Rightarrow> string \<Rightarrow> string \<Rightarrow> mutation_outcome" where
  "mutated op p dest note = \<lparr>mo_ok = True, mo_op = op, mo_path = p, mo_dest = dest, mo_error = [], mo_note = note\<rparr>"

definition refused :: "op_kind \<Rightarrow> string \<Rightarrow> string \<Rightarrow> string \<Rightarrow> mutation_outcome" where
  "refused op p dest error = \<lparr>mo_ok = False, mo_op = op, mo_path = p, mo_dest = dest, mo_error = error, mo_note = []\<rparr>"

text \<open>Run with the validated path, or refuse with the reason why it is not one.\<close>

definition with_path :: "sandbox \<Rightarrow> op_kind \<Rightarrow> string \<Rightarrow> string \<Rightarrow> string \<Rightarrow> (path \<Rightarrow> mutation_outcome tx_eff) \<Rightarrow> mutation_outcome tx_eff" where
  "with_path sb op p dest checked f = (case validate_mutation_path sb checked of
     Inl (MutationSafetyError e) \<Rightarrow> ret (refused op p dest e)
   | Inl e \<Rightarrow> raise e
   | Inr target \<Rightarrow> f target)"

definition guarded :: "(disk \<Rightarrow> bool) \<Rightarrow> mutation_outcome \<Rightarrow> mutation_outcome tx_eff \<Rightarrow> mutation_outcome tx_eff" where
  "guarded bad refusal m = seq (gets bad) (\<lambda>b. if b then ret refusal else m)"

definition create_file :: "sandbox \<Rightarrow> string \<Rightarrow> string \<Rightarrow> string \<Rightarrow> mutation_outcome tx_eff" where
  "create_file sb tx p content = with_path sb CREATE_FILE p [] p (\<lambda>target.
     guarded (\<lambda>d. present (dk_nodes d) target)
       (refused CREATE_FILE p [] (''Refusing to overwrite existing file (use edit_file/apply_patch): '' @ p))
       (seq (backup_file sb tx p) (\<lambda>_.
        seq (on_nodes (mkdir_parents (butlast target))) (\<lambda>_.
        seq (on_nodes (write_text target content)) (\<lambda>_.
        seq (record_after sb tx p) (\<lambda>_.
        ret (mutated CREATE_FILE p [] [])))))))"

definition edit_file :: "sandbox \<Rightarrow> string \<Rightarrow> string \<Rightarrow> string \<Rightarrow> mutation_outcome tx_eff" where
  "edit_file sb tx p content = with_path sb EDIT_FILE p [] p (\<lambda>target.
     guarded (\<lambda>d. \<not> is_file (dk_nodes d) target)
       (refused EDIT_FILE p [] (''Cannot edit missing file: '' @ p))
       (seq (backup_file sb tx p) (\<lambda>_.
        seq (on_nodes (write_text target content)) (\<lambda>_.
        seq (record_after sb tx p) (\<lambda>_.
        ret (mutated EDIT_FILE p [] []))))))"

definition create_directory :: "sandbox \<Rightarrow> string \<Rightarrow> string \<Rightarrow> mutation_outcome tx_eff" where
  "create_directory sb tx p = with_path sb CREATE_DIRECTORY p [] p (\<lambda>target.
     seq (backup_file sb tx p) (\<lambda>_.
     seq (on_nodes (mkdir_parents target)) (\<lambda>_.
     seq (record_after sb tx p) (\<lambda>_.
     ret (mutated CREATE_DIRECTORY p [] [])))))"

definition delete_file :: "(string \<Rightarrow> string) \<Rightarrow> sandbox \<Rightarrow> string \<Rightarrow> string \<Rightarrow> mutation_outcome tx_eff" where
  "delete_file impact sb tx p = with_path sb DELETE_FILE p [] p (\<lambda>target.
     guarded (\<lambda>d. \<not> present (dk_nodes d) target)
       (refused DELETE_FILE p [] (''Cannot delete missing path: '' @ p))
       (seq (backup_file sb tx p) (\<lambda>_.
        seq (move_to_trash sb target tx p) (\<lambda>_.
        seq (record_after sb tx p) (\<lambda>_.
        ret (mutated DELETE_FILE p [] (impact p)))))))"

definition relocate :: "(string \<Rightarrow> string) \<Rightarrow> sandbox \<Rightarrow> string \<Rightarrow> op_kind \<Rightarrow> string \<Rightarrow> string \<Rightarrow> mutation_outcome tx_eff" where
  "relocate impact sb tx op p dest = with_path sb op p dest p (\<lambda>source. with_path sb op p dest dest (\<lambda>target.
     guarded (\<lambda>d. \<not> present (dk_nodes d) source) (refused op p dest (''Source does not exist: '' @ p))
     (guarded (\<lambda>d. present (dk_nodes d) target)
       (refused op p dest (''Refusing to overwrite existing destination: '' @ dest))
       (seq (backup_file sb tx p) (\<lambda>_.
        seq (backup_file sb tx dest) (\<lambda>_.
        seq (on_nodes (mkdir_parents (butlast target))) (\<lambda>_.
        seq (on_nodes (move source target)) (\<lambda>_.
        seq (record_after sb tx p) (\<lambda>_.
        seq (record_after sb tx dest) (\<lambda>_.
        ret (mutated op p dest (impact p))))))))))))"

fun run_file_operation :: "(string \<Rightarrow> string) \<Rightarrow> sandbox \<Rightarrow> string \<Rightarrow> operation \<Rightarrow> mutation_outcome tx_eff" where
  "run_file_operation impact sb tx op = (case op_kind_of op of
     CREATE_FILE \<Rightarrow> create_file sb tx (op_path op) (op_content op)
   | EDIT_FILE \<Rightarrow> edit_file sb tx (op_path op) (op_content op)
   | RENAME_FILE \<Rightarrow> relocate impact sb tx RENAME_FILE (op_path op) (op_dest op)
   | MOVE_FILE \<Rightarrow> relocate impact sb tx MOVE_FILE (op_path op) (op_dest op)
   | DELETE_FILE \<Rightarrow> delete_file impact sb tx (op_path op)
   | CREATE_DIRECTORY \<Rightarrow> create_directory sb tx (op_path op)
   | APPLY_PATCH \<Rightarrow> raise (DiffValidationError ''Unsupported operation: apply_patch''))"

subsection \<open>A diff inside a transaction\<close>

definition lines_text :: "string list \<Rightarrow> string" where
  "lines_text ls = (if ls = [] then [] else join [newline] ls @ [newline])"

definition patch_target :: "sandbox \<Rightarrow> string \<Rightarrow> path option checked" where
  "patch_target sb p = (if p = dev_null then Inr None else rbind (sb p) (\<lambda>t. Inr (Some t)))"

definition apply_one :: "sandbox \<Rightarrow> string \<Rightarrow> file_patch \<Rightarrow> string tx_eff" where
  "apply_one sb tx p =
     seq (lift_result (patch_target sb (fp_old p))) (\<lambda>old.
     seq (lift_result (patch_target sb (fp_new p))) (\<lambda>new.
     if is_create p then (case new of
         None \<Rightarrow> raise (DiffValidationError ''Create patch is missing target path.'')
       | Some target \<Rightarrow>
           seq (gets (\<lambda>d. present (dk_nodes d) target)) (\<lambda>there.
           if there then raise (DiffValidationError (''Cannot create existing file: '' @ fp_new p))
           else
             seq (backup_file sb tx (fp_new p)) (\<lambda>_.
             seq (lift_result (apply_hunks [] (fp_hunks p))) (\<lambda>ls.
             seq (on_nodes (mkdir_parents (butlast target))) (\<lambda>_.
             seq (on_nodes (write_text target (lines_text ls))) (\<lambda>_.
             seq (record_after sb tx (fp_new p)) (\<lambda>_. ret (fp_new p))))))))
     else (case old of
         None \<Rightarrow> raise (DiffValidationError ''Patch target does not exist: None'')
       | Some source \<Rightarrow>
           seq (gets (\<lambda>d. is_file (dk_nodes d) source)) (\<lambda>file.
           if \<not> file then raise (DiffValidationError (''Patch target does not exist: '' @ fp_old p))
           else
             seq (backup_file sb tx (fp_old p)) (\<lambda>_.
             seq (on_nodes (read_text source)) (\<lambda>content.
             seq (lift_result (apply_hunks (splitlines content) (fp_hunks p))) (\<lambda>ls.
             if is_delete p then
               seq (on_nodes (unlink source)) (\<lambda>_.
               seq (record_after sb tx (fp_old p)) (\<lambda>_. ret (fp_old p)))
             else (case new of
                 None \<Rightarrow> raise (DiffValidationError ''Patch is missing output path.'')
               | Some target \<Rightarrow>
                   seq (if source = target then ret ()
                        else
                          seq (backup_file sb tx (fp_new p)) (\<lambda>_.
                          seq (on_nodes (mkdir_parents (butlast target))) (\<lambda>_.
                          on_nodes (unlink source)))) (\<lambda>_.
                   seq (on_nodes (write_text target (lines_text ls))) (\<lambda>_.
                   seq (record_after sb tx (fp_old p)) (\<lambda>_.
                   seq (if source = target then ret () else record_after sb tx (fp_new p)) (\<lambda>_.
                   ret (display_path (fp_old p) (fp_new p))))))))))))))"

fun apply_all :: "sandbox \<Rightarrow> string \<Rightarrow> file_patch list \<Rightarrow> string list tx_eff" where
  "apply_all sb tx [] = ret []"
| "apply_all sb tx (p # ps) = seq (apply_one sb tx p) (\<lambda>t. seq (apply_all sb tx ps) (\<lambda>ts. ret (t # ts)))"

definition apply_patch_with_transaction :: "sandbox \<Rightarrow> string \<Rightarrow> string \<Rightarrow> string list tx_eff" where
  "apply_patch_with_transaction sb tx diff_text =
     seq (lift_result (parse_file_patches diff_text (Some sb))) (apply_all sb tx)"

end
