(* ===== verification/ChangeRequests.thy ===== *)
theory ChangeRequests
  imports Mutations
begin

text \<open>
  Change requests: what the model may send (\<open>patch/types.py\<close>), how its diff is cleaned
  (\<open>patch/sanitize.py\<close>), and the whole of \<open>PatchEngine.execute_change_request\<close>. Who approves, what
  \<open>git apply --check\<close> says, what a formatter does to the files and what the verification command gives
  are parameters. Logs are not modelled, nor are the preview and the directory an approval shows.
\<close>

subsection \<open>Parsing the request\<close>

record change_plan =
  cp_reason :: string
  cp_operations :: "operation list"
  cp_verification :: string
  cp_destructive :: bool

definition operation_kinds :: "op_kind list" where
  "operation_kinds = [CREATE_FILE, EDIT_FILE, APPLY_PATCH, RENAME_FILE, MOVE_FILE, DELETE_FILE, CREATE_DIRECTORY]"

definition destructive_ops :: "op_kind list" where
  "destructive_ops = [DELETE_FILE, RENAME_FILE, MOVE_FILE]"

definition touched_paths :: "change_plan \<Rightarrow> string list" where
  "touched_paths plan = fold (\<lambda>op paths.
     let paths = (if op_path op \<noteq> [] then add_new paths (op_path op) else paths)
     in if op_dest op \<noteq> [] then add_new paths (op_dest op) else paths) (cp_operations plan) []"

fun type_name :: "json \<Rightarrow> string" where
  "type_name JNull = ''NoneType''"
| "type_name (JBool _) = ''bool''"
| "type_name (JInt _) = ''int''"
| "type_name (JFloat _) = ''float''"
| "type_name (JStr _) = ''str''"
| "type_name (JList _) = ''list''"
| "type_name (JObj _) = ''dict''"

definition quoted :: "string \<Rightarrow> string" where
  "quoted s = [CHR 0x27] @ s @ [CHR 0x27]"

definition require_str :: "dict \<Rightarrow> string \<Rightarrow> bool \<Rightarrow> string checked" where
  "require_str payload key required =
     (case (case dict_get payload key of None \<Rightarrow> JStr [] | Some JNull \<Rightarrow> JStr [] | Some v \<Rightarrow> v) of
        JStr value \<Rightarrow>
          if required \<and> strip value = [] then
            Inl (ChangeRequestError (quoted key @ '' is required and cannot be empty.''))
          else Inr value
      | v \<Rightarrow> Inl (ChangeRequestError (quoted key @ '' must be a string, got '' @ type_name v @ ''.'')))"

definition parse_operation :: "json \<Rightarrow> operation checked" where
  "parse_operation raw = (case raw of
     JObj d \<Rightarrow>
       rbind (require_str d ''op'' True) (\<lambda>op.
       case find (\<lambda>k. op_value k = op) operation_kinds of
         None \<Rightarrow> Inl (ChangeRequestError (''Unknown operation '' @ quoted op @ ''. Must be one of ('' @
           join '', '' (map (\<lambda>k. quoted (op_value k)) operation_kinds) @ '').''))
       | Some kind \<Rightarrow>
           rbind (require_str d ''path'' True) (\<lambda>path.
           rbind (require_str d ''dest_path'' False) (\<lambda>dest.
           if kind \<in> {RENAME_FILE, MOVE_FILE} \<and> strip dest = [] then
             Inl (ChangeRequestError (''Operation '' @ quoted op @ '' requires '' @ quoted ''dest_path'' @ ''.''))
           else
             rbind (require_str d ''reason'' False) (\<lambda>reason.
             rbind (require_str d ''content'' False) (\<lambda>content.
             Inr \<lparr>op_kind_of = kind, op_path = path, op_dest = dest, op_reason = reason, op_content = content\<rparr>)))))
   | _ \<Rightarrow> Inl (ChangeRequestError (''Each operation must be an object, got '' @ type_name raw @ ''.'')))"

fun parse_operations :: "json list \<Rightarrow> operation list checked" where
  "parse_operations [] = Inr []"
| "parse_operations (x # xs) = rbind (parse_operation x) (\<lambda>op. rbind (parse_operations xs) (\<lambda>ops. Inr (op # ops)))"

definition parse_change_plan :: "json \<Rightarrow> change_plan checked" where
  "parse_change_plan raw = (case raw of
     JObj d \<Rightarrow>
       rbind (require_str d ''reason'' True) (\<lambda>reason.
       case dict_get d ''operations'' of
         Some (JList (x # xs)) \<Rightarrow>
           rbind (parse_operations (x # xs)) (\<lambda>ops.
           rbind (require_str d ''verification_command'' False) (\<lambda>command.
           case (case dict_get d ''destructive'' of None \<Rightarrow> JBool False | Some v \<Rightarrow> v) of
             JBool destructive \<Rightarrow>
               Inr \<lparr>cp_reason = reason, cp_operations = ops, cp_verification = command,
                 cp_destructive = destructive \<or> list_ex (\<lambda>op. op_kind_of op \<in> set destructive_ops) ops\<rparr>
           | _ \<Rightarrow> Inl (ChangeRequestError (quoted ''destructive'' @ '' must be a boolean.''))))
       | _ \<Rightarrow> Inl (ChangeRequestError (quoted ''change_plan.operations'' @ '' must be a non-empty list.'')))
   | _ \<Rightarrow> Inl (ChangeRequestError (quoted ''change_plan'' @ '' must be an object, got '' @ type_name raw @ ''.'')))"

definition parse_change_request :: "json \<Rightarrow> (change_plan \<times> string) checked" where
  "parse_change_request raw = (case raw of
     JObj d \<Rightarrow>
       (case dict_get d ''change_plan'' of
          None \<Rightarrow> Inl (ChangeRequestError (''Change request is missing '' @ quoted ''change_plan'' @ ''.''))
        | Some p \<Rightarrow>
            rbind (parse_change_plan p) (\<lambda>plan.
            case (case dict_get d ''patch'' of None \<Rightarrow> JStr [] | Some JNull \<Rightarrow> JStr [] | Some v \<Rightarrow> v) of
              JStr patch \<Rightarrow>
                if list_ex (\<lambda>op. op_kind_of op = APPLY_PATCH) (cp_operations plan) \<and> strip patch = [] then
                  Inl (ChangeRequestError (''Change plan includes apply_patch but '' @ quoted ''patch'' @ '' is empty.''))
                else Inr (plan, patch)
            | v \<Rightarrow> Inl (ChangeRequestError (quoted ''patch'' @ '' must be a string, got '' @ type_name v @ ''.''))))
   | _ \<Rightarrow> Inl (ChangeRequestError (''Change request must be an object, got '' @ type_name raw @ ''.'')))"

subsection \<open>Cleaning the diff\<close>

definition starts_with_nocase :: "string \<Rightarrow> string \<Rightarrow> bool" where
  "starts_with_nocase s p \<longleftrightarrow> starts_with (lower s) p"

text \<open>What follows the first occurrence of a tag, and what precedes it.\<close>

fun after_tag :: "string \<Rightarrow> string \<Rightarrow> string option" where
  "after_tag tag [] = None"
| "after_tag tag (c # cs) =
     (if starts_with_nocase (c # cs) tag then Some (drop (length tag) (c # cs)) else after_tag tag cs)"

fun before_tag :: "string \<Rightarrow> string \<Rightarrow> string" where
  "before_tag tag [] = []"
| "before_tag tag (c # cs) = (if starts_with_nocase (c # cs) tag then [] else c # before_tag tag cs)"

lemma after_tag_length: "after_tag tag s = Some t \<Longrightarrow> length t \<le> length s"
  by (induction tag s rule: after_tag.induct) (auto split: if_splits)

function drop_thoughts :: "string \<Rightarrow> string" where
  "drop_thoughts [] = []"
| "drop_thoughts (c # cs) =
     (if starts_with_nocase (c # cs) ''<think>'' then
        (case after_tag ''</think>'' (drop 7 (c # cs)) of
           None \<Rightarrow> c # drop_thoughts cs
         | Some rest \<Rightarrow> drop_thoughts rest)
      else c # drop_thoughts cs)"
  by pat_completeness auto
termination
proof (relation "measure length", goal_cases)
  case (3 c cs rest)
  then show ?case using after_tag_length[of "''</think>''" "drop 7 (c # cs)" rest] by simp
qed auto

definition strip_reasoning :: "string \<Rightarrow> string" where
  "strip_reasoning content = strip (before_tag ''<think>'' (drop_thoughts content))"

definition fence :: string where
  "fence = replicate 3 (CHR 0x60)"

definition fenced_here :: "string \<Rightarrow> string option" where
  "fenced_here s = (case drop_prefix fence s of None \<Rightarrow> None | Some t \<Rightarrow>
     (let t = (if starts_with_nocase t ''diff'' then drop 4 t else if starts_with_nocase t ''patch'' then drop 5 t else t);
          t = dropWhile (\<lambda>c. c = CHR '' '' \<or> c = tab) t
      in case drop_prefix [newline] t of None \<Rightarrow> None | Some body \<Rightarrow>
         if after_tag fence body = None then None else Some (before_tag fence body)))"

fun fenced_block :: "string \<Rightarrow> string option" where
  "fenced_block [] = None"
| "fenced_block (c # cs) = (case fenced_here (c # cs) of Some body \<Rightarrow> Some body | None \<Rightarrow> fenced_block cs)"

text \<open>\<open># File: path (lines a-b)\<close>, read from its end.\<close>

definition synthetic_context :: "string \<Rightarrow> bool" where
  "synthetic_context line =
     (starts_with_nocase line '' # file:'' \<and>
      (let r = rev (rstrip (drop 8 line))
       in case r of
            c # r \<Rightarrow>
              c = CHR '')'' \<and> r \<noteq> [] \<and> is_digit (hd r) \<and>
              (let r = dropWhile is_digit r;
                   r = (case r of d # e # r' \<Rightarrow> if d = CHR ''-'' \<and> is_digit e then dropWhile is_digit (e # r') else r | _ \<Rightarrow> r)
               in r \<noteq> [] \<and> is_space (hd r) \<and>
                  (let r = dropWhile is_space r
                   in starts_with (lower r) (rev ''(lines'') \<and>
                      (let middle = drop 6 r
                       in 3 \<le> length middle \<and> is_space (hd middle) \<and> is_space (last middle))))
          | [] \<Rightarrow> False))"

definition sanitize_model_diff :: "string \<Rightarrow> string" where
  "sanitize_model_diff raw =
     (let text = strip (strip_reasoning raw);
          text = (case fenced_block text of Some body \<Rightarrow> strip body | None \<Rightarrow> text);
          ls = filter (\<lambda>line. \<not> starts_with (strip line) fence) (splitlines text);
          starts = (\<lambda>line. list_ex (starts_with line) [''diff --git '', ''--- '', ''*** '', ''Index: '']);
          ls = (if list_ex starts ls then dropWhile (\<lambda>line. \<not> starts line) ls else ls);
          ls = filter (\<lambda>line. \<not> synthetic_context line) ls;
          cleaned = strip (join [newline] ls)
      in if cleaned = [] then [] else cleaned @ [newline])"

subsection \<open>Executing\<close>

record approval_request =
  aq_action :: string
  aq_description :: string
  aq_risk :: string
  aq_targets :: "string list"

record mutation_result =
  mr_ok :: bool
  mr_status :: string
  mr_transaction :: string
  mr_reason :: string
  mr_touched :: "string list"
  mr_error :: string
  mr_verification :: "verification_outcome option"
  mr_rollback :: bool

record patch_env =
  pe_approve :: "approval_request \<Rightarrow> bool"
  pe_git_check :: "string \<Rightarrow> disk \<Rightarrow> string option"
  pe_format :: "string list \<Rightarrow> disk \<Rightarrow> disk"
  pe_verify :: "string \<Rightarrow> disk \<Rightarrow> verification_outcome \<times> disk"
  pe_impact :: "string \<Rightarrow> string"

definition failed_result :: "string \<Rightarrow> string \<Rightarrow> mutation_result" where
  "failed_result status error = \<lparr>mr_ok = False, mr_status = status, mr_transaction = [], mr_reason = [],
     mr_touched = [], mr_error = error, mr_verification = None, mr_rollback = False\<rparr>"

definition change_plan_approval :: "change_plan \<Rightarrow> approval_request" where
  "change_plan_approval plan =
     (let secret = filter is_secret_file (touched_paths plan)
      in \<lparr>aq_action = (if cp_destructive plan then ''file_delete'' else ''file_edit''),
          aq_description = cp_reason plan @ (if secret = [] then [] else
            '' (WARNING: touches secret-like file(s): '' @ join '', '' secret @ '')''),
          aq_risk = (if cp_destructive plan \<or> secret \<noteq> [] then ''high'' else ''medium''),
          aq_targets = touched_paths plan\<rparr>)"

definition plan_defect :: "string list \<Rightarrow> operation \<Rightarrow> string option" where
  "plan_defect diff_paths op =
     (if op_kind_of op = APPLY_PATCH \<and> op_path op \<notin> set diff_paths then
        Some (''apply_patch operation declares path '' @ op_path op @ '' but the supplied patch has no hunk for it.'')
      else if op_kind_of op = EDIT_FILE \<and> op_path op \<notin> set diff_paths \<and> strip (op_content op) = [] then
        Some (''edit_file for '' @ op_path op @ '' needs either inline '' @ quoted ''content'' @ '' or a matching patch hunk.'')
      else None)"

fun run_operations :: "(string \<Rightarrow> string) \<Rightarrow> sandbox \<Rightarrow> string \<Rightarrow> string list \<Rightarrow> operation list \<Rightarrow> string list tx_eff" where
  "run_operations impact sb tx diff_paths [] = ret []"
| "run_operations impact sb tx diff_paths (op # ops) =
     (if op_kind_of op = APPLY_PATCH then run_operations impact sb tx diff_paths ops
      else if op_kind_of op \<in> {CREATE_FILE, EDIT_FILE} \<and> op_path op \<in> set diff_paths
        then run_operations impact sb tx diff_paths ops
      else
        seq (run_file_operation impact sb tx op) (\<lambda>outcome.
        if \<not> mo_ok outcome then raise (DiffValidationError (mo_error outcome))
        else
          seq (run_operations impact sb tx diff_paths ops) (\<lambda>touched.
          ret (mo_path outcome # (if mo_dest outcome = [] then [] else [mo_dest outcome]) @ touched))))"

definition apply_plan :: "(string \<Rightarrow> string) \<Rightarrow> sandbox \<Rightarrow> string \<Rightarrow> change_plan \<Rightarrow> string \<Rightarrow> string list tx_eff" where
  "apply_plan impact sb tx plan patch_text =
     seq (if strip patch_text = [] then ret []
          else lift_result (rbind (parse_file_patches patch_text (Some sb)) (\<lambda>ps. Inr (patch_paths ps)))) (\<lambda>diff_paths.
     case List.map_filter (plan_defect diff_paths) (cp_operations plan) of
       e # _ \<Rightarrow> raise (DiffValidationError e)
     | [] \<Rightarrow>
         seq (if strip patch_text = [] then ret [] else apply_patch_with_transaction sb tx patch_text) (\<lambda>touched.
         seq (run_operations impact sb tx diff_paths (cp_operations plan)) (\<lambda>more.
         ret (touched @ more))))"

definition is_stalled :: "string \<Rightarrow> verification_outcome \<Rightarrow> bool" where
  "is_stalled previous v \<longleftrightarrow> \<not> vo_passed v \<and> vo_signature v \<noteq> [] \<and> previous \<noteq> [] \<and> previous = vo_signature v"

definition no_verification :: verification_outcome where
  "no_verification = \<lparr>vo_ran = False, vo_command = [], vo_exit = None, vo_stdout = [], vo_stderr = [],
     vo_packet = None, vo_signature = [], vo_stalled = False\<rparr>"

definition previous_signature :: "disk \<Rightarrow> string" where
  "previous_signature d = (case journal_last d of None \<Rightarrow> [] | Some e \<Rightarrow>
     saved_signature (je_verification e))"

definition verify_change :: "patch_env \<Rightarrow> change_plan \<Rightarrow> verification_outcome tx_eff" where
  "verify_change env plan =
     (if strip (cp_verification plan) = [] then ret no_verification
      else
        seq (\<lambda>d. case pe_verify env (strip (cp_verification plan)) d of (v, d) \<Rightarrow> (Inr v, d)) (\<lambda>v.
        seq (gets previous_signature) (\<lambda>previous.
        ret (v\<lparr>vo_stalled := is_stalled previous v\<rparr>))))"

text \<open>The end of a request whose operations have been applied.\<close>

definition conclude_change :: "patch_env \<Rightarrow> string \<Rightarrow> change_plan \<Rightarrow> string \<Rightarrow> string list \<Rightarrow> mutation_result tx_eff" where
  "conclude_change env tx plan patch_text touched =
     seq (modify (pe_format env touched)) (\<lambda>_.
     seq (verify_change env plan) (\<lambda>v.
     seq (save_patch tx patch_text) (\<lambda>_.
     seq (save_verification tx (Some (Of_request v))) (\<lambda>_.
     let ok = strip (cp_verification plan) = [] \<or> vo_passed v
     in seq (finalize_transaction tx (if ok then ''applied'' else ''verification_failed'')
               (if ok then [] else ''Verification failed.'')) (\<lambda>m.
        ret (if ok then
            \<lparr>mr_ok = True, mr_status = (if vo_ran v then ''verified'' else ''applied_unverified''),
             mr_transaction = tx, mr_reason = cp_reason plan, mr_touched = mf_touched m, mr_error = [],
             mr_verification = Some v, mr_rollback = True\<rparr>
          else
            \<lparr>mr_ok = False, mr_status = ''verification_failed'', mr_transaction = tx, mr_reason = cp_reason plan,
             mr_touched = mf_touched m,
             mr_error = ''Verification command exited non-zero; change was applied but is not reported as successful.'',
             mr_verification = Some v, mr_rollback = True\<rparr>))))))"

definition caught_by_engine :: "py_error \<Rightarrow> string option" where
  "caught_by_engine e = (case e of
     DiffValidationError m \<Rightarrow> Some (''DiffValidationError: '' @ m)
   | MutationSafetyError m \<Rightarrow> Some (''MutationSafetyError: '' @ m)
   | OSError m \<Rightarrow> Some (''OSError: '' @ m)
   | _ \<Rightarrow> None)"

text \<open>Everything that is checked before the transaction begins; a message when the request is refused.\<close>

fun first_path_error :: "sandbox \<Rightarrow> string list \<Rightarrow> string option checked" where
  "first_path_error sb [] = Inr None"
| "first_path_error sb (p # ps) = (case validate_mutation_path sb p of
     Inr _ \<Rightarrow> first_path_error sb ps
   | Inl (MutationSafetyError e) \<Rightarrow> Inr (Some e)
   | Inl e \<Rightarrow> Inl e)"

definition patch_refusal :: "patch_env \<Rightarrow> sandbox \<Rightarrow> string \<Rightarrow> disk \<Rightarrow> string option checked" where
  "patch_refusal env sb patch_text d =
     (if strip patch_text = [] then Inr None
      else case parse_file_patches (sanitize_model_diff patch_text) (Some sb) of
        Inl (DiffValidationError e) \<Rightarrow> Inr (Some (''Invalid diff: '' @ e))
      | Inl e \<Rightarrow> Inl e
      | Inr _ \<Rightarrow> Inr (map_option (\<lambda>m. ''git apply --check rejected the patch: '' @ m) (pe_git_check env patch_text d)))"

definition execute_change_request :: "patch_env \<Rightarrow> sandbox \<Rightarrow> json \<Rightarrow> mutation_result tx_eff" where
  "execute_change_request env sb payload = (case parse_change_request payload of
     Inl (ChangeRequestError e) \<Rightarrow> ret (failed_result ''validation_failed'' (''Rejected change request: '' @ e))
   | Inl e \<Rightarrow> raise e
   | Inr (plan, raw_patch) \<Rightarrow>
       let patch_text = sanitize_model_diff raw_patch
       in seq (lift_result (first_path_error sb (touched_paths plan))) (\<lambda>bad. case bad of
            Some e \<Rightarrow> ret (failed_result ''validation_failed'' e)
          | None \<Rightarrow>
              seq (read (patch_refusal env sb patch_text)) (\<lambda>bad. case bad of
                Some e \<Rightarrow> ret (failed_result ''validation_failed'' e)
              | None \<Rightarrow>
                  if \<not> pe_approve env (change_plan_approval plan)
                  then ret (failed_result ''denied'' ''Change request denied by user.'')
                  else
                    seq (begin_transaction (cp_reason plan) (cp_operations plan) (cp_destructive plan)) (\<lambda>tx.
                    seq (catch (seq (apply_plan (pe_impact env) sb tx plan patch_text) (\<lambda>t. ret (Inr t)))
                           (\<lambda>e. case caught_by_engine e of
                              None \<Rightarrow> raise e | Some m \<Rightarrow> ret (Inl m))) (\<lambda>applied. case applied of
                        Inl m \<Rightarrow>
                          seq (finalize_transaction tx ''failed'' (cp_reason plan @ '': '' @ m)) (\<lambda>mf.
                          ret \<lparr>mr_ok = False, mr_status = ''apply_failed'', mr_transaction = tx,
                            mr_reason = cp_reason plan, mr_touched = mf_touched mf,
                            mr_error = cp_reason plan @ '': '' @ m, mr_verification = None, mr_rollback = True\<rparr>)
                      | Inr touched \<Rightarrow> conclude_change env tx plan patch_text touched)))))"

end
