(* ===== verification/RollbackSafety.thy ===== *)
theory RollbackSafety
  imports ChangeRequests
begin

text \<open>
  A transaction can be undone: whatever part of a change plan was applied, the rollback of its
  transaction gives every file of the workspace its old content back. The invariant says that every
  file that may differ is backed up; each operation of the engine keeps it, also when it fails.
\<close>

subsection \<open>The invariant\<close>

definition internal :: "path \<Rightarrow> bool" where
  "internal p \<longleftrightarrow> p \<noteq> [] \<and> hd p = ''.shamsu''"

definition backup_path :: "string \<Rightarrow> string \<Rightarrow> path" where
  "backup_path tx r = tx_dir tx @ backup_rel r"

text \<open>
  The names a plan may touch: the sandbox takes each for its own place, no place is inside another,
  none is a directory or lies below \<open>.shamsu\<close>, the directories of existing files exist, and nothing
  is in the way of the backups.
\<close>

definition tidy :: "sandbox \<Rightarrow> string \<Rightarrow> nodes \<Rightarrow> string list \<Rightarrow> bool" where
  "tidy sb tx base names \<longleftrightarrow>
     (\<forall>r \<in> set names. sb r = Inr (posix_parts r) \<and> posix_parts r \<noteq> [] \<and> \<not> internal (posix_parts r) \<and>
        \<not> is_dir base (posix_parts r) \<and> \<not> is_dir base (backup_path tx r) \<and>
        sb (''.shamsu/trash/'' @ tx @ ''/'' @ r) = Inr (trash_root @ tx # posix_parts r) \<and>
        (is_file base (posix_parts r) \<longrightarrow> (\<forall>q. strict_prefix q (posix_parts r) \<longrightarrow> is_dir base q)) \<and>
        (\<forall>r' \<in> set names. prefix (posix_parts r) (posix_parts r') \<longrightarrow> r = r'))"

text \<open>What the manifest holds of one file: that there was none, or its backup.\<close>

definition saved :: "string \<Rightarrow> nodes \<Rightarrow> manifest \<Rightarrow> nodes \<Rightarrow> string \<Rightarrow> bool" where
  "saved tx base m ns r \<longleftrightarrow> (case content_at base (posix_parts r) of
     None \<Rightarrow> (\<forall>h. map_of (mf_before m) r \<noteq> Some (Some h))
   | Some c \<Rightarrow> (\<exists>h. map_of (mf_before m) r = Some (Some h)) \<and>
       map_of (mf_backups m) r = Some (backup_rel r) \<and> content_at ns (backup_path tx r) = Some c)"

text \<open>\<open>R\<close> holds names that are backed up already.\<close>

definition good :: "string \<Rightarrow> nodes \<Rightarrow> string list \<Rightarrow> string set \<Rightarrow> manifest \<Rightarrow> nodes \<Rightarrow> bool" where
  "good tx base names R m ns \<longleftrightarrow>
     set (mf_touched m) \<subseteq> set names \<and> R \<subseteq> set (mf_touched m) \<and>
     (\<forall>r. map_of (mf_before m) r \<noteq> None \<longleftrightarrow> r \<in> set (mf_touched m)) \<and>
     (\<forall>r \<in> set (mf_touched m). saved tx base m ns r) \<and>
     (\<forall>p. \<not> internal p \<longrightarrow> p \<notin> posix_parts ` set (mf_touched m) \<longrightarrow> content_at ns p = content_at base p) \<and>
     (\<forall>r \<in> set names. \<not> is_dir ns (posix_parts r)) \<and>
     (\<forall>r \<in> set names. \<not> is_dir ns (backup_path tx r)) \<and>
     (\<forall>q. \<not> internal q \<longrightarrow> is_dir base q \<longrightarrow> is_dir ns q)"

definition tracked :: "string \<Rightarrow> nodes \<Rightarrow> string list \<Rightarrow> string set \<Rightarrow> disk \<Rightarrow> bool" where
  "tracked tx base names R d \<longleftrightarrow> (\<exists>m. load_manifest d tx = Some m \<and> mf_status m \<noteq> ''rolled_back'' \<and>
     good tx base names R m (dk_nodes d))"

text \<open>
  Judgements on computations of the engine: started with \<open>R\<close> backed up, they end with \<open>R'\<close> backed up,
  and at least with the invariant when they raise.
\<close>

definition keeps :: "string \<Rightarrow> nodes \<Rightarrow> string list \<Rightarrow> string set \<Rightarrow> 'a tx_eff \<Rightarrow> ('a \<Rightarrow> string set) \<Rightarrow> bool" where
  "keeps tx base names R m R' \<longleftrightarrow> (\<forall>d. tracked tx base names R d \<longrightarrow>
     (case m d of (Inr x, e) \<Rightarrow> tracked tx base names (R' x) e | (Inl _, e) \<Rightarrow> tracked tx base names {} e))"

lemma tracked_less: "tracked tx base names R d \<Longrightarrow> R' \<subseteq> R \<Longrightarrow> tracked tx base names R' d"
  unfolding tracked_def good_def by blast

lemma keeps_seq:
  assumes "keeps tx base names R m S" and "\<And>x. keeps tx base names (S x) (f x) T"
  shows "keeps tx base names R (seq m f) T"
  unfolding keeps_def
proof (intro allI impI)
  fix d assume "tracked tx base names R d"
  then show "case seq m f d of (Inr x, e) \<Rightarrow> tracked tx base names (T x) e | (Inl _, e) \<Rightarrow> tracked tx base names {} e"
    using assms unfolding keeps_def seq_def by (fastforce split: prod.splits sum.splits)
qed

lemma keeps_pure [intro]:
  "keeps tx base names R (gets f) (\<lambda>_. R)" "keeps tx base names R (read g) (\<lambda>_. R)"
  "keeps tx base names R (lift_result r) (\<lambda>_. R)"
  "R' x \<subseteq> R \<Longrightarrow> keeps tx base names R (ret x) R'" "keeps tx base names R (raise e) R''"
  by (auto simp: keeps_def intro: tracked_less split: sum.splits)

lemma known_here [simp]: "seq (lift_result (Inr x)) f = f x" "seq (lift_result (Inl e)) f = raise e"
  by (rule ext, simp)+

lemma keeps_if:
  "keeps tx base names R m R' \<Longrightarrow> keeps tx base names R n R' \<Longrightarrow> keeps tx base names R (if b then m else n) R'"
  by simp

lemma keeps_weaken: "keeps tx base names R m S \<Longrightarrow> (\<And>x. T x \<subseteq> S x) \<Longrightarrow> keeps tx base names R m T"
  unfolding keeps_def by (fastforce split: prod.splits sum.splits intro: tracked_less)

subsection \<open>Changes of nodes\<close>

definition harmless :: "string \<Rightarrow> string list \<Rightarrow> string set \<Rightarrow> nodes \<Rightarrow> nodes \<Rightarrow> bool" where
  "harmless tx names R ns ms \<longleftrightarrow>
     (\<forall>p. \<not> internal p \<longrightarrow> p \<notin> posix_parts ` R \<longrightarrow> content_at ms p = content_at ns p) \<and>
     (\<forall>r \<in> set names. content_at ms (backup_path tx r) = content_at ns (backup_path tx r)) \<and>
     (\<forall>r \<in> set names. is_dir ms (posix_parts r) \<longrightarrow> is_dir ns (posix_parts r)) \<and>
     (\<forall>r \<in> set names. is_dir ms (backup_path tx r) \<longrightarrow> is_dir ns (backup_path tx r)) \<and>
     (\<forall>q. \<not> internal q \<longrightarrow> is_dir ns q \<longrightarrow> is_dir ms q)"

lemma good_nodes:
  assumes "good tx base names R m ns" and "harmless tx names R ns ms"
  shows "good tx base names R m ms"
proof -
  have g: "set (mf_touched m) \<subseteq> set names" "R \<subseteq> set (mf_touched m)"
      "\<And>r. r \<in> set (mf_touched m) \<Longrightarrow> saved tx base m ns r"
      "\<And>p. \<not> internal p \<Longrightarrow> p \<notin> posix_parts ` set (mf_touched m) \<Longrightarrow> content_at ns p = content_at base p"
    using assms(1) unfolding good_def by blast+
  have h: "\<And>p. \<not> internal p \<Longrightarrow> p \<notin> posix_parts ` R \<Longrightarrow> content_at ms p = content_at ns p"
      "\<And>r. r \<in> set names \<Longrightarrow> content_at ms (backup_path tx r) = content_at ns (backup_path tx r)"
    using assms(2) unfolding harmless_def by blast+
  have "saved tx base m ms r" if "r \<in> set (mf_touched m)" for r
    using g(3)[OF that] h(2)[of r] g(1) that by (auto simp: saved_def split: option.splits)
  moreover have "content_at ms p = content_at base p"
    if "\<not> internal p" "p \<notin> posix_parts ` set (mf_touched m)" for p
    using g(2) g(4)[OF that] h(1)[OF that(1)] that(2) by (metis image_mono subsetD)
  moreover have "\<not> is_dir ms (posix_parts r) \<and> \<not> is_dir ms (backup_path tx r)" if "r \<in> set names" for r
    using assms that unfolding good_def harmless_def by blast
  moreover have "is_dir ms q" if "\<not> internal q" "is_dir base q" for q
    using assms that unfolding good_def harmless_def by blast
  moreover have "\<forall>r. map_of (mf_before m) r \<noteq> None \<longleftrightarrow> r \<in> set (mf_touched m)"
    using assms(1) unfolding good_def by blast
  ultimately show ?thesis
    using g(1,2) unfolding good_def by simp
qed

lemma tracked_nodes:
  assumes "tracked tx base names R d" and "harmless tx names R (dk_nodes d) ns"
  shows "tracked tx base names R (d\<lparr>dk_nodes := ns\<rparr>)"
  using assms good_nodes unfolding tracked_def by (fastforce simp: load_manifest_def)

lemma keeps_on_nodes:
  assumes "\<And>ns. (\<forall>r \<in> set names. \<not> is_dir ns (posix_parts r)) \<Longrightarrow> harmless tx names R ns (snd (m ns))"
  shows "keeps tx base names R (on_nodes m) (\<lambda>_. R)"
  unfolding keeps_def on_nodes_def
proof (intro allI impI)
  fix d assume t: "tracked tx base names R d"
  then have "\<forall>r \<in> set names. \<not> is_dir (dk_nodes d) (posix_parts r)" unfolding tracked_def good_def by blast
  from tracked_nodes[OF t assms[OF this]] show "case case m (dk_nodes d) of (r, ns) \<Rightarrow> (r, d\<lparr>dk_nodes := ns\<rparr>) of
      (Inr x, e) \<Rightarrow> tracked tx base names R e | (Inl _, e) \<Rightarrow> tracked tx base names {} e"
    by (auto split: prod.splits sum.splits intro: tracked_less)
qed

subsection \<open>The operations on nodes\<close>

lemma internal_dirs [simp]: "internal (backup_path tx r)" "internal (trash_root @ p)"
  by (auto simp: internal_def backup_path_def tx_dir_def trash_root_def)

lemma internal_prefix: "prefix q p \<Longrightarrow> q \<noteq> [] \<Longrightarrow> internal q = internal p"
  by (auto simp: internal_def prefix_def)

lemma backup_path_prefix: "prefix (backup_path tx r) (backup_path tx r') \<longleftrightarrow> prefix (posix_parts r) (posix_parts r')"
  by (simp add: backup_path_def backup_rel_def)

lemma tidy_name:
  assumes "tidy sb tx base names" and "r \<in> set names"
  shows "sb r = Inr (posix_parts r)" "posix_parts r \<noteq> []" "\<not> internal (posix_parts r)"
    "\<not> is_dir base (posix_parts r)" "\<not> is_dir base (backup_path tx r)"
    "sb (''.shamsu/trash/'' @ tx @ ''/'' @ r) = Inr (trash_root @ tx # posix_parts r)"
    "r' \<in> set names \<Longrightarrow> prefix (posix_parts r) (posix_parts r') \<longleftrightarrow> r = r'"
  using assms unfolding tidy_def by auto

lemma tidy_eq:
  assumes "tidy sb tx base names" and "r \<in> set names" and "r' \<in> set names"
  shows "posix_parts r = posix_parts r' \<longleftrightarrow> r = r'" "backup_path tx r = backup_path tx r' \<longleftrightarrow> r = r'"
    "posix_parts r \<noteq> backup_path tx r'" "backup_path tx r \<noteq> posix_parts r'"
proof -
  show eq: "posix_parts r = posix_parts r' \<longleftrightarrow> r = r'"
    using tidy_name(7)[OF assms] by auto
  then show "backup_path tx r = backup_path tx r' \<longleftrightarrow> r = r'"
    by (simp add: backup_path_def backup_rel_def)
  show "posix_parts r \<noteq> backup_path tx r'" "backup_path tx r \<noteq> posix_parts r'"
    using tidy_name(3)[OF assms(1,2)] tidy_name(3)[OF assms(1,3)] internal_dirs(1) by metis+
qed

lemma content_lookup: "lookup ms p = lookup ns q \<Longrightarrow> content_at ms p = content_at ns q"
  by (simp add: content_at_def)

lemma make_dirs_content: "make_dirs b p ns = (r, ms) \<Longrightarrow> content_at ms q = content_at ns q"
  using make_dirs_lookup[of b p ns r ms q] by (auto simp: content_at_def)

lemma make_dirs_is_dir:
  "make_dirs b p ns = (r, ms) \<Longrightarrow> is_dir ms q \<longleftrightarrow> is_dir ns q \<or> (is_dir ms q \<and> prefix q (b @ p))"
  using make_dirs_lookup[of b p ns r ms q] by (auto simp: is_dir_def)

lemma harmless_mkdir:
  assumes "\<And>r. r \<in> set names \<Longrightarrow> \<not> prefix (posix_parts r) p \<and> \<not> prefix (backup_path tx r) p"
  shows "harmless tx names R ns (snd (mkdir_parents p ns))"
proof -
  obtain x ms where x: "mkdir_parents p ns = (x, ms)" by fastforce
  note c = make_dirs_content[OF x[unfolded mkdir_parents_def]] make_dirs_is_dir[OF x[unfolded mkdir_parents_def]]
  have "is_dir ms q \<Longrightarrow> \<not> prefix q p \<Longrightarrow> is_dir ns q" "is_dir ns q \<Longrightarrow> is_dir ms q" for q
    using c(2)[of q] by auto
  with assms x c(1) show ?thesis by (auto simp: harmless_def)
qed

text \<open>A change of the one place of a name that is backed up.\<close>

lemma harmless_place:
  assumes t: "tidy sb tx base names" "r \<in> set names" "r \<in> R"
    and same: "\<And>q. q \<noteq> posix_parts r \<Longrightarrow> lookup ms q = lookup ns q"
    and place: "\<not> is_dir ns (posix_parts r)" "\<not> is_dir ms (posix_parts r)"
  shows "harmless tx names R ns ms"
proof -
  have "is_dir ms q = is_dir ns q" for q
    using same[of q] place by (cases "q = posix_parts r") (auto simp: is_dir_def)
  moreover have "content_at ms q = content_at ns q" if "q \<noteq> posix_parts r" for q
    using content_lookup[OF same[OF that]] .
  ultimately show ?thesis
    using t(2,3) tidy_eq(4)[OF t(1) _ t(2)] unfolding harmless_def by blast
qed

lemma keeps_write:
  assumes t: "tidy sb tx base names" "r \<in> set names" "r \<in> R"
  shows "keeps tx base names R (on_nodes (write_text (posix_parts r) c)) (\<lambda>_. R)"
proof (rule keeps_on_nodes)
  fix ns assume n: "\<forall>r \<in> set names. \<not> is_dir ns (posix_parts r)"
  obtain x ms where x: "write_text (posix_parts r) c ns = (x, ms)" by fastforce
  have "harmless tx names R ns ms"
    by (rule harmless_place[OF t])
      (use write_text_lookup[OF x] n t(2) in \<open>auto simp: is_dir_def split: if_splits\<close>)
  with x show "harmless tx names R ns (snd (write_text (posix_parts r) c ns))" by simp
qed

lemma keeps_unlink:
  assumes t: "tidy sb tx base names" "r \<in> set names" "r \<in> R"
  shows "keeps tx base names R (on_nodes (unlink (posix_parts r))) (\<lambda>_. R)"
proof (rule keeps_on_nodes)
  fix ns assume n: "\<forall>r \<in> set names. \<not> is_dir ns (posix_parts r)"
  obtain x ms where x: "unlink (posix_parts r) ns = (x, ms)" by fastforce
  have "harmless tx names R ns ms"
    by (rule harmless_place[OF t])
      (use unlink_lookup[OF x] n t(2) in \<open>auto simp: is_dir_def split: if_splits\<close>)
  with x show "harmless tx names R ns (snd (unlink (posix_parts r) ns))" by simp
qed

lemma not_prefix_butlast: "p \<noteq> [] \<Longrightarrow> prefix q (butlast p) \<Longrightarrow> prefix q p \<and> q \<noteq> p"
  using prefix_order.trans[OF _ prefixeq_butlast, of q p] prefix_length_le[of q "butlast p"]
  by (cases p) (auto split: if_splits)

lemma no_way_through:
  assumes t: "tidy sb tx base names" "r \<in> set names" "r' \<in> set names"
  shows "\<not> prefix (posix_parts r') (butlast (posix_parts r))" "\<not> prefix (backup_path tx r') (posix_parts r)"
    "\<not> prefix (posix_parts r') (butlast (backup_path tx r))" "\<not> prefix (backup_path tx r') (butlast (backup_path tx r))"
    "\<not> prefix (posix_parts r') (butlast (trash_root @ tx # posix_parts r))"
    "\<not> prefix (backup_path tx r') (trash_root @ p)"
proof -
  have ne: "backup_path tx r' \<noteq> []" "backup_path tx r \<noteq> []" "posix_parts r' \<noteq> []" "posix_parts r \<noteq> []"
    using tidy_name(2)[OF t(1)] t(2,3) by (auto simp: backup_path_def tx_dir_def)
  have i: "\<not> internal (posix_parts r)" "\<not> internal (posix_parts r')" "internal (backup_path tx r)" "internal (backup_path tx r')"
      "internal (trash_root @ tx # posix_parts r)"
    using tidy_name(3)[OF t(1)] t(2,3) by simp_all
  show "\<not> prefix (posix_parts r') (butlast (posix_parts r))"
    using not_prefix_butlast[OF ne(4)] tidy_name(7)[OF t(1,3,2)] by blast
  show "\<not> prefix (backup_path tx r') (posix_parts r)"
    using internal_prefix[OF _ ne(1)] i by blast
  show "\<not> prefix (posix_parts r') (butlast (backup_path tx r))"
    using not_prefix_butlast[OF ne(2)] internal_prefix[OF _ ne(3)] i by blast
  show "\<not> prefix (backup_path tx r') (butlast (backup_path tx r))"
    using not_prefix_butlast[OF ne(2)] backup_path_prefix[of tx r' r] tidy_name(7)[OF t(1,3,2)] by blast
  show "\<not> prefix (posix_parts r') (butlast (trash_root @ tx # posix_parts r))"
    using not_prefix_butlast[of "trash_root @ tx # posix_parts r"] internal_prefix[OF _ ne(3)] i by blast
  show "\<not> prefix (backup_path tx r') (trash_root @ p)"
    by (simp add: backup_path_def tx_dir_def trash_root_def)
qed

lemma keeps_mkdir:
  assumes t: "tidy sb tx base names" "r \<in> set names"
  shows "keeps tx base names R (on_nodes (mkdir_parents (butlast (posix_parts r)))) (\<lambda>_. R)"
    "keeps tx base names R (on_nodes (mkdir_parents (butlast (backup_path tx r)))) (\<lambda>_. R)"
    "keeps tx base names R (on_nodes (mkdir_parents (butlast (trash_root @ tx # posix_parts r)))) (\<lambda>_. R)"
proof -
  note way = no_way_through[OF t]
  have p: "\<not> prefix q (butlast p)" if "\<not> prefix q p" for q p :: path
    using that prefix_order.trans[OF _ prefixeq_butlast] by blast
  have last: "butlast (trash_root @ tx # posix_parts r) = trash_root @ butlast (tx # posix_parts r)"
    by (simp add: butlast_append)
  show "keeps tx base names R (on_nodes (mkdir_parents (butlast (posix_parts r)))) (\<lambda>_. R)"
    by (intro keeps_on_nodes harmless_mkdir conjI way(1) p[OF way(2)])
  show "keeps tx base names R (on_nodes (mkdir_parents (butlast (backup_path tx r)))) (\<lambda>_. R)"
    by (intro keeps_on_nodes harmless_mkdir conjI way(3) way(4))
  show "keeps tx base names R (on_nodes (mkdir_parents (butlast (trash_root @ tx # posix_parts r)))) (\<lambda>_. R)"
    unfolding last by (intro keeps_on_nodes harmless_mkdir conjI way(5)[unfolded last] way(6))
qed

lemma move_lookup:
  assumes "move src dst ns = (x, ms)" and "\<not> is_dir ns src" and "src \<noteq> []" and "real_target ns src dst \<noteq> []"
  shows "lookup ms q = lookup ns q \<or> (q = src \<and> lookup ms q = None \<and> lookup ns q \<noteq> Some Dir)
    \<or> (q = real_target ns src dst \<and> (\<exists>c. lookup ms q = Some (File c)) \<and> lookup ns q \<noteq> Some Dir)"
proof (cases x)
  case (Inl e)
  with assms show ?thesis
    by (auto simp: move_def Let_def split: if_splits option.splits node.splits)
next
  case (Inr u)
  with assms obtain c where "lookup ns src = Some (File c)"
    by (auto simp: move_def Let_def is_dir_def split: if_splits option.splits node.splits)
  moreover have "\<not> is_dir ns (real_target ns src dst)"
    using assms Inr by (auto simp: move_def Let_def real_target_def is_dir_def present_def split: if_splits option.splits node.splits)
  ultimately show ?thesis
    using assms Inr by (auto simp: move_def Let_def is_dir_def split: if_splits)
qed

lemma harmless_move:
  assumes t: "tidy sb tx base names" "r \<in> set names" "r \<in> R"
    and run: "move (posix_parts r) dst ns = (x, ms)" and free: "\<not> is_dir ns (posix_parts r)"
    and there: "(\<exists>p. real_target ns (posix_parts r) dst = trash_root @ p) \<or>
      (\<exists>r'. real_target ns (posix_parts r) dst = posix_parts r' \<and> r' \<in> set names \<and> r' \<in> R)"
  shows "harmless tx names R ns ms"
proof -
  define real where "real = real_target ns (posix_parts r) dst"
  have real: "real \<noteq> []" "\<And>r. r \<in> set names \<Longrightarrow> backup_path tx r \<noteq> real" "internal real \<or> real \<in> posix_parts ` R"
    using there tidy_name(2)[OF t(1)] tidy_eq(4)[OF t(1)]
    by (auto simp: real_def trash_root_def backup_path_def tx_dir_def internal_def)
  have l: "lookup ms q = lookup ns q \<or> (q = posix_parts r \<and> lookup ms q = None \<and> lookup ns q \<noteq> Some Dir)
    \<or> (q = real \<and> (\<exists>c. lookup ms q = Some (File c)) \<and> lookup ns q \<noteq> Some Dir)" for q
    using move_lookup[OF run free tidy_name(2)[OF t(1,2)]] real(1) unfolding real_def by blast
  have dir: "is_dir ms q = is_dir ns q" for q
    using l[of q] by (auto simp: is_dir_def)
  have c: "content_at ms q = content_at ns q" if "q \<noteq> posix_parts r" "q \<noteq> real" for q
    using l[of q] that content_lookup by blast
  have "content_at ms p = content_at ns p" if "\<not> internal p" "p \<notin> posix_parts ` R" for p
    using c[of p] that real(3) t(3) by blast
  moreover have "content_at ms (backup_path tx r') = content_at ns (backup_path tx r')" if "r' \<in> set names" for r'
    using c real(2)[OF that] tidy_eq(4)[OF t(1) that t(2)] by blast
  ultimately show ?thesis
    unfolding harmless_def dir by blast
qed

lemma keeps_move:
  assumes t: "tidy sb tx base names" "r \<in> set names" "r \<in> R" "r' \<in> set names" "r' \<in> R"
  shows "keeps tx base names R (on_nodes (move (posix_parts r) (posix_parts r'))) (\<lambda>_. R)"
proof (rule keeps_on_nodes)
  fix ns assume n: "\<forall>r \<in> set names. \<not> is_dir ns (posix_parts r)"
  obtain x ms where x: "move (posix_parts r) (posix_parts r') ns = (x, ms)" by fastforce
  have "real_target ns (posix_parts r) (posix_parts r') = posix_parts r'"
    using n t(4) by (simp add: real_target_def)
  then have "harmless tx names R ns ms"
    using harmless_move[OF t(1-3) x] n t by blast
  with x show "harmless tx names R ns (snd (move (posix_parts r) (posix_parts r') ns))" by simp
qed

lemma keeps_trash:
  assumes t: "tidy sb tx base names" "r \<in> set names" "r \<in> R"
  shows "keeps tx base names R (move_to_trash sb (posix_parts r) tx r) (\<lambda>_. R)"
proof -
  have "keeps tx base names R (on_nodes (move (posix_parts r) (trash_root @ tx # posix_parts r))) (\<lambda>_. R)"
  proof (rule keeps_on_nodes)
    fix ns assume n: "\<forall>r \<in> set names. \<not> is_dir ns (posix_parts r)"
    obtain x ms where x: "move (posix_parts r) (trash_root @ tx # posix_parts r) ns = (x, ms)" by fastforce
    have "\<exists>p. real_target ns (posix_parts r) (trash_root @ tx # posix_parts r) = trash_root @ p"
      by (simp add: real_target_def)
    then have "harmless tx names R ns ms"
      using harmless_move[OF t x] n t(2) by blast
    with x show "harmless tx names R ns (snd (move (posix_parts r) (trash_root @ tx # posix_parts r) ns))" by simp
  qed
  then show ?thesis
    unfolding move_to_trash_def tidy_name(6)[OF t(1,2)]
    by (auto simp: known_here intro!: keeps_seq[where S = "\<lambda>_. R"] keeps_mkdir[OF t(1,2)])
qed

subsection \<open>Backups\<close>

lemma map_of_update [simp]: "map_of (AList.update k v m) r = (if r = k then Some v else map_of m r)"
  by (simp add: update_conv')

lemma good_cong:
  "set (mf_touched m') = set (mf_touched m) \<Longrightarrow> mf_before m' = mf_before m \<Longrightarrow> mf_backups m' = mf_backups m \<Longrightarrow>
   good tx base names R m' ns = good tx base names R m ns"
  by (simp add: good_def saved_def cong: option.case_cong)

lemma keeps_record:
  assumes "r \<in> R"
  shows "keeps tx base names R (record_after sb tx r) (\<lambda>_. R)"
proof -
  have "tracked tx base names R (d\<lparr>dk_manifests := AList.update tx
      (m\<lparr>mf_after := a, mf_touched := add_new (mf_touched m) r\<rparr>) (dk_manifests d)\<rparr>)"
    if "load_manifest d tx = Some m" "mf_status m \<noteq> ''rolled_back''" and g: "good tx base names R m (dk_nodes d)" for d m a
  proof -
    have "R \<subseteq> set (mf_touched m)" using g unfolding good_def by blast
    with assms have "good tx base names R (m\<lparr>mf_after := a, mf_touched := add_new (mf_touched m) r\<rparr>) (dk_nodes d)"
      using g by (subst good_cong[of _ m]) auto
    with that(2) show ?thesis by (simp add: tracked_def load_manifest_def)
  qed
  then show ?thesis
    unfolding keeps_def record_after_def known_manifest_def write_manifest_def seq_def
    by (auto simp: tracked_def split: option.splits)
qed

text \<open>One more name is backed up.\<close>

lemma good_add:
  assumes t: "tidy sb tx base names" "r \<in> set names" and g: "good tx base names R m ns" "r \<notin> set (mf_touched m)"
    and same: "\<And>q. q \<noteq> backup_path tx r \<Longrightarrow> lookup ms q = lookup ns q" "\<not> is_dir ms (backup_path tx r)"
    and m': "mf_before m' = AList.update r h (mf_before m)" "mf_touched m' = add_new (mf_touched m) r"
      "\<And>r'. r' \<noteq> r \<Longrightarrow> map_of (mf_backups m') r' = map_of (mf_backups m) r'"
    and s: "saved tx base m' ms r"
  shows "good tx base names (insert r R) m' ms"
proof -
  have g': "set (mf_touched m) \<subseteq> set names" "R \<subseteq> set (mf_touched m)"
      "\<And>r. map_of (mf_before m) r \<noteq> None \<longleftrightarrow> r \<in> set (mf_touched m)"
      "\<And>r. r \<in> set (mf_touched m) \<Longrightarrow> saved tx base m ns r"
      "\<And>p. \<not> internal p \<Longrightarrow> p \<notin> posix_parts ` set (mf_touched m) \<Longrightarrow> content_at ns p = content_at base p"
      "\<And>r. r \<in> set names \<Longrightarrow> \<not> is_dir ns (posix_parts r) \<and> \<not> is_dir ns (backup_path tx r)"
      "\<And>q. \<not> internal q \<Longrightarrow> is_dir base q \<Longrightarrow> is_dir ns q"
    using g(1) unfolding good_def by blast+
  have c: "content_at ms q = content_at ns q" and d: "is_dir ms q = is_dir ns q" if "q \<noteq> backup_path tx r" for q
    using content_lookup[OF same(1)[OF that]] same(1)[OF that] by (simp_all add: is_dir_def)
  have "saved tx base m' ms r'" if "r' \<in> set (mf_touched m)" for r'
  proof -
    have "r' \<noteq> r" "backup_path tx r' \<noteq> backup_path tx r"
      using that g(2) g'(1) tidy_eq(2)[OF t(1) _ t(2), of r'] by blast+
    with g'(4)[OF that] c m'(1,3) show ?thesis by (simp add: saved_def split: option.splits)
  qed
  moreover have "content_at ms p = content_at base p" if "\<not> internal p" "p \<notin> posix_parts ` set (mf_touched m)" for p
    using g'(5)[OF that] c[of p] that(1) internal_dirs(1) by metis
  moreover have "\<not> is_dir ms (posix_parts r') \<and> \<not> is_dir ms (backup_path tx r')" if "r' \<in> set names" for r'
    using g'(6)[OF that] d same(2) tidy_eq(4)[OF t that] by metis
  moreover have "is_dir ms q" if "\<not> internal q" "is_dir base q" for q
    using g'(7)[OF that] d[of q] that(1) internal_dirs(1) by metis
  ultimately show ?thesis
    using g'(1-3) t(2) s m'(1,2) unfolding good_def by auto
qed

lemma keeps_backup:
  assumes t: "tidy sb tx base names" "r \<in> set names"
  shows "keeps tx base names R (backup_file sb tx r) (\<lambda>_. insert r R)"
  unfolding keeps_def
proof (intro allI impI)
  fix d assume d: "tracked tx base names R d"
  then obtain m where m: "load_manifest d tx = Some m" "mf_status m \<noteq> ''rolled_back''"
      "good tx base names R m (dk_nodes d)"
    unfolding tracked_def by blast
  let ?goal = "case backup_file sb tx r d of (Inr x, e) \<Rightarrow> tracked tx base names (insert r R) e
     | (Inl _, e) \<Rightarrow> tracked tx base names {} e"
  have iff: "map_of (mf_before m) r \<noteq> None \<longleftrightarrow> r \<in> set (mf_touched m)"
    using m(3) unfolding good_def by blast
  have start: "known_manifest tx d = (Inr m, d)"
    by (simp add: known_manifest_def m(1))
  show ?goal
  proof (cases "r \<in> set (mf_touched m)")
    case True
    then have "good tx base names (insert r R) m (dk_nodes d)"
      using m(3) unfolding good_def by blast
    with True iff start m(1,2) show ?thesis
      unfolding backup_file_def seq_Inr[of "known_manifest tx", OF start] by (auto simp: tracked_def)
  next
    case False
    have here: "content_at (dk_nodes d) (posix_parts r) = content_at base (posix_parts r)"
    proof -
      have "posix_parts r \<notin> posix_parts ` set (mf_touched m)"
        using False m(3) tidy_eq(1)[OF t] unfolding good_def by blast
      with tidy_name(3)[OF t] m(3) show ?thesis unfolding good_def by blast
    qed
    show ?thesis
    proof (cases "content_at base (posix_parts r)")
      case None
      let ?m = "m\<lparr>mf_before := AList.update r None (mf_before m), mf_touched := add_new (mf_touched m) r\<rparr>"
      have "good tx base names (insert r R) ?m (dk_nodes d)"
        by (rule good_add[OF t m(3) False]) (use m(3) t(2) None in \<open>auto simp: saved_def good_def\<close>)
      moreover have "backup_file sb tx r d = (Inr (), d\<lparr>dk_manifests := AList.update tx ?m (dk_manifests d)\<rparr>)"
        unfolding backup_file_def seq_Inr[of "known_manifest tx", OF start]
        using False iff None here by (simp add: tidy_name(1)[OF t] hash_at_def write_manifest_def)
      ultimately show ?thesis using m(2) by (simp add: tracked_def load_manifest_def)
    next
      case (Some c)
      let ?m = "m\<lparr>mf_before := AList.update r (Some (dk_digest d c)) (mf_before m),
        mf_backups := AList.update r (backup_rel r) (mf_backups m), mf_touched := add_new (mf_touched m) r\<rparr>"
      obtain x ns where mk: "mkdir_parents (butlast (backup_path tx r)) (dk_nodes d) = (x, ns)" by fastforce
      have "harmless tx names R (dk_nodes d) (snd (mkdir_parents (butlast (backup_path tx r)) (dk_nodes d)))"
        by (intro harmless_mkdir conjI no_way_through[OF t])
      then have g: "good tx base names R m ns"
        using good_nodes[OF m(3)] mk by simp
      obtain y ms where cp: "copy_file (posix_parts r) (backup_path tx r) ns = (y, ms)" by fastforce
      have old: "content_at ns (posix_parts r) = Some c"
        using make_dirs_content[OF mk[unfolded mkdir_parents_def], of "posix_parts r"] here Some by simp
      have free: "\<not> is_dir ns (backup_path tx r)"
        using g t(2) unfolding good_def by blast
      have wr: "write_text (backup_path tx r) c ns = (y, ms)"
        using cp old free by (simp add: copy_file_def real_target_def)
      note look = write_text_lookup[OF wr]
      have run: "backup_file sb tx r d = (case x of Inl e \<Rightarrow> (Inl e, d\<lparr>dk_nodes := ns\<rparr>) | Inr _ \<Rightarrow>
          (case y of Inl e \<Rightarrow> (Inl e, d\<lparr>dk_nodes := ms\<rparr>)
           | Inr _ \<Rightarrow> (Inr (), d\<lparr>dk_nodes := ms, dk_manifests := AList.update tx ?m (dk_manifests d)\<rparr>)))"
        unfolding backup_file_def seq_Inr[of "known_manifest tx", OF start]
        using False iff Some here mk cp
        by (simp add: Let_def tidy_name(1)[OF t] hash_at_def write_manifest_def on_nodes_def seq_def backup_path_def
            split: sum.splits)
      show ?thesis
      proof (cases x)
        case (Inl e)
        with run g m(1,2) show ?thesis
          by (auto simp: tracked_def load_manifest_def good_def)
      next
        case x: (Inr u)
        show ?thesis
        proof (cases y)
          case (Inl e)
          with look have "harmless tx names R ns ms"
            by (simp add: harmless_def content_at_def is_dir_def)
          with good_nodes[OF g] run x Inl m(1,2) show ?thesis
            by (auto simp: tracked_def load_manifest_def good_def)
        next
          case (Inr v)
          then have at: "lookup ms (backup_path tx r) = Some (File c)" using look by simp
          have "good tx base names (insert r R) ?m ms"
            by (rule good_add[OF t g False])
              (use look at Some in \<open>auto simp: saved_def is_dir_def content_at_def split: if_splits\<close>)
          with run x Inr m(2) show ?thesis by (simp add: tracked_def load_manifest_def)
        qed
      qed
    qed
  qed
qed

subsection \<open>The operations of the engine\<close>

lemmas pointwise = ret_simp raise_simp gets_simp lift_result_simp read_simp seq_ret seq_gets seq_raise seq_lift_Inr seq_lift_Inl

lemma keeps_read:
  "keeps tx base names R (on_nodes (read_text p)) (\<lambda>_. R)"
  by (auto simp: keeps_def on_nodes_def read_text_def intro: tracked_less split: sum.splits option.splits)

text \<open>What the outcome of an operation says it touched is backed up.\<close>

definition touched_by :: "string set \<Rightarrow> mutation_outcome \<Rightarrow> string set" where
  "touched_by R o' = (if mo_ok o' then insert (mo_path o') (R \<union> ({mo_dest o'} - {[]})) else R)"

lemma touched_by_simps [simp]:
  "touched_by R (refused op p q e) = R" "touched_by R (mutated op p q n) = insert p (R \<union> ({q} - {[]}))"
  by (simp_all add: touched_by_def refused_def mutated_def)

lemma keeps_with_path:
  assumes "tidy sb tx base names" and "p \<in> set names" and "keeps tx base names R (f (posix_parts p)) (touched_by R)"
  shows "keeps tx base names R (with_path sb op q dest p f) (touched_by R)"
proof -
  have "validate_mutation_path sb p = Inr (posix_parts p) \<or> (\<exists>e. validate_mutation_path sb p = Inl e)"
    using tidy_name(1)[OF assms(1,2)] by (simp add: validate_mutation_path_def rbind_def split: sum.splits)
  then show ?thesis
    using assms(3) by (auto simp: with_path_def keeps_pure simp del: pointwise split: py_error.splits)
qed

lemma keeps_guarded:
  "keeps tx base names R m (touched_by R) \<Longrightarrow> keeps tx base names R (guarded bad (refused op p q e) m) (touched_by R)"
  unfolding guarded_def by (rule keeps_seq[OF keeps_pure(1)]) (auto simp: keeps_pure simp del: pointwise)

lemma keeps_create:
  assumes t: "tidy sb tx base names" "p \<in> set names"
  shows "keeps tx base names R (create_file sb tx p c) (touched_by R)"
  unfolding create_file_def
  by (rule keeps_with_path[OF t], rule keeps_guarded,
      rule keeps_seq[OF keeps_backup[OF t]], rule keeps_seq[OF keeps_mkdir(1)[OF t]],
      rule keeps_seq[OF keeps_write[OF t]], simp, rule keeps_seq[OF keeps_record], simp, rule keeps_pure(4), simp)

lemma keeps_edit:
  assumes t: "tidy sb tx base names" "p \<in> set names"
  shows "keeps tx base names R (edit_file sb tx p c) (touched_by R)"
  unfolding edit_file_def
  by (rule keeps_with_path[OF t], rule keeps_guarded, rule keeps_seq[OF keeps_backup[OF t]],
      rule keeps_seq[OF keeps_write[OF t]], simp, rule keeps_seq[OF keeps_record], simp, rule keeps_pure(4), simp)

lemma keeps_delete:
  assumes t: "tidy sb tx base names" "p \<in> set names"
  shows "keeps tx base names R (delete_file impact sb tx p) (touched_by R)"
  unfolding delete_file_def
  by (rule keeps_with_path[OF t], rule keeps_guarded, rule keeps_seq[OF keeps_backup[OF t]],
      rule keeps_seq[OF keeps_trash[OF t]], simp, rule keeps_seq[OF keeps_record], simp, rule keeps_pure(4), simp)

lemma keeps_relocate:
  assumes t: "tidy sb tx base names" and p: "p \<in> set names" and q: "q \<in> set names"
  shows "keeps tx base names R (relocate impact sb tx op p q) (touched_by R)"
  unfolding relocate_def
  by (rule keeps_with_path[OF t p], rule keeps_with_path[OF t q], rule keeps_guarded, rule keeps_guarded,
      rule keeps_seq[OF keeps_backup[OF t p]], rule keeps_seq[OF keeps_backup[OF t q]],
      rule keeps_seq[OF keeps_mkdir(1)[OF t q]], rule keeps_seq[OF keeps_move[OF t p _ q]], simp, simp,
      rule keeps_seq[OF keeps_record], simp, rule keeps_seq[OF keeps_record], simp, rule keeps_pure(4), auto)

definition operation_covered :: "string list \<Rightarrow> operation \<Rightarrow> bool" where
  "operation_covered names op \<longleftrightarrow> op_kind_of op \<noteq> CREATE_DIRECTORY \<and>
     (op_kind_of op \<noteq> APPLY_PATCH \<longrightarrow> op_path op \<in> set names) \<and>
     (op_kind_of op \<in> {RENAME_FILE, MOVE_FILE} \<longrightarrow> op_dest op \<in> set names)"

definition patch_covered :: "string list \<Rightarrow> file_patch \<Rightarrow> bool" where
  "patch_covered names p \<longleftrightarrow> {fp_old p, fp_new p} - {dev_null} \<subseteq> set names"

lemma keeps_operation:
  "tidy sb tx base names \<Longrightarrow> operation_covered names op \<Longrightarrow>
   keeps tx base names R (run_file_operation impact sb tx op) (touched_by R)"
  by (cases "op_kind_of op")
    (auto simp: operation_covered_def keeps_pure keeps_create keeps_edit keeps_delete keeps_relocate simp del: pointwise)

lemma keeps_operations:
  assumes t: "tidy sb tx base names"
  shows "list_all (operation_covered names) ops \<Longrightarrow>
    keeps tx base names R (run_operations impact sb tx diff_paths ops) (\<lambda>ts. R \<union> set ts)"
proof (induction ops arbitrary: R)
  case Nil
  show ?case unfolding run_operations.simps by (rule keeps_pure(4)) simp
next
  case (Cons op ops)
  have "keeps tx base names R (seq (run_file_operation impact sb tx op) (\<lambda>outcome.
        if \<not> mo_ok outcome then raise (DiffValidationError (mo_error outcome))
        else seq (run_operations impact sb tx diff_paths ops) (\<lambda>touched.
          ret (mo_path outcome # (if mo_dest outcome = [] then [] else [mo_dest outcome]) @ touched)))) (\<lambda>ts. R \<union> set ts)"
  proof (rule keeps_seq[OF keeps_operation[OF t]])
    show "operation_covered names op" using Cons.prems by simp
    fix x
    have "keeps tx base names (touched_by R x) (run_operations impact sb tx diff_paths ops) (\<lambda>ts. touched_by R x \<union> set ts)"
      using Cons by simp
    then have "mo_ok x \<Longrightarrow> keeps tx base names (touched_by R x) (seq (run_operations impact sb tx diff_paths ops) (\<lambda>touched.
          ret (mo_path x # (if mo_dest x = [] then [] else [mo_dest x]) @ touched))) (\<lambda>ts. R \<union> set ts)"
      by (rule keeps_seq) (rule keeps_pure(4), auto simp: touched_by_def)
    then show "keeps tx base names (touched_by R x) (if \<not> mo_ok x then raise (DiffValidationError (mo_error x))
        else seq (run_operations impact sb tx diff_paths ops) (\<lambda>touched.
          ret (mo_path x # (if mo_dest x = [] then [] else [mo_dest x]) @ touched))) (\<lambda>ts. R \<union> set ts)"
      by (cases "mo_ok x") (simp_all add: keeps_pure(5) del: pointwise)
  qed
  with Cons show ?case by (simp del: run_file_operation.simps)
qed

lemma patch_target_cases:
  assumes "tidy sb tx base names" and "p = dev_null \<or> p \<in> set names"
  obtains "p = dev_null" "patch_target sb p = Inr None" | "p \<noteq> dev_null" "p \<in> set names" "patch_target sb p = Inr (Some (posix_parts p))"
  using assms tidy_name(1)[OF assms(1)] by (auto simp: patch_target_def)

lemma keeps_apply_one:
  assumes t: "tidy sb tx base names" and c: "patch_covered names p"
  shows "keeps tx base names R (apply_one sb tx p) (\<lambda>t. insert t R)"
proof -
  have old: "fp_old p = dev_null \<or> fp_old p \<in> set names" and new: "fp_new p = dev_null \<or> fp_new p \<in> set names"
    using c by (auto simp: patch_covered_def)
  have create: "keeps tx base names R
      (seq (backup_file sb tx q) (\<lambda>_. seq (lift_result x) (\<lambda>ls. seq (on_nodes (mkdir_parents (butlast (posix_parts q)))) (\<lambda>_.
       seq (on_nodes (write_text (posix_parts q) (lines_text ls))) (\<lambda>_. seq (record_after sb tx q) (\<lambda>_. ret q)))))) (\<lambda>t. insert t R)"
    if q: "q \<in> set names" for q x
    by (rule keeps_seq[OF keeps_backup[OF t q]], rule keeps_seq[OF keeps_pure(3)], rule keeps_seq[OF keeps_mkdir(1)[OF t q]],
      rule keeps_seq[OF keeps_write[OF t q]], simp, rule keeps_seq[OF keeps_record], simp, rule keeps_pure(4), simp)
  have delete: "keeps tx base names (insert q R)
      (seq (on_nodes (unlink (posix_parts q))) (\<lambda>_. seq (record_after sb tx q) (\<lambda>_. ret q))) (\<lambda>t. insert t R)"
    if q: "q \<in> set names" for q
    by (rule keeps_seq[OF keeps_unlink[OF t q]], simp, rule keeps_seq[OF keeps_record], simp, rule keeps_pure(4), simp)
  have edit: "keeps tx base names (insert q R)
      (seq (if posix_parts q = posix_parts r then ret ()
            else seq (backup_file sb tx r) (\<lambda>_. seq (on_nodes (mkdir_parents (butlast (posix_parts r)))) (\<lambda>_.
                 on_nodes (unlink (posix_parts q))))) (\<lambda>_.
       seq (on_nodes (write_text (posix_parts r) ls)) (\<lambda>_. seq (record_after sb tx q) (\<lambda>_.
       seq (if posix_parts q = posix_parts r then ret () else record_after sb tx r) (\<lambda>_. ret z))))) (\<lambda>t. insert t R)"
    if q: "q \<in> set names" and r: "r \<in> set names" and z: "z = q \<or> z = r" for q r ls z
  proof -
    have "keeps tx base names (insert q R) (if posix_parts q = posix_parts r then ret ()
            else seq (backup_file sb tx r) (\<lambda>_. seq (on_nodes (mkdir_parents (butlast (posix_parts r)))) (\<lambda>_.
                 on_nodes (unlink (posix_parts q))))) (\<lambda>_. {q, r} \<union> R)"
    proof (cases "posix_parts q = posix_parts r")
      case True
      with tidy_eq(1)[OF t q r] show ?thesis by (simp add: keeps_pure insert_commute del: pointwise)
    next
      case False
      have "keeps tx base names (insert q R) (seq (backup_file sb tx r) (\<lambda>_. seq (on_nodes (mkdir_parents (butlast (posix_parts r)))) (\<lambda>_.
                 on_nodes (unlink (posix_parts q))))) (\<lambda>_. insert r (insert q R))"
        by (rule keeps_seq[OF keeps_backup[OF t r]], rule keeps_seq[OF keeps_mkdir(1)[OF t r]], rule keeps_unlink[OF t q]) simp
      with False show ?thesis by (simp add: insert_commute del: pointwise)
    qed
    then show ?thesis
      using z by - (rule keeps_seq, assumption, rule keeps_seq[OF keeps_write[OF t r]], simp, rule keeps_seq[OF keeps_record], simp,
        rule keeps_seq[where S = "\<lambda>_. {q, r} \<union> R"], auto simp del: pointwise intro!: keeps_pure keeps_record)
  qed
  show ?thesis
  proof (cases rule: patch_target_cases[OF t old])
    case 1
    from t new show ?thesis
      by (cases rule: patch_target_cases) (use 1 in \<open>auto simp: apply_one_def is_create_def keeps_pure simp del: pointwise
        intro!: keeps_seq[OF keeps_pure(1)] create\<close>)
  next
    case o: 2
    show ?thesis
    proof (cases rule: patch_target_cases[OF t new])
      case 1
      with o show ?thesis
        by (auto simp: apply_one_def is_create_def is_delete_def keeps_pure simp del: pointwise intro!: keeps_seq[OF keeps_pure(1)]
          keeps_seq[OF keeps_backup[OF t]] keeps_seq[OF keeps_read] keeps_seq[OF keeps_pure(3)] delete)
    next
      case 2
      with o show ?thesis
        by (simp add: apply_one_def is_create_def is_delete_def del: pointwise if_split,
          intro keeps_seq[OF keeps_pure(1)] keeps_if keeps_pure(5) keeps_seq[OF keeps_backup[OF t o(2)]]
            keeps_seq[OF keeps_read] keeps_seq[OF keeps_pure(3)])
          (rule delete[OF o(2)], unfold option.case, rule edit[OF o(2) 2(2)], simp add: display_path_def)
    qed
  qed
qed

lemma keeps_apply_all:
  "tidy sb tx base names \<Longrightarrow> list_all (patch_covered names) ps \<Longrightarrow>
   keeps tx base names R (apply_all sb tx ps) (\<lambda>ts. R \<union> set ts)"
proof (induction ps arbitrary: R)
  case Nil
  show ?case unfolding apply_all.simps by (rule keeps_pure(4)) simp
next
  case (Cons p ps)
  show ?case unfolding apply_all.simps
  proof (rule keeps_seq[OF keeps_apply_one])
    fix t
    have "keeps tx base names (insert t R) (apply_all sb tx ps) (\<lambda>ts. insert t R \<union> set ts)"
      using Cons.IH[of "insert t R"] Cons.prems by (simp only: list.pred_inject)
    then show "keeps tx base names (insert t R) (seq (apply_all sb tx ps) (\<lambda>ts. ret (t # ts))) (\<lambda>ts. R \<union> set ts)"
      by (rule keeps_seq) (rule keeps_pure(4), simp)
  qed (use Cons.prems in simp_all)
qed

text \<open>The names of a plan and of its diff.\<close>

definition plan_covered :: "sandbox \<Rightarrow> string list \<Rightarrow> change_plan \<Rightarrow> string \<Rightarrow> bool" where
  "plan_covered sb names plan patch_text \<longleftrightarrow> list_all (operation_covered names) (cp_operations plan) \<and>
     (case parse_file_patches patch_text (Some sb) of Inl _ \<Rightarrow> True | Inr ps \<Rightarrow> list_all (patch_covered names) ps)"

lemma keeps_apply_plan:
  assumes t: "tidy sb tx base names" and c: "plan_covered sb names plan patch_text"
  shows "keeps tx base names {} (apply_plan impact sb tx plan patch_text) set"
proof -
  have p: "keeps tx base names {} (if strip patch_text = [] then ret [] else apply_patch_with_transaction sb tx patch_text) set"
  proof (cases "parse_file_patches patch_text (Some sb)")
    case (Inl e)
    then show ?thesis
      by (simp add: apply_patch_with_transaction_def keeps_pure del: pointwise)
  next
    case (Inr ps)
    with c have "list_all (patch_covered names) ps" by (simp add: plan_covered_def)
    with Inr keeps_apply_all[OF t, of ps "{}"] show ?thesis
      by (simp add: apply_patch_with_transaction_def keeps_pure del: pointwise)
  qed
  have o: "list_all (operation_covered names) (cp_operations plan)"
    using c by (simp add: plan_covered_def)
  show ?thesis
    unfolding apply_plan_def
  proof (rule keeps_seq[where S = "\<lambda>_. {}"])
    show "keeps tx base names {} (if strip patch_text = [] then ret []
        else lift_result (rbind (parse_file_patches patch_text (Some sb)) (\<lambda>ps. Inr (patch_paths ps)))) (\<lambda>_. {})"
      by (intro keeps_if keeps_pure) simp
  next
    fix diff_paths
    have "keeps tx base names {} (seq (if strip patch_text = [] then ret [] else apply_patch_with_transaction sb tx patch_text)
        (\<lambda>touched. seq (run_operations impact sb tx diff_paths (cp_operations plan)) (\<lambda>more. ret (touched @ more)))) set"
      by (rule keeps_seq[OF p], rule keeps_seq[OF keeps_operations[OF t o]], rule keeps_pure(4)) simp
    then show "keeps tx base names {} (case List.map_filter (plan_defect diff_paths) (cp_operations plan) of
       e # _ \<Rightarrow> raise (DiffValidationError e)
     | [] \<Rightarrow>
         seq (if strip patch_text = [] then ret [] else apply_patch_with_transaction sb tx patch_text) (\<lambda>touched.
         seq (run_operations impact sb tx diff_paths (cp_operations plan)) (\<lambda>more.
         ret (touched @ more)))) set"
      by (cases "List.map_filter (plan_defect diff_paths) (cp_operations plan)")
        (simp_all add: keeps_pure(5) del: pointwise if_split)
  qed
qed

subsection \<open>Restoring\<close>

text \<open>The rollback has restored the names of \<open>done_names\<close>.\<close>

definition restoring :: "string \<Rightarrow> nodes \<Rightarrow> string list \<Rightarrow> manifest \<Rightarrow> string set \<Rightarrow> nodes \<Rightarrow> bool" where
  "restoring tx base names m done_names ns \<longleftrightarrow>
     (\<forall>r \<in> set (mf_touched m). saved tx base m ns r) \<and>
     (\<forall>p. \<not> internal p \<longrightarrow> p \<notin> posix_parts ` (set (mf_touched m) - done_names) \<longrightarrow> content_at ns p = content_at base p) \<and>
     (\<forall>r \<in> set names. \<not> is_dir ns (posix_parts r)) \<and>
     (\<forall>q. \<not> internal q \<longrightarrow> is_dir base q \<longrightarrow> is_dir ns q)"

lemma make_dirs_there:
  "(\<And>q. q \<noteq> [] \<Longrightarrow> prefix q p \<Longrightarrow> is_dir ns (b @ q)) \<Longrightarrow> make_dirs b p ns = (Inr (), ns)"
proof (induction b p arbitrary: ns rule: make_dirs.induct)
  case (2 b x rest)
  have x: "lookup ns (b @ [x]) = Some Dir"
    using "2.prems"[of "[x]"] by (simp add: is_dir_def)
  have "is_dir ns ((b @ [x]) @ q)" if "prefix q rest" for q
    using "2.prems"[of "x # q"] that by simp
  with "2.IH"(2)[of ns] x show ?case by simp
qed simp

lemma restoring_place:
  assumes t: "tidy sb tx base names" "r \<in> set names" and n: "set (mf_touched m) \<subseteq> set names"
    and i: "restoring tx base names m D ns"
    and same: "\<And>q. q \<noteq> posix_parts r \<Longrightarrow> lookup ms q = lookup ns q"
    and place: "\<not> is_dir ms (posix_parts r)" "content_at ms (posix_parts r) = content_at base (posix_parts r)"
  shows "restoring tx base names m (insert r D) ms"
proof -
  have c: "content_at ms q = content_at ns q" and d: "is_dir ms q = is_dir ns q" if "q \<noteq> posix_parts r" for q
    using content_lookup[OF same[OF that]] same[OF that] by (simp_all add: is_dir_def)
  have i': "\<And>r. r \<in> set (mf_touched m) \<Longrightarrow> saved tx base m ns r"
    "\<And>p. \<not> internal p \<Longrightarrow> p \<notin> posix_parts ` (set (mf_touched m) - D) \<Longrightarrow> content_at ns p = content_at base p"
    "\<And>r. r \<in> set names \<Longrightarrow> \<not> is_dir ns (posix_parts r)"
    "\<And>q. \<not> internal q \<Longrightarrow> is_dir base q \<Longrightarrow> is_dir ns q"
    using i unfolding restoring_def by blast+
  have "saved tx base m ms r'" if "r' \<in> set (mf_touched m)" for r'
  proof -
    have "backup_path tx r' \<noteq> posix_parts r"
      using that n tidy_eq(4)[OF t(1) _ t(2)] by blast
    with i'(1)[OF that] c show ?thesis by (simp add: saved_def split: option.splits)
  qed
  moreover have "content_at ms p = content_at base p"
    if "\<not> internal p" "p \<notin> posix_parts ` (set (mf_touched m) - insert r D)" for p
  proof (cases "p = posix_parts r")
    case False
    then have "p \<notin> posix_parts ` (set (mf_touched m) - D)" using that(2) by blast
    with i'(2)[OF that(1)] c[OF False] show ?thesis by simp
  qed (use place in simp)
  moreover have "\<not> is_dir ms (posix_parts r')" if "r' \<in> set names" for r'
    using i'(3)[OF that] d place(1) by metis
  moreover have "is_dir ms q" if "\<not> internal q" "is_dir base q" for q
    using i'(4)[OF that] d[of q] that(2) tidy_name(4)[OF t] by blast
  ultimately show ?thesis unfolding restoring_def by blast
qed

lemma restore_file_runs:
  assumes t: "tidy sb tx base names" and n: "set (mf_touched m) \<subseteq> set names" and r: "r \<in> set (mf_touched m)"
    and i: "restoring tx base names m D (dk_nodes d)"
  shows "\<exists>ns. restore_file sb tx m r d = (Inr None, d\<lparr>dk_nodes := ns\<rparr>) \<and> restoring tx base names m (insert r D) ns"
proof -
  let ?ns = "dk_nodes d" and ?p = "posix_parts r"
  have rn: "r \<in> set names" using n r by blast
  have s: "saved tx base m ?ns r" and nd: "\<not> is_dir ?ns ?p"
    using i r rn unfolding restoring_def by blast+
  show ?thesis
  proof (cases "content_at base ?p")
    case None
    then have b: "map_of (mf_before m) r = None \<or> map_of (mf_before m) r = Some None"
      using s by (cases "map_of (mf_before m) r") (auto simp: saved_def)
    show ?thesis
    proof (cases "is_file ?ns ?p")
      case True
      have u: "unlink ?p ?ns = (Inr (), AList.delete ?p ?ns)"
        using True by (simp add: unlink_def)
      have "restoring tx base names m (insert r D) (AList.delete ?p ?ns)"
        by (rule restoring_place[OF t rn n i])
          (use tidy_name(2)[OF t rn] None in \<open>auto simp: is_dir_def content_at_def\<close>)
      moreover have "restore_file sb tx m r d = (Inr None, d\<lparr>dk_nodes := AList.delete ?p ?ns\<rparr>)"
        using b True u by (auto simp: restore_file_def tidy_name(1)[OF t rn] on_nodes_def seq_def)
      ultimately show ?thesis by blast
    next
      case False
      have "restoring tx base names m (insert r D) ?ns"
        by (rule restoring_place[OF t rn n i]) (use nd None False in \<open>auto simp: is_file_def\<close>)
      moreover have "restore_file sb tx m r d = (Inr None, d\<lparr>dk_nodes := ?ns\<rparr>)"
        using b False nd by (auto simp: restore_file_def tidy_name(1)[OF t rn])
      ultimately show ?thesis by blast
    qed
  next
    case (Some c)
    then obtain h where b: "map_of (mf_before m) r = Some (Some h)" "map_of (mf_backups m) r = Some (backup_rel r)"
        "content_at ?ns (backup_path tx r) = Some c"
      using s by (auto simp: saved_def)
    have dirs: "is_dir ?ns q" if "strict_prefix q ?p" for q
    proof (cases "q = []")
      case False
      have "is_dir base q"
        using that Some t rn unfolding tidy_def is_file_def by auto
      moreover have "\<not> internal q"
        using internal_prefix[of q ?p] False that tidy_name(3)[OF t rn] by auto
      ultimately show ?thesis using i unfolding restoring_def by blast
    qed simp
    have up: "prefix q (butlast ?p) \<Longrightarrow> strict_prefix q ?p" for q
      using not_prefix_butlast[OF tidy_name(2)[OF t rn]] by (auto simp: strict_prefix_def)
    have mk: "mkdir_parents (butlast ?p) ?ns = (Inr (), ?ns)"
      unfolding mkdir_parents_def by (rule make_dirs_there) (simp add: dirs up)
    have wr: "write_text ?p c ?ns = (Inr (), AList.update ?p (File c) ?ns)"
      using nd dirs[OF up[OF prefix_order.refl]] by (simp add: write_text_def)
    have cp: "copy_file (tx_dir tx @ backup_rel r) ?p ?ns = (Inr (), AList.update ?p (File c) ?ns)"
      using b(3) nd wr by (simp add: copy_file_def real_target_def backup_path_def)
    have there: "present ?ns (tx_dir tx @ backup_rel r)"
      using b(3) by (auto simp: present_def content_at_def backup_path_def split: option.splits)
    have "restoring tx base names m (insert r D) (AList.update ?p (File c) ?ns)"
      by (rule restoring_place[OF t rn n i])
        (use tidy_name(2)[OF t rn] Some in \<open>auto simp: is_dir_def content_at_def\<close>)
    moreover have "restore_file sb tx m r d = (Inr None, d\<lparr>dk_nodes := AList.update ?p (File c) ?ns\<rparr>)"
      using b(1,2) there mk cp by (simp add: restore_file_def tidy_name(1)[OF t rn] on_nodes_def seq_def)
    ultimately show ?thesis by blast
  qed
qed

lemma restore_files_run:
  assumes t: "tidy sb tx base names" and n: "set (mf_touched m) \<subseteq> set names"
  shows "set rs \<subseteq> set (mf_touched m) \<Longrightarrow> restoring tx base names m D (dk_nodes d) \<Longrightarrow>
    \<exists>ns. restore_files sb tx m rs d = (Inr None, d\<lparr>dk_nodes := ns\<rparr>) \<and> restoring tx base names m (D \<union> set rs) ns"
proof (induction rs arbitrary: D d)
  case Nil
  then show ?case by (auto intro: exI[of _ "dk_nodes d"])
next
  case (Cons r rs)
  then obtain ns where ns: "restore_file sb tx m r d = (Inr None, d\<lparr>dk_nodes := ns\<rparr>)"
      "restoring tx base names m (insert r D) ns"
    using restore_file_runs[OF t n, of r D d] by auto
  with Cons.IH[of "insert r D" "d\<lparr>dk_nodes := ns\<rparr>"] Cons.prems(1)
  obtain ms where "restore_files sb tx m rs (d\<lparr>dk_nodes := ns\<rparr>) = (Inr None, d\<lparr>dk_nodes := ms\<rparr>)"
      "restoring tx base names m (insert r D \<union> set rs) ms" by auto
  with ns(1) show ?case by (auto simp: seq_def)
qed

lemma rollback_of_restoring:
  assumes t: "tidy sb tx base names" and m: "load_manifest e tx = Some m" "mf_status m \<noteq> ''rolled_back''"
    and n: "set (mf_touched m) \<subseteq> set names" and i: "restoring tx base names m {} (dk_nodes e)"
  shows "\<exists>msg f. rollback_transaction sb tx e = (Inr (True, msg), f) \<and>
    (\<forall>p. \<not> internal p \<longrightarrow> content_at (dk_nodes f) p = content_at base p)"
proof -
  from restore_files_run[OF t n _ i, of "mf_touched m"] obtain ns where ns:
      "restore_files sb tx m (mf_touched m) e = (Inr None, e\<lparr>dk_nodes := ns\<rparr>)"
      "restoring tx base names m (set (mf_touched m)) ns" by auto
  then have "\<not> internal p \<Longrightarrow> content_at ns p = content_at base p" for p
    unfolding restoring_def by simp
  moreover have "finalize_transaction tx ''rolled_back'' [] (e\<lparr>dk_nodes := ns\<rparr>) = (Inr x, f) \<Longrightarrow> dk_nodes f = ns" for x f
    by (auto simp: finalize_transaction_def known_manifest_def write_manifest_def journal_append_def seq_def Let_def
        split: option.splits)
  moreover have "\<exists>x f. finalize_transaction tx ''rolled_back'' [] (e\<lparr>dk_nodes := ns\<rparr>) = (Inr x, f)"
    using m(1) by (simp add: finalize_transaction_def known_manifest_def write_manifest_def journal_append_def seq_def Let_def
        load_manifest_def)
  ultimately show ?thesis
    using m ns(1) by (auto simp: rollback_transaction_def seq_def)
qed

lemma rollback_of_tracked:
  assumes t: "tidy sb tx base names" and e: "tracked tx base names R e"
  shows "\<exists>msg f. rollback_transaction sb tx e = (Inr (True, msg), f) \<and>
    (\<forall>p. \<not> internal p \<longrightarrow> content_at (dk_nodes f) p = content_at base p)"
proof -
  from e obtain m where m: "load_manifest e tx = Some m" "mf_status m \<noteq> ''rolled_back''" "good tx base names R m (dk_nodes e)"
    unfolding tracked_def by blast
  then have "set (mf_touched m) \<subseteq> set names" "restoring tx base names m {} (dk_nodes e)"
    unfolding good_def restoring_def by auto
  from rollback_of_restoring[OF t m(1,2) this] show ?thesis .
qed

subsection \<open>Whole change requests\<close>

definition next_transaction :: "disk \<Rightarrow> string" where
  "next_transaction d = dk_stamp d (dk_ticks d) @ ''-'' @ take 8 (dk_uuid d (dk_drawn d))"

text \<open>
  The formatter rewrites at most the files it is given, and the verification command writes no file of
  the workspace proper.
\<close>

definition tools_stay_local :: "patch_env \<Rightarrow> string \<Rightarrow> string list \<Rightarrow> bool" where
  "tools_stay_local env tx names \<longleftrightarrow>
     (\<forall>ts d. \<exists>ns. pe_format env ts d = d\<lparr>dk_nodes := ns\<rparr> \<and> harmless tx names (set ts) (dk_nodes d) ns) \<and>
     (\<forall>c d. \<exists>ns. snd (pe_verify env c d) = d\<lparr>dk_nodes := ns\<rparr> \<and> harmless tx names {} (dk_nodes d) ns)"

lemma keeps_finalize:
  assumes "status \<noteq> ''rolled_back''"
  shows "keeps tx base names R (finalize_transaction tx status error) (\<lambda>_. R)"
proof -
  have "good tx base names R (m\<lparr>mf_status := status, mf_error := error\<rparr>) ns = good tx base names R m ns" for m ns
    by (rule good_cong) simp_all
  with assms show ?thesis
    by (auto simp: keeps_def finalize_transaction_def known_manifest_def write_manifest_def journal_append_def seq_def
        Let_def tracked_def load_manifest_def split: option.splits)
qed

lemma keeps_save_verification: "keeps tx base names R (save_verification tx v) (\<lambda>_. R)"
proof -
  have "good tx base names R (m\<lparr>mf_verification := v\<rparr>) ns = good tx base names R m ns" for m ns
    by (rule good_cong) simp_all
  then show ?thesis
    by (auto simp: keeps_def save_verification_def known_manifest_def write_manifest_def seq_def tracked_def
        load_manifest_def split: option.splits)
qed

lemma keeps_save_patch: "keeps tx base names R (save_patch tx p) (\<lambda>_. R)"
  by (auto simp: keeps_def save_patch_def tracked_def load_manifest_def)

lemma keeps_conclude:
  assumes "tools_stay_local env tx names"
  shows "keeps tx base names (set touched) (conclude_change env tx plan patch_text touched) (\<lambda>_. {})"
proof -
  have f: "keeps tx base names (set touched) (modify (pe_format env touched)) (\<lambda>_. set touched)"
    unfolding keeps_def
  proof (intro allI impI)
    fix d assume t: "tracked tx base names (set touched) d"
    from assms obtain ns where "pe_format env touched d = d\<lparr>dk_nodes := ns\<rparr>" "harmless tx names (set touched) (dk_nodes d) ns"
      unfolding tools_stay_local_def by blast
    with tracked_nodes[OF t] show "case modify (pe_format env touched) d of
        (Inr x, e) \<Rightarrow> tracked tx base names (set touched) e | (Inl _, e) \<Rightarrow> tracked tx base names {} e"
      by simp
  qed
  have v: "keeps tx base names {} (\<lambda>d. case pe_verify env c d of (v, d) \<Rightarrow> (Inr v, d)) (\<lambda>_. {})" for c
    unfolding keeps_def
  proof (intro allI impI)
    fix d assume t: "tracked tx base names {} d"
    from assms obtain ns where "snd (pe_verify env c d) = d\<lparr>dk_nodes := ns\<rparr>" "harmless tx names {} (dk_nodes d) ns"
      unfolding tools_stay_local_def by blast
    with tracked_nodes[OF t] show "case case pe_verify env c d of (v, d) \<Rightarrow> (Inr v, d) of
        (Inr x, e) \<Rightarrow> tracked tx base names {} e | (Inl _, e) \<Rightarrow> tracked tx base names {} e"
      by (auto split: prod.splits)
  qed
  have w: "keeps tx base names {} (verify_change env plan) (\<lambda>_. {})"
    unfolding verify_change_def by (intro keeps_if keeps_seq[OF v] keeps_seq[OF keeps_pure(1)] keeps_pure(4)) simp_all
  show ?thesis
    unfolding conclude_change_def Let_def
    by (rule keeps_seq[OF keeps_weaken[OF f, of "\<lambda>_. {}"]], simp, rule keeps_seq[OF w], rule keeps_seq[OF keeps_save_patch],
        rule keeps_seq[OF keeps_save_verification], rule keeps_seq[OF keeps_finalize], simp, rule keeps_pure(4), simp)
qed

lemma begin_tracks:
  assumes t: "tidy sb tx (dk_nodes d) names" and tx: "tx = next_transaction d"
    and run: "begin_transaction reason ops destructive d = (Inr x, e)"
  shows "x = tx \<and> tracked tx (dk_nodes d) names {} e"
proof -
  obtain y ns where mk: "mkdir_parents (tx_dir tx) (dk_nodes d) = (y, ns)" by fastforce
  have "\<not> prefix (posix_parts r) (tx_dir tx) \<and> \<not> prefix (backup_path tx r) (tx_dir tx)" if "r \<in> set names" for r
    using internal_prefix[of "posix_parts r" "tx_dir tx"] tidy_name(2,3)[OF t that]
    by (auto simp: backup_path_def backup_rel_def internal_def tx_dir_def)
  from harmless_mkdir[of names "tx_dir tx" tx "{}" "dk_nodes d", OF this] mk
  have h: "harmless tx names {} (dk_nodes d) ns" by simp
  have run': "y = Inr () \<and> x = tx \<and> (\<exists>m. load_manifest e tx = Some m \<and> mf_status m = ''pending'' \<and> mf_touched m = [] \<and>
      mf_before m = []) \<and> dk_nodes e = ns"
    using run mk unfolding begin_transaction_def new_transaction_id_def tx next_transaction_def
    by (auto simp: seq_def on_nodes_def write_manifest_def load_manifest_def split: sum.splits)
  then obtain m where m: "load_manifest e tx = Some m" "mf_status m = ''pending''" "mf_touched m = []" "mf_before m = []"
    by blast
  have "good tx (dk_nodes d) names {} m (dk_nodes d)"
    using m(3,4) tidy_name(4,5)[OF t] by (simp add: good_def)
  with good_nodes[OF this h] m run' show ?thesis by (auto simp: tracked_def)
qed

text \<open>C1. A change request that began a transaction can be undone, however it ended: applied, failed halfway,
  or rejected by its verification. The names of the plan and of its diff are those of files, are plain, distinct and not
  nested, lie outside \<open>.shamsu\<close> and are resolved by the sandbox to themselves; nothing is in the way of their backups;
  the plan makes, moves and deletes no directory; the formatter rewrites at most the files it is given and the
  verification command writes none. Then the rollback of the transaction succeeds and gives every file outside
  \<open>.shamsu\<close> its content back, and takes every file away that was not there. Both conditions on the plan are needed:
  \<open>deleted_directory_is_not_restored\<close>, \<open>second_spelling_spoils_the_backup\<close>.\<close>
theorem rollback_restores_files:
  assumes "execute_change_request env sb payload d = (Inr res, e)"
    and "parse_change_request payload = Inr (plan, raw)"
    and "mr_transaction res = next_transaction d"
    and "tidy sb (next_transaction d) (dk_nodes d) names"
    and "plan_covered sb names plan (sanitize_model_diff raw)"
    and "tools_stay_local env (next_transaction d) names"
  shows "\<exists>msg f. rollback_transaction sb (next_transaction d) e = (Inr (True, msg), f) \<and>
    (\<forall>p. \<not> internal p \<longrightarrow> content_at (dk_nodes f) p = content_at (dk_nodes d) p)"
proof -
  define tx where "tx = next_transaction d"
  define pt where "pt = sanitize_model_diff raw"
  note a = assms[folded tx_def pt_def]
  have ne: "tx \<noteq> []" by (simp add: tx_def next_transaction_def)
  define work where "work tx = seq (catch (seq (apply_plan (pe_impact env) sb tx plan pt) (\<lambda>t. ret (Inr t)))
      (\<lambda>e. case caught_by_engine e of None \<Rightarrow> raise e | Some m \<Rightarrow> ret (Inl m))) (\<lambda>applied. case applied of
        Inl m \<Rightarrow> seq (finalize_transaction tx ''failed'' (cp_reason plan @ '': '' @ m)) (\<lambda>mf.
          ret \<lparr>mr_ok = False, mr_status = ''apply_failed'', mr_transaction = tx,
                            mr_reason = cp_reason plan, mr_touched = mf_touched mf,
                            mr_error = cp_reason plan @ '': '' @ m, mr_verification = None, mr_rollback = True\<rparr>)
      | Inr touched \<Rightarrow> conclude_change env tx plan pt touched)" for tx
  have k: "keeps tx (dk_nodes d) names {} (work tx) (\<lambda>_. {})"
    unfolding work_def
  proof (rule keeps_seq)
    show "keeps tx (dk_nodes d) names {} (catch (seq (apply_plan (pe_impact env) sb tx plan pt) (\<lambda>t. ret (Inr t)))
      (\<lambda>e. case caught_by_engine e of None \<Rightarrow> raise e | Some m \<Rightarrow> ret (Inl m)))
      (\<lambda>a. case a of Inl m \<Rightarrow> {} | Inr ts \<Rightarrow> set ts)"
      using keeps_apply_plan[OF a(4,5), of "pe_impact env"] unfolding keeps_def catch_def seq_def
      by (fastforce split: prod.splits sum.splits option.splits)
  next
    fix x :: "string + string list"
    show "keeps tx (dk_nodes d) names (case x of Inl m \<Rightarrow> {} | Inr ts \<Rightarrow> set ts) (case x of
        Inl m \<Rightarrow> seq (finalize_transaction tx ''failed'' (cp_reason plan @ '': '' @ m)) (\<lambda>mf.
          ret \<lparr>mr_ok = False, mr_status = ''apply_failed'', mr_transaction = tx,
                            mr_reason = cp_reason plan, mr_touched = mf_touched mf,
                            mr_error = cp_reason plan @ '': '' @ m, mr_verification = None, mr_rollback = True\<rparr>)
      | Inr touched \<Rightarrow> conclude_change env tx plan pt touched) (\<lambda>_. {})"
      by (cases x) (simp_all add: keeps_conclude[OF a(6)] keeps_seq[OF keeps_finalize keeps_pure(4)] del: pointwise)
  qed
  have split: "execute_change_request env sb payload =
      seq (lift_result (first_path_error sb (touched_paths plan))) (\<lambda>bad. case bad of
        Some e \<Rightarrow> ret (failed_result ''validation_failed'' e)
      | None \<Rightarrow> seq (read (patch_refusal env sb pt)) (\<lambda>bad. case bad of
          Some e \<Rightarrow> ret (failed_result ''validation_failed'' e)
        | None \<Rightarrow> if \<not> pe_approve env (change_plan_approval plan)
            then ret (failed_result ''denied'' ''Change request denied by user.'')
            else seq (begin_transaction (cp_reason plan) (cp_operations plan) (cp_destructive plan)) work))"
    unfolding execute_change_request_def a(2) sum.case prod.case Let_def pt_def[symmetric] work_def ..
  have "\<exists>x s. begin_transaction (cp_reason plan) (cp_operations plan) (cp_destructive plan) d = (Inr x, s) \<and> work x s = (Inr res, e)"
    using a(1,3) ne unfolding split
    by (auto simp: seq_def failed_result_def split: sum.splits option.splits prod.splits if_splits)
  then obtain x s where s: "begin_transaction (cp_reason plan) (cp_operations plan) (cp_destructive plan) d = (Inr x, s)"
      "work x s = (Inr res, e)" by blast
  with begin_tracks[OF a(4) tx_def s(1)] k have "tracked tx (dk_nodes d) names {} e"
    unfolding keeps_def by auto
  from rollback_of_tracked[OF a(4) this] show ?thesis unfolding tx_def .
qed

subsection \<open>A request, undone\<close>

definition demo_files :: disk where
  "demo_files = \<lparr>dk_nodes = [([''a.txt''], File ''x''), ([''b.txt''], File ''y'')], dk_manifests = [], dk_patches = [],
     dk_journal = [], dk_clock = (\<lambda>_. ''now''), dk_stamp = (\<lambda>_. ''t''), dk_ticks = 0, dk_uuid = (\<lambda>_. ''u''), dk_drawn = 0,
     dk_digest = (\<lambda>c. c)\<rparr>"

definition demo_sandbox :: sandbox where
  "demo_sandbox = validate [''w''] (\<lambda>p. p)"

definition demo_tools :: patch_env where
  "demo_tools = \<lparr>pe_approve = (\<lambda>_. True), pe_git_check = (\<lambda>_ _. None), pe_format = (\<lambda>_ d. d),
     pe_verify = (\<lambda>c d. (no_verification\<lparr>vo_ran := True, vo_exit := Some 1\<rparr>, d)), pe_impact = (\<lambda>_. [])\<rparr>"

definition demo_request :: json where
  "demo_request = JObj [(''change_plan'', JObj [(''reason'', JStr ''tidy up''), (''verification_command'', JStr ''make''), (''operations'', JList [
     JObj [(''op'', JStr ''delete_file''), (''path'', JStr ''a.txt'')],
     JObj [(''op'', JStr ''rename_file''), (''path'', JStr ''b.txt''), (''dest_path'', JStr ''c.txt'')],
     JObj [(''op'', JStr ''create_file''), (''path'', JStr ''d.txt''), (''content'', JStr ''z'')]])])]"


lemma harmless_refl: "harmless tx names R ns ns"
  by (simp add: harmless_def)

lemma demo_tools_local: "tools_stay_local demo_tools tx names"
proof -
  have "\<exists>ns. d = d\<lparr>dk_nodes := ns\<rparr> \<and> harmless tx names R (dk_nodes d) ns" for d :: disk and R
    by (intro exI[of _ "dk_nodes d"]) (simp add: harmless_refl)
  then show ?thesis by (simp add: tools_stay_local_def demo_tools_def)
qed

lemma demo_tidy: "tidy demo_sandbox ''t-u'' (dk_nodes demo_files) [''a.txt'', ''b.txt'', ''c.txt'', ''d.txt'']"
  by (auto simp: tidy_def demo_sandbox_def demo_files_def validate_def Let_def posix_parts_def clean_parts_def
    posix_absolute_def starts_with_def internal_def is_dir_def lookup_def backup_path_def backup_rel_def tx_dir_def
    trash_root_def prefix_def strict_prefix_def Cons_eq_append_conv)

theorem rollback_restores_files_witness:
  "content_at (dk_nodes (snd (rollback_transaction demo_sandbox ''t-u''
     (snd (execute_change_request demo_tools demo_sandbox demo_request demo_files))))) [''a.txt''] = Some ''x''"
proof -
  let ?run = "execute_change_request demo_tools demo_sandbox demo_request demo_files"
  let ?names = "[''a.txt'', ''b.txt'', ''c.txt'', ''d.txt'']"
  have tx: "next_transaction demo_files = ''t-u''" by code_simp
  have "case fst ?run of Inr res \<Rightarrow> mr_transaction res = ''t-u'' | _ \<Rightarrow> False" by code_simp
  then obtain res e where run: "?run = (Inr res, e)" "mr_transaction res = next_transaction demo_files"
    unfolding tx by (cases ?run) (auto split: sum.splits)
  have "case parse_change_request demo_request of Inr (plan, raw) \<Rightarrow>
      plan_covered demo_sandbox ?names plan (sanitize_model_diff raw) | _ \<Rightarrow> False"
    by code_simp
  then obtain plan raw where plan: "parse_change_request demo_request = Inr (plan, raw)"
      "plan_covered demo_sandbox ?names plan (sanitize_model_diff raw)"
    by (auto split: sum.splits)
  have tidy: "tidy demo_sandbox (next_transaction demo_files) (dk_nodes demo_files) ?names"
    unfolding tx by (rule demo_tidy)
  from rollback_restores_files[OF run(1) plan(1) run(2) tidy plan(2) demo_tools_local]
  obtain msg f where "rollback_transaction demo_sandbox ''t-u'' e = (Inr (True, msg), f)"
      "\<not> internal [''a.txt''] \<Longrightarrow> content_at (dk_nodes f) [''a.txt''] = content_at (dk_nodes demo_files) [''a.txt'']"
    unfolding tx by blast
  moreover have "\<not> internal [''a.txt'']" "content_at (dk_nodes demo_files) [''a.txt''] = Some ''x''"
    by code_simp+
  ultimately show ?thesis using run(1) by simp
qed

definition change_of :: "json list \<Rightarrow> string \<Rightarrow> json" where
  "change_of ops patch = JObj [(''change_plan'', JObj [(''reason'', JStr ''why''), (''operations'', JList ops)]), (''patch'', JStr patch)]"

definition undone :: "disk \<Rightarrow> json \<Rightarrow> (py_error + bool \<times> string) \<times> nodes" where
  "undone d request = (case execute_change_request demo_tools demo_sandbox request d of (_, e) \<Rightarrow>
     (case rollback_transaction demo_sandbox ''t-u'' e of (r, f) \<Rightarrow> (r, dk_nodes f)))"

text \<open>A directory that was deleted stays deleted, and the rollback reports success.\<close>

lemma deleted_directory_is_not_restored:
  "case undone (demo_files\<lparr>dk_nodes := [([''d''], Dir), ([''d'', ''a''], File ''x'')]\<rparr>)
      (change_of [JObj [(''op'', JStr ''delete_file''), (''path'', JStr ''d'')]] []) of
     (Inr (ok, _), ns) \<Rightarrow> ok \<and> \<not> present ns [''d''] \<and> content_at ns [''d'', ''a''] = None | _ \<Rightarrow> False"
  by code_simp

text \<open>An empty directory that was there before is removed by undoing a request to create it.\<close>

lemma undo_removes_existing_directory:
  "case undone (demo_files\<lparr>dk_nodes := [([''d''], Dir)]\<rparr>)
      (change_of [JObj [(''op'', JStr ''create_directory''), (''path'', JStr ''d'')]] []) of
     (Inr (ok, _), ns) \<Rightarrow> ok \<and> \<not> present ns [''d''] | _ \<Rightarrow> False"
  by code_simp

text \<open>Two spellings of one file: the second backup overwrites the first with the changed content.\<close>

lemma second_spelling_spoils_the_backup:
  "case undone demo_files
      (change_of [JObj [(''op'', JStr ''edit_file''), (''path'', JStr ''a.txt''), (''content'', JStr ''new'')],
         JObj [(''op'', JStr ''edit_file''), (''path'', JStr ''./a.txt''), (''content'', JStr ''newer'')]] []) of
     (Inr (ok, _), ns) \<Rightarrow> ok \<and> content_at ns [''a.txt''] = Some ''new'' | _ \<Rightarrow> False"
  by code_simp

text \<open>
  The path check of the diff parser admits what the operations refuse, and the hunks are applied: a diff
  can write the files of \<open>.git\<close>.
\<close>

lemma diff_reaches_git_internals:
  "validate_patch_paths dev_null ''.git/hook'' (Some demo_sandbox) = Inr () \<and>
   isl (validate_mutation_path demo_sandbox ''.git/hook'')"
  "case seq (begin_transaction [] [] False) (\<lambda>tx. apply_one demo_sandbox tx
      \<lparr>fp_old = dev_null, fp_new = ''.git/hook'', fp_hunks = [\<lparr>hk_old_start = 0, hk_old_count = 0, hk_new_start = 1, hk_new_count = 1,
         hk_lines = [''+evil'']\<rparr>]\<rparr>) demo_files of
     (Inr p, e) \<Rightarrow> is_file (dk_nodes e) [''.git'', ''hook''] | _ \<Rightarrow> False"
  by code_simp+

end
