(* ===== verification/RequestTypes.thy ===== *)
theory RequestTypes
  imports ChangeRequests
begin

text \<open>
  What the parser of change requests guarantees the engine: whatever the model sends, either a sound
  request comes out or a \<open>ChangeRequestError\<close>; the printed form of a sound request reads back as itself.
\<close>

subsection \<open>Printing\<close>

definition operation_to_dict :: "operation \<Rightarrow> json" where
  "operation_to_dict op = JObj [(''op'', JStr (op_value (op_kind_of op))), (''path'', JStr (op_path op)),
     (''dest_path'', JStr (op_dest op)), (''reason'', JStr (op_reason op)), (''content'', JStr (op_content op))]"

definition change_plan_to_dict :: "change_plan \<Rightarrow> json" where
  "change_plan_to_dict plan = JObj [(''reason'', JStr (cp_reason plan)),
     (''operations'', JList (map operation_to_dict (cp_operations plan))),
     (''verification_command'', JStr (cp_verification plan)), (''destructive'', JBool (cp_destructive plan))]"

definition request_to_dict :: "change_plan \<Rightarrow> string \<Rightarrow> json" where
  "request_to_dict plan patch = JObj [(''change_plan'', change_plan_to_dict plan), (''patch'', JStr patch)]"

subsection \<open>Sound requests\<close>

definition sound_operation :: "operation \<Rightarrow> bool" where
  "sound_operation op \<longleftrightarrow> strip (op_path op) \<noteq> [] \<and>
     (if op_kind_of op \<in> {RENAME_FILE, MOVE_FILE} then strip (op_dest op) \<noteq> [] else True)"

definition sound_request :: "change_plan \<Rightarrow> string \<Rightarrow> bool" where
  "sound_request plan patch \<longleftrightarrow> strip (cp_reason plan) \<noteq> [] \<and> cp_operations plan \<noteq> [] \<and>
     list_all sound_operation (cp_operations plan) \<and>
     (cp_destructive plan \<or> list_all (\<lambda>op. op_kind_of op \<notin> set destructive_ops) (cp_operations plan)) \<and>
     (strip patch \<noteq> [] \<or> list_all (\<lambda>op. op_kind_of op \<noteq> APPLY_PATCH) (cp_operations plan))"

subsection \<open>The parser\<close>

definition request_error :: "py_error + 'a \<Rightarrow> bool" where
  "request_error r = (case r of Inl (ChangeRequestError _) \<Rightarrow> True | Inl _ \<Rightarrow> False | Inr _ \<Rightarrow> True)"

lemma request_error_rbind: "request_error r \<Longrightarrow> (\<And>x. r = Inr x \<Longrightarrow> request_error (f x)) \<Longrightarrow> request_error (rbind r f)"
  by (cases r) (auto simp: request_error_def)

lemma request_error_simps [simp]: "request_error (Inl (ChangeRequestError m))" "request_error (Inr x)"
  by (simp_all add: request_error_def)

lemma require_str_error [simp]: "request_error (require_str d k b)"
  by (auto simp: require_str_def split: option.splits json.splits)

lemma require_str_Inr: "require_str d k b = Inr v \<Longrightarrow> b \<Longrightarrow> strip v \<noteq> []"
  by (auto simp: require_str_def split: option.splits json.splits if_splits)

lemma require_str_there: "dict_get d k = Some (JStr v) \<Longrightarrow> (b \<Longrightarrow> strip v \<noteq> []) \<Longrightarrow> require_str d k b = Inr v"
  by (auto simp: require_str_def)

lemma op_value_inj [simp]: "op_value a = op_value b \<longleftrightarrow> a = b"
  by (cases a; cases b) simp_all

lemma find_kind [simp]: "find (\<lambda>k. k = a) operation_kinds = Some a"
  by (cases a) (simp_all add: operation_kinds_def)

lemma strip_Nil: "strip s = [] \<longleftrightarrow> list_all is_space s"
proof -
  have "strip s = [] \<longleftrightarrow> list_all is_space (dropWhile is_space s)"
    by (simp add: strip_def lstrip_def rstrip_def list_all_iff)
  moreover have "list_all is_space s \<longleftrightarrow> list_all is_space (dropWhile is_space s)"
    by (induction s) simp_all
  ultimately show ?thesis by blast
qed

lemma op_value_shown [simp]: "strip (op_value a) \<noteq> []"
  by (cases a) (simp_all add: strip_Nil is_space_def)

lemma parse_operation_error: "request_error (parse_operation raw)"
  by (auto simp: parse_operation_def intro!: request_error_rbind split: json.splits option.splits)

lemma parse_operation_sound: "parse_operation raw = Inr op \<Longrightarrow> sound_operation op"
  by (auto simp: parse_operation_def rbind_Inr sound_operation_def dest: require_str_Inr
      split: json.splits option.splits if_splits)

lemma parse_operation_printed: "sound_operation op \<Longrightarrow> parse_operation (operation_to_dict op) = Inr op"
  by (cases op) (auto simp: parse_operation_def operation_to_dict_def sound_operation_def require_str_def dict_get_def
      split: if_splits)

lemma parse_operations_error: "request_error (parse_operations xs)"
  by (induction xs) (auto intro!: request_error_rbind parse_operation_error)

lemma parse_operations_sound: "parse_operations xs = Inr ops \<Longrightarrow> list_all sound_operation ops \<and> length ops = length xs"
  by (induction xs arbitrary: ops) (auto simp: rbind_Inr dest: parse_operation_sound)

lemma parse_operations_printed:
  "list_all sound_operation ops \<Longrightarrow> parse_operations (map operation_to_dict ops) = Inr ops"
  by (induction ops) (auto simp: parse_operation_printed)

lemma parse_change_plan_error: "request_error (parse_change_plan raw)"
  by (auto simp: parse_change_plan_def intro!: request_error_rbind parse_operations_error simp del: parse_operations.simps
      split: json.splits option.splits list.splits)

lemma case_operations:
  "(case v of Some (JList (x # xs)) \<Rightarrow> f x xs | _ \<Rightarrow> Inl e) = Inr p \<Longrightarrow> \<exists>x xs. v = Some (JList (x # xs)) \<and> f x xs = Inr p"
  by (auto split: option.splits json.splits list.splits)

lemma case_flag: "(case v of JBool b \<Rightarrow> f b | _ \<Rightarrow> Inl e) = Inr p \<Longrightarrow> \<exists>b. f b = Inr p"
  by (auto split: json.splits)

lemma parse_change_plan_sound:
  assumes "parse_change_plan raw = Inr plan"
  shows "strip (cp_reason plan) \<noteq> [] \<and> cp_operations plan \<noteq> [] \<and> list_all sound_operation (cp_operations plan) \<and>
     (cp_destructive plan \<or> list_all (\<lambda>op. op_kind_of op \<notin> set destructive_ops) (cp_operations plan))"
proof -
  obtain d where d: "raw = JObj d" using assms by (cases raw) (simp_all add: parse_change_plan_def)
  obtain reason where reason: "require_str d ''reason'' True = Inr reason"
    using assms by (cases "require_str d ''reason'' True") (simp_all add: parse_change_plan_def d)
  have "\<exists>x xs. dict_get d ''operations'' = Some (JList (x # xs)) \<and>
      rbind (parse_operations (x # xs)) (\<lambda>ops. rbind (require_str d ''verification_command'' False) (\<lambda>command.
        case (case dict_get d ''destructive'' of None \<Rightarrow> JBool False | Some v \<Rightarrow> v) of
          JBool destructive \<Rightarrow> Inr \<lparr>cp_reason = reason, cp_operations = ops, cp_verification = command,
            cp_destructive = destructive \<or> list_ex (\<lambda>op. op_kind_of op \<in> set destructive_ops) ops\<rparr>
        | _ \<Rightarrow> Inl (ChangeRequestError (quoted ''destructive'' @ '' must be a boolean.'')))) = Inr plan"
    by (rule case_operations) (use assms reason in \<open>simp add: parse_change_plan_def d del: parse_operations.simps\<close>)
  then obtain x xs ops command destructive where ops: "parse_operations (x # xs) = Inr ops"
      and "Inr \<lparr>cp_reason = reason, cp_operations = ops, cp_verification = command,
        cp_destructive = destructive \<or> list_ex (\<lambda>op. op_kind_of op \<in> set destructive_ops) ops\<rparr> = (Inr plan :: py_error + change_plan)"
    by (auto simp: rbind_Inr simp del: parse_operations.simps dest!: case_flag)
  then have plan: "plan = \<lparr>cp_reason = reason, cp_operations = ops, cp_verification = command,
        cp_destructive = destructive \<or> list_ex (\<lambda>op. op_kind_of op \<in> set destructive_ops) ops\<rparr>" by simp
  show ?thesis
    using require_str_Inr[OF reason] parse_operations_sound[OF ops] unfolding plan by (auto simp: list_all_iff list_ex_iff)
qed

lemma parse_change_plan_printed:
  assumes "strip (cp_reason plan) \<noteq> []" and "cp_operations plan \<noteq> []" and "list_all sound_operation (cp_operations plan)"
    and "cp_destructive plan \<or> list_all (\<lambda>op. op_kind_of op \<notin> set destructive_ops) (cp_operations plan)"
  shows "parse_change_plan (change_plan_to_dict plan) = Inr plan"
proof -
  obtain op ops where ops: "cp_operations plan = op # ops" using assms(2) by (cases "cp_operations plan") auto
  have "parse_operations (operation_to_dict op # map operation_to_dict ops) = Inr (op # ops)"
    using parse_operations_printed[OF assms(3)] ops by simp
  moreover have "(cp_destructive plan \<or> list_ex (\<lambda>op. op_kind_of op \<in> set destructive_ops) (cp_operations plan)) = cp_destructive plan"
    using assms(4) by (auto simp: list_all_iff list_ex_iff)
  ultimately show ?thesis
    using assms(1) ops by (simp add: parse_change_plan_def change_plan_to_dict_def require_str_def dict_get_def del: parse_operations.simps)
qed

text \<open>
  C30. Requests are sound or refused: whatever JSON the model sends, the parser either gives a request
  with a reason, at least one operation, a path for each, a destination for every rename and move, the
  destructive flag on every plan that deletes, renames or moves, and a patch where one is to be applied; or
  it raises a \<open>ChangeRequestError\<close> and nothing else. Exactly the sound requests survive printing and
  parsing unchanged.
\<close>
theorem requests_are_sound:
  "(case parse_change_request raw of
      Inr (plan, patch) \<Rightarrow> sound_request plan patch
    | Inl e \<Rightarrow> \<exists>m. e = ChangeRequestError m) \<and>
   (parse_change_request (request_to_dict plan patch) = Inr (plan, patch) \<longleftrightarrow> sound_request plan patch)"
proof -
  have sound: "sound_request plan patch" if "parse_change_request raw = Inr (plan, patch)" for raw plan patch
    using that by (auto simp: parse_change_request_def rbind_Inr sound_request_def list_all_iff list_ex_iff
        dest!: parse_change_plan_sound split: json.splits option.splits if_splits)
  have "request_error (parse_change_request raw)"
    by (auto simp: parse_change_request_def intro!: request_error_rbind parse_change_plan_error split: json.splits option.splits)
  then have "case parse_change_request raw of Inr (plan, patch) \<Rightarrow> sound_request plan patch
      | Inl e \<Rightarrow> \<exists>m. e = ChangeRequestError m"
    using sound[of raw] by (auto simp: request_error_def split: sum.splits py_error.splits)
  moreover have "parse_change_request (request_to_dict plan patch) = Inr (plan, patch)" if "sound_request plan patch"
  proof -
    have "parse_change_plan (change_plan_to_dict plan) = Inr plan"
      by (rule parse_change_plan_printed) (use that in \<open>simp_all add: sound_request_def\<close>)
    with that show ?thesis
      by (auto simp: parse_change_request_def request_to_dict_def dict_get_def sound_request_def list_all_iff list_ex_iff)
  qed
  ultimately show ?thesis using sound by blast
qed

end
