(* ===== verification/QueueRefinement.thy ===== *)
theory QueueRefinement
  imports ControlRunner
begin

text \<open>
  What the queue of the control plane promises its surfaces: one waiting line per session, served from
  the front, joined at the end, and left by whoever is cancelled or finished. The rows of the table, which
  are kept for ever and only change their status, implement these lines.
\<close>

subsection \<open>Waiting lines\<close>

type_synonym lines = "string \<times> string \<Rightarrow> (nat \<times> string) list"

definition join_line :: "string \<times> string \<Rightarrow> nat \<times> string \<Rightarrow> lines \<Rightarrow> lines" where
  "join_line k x L = L(k := L k @ [x])"

definition serve_line :: "string \<times> string \<Rightarrow> lines \<Rightarrow> (nat \<times> string) option \<times> lines" where
  "serve_line k L = (case L k of [] \<Rightarrow> (None, L) | x # xs \<Rightarrow> (Some x, L(k := xs)))"

definition leave_line :: "nat \<Rightarrow> lines \<Rightarrow> lines" where
  "leave_line i L = (\<lambda>k. filter (\<lambda>x. fst x \<noteq> i) (L k))"

text \<open>Serving again and again.\<close>

fun served :: "('s \<Rightarrow> 'x option \<times> 's) \<Rightarrow> nat \<Rightarrow> 's \<Rightarrow> 'x list \<times> 's" where
  "served f 0 s = ([], s)"
| "served f (Suc n) s = (case f s of
     (None, t) \<Rightarrow> ([], t)
   | (Some x, t) \<Rightarrow> (case served f n t of (xs, u) \<Rightarrow> (x # xs, u)))"

subsection \<open>The contract\<close>

locale fifo_server =
  fixes ok :: "'s \<Rightarrow> bool"
    and lines_of :: "'s \<Rightarrow> lines"
    and join :: "env \<Rightarrow> string \<Rightarrow> string \<Rightarrow> string \<Rightarrow> 's \<Rightarrow> nat \<times> 's"
    and serve :: "env \<Rightarrow> string \<Rightarrow> string \<Rightarrow> 's \<Rightarrow> (nat \<times> string) option \<times> 's"
    and leave :: "env \<Rightarrow> nat \<Rightarrow> 's \<Rightarrow> bool \<times> 's"
  assumes join_law: "ok s \<Longrightarrow> join env w sid txt s = (i, t) \<Longrightarrow>
      ok t \<and> lines_of t = join_line (key_of env w, sid) (i, txt) (lines_of s)"
    and serve_law: "ok s \<Longrightarrow> serve env w sid s = (r, t) \<Longrightarrow>
      ok t \<and> (r, lines_of t) = serve_line (key_of env w, sid) (lines_of s)"
    and leave_law: "ok s \<Longrightarrow> leave env i s = (b, t) \<Longrightarrow> ok t \<and> lines_of t = leave_line i (lines_of s)"
begin

lemma served_in_order: "ok s \<Longrightarrow> fst (served (serve env w sid) n s) = take n (lines_of s (key_of env w, sid))"
proof (induction n arbitrary: s)
  case (Suc n)
  obtain r t where t: "serve env w sid s = (r, t)" by fastforce
  from serve_law[OF Suc.prems t] Suc.IH[of t] t show ?case
    by (auto simp: serve_line_def split: list.splits option.splits prod.splits)
qed simp

text \<open>A prompt that joins is served after all that wait, and before none of them.\<close>

lemma join_waits_its_turn:
  assumes "ok s" and "join env w sid txt s = (i, t)" and "n = length (lines_of s (key_of env w, sid))"
  shows "fst (served (serve env w sid) n t) = lines_of s (key_of env w, sid)"
    and "fst (served (serve env w sid) (Suc n) t) = lines_of s (key_of env w, sid) @ [(i, txt)]"
  using join_law[OF assms(1,2)] served_in_order[of t env w sid] assms(3)
  by (simp_all add: join_line_def del: served.simps)

end

subsection \<open>The rows implement the lines\<close>

definition ticket :: "queued \<Rightarrow> nat \<times> string" where
  "ticket q = (qu_id q, qu_text q)"

definition lines_of :: "control \<Rightarrow> lines" where
  "lines_of s k = map ticket (filter (waiting (fst k) (snd k)) (ct_queue s))"

lemma waiting_same:
  "waiting a b (q\<lparr>qu_status := st, qu_claimed_by := p, qu_updated := u\<rparr>) \<longleftrightarrow>
   qu_workspace q = a \<and> qu_session q = b \<and> st = QUEUED"
  "waiting a b (q\<lparr>qu_status := st, qu_updated := u\<rparr>) \<longleftrightarrow> qu_workspace q = a \<and> qu_session q = b \<and> st = QUEUED"
  by (auto simp: waiting_def)

lemma lines_leave:
  assumes "\<And>q. qu_status q = QUEUED \<Longrightarrow> P q \<longleftrightarrow> qu_id q = i" and "\<And>q. P q \<Longrightarrow> qu_status (f q) \<noteq> QUEUED"
  shows "lines_of (update_queue P f s) = leave_line i (lines_of s)"
proof
  fix k
  have "map ticket (filter (waiting (fst k) (snd k)) (map (\<lambda>q. if P q then f q else q) rows)) =
      filter (\<lambda>x. fst x \<noteq> i) (map ticket (filter (waiting (fst k) (snd k)) rows))" for rows
    using assms by (induction rows) (auto simp: waiting_def ticket_def)
  then show "lines_of (update_queue P f s) k = leave_line i (lines_of s) k"
    by (simp add: lines_of_def leave_line_def update_queue_def)
qed

lemma ordered_update:
  "queue_ordered s \<Longrightarrow> (\<And>q. qu_id (f q) = qu_id q) \<Longrightarrow> queue_ordered (update_queue P f s)"
  by (auto simp: queue_ordered_def update_queue_def comp_def if_distrib cong: if_cong)

text \<open>Whoever is at the front of a line stands in no other line.\<close>

lemma leave_front:
  assumes o: "queue_ordered s" and front: "lines_of s k = x # xs"
  shows "leave_line (fst x) (lines_of s) = (lines_of s)(k := xs)"
proof
  fix k'
  have d: "distinct (map qu_id (ct_queue s))" using o by (simp add: queue_ordered_def)
  obtain q qs where q: "filter (waiting (fst k) (snd k)) (ct_queue s) = q # qs" "x = ticket q" "xs = map ticket qs"
    using front by (auto simp: lines_of_def map_eq_Cons_conv)
  have mem: "q \<in> set (ct_queue s)" "waiting (fst k) (snd k) q" using first_waiting[OF q(1)] by blast+
  show "leave_line (fst x) (lines_of s) k' = ((lines_of s)(k := xs)) k'"
  proof (cases "k' = k")
    case True
    have "distinct (map qu_id (q # qs))"
      using d distinct_filter_map[of qu_id "ct_queue s"] unfolding q(1)[symmetric] by blast
    then have "filter (\<lambda>x. fst x \<noteq> qu_id q) (map ticket qs) = map ticket qs"
      by (auto simp: filter_id_conv ticket_def) (metis image_eqI)
    with True front q(2,3) show ?thesis by (simp add: leave_line_def ticket_def)
  next
    case False
    have "fst y \<noteq> fst x" if y: "y \<in> set (lines_of s k')" for y
    proof
      assume e: "fst y = fst x"
      from y obtain r where r: "r \<in> set (ct_queue s)" "waiting (fst k') (snd k') r" "y = ticket r"
        by (auto simp: lines_of_def)
      with e q(2) mem d have "r = q" by (auto simp: ticket_def distinct_map inj_on_def)
      with r(2) mem(2) False show False by (auto simp: waiting_def prod_eq_iff)
    qed
    with False show ?thesis by (simp add: leave_line_def filter_id_conv)
  qed
qed

lemma claim_serves:
  assumes o: "queue_ordered s" and t: "claim_next env w sid s = (r, t)"
  shows "queue_ordered t \<and> (map_option ticket r, lines_of t) = serve_line (key_of env w, sid) (lines_of s)"
proof (cases "filter (waiting (key_of env w) sid) (ct_queue s)")
  case Nil
  then have "find (waiting (key_of env w) sid) (ct_queue s) = None" by (simp add: find_None_iff filter_empty_conv)
  with t have "r = None \<and> t = s" by (simp add: claim_next_def sort_ordered[OF o])
  with o Nil show ?thesis by (simp add: serve_line_def lines_of_def)
next
  case (Cons q qs)
  from first_waiting[OF Cons] have q: "q \<in> set (ct_queue s)" "qu_status q = QUEUED"
    and found: "find (waiting (key_of env w) sid) (ct_queue s) = Some q" by (simp_all add: waiting_def)
  have "list_ex (\<lambda>x. qu_id x = qu_id q \<and> qu_status x = QUEUED) (ct_queue s)"
    using q by (auto simp: list_ex_iff)
  with t found have r: "r = Some (q\<lparr>qu_status := RUNNING\<rparr>)"
    and t': "t = update_queue (\<lambda>x. qu_id x = qu_id q \<and> qu_status x = QUEUED)
      (\<lambda>q. q\<lparr>qu_status := RUNNING, qu_claimed_by := en_pid env, qu_updated := en_now env\<rparr>) s"
    by (auto simp: claim_next_def sort_ordered[OF o] Let_def)
  have front: "lines_of s (key_of env w, sid) = ticket q # map ticket qs"
    using Cons by (simp add: lines_of_def)
  have "lines_of t = leave_line (qu_id q) (lines_of s)"
    unfolding t' by (rule lines_leave) auto
  also have "\<dots> = (lines_of s)((key_of env w, sid) := map ticket qs)"
    using leave_front[OF o front] by (simp add: ticket_def)
  finally have "lines_of t = (lines_of s)((key_of env w, sid) := map ticket qs)" .
  moreover have "queue_ordered t" unfolding t' by (rule ordered_update[OF o]) simp
  ultimately show ?thesis using front r by (simp add: serve_line_def ticket_def)
qed

lemma enqueue_joins:
  assumes "queue_ordered s" and "enqueue env w sid txt src s = (i, t)"
  shows "queue_ordered t \<and> lines_of t = join_line (key_of env w, sid) (i, txt) (lines_of s)"
proof -
  have i: "i = ct_next s" and t: "t = snd (enqueue env w sid txt src s)" using assms(2) by (auto simp: enqueue_def)
  have "queue_ordered t"
    using assms(1) unfolding t by (auto simp: queue_ordered_def enqueue_def sorted_append less_Suc_eq intro: less_imp_le)
  moreover have "lines_of t = join_line (key_of env w, sid) (i, txt) (lines_of s)"
    by (auto simp: fun_eq_iff lines_of_def join_line_def t i enqueue_def waiting_def ticket_def)
  ultimately show ?thesis by blast
qed

lemma cancel_leaves:
  "queue_ordered s \<Longrightarrow> cancel_queued env i s = (b, t) \<Longrightarrow> queue_ordered t \<and> lines_of t = leave_line i (lines_of s)"
  by (auto simp: cancel_queued_def Let_def intro!: ordered_update lines_leave)

lemma finish_leaves:
  "queue_ordered s \<Longrightarrow> st \<noteq> QUEUED \<Longrightarrow> queue_ordered (finish env i st s) \<and> lines_of (finish env i st s) = leave_line i (lines_of s)"
  by (auto simp: finish_def intro!: ordered_update lines_leave)

interpretation queue: fifo_server queue_ordered lines_of
    "\<lambda>env w sid txt. enqueue env w sid txt src"
    "\<lambda>env w sid s. case claim_next env w sid s of (r, t) \<Rightarrow> (map_option ticket r, t)"
    cancel_queued
proof (unfold_locales, goal_cases)
  case 1
  then show ?case by (rule enqueue_joins)
next
  case (2 s env w sid r t)
  then obtain q where "claim_next env w sid s = (q, t)" "r = map_option ticket q" by (auto split: prod.splits)
  with claim_serves[OF 2(1)] show ?case by blast
next
  case 3
  then show ?case by (rule cancel_leaves)
qed

text \<open>
  C10. The queue of the control plane refines a waiting line per session: from any state whose rows are
  numbered in order, enqueueing appends to the line of that session and hands out the number, claiming
  takes exactly the front of the line, or nothing when the line is empty, cancelling and finishing take
  out that prompt and no other, and the listing shows the line; the rows stay in order.
\<close>
theorem queue_refines_fifo:
  assumes "queue_ordered s" and "st \<in> {RUNNING, DONE, CANCELLED}"
  shows "(case enqueue env w sid txt src s of (i, t) \<Rightarrow>
      queue_ordered t \<and> lines_of t = join_line (key_of env w, sid) (i, txt) (lines_of s)) \<and>
    (case claim_next env w sid s of (r, t) \<Rightarrow>
      queue_ordered t \<and> (map_option ticket r, lines_of t) = serve_line (key_of env w, sid) (lines_of s)) \<and>
    (case cancel_queued env i s of (b, t) \<Rightarrow> queue_ordered t \<and> lines_of t = leave_line i (lines_of s)) \<and>
    lines_of (finish env i st s) = leave_line i (lines_of s) \<and>
    map ticket (pending env w sid s) = lines_of s (key_of env w, sid) \<and>
    fst (served (\<lambda>s. case claim_next env w sid s of (r, t) \<Rightarrow> (map_option ticket r, t)) n s) =
      take n (lines_of s (key_of env w, sid))"
proof (intro conjI)
  have st: "st \<noteq> QUEUED" using assms(2) by auto
  show "case enqueue env w sid txt src s of (i, t) \<Rightarrow>
      queue_ordered t \<and> lines_of t = join_line (key_of env w, sid) (i, txt) (lines_of s)"
    using enqueue_joins[OF assms(1)] by blast
  show "case claim_next env w sid s of (r, t) \<Rightarrow>
      queue_ordered t \<and> (map_option ticket r, lines_of t) = serve_line (key_of env w, sid) (lines_of s)"
    using claim_serves[OF assms(1)] by blast
  show "case cancel_queued env i s of (b, t) \<Rightarrow> queue_ordered t \<and> lines_of t = leave_line i (lines_of s)"
    using cancel_leaves[OF assms(1)] by blast
  show "lines_of (finish env i st s) = leave_line i (lines_of s)"
    using finish_leaves[OF assms(1) st] by blast
  show "map ticket (pending env w sid s) = lines_of s (key_of env w, sid)"
    by (simp add: pending_def lines_of_def sort_ordered[OF assms(1)])
  show "fst (served (\<lambda>s. case claim_next env w sid s of (r, t) \<Rightarrow> (map_option ticket r, t)) n s) =
      take n (lines_of s (key_of env w, sid))"
    by (rule queue.served_in_order[OF assms(1)])
qed

theorem queue_refines_fifo_witness:
  "fst (served (\<lambda>s. case claim_next (demo_env 1 100) ''/p'' ''S'' s of (r, t) \<Rightarrow> (map_option ticket r, t)) 3 demo_queue) =
    [(1, ''first''), (2, ''second'')] \<and> lines_of (finish (demo_env 1 100) 1 DONE demo_queue) (''/p'', ''S'') = [(2, ''second'')]"
proof -
  have k: "lines_of demo_queue (key_of (demo_env 1 100) ''/p'', ''S'') = [(1, ''first''), (2, ''second'')]"
    "key_of (demo_env 1 100) ''/p'' = ''/p''"
    by code_simp+
  show ?thesis
    using queue_refines_fifo[OF demo_control_ok(3), of DONE "demo_env 1 100" "''/p''" "''S''" _ _ 1 3] k
    by (simp add: leave_line_def del: served.simps)
qed

end
