(* ===== verification/Regex.thy ===== *)
theory Regex
  imports PyText
begin

text \<open>
  What the program uses of Python's \<open>re\<close>: a matcher that explores the alternatives in the order of the
  module, so that its first answer is the match the module finds, together with searching, groups and
  substitution. A place in a text is what was read, backwards, and what is left. Its meaning is the
  relation \<open>spans\<close> between places; the matcher finds exactly the places it relates.
\<close>

subsection \<open>Expressions\<close>

text \<open>\<open>Look\<close> is an assertion: it sees both sides of a place and consumes nothing.\<close>

datatype rx =
    Eps
  | One "char \<Rightarrow> bool"
  | Look "string \<Rightarrow> string \<Rightarrow> bool"
  | Cat rx rx
  | Or rx rx
  | Star rx
  | Lazy rx

type_synonym place = "string \<times> string"

subsection \<open>Meaning\<close>

fun reads :: "(char \<Rightarrow> bool) \<Rightarrow> place \<Rightarrow> place \<Rightarrow> bool" where
  "reads P (u, c # v) q \<longleftrightarrow> P c \<and> q = (c # u, v)"
| "reads P (u, []) q \<longleftrightarrow> False"

primrec spans :: "rx \<Rightarrow> place \<Rightarrow> place \<Rightarrow> bool" where
  "spans Eps = (=)"
| "spans (One P) = reads P"
| "spans (Look A) = (\<lambda>p q. p = q \<and> A (fst p) (snd p))"
| "spans (Cat r s) = spans r OO spans s"
| "spans (Or r s) = (\<lambda>p q. spans r p q \<or> spans s p q)"
| "spans (Star r) = (spans r)\<^sup>*\<^sup>*"
| "spans (Lazy r) = (spans r)\<^sup>*\<^sup>*"

text \<open>Every match is a piece of the text.\<close>

definition ahead :: "place \<Rightarrow> place \<Rightarrow> bool" where
  "ahead p q \<longleftrightarrow> (\<exists>w. fst q = rev w @ fst p \<and> snd p = w @ snd q)"

lemma ahead_refl [simp]: "ahead p p"
  by (simp add: ahead_def)

lemma ahead_trans: "ahead p q \<Longrightarrow> ahead q r \<Longrightarrow> ahead p r"
  unfolding ahead_def by (metis append.assoc rev_append)

lemma ahead_length: "ahead p q \<Longrightarrow> length (snd q) \<le> length (snd p)"
  by (auto simp: ahead_def)

lemma ahead_same: "ahead p q \<Longrightarrow> length (snd p) \<le> length (snd q) \<Longrightarrow> q = p"
  by (cases p; cases q) (auto simp: ahead_def)

lemma ahead_star: "R\<^sup>*\<^sup>* p q \<Longrightarrow> (\<And>p q. R p q \<Longrightarrow> ahead p q) \<Longrightarrow> ahead p q"
  by (induction rule: rtranclp_induct) (auto intro: ahead_trans)

lemma reads_ahead: "reads P p q \<Longrightarrow> ahead p q"
  by (cases "(P, p, q)" rule: reads.cases) (auto simp: ahead_def)

lemma spans_ahead: "spans r p q \<Longrightarrow> ahead p q"
proof (induction r arbitrary: p q)
  case (Star r)
  then show ?case by (auto intro: ahead_star)
next
  case (Lazy r)
  then show ?case by (auto intro: ahead_star)
next
  case (Cat r s)
  from Cat.prems obtain m where "spans r p m" "spans s m q" by auto
  with Cat.IH show ?case by (blast intro: ahead_trans)
qed (auto intro: reads_ahead)

subsection \<open>The matcher\<close>

fun step_one :: "(char \<Rightarrow> bool) \<Rightarrow> place \<Rightarrow> place list" where
  "step_one P (u, c # v) = (if P c then [(c # u, v)] else [])"
| "step_one P (u, []) = []"

text \<open>A repetition goes on only after an iteration that consumed something.\<close>

function ends :: "rx \<Rightarrow> place \<Rightarrow> place list" where
  "ends Eps p = [p]"
| "ends (One P) p = step_one P p"
| "ends (Look A) p = (if A (fst p) (snd p) then [p] else [])"
| "ends (Cat r s) p = concat (map (ends s) (ends r p))"
| "ends (Or r s) p = ends r p @ ends s p"
| "ends (Star r) p =
     concat (map (\<lambda>q. if length (snd q) < length (snd p) then ends (Star r) q else []) (ends r p)) @ [p]"
| "ends (Lazy r) p =
     p # concat (map (\<lambda>q. if length (snd q) < length (snd p) then ends (Lazy r) q else []) (ends r p))"
  by pat_completeness auto
termination
  by (relation "measures [\<lambda>(r, p). size r, \<lambda>(r, p). length (snd p)]") auto

declare ends.simps(6,7) [simp del]

lemma step_one_reads: "q \<in> set (step_one P p) \<longleftrightarrow> reads P p q"
  by (cases "(P, p)" rule: step_one.cases) auto

text \<open>Iterations that consume nothing can be left out.\<close>

lemma star_progress:
  assumes "R\<^sup>*\<^sup>* p q" and "\<And>p q. R p q \<Longrightarrow> ahead p q"
  shows "q = p \<or> (\<exists>m. R p m \<and> length (snd m) < length (snd p) \<and> R\<^sup>*\<^sup>* m q)"
  using assms(1)
proof (induction rule: converse_rtranclp_induct)
  case (step a b)
  show ?case
  proof (cases "length (snd b) < length (snd a)")
    case True
    with step show ?thesis by blast
  next
    case False
    with ahead_same[of a b] assms(2)[OF step.hyps(1)] have "b = a" by simp
    with step.IH show ?thesis by simp
  qed
qed simp

lemma repeat_ends:
  assumes rep: "\<And>p. set (f p) = insert p (\<Union>q \<in> {q \<in> set (g p). length (snd q) < length (snd p)}. set (f q))"
    and step: "\<And>p q. q \<in> set (g p) \<longleftrightarrow> R p q" and ahead: "\<And>p q. R p q \<Longrightarrow> ahead p q"
  shows "q \<in> set (f p) \<longleftrightarrow> R\<^sup>*\<^sup>* p q"
proof (induction "length (snd p)" arbitrary: p rule: less_induct)
  case less
  have "q \<in> set (f p) \<longleftrightarrow> q = p \<or> (\<exists>m. R p m \<and> length (snd m) < length (snd p) \<and> q \<in> set (f m))"
    unfolding rep[of p] using step by blast
  also have "\<dots> \<longleftrightarrow> q = p \<or> (\<exists>m. R p m \<and> length (snd m) < length (snd p) \<and> R\<^sup>*\<^sup>* m q)"
    using less.hyps by (metis (no_types, lifting))
  also have "\<dots> \<longleftrightarrow> R\<^sup>*\<^sup>* p q"
    using star_progress[of R p q, OF _ ahead] by (blast intro: converse_rtranclp_into_rtranclp)
  finally show ?case .
qed

lemma set_ends_repeat:
  "set (ends (Star r) p) = insert p (\<Union>q \<in> {q \<in> set (ends r p). length (snd q) < length (snd p)}. set (ends (Star r) q))"
  "set (ends (Lazy r) p) = insert p (\<Union>q \<in> {q \<in> set (ends r p). length (snd q) < length (snd p)}. set (ends (Lazy r) q))"
proof -
  have c: "set (concat (map (\<lambda>q. if P q then f q else []) qs)) = (\<Union>q \<in> {q \<in> set qs. P q}. set (f q))"
    for P :: "place \<Rightarrow> bool" and f :: "place \<Rightarrow> place list" and qs
    by (induction qs) auto
  show "set (ends (Star r) p) = insert p (\<Union>q \<in> {q \<in> set (ends r p). length (snd q) < length (snd p)}. set (ends (Star r) q))"
    unfolding ends.simps(6)[of r p] set_append c by simp
  show "set (ends (Lazy r) p) = insert p (\<Union>q \<in> {q \<in> set (ends r p). length (snd q) < length (snd p)}. set (ends (Lazy r) q))"
    unfolding ends.simps(7)[of r p] list.set c by simp
qed

theorem ends_spans: "q \<in> set (ends r p) \<longleftrightarrow> spans r p q"
proof (induction r arbitrary: p q)
  case (Star r)
  show ?case
    unfolding spans.simps by (rule repeat_ends[where g = "ends r", OF set_ends_repeat(1) Star spans_ahead])
next
  case (Lazy r)
  show ?case
    unfolding spans.simps by (rule repeat_ends[where g = "ends r", OF set_ends_repeat(2) Lazy spans_ahead])
next
  case (Cat r s)
  then show ?case by (simp add: relcompp_apply Bex_def)
qed (auto simp: step_one_reads)

lemma ends_ahead: "q \<in> set (ends r p) \<Longrightarrow> ahead p q"
  using ends_spans spans_ahead by blast

subsection \<open>Searching and replacing\<close>

text \<open>Groups: the places where each of the given parts of an expression ends, first choice first.\<close>

fun group_ends :: "rx list \<Rightarrow> place \<Rightarrow> place list list" where
  "group_ends [] p = [[]]"
| "group_ends (r # rs) p = concat (map (\<lambda>q. map ((#) q) (group_ends rs q)) (ends r p))"

definition between :: "place \<Rightarrow> place \<Rightarrow> string" where
  "between p q = take (length (snd p) - length (snd q)) (snd p)"

fun group_texts :: "place \<Rightarrow> place list \<Rightarrow> string list" where
  "group_texts p [] = []"
| "group_texts p (q # qs) = between p q # group_texts q qs"

text \<open>The first match from a place on: where it starts, what its parts match, where it ends.\<close>

fun search_from :: "rx list \<Rightarrow> string \<Rightarrow> string \<Rightarrow> (string \<times> string list \<times> place) option" where
  "search_from rs u v = (case group_ends rs (u, v) of
     qs # _ \<Rightarrow> Some (rev u, group_texts (u, v) qs, last ((u, v) # qs))
   | [] \<Rightarrow> (case v of [] \<Rightarrow> None | c # v \<Rightarrow> search_from rs (c # u) v))"

declare search_from.simps [simp del]

definition search_groups :: "rx list \<Rightarrow> string \<Rightarrow> (string \<times> string list \<times> place) option" where
  "search_groups rs s = search_from rs [] s"

definition found :: "rx \<Rightarrow> string \<Rightarrow> bool" where
  "found r s \<longleftrightarrow> search_groups [r] s \<noteq> None"

lemma group_ends_single: "group_ends [r] p = map (\<lambda>q. [q]) (ends r p)"
  by (induction "ends r p") auto

lemma search_from_found: "search_from [r] u v \<noteq> None \<longleftrightarrow> (\<exists>w x q. v = w @ x \<and> spans r (rev w @ u, x) q)"
proof (induction v arbitrary: u)
  case Nil
  then show ?case
    using ends_spans[of _ r "(u, [])"] by (cases "ends r (u, [])") (auto simp: search_from.simps group_ends_single)
next
  case (Cons c v)
  show ?case
  proof (cases "ends r (u, c # v)")
    case Nil
    then have none: "\<not> spans r (u, c # v) q" for q using ends_spans[of q r "(u, c # v)"] by simp
    have "search_from [r] u (c # v) \<noteq> None \<longleftrightarrow> search_from [r] (c # u) v \<noteq> None"
      using Nil by (simp add: search_from.simps[of _ u] group_ends_single)
    also have "\<dots> \<longleftrightarrow> (\<exists>w x q. v = w @ x \<and> spans r (rev w @ c # u, x) q)" by (rule Cons.IH)
    also have "\<dots> \<longleftrightarrow> (\<exists>w x q. c # v = w @ x \<and> spans r (rev w @ u, x) q)"
    proof
      assume "\<exists>w x q. v = w @ x \<and> spans r (rev w @ c # u, x) q"
      then obtain w x q where "v = w @ x" "spans r (rev w @ c # u, x) q" by blast
      then have "c # v = (c # w) @ x \<and> spans r (rev (c # w) @ u, x) q" by simp
      then show "\<exists>w x q. c # v = w @ x \<and> spans r (rev w @ u, x) q" by blast
    next
      assume "\<exists>w x q. c # v = w @ x \<and> spans r (rev w @ u, x) q"
      then obtain w x q where w: "c # v = w @ x" "spans r (rev w @ u, x) q" by blast
      show "\<exists>w x q. v = w @ x \<and> spans r (rev w @ c # u, x) q"
      proof (cases w)
        case Nil
        with w none show ?thesis by simp
      next
        case (Cons d ds)
        with w have "v = ds @ x \<and> spans r (rev ds @ c # u, x) q" by simp
        then show ?thesis by blast
      qed
    qed
    finally show ?thesis .
  next
    case (Cons q qs)
    then have "spans r (u, c # v) q" using ends_spans[of q r "(u, c # v)"] by simp
    then have "c # v = [] @ c # v \<and> spans r (rev [] @ u, c # v) q" by simp
    then have "\<exists>w x q. c # v = w @ x \<and> spans r (rev w @ u, x) q" by blast
    with Cons show ?thesis by (simp add: search_from.simps group_ends_single)
  qed
qed

lemma found_spans: "found r s \<longleftrightarrow> (\<exists>w x q. s = w @ x \<and> spans r (rev w, x) q)"
  using search_from_found[of r "[]" s] by (simp add: found_def search_groups_def)

text \<open>
  \<open>re.sub\<close> with a function of the parts. A match that consumed nothing is replaced, and the search goes
  on after the next character.
\<close>

lemma group_ends_ahead: "qs \<in> set (group_ends rs p) \<Longrightarrow> ahead p (last (p # qs))"
proof (induction rs arbitrary: p qs)
  case (Cons r rs)
  then obtain q ps where q: "q \<in> set (ends r p)" "ps \<in> set (group_ends rs q)" "qs = q # ps" by auto
  with Cons.IH[OF q(2)] ends_ahead[OF q(1)] show ?case by (auto intro: ahead_trans)
qed simp

lemma search_from_shrinks:
  "search_from rs u v = Some (b, ts, q) \<Longrightarrow> ahead (u, v) q"
proof (induction v arbitrary: u)
  case Nil
  show ?case
  proof (cases "group_ends rs (u, [])")
    case (Cons qs _)
    with Nil group_ends_ahead[of qs rs "(u, [])"] show ?thesis by (simp add: search_from.simps split: if_splits)
  qed (use Nil in \<open>simp add: search_from.simps\<close>)
next
  case (Cons c v)
  show ?case
  proof (cases "group_ends rs (u, c # v)")
    case Nil
    with Cons have "ahead (c # u, v) q" by (simp add: search_from.simps[of _ u])
    moreover have "ahead (u, c # v) (c # u, v)" by (auto simp: ahead_def intro: exI[of _ "[c]"])
    ultimately show ?thesis by (rule ahead_trans[rotated])
  next
    case (Cons qs _)
    with Cons.prems group_ends_ahead[of qs rs "(u, c # v)"] show ?thesis by (simp add: search_from.simps split: if_splits)
  qed
qed

function replace_from :: "rx list \<Rightarrow> (string list \<Rightarrow> string) \<Rightarrow> string \<Rightarrow> string \<Rightarrow> string" where
  "replace_from rs f u v = (case search_from rs u v of
     None \<Rightarrow> v
   | Some (pre, ts, (u', v')) \<Rightarrow>
       drop (length u) pre @ f ts @
       (if length pre < length u' \<and> length v' < length v then replace_from rs f u' v'
        else case v' of [] \<Rightarrow> [] | c # w \<Rightarrow> c # replace_from rs f (c # u') w))"
  by pat_completeness auto
termination
proof (relation "measure (\<lambda>(_, _, _, v). length v)", goal_cases)
  case (3 rs f u v x2 pre y ts z u' v' c w)
  then have "search_from rs u v = Some (pre, ts, u', c # w)" by simp
  from ahead_length[OF search_from_shrinks[OF this]] show ?case by simp
qed auto

declare replace_from.simps [simp del]

text \<open>\<open>re.finditer\<close>: the texts of the parts of every match.\<close>

function find_from :: "rx list \<Rightarrow> string \<Rightarrow> string \<Rightarrow> string list list" where
  "find_from rs u v = (case search_from rs u v of
     None \<Rightarrow> []
   | Some (pre, ts, (u', v')) \<Rightarrow>
       ts # (if length pre < length u' \<and> length v' < length v then find_from rs u' v'
             else case v' of [] \<Rightarrow> [] | c # w \<Rightarrow> find_from rs (c # u') w))"
  by pat_completeness auto
termination
proof (relation "measure (\<lambda>(_, _, v). length v)", goal_cases)
  case (3 rs u v x2 pre y ts z u' v' c w)
  then have "search_from rs u v = Some (pre, ts, u', c # w)" by simp
  from ahead_length[OF search_from_shrinks[OF this]] show ?case by simp
qed auto

declare find_from.simps [simp del]

definition find_groups :: "rx list \<Rightarrow> string \<Rightarrow> string list list" where
  "find_groups rs s = find_from rs [] s"

definition replace_groups :: "rx list \<Rightarrow> (string list \<Rightarrow> string) \<Rightarrow> string \<Rightarrow> string" where
  "replace_groups rs f s = replace_from rs f [] s"

definition replace_all :: "rx \<Rightarrow> string \<Rightarrow> string \<Rightarrow> string" where
  "replace_all r t s = replace_groups [r] (\<lambda>_. t) s"

lemma replace_none: "\<not> found r s \<Longrightarrow> replace_all r t s = s"
  by (cases "search_from [r] [] s") (auto simp: found_def search_groups_def replace_all_def replace_groups_def replace_from.simps)

subsection \<open>Abbreviations of the notation\<close>

text \<open>Most expressions of the program ignore case.\<close>

definition same_letter :: "char \<Rightarrow> char \<Rightarrow> bool" where
  "same_letter a b \<longleftrightarrow> lower_char a = lower_char b"

fun lit :: "string \<Rightarrow> rx" where
  "lit [] = Eps"
| "lit [c] = One (same_letter c)"
| "lit (c # cs) = Cat (One (same_letter c)) (lit cs)"

fun cats :: "rx list \<Rightarrow> rx" where
  "cats [] = Eps"
| "cats [r] = r"
| "cats (r # rs) = Cat r (cats rs)"

fun ors :: "rx list \<Rightarrow> rx" where
  "ors [] = Look (\<lambda>_ _. False)"
| "ors [r] = r"
| "ors (r # rs) = Or r (ors rs)"

definition words :: "string list \<Rightarrow> rx" where
  "words ws = ors (map lit ws)"

definition opt :: "rx \<Rightarrow> rx" where
  "opt r = Or r Eps"

definition plus :: "rx \<Rightarrow> rx" where
  "plus r = Cat r (Star r)"

definition lazy_plus :: "rx \<Rightarrow> rx" where
  "lazy_plus r = Cat r (Lazy r)"

text \<open>A literal that does not ignore case.\<close>

definition exact :: "string \<Rightarrow> rx" where
  "exact s = foldr (\<lambda>c r. Cat (One (\<lambda>d. d = c)) r) s Eps"

fun times :: "nat \<Rightarrow> rx \<Rightarrow> rx" where
  "times 0 r = Eps"
| "times (Suc n) r = Cat r (times n r)"

definition space :: rx where "space = One is_space"
definition nonspace :: rx where "nonspace = One (\<lambda>c. \<not> is_space c)"
definition dot :: rx where "dot = One (\<lambda>c. c \<noteq> newline)"
definition anything :: rx where "anything = One (\<lambda>_. True)"
definition digit :: rx where "digit = One is_digit"
definition one_of :: "string \<Rightarrow> rx" where "one_of cs = One (\<lambda>c. \<exists>d \<in> set cs. same_letter c d)"
definition none_of :: "string \<Rightarrow> rx" where "none_of cs = One (\<lambda>c. c \<notin> set cs)"
definition alnum :: rx where "alnum = One (\<lambda>c. is_letter c \<or> is_digit c)"

definition line_start :: rx where "line_start = Look (\<lambda>u v. u = [])"
definition text_end :: rx where "text_end = Look (\<lambda>u v. v = [] \<or> v = [newline])"

definition word_side :: "string \<Rightarrow> bool" where
  "word_side s \<longleftrightarrow> s \<noteq> [] \<and> is_word_char (hd s)"

definition boundary :: rx where
  "boundary = Look (\<lambda>u v. word_side u \<noteq> word_side v)"

text \<open>\<open>(?=r)\<close>.\<close>

definition followed_by :: "rx \<Rightarrow> rx" where
  "followed_by r = Look (\<lambda>u v. ends r (u, v) \<noteq> [])"

subsection \<open>Expressions without assertions\<close>

text \<open>Such an expression matches a piece of text or not, wherever the piece stands.\<close>

fun look_free :: "rx \<Rightarrow> bool" where
  "look_free (Look A) = False"
| "look_free (Cat r s) = (look_free r \<and> look_free s)"
| "look_free (Or r s) = (look_free r \<and> look_free s)"
| "look_free (Star r) = look_free r"
| "look_free (Lazy r) = look_free r"
| "look_free r = True"

definition matches :: "rx \<Rightarrow> string \<Rightarrow> bool" where
  "matches r w \<longleftrightarrow> spans r ([], w) (rev w, [])"

definition moved :: "string \<Rightarrow> string \<Rightarrow> place \<Rightarrow> place" where
  "moved u x p = (fst p @ u, snd p @ x)"

lemma spans_moved:
  "look_free r \<Longrightarrow> spans r p q \<Longrightarrow> spans r (moved u x p) (moved u x q)"
proof (induction r arbitrary: p q)
  case (One P)
  then show ?case by (cases "(P, p, q)" rule: reads.cases) (auto simp: moved_def)
next
  case (Star r)
  from Star.prems(2) have "(spans r)\<^sup>*\<^sup>* p q" by simp
  then have "(spans r)\<^sup>*\<^sup>* (moved u x p) (moved u x q)"
    by (induction rule: rtranclp_induct) (use Star in \<open>auto intro: rtranclp.rtrancl_into_rtrancl\<close>)
  then show ?case by simp
next
  case (Lazy r)
  from Lazy.prems(2) have "(spans r)\<^sup>*\<^sup>* p q" by simp
  then have "(spans r)\<^sup>*\<^sup>* (moved u x p) (moved u x q)"
    by (induction rule: rtranclp_induct) (use Lazy in \<open>auto intro: rtranclp.rtrancl_into_rtrancl\<close>)
  then show ?case by simp
next
  case (Cat r s)
  from Cat.prems(2) obtain m where "spans r p m" "spans s m q" by auto
  with Cat.IH Cat.prems(1) have "spans r (moved u x p) (moved u x m)" "spans s (moved u x m) (moved u x q)" by simp_all
  then show ?case by auto
qed auto

lemma matches_anywhere: "look_free r \<Longrightarrow> matches r w \<Longrightarrow> spans r (u, w @ x) (rev w @ u, x)"
  using spans_moved[of r "([], w)" "(rev w, [])" u x] by (simp add: matches_def moved_def)

lemma matches_Cat: "matches (Cat r s) (v @ w)" if "look_free r" "look_free s" "matches r v" "matches s w" for r s
  using spans_moved[of r "([], v)" "(rev v, [])" "[]" w] spans_moved[of s "([], w)" "(rev w, [])" "rev v" "[]"] that
  by (auto simp: matches_def moved_def)

lemma star_piece:
  assumes "R\<^sup>*\<^sup>* p q" "look_free r" "R = spans r"
    and piece: "\<And>p q. spans r p q \<Longrightarrow> \<exists>w. fst q = rev w @ fst p \<and> snd p = w @ snd q \<and> matches r w"
  shows "\<exists>w. fst q = rev w @ fst p \<and> snd p = w @ snd q \<and> (spans r)\<^sup>*\<^sup>* ([], w) (rev w, [])"
  using assms(1)
proof (induction rule: rtranclp_induct)
  case (step m q)
  then obtain v where v: "fst m = rev v @ fst p" "snd p = v @ snd m" "(spans r)\<^sup>*\<^sup>* ([], v) (rev v, [])" by blast
  from step.hyps(2) piece assms(3) obtain w where w: "fst q = rev w @ fst m" "snd m = w @ snd q" "matches r w" by blast
  have "matches (Cat (Star r) r) (v @ w)"
    by (rule matches_Cat) (use assms(2) v(3) w(3) in \<open>simp_all add: matches_def\<close>)
  then have "(spans r)\<^sup>*\<^sup>* ([], v @ w) (rev (v @ w), [])"
    by (auto simp: matches_def intro: rtranclp.rtrancl_into_rtrancl)
  with v(1,2) w(1,2) show ?case by (auto intro!: exI[of _ "v @ w"])
qed (auto intro: exI[of _ "[]"])

lemma spans_piece:
  "look_free r \<Longrightarrow> spans r p q \<Longrightarrow> \<exists>w. fst q = rev w @ fst p \<and> snd p = w @ snd q \<and> matches r w"
proof (induction r arbitrary: p q)
  case (One P)
  then show ?case by (cases "(P, p, q)" rule: reads.cases) (auto simp: matches_def intro: exI[of _ "[c]" for c])
next
  case (Star r)
  from Star.prems(2) have "(spans r)\<^sup>*\<^sup>* p q" by simp
  from star_piece[OF this _ refl] Star show ?case by (simp add: matches_def)
next
  case (Lazy r)
  from Lazy.prems(2) have "(spans r)\<^sup>*\<^sup>* p q" by simp
  from star_piece[OF this _ refl] Lazy show ?case by (simp add: matches_def)
next
  case (Cat r s)
  from Cat.prems(2) obtain m where m: "spans r p m" "spans s m q" by auto
  from Cat.IH(1)[OF _ m(1)] Cat.prems(1) obtain v where v: "fst m = rev v @ fst p" "snd p = v @ snd m" "matches r v" by auto
  from Cat.IH(2)[OF _ m(2)] Cat.prems(1) obtain w where w: "fst q = rev w @ fst m" "snd m = w @ snd q" "matches s w" by auto
  from matches_Cat[OF _ _ v(3) w(3)] Cat.prems(1) v(1,2) w(1,2) show ?case by (auto intro!: exI[of _ "v @ w"])
next
  case (Or r s)
  then show ?case unfolding matches_def look_free.simps spans.simps by blast
qed (auto simp: matches_def)

lemma found_matches: "look_free r \<Longrightarrow> found r s \<longleftrightarrow> (\<exists>w. sublist w s \<and> matches r w)"
proof
  assume r: "look_free r" and "found r s"
  then obtain v x q where "s = v @ x" "spans r (rev v, x) q" unfolding found_spans by blast
  with spans_piece[OF r this(2)] show "\<exists>w. sublist w s \<and> matches r w" by (auto simp: sublist_def)
next
  assume r: "look_free r" and "\<exists>w. sublist w s \<and> matches r w"
  then obtain v w x where "s = v @ w @ x" "matches r w" by (auto simp: sublist_def)
  with matches_anywhere[OF r] show "found r s" unfolding found_spans by blast
qed

text \<open>Characters that no match contains, and the least length of a match.\<close>

primrec avoids :: "char \<Rightarrow> rx \<Rightarrow> bool" where
  "avoids c Eps = True"
| "avoids c (One P) = (\<not> P c)"
| "avoids c (Look A) = True"
| "avoids c (Cat r s) = (avoids c r \<and> avoids c s)"
| "avoids c (Or r s) = (avoids c r \<and> avoids c s)"
| "avoids c (Star r) = avoids c r"
| "avoids c (Lazy r) = avoids c r"

primrec least :: "rx \<Rightarrow> nat" where
  "least Eps = 0"
| "least (One P) = 1"
| "least (Look A) = 0"
| "least (Cat r s) = least r + least s"
| "least (Or r s) = min (least r) (least s)"
| "least (Star r) = 0"
| "least (Lazy r) = 0"

lemma spans_avoids: "spans r p q \<Longrightarrow> avoids c r \<Longrightarrow> c \<in> set (fst q) \<Longrightarrow> c \<in> set (fst p)"
proof (induction r arbitrary: p q)
  case (One P)
  then show ?case by (cases "(P, p, q)" rule: reads.cases) auto
next
  case (Star r)
  from Star.prems(1) have "(spans r)\<^sup>*\<^sup>* p q" by simp
  then show ?case using Star.prems(2,3) by (induction rule: rtranclp_induct) (use Star.IH in auto)
next
  case (Lazy r)
  from Lazy.prems(1) have "(spans r)\<^sup>*\<^sup>* p q" by simp
  then show ?case using Lazy.prems(2,3) by (induction rule: rtranclp_induct) (use Lazy.IH in auto)
qed (auto elim: disjE)

lemma spans_least: "spans r p q \<Longrightarrow> length (fst p) + least r \<le> length (fst q)"
proof (induction r arbitrary: p q)
  case (One P)
  then show ?case by (cases "(P, p, q)" rule: reads.cases) auto
next
  case (Cat r s)
  from Cat.prems obtain m where "spans r p m" "spans s m q" by auto
  with Cat.IH(1)[of p m] Cat.IH(2)[of m q] show ?case by simp
next
  case (Or r s)
  then show ?case by fastforce
next
  case (Star r)
  from Star.prems have "(spans r)\<^sup>*\<^sup>* p q" by simp
  then show ?case by (induction rule: rtranclp_induct) (use Star.IH in force)+
next
  case (Lazy r)
  from Lazy.prems have "(spans r)\<^sup>*\<^sup>* p q" by simp
  then show ?case by (induction rule: rtranclp_induct) (use Lazy.IH in force)+
qed auto

lemma matches_avoids: "matches r w \<Longrightarrow> avoids c r \<Longrightarrow> c \<notin> set w"
  using spans_avoids[of r "([], w)" "(rev w, [])" c] by (auto simp: matches_def)

lemma matches_least: "matches r w \<Longrightarrow> least r \<le> length w"
  using spans_least[of r "([], w)" "(rev w, [])"] by (simp add: matches_def)

subsection \<open>What a search leaves out\<close>

text \<open>No match starts before the one that was found.\<close>

lemma search_gap:
  assumes "search_from [r] u v = Some (pre, ts, q)"
  obtains gap rest where "v = gap @ rest" "pre = rev u @ gap" "spans r (rev gap @ u, rest) q"
    and "\<And>a b p. gap = a @ b \<Longrightarrow> b \<noteq> [] \<Longrightarrow> \<not> spans r (rev a @ u, b @ rest) p"
  using assms
proof (induction v arbitrary: u thesis)
  case Nil
  then obtain e es where "ends r (u, []) = e # es" "pre = rev u" "q = e"
    by (cases "ends r (u, [])") (auto simp: search_from.simps group_ends_single)
  moreover from this have "spans r (u, []) q" using ends_spans[of q r "(u, [])"] by simp
  ultimately show ?case using Nil.prems(1)[of "[]" "[]"] by simp
next
  case (Cons c v)
  show ?case
  proof (cases "ends r (u, c # v)")
    case Nil
    then have none: "\<not> spans r (u, c # v) p" for p using ends_spans[of p r "(u, c # v)"] by simp
    from Nil Cons.prems(2) have "search_from [r] (c # u) v = Some (pre, ts, q)"
      by (simp add: search_from.simps[of _ u] group_ends_single)
    from Cons.IH[OF _ this] obtain gap rest where g: "v = gap @ rest" "pre = rev (c # u) @ gap"
        "spans r (rev gap @ c # u, rest) q"
        "\<And>a b p. gap = a @ b \<Longrightarrow> b \<noteq> [] \<Longrightarrow> \<not> spans r (rev a @ c # u, b @ rest) p" by blast
    show ?thesis
    proof (rule Cons.prems(1)[of "c # gap" rest])
      fix a b p assume ab: "c # gap = a @ b" "b \<noteq> []"
      show "\<not> spans r (rev a @ u, b @ rest) p"
      proof (cases a)
        case Nil
        with ab(1)[symmetric] none g(1) show ?thesis by simp
      next
        case (Cons d a')
        with ab g(4)[of a' b p] show ?thesis by simp
      qed
    qed (use g in simp_all)
  next
    case (Cons e es)
    with Cons.prems(2) have "pre = rev u" "q = e" by (auto simp: search_from.simps group_ends_single)
    moreover from Cons have "spans r (u, c # v) e" using ends_spans[of e r "(u, c # v)"] by simp
    ultimately show ?thesis using Cons.prems(1)[of "[]" "c # v"] by simp
  qed
qed

lemma search_none: "search_from [r] u v = None \<Longrightarrow> v = a @ b \<Longrightarrow> \<not> spans r (rev a @ u, b) p"
  using search_from_found[of r u v] by blast

text \<open>A piece without the marks of a replacement was in the text before.\<close>

lemma sublist_around: "x \<notin> set w \<Longrightarrow> sublist w (a @ x # b) \<Longrightarrow> sublist w a \<or> sublist w b"
  by (auto simp: sublist_def append_eq_append_conv2 append_eq_Cons_conv Cons_eq_append_conv) blast+

text \<open>
  Replacing by a text in brackets: a long piece without brackets comes from the text before, and it is
  not one the expression matches.
\<close>

lemma sublist_bracketed:
  assumes "sublist w (a @ ''['' @ m @ '']'' @ b)" "CHR ''['' \<notin> set w" "CHR '']'' \<notin> set w" "length m < length w"
  shows "sublist w a \<or> sublist w b"
proof -
  have "sublist w (a @ CHR ''['' # (m @ CHR '']'' # b))" using assms(1) by simp
  from sublist_around[OF assms(2) this] sublist_around[of "CHR '']''" w m b, OF assms(3)]
  have "sublist w a \<or> sublist w m \<or> sublist w b" by blast
  with assms(4) show ?thesis using sublist_length_le[of w m] by force
qed

text \<open>One round of the substitution.\<close>

lemma replace_round:
  assumes "search_from [r] u v = Some (pre, ts, u', v')"
  obtains gap rest more where "v = gap @ rest" "replace_from [r] f u v = gap @ f ts @ more"
    and "\<And>a b p. gap = a @ b \<Longrightarrow> b \<noteq> [] \<Longrightarrow> \<not> spans r (rev a @ u, b @ rest) p"
    and "\<exists>z. v = z @ v'"
    and "(more = replace_from [r] f u' v' \<and> length v' < length v) \<or> (more = [] \<and> v' = [])
      \<or> (\<exists>c t. v' = c # t \<and> more = c # replace_from [r] f (c # u') t \<and> spans r (u', v') (u', v'))"
proof -
  from assms obtain gap rest where g: "v = gap @ rest" "pre = rev u @ gap" "spans r (rev gap @ u, rest) (u', v')"
      "\<And>a b p. gap = a @ b \<Longrightarrow> b \<noteq> [] \<Longrightarrow> \<not> spans r (rev a @ u, b @ rest) p" by (rule search_gap) blast
  from spans_ahead[OF g(3)] obtain z where z: "u' = rev z @ rev gap @ u" "rest = z @ v'" by (auto simp: ahead_def)
  define more where "more = (if length pre < length u' \<and> length v' < length v then replace_from [r] f u' v'
      else case v' of [] \<Rightarrow> [] | c # w \<Rightarrow> c # replace_from [r] f (c # u') w)"
  have eq: "replace_from [r] f u v = drop (length u) pre @ f ts @ more"
    unfolding replace_from.simps[of "[r]" f u v] assms more_def by simp
  have how: "(more = replace_from [r] f u' v' \<and> length v' < length v) \<or> (more = [] \<and> v' = [])
      \<or> (\<exists>c t. v' = c # t \<and> more = c # replace_from [r] f (c # u') t \<and> spans r (u', v') (u', v'))"
    using g z by (cases v') (auto simp: more_def)
  show ?thesis
    by (rule that[of gap rest more]) (use g eq how z in auto)
qed

lemma replace_from_keeps:
  assumes "CHR ''['' \<notin> set w" "CHR '']'' \<notin> set w" "length m < length w"
  shows "sublist w (g @ replace_from [r] (\<lambda>_. ''['' @ m @ '']'') u v) \<Longrightarrow> sublist w (g @ v)"
proof (induction "length v" arbitrary: u v g rule: less_induct)
  case less
  define F where "F = (\<lambda>_ :: string list. ''['' @ m @ '']'')"
  note prems = less.prems[folded F_def] and hyps = less.hyps[folded F_def]
  show ?case
  proof (cases "search_from [r] u v")
    case None
    with prems show ?thesis by (simp add: replace_from.simps)
  next
    case (Some res)
    obtain pre ts u' v' where "res = (pre, ts, u', v')" by (cases res) auto
    with Some have "search_from [r] u v = Some (pre, ts, u', v')" by simp
    from this obtain gap rest more where g: "v = gap @ rest" and eq: "replace_from [r] F u v = gap @ F ts @ more"
      and z: "\<exists>z. v = z @ v'"
      and more: "(more = replace_from [r] F u' v' \<and> length v' < length v) \<or> (more = [] \<and> v' = [])
        \<or> (\<exists>c t. v' = c # t \<and> more = c # replace_from [r] F (c # u') t \<and> spans r (u', v') (u', v'))"
      by (rule replace_round[where f = F]) blast
    from z obtain z where z: "v = z @ v'" ..
    have "sublist w ((g @ gap) @ ''['' @ m @ '']'' @ more)" using prems eq by (simp add: F_def)
    from sublist_bracketed[OF this assms] consider "sublist w (g @ gap)" | "sublist w more" by blast
    then show ?thesis
    proof cases
      case 1
      with g show ?thesis by (metis append.assoc sublist_appendI sublist_order.order_trans append_Nil)
    next
      case 2
      from more have "sublist w v'"
      proof (elim disjE exE conjE)
        assume "more = replace_from [r] F u' v'" "length v' < length v"
        with 2 hyps[of v' "[]" u'] show ?thesis by simp
      next
        fix c t assume *: "v' = c # t" "more = c # replace_from [r] F (c # u') t"
        with z have "length t < length v" by simp
        from hyps[OF this, of "[c]" "c # u'"] 2 * show ?thesis by simp
      qed (use 2 in simp)
      with z show ?thesis by (metis append.assoc sublist_appendI sublist_order.order_trans append_Nil2)
    qed
  qed
qed

lemma replace_all_keeps:
  assumes "CHR ''['' \<notin> set w" "CHR '']'' \<notin> set w" "length m < length w"
    and "sublist w (replace_all r (''['' @ m @ '']'') s)"
  shows "sublist w s"
  using replace_from_keeps[OF assms(1,2,3), of "[]" r "[]" s] assms(4) by (simp add: replace_all_def replace_groups_def)

lemma replace_from_removes:
  assumes r: "look_free r" "\<And>w. matches r w \<Longrightarrow> CHR ''['' \<notin> set w \<and> CHR '']'' \<notin> set w \<and> length m < length w"
    and "matches r w"
  shows "\<not> sublist w (replace_from [r] (\<lambda>_. ''['' @ m @ '']'') u v)"
proof (induction "length v" arbitrary: u v rule: less_induct)
  case less
  define F where "F = (\<lambda>_ :: string list. ''['' @ m @ '']'')"
  note hyps = less.hyps[folded F_def]
  have w: "CHR ''['' \<notin> set w" "CHR '']'' \<notin> set w" "length m < length w" using r(2)[OF assms(3)] by simp_all
  show ?case unfolding F_def[symmetric]
  proof (cases "search_from [r] u v")
    case None
    then have "\<not> sublist w v"
      using search_none[of r u v] matches_anywhere[OF r(1) assms(3)] unfolding sublist_def by blast
    with None show "\<not> sublist w (replace_from [r] F u v)" by (simp add: replace_from.simps)
  next
    case (Some res)
    obtain pre ts u' v' where "res = (pre, ts, u', v')" by (cases res) auto
    with Some have found: "search_from [r] u v = Some (pre, ts, u', v')" by simp
    from this obtain gap rest more where g: "v = gap @ rest" and eq: "replace_from [r] F u v = gap @ F ts @ more"
      and gap: "\<And>a b p. gap = a @ b \<Longrightarrow> b \<noteq> [] \<Longrightarrow> \<not> spans r (rev a @ u, b @ rest) p"
      and more: "(more = replace_from [r] F u' v' \<and> length v' < length v) \<or> (more = [] \<and> v' = [])
        \<or> (\<exists>c t. v' = c # t \<and> more = c # replace_from [r] F (c # u') t \<and> spans r (u', v') (u', v'))"
      by (rule replace_round[where f = F]) blast
    show "\<not> sublist w (replace_from [r] F u v)"
    proof
      assume "sublist w (replace_from [r] F u v)"
      then have "sublist w (gap @ ''['' @ m @ '']'' @ more)" using eq by (simp add: F_def)
      from sublist_bracketed[OF this w] show False
      proof
        assume "sublist w gap"
        then obtain a b where "gap = a @ w @ b" by (auto simp: sublist_def)
        with gap[of a "w @ b" "(rev w @ rev a @ u, b @ rest)"] w(3) matches_anywhere[OF r(1) assms(3), of "rev a @ u" "b @ rest"]
        show False by (cases w) simp_all
      next
        assume 2: "sublist w more"
        from more show False
        proof (elim disjE exE conjE)
          assume "more = replace_from [r] F u' v'" "length v' < length v"
          with 2 hyps show False by blast
        next
          assume "more = []" with 2 w(3) show False by simp
        next
          assume "spans r (u', v') (u', v')"
          from spans_piece[OF r(1) this] r(2)[of "[]"] show False by auto
        qed
      qed
    qed
  qed
qed

lemma replace_all_removes:
  assumes "look_free r" "\<And>w. matches r w \<Longrightarrow> CHR ''['' \<notin> set w \<and> CHR '']'' \<notin> set w \<and> length m < length w"
  shows "\<not> found r (replace_all r (''['' @ m @ '']'') s)"
  using replace_from_removes[OF assms] found_matches[OF assms(1)] by (auto simp: replace_all_def replace_groups_def)

text \<open>Runs of one character, and expressions that only match at the start.\<close>

lemma star_one:
  "(reads P)\<^sup>*\<^sup>* p q \<Longrightarrow> \<exists>a. snd p = a @ snd q \<and> fst q = rev a @ fst p \<and> list_all P a"
proof (induction rule: rtranclp_induct)
  case (step m q)
  then obtain a where a: "snd p = a @ snd m" "fst m = rev a @ fst p" "list_all P a" by blast
  from step.hyps(2) obtain c where "P c" "snd m = c # snd q" "fst q = c # fst m"
    by (cases "(P, m, q)" rule: reads.cases) auto
  with a show ?case by (auto intro!: exI[of _ "a @ [c]"])
qed (auto intro: exI[of _ "[]"])

lemma found_anchored: "found (Cat line_start r) s \<longleftrightarrow> (\<exists>q. spans r ([], s) q)"
  by (auto simp: found_spans line_start_def relcompp_apply intro: exI[of _ "[]"])

end
