(* ===== verification/CommandRules.thy ===== *)
theory CommandRules
  imports Regex Paths
begin

text \<open>
  The command policy of \<open>safety/commands.py\<close>: what a command may not contain, what runs without a
  question, and what is removed from text that is kept. Each pattern is the regular expression of the
  source, part by part.
\<close>

subsection \<open>Quotes\<close>

definition dquote :: char where "dquote = CHR 0x22"
definition squote :: char where "squote = CHR 0x27"

subsection \<open>The lists\<close>

datatype command_risk = COMMAND_SAFE | COMMAND_MEDIUM | COMMAND_BLOCKED

definition safe_commands :: "string list" where
  "safe_commands = [''pytest'', ''python -m pytest'', ''python manage.py test'', ''npm test'', ''npm run build'',
     ''npm run dev'', ''git status'', ''git diff'', ''git log --oneline'', ''make test'']"

definition medium_commands :: "string list" where
  "medium_commands = [''pip install'', ''pip3 install'', ''python -m pip install'', ''python -m venv'', ''uv venv'',
     ''uv pip install'', ''npm install'', ''poetry add'', ''git checkout'', ''git merge'',
     ''python manage.py migrate'', ''python manage.py makemigrations'', ''python manage.py runserver'']"

definition blocked_patterns :: "rx list" where
  "blocked_patterns = [
     cats [lit ''rm'', plus space, lit ''-rf'', plus space, one_of ''/~''],
     lit ''sudo'',
     cats [boundary, lit ''su'', space],
     cats [lit ''chmod'', plus space, lit ''-R'', plus space, lit ''777''],
     cats [lit ''dd'', plus space, lit ''if=''],
     lit ''mkfs'',
     lit ''shutdown'',
     lit ''reboot'',
     cats [lit ''kill'', plus space, lit ''-9'', plus space, lit ''-1''],
     cats [lit '':(){'', Star dot, lit ''}''],
     cats [lit ''curl'', Star dot, lit ''|'', Star space, lit ''bash''],
     cats [lit ''wget'', Star dot, lit ''|'', Star space, lit ''sh''],
     cats [lit ''>'', Star space, lit ''/dev/sd'']]"

text \<open>\<open>name = 'value'\<close> and \<open>"name": "value"\<close>.\<close>

definition assigned :: "string \<Rightarrow> rx" where
  "assigned name = cats [lit name, Star space, lit ''='', Star space, one_of [squote, dquote],
     plus (none_of [squote, dquote])]"

definition json_member :: "rx \<Rightarrow> rx" where
  "json_member name = cats [lit [dquote], name, lit [dquote], Star space, lit '':'', Star space, lit [dquote],
     plus (none_of [dquote]), lit [dquote]]"

definition in_url :: "rx \<Rightarrow> rx" where
  "in_url scheme = cats [scheme, lit ''://'', Star (none_of ''@''), lit '':'', Star (none_of ''@''), lit ''@'']"

definition private_key :: rx where
  "private_key = cats [lit ''-----BEGIN'', Star dot, lit ''PRIVATE KEY'']"

definition aws_key :: rx where
  "aws_key = cats [lit ''AKIA'', times 16 alnum]"

definition openai_key :: rx where
  "openai_key = cats [lit ''sk-'', times 32 alnum, Star alnum]"

definition github_token :: rx where
  "github_token = cats [lit ''ghp_'', times 36 alnum]"

definition secret_patterns :: "rx list" where
  "secret_patterns = [
     aws_key, openai_key, github_token,
     cats [private_key, Star (none_of ''-''), lit ''-----'', lazy_plus anything, lit ''-----END'', Star dot,
       lit ''PRIVATE KEY'', Star (none_of ''-''), lit ''-----''],
     private_key,
     assigned ''password'', json_member (lit ''password''),
     assigned ''api_key'', json_member (lit ''api_key''),
     assigned ''secret'', json_member (lit ''secret''),
     assigned ''token'', json_member (lit ''token''),
     assigned ''SECRET_KEY'', json_member (lit ''SECRET_KEY''),
     cats [lit ''authorization'', Star space, lit '':'', Star space, words [''Bearer'', ''Basic'', ''Token''],
       plus space, plus nonspace],
     json_member (lit ''authorization''),
     in_url (lit ''postgresql''), in_url (lit ''mysql''), in_url (Cat (lit ''mongodb'') (opt (lit ''+srv''))),
     cats [ors [cats [lit ''api'', opt (one_of ''_-''), lit ''key''], cats [lit ''secret'', opt (one_of ''_-''), lit ''key''],
         cats [lit ''access'', opt (one_of ''_-''), lit ''token''], cats [lit ''refresh'', opt (one_of ''_-''), lit ''token''],
         cats [lit ''client'', opt (one_of ''_-''), lit ''secret''], lit ''password'', lit ''passwd'', lit ''secret'', lit ''token''],
       Star space, one_of ''=:'', Star space,
       let c = One (\<lambda>c. \<not> is_space c \<and> c \<notin> set ([squote, dquote] @ '';,)'')) in Cat (times 4 c) (Star c)]]"

definition auto_approvable :: "string list" where
  "auto_approvable = [''file_write'', ''file_edit'']"

definition is_auto_approvable_action :: "string \<Rightarrow> bool" where
  "is_auto_approvable_action action \<longleftrightarrow> action \<in> set auto_approvable"

definition shell_write :: rx where
  "shell_write = ors [
     cats [ors [line_start, space],
       ors [Cat (lit ''>'') (opt (lit ''>'')), cats [one_of ''12'', lit ''>'', opt (lit ''>'')], lit ''&>''],
       Star space, none_of ''&|''],
     cats [boundary, words [''tee'', ''out-file'', ''set-content'', ''add-content'', ''new-item'', ''remove-item'',
         ''move-item'', ''copy-item'', ''touch'', ''mkdir'', ''rmdir'', ''del'', ''erase'', ''move'', ''copy'', ''rm'', ''mv'', ''cp''],
       boundary],
     cats [boundary, ors [
         cats [lit ''pip'', opt (lit ''3''), plus space, lit ''install''],
         cats [lit ''python'', opt (lit ''3''), plus space, lit ''-m'', plus space,
           ors [cats [lit ''pip'', plus space, lit ''install''], lit ''venv'']],
         cats [lit ''uv'', plus space, ors [lit ''venv'', lit ''sync'', lit ''add'', cats [lit ''pip'', plus space, lit ''install'']]],
         cats [lit ''poetry'', plus space, words [''add'', ''install'']],
         cats [lit ''npm'', plus space, lit ''install'']],
       boundary]]"

subsection \<open>The functions\<close>

definition command_may_write_workspace :: "string \<Rightarrow> bool" where
  "command_may_write_workspace command \<longleftrightarrow> found shell_write command"

text \<open>\<open>.../.venv/bin/name\<close>, quoted or not, at the start.\<close>

definition venv_tool :: "string \<Rightarrow> rx" where
  "venv_tool name =
     (let tail = [lit ''.venv'', one_of [backslash, CHR ''/''], words [''Scripts'', ''bin''],
            one_of [backslash, CHR ''/''], lit name, opt (lit ''.exe'')]
      in Cat line_start (ors [
           cats ([lit [dquote], Star (none_of [dquote])] @ tail @ [lit [dquote]]),
           cats (Star (One (\<lambda>c. \<not> is_space c \<and> c \<noteq> dquote \<and> c \<noteq> squote)) # tail)]))"

definition run_wrapper :: rx where
  "run_wrapper = cats [line_start, words [''poetry'', ''uv''], plus space, lit ''run'', plus space]"

definition classification_view :: "string \<Rightarrow> string" where
  "classification_view command =
     lower (replace_all (venv_tool ''pip'') ''pip'' (replace_all (venv_tool ''python'') ''python''
       (replace_all run_wrapper [] (strip command))))"

definition classify_command :: "string \<Rightarrow> command_risk" where
  "classify_command cmd =
     (if list_ex (\<lambda>r. found r cmd) blocked_patterns then COMMAND_BLOCKED
      else
        let normalized = classification_view cmd
        in if list_ex (starts_with normalized) safe_commands then COMMAND_SAFE
           else if list_ex (starts_with normalized) medium_commands then COMMAND_MEDIUM
           else COMMAND_MEDIUM)"

definition redact :: "string \<Rightarrow> string" where
  "redact text = fold (\<lambda>r text. replace_all r ''[REDACTED]'' text) secret_patterns text"

end
