(* ===== verification/ProjectEnv.thy ===== *)
theory ProjectEnv
  imports CommandRules Json
begin

text \<open>
  The resolution of bare Python and pip commands to the environment of the project
  (\<open>tools/project_env.py\<close>). What the file system, the environment variables and \<open>shutil.which\<close> answer is
  an argument, and so is what \<open>json\<close> and \<open>tomllib\<close> read from the two files it looks into.
\<close>

subsection \<open>Commands\<close>

definition shell_prefix :: rx where
  "shell_prefix = Or line_start (Cat (ors [lit ''&&'', lit ''||'', one_of '';&|'']) (Star space))"

definition word_end :: rx where
  "word_end = followed_by (Or space text_end)"

definition python_words :: rx where
  "python_words = Or (Cat (lit ''python'') (opt (lit ''3''))) (lit ''python'')"

definition module_pip :: rx where
  "module_pip = cats [python_words, plus space, lit ''-m'', plus space, lit ''pip'']"

definition any_pip :: rx where
  "any_pip = Or module_pip (Cat (lit ''pip'') (opt (lit ''3'')))"

definition pip_install_parts :: "rx list" where
  "pip_install_parts = [shell_prefix, cats [any_pip, plus space, lit ''install'', boundary]]"

definition pip_parts :: "rx list" where
  "pip_parts = [shell_prefix, cats [lit ''pip'', opt (lit ''3''), word_end]]"

definition python_pip_parts :: "rx list" where
  "python_pip_parts = [shell_prefix, Cat module_pip word_end]"

definition python_parts :: "rx list" where
  "python_parts = [shell_prefix, cats [lit ''python'', opt (lit ''3''), opt (lit ''.exe''), word_end]]"

definition python3_parts :: "rx list" where
  "python3_parts = [shell_prefix, cats [lit ''python3'', opt (lit ''.exe''), word_end]]"

definition invalid_install_parts :: "rx list" where
  "invalid_install_parts = [cats [shell_prefix, any_pip, plus space, lit ''install''],
     cats [plus space, lit ''--version'', followed_by (Cat (plus space) nonspace)]]"

text \<open>Replace a match by its first part and a text.\<close>

definition after_prefix :: "rx list \<Rightarrow> string \<Rightarrow> string \<Rightarrow> string" where
  "after_prefix parts text command = replace_groups parts (\<lambda>ts. hd ts @ text) command"

definition contains_bare_python_command :: "string \<Rightarrow> bool" where
  "contains_bare_python_command command \<longleftrightarrow> search_groups python_parts command \<noteq> None \<or> search_groups pip_parts command \<noteq> None"

definition normalize_install_command :: "string \<Rightarrow> string" where
  "normalize_install_command command = after_prefix invalid_install_parts [] command"

definition rewrite_python :: "string \<Rightarrow> string \<Rightarrow> string" where
  "rewrite_python command replacement = after_prefix python_parts replacement command"

definition rewrite_for_interpreter :: "string \<Rightarrow> string \<Rightarrow> string" where
  "rewrite_for_interpreter command interpreter =
     rewrite_python (after_prefix pip_parts (interpreter @ '' -m pip'')
       (after_prefix python_pip_parts (interpreter @ '' -m pip'') command)) interpreter"

definition rewrite_for_poetry :: "string \<Rightarrow> string" where
  "rewrite_for_poetry command =
     rewrite_python (after_prefix pip_parts ''poetry run python -m pip''
       (after_prefix python_pip_parts ''poetry run python -m pip'' command)) ''poetry run python''"

definition rewrite_for_uv :: "string \<Rightarrow> string" where
  "rewrite_for_uv command =
     rewrite_python (after_prefix pip_parts ''uv pip''
       (after_prefix python_pip_parts ''uv run python -m pip'' command)) ''uv run python''"

definition rewrite_uv_install :: "string \<Rightarrow> string \<Rightarrow> string" where
  "rewrite_uv_install command interpreter =
     rewrite_for_interpreter (after_prefix pip_install_parts (''uv pip install --python '' @ interpreter) command) interpreter"

subsection \<open>Quoting\<close>

definition shell_safe :: "char \<Rightarrow> bool" where
  "shell_safe c \<longleftrightarrow> is_word_char c \<or> c \<in> set ''@%+=:,./-''"

definition shlex_quote :: "string \<Rightarrow> string" where
  "shlex_quote s =
     (if s = [] then [squote, squote]
      else if list_all shell_safe s then s
      else squote # concat (map (\<lambda>c. if c = squote then [squote, dquote, squote, dquote, squote] else [c]) s) @ [squote])"

fun quoted_chars :: "string \<Rightarrow> string \<Rightarrow> bool \<Rightarrow> string" where
  "quoted_chars bs [] q = bs @ (if q then bs @ [dquote] else [])"
| "quoted_chars bs (c # cs) q =
     (if c = backslash then quoted_chars (c # bs) cs q
      else if c = dquote then bs @ bs @ [backslash, dquote] @ quoted_chars [] cs q
      else bs @ [c] @ quoted_chars [] cs q)"

definition list2cmdline :: "string \<Rightarrow> string" where
  "list2cmdline s =
     (let q = (s = [] \<or> CHR '' '' \<in> set s \<or> CHR 0x09 \<in> set s)
      in (if q then [dquote] else []) @ quoted_chars [] s q)"

subsection \<open>The resolver\<close>

record project_world =
  pw_root :: path
  pw_windows :: bool
  pw_runtime :: string
  pw_executable :: string
  pw_exists :: "path \<Rightarrow> bool"
  pw_is_file :: "path \<Rightarrow> bool"
  pw_is_dir :: "path \<Rightarrow> bool"
  pw_cwd :: path
  pw_real :: "path \<Rightarrow> path"
  pw_show :: "path \<Rightarrow> string"
  pw_virtual_env :: string
  pw_which :: "string \<Rightarrow> bool"
  pw_state :: "path \<Rightarrow> json option"
  pw_str :: "json \<Rightarrow> string"
  pw_pyproject :: "path \<Rightarrow> dict"

record command_resolution =
  cr_requested :: string
  cr_command :: string
  cr_root :: path
  cr_kind :: string
  cr_interpreter :: string
  cr_bootstraps :: bool
  cr_reason :: string

text \<open>\<open>Path(p)\<close> below a directory, and resolved.\<close>

definition path_below :: "path \<Rightarrow> string \<Rightarrow> path" where
  "path_below dir p = (if posix_absolute p then posix_parts p else dir @ posix_parts p)"

definition resolve_text :: "project_world \<Rightarrow> string \<Rightarrow> path" where
  "resolve_text w p = pw_real w (path_below (pw_cwd w) p)"

definition cr_changed :: "command_resolution \<Rightarrow> bool" where
  "cr_changed r \<longleftrightarrow> cr_command r \<noteq> cr_requested r"

definition python_markers :: "string list" where
  "python_markers = [''pyproject.toml'', ''requirements.txt'', ''setup.py'', ''setup.cfg'', ''Pipfile'', ''poetry.lock'', ''uv.lock'']"

definition state_file :: path where
  "state_file = [''.shamsu'', ''project-environment.json'']"

function project_root_from :: "project_world \<Rightarrow> path \<Rightarrow> path \<Rightarrow> path" where
  "project_root_from w cwd current =
     (if list_ex (\<lambda>m. pw_exists w (current @ [m])) python_markers then current
      else if current = pw_root w \<or> \<not> prefix (pw_root w) (butlast current) then cwd
      else project_root_from w cwd (butlast current))"
  by pat_completeness auto
termination
  by (relation "measure (\<lambda>(w, cwd, current). length current)")
    (auto, metis diff_Suc_less length_greater_0_conv One_nat_def butlast.simps(1) prefix_bot.bot_least prefix_bot.le_bot)

declare project_root_from.simps [simp del]

definition venv_python :: "project_world \<Rightarrow> path \<Rightarrow> path" where
  "venv_python w dir = dir @ (if pw_windows w then [''Scripts'', ''python.exe''] else [''bin'', ''python''])"

definition quote_path :: "project_world \<Rightarrow> string \<Rightarrow> string" where
  "quote_path w text = (if pw_windows w then list2cmdline text else shlex_quote text)"

text \<open>\<open>x or ""\<close> in the state file, and \<open>str\<close> of it.\<close>

definition persisted_interpreter :: "project_world \<Rightarrow> path \<Rightarrow> path option" where
  "persisted_interpreter w proot = (case pw_state w (proot @ state_file) of
     Some (JObj d) \<Rightarrow>
       (let raw = (case dict_get d ''interpreter'' of
              None \<Rightarrow> [] | Some (JStr s) \<Rightarrow> s | Some j \<Rightarrow> if truthy j then pw_str w j else []);
            interpreter = resolve_text w (strip raw)
        in if prefix proot interpreter \<and> pw_is_file w interpreter then Some interpreter else None)
   | _ \<Rightarrow> None)"

definition existing_environment :: "project_world \<Rightarrow> path \<Rightarrow> path option" where
  "existing_environment w proot =
     (let here = venv_python w (proot @ [''.venv''])
      in if pw_is_file w here then Some here
         else case persisted_interpreter w proot of
           Some p \<Rightarrow> Some p
         | None \<Rightarrow>
             if strip (pw_virtual_env w) = [] then None
             else
               let active = resolve_text w (strip (pw_virtual_env w))
               in if prefix proot active \<and> pw_is_file w (venv_python w active) then Some (venv_python w active) else None)"

definition has_table :: "json option \<Rightarrow> string \<Rightarrow> bool" where
  "has_table j k = (case j of Some (JObj d) \<Rightarrow> (case dict_get d k of Some (JObj _) \<Rightarrow> True | _ \<Rightarrow> False) | _ \<Rightarrow> False)"

definition project_manager :: "project_world \<Rightarrow> path \<Rightarrow> string" where
  "project_manager w proot =
     (if pw_is_file w (proot @ [''uv.lock'']) \<and> pw_which w ''uv'' then ''uv''
      else if pw_is_file w (proot @ [''poetry.lock'']) \<and> pw_which w ''poetry'' then ''poetry''
      else
        let tool = dict_get (pw_pyproject w (proot @ [''pyproject.toml''])) ''tool''
        in if has_table tool ''uv'' \<and> pw_which w ''uv'' then ''uv''
           else if has_table tool ''poetry'' \<and> pw_which w ''poetry'' then ''poetry''
           else [])"

definition resolution :: "string \<Rightarrow> string \<Rightarrow> path \<Rightarrow> string \<Rightarrow> string \<Rightarrow> bool \<Rightarrow> string \<Rightarrow> command_resolution" where
  "resolution requested command proot kind interpreter bootstraps reason =
     \<lparr>cr_requested = requested, cr_command = command, cr_root = proot, cr_kind = kind, cr_interpreter = interpreter,
      cr_bootstraps = bootstraps, cr_reason = reason\<rparr>"

definition resolve_command :: "project_world \<Rightarrow> string \<Rightarrow> path \<Rightarrow> command_resolution" where
  "resolve_command w requested cwd =
     (let command = normalize_install_command requested;
          proot = project_root_from w cwd cwd
      in if \<not> contains_bare_python_command command
         then resolution requested command proot ''explicit'' [] False ''No bare Python command.''
         else case existing_environment w proot of
           Some existing \<Rightarrow>
             resolution requested (rewrite_for_interpreter command (quote_path w (pw_show w existing))) proot ''project-venv''
               (pw_show w existing) False
               ''Resolved bare Python commands to an existing project-local environment.''
         | None \<Rightarrow>
             let manager = project_manager w proot;
                 installs = (search_groups pip_install_parts command \<noteq> None);
                 venv_dir = proot @ [''.venv''];
                 interpreter = venv_python w venv_dir;
                 quoted_interpreter = quote_path w (pw_show w interpreter);
                 quoted_dir = quote_path w (pw_show w venv_dir)
             in if manager = ''poetry'' then
                  resolution requested (rewrite_for_poetry command) proot ''poetry'' ''poetry run python'' False
                    ''Resolved bare Python commands through the project's Poetry environment.''
                else if manager = ''uv'' then
                  (if installs then
                     resolution requested (''uv venv '' @ quoted_dir @ '' && '' @ rewrite_uv_install command quoted_interpreter)
                       proot ''uv'' (pw_show w interpreter) True
                       ''Bootstraps and installs into the uv project's local .venv.''
                   else
                     resolution requested (rewrite_for_uv command) proot ''uv'' ''uv run python'' False
                       ''Resolved bare Python commands through the project's uv environment.'')
                else if installs then
                  resolution requested (quote_path w (pw_runtime w) @ '' -m venv '' @ quoted_dir @ '' && '' @
                      rewrite_for_interpreter command quoted_interpreter) proot ''bootstrap-venv'' (pw_show w interpreter) True
                    ''Bootstraps .venv so package installation cannot reach the ambient interpreter.''
                else
                  let rewritten = (if pw_windows w then after_prefix python3_parts (quote_path w (pw_runtime w)) command else command)
                  in resolution requested rewritten proot ''ambient''
                    (if rewritten \<noteq> command then pw_runtime w else []) False
                    ''No project environment is required for this non-install command.'')"

subsection \<open>Remembering an environment\<close>

text \<open>What is written to the state file after a command succeeded, unless it is there already.\<close>

definition persisted_state :: "project_world \<Rightarrow> command_resolution \<Rightarrow> (path \<times> json) option" where
  "persisted_state w r =
     (if cr_kind r \<in> {''ambient'', ''explicit''} \<or> cr_interpreter r = [] \<or> \<not> prefix (pw_root w) (cr_root r) then None
      else Some (cr_root r @ state_file,
        JObj (dict_of [(''schema_version'', JInt 1), (''project_root'', JStr ''.''), (''environment_kind'', JStr (cr_kind r)),
          (''interpreter'', JStr (cr_interpreter r))])))"

subsection \<open>The root and the environment of a project\<close>

definition has_marker :: "project_world \<Rightarrow> path \<Rightarrow> bool" where
  "has_marker w d \<longleftrightarrow> (\<exists>m \<in> set python_markers. pw_exists w (d @ [m]))"

lemma project_root_from_nearest:
  assumes "prefix (pw_root w) current" "prefix current cwd"
    and "\<And>d. prefix current d \<Longrightarrow> d \<noteq> current \<Longrightarrow> prefix d cwd \<Longrightarrow> \<not> has_marker w d"
  shows "prefix (pw_root w) (project_root_from w cwd current) \<and> prefix (project_root_from w cwd current) cwd \<and>
    (\<forall>d. prefix (project_root_from w cwd current) d \<longrightarrow> d \<noteq> project_root_from w cwd current \<longrightarrow> prefix d cwd \<longrightarrow> \<not> has_marker w d) \<and>
    (has_marker w (project_root_from w cwd current) \<or> project_root_from w cwd current = cwd \<and>
       (\<forall>d. prefix (pw_root w) d \<longrightarrow> prefix d cwd \<longrightarrow> \<not> has_marker w d))"
  using assms
proof (induction "length current" arbitrary: current rule: less_induct)
  case less
  have marker: "list_ex (\<lambda>m. pw_exists w (current @ [m])) python_markers \<longleftrightarrow> has_marker w current"
    by (simp add: list_ex_iff has_marker_def)
  show ?case
  proof (cases "has_marker w current")
    case True
    then have "project_root_from w cwd current = current" using marker by (subst project_root_from.simps) simp
    with True less.prems show ?thesis by simp
  next
    case False
    note nothere = this
    have only: "d = current" if "prefix current d" "has_marker w d" "prefix d cwd" for d
      using less.prems(3) that by blast
    show ?thesis
    proof (cases "current = pw_root w \<or> \<not> prefix (pw_root w) (butlast current)")
      case True
      then have here: "project_root_from w cwd current = cwd"
        using False marker by (subst project_root_from.simps) simp
      have "current = pw_root w"
      proof (rule ccontr)
        assume "current \<noteq> pw_root w"
        with less.prems(1) obtain zs where "current = pw_root w @ zs" "zs \<noteq> []" by (auto simp: prefix_def)
        then have "prefix (pw_root w) (butlast current)" by (simp add: butlast_append)
        with True \<open>current \<noteq> pw_root w\<close> show False by blast
      qed
      with here False less.prems show ?thesis by auto
    next
      case False
      then have up: "project_root_from w cwd current = project_root_from w cwd (butlast current)" 
        using nothere marker by (subst project_root_from.simps) simp
      have ne: "current \<noteq> []" using False by auto
      have between: "d = current \<or> prefix current d" if "prefix (butlast current) d" "d \<noteq> butlast current" "prefix d cwd" for d
      proof -
        from that(3) less.prems(2) consider "prefix current d" | "prefix d current" using prefix_same_cases by blast
        then show ?thesis
        proof cases
          case 2
          with that(1,2) ne show ?thesis
            by (metis append_butlast_last_id prefix_order.antisym prefix_snoc)
        qed simp
      qed
      show ?thesis unfolding up
      proof (rule less.hyps)
        show "length (butlast current) < length current" using ne by simp
        show "prefix (pw_root w) (butlast current)" using False by simp
        show "prefix (butlast current) cwd" using less.prems(2) prefix_order.trans prefixeq_butlast by blast
        show "\<not> has_marker w d" if "prefix (butlast current) d" "d \<noteq> butlast current" "prefix d cwd" for d
          using between[OF that] less.prems(3)[of d] nothere that(3) by blast
      qed
    qed
  qed
qed

text \<open>The root of a project is the nearest directory from the working directory up, inside the workspace,
  that holds one of the marker files, and the working directory itself when there is none.\<close>

theorem project_root_is_nearest:
  assumes "prefix (pw_root w) cwd"
  shows "prefix (pw_root w) (project_root_from w cwd cwd) \<and> prefix (project_root_from w cwd cwd) cwd \<and>
    (\<forall>d. prefix (project_root_from w cwd cwd) d \<longrightarrow> d \<noteq> project_root_from w cwd cwd \<longrightarrow> prefix d cwd \<longrightarrow> \<not> has_marker w d) \<and>
    (has_marker w (project_root_from w cwd cwd) \<or> project_root_from w cwd cwd = cwd \<and>
       (\<forall>d. prefix (pw_root w) d \<longrightarrow> prefix d cwd \<longrightarrow> \<not> has_marker w d))"
  using assms by (rule project_root_from_nearest) (auto dest: prefix_order.antisym)

text \<open>A workspace with a project in a subdirectory.\<close>

definition demo_tree :: project_world where
  "demo_tree = \<lparr>pw_root = [''w''], pw_windows = False, pw_runtime = ''/usr/bin/python3'', pw_executable = ''/usr/bin/python3'',
     pw_exists = (\<lambda>p. p = [''w'', ''app'', ''setup.py'']), pw_is_file = (\<lambda>_. False), pw_is_dir = (\<lambda>p. p = [''w'']),
     pw_cwd = [''w''], pw_real = id, pw_show = (\<lambda>p. ''/'' @ join ''/'' p), pw_virtual_env = [], pw_which = (\<lambda>_. False),
     pw_state = (\<lambda>_. None), pw_str = (\<lambda>_. []), pw_pyproject = (\<lambda>_. [])\<rparr>"

theorem project_root_is_nearest_witness:
  "project_root_from demo_tree [''w'', ''app'', ''src''] [''w'', ''app'', ''src''] = [''w'', ''app''] \<and>
   prefix [''w''] (project_root_from demo_tree [''w'', ''app'', ''src''] [''w'', ''app'', ''src''])"
proof
  show "project_root_from demo_tree [''w'', ''app'', ''src''] [''w'', ''app'', ''src''] = [''w'', ''app'']" by code_simp
  show "prefix [''w''] (project_root_from demo_tree [''w'', ''app'', ''src''] [''w'', ''app'', ''src''])"
    using project_root_is_nearest[of demo_tree "[''w'', ''app'', ''src'']"] by (simp add: demo_tree_def)
qed

text \<open>An environment that is used lies inside the project and its interpreter exists.\<close>

theorem environment_is_local:
  "existing_environment w proot = Some p \<Longrightarrow> prefix proot p \<and> pw_is_file w p"
  unfolding existing_environment_def
  by (auto simp: Let_def persisted_interpreter_def venv_python_def prefix_def split: if_splits option.splits json.splits)

end
