(* ===== verification/Approvals.thy ===== *)
theory Approvals
  imports CommandRules RunControl RuntimeStore
begin

text \<open>
  Approval of risky actions: the answers of the prompt (\<open>safety/approval.py\<close>), the remembered
  permissions (\<open>safety/permission_store.py\<close>) and \<open>ApprovalManager.ask\<close> (\<open>safety/approval_manager.py\<close>),
  which marks the run and the task as waiting, asks, and marks them as running again. The prompts are
  parameters that may change the run control, since the run can be cancelled or paused meanwhile.
  What is written to the session logger and the ledger, and later what is handed to the shell, is one
  trace.
\<close>

subsection \<open>Requests, permissions, the trace\<close>

record permission_request =
  pq_action :: string
  pq_description :: string
  pq_risk :: string
  pq_preview :: "string option"
  pq_dir :: "string option"
  pq_reason :: "string option"
  pq_targets :: "string list"

definition opt_str :: "string option \<Rightarrow> json" where
  "opt_str s = (case s of None \<Rightarrow> JNull | Some t \<Rightarrow> JStr t)"

definition request_dict :: "permission_request \<Rightarrow> dict" where
  "request_dict q = dict_of [(''action_type'', JStr (pq_action q)), (''description'', JStr (pq_description q)),
     (''risk_level'', JStr (pq_risk q)), (''preview'', opt_str (pq_preview q)), (''working_dir'', opt_str (pq_dir q)),
     (''reason'', opt_str (pq_reason q)), (''target_paths'', JList (map JStr (pq_targets q)))]"

record permissions =
  pm_session :: "string list"
  pm_workspace :: "string list"

datatype gate_event =
    AutoApproved permission_request string
  | Requested permission_request
  | Answered permission_request bool string string
  | Remembered string string
  | Spawned string path bool
  | EnvironmentKept path json

text \<open>
  A gate is the run control, the runtime store with the task that is bound to the caller's context, the
  permissions, the permissions file with the error that writing it raises, if any, and the trace.
\<close>

record gate =
  gt_rc :: rc
  gt_store :: store
  gt_task :: "string option"
  gt_perms :: permissions
  gt_file :: "json_text option"
  gt_write_error :: "py_error option"
  gt_trace :: "gate_event list"

type_synonym 'a gate_eff = "(gate, 'a) eff"

definition emit :: "gate_event \<Rightarrow> unit gate_eff" where
  "emit e = modify (\<lambda>g. g\<lparr>gt_trace := gt_trace g @ [e]\<rparr>)"

definition on_gate_rc :: "(rc \<Rightarrow> 'a \<times> rc) \<Rightarrow> 'a gate_eff" where
  "on_gate_rc f g = (case f (gt_rc g) of (x, r) \<Rightarrow> (Inr x, g\<lparr>gt_rc := r\<rparr>))"

definition prompting :: "(rc, 'a) eff \<Rightarrow> 'a gate_eff" where
  "prompting f g = (case f (gt_rc g) of (x, r) \<Rightarrow> (x, g\<lparr>gt_rc := r\<rparr>))"

definition on_gate_store :: "'a store_eff \<Rightarrow> 'a gate_eff" where
  "on_gate_store f g = (case f (gt_store g) of (x, s) \<Rightarrow> (x, g\<lparr>gt_store := s\<rparr>))"

subsection \<open>Remembered permissions\<close>

definition is_remembered :: "permissions \<Rightarrow> string \<Rightarrow> bool" where
  "is_remembered p action \<longleftrightarrow> action \<in> set (pm_session p) \<or> action \<in> set (pm_workspace p)"

definition list_remembered :: "permissions \<Rightarrow> string \<Rightarrow> string option" where
  "list_remembered p action =
     (if action \<in> set (pm_workspace p) then Some ''workspace''
      else if action \<in> set (pm_session p) then Some ''session'' else None)"

definition permissions_json :: "string list \<Rightarrow> json" where
  "permissions_json ws = JObj (dict_of [(''schema_version'', JInt 2), (''always_allow'', JList (map JStr (sorted_set ws)))])"

text \<open>The directory is made and the file written, or one of the two raises.\<close>

definition save_permissions :: "unit gate_eff" where
  "save_permissions = (\<lambda>g. case gt_write_error g of
     Some e \<Rightarrow> raise e g
   | None \<Rightarrow> modify (\<lambda>g. g\<lparr>gt_file := Some (dumps (permissions_json (pm_workspace (gt_perms g))))\<rparr>) g)"

definition update_perms :: "(permissions \<Rightarrow> permissions) \<Rightarrow> unit gate_eff" where
  "update_perms f = modify (\<lambda>g. g\<lparr>gt_perms := f (gt_perms g)\<rparr>)"

definition remember :: "string \<Rightarrow> string \<Rightarrow> unit gate_eff" where
  "remember action scope =
     (if scope = ''session'' then update_perms (\<lambda>p. p\<lparr>pm_session := add_new (pm_session p) action\<rparr>)
      else if scope = ''workspace'' then
        seq (update_perms (\<lambda>p. p\<lparr>pm_workspace := add_new (pm_workspace p) action\<rparr>)) (\<lambda>_. save_permissions)
      else ret ())"

definition forget_all :: "unit gate_eff" where
  "forget_all = seq (update_perms (\<lambda>p. p\<lparr>pm_session := [], pm_workspace := []\<rparr>)) (\<lambda>_. save_permissions)"

text \<open>Iterating over the value of \<open>always_allow\<close>: a dictionary gives its keys, a text its characters.\<close>

fun iterated :: "json \<Rightarrow> (json list) option" where
  "iterated (JList xs) = Some xs"
| "iterated (JObj d) = Some (map (\<lambda>(k, _). JStr k) d)"
| "iterated (JStr s) = Some (map (\<lambda>c. JStr [c]) s)"
| "iterated _ = None"

definition texts_of :: "json list \<Rightarrow> string list" where
  "texts_of xs = uniq (concat (map (\<lambda>x. case x of JStr s \<Rightarrow> [s] | _ \<Rightarrow> []) xs))"

definition load_permissions :: "json_text option \<Rightarrow> py_error + string list" where
  "load_permissions file = (case file of
     None \<Rightarrow> Inr []
   | Some (Garbage _) \<Rightarrow> Inr []
   | Some (Text (JObj d)) \<Rightarrow>
       (case dict_get d ''always_allow'' of
          None \<Rightarrow> Inr []
        | Some j \<Rightarrow> (case iterated j of
            None \<Rightarrow> Inl (TypeError ''object is not iterable'') | Some xs \<Rightarrow> Inr (texts_of xs)))
   | Some (Text _) \<Rightarrow> Inr [])"

definition new_memory :: "json_text option \<Rightarrow> py_error + permissions" where
  "new_memory file = rbind (load_permissions file) (\<lambda>ws. Inr \<lparr>pm_session = [], pm_workspace = ws\<rparr>)"

subsection \<open>Answers\<close>

text \<open>The line the user typed, stripped and in lower case, or None when no answer could be read.\<close>

definition menu_answer :: "bool \<Rightarrow> string option \<Rightarrow> bool \<times> string" where
  "menu_answer offer_remember answer = (case answer of
     None \<Rightarrow> (False, ''none'')
   | Some a \<Rightarrow>
       if a \<in> {''a'', ''always''} then (True, if offer_remember then ''workspace'' else ''none'')
       else if a \<in> {''y'', ''yes''} then (True, ''none'')
       else (False, ''none''))"

definition remember_answer :: "string option \<Rightarrow> string" where
  "remember_answer answer = (case answer of
     None \<Rightarrow> ''none''
   | Some a \<Rightarrow>
       if a \<in> {''2'', ''s'', ''session''} then ''session''
       else if a \<in> {''3'', ''w'', ''workspace''} then ''workspace''
       else ''none'')"

subsection \<open>Asking\<close>

text \<open>What a manager is built with.\<close>

record manager =
  am_memory :: bool
  am_menu :: "(permission_request \<Rightarrow> bool \<Rightarrow> (rc, bool \<times> string) eff) option"
  am_approve :: "permission_request \<Rightarrow> (rc, bool) eff"
  am_remember :: "(string \<Rightarrow> (rc, string) eff) option"

text \<open>\<open>try\<close>: \<open>finally\<close>, where an exception of the last block replaces the one under way.\<close>

definition always_then :: "('s, 'a) eff \<Rightarrow> ('s, unit) eff \<Rightarrow> ('s, 'a) eff" where
  "always_then m c s = (case m s of (r, t) \<Rightarrow> (case c t of (Inl e, u) \<Rightarrow> (Inl e, u) | (Inr _, u) \<Rightarrow> (r, u)))"

definition attempt :: "('s, 'a) eff \<Rightarrow> ('s, py_error + 'a) eff" where
  "attempt m s = (case m s of (r, t) \<Rightarrow> (Inr r, t))"

definition settle :: "run_status option \<Rightarrow> bool option \<Rightarrow> unit gate_eff" where
  "settle previous approved =
     seq (on_gate_rc (\<lambda>r. ((), restore_after_approval previous r))) (\<lambda>_.
     seq (gets gt_task) (\<lambda>task. case (task, approved) of
       (Some tid, Some b) \<Rightarrow> seq (on_gate_store (record_approval_resolved tid b)) (\<lambda>_. ret ())
     | _ \<Rightarrow> ret ()))"

definition remember_choice :: "string \<Rightarrow> string \<Rightarrow> unit gate_eff" where
  "remember_choice action scope =
     (if scope \<in> {''session'', ''workspace''} then
        seq (remember action scope) (\<lambda>_. emit (Remembered action scope))
      else ret ())"

text \<open>Inside \<open>try\<close>, with and without a menu; after it, the separate question whether to remember.\<close>

definition ask_menu ::
  "manager \<Rightarrow> (permission_request \<Rightarrow> bool \<Rightarrow> (rc, bool \<times> string) eff) \<Rightarrow> permission_request \<Rightarrow> run_status option \<Rightarrow> bool gate_eff" where
  "ask_menu m menu request previous =
     (let action = pq_action request; offer = is_auto_approvable_action action \<and> am_memory m
      in seq (attempt (prompting (menu request offer))) (\<lambda>answer. case answer of
        Inl e \<Rightarrow> always_then (raise e) (settle previous None)
      | Inr (approved, scope) \<Rightarrow>
          always_then
            (seq (emit (Answered request approved (if approved then scope else ''none'') ''interactive_menu'')) (\<lambda>_.
             seq (if approved \<and> offer then remember_choice action scope else ret ()) (\<lambda>_.
             ret approved)))
            (settle previous (Some approved))))"

definition ask_callback :: "manager \<Rightarrow> permission_request \<Rightarrow> run_status option \<Rightarrow> bool gate_eff" where
  "ask_callback m request previous =
     seq (attempt (prompting (am_approve m request))) (\<lambda>answer. case answer of
       Inl e \<Rightarrow> always_then (raise e) (settle previous None)
     | Inr approved \<Rightarrow>
         seq (always_then (emit (Answered request approved (if approved then ''once'' else ''none'') ''approval_callback''))
           (settle previous (Some approved))) (\<lambda>_.
         seq (case am_remember m of
             None \<Rightarrow> ret ()
           | Some question \<Rightarrow>
               if approved \<and> is_auto_approvable_action (pq_action request) \<and> am_memory m
               then seq (prompting (question (pq_action request))) (remember_choice (pq_action request))
               else ret ()) (\<lambda>_.
         ret approved)))"

definition waiting_message :: "string \<Rightarrow> string" where
  "waiting_message action = ''Waiting for approval: '' @ action"

definition ask :: "manager \<Rightarrow> permission_request \<Rightarrow> bool gate_eff" where
  "ask m request =
     (let action = pq_action request
      in seq (gets gt_perms) (\<lambda>p.
        if is_auto_approvable_action action \<and> am_memory m \<and> is_remembered p action then
          seq (emit (AutoApproved request (case list_remembered p action of None \<Rightarrow> ''session'' | Some s \<Rightarrow> s))) (\<lambda>_.
          ret True)
        else
          seq (emit (Requested request)) (\<lambda>_.
          seq (on_gate_rc (mark_waiting_for_approval (waiting_message action))) (\<lambda>previous.
          seq (gets gt_task) (\<lambda>task.
          seq (case task of None \<Rightarrow> ret ()
               | Some tid \<Rightarrow> seq (on_gate_store (record_approval_requested tid (request_dict request))) (\<lambda>_. ret ())) (\<lambda>_.
          case am_menu m of
            Some menu \<Rightarrow> ask_menu m menu request previous
          | None \<Rightarrow> ask_callback m request previous))))))"

end
