(* ===== verification/CommandGate.thy ===== *)
theory CommandGate
  imports Approvals ProjectEnv Workspace
begin

text \<open>
  The command runner of \<open>tools/executor.py\<close>: what happens between the text a model asks to run and the
  text the shell is given. The operating system is a parameter that answers for every history of the
  trace; the output filters, the refusal of truncating redirections, the dialect of the platform and
  the choice between running and detaching are the code's. Loggers, the ledger and the diagnostic
  digest, which cannot change the result, are left out.
\<close>

subsection \<open>Redirections that truncate\<close>

definition redirect_parts :: "rx list" where
  "redirect_parts = [
     cats [Look (\<lambda>u v. u = [] \<or> hd u \<noteq> CHR ''>''), lit ''>'', Look (\<lambda>u v. v = [] \<or> hd v \<noteq> CHR ''>''), Star space],
     ors [cats [lit [dquote], plus (none_of [dquote]), lit [dquote]],
          cats [lit [squote], plus (none_of [squote]), lit [squote]],
          plus (One (\<lambda>c. \<not> is_space c \<and> c \<notin> set ''|&;<>''))]]"

definition unquote :: "string \<Rightarrow> string" where
  "unquote s = rstrip_of [dquote, squote] (lstrip_of [dquote, squote] (strip s))"

fun first_some :: "('a \<Rightarrow> 'b option) \<Rightarrow> 'a list \<Rightarrow> 'b option" where
  "first_some f [] = None"
| "first_some f (x # xs) = (case f x of None \<Rightarrow> first_some f xs | Some y \<Rightarrow> Some y)"

text \<open>The file a target names, when it exists in the workspace.\<close>

definition doomed_target :: "project_world \<Rightarrow> string \<Rightarrow> string list \<Rightarrow> string option" where
  "doomed_target w cwd groups =
     (let raw = unquote (last groups);
          target = pw_real w (path_below (path_below (pw_cwd w) cwd) raw)
      in if raw = [] \<or> hd raw \<in> {CHR ''&'', CHR ''|''} then None
         else if \<not> pw_is_file w target then None
         else if \<not> prefix (pw_root w) target then None
         else Some (pw_show w target))"

definition redirect_would_truncate :: "project_world \<Rightarrow> string \<Rightarrow> string \<Rightarrow> string" where
  "redirect_would_truncate w command cwd =
     (case first_some (doomed_target w cwd) (find_groups redirect_parts command) of None \<Rightarrow> [] | Some t \<Rightarrow> t)"

subsection \<open>Output filters\<close>

datatype output_filter =
    FilterHead nat
  | FilterTail nat
  | FilterCount
  | FilterGrep string bool bool

definition pipe_to :: "string \<Rightarrow> rx" where
  "pipe_to tool = cats [Star space, lit ''|'', Star space, lit tool, plus space]"

definition line_count_parts :: "string \<Rightarrow> rx list" where
  "line_count_parts tool = [cats [pipe_to tool, lit ''-'', opt (lit ''n''), Star space], plus digit, Cat (Star space) text_end]"

definition wc_parts :: "rx list" where
  "wc_parts = [cats [pipe_to ''wc'', lit ''-l'', Star space, text_end]]"

definition grep_parts :: "rx list" where
  "grep_parts = [pipe_to ''grep'', Star (cats [lit ''-'', plus (one_of ''ivEe''), plus space]),
     ors [cats [lit [dquote], Star (none_of [dquote]), lit [dquote]],
          cats [lit [squote], Star (none_of [squote]), lit [squote]],
          plus nonspace],
     Cat (Star space) text_end]"

definition number_of :: "string \<Rightarrow> nat" where
  "number_of s = (case int_of_text s of None \<Rightarrow> 0 | Some i \<Rightarrow> nat i)"

definition grep_filter :: "string list \<Rightarrow> output_filter" where
  "grep_filter groups =
     (let raw = groups ! 2; flags = groups ! 1;
          raw = (if hd raw \<in> {dquote, squote} \<and> hd raw = last raw then butlast (tl raw) else raw)
      in FilterGrep raw (CHR ''i'' \<in> set flags) (CHR ''v'' \<in> set flags))"

definition output_filters :: "(rx list \<times> (string list \<Rightarrow> output_filter)) list" where
  "output_filters = [
     (line_count_parts ''head'', \<lambda>ts. FilterHead (number_of (ts ! 1))),
     (line_count_parts ''tail'', \<lambda>ts. FilterTail (number_of (ts ! 1))),
     (wc_parts, \<lambda>_. FilterCount),
     (grep_parts, grep_filter)]"

definition split_output_filter :: "string \<Rightarrow> string \<times> output_filter option" where
  "split_output_filter command =
     (let s = rstrip command
      in case first_some (\<lambda>(parts, f). map_option (\<lambda>m. (m, f)) (search_groups parts s)) output_filters of
           None \<Rightarrow> (command, None)
         | Some ((pre, ts, _), f) \<Rightarrow>
             if rstrip pre = [] then (command, None) else (rstrip pre, Some (f ts)))"

text \<open>\<open>finds\<close> searches a line for the pattern of a \<open>grep\<close>, as \<open>re\<close> compiles it or else literally.\<close>

definition apply_filter :: "(string \<Rightarrow> bool \<Rightarrow> string \<Rightarrow> bool) \<Rightarrow> output_filter \<Rightarrow> string \<Rightarrow> string" where
  "apply_filter finds f out =
     (let ls = splitlines out
      in case f of
           FilterHead n \<Rightarrow> join [newline] (take n ls)
         | FilterTail n \<Rightarrow> join [newline] (if n = 0 then ls else drop (length ls - n) ls)
         | FilterCount \<Rightarrow> nat_str (length ls)
         | FilterGrep raw insensitive invert \<Rightarrow> join [newline] (filter (\<lambda>l. finds raw insensitive l \<noteq> invert) ls))"

subsection \<open>The shell's dialect\<close>

definition strip_posix_background :: "string \<Rightarrow> string \<times> bool" where
  "strip_posix_background command =
     (let s = rstrip command
      in if ends_with s ''&'' \<and> \<not> ends_with s ''&&'' then (rstrip (butlast s), True) else (command, False))"

definition mkdir_parts :: "rx list" where
  "mkdir_parts = [shell_prefix, cats [lit ''mkdir'', plus space, lit ''-p'', plus space], plus (none_of ''&|;<>'')]"

definition which_parts :: "rx list" where
  "which_parts = [shell_prefix, Cat (lit ''which'') (plus space)]"

definition platform_command :: "project_world \<Rightarrow> string \<Rightarrow> string" where
  "platform_command w command =
     (if \<not> pw_windows w \<or> command = [] then command
      else
        let command = replace_groups mkdir_parts
              (\<lambda>ts. hd ts @ ''mkdir '' @ replace_char (CHR ''/'') backslash (ts ! 2)) command;
            command = after_prefix which_parts ''where '' command
        in after_prefix python3_parts ([dquote] @ pw_executable w @ [dquote]) command)"

definition wordish :: rx where
  "wordish = One (\<lambda>c. is_word_char c \<or> c \<in> set (backslash # ''./-''))"

definition sp :: rx where
  "sp = plus space"

definition server_shaped :: rx where
  "server_shaped = (let stop = Or space text_end; dev = words [''dev'', ''start'', ''serve'', ''watch''];
       run = opt (Cat (lit ''run'') sp); python = Cat (lit ''python'') (Star (One (\<lambda>c. is_word_char c \<or> c = CHR ''.'')))
     in cats [ors [line_start, lit ''&&'', lit ''||'', one_of '';&|''], Star space, Lazy (Cat (Star wordish) sp),
       ors [
         cats [lit ''npm'', sp, run, dev],
         cats [words [''yarn'', ''pnpm'', ''bun''], sp, run, dev],
         Cat (lit ''vite'') stop, cats [lit ''next'', sp, lit ''dev''], cats [lit ''nuxt'', sp, lit ''dev''],
         cats [lit ''ng'', sp, lit ''serve''],
         cats [lit ''flask'', sp, lit ''run''], Cat (lit ''uvicorn'') space, Cat (lit ''gunicorn'') space,
         Cat (lit ''hypercorn'') space, Cat (lit ''daphne'') space,
         cats [python, sp, lit ''-m'', sp, lit ''http.server''], cats [python, sp, lit ''-m'', sp, lit ''flask''],
         cats [lit ''manage.py'', sp, lit ''runserver''], cats [lit ''rails'', sp, lit ''server''], cats [lit ''php'', sp, lit ''-S''],
         Cat (lit ''serve'') stop, Cat (lit ''http-server'') stop, Cat (lit ''live-server'') stop]])"

definition looks_like_a_server :: "string \<Rightarrow> bool" where
  "looks_like_a_server command \<longleftrightarrow> command \<noteq> [] \<and> found server_shaped command"

subsection \<open>The command_runner\<close>

text \<open>What a command that is waited for does, and what one that is left running has done so far.\<close>

datatype command_outcome = Ended int string string | Overran string string | NotStarted py_error

datatype detached_outcome = Quit int string | Serving nat string string | NotDetached py_error

record command_runner =
  rn_manager :: manager
  rn_seconds :: int
  rn_shell :: "gate_event list \<Rightarrow> string \<Rightarrow> path \<Rightarrow> command_outcome"
  rn_detach :: "gate_event list \<Rightarrow> string \<Rightarrow> path \<Rightarrow> detached_outcome"
  rn_matches :: "string \<Rightarrow> bool \<Rightarrow> string \<Rightarrow> bool"

definition blocked_exit_code :: int where "blocked_exit_code = 126"
definition denied_exit_code :: int where "denied_exit_code = 125"
definition timeout_exit_code :: int where "timeout_exit_code = 124"
definition workspace_exit_code :: int where "workspace_exit_code = 127"

type_synonym run_result = "int \<times> string \<times> string"

definition error_message :: "py_error \<Rightarrow> string" where
  "error_message e = (case e of SecurityError m \<Rightarrow> m | ValueError m \<Rightarrow> m | _ \<Rightarrow> [])"

definition validate_cwd :: "project_world \<Rightarrow> string \<Rightarrow> py_error + path" where
  "validate_cwd w cwd = rbind (validate (pw_root w) (pw_real w) cwd) (\<lambda>t.
     let dir = pw_root w @ t
     in if pw_is_dir w dir then Inr dir
        else Inl (ValueError (''Working directory does not exist: '' @ pw_show w dir)))"

definition command_request :: "string \<Rightarrow> string \<Rightarrow> string \<Rightarrow> permission_request" where
  "command_request description command dir =
     \<lparr>pq_action = ''run_command'', pq_description = description, pq_risk = ''medium'', pq_preview = Some command,
      pq_dir = Some dir, pq_reason = Some ''Command is medium risk or unknown.'', pq_targets = []\<rparr>"

text \<open>Commands that are not blocked: run at once, or after the question.\<close>

definition cleared :: "command_runner \<Rightarrow> project_world \<Rightarrow> string \<Rightarrow> string \<Rightarrow> path \<Rightarrow> bool gate_eff" where
  "cleared rn w description command dir =
     (if classify_command command = COMMAND_MEDIUM
      then ask (rn_manager rn) (command_request description command (pw_show w dir))
      else ret True)"

definition still_running_note :: "nat \<Rightarrow> string \<Rightarrow> string" where
  "still_running_note pid log_path = ''[still running: pid '' @ nat_str pid @ '', output -> '' @ log_path @ '']'' @ [newline] @
     ''This command does not exit, so it was started in the background and left up. It is serving NOW: check it with a request (curl, or a fetch) rather than starting it again. Starting it a second time will only take another port.''"

definition run_command_detached :: "command_runner \<Rightarrow> string \<Rightarrow> path \<Rightarrow> run_result gate_eff" where
  "run_command_detached rn command dir =
     seq (emit (Spawned command dir True)) (\<lambda>_. seq (gets gt_trace) (\<lambda>tr.
     case rn_detach rn tr command dir of
       NotDetached e \<Rightarrow> raise e
     | Quit code captured \<Rightarrow> ret (code, redact captured, if code = 0 then [] else redact captured)
     | Serving pid log_path captured \<Rightarrow>
         ret (0, redact captured @ [newline] @ still_running_note pid log_path, [])))"

definition run_command_bounded :: "command_runner \<Rightarrow> project_world \<Rightarrow> command_resolution \<Rightarrow> string \<Rightarrow> path \<Rightarrow> run_result gate_eff" where
  "run_command_bounded rn w res command dir =
     seq (emit (Spawned command dir False)) (\<lambda>_. seq (gets gt_trace) (\<lambda>tr.
     case rn_shell rn tr command dir of
       NotStarted e \<Rightarrow> raise e
     | Overran out err \<Rightarrow>
         (let message = ''Command timed out after '' @ int_str (rn_seconds rn) @ '' seconds: '' @ command
          in ret (timeout_exit_code, redact out, if redact err = [] then message else message @ [newline] @ redact err))
     | Ended code out err \<Rightarrow>
         seq (case (code = 0, persisted_state w res) of
             (True, Some (file, payload)) \<Rightarrow> emit (EnvironmentKept file payload)
           | _ \<Rightarrow> ret ()) (\<lambda>_.
         ret (code, redact out, redact err))))"

definition execute :: "command_runner \<Rightarrow> project_world \<Rightarrow> command_resolution \<Rightarrow> path \<Rightarrow> run_result gate_eff" where
  "execute rn w res dir =
     (let command = platform_command w (cr_command res);
          (detached_command, asked_for_background) = strip_posix_background command
      in if asked_for_background \<or> looks_like_a_server detached_command
         then run_command_detached rn detached_command dir
         else run_command_bounded rn w res command dir)"

definition run_unfiltered :: "command_runner \<Rightarrow> project_world \<Rightarrow> string \<Rightarrow> string \<Rightarrow> run_result gate_eff" where
  "run_unfiltered rn w command cwd = (case validate_cwd w cwd of
     Inl e \<Rightarrow> ret (workspace_exit_code, [], error_message e)
   | Inr dir \<Rightarrow>
       (let res = resolve_command w command dir; command = cr_command res
        in if classify_command command = COMMAND_BLOCKED
           then ret (blocked_exit_code, [], ''Blocked command: '' @ command)
           else seq (cleared rn w (''Run command: '' @ command) command dir) (\<lambda>ok.
             if ok then execute rn w res dir
             else ret (denied_exit_code, [], ''Command denied by user: '' @ command))))"

definition truncate_message :: "string \<Rightarrow> string" where
  "truncate_message doomed = ''Refused: `>` would empty '' @ doomed @ '' before the command on the left of it even runs, and the shell does that with no backup and no journal entry, so /undo could not bring it back. To replace the file, use write_file - it keeps a backup. To add to it, use append_file or `>>`. To capture output for reading, redirect somewhere new and read that.''"

definition run_command :: "command_runner \<Rightarrow> project_world \<Rightarrow> string \<Rightarrow> string \<Rightarrow> run_result gate_eff" where
  "run_command rn w command cwd =
     (let doomed = redirect_would_truncate w command cwd
      in if doomed \<noteq> [] then ret (blocked_exit_code, [], truncate_message doomed)
         else
           let (stripped, output_filter) = split_output_filter command
           in seq (run_unfiltered rn w stripped cwd) (\<lambda>(code, out, err).
                ret (code,
                  (case output_filter of Some f \<Rightarrow> if out = [] then out else apply_filter (rn_matches rn) f out | None \<Rightarrow> out),
                  err)))"

subsection \<open>Detached launches and tests\<close>

definition validate_and_approve ::
  "command_runner \<Rightarrow> project_world \<Rightarrow> string \<Rightarrow> string \<Rightarrow> string option \<Rightarrow> (bool \<times> int \<times> string \<times> path option) gate_eff" where
  "validate_and_approve rn w command cwd description = (case validate_cwd w cwd of
     Inl e \<Rightarrow> ret (False, workspace_exit_code, error_message e, None)
   | Inr dir \<Rightarrow>
       if classify_command command = COMMAND_BLOCKED
       then ret (False, blocked_exit_code, ''Blocked command: '' @ command, Some dir)
       else seq (cleared rn w (case description of Some (c # cs) \<Rightarrow> c # cs | _ \<Rightarrow> ''Run command: '' @ command) command dir) (\<lambda>ok.
         if ok then ret (True, 0, ''Command approved.'', Some dir)
         else ret (False, denied_exit_code, ''Command denied by user: '' @ command, Some dir)))"

definition summary_count :: "string \<Rightarrow> string \<Rightarrow> nat" where
  "summary_count output word = (case search_groups
       [plus digit, cats [plus space, One (\<lambda>c. c = hd word), foldr (\<lambda>c r. Cat (One (\<lambda>d. d = c)) r) (tl word) Eps, boundary]] output of
     None \<Rightarrow> 0 | Some (_, ts, _) \<Rightarrow> number_of (hd ts))"

record test_run =
  tr_passed :: nat
  tr_failed :: nat
  tr_raw :: string

definition run_tests :: "command_runner \<Rightarrow> project_world \<Rightarrow> string \<Rightarrow> test_run gate_eff" where
  "run_tests rn w cwd =
     seq (run_command rn w ''python -m pytest tests/ -q'' cwd) (\<lambda>(code, out, err).
       let raw = join [newline] (filter (\<lambda>part. part \<noteq> []) [out, err]);
           failed = summary_count raw ''failed''
       in ret \<lparr>tr_passed = summary_count raw ''passed'',
           tr_failed = (if code \<noteq> 0 \<and> failed = 0 then 1 else failed), tr_raw = raw\<rparr>)"

end
