(* ===== verification/ApprovalSafety.thy ===== *)
theory ApprovalSafety
  imports Approvals RunControlSafety
begin

text \<open>
  What asking for an approval may do. The contract of a relation between gates: what leaves the trace
  and the permissions alone keeps it, and so do the events a question leaves and the permissions an
  answer grants. Asking and forgetting keep every relation with this contract, which is proved once.
\<close>

subsection \<open>The contract\<close>

definition granted :: "gate_event list \<Rightarrow> string \<Rightarrow> bool" where
  "granted tr action \<longleftrightarrow> (\<exists>q scope source. Answered q True scope source \<in> set tr \<and> pq_action q = action)"

fun plain_event :: "gate_event \<Rightarrow> bool" where
  "plain_event (AutoApproved q s) = False"
| "plain_event (Spawned c d b) = False"
| "plain_event _ = True"

locale gate_steps = evolution R for R :: "gate \<Rightarrow> gate \<Rightarrow> bool" +
  assumes quiet: "gt_trace h = gt_trace g \<Longrightarrow> gt_perms h = gt_perms g \<Longrightarrow> R g h"
    and plain: "plain_event e \<Longrightarrow> R g (g\<lparr>gt_trace := gt_trace g @ [e]\<rparr>)"
    and auto_approval: "is_auto_approvable_action (pq_action q) \<Longrightarrow> is_remembered (gt_perms g) (pq_action q) \<Longrightarrow>
      R g (g\<lparr>gt_trace := gt_trace g @ [AutoApproved q s]\<rparr>)"
    and regrant: "(\<And>a. is_remembered p a \<Longrightarrow> is_remembered (gt_perms g) a \<or> granted (gt_trace g) a) \<Longrightarrow> R g (g\<lparr>gt_perms := p\<rparr>)"
begin

lemma ev_plain: "plain_event e \<Longrightarrow> evolves R (emit e) g"
  by (simp add: evolves_def emit_def plain)

lemma ev_quiet:
  "evolves R (on_gate_rc f) g" "evolves R (prompting k) g" "evolves R (on_gate_store m) g" "evolves R save_permissions g"
  by (auto simp: evolves_def on_gate_rc_def prompting_def on_gate_store_def save_permissions_def
      split: prod.splits option.splits intro!: quiet)

lemma ev_attempt: "evolves R m g \<Longrightarrow> evolves R (attempt m) g"
  by (cases "m g") (simp add: evolves_def attempt_def)

lemma ev_always_then: "evolves R m g \<Longrightarrow> (\<And>h. evolves R c h) \<Longrightarrow> evolves R (always_then m c) g"
  by (auto simp: evolves_def always_then_def split: prod.splits sum.splits intro: trans_R) (metis snd_conv trans_R)+

lemma ev_settle: "evolves R (settle previous approved) g"
  unfolding settle_def
  by (intro evolves_seq_all ev_quiet evolves_gets) (auto split: option.splits intro!: evolves_seq_all ev_quiet evolves_ret)

lemma ev_remember: "granted (gt_trace g) action \<Longrightarrow> evolves R (remember action scope) g"
proof -
  assume g: "granted (gt_trace g) action"
  have "evolves R (update_perms (\<lambda>p. p\<lparr>pm_session := add_new (pm_session p) action\<rparr>)) g"
       "evolves R (update_perms (\<lambda>p. p\<lparr>pm_workspace := add_new (pm_workspace p) action\<rparr>)) g"
    using g by (auto simp: evolves_def update_perms_def is_remembered_def intro!: regrant)
  then show ?thesis
    unfolding remember_def by (auto intro!: evolves_seq[where m = "update_perms f" for f] ev_quiet evolves_ret)
qed

lemma ev_remember_choice: "granted (gt_trace g) action \<Longrightarrow> evolves R (remember_choice action scope) g"
  unfolding remember_choice_def by (auto intro!: evolves_seq ev_remember ev_plain evolves_ret)

lemma ev_forget_all: "evolves R forget_all g"
  unfolding forget_all_def
  by (intro evolves_seq_all ev_quiet) (auto simp: evolves_def update_perms_def is_remembered_def intro!: regrant)

lemma granted_after:
  "emit (Answered q True scope source) g = (Inr x, h) \<Longrightarrow> granted (gt_trace h) (pq_action q)"
  "always_then (emit (Answered q True scope source)) (settle previous b) g = (Inr x, h) \<Longrightarrow> granted (gt_trace h) (pq_action q)"
proof -
  have keep: "gt_trace (snd (settle previous b g)) = gt_trace g" for g
    by (auto simp: settle_def seq_def on_gate_rc_def on_gate_store_def split: prod.splits sum.splits option.splits)
  show "emit (Answered q True scope source) g = (Inr x, h) \<Longrightarrow> granted (gt_trace h) (pq_action q)"
    by (force simp: emit_def granted_def)
  show "always_then (emit (Answered q True scope source)) (settle previous b) g = (Inr x, h) \<Longrightarrow>
      granted (gt_trace h) (pq_action q)"
    using keep[of "g\<lparr>gt_trace := gt_trace g @ [Answered q True scope source]\<rparr>"]
    by (force simp: always_then_def emit_def granted_def split: prod.splits sum.splits)
qed

lemma ev_ask_menu: "evolves R (ask_menu m menu q previous) g"
  unfolding ask_menu_def Let_def
  by (rule evolves_seq[OF ev_attempt[OF ev_quiet(2)]])
    (auto split: sum.splits prod.splits intro!: ev_always_then ev_settle evolves_raise evolves_seq ev_plain evolves_ret
      ev_remember_choice dest: granted_after)

lemma ev_remember_question: "granted (gt_trace g) action \<Longrightarrow> evolves R (seq (prompting k) (remember_choice action)) g"
  by (auto intro!: evolves_seq[OF ev_quiet(2)] ev_remember_choice simp: prompting_def split: prod.splits)

lemma ev_ask_callback: "evolves R (ask_callback m q previous) g"
  unfolding ask_callback_def
  by (rule evolves_seq[OF ev_attempt[OF ev_quiet(2)]])
    (auto split: sum.splits option.splits intro!: ev_always_then ev_settle evolves_raise ev_plain evolves_ret
      evolves_seq[where m = "always_then a b" for a b] evolves_seq[where f = "\<lambda>_. ret b" for b]
      ev_remember_question dest: granted_after)

lemma ev_auto:
  "is_auto_approvable_action (pq_action q) \<Longrightarrow> is_remembered (gt_perms g) (pq_action q) \<Longrightarrow>
     evolves R (seq (emit (AutoApproved q s)) (\<lambda>_. ret True)) g"
  by (simp add: emit_def evolves_def auto_approval)

lemma ev_ask: "evolves R (ask m q) g"
proof -
  have "evolves R (case am_menu m of None \<Rightarrow> ask_callback m q previous | Some menu \<Rightarrow> ask_menu m menu q previous) g" for previous g
    by (simp add: ev_ask_menu ev_ask_callback split: option.split)
  moreover have "evolves R (case task of None \<Rightarrow> ret ()
       | Some tid \<Rightarrow> seq (on_gate_store (record_approval_requested tid (request_dict q))) (\<lambda>_. ret ())) g" for task g
    by (auto split: option.split intro!: evolves_seq_all ev_quiet evolves_ret)
  ultimately have "evolves R (seq (emit (Requested q)) (\<lambda>_.
      seq (on_gate_rc (mark_waiting_for_approval (waiting_message (pq_action q)))) (\<lambda>previous.
      seq (gets gt_task) (\<lambda>task.
      seq (case task of None \<Rightarrow> ret ()
           | Some tid \<Rightarrow> seq (on_gate_store (record_approval_requested tid (request_dict q))) (\<lambda>_. ret ())) (\<lambda>_.
      case am_menu m of None \<Rightarrow> ask_callback m q previous | Some menu \<Rightarrow> ask_menu m menu q previous))))) g" for g
    by (intro evolves_seq_all ev_quiet evolves_gets ev_plain) simp_all
  then show ?thesis
    unfolding ask_def Let_def by (intro evolves_seq[OF evolves_gets]) (auto intro: ev_auto)
qed

end

subsection \<open>The trace of a question\<close>

lemma quiet_trace:
  "on_gate_rc f g = (x, h) \<Longrightarrow> gt_trace h = gt_trace g"
  "prompting k g = (y, h) \<Longrightarrow> gt_trace h = gt_trace g"
  "on_gate_store m g = (z, h) \<Longrightarrow> gt_trace h = gt_trace g"
  "settle previous b g = (u, h) \<Longrightarrow> gt_trace h = gt_trace g"
  by (auto simp: settle_def seq_def on_gate_rc_def on_gate_store_def prompting_def
      split: prod.splits sum.splits option.splits)

lemma always_then_Inr:
  "always_then m c g = (Inr x, h) \<Longrightarrow> \<exists>t y. m g = (Inr x, t) \<and> c t = (Inr y, h)"
  by (auto simp: always_then_def split: prod.splits sum.splits)

lemma attempt_Inr: "attempt m g = (Inr r, h) \<longleftrightarrow> m g = (r, h)"
  by (auto simp: attempt_def split: prod.splits)

lemma raise_Inr [simp]: "raise e g = (Inr x, h) \<longleftrightarrow> False"
  by simp

lemma emit_Inr: "emit e g = (Inr x, h) \<longleftrightarrow> h = g\<lparr>gt_trace := gt_trace g @ [e]\<rparr>"
  by (auto simp: emit_def)

lemma ask_menu_answered:
  assumes "ask_menu m menu q previous g = (Inr b, h)" "\<not> is_auto_approvable_action (pq_action q)"
  shows "\<exists>scope source. gt_trace h = gt_trace g @ [Answered q b scope source]"
  using assms unfolding ask_menu_def Let_def
  by (auto elim!: seq_InrE simp: attempt_Inr emit_Inr split: sum.splits prod.splits
      dest!: always_then_Inr quiet_trace)

lemma ask_callback_answered:
  assumes "ask_callback m q previous g = (Inr b, h)" "\<not> is_auto_approvable_action (pq_action q)"
  shows "\<exists>scope source. gt_trace h = gt_trace g @ [Answered q b scope source]"
  using assms unfolding ask_callback_def
  by (auto elim!: seq_InrE simp: attempt_Inr emit_Inr split: sum.splits option.splits
      dest!: always_then_Inr quiet_trace)

lemma ask_answered:
  assumes "ask m q g = (Inr b, h)" "\<not> is_auto_approvable_action (pq_action q)"
  shows "\<exists>scope source. gt_trace h = gt_trace g @ [Requested q, Answered q b scope source]"
proof -
  from assms obtain g1 g2 g3 previous x where g: "emit (Requested q) g = (Inr x, g1)"
      "on_gate_rc (mark_waiting_for_approval (waiting_message (pq_action q))) g1 = (Inr previous, g2)"
      "(case gt_task g2 of None \<Rightarrow> ret ()
        | Some tid \<Rightarrow> seq (on_gate_store (record_approval_requested tid (request_dict q))) (\<lambda>_. ret ())) g2 = (Inr (), g3)"
      "(case am_menu m of Some menu \<Rightarrow> ask_menu m menu q previous | None \<Rightarrow> ask_callback m q previous) g3 = (Inr b, h)"
    unfolding ask_def Let_def by (auto elim!: seq_InrE)
  have "gt_trace g3 = gt_trace g2"
    using g(3) by (auto elim!: seq_InrE dest!: quiet_trace split: option.splits)
  moreover have "\<exists>scope source. gt_trace h = gt_trace g3 @ [Answered q b scope source]"
    using g(4) ask_menu_answered ask_callback_answered assms(2) by (auto split: option.splits)
  ultimately show ?thesis using g(1) quiet_trace(1)[OF g(2)] by (auto simp: emit_Inr)
qed

subsection \<open>Permissions go back to an answer\<close>

definition traceable :: "string list \<Rightarrow> gate \<Rightarrow> bool" where
  "traceable loaded g \<longleftrightarrow>
     (\<forall>a. is_remembered (gt_perms g) a \<longrightarrow> a \<in> set loaded \<or> granted (gt_trace g) a) \<and>
     (\<forall>tr q s rest. gt_trace g = tr @ AutoApproved q s # rest \<longrightarrow>
        pq_action q \<in> set auto_approvable \<and> (pq_action q \<in> set loaded \<or> granted tr (pq_action q)))"

lemma granted_mono: "granted tr a \<Longrightarrow> granted (tr @ es) a"
  by (auto simp: granted_def)

lemma traceable_event:
  assumes "traceable loaded g"
    and "\<And>q s. e = AutoApproved q s \<Longrightarrow> is_auto_approvable_action (pq_action q) \<and> is_remembered (gt_perms g) (pq_action q)"
  shows "traceable loaded (g\<lparr>gt_trace := gt_trace g @ [e]\<rparr>)"
  unfolding traceable_def
proof (intro conjI allI impI)
  fix a assume "is_remembered (gt_perms (g\<lparr>gt_trace := gt_trace g @ [e]\<rparr>)) a"
  with assms(1) show "a \<in> set loaded \<or> granted (gt_trace (g\<lparr>gt_trace := gt_trace g @ [e]\<rparr>)) a"
    by (auto simp: traceable_def granted_mono)
next
  fix tr q s rest assume "gt_trace (g\<lparr>gt_trace := gt_trace g @ [e]\<rparr>) = tr @ AutoApproved q s # rest"
  then consider "e = AutoApproved q s" "tr = gt_trace g" | rest' where "gt_trace g = tr @ AutoApproved q s # rest'"
    by (cases rest rule: rev_cases) auto
  then have "pq_action q \<in> set auto_approvable \<and> (pq_action q \<in> set loaded \<or> granted tr (pq_action q))"
  proof cases
    case 1
    with assms show ?thesis by (auto simp: traceable_def is_auto_approvable_action_def)
  next
    case 2
    with assms(1) show ?thesis unfolding traceable_def by blast
  qed
  then show "pq_action q \<in> set auto_approvable" "pq_action q \<in> set loaded \<or> granted tr (pq_action q)" by simp_all
qed

interpretation tracing: gate_steps "\<lambda>g h. traceable loaded g \<longrightarrow> traceable loaded h" for loaded
proof unfold_locales
  show "traceable loaded g \<longrightarrow> traceable loaded (g\<lparr>gt_trace := gt_trace g @ [e]\<rparr>)" if "plain_event e" for e g
    using that by (auto intro!: traceable_event)
  show "traceable loaded g \<longrightarrow> traceable loaded (g\<lparr>gt_trace := gt_trace g @ [AutoApproved q s]\<rparr>)"
    if "is_auto_approvable_action (pq_action q)" "is_remembered (gt_perms g) (pq_action q)" for q g s
    using that by (auto intro!: traceable_event)
  show "traceable loaded g \<longrightarrow> traceable loaded (g\<lparr>gt_perms := p\<rparr>)"
    if "\<And>a. is_remembered p a \<Longrightarrow> is_remembered (gt_perms g) a \<or> granted (gt_trace g) a" for p g
    using that unfolding traceable_def by simp blast
  show "traceable loaded g \<longrightarrow> traceable loaded h" if "gt_trace h = gt_trace g" "gt_perms h = gt_perms g" for g h
    unfolding traceable_def that ..
qed simp_all

subsection \<open>The permissions file\<close>

text \<open>What is remembered for the workspace survives a restart: the memory built from the file that
  saving wrote knows exactly the actions that were remembered for the workspace, and forgets those of
  the session.\<close>

theorem permissions_survive_restart:
  "\<exists>p. new_memory (Some (dumps (permissions_json ws))) = Inr p \<and>
     list_remembered p a = (if a \<in> set ws then Some ''workspace'' else None)"
proof -
  have "texts_of (map JStr xs) = uniq xs" for xs
    by (simp add: texts_of_def comp_def)
  then have "new_memory (Some (dumps (permissions_json ws))) = Inr \<lparr>pm_session = [], pm_workspace = uniq (sorted_set ws)\<rparr>"
    by (simp add: new_memory_def load_permissions_def dumps_def permissions_json_def dict_of_def dict_get_def)
  then show ?thesis by (simp add: list_remembered_def)
qed

text \<open>A value that cannot be iterated over is not caught.\<close>

lemma null_permissions_raise: "new_memory (Some (Text (JObj [(''always_allow'', JNull)]))) = Inl (TypeError ''object is not iterable'')"
  by (simp add: new_memory_def load_permissions_def dict_get_def)

subsection \<open>An error before the question\<close>

text \<open>
  The request is recorded before the \<open>try\<close>: when the store refuses it, nobody is asked and the run stays
  marked as waiting.
\<close>

lemma refused_record_leaves_the_run_waiting:
  assumes "\<not> (is_auto_approvable_action (pq_action q) \<and> am_memory m \<and> is_remembered (gt_perms g) (pq_action q))"
    and "rc_current (gt_rc g) = Some a" "co_status (obj (gt_rc g) a) \<notin> set terminal_statuses"
    and "gt_task g = Some tid" "record_approval_requested tid (request_dict q) (gt_store g) = (Inl e, s)"
  shows "fst (ask m q g) = Inl e" "co_status (obj (gt_rc (snd (ask m q g))) a) = RUN_WAITING_FOR_APPROVAL"
proof -
  obtain previous r where mark: "mark_waiting_for_approval (waiting_message (pq_action q)) (gt_rc g) = (previous, r)"
    by fastforce
  have r: "co_status (obj r a) = RUN_WAITING_FOR_APPROVAL"
    using mark assms(2,3) by (auto simp: mark_waiting_for_approval_def mark_def record_event_def Let_def)
  have "ask m q g = (Inl e, g\<lparr>gt_trace := gt_trace g @ [Requested q], gt_rc := r, gt_store := s\<rparr>)"
    unfolding ask_def Let_def seq_gets if_not_P[OF assms(1)] emit_def seq_modify
    by (simp add: seq_def on_gate_rc_def on_gate_store_def mark assms(4,5))
  with r show "fst (ask m q g) = Inl e" "co_status (obj (gt_rc (snd (ask m q g))) a) = RUN_WAITING_FOR_APPROVAL"
    by simp_all
qed

end
