(* ===== verification/Diagnostics.thy ===== *)
theory Diagnostics
  imports Regex "HOL-Library.Multiset"
begin

text \<open>
  Diagnostics as the repair loop sees them: the normalized records and packets of
  \<open>diagnostics/types.py\<close>, the choice of root causes (\<open>diagnostics/root_cause.py\<close>), the flat errors with
  their kinds and order (\<open>repair/kinds.py\<close>) and the comparison of two sets of errors
  (\<open>repair/comparator.py\<close>). The parsers that read the output of tools are not modelled.
\<close>

subsection \<open>Records\<close>

record diagnostic =
  dg_tool :: string
  dg_severity :: string
  dg_code :: string
  dg_category :: string
  dg_message :: string
  dg_file :: string
  dg_line :: "nat option"
  dg_column :: "nat option"
  dg_symbol :: string
  dg_module :: string
  dg_excerpt :: string
  dg_count :: nat

definition identity :: "diagnostic \<Rightarrow> string \<times> string \<times> nat option \<times> string" where
  "identity r = (dg_code r, dg_file r, dg_line r, dg_message r)"

record error_packet =
  pk_command :: string
  pk_exit :: int
  pk_tool :: string
  pk_root :: "diagnostic list"
  pk_secondary :: "diagnostic list"

subsection \<open>Root causes\<close>

definition vendor_markers :: "string list" where
  "vendor_markers = [''node_modules/'', ''site-packages/'', ''/.venv/'', ''/dist/'', ''vendor/'']"

definition is_vendor_path :: "string \<Rightarrow> bool" where
  "is_vendor_path p \<longleftrightarrow> p \<noteq> [] \<and> list_ex (\<lambda>m. contains m (replace_char (CHR 0x5C) (CHR ''/'') p)) vendor_markers"

text \<open>The first record of an identity stays and adds up the counts.\<close>

fun add_record :: "diagnostic \<Rightarrow> diagnostic list \<Rightarrow> diagnostic list" where
  "add_record r [] = [r]"
| "add_record r (s # ss) =
     (if identity s = identity r then s\<lparr>dg_count := dg_count s + dg_count r\<rparr> # ss else s # add_record r ss)"

definition dedupe_and_count :: "diagnostic list \<Rightarrow> diagnostic list" where
  "dedupe_and_count rs = fold add_record rs []"

definition category_priority :: "string \<Rightarrow> nat" where
  "category_priority c = (case map_of
     [(''missing_export'', 0), (''import_export_mismatch'', 0), (''runtime_missing_export'', 0), (''module_not_found'', 0),
      (''import_error'', 0), (''syntax_error'', 1), (''jsx_error'', 1), (''npm_error'', 2), (''type_error'', 2),
      (''compiler_error'', 2), (''exception'', 2), (''test_failure'', 2), (''runtime_exception'', 3), (''lint'', 3),
      (''generic'', 4)] c of None \<Rightarrow> 5 | Some n \<Rightarrow> n)"

definition root_cause_categories :: "string list" where
  "root_cause_categories = [''missing_export'', ''import_export_mismatch'', ''runtime_missing_export'', ''module_not_found'', ''import_error'']"

text \<open>The most frequent name, the first of several.\<close>

fun most_common :: "string list \<Rightarrow> string list \<Rightarrow> string option \<Rightarrow> string option" where
  "most_common all [] best = best"
| "most_common all (x # xs) best = most_common all xs (case best of
     None \<Rightarrow> Some x | Some b \<Rightarrow> if count_list all b < count_list all x then Some x else Some b)"

definition dominant_file :: "diagnostic list \<Rightarrow> string option" where
  "dominant_file pool = (let files = filter (\<lambda>f. f \<noteq> []) (map dg_file pool) in most_common files (uniq files) None)"

definition root_order :: "string option \<Rightarrow> diagnostic \<Rightarrow> nat \<times> nat \<times> int" where
  "root_order dominant r =
     (category_priority (dg_category r), if dominant = Some (dg_file r) then 0 else 1, - int (dg_count r))"

definition key_le :: "nat \<times> nat \<times> int \<Rightarrow> nat \<times> nat \<times> int \<Rightarrow> bool" where
  "key_le a b \<longleftrightarrow> fst a < fst b \<or> (fst a = fst b \<and> (fst (snd a) < fst (snd b) \<or>
     (fst (snd a) = fst (snd b) \<and> snd (snd a) \<le> snd (snd b))))"

text \<open>Stable sorting.\<close>

fun insert_by :: "('a \<Rightarrow> nat \<times> nat \<times> int) \<Rightarrow> 'a \<Rightarrow> 'a list \<Rightarrow> 'a list" where
  "insert_by k x [] = [x]"
| "insert_by k x (y # ys) = (if key_le (k x) (k y) then x # y # ys else y # insert_by k x ys)"

definition sorted_by :: "('a \<Rightarrow> nat \<times> nat \<times> int) \<Rightarrow> 'a list \<Rightarrow> 'a list" where
  "sorted_by k xs = foldr (insert_by k) xs []"

definition select_root_diagnostics :: "diagnostic list \<Rightarrow> diagnostic list \<times> diagnostic list" where
  "select_root_diagnostics records =
     (let deduped = dedupe_and_count records;
          user = filter (\<lambda>r. \<not> is_vendor_path (dg_file r)) deduped;
          pool = (if user = [] then deduped else user);
          ordered = sorted_by (root_order (dominant_file pool)) pool;
          matches = filter (\<lambda>r. dg_category r \<in> set root_cause_categories) ordered;
          chosen = (if matches \<noteq> [] then matches
            else filter (\<lambda>r. category_priority (dg_category r) = category_priority (dg_category (hd ordered))) ordered)
      in if deduped = [] then ([], []) else (chosen, filter (\<lambda>r. r \<notin> set chosen) ordered))"

subsection \<open>Kinds of errors\<close>

datatype error_kind = SYNTAX_ERROR | TYPE_ERROR | IMPORT_ERROR | EXPORT_ERROR | MODULE_NOT_FOUND | MISSING_SYMBOL
  | JSX_ERROR | UNKNOWN_ERROR

fun kind_value :: "error_kind \<Rightarrow> string" where
  "kind_value SYNTAX_ERROR = ''SYNTAX_ERROR''"
| "kind_value TYPE_ERROR = ''TYPE_ERROR''"
| "kind_value IMPORT_ERROR = ''IMPORT_ERROR''"
| "kind_value EXPORT_ERROR = ''EXPORT_ERROR''"
| "kind_value MODULE_NOT_FOUND = ''MODULE_NOT_FOUND''"
| "kind_value MISSING_SYMBOL = ''MISSING_SYMBOL''"
| "kind_value JSX_ERROR = ''JSX_ERROR''"
| "kind_value UNKNOWN_ERROR = ''UNKNOWN''"

fun kind_priority :: "error_kind \<Rightarrow> nat" where
  "kind_priority SYNTAX_ERROR = 0"
| "kind_priority IMPORT_ERROR = 1"
| "kind_priority MODULE_NOT_FOUND = 1"
| "kind_priority EXPORT_ERROR = 2"
| "kind_priority MISSING_SYMBOL = 2"
| "kind_priority JSX_ERROR = 3"
| "kind_priority TYPE_ERROR = 3"
| "kind_priority UNKNOWN_ERROR = 4"

definition code_kinds :: "(string \<times> error_kind) list" where
  "code_kinds = [(''TS1005'', SYNTAX_ERROR), (''TS1109'', SYNTAX_ERROR), (''TS1128'', SYNTAX_ERROR), (''TS1002'', SYNTAX_ERROR),
     (''TS2304'', MISSING_SYMBOL), (''TS2305'', EXPORT_ERROR), (''TS2307'', MODULE_NOT_FOUND), (''TS2614'', EXPORT_ERROR),
     (''TS2724'', EXPORT_ERROR), (''TS6142'', JSX_ERROR), (''TS17004'', JSX_ERROR), (''TS17002'', JSX_ERROR),
     (''TS2657'', JSX_ERROR), (''TS2604'', JSX_ERROR), (''TS2786'', JSX_ERROR), (''TS7006'', TYPE_ERROR), (''TS7031'', TYPE_ERROR)]"

definition category_kinds :: "(string \<times> error_kind) list" where
  "category_kinds = [(''syntax_error'', SYNTAX_ERROR), (''jsx_error'', JSX_ERROR), (''import_error'', IMPORT_ERROR),
     (''module_not_found'', MODULE_NOT_FOUND), (''missing_export'', EXPORT_ERROR), (''import_export_mismatch'', EXPORT_ERROR),
     (''runtime_missing_export'', EXPORT_ERROR), (''type_error'', TYPE_ERROR), (''compiler_error'', TYPE_ERROR),
     (''npm_error'', UNKNOWN_ERROR)]"

text \<open>\<open>upper\<close>, as far as it can make one of the codes above.\<close>

definition upper_code :: "string \<Rightarrow> string" where
  "upper_code s = map (\<lambda>c. if is_letter c \<and> lower_char c = c then char_of ((of_char c :: nat) - 32) else c) s"

definition jsx_word :: rx where
  "jsx_word = cats [boundary, lit ''JSX'', boundary]"

definition classify_record :: "diagnostic \<Rightarrow> error_kind" where
  "classify_record r =
     (case map_of code_kinds (upper_code (dg_code r)) of
        Some k \<Rightarrow> k
      | None \<Rightarrow>
          if found jsx_word (dg_message r) \<and> contains ''jsx'' (lower (dg_message r)) then JSX_ERROR
          else case map_of category_kinds (dg_category r) of
            Some k \<Rightarrow> k
          | None \<Rightarrow>
              let lowered = lower (dg_message r)
              in if contains ''failed to resolve import'' lowered then IMPORT_ERROR
                 else if contains ''cannot find module'' lowered \<or> contains (''can'' @ [CHR 0x27] @ ''t resolve'') lowered then MODULE_NOT_FOUND
                 else if contains ''has no exported member'' lowered \<or> contains ''does not provide an export'' lowered then EXPORT_ERROR
                 else if contains ''cannot find name'' lowered then MISSING_SYMBOL
                 else UNKNOWN_ERROR)"

record repair_error =
  rr_command :: string
  rr_exit :: int
  rr_tool :: string
  rr_kind :: error_kind
  rr_file :: string
  rr_line :: "nat option"
  rr_column :: "nat option"
  rr_code :: string
  rr_symbol :: string
  rr_module :: string
  rr_message :: string
  rr_raw :: string
  rr_severity :: string

definition implicit_any :: rx where
  "implicit_any = cats [lit ''implicitly has a'', opt (lit ''n''), lit '' '', Star dot, lit ''any'', Star dot, lit '' type'']"

definition error_priority :: "repair_error \<Rightarrow> nat" where
  "error_priority e = (if found implicit_any (rr_message e) then 5 else kind_priority (rr_kind e))"

definition line_text :: "nat option \<Rightarrow> string" where
  "line_text l = (case l of None \<Rightarrow> ''None'' | Some n \<Rightarrow> nat_str n)"

definition error_signature :: "repair_error \<Rightarrow> string" where
  "error_signature e = join '':'' [kind_value (rr_kind e), rr_code e, rr_file e, line_text (rr_line e), rr_symbol e, strip (rr_message e)]"

definition record_to_error :: "error_packet \<Rightarrow> diagnostic \<Rightarrow> repair_error" where
  "record_to_error p r = \<lparr>rr_command = pk_command p, rr_exit = pk_exit p,
     rr_tool = (if dg_tool r = [] then pk_tool p else dg_tool r), rr_kind = classify_record r, rr_file = dg_file r,
     rr_line = dg_line r, rr_column = dg_column r, rr_code = dg_code r, rr_symbol = dg_symbol r, rr_module = dg_module r,
     rr_message = dg_message r, rr_raw = dg_excerpt r, rr_severity = dg_severity r\<rparr>"

definition repair_errors_from_packet :: "error_packet \<Rightarrow> repair_error list" where
  "repair_errors_from_packet p = map (record_to_error p) (pk_root p @ pk_secondary p)"

definition primary_key :: "repair_error \<Rightarrow> nat \<times> nat \<times> int" where
  "primary_key e = (error_priority e, if rr_file e = [] then 1 else 0,
     case rr_line e of None \<Rightarrow> 1000000 | Some n \<Rightarrow> int n)"

text \<open>\<open>min\<close>: the first error with the least key.\<close>

fun first_least :: "('a \<Rightarrow> nat \<times> nat \<times> int) \<Rightarrow> 'a \<Rightarrow> 'a list \<Rightarrow> 'a" where
  "first_least k best [] = best"
| "first_least k best (x # xs) = first_least k (if key_le (k best) (k x) then best else x) xs"

definition select_primary_error :: "repair_error list \<Rightarrow> repair_error option" where
  "select_primary_error es = (case es of [] \<Rightarrow> None | e # es \<Rightarrow> Some (first_least primary_key e es))"

subsection \<open>Comparison\<close>

datatype repair_outcome = SOLVED | IMPROVED | ADVANCED | UNCHANGED | WORSE | DIFFERENT

fun outcome_value :: "repair_outcome \<Rightarrow> string" where
  "outcome_value SOLVED = ''SOLVED''"
| "outcome_value IMPROVED = ''IMPROVED''"
| "outcome_value ADVANCED = ''ADVANCED''"
| "outcome_value UNCHANGED = ''UNCHANGED''"
| "outcome_value WORSE = ''WORSE''"
| "outcome_value DIFFERENT = ''DIFFERENT''"

definition same_test_advanced :: "repair_error list \<Rightarrow> repair_error list \<Rightarrow> bool" where
  "same_test_advanced olds news = (case (olds, news) of
     ([old], [new]) \<Rightarrow>
       (let norm = (\<lambda>f. lower (replace_char (CHR 0x5C) (CHR ''/'') f));
            old_file = norm (rr_file old); new_file = norm (rr_file new)
        in (contains ''/test'' old_file \<or> contains ''.test.'' old_file \<or> contains ''.spec.'' old_file) \<and>
           rr_symbol old \<noteq> [] \<and> rr_symbol old = rr_symbol new \<and> old_file = new_file \<and>
           (case (rr_line old, rr_line new) of (Some m, Some n) \<Rightarrow> m < n | _ \<Rightarrow> False))
   | _ \<Rightarrow> False)"

definition compare_errors :: "repair_error list \<Rightarrow> repair_error list \<Rightarrow> int \<Rightarrow> repair_outcome" where
  "compare_errors before_errors after_errors after_exit =
     (if after_exit = 0 \<and> after_errors = [] then SOLVED
      else if length before_errors < length after_errors then WORSE
      else if length after_errors < length before_errors then IMPROVED
      else if mset (map error_signature after_errors) = mset (map error_signature before_errors) then UNCHANGED
      else if same_test_advanced before_errors after_errors then ADVANCED
      else DIFFERENT)"

definition is_progress :: "repair_outcome \<Rightarrow> bool" where
  "is_progress outcome \<longleftrightarrow> outcome \<in> {SOLVED, IMPROVED, ADVANCED}"

end
