(* ===== verification/RepairLoop.thy ===== *)
theory RepairLoop
  imports Diagnostics Transactions
begin

text \<open>
  The repair loop of \<open>repair/loop.py\<close> with its types (\<open>repair/types.py\<close>), the blocker of repeated actions
  (\<open>repair/action_blocker.py\<close>) and its final message (\<open>repair/prompt.py\<close>). The verifier together with the
  digest of its output, and the model that proposes plans, are parameters; so are the helpers that look
  for imports and for the dependencies of tests, which read Python and JavaScript sources. Everything
  that writes is a transaction of the workspace.
\<close>

subsection \<open>Data\<close>

record repair_plan =
  rp_cause :: string
  rp_target :: string
  rp_search :: string
  rp_replace :: string
  rp_content :: string

definition has_edit :: "repair_plan \<Rightarrow> bool" where
  "has_edit p \<longleftrightarrow> rp_content p \<noteq> [] \<or> rp_search p \<noteq> []"

definition plan_payload :: "repair_plan \<Rightarrow> string" where
  "plan_payload p = join [CHR 0x00] [rp_target p, rp_search p, rp_replace p, rp_content p]"

record snippet =
  sn_file :: string
  sn_start :: nat
  sn_end :: nat
  sn_content :: string

record previous_attempt =
  pa_files :: "string list"
  pa_before :: string
  pa_after :: string
  pa_outcome :: repair_outcome
  pa_note :: string

record attempt_record =
  ra_index :: nat
  ra_files :: "string list"
  ra_before :: string
  ra_after :: string
  ra_outcome :: repair_outcome
  ra_kept :: bool
  ra_note :: string

record debug_context =
  dc_error :: repair_error
  dc_command :: string
  dc_inspected :: "snippet list"
  dc_editable :: "string list"
  dc_attempts :: "previous_attempt list"
  dc_suggestion :: string

record repair_env =
  re_command :: string
  re_verify :: "disk \<Rightarrow> error_packet \<times> disk"
  re_propose :: "nat \<Rightarrow> debug_context \<Rightarrow> repair_plan option"
  re_module :: "disk \<Rightarrow> string \<Rightarrow> string \<Rightarrow> string"
  re_tests :: "disk \<Rightarrow> string \<Rightarrow> (string \<times> nat) list"
  re_import_fix :: "disk \<Rightarrow> string \<Rightarrow> string \<Rightarrow> string"
  re_fixture :: "disk \<Rightarrow> repair_error \<Rightarrow> string \<Rightarrow> repair_plan option"
  re_editable :: "string list option"
  re_hash :: "string \<Rightarrow> string"

subsection \<open>The blocker\<close>

definition action_signature :: "(string \<Rightarrow> string) \<Rightarrow> string list \<Rightarrow> string \<Rightarrow> string" where
  "action_signature hash files payload =
     hash (join '','' (sort (map (replace_char backslash (CHR ''/'')) files)) @ [CHR 0x00] @ payload)"

type_synonym blocker = "(string \<times> nat) list"

definition failures_of :: "blocker \<Rightarrow> string \<Rightarrow> nat" where
  "failures_of b s = (case map_of b s of None \<Rightarrow> 0 | Some n \<Rightarrow> n)"

definition is_blocked :: "blocker \<Rightarrow> string \<Rightarrow> bool" where
  "is_blocked b s \<longleftrightarrow> 1 \<le> failures_of b s"

definition blocker_failure :: "string \<Rightarrow> blocker \<Rightarrow> blocker" where
  "blocker_failure s b = AList.update s (Suc (failures_of b s)) b"

definition blocker_reset :: "string \<Rightarrow> blocker \<Rightarrow> blocker" where
  "blocker_reset s b = AList.delete s b"

subsection \<open>Looking around\<close>

text \<open>A workspace-relative spelling, or nothing.\<close>

definition relative_path :: "sandbox \<Rightarrow> string \<Rightarrow> string" where
  "relative_path sb p = (case sb (replace_char backslash (CHR ''/'') p) of
     Inl _ \<Rightarrow> [] | Inr [] \<Rightarrow> ''.'' | Inr t \<Rightarrow> join ''/'' t)"

definition inspect_window :: nat where "inspect_window = 40"

definition read_window :: "sandbox \<Rightarrow> disk \<Rightarrow> string \<Rightarrow> nat \<Rightarrow> snippet option" where
  "read_window sb d p line = (case sb p of
     Inl _ \<Rightarrow> None
   | Inr t \<Rightarrow> (case content_at (dk_nodes d) t of
       None \<Rightarrow> None
     | Some c \<Rightarrow>
         (let ls = splitlines (universal c);
              from_line = max (line - inspect_window) 1; to_line = min (line + inspect_window) (length ls)
          in Some \<lparr>sn_file = (if t = [] then ''.'' else join ''/'' t), sn_start = from_line, sn_end = to_line,
               sn_content = join [newline] (drop (from_line - 1) (take to_line ls))\<rparr>)))"

definition files_to_inspect :: "repair_env \<Rightarrow> disk \<Rightarrow> repair_error \<Rightarrow> (string \<times> nat) list" where
  "files_to_inspect env d e =
     (if rr_file e = [] then [] else [(rr_file e, case rr_line e of Some (Suc n) \<Rightarrow> Suc n | _ \<Rightarrow> 1)]) @
     (if rr_module e = [] then []
      else case re_module env d (rr_file e) (rr_module e) of [] \<Rightarrow> [] | f \<Rightarrow> [(f, 1)]) @
     re_tests env d (rr_file e)"

fun inspect_files :: "sandbox \<Rightarrow> disk \<Rightarrow> (string \<times> nat) list \<Rightarrow> snippet list \<Rightarrow> snippet list" where
  "inspect_files sb d [] acc = acc"
| "inspect_files sb d ((p, line) # rest) acc = inspect_files sb d rest (case read_window sb d p line of
     None \<Rightarrow> acc | Some s \<Rightarrow> if sn_file s \<in> set (map sn_file acc) then acc else acc @ [s])"

definition build_context :: "repair_env \<Rightarrow> sandbox \<Rightarrow> disk \<Rightarrow> repair_error \<Rightarrow> previous_attempt list \<Rightarrow> debug_context" where
  "build_context env sb d e history =
     (let inspected = inspect_files sb d (files_to_inspect env d e) [];
          files = map sn_file inspected
      in \<lparr>dc_error = e, dc_command = re_command env, dc_inspected = inspected,
          dc_editable = sorted_set (case re_editable env of None \<Rightarrow> files | Some es \<Rightarrow> filter (\<lambda>f. f \<in> set files) es),
          dc_attempts = history,
          dc_suggestion = (if rr_kind e \<in> {IMPORT_ERROR, MODULE_NOT_FOUND} \<and> rr_module e \<noteq> [] \<and> rr_file e \<noteq> []
            then re_import_fix env d (rr_file e) (rr_module e) else [])\<rparr>)"

subsection \<open>Plans that cannot help\<close>

definition name_part :: "rx list" where
  "name_part = [One (\<lambda>c. is_letter c \<or> c = CHR ''_''), Star (One is_word_char)]"

definition constraint_parts :: "rx list" where
  "constraint_parts = [cats [lit ''constraint failed:'', Star space, plus (One (\<lambda>c. is_word_char c \<or> c = CHR ''.'')), lit ''.''],
     cats name_part]"

definition remove_suffix :: "string \<Rightarrow> string \<Rightarrow> string" where
  "remove_suffix e s = (if suffix e s then take (length s - length e) s else s)"

definition plan_relevance_error :: "repair_error \<Rightarrow> repair_plan \<Rightarrow> string" where
  "plan_relevance_error e p = (case search_groups constraint_parts (rr_message e) of
     None \<Rightarrow> []
   | Some (_, ts, _) \<Rightarrow>
       (let field = last ts; fixture_field = remove_suffix ''_id'' field;
            replacement = (if rp_content p = [] then rp_replace p else rp_content p)
        in if found (cats [boundary, exact fixture_field, boundary]) replacement then []
           else if contains ''.objects.create'' (rp_search p) \<and> \<not> contains ''.objects.create'' replacement then []
           else ''rejected before apply: verifier names constraint field `'' @ field @ ''`, but the patch does not modify fixture field `'' @
             fixture_field @ ''`. Changing an unrelated field cannot resolve this diagnostic; use a different strategy.''))"

subsection \<open>The text of a failed plan\<close>

definition hex_digit :: "nat \<Rightarrow> char" where
  "hex_digit n = (if n < 10 then char_of (48 + n) else char_of (87 + n))"

definition repr_char :: "char \<Rightarrow> char \<Rightarrow> string" where
  "repr_char quote c =
     (let n = (of_char c :: nat)
      in if c = quote \<or> c = backslash then [backslash, c]
         else if n = 10 then [backslash, CHR ''n'']
         else if n = 13 then [backslash, CHR ''r'']
         else if n = 9 then [backslash, CHR ''t'']
         else if n < 32 \<or> (127 \<le> n \<and> n \<le> 160) \<or> n = 173 then [backslash, CHR ''x'', hex_digit (n div 16), hex_digit (n mod 16)]
         else [c])"

definition py_repr :: "string \<Rightarrow> string" where
  "py_repr s =
     (let quote = (if CHR 0x27 \<in> set s \<and> CHR 0x22 \<notin> set s then CHR 0x22 else CHR 0x27)
      in quote # concat (map (repr_char quote) s) @ [quote])"

definition failed_plan_note :: "repair_plan \<Rightarrow> string" where
  "failed_plan_note p =
     (let detail = (if rp_search p \<noteq> [] then ''rolled back search '' @ py_repr (rp_search p) @ '' -> '' @ py_repr (rp_replace p)
            else ''rolled back full_content rewrite for '' @ rp_target p)
      in if length detail \<le> 600 then detail else rstrip (take 600 detail) @ ''...<truncated>'')"

subsection \<open>Applying a plan\<close>

fun replace_first :: "string \<Rightarrow> string \<Rightarrow> string \<Rightarrow> string" where
  "replace_first old new [] = []"
| "replace_first old new (c # cs) =
     (if starts_with (c # cs) old then new @ drop (length old) (c # cs) else c # replace_first old new cs)"

definition put_content :: "path \<Rightarrow> string \<Rightarrow> unit tx_eff" where
  "put_content t c = seq (on_nodes (mkdir_parents (butlast t))) (\<lambda>_. on_nodes (write_text t c))"

definition apply_plan_file :: "sandbox \<Rightarrow> repair_plan \<Rightarrow> string list tx_eff" where
  "apply_plan_file sb p = (case sb (rp_target p) of
     Inl _ \<Rightarrow> raise (ValueError ''not in the subpath'')
   | Inr t \<Rightarrow>
       if rp_content p \<noteq> [] then seq (put_content t (rp_content p)) (\<lambda>_. ret [rp_target p])
       else if rp_search p \<noteq> [] then
         seq (gets (\<lambda>d. map_option universal (content_at (dk_nodes d) t))) (\<lambda>current. case current of
           None \<Rightarrow> ret []
         | Some c \<Rightarrow>
             if \<not> contains (rp_search p) c then ret []
             else seq (put_content t (replace_first (rp_search p) (rp_replace p) c)) (\<lambda>_. ret [rp_target p]))
       else ret [])"

subsection \<open>Rounds\<close>

record progress =
  pg_errors :: "repair_error list"
  pg_history :: "previous_attempt list"
  pg_attempts :: "attempt_record list"
  pg_failed :: blocker

definition record_attempt :: "nat \<Rightarrow> string list \<Rightarrow> string \<Rightarrow> string \<Rightarrow> repair_outcome \<Rightarrow> bool \<Rightarrow> string \<Rightarrow> progress \<Rightarrow> progress" where
  "record_attempt i files before_sig after_sig outcome kept remark pg =
     pg\<lparr>pg_attempts := pg_attempts pg @ [\<lparr>ra_index = i, ra_files = files, ra_before = before_sig, ra_after = after_sig,
        ra_outcome = outcome, ra_kept = kept, ra_note = remark\<rparr>]\<rparr>"

definition remember_attempt :: "string list \<Rightarrow> string \<Rightarrow> string \<Rightarrow> repair_outcome \<Rightarrow> string \<Rightarrow> progress \<Rightarrow> progress" where
  "remember_attempt files before_sig after_sig outcome remark pg =
     pg\<lparr>pg_history := pg_history pg @ [\<lparr>pa_files = files, pa_before = before_sig, pa_after = after_sig,
        pa_outcome = outcome, pa_note = remark\<rparr>]\<rparr>"

text \<open>What a round makes of the model's answer: a reason to stop, a rejected plan, or one to try.\<close>

datatype choice = Halt string | Reject repair_error string | Try repair_error repair_plan

definition choose_plan :: "repair_env \<Rightarrow> sandbox \<Rightarrow> nat \<Rightarrow> progress \<Rightarrow> disk \<Rightarrow> choice" where
  "choose_plan env sb i pg d = (case select_primary_error (pg_errors pg) of
     None \<Rightarrow> Halt ''no actionable root error''
   | Some primary \<Rightarrow>
       (let context = build_context env sb d primary (pg_history pg)
        in case re_propose env i context of
             None \<Rightarrow> Halt ''model produced no actionable repair plan''
           | Some plan \<Rightarrow>
               if \<not> has_edit plan then Halt ''model produced no actionable repair plan''
               else
                 let target = relative_path sb (rp_target plan)
                 in if target = [] then Halt (''model proposed a path outside the workspace: '' @ rp_target plan)
                    else
                      let plan = plan\<lparr>rp_target := target\<rparr>
                      in if target \<notin> set (map sn_file (dc_inspected context))
                         then Halt (''model tried to edit an uninspected file: '' @ target)
                         else if target \<notin> set (dc_editable context)
                         then Halt (''model tried to edit a read-only evidence file: '' @ target)
                         else
                           let irrelevant = plan_relevance_error primary plan
                           in if irrelevant = [] then Try primary plan
                              else case re_fixture env d primary target of
                                Some fixture \<Rightarrow> Try primary (fixture\<lparr>rp_target := target\<rparr>)
                              | None \<Rightarrow> Reject primary irrelevant))"

definition packet_signature :: "error_packet \<Rightarrow> string" where
  "packet_signature p = (case select_primary_error (repair_errors_from_packet p) of
     Some e \<Rightarrow> error_signature e | None \<Rightarrow> ''exit='' @ int_str (pk_exit p))"

definition verify_digest :: "repair_env \<Rightarrow> error_packet tx_eff" where
  "verify_digest env d = (case re_verify env d of (p, e) \<Rightarrow> (Inr p, e))"

text \<open>The exit code and the outcome that are saved with a transaction.\<close>

definition saved_outcome :: "error_packet \<Rightarrow> repair_outcome \<Rightarrow> saved_verification" where
  "saved_outcome p outcome = Of_repair (pk_exit p) (outcome_value outcome)"

datatype round_end = Again progress | Solved progress | Stopped string progress

definition conclude_plan :: "sandbox \<Rightarrow> nat \<Rightarrow> progress \<Rightarrow> string \<Rightarrow> repair_error \<Rightarrow> repair_plan \<Rightarrow> string \<Rightarrow> string list \<Rightarrow> error_packet \<Rightarrow> round_end tx_eff" where
  "conclude_plan sb i pg tx primary plan sig changed packet =
     (let after_errors = repair_errors_from_packet packet;
          outcome = compare_errors (pg_errors pg) after_errors (pk_exit packet);
          before_sig = error_signature primary; after_sig = packet_signature packet
      in if is_progress outcome then
           seq (save_verification tx (Some (saved_outcome packet outcome))) (\<lambda>_.
           seq (finalize_transaction tx ''applied'' []) (\<lambda>_.
           let pg = record_attempt i changed before_sig after_sig outcome True [] (pg\<lparr>pg_failed := blocker_reset sig (pg_failed pg)\<rparr>)
           in if outcome = SOLVED then ret (Solved pg) else ret (Again (pg\<lparr>pg_errors := after_errors\<rparr>))))
         else
           seq (rollback_transaction sb tx) (\<lambda>_.
           let pg = record_attempt i changed before_sig after_sig outcome False ''rolled back''
                 (pg\<lparr>pg_failed := blocker_failure sig (pg_failed pg)\<rparr>)
           in ret (Again (remember_attempt changed before_sig after_sig outcome (failed_plan_note plan) pg))))"

definition judge_plan :: "repair_env \<Rightarrow> sandbox \<Rightarrow> nat \<Rightarrow> progress \<Rightarrow> string \<Rightarrow> repair_error \<Rightarrow> repair_plan \<Rightarrow> string \<Rightarrow> string list \<Rightarrow> round_end tx_eff" where
  "judge_plan env sb i pg tx primary plan sig changed =
     seq (for_each (record_after sb tx) changed) (\<lambda>_.
     seq (verify_digest env) (conclude_plan sb i pg tx primary plan sig changed))"

definition try_plan :: "repair_env \<Rightarrow> sandbox \<Rightarrow> nat \<Rightarrow> progress \<Rightarrow> repair_error \<Rightarrow> repair_plan \<Rightarrow> round_end tx_eff" where
  "try_plan env sb i pg primary plan =
     (let sig = action_signature (re_hash env) [rp_target plan] (plan_payload plan); before_sig = error_signature primary
      in if is_blocked (pg_failed pg) sig
         then ret (Stopped ''repeated identical patch blocked; needs a different strategy'' pg)
         else
           seq (begin_transaction (''RepairLoop attempt '' @ nat_str i @ '': '' @ take 120 (rp_cause plan))
             [\<lparr>op_kind_of = EDIT_FILE, op_path = rp_target plan, op_dest = [], op_reason = [], op_content = []\<rparr>] False) (\<lambda>tx.
           seq (backup_file sb tx (rp_target plan)) (\<lambda>_.
           seq (apply_plan_file sb plan) (\<lambda>changed.
           if changed = [] then
             seq (rollback_transaction sb tx) (\<lambda>_.
             ret (Stopped ''patch did not apply (search block not found)''
               (record_attempt i [] before_sig before_sig UNCHANGED False ''apply failed''
                 (pg\<lparr>pg_failed := blocker_failure sig (pg_failed pg)\<rparr>))))
           else judge_plan env sb i pg tx primary plan sig changed))))"

definition repair_round :: "repair_env \<Rightarrow> sandbox \<Rightarrow> nat \<Rightarrow> progress \<Rightarrow> round_end tx_eff" where
  "repair_round env sb i pg = seq (gets (choose_plan env sb i pg)) (\<lambda>c. case c of
     Halt reason \<Rightarrow> ret (Stopped reason pg)
   | Reject primary remark \<Rightarrow>
       (let sig = error_signature primary
        in ret (Again (record_attempt i [] sig sig UNCHANGED False remark (remember_attempt [] sig sig UNCHANGED remark pg))))
   | Try primary plan \<Rightarrow> try_plan env sb i pg primary plan)"

fun repair_rounds :: "repair_env \<Rightarrow> sandbox \<Rightarrow> nat \<Rightarrow> nat \<Rightarrow> progress \<Rightarrow> round_end tx_eff" where
  "repair_rounds env sb 0 i pg = ret (Stopped [] pg)"
| "repair_rounds env sb (Suc n) i pg = seq (repair_round env sb i pg) (\<lambda>r. case r of
     Again pg \<Rightarrow> repair_rounds env sb n (Suc i) pg | _ \<Rightarrow> ret r)"

subsection \<open>The whole run\<close>

definition build_final_message :: "int \<Rightarrow> nat \<Rightarrow> string \<Rightarrow> string" where
  "build_final_message code attempts remaining =
     (if code = 0 then ''Verifier passed (exit code 0) after '' @ nat_str attempts @ '' repair attempt(s). The build/tests are green.''
      else ''Verifier still failing (exit code '' @ int_str code @ '') after '' @ nat_str attempts @
        '' repair attempt(s). I did not resolve it.'' @
        (if remaining = [] then [] else [newline] @ ''Remaining root error: '' @ remaining))"

definition success_word :: rx where
  "success_word = ors [lit ''fixed'', lit ''resolved'', lit ''verified'', Cat (lit ''pass'') (opt (words [''es'', ''ed'', ''ing'']))]"

definition success_claim :: rx where
  "success_claim = cats [boundary, success_word, boundary]"

definition neutral_word :: "string \<Rightarrow> string" where
  "neutral_word w =
     (let w = lower w
      in if starts_with w ''pass'' then ''failing''
         else if w = ''verified'' then ''unconfirmed'' else ''attempted'')"

definition contains_unverified_success_claim :: "string \<Rightarrow> int \<Rightarrow> bool" where
  "contains_unverified_success_claim message code \<longleftrightarrow> code \<noteq> 0 \<and> found success_claim message"

definition enforce_final_response :: "string \<Rightarrow> int \<Rightarrow> string" where
  "enforce_final_response message code =
     (if code = 0 \<or> message = [] then message
      else replace_groups [success_claim] (\<lambda>ts. neutral_word (hd ts)) message)"

record repair_result =
  rs_success :: bool
  rs_exit :: int
  rs_attempts :: "attempt_record list"
  rs_message :: string
  rs_remaining :: "repair_error list"
  rs_reason :: string

definition packet_ok :: "error_packet \<Rightarrow> bool" where
  "packet_ok p \<longleftrightarrow> pk_exit p = 0 \<and> pk_root p = []"

definition solved_result :: "attempt_record list \<Rightarrow> nat \<Rightarrow> repair_result" where
  "solved_result attempts n = \<lparr>rs_success = True, rs_exit = 0, rs_attempts = attempts,
     rs_message = build_final_message 0 n [], rs_remaining = [], rs_reason = []\<rparr>"

definition final_report :: "repair_env \<Rightarrow> string \<Rightarrow> progress \<Rightarrow> repair_result tx_eff" where
  "final_report env reason pg =
     seq (verify_digest env) (\<lambda>packet.
     let remaining = repair_errors_from_packet packet;
         summary = (case select_primary_error remaining of None \<Rightarrow> [] | Some e \<Rightarrow> rr_message e)
     in ret \<lparr>rs_success = packet_ok packet, rs_exit = pk_exit packet, rs_attempts = pg_attempts pg,
          rs_message = enforce_final_response
            (build_final_message (pk_exit packet) (length (pg_attempts pg)) summary) (pk_exit packet),
          rs_remaining = remaining, rs_reason = reason\<rparr>)"

definition repair_run :: "repair_env \<Rightarrow> sandbox \<Rightarrow> nat \<Rightarrow> repair_result tx_eff" where
  "repair_run env sb max_attempts =
     seq (verify_digest env) (\<lambda>packet.
     if packet_ok packet then ret (solved_result [] 0)
     else
       seq (repair_rounds env sb max_attempts 1
         \<lparr>pg_errors = repair_errors_from_packet packet, pg_history = [], pg_attempts = [], pg_failed = []\<rparr>) (\<lambda>r. case r of
         Solved pg \<Rightarrow> ret (solved_result (pg_attempts pg) (ra_index (last (pg_attempts pg))))
       | Stopped reason pg \<Rightarrow> final_report env reason pg
       | Again pg \<Rightarrow> final_report env [] pg))"

end
