(* ===== verification/RepairSafety.thy ===== *)
theory RepairSafety
  imports RepairLoop RollbackSafety
begin

text \<open>
  What the repair loop promises: success is what the verifier said of the files the user gets, a run
  that keeps no patch leaves the files as they were, kept patches never add errors, and the final
  message of a failed run claims nothing.
\<close>

subsection \<open>Success\<close>

definition accepted :: "repair_env \<Rightarrow> nodes \<Rightarrow> bool" where
  "accepted env ns \<longleftrightarrow> (\<exists>d p e. re_verify env d = (p, e) \<and> packet_ok p \<and> dk_nodes e = ns)"

lemma acceptedI: "re_verify env d = (p, e) \<Longrightarrow> packet_ok p \<Longrightarrow> accepted env (dk_nodes e)"
  unfolding accepted_def by blast

lemma known_nodes:
  "save_verification tx v d = (r, e) \<Longrightarrow> dk_nodes e = dk_nodes d"
  "finalize_transaction tx st msg d = (s, f) \<Longrightarrow> dk_nodes f = dk_nodes d"
  by (auto simp: save_verification_def finalize_transaction_def known_manifest_def write_manifest_def journal_append_def
      seq_def Let_def split: option.splits)

lemma solved_packet: "compare_errors es (repair_errors_from_packet p) (pk_exit p) = SOLVED \<Longrightarrow> packet_ok p"
  by (auto simp: compare_errors_def repair_errors_from_packet_def packet_ok_def split: if_splits)

lemma judge_solved:
  assumes "judge_plan env sb i pg tx primary plan sig changed d = (Inr (Solved pg'), e)"
  shows "accepted env (dk_nodes e)"
  using assms unfolding judge_plan_def conclude_plan_def Let_def
  by (auto elim!: seq_InrE simp: verify_digest_def accepted_def split: if_splits prod.splits
      dest!: known_nodes solved_packet) metis

lemma round_solved:
  "repair_round env sb i pg d = (Inr (Solved pg'), e) \<Longrightarrow> accepted env (dk_nodes e)"
  unfolding repair_round_def try_plan_def Let_def
  by (auto elim!: seq_InrE split: choice.splits if_splits intro: judge_solved)

lemma rounds_solved:
  "repair_rounds env sb n i pg d = (Inr (Solved pg'), e) \<Longrightarrow> accepted env (dk_nodes e)"
  by (induction n arbitrary: i pg d) (auto elim!: seq_InrE split: round_end.splits intro: round_solved)

text \<open>C18. A repair run reports success only when the verifier passed, without root diagnostics, on exactly
  the files the run ends with.\<close>

theorem repair_success_is_verified:
  assumes "repair_run env sb n d = (Inr res, e)" "rs_success res"
  shows "\<exists>d1 packet d2. re_verify env d1 = (packet, d2) \<and> pk_exit packet = 0 \<and> pk_root packet = [] \<and> dk_nodes e = dk_nodes d2"
proof -
  have "accepted env (dk_nodes e)"
    using assms unfolding repair_run_def final_report_def Let_def
    by (auto elim!: seq_InrE simp: verify_digest_def split: if_splits prod.splits round_end.splits)
      (blast intro: acceptedI rounds_solved)+
  then show ?thesis unfolding accepted_def packet_ok_def by metis
qed

subsection \<open>Files\<close>

text \<open>The verification command writes no file of the workspace proper.\<close>

definition verifier_local :: "repair_env \<Rightarrow> bool" where
  "verifier_local env \<longleftrightarrow> (\<forall>tx names d. \<exists>ns. snd (re_verify env d) = d\<lparr>dk_nodes := ns\<rparr> \<and> harmless tx names {} (dk_nodes d) ns)"

definition same_files :: "nodes \<Rightarrow> nodes \<Rightarrow> bool" where
  "same_files ns ms \<longleftrightarrow> (\<forall>p. \<not> internal p \<longrightarrow> content_at ms p = content_at ns p)"

lemma same_files_refl [simp]: "same_files ns ns"
  by (simp add: same_files_def)

lemma same_files_trans: "same_files ns ms \<Longrightarrow> same_files ms ls \<Longrightarrow> same_files ns ls"
  by (simp add: same_files_def)

lemma verify_same_files: "verifier_local env \<Longrightarrow> verify_digest env d = (r, e) \<Longrightarrow> same_files (dk_nodes d) (dk_nodes e)"
proof -
  assume v: "verifier_local env" "verify_digest env d = (r, e)"
  then obtain ns where "snd (re_verify env d) = d\<lparr>dk_nodes := ns\<rparr>" "harmless [] [] {} (dk_nodes d) ns"
    unfolding verifier_local_def by blast
  with v(2) show "same_files (dk_nodes d) (dk_nodes e)"
    by (auto simp: verify_digest_def harmless_def same_files_def split: prod.splits)
qed

lemma keeps_verify: "verifier_local env \<Longrightarrow> keeps tx base names R (verify_digest env) (\<lambda>_. R)"
  unfolding keeps_def
proof (intro allI impI)
  fix d assume v: "verifier_local env" and t: "tracked tx base names R d"
  then obtain ns where ns: "snd (re_verify env d) = d\<lparr>dk_nodes := ns\<rparr>" "harmless tx names {} (dk_nodes d) ns"
    unfolding verifier_local_def by blast
  have "harmless tx names R (dk_nodes d) ns" using ns(2) unfolding harmless_def by blast
  from tracked_nodes[OF t this] ns(1)
  show "case verify_digest env d of (Inr x, e) \<Rightarrow> tracked tx base names R e | (Inl _, e) \<Rightarrow> tracked tx base names {} e"
    by (auto simp: verify_digest_def split: prod.splits)
qed

lemma keeps_plan_file:
  assumes "tidy sb tx base names" "rp_target p \<in> set names" "rp_target p \<in> R"
  shows "keeps tx base names R (apply_plan_file sb p) (\<lambda>_. R)"
proof -
  have "sb (rp_target p) = Inr (posix_parts (rp_target p))" using tidy_name(1)[OF assms(1,2)] .
  moreover have "keeps tx base names R (put_content (posix_parts (rp_target p)) c) (\<lambda>_. R)" for c
    unfolding put_content_def by (rule keeps_seq[OF keeps_mkdir(1)[OF assms(1,2)] keeps_write[OF assms]])
  ultimately show ?thesis
    unfolding apply_plan_file_def
    by (auto intro!: keeps_if keeps_seq[of _ _ _ _ _ "\<lambda>_. R"] keeps_pure split: option.split simp del: pointwise)
qed

lemma apply_plan_changes: "apply_plan_file sb p d = (Inr changed, e) \<Longrightarrow> changed = [] \<or> changed = [rp_target p]"
  unfolding apply_plan_file_def by (auto elim!: seq_InrE split: sum.splits if_splits option.splits)

lemma rollback_same_files:
  assumes "tidy sb tx base names" "tracked tx base names R d" "rollback_transaction sb tx d = (r, e)"
  shows "same_files base (dk_nodes e)"
  using rollback_of_tracked[OF assms(1,2)] assms(3) by (auto simp: same_files_def)

definition kept_any :: "progress \<Rightarrow> bool" where
  "kept_any pg \<longleftrightarrow> (\<exists>a \<in> set (pg_attempts pg). ra_kept a)"

fun progress_of :: "round_end \<Rightarrow> progress" where
  "progress_of (Again pg) = pg"
| "progress_of (Solved pg) = pg"
| "progress_of (Stopped r pg) = pg"

lemma judge_files:
  assumes run: "judge_plan env sb i pg tx primary plan sig [r] d = (Inr x, e)"
    and t: "tidy sb tx base names" "r \<in> set names" "verifier_local env" "tracked tx base names {r} d"
    and none: "\<not> kept_any (progress_of x)"
  shows "same_files base (dk_nodes e)"
proof -
  have k: "keeps tx base names {r} (for_each (record_after sb tx) [r]) (\<lambda>_. {r})"
    by (simp add: keeps_seq[OF keeps_record[of r "{r}"] keeps_pure(4)] del: pointwise)
  from run obtain d1 d2 packet where d: "for_each (record_after sb tx) [r] d = (Inr (), d1)" "verify_digest env d1 = (Inr packet, d2)"
      "conclude_plan sb i pg tx primary plan sig [r] packet d2 = (Inr x, e)"
    unfolding judge_plan_def by (elim seq_InrE) simp
  define outcome where "outcome = compare_errors (pg_errors pg) (repair_errors_from_packet packet) (pk_exit packet)"
  have r: "\<exists>y. rollback_transaction sb tx d2 = (Inr y, e)" if "\<not> is_progress outcome"
    using d(3) that unfolding conclude_plan_def Let_def outcome_def[symmetric] by (auto elim!: seq_InrE)
  have kept: "kept_any (progress_of x)" if "is_progress outcome"
    using d(3) that unfolding conclude_plan_def Let_def outcome_def[symmetric]
    by (auto elim!: seq_InrE simp: record_attempt_def kept_any_def split: if_splits)
  from d(1) k t(4) have "tracked tx base names {r} d1" unfolding keeps_def by (metis (no_types, lifting) case_prod_conv sum.case(2))
  with d(2) keeps_verify[OF t(3)] have "tracked tx base names {r} d2"
    unfolding keeps_def by (metis (no_types, lifting) case_prod_conv sum.case(2))
  with r kept none rollback_same_files[OF t(1)] show ?thesis by blast
qed

lemma try_files:
  assumes run: "try_plan env sb i pg primary plan d = (Inr x, e)" and v: "verifier_local env"
    and t: "tidy sb (next_transaction d) (dk_nodes d) [rp_target plan]" and none: "\<not> kept_any (progress_of x)"
  shows "same_files (dk_nodes d) (dk_nodes e)"
proof (cases "is_blocked (pg_failed pg) (action_signature (re_hash env) [rp_target plan] (plan_payload plan))")
  case True
  with run show ?thesis by (simp add: try_plan_def Let_def)
next
  case False
  define tx where "tx = next_transaction d"
  define r where "r = rp_target plan"
  note t = t[folded tx_def r_def]
  from run False obtain tx' d1 d2 d3 changed where d:
      "begin_transaction (''RepairLoop attempt '' @ nat_str i @ '': '' @ take 120 (rp_cause plan))
         [\<lparr>op_kind_of = EDIT_FILE, op_path = r, op_dest = [], op_reason = [], op_content = []\<rparr>] False d = (Inr tx', d1)"
      "backup_file sb tx' r d1 = (Inr (), d2)" "apply_plan_file sb plan d2 = (Inr changed, d3)"
      "changed = [] \<Longrightarrow> \<exists>y. rollback_transaction sb tx' d3 = (Inr y, e)"
      "changed \<noteq> [] \<Longrightarrow> judge_plan env sb i pg tx' primary plan
         (action_signature (re_hash env) [rp_target plan] (plan_payload plan)) changed d3 = (Inr x, e)"
    unfolding try_plan_def Let_def r_def by (auto elim!: seq_InrE split: if_splits)
  from begin_tracks[OF t tx_def d(1)] have tx': "tx' = tx" "tracked tx (dk_nodes d) [r] {} d1" by simp_all
  from keeps_backup[OF t, of r "{}"] tx' d(2) have "tracked tx (dk_nodes d) [r] {r} d2"
    unfolding keeps_def by fastforce
  with keeps_plan_file[OF t, of plan "{r}"] d(3) have k: "tracked tx (dk_nodes d) [r] {r} d3"
    unfolding keeps_def r_def by fastforce
  show ?thesis
  proof (cases "changed = []")
    case True
    with d(4) rollback_same_files[OF t k] tx'(1) show ?thesis by blast
  next
    case False
    with apply_plan_changes[OF d(3)] d(5) tx'(1)
    have "judge_plan env sb i pg tx primary plan (action_signature (re_hash env) [rp_target plan] (plan_payload plan)) [r] d3 = (Inr x, e)"
      by (simp add: r_def)
    from judge_files[OF this t _ v k none] show ?thesis by simp
  qed
qed

lemma round_files:
  assumes "repair_round env sb i pg d = (Inr x, e)" "verifier_local env"
    and "\<And>primary plan. choose_plan env sb i pg d = Try primary plan \<Longrightarrow> tidy sb (next_transaction d) (dk_nodes d) [rp_target plan]"
    and "\<not> kept_any (progress_of x)"
  shows "same_files (dk_nodes d) (dk_nodes e)"
  using assms try_files unfolding repair_round_def by (auto split: choice.splits simp: Let_def)

text \<open>Attempts and errors along the rounds.\<close>

definition advances :: "progress \<Rightarrow> progress \<Rightarrow> bool" where
  "advances pg pg' \<longleftrightarrow> prefix (pg_attempts pg) (pg_attempts pg') \<and> length (pg_errors pg') \<le> length (pg_errors pg)"

lemma advances_refl [simp]: "advances pg pg"
  by (simp add: advances_def)

lemma advances_record [simp]: "advances pg (record_attempt i fs b a oc k r pg)"
  by (simp add: advances_def record_attempt_def)

lemma advances_simps [simp]:
  "pg_attempts (remember_attempt fs b a oc r pg) = pg_attempts pg" "pg_errors (remember_attempt fs b a oc r pg) = pg_errors pg"
  "pg_errors (record_attempt i fs b a oc k r pg) = pg_errors pg"
  "pg_attempts (record_attempt i fs b a oc k r pg) = pg_attempts pg @ [\<lparr>ra_index = i, ra_files = fs, ra_before = b, ra_after = a,
        ra_outcome = oc, ra_kept = k, ra_note = r\<rparr>]"
  by (simp_all add: remember_attempt_def record_attempt_def)

lemma progress_fewer: "is_progress (compare_errors es fs code) \<Longrightarrow> length fs \<le> length es"
  by (auto simp: compare_errors_def is_progress_def same_test_advanced_def split: if_splits list.splits)

lemma conclude_advances:
  "conclude_plan sb i pg tx primary plan sig changed packet d = (Inr x, e) \<Longrightarrow> advances pg (progress_of x)"
  unfolding conclude_plan_def Let_def
  by (auto elim!: seq_InrE simp: advances_def progress_fewer split: if_splits)

lemma round_advances: "repair_round env sb i pg d = (Inr x, e) \<Longrightarrow> advances pg (progress_of x)"
proof -
  have tried: "try_plan env sb i pg primary plan d = (Inr x, e) \<Longrightarrow> advances pg (progress_of x)" for primary plan
    unfolding try_plan_def judge_plan_def Let_def
    by (auto elim!: seq_InrE simp: advances_def split: if_splits dest!: conclude_advances)
  show "repair_round env sb i pg d = (Inr x, e) \<Longrightarrow> advances pg (progress_of x)"
    unfolding repair_round_def
    by (cases "choose_plan env sb i pg d") (auto simp: Let_def advances_def[of pg "record_attempt _ _ _ _ _ _ _ _"] intro: tried)
qed

lemma rounds_advance: "repair_rounds env sb n i pg d = (Inr x, e) \<Longrightarrow> advances pg (progress_of x)"
proof (induction n arbitrary: i pg d)
  case (Suc n)
  then obtain r d1 where r: "repair_round env sb i pg d = (Inr r, d1)"
      "(case r of Again pg \<Rightarrow> repair_rounds env sb n (Suc i) pg | _ \<Rightarrow> ret r) d1 = (Inr x, e)"
    by (auto elim!: seq_InrE)
  from round_advances[OF r(1)] show ?case
  proof (cases r)
    case (Again pg')
    with r(2) have "advances pg' (progress_of x)" by (auto intro: Suc.IH)
    with round_advances[OF r(1)] Again show ?thesis unfolding advances_def by (auto intro: prefix_order.trans)
  qed (use r in \<open>auto dest: round_advances\<close>)
qed auto

text \<open>The states in which transactions begin are tidy for the file they are about.\<close>

fun orderly_rounds :: "repair_env \<Rightarrow> sandbox \<Rightarrow> nat \<Rightarrow> nat \<Rightarrow> progress \<Rightarrow> disk \<Rightarrow> bool" where
  "orderly_rounds env sb 0 i pg d \<longleftrightarrow> True"
| "orderly_rounds env sb (Suc n) i pg d \<longleftrightarrow>
     (case choose_plan env sb i pg d of Try primary plan \<Rightarrow> tidy sb (next_transaction d) (dk_nodes d) [rp_target plan] | _ \<Rightarrow> True) \<and>
     (case repair_round env sb i pg d of (Inr (Again pg'), e) \<Rightarrow> orderly_rounds env sb n (Suc i) pg' e | _ \<Rightarrow> True)"

definition orderly_run :: "repair_env \<Rightarrow> sandbox \<Rightarrow> nat \<Rightarrow> disk \<Rightarrow> bool" where
  "orderly_run env sb n d \<longleftrightarrow> (case re_verify env d of (p, e) \<Rightarrow> orderly_rounds env sb n 1
     \<lparr>pg_errors = repair_errors_from_packet p, pg_history = [], pg_attempts = [], pg_failed = []\<rparr> e)"

lemma rounds_files:
  assumes v: "verifier_local env"
  shows "repair_rounds env sb n i pg d = (Inr x, e) \<Longrightarrow> orderly_rounds env sb n i pg d \<Longrightarrow> \<not> kept_any (progress_of x) \<Longrightarrow>
    same_files (dk_nodes d) (dk_nodes e)"
proof (induction n arbitrary: i pg d)
  case (Suc n)
  then obtain r d1 where r: "repair_round env sb i pg d = (Inr r, d1)"
      "(case r of Again pg \<Rightarrow> repair_rounds env sb n (Suc i) pg | _ \<Rightarrow> ret r) d1 = (Inr x, e)"
    by (auto elim!: seq_InrE)
  have tidy: "tidy sb (next_transaction d) (dk_nodes d) [rp_target plan]"
    if "choose_plan env sb i pg d = Try primary plan" for primary plan
    using Suc.prems(2) that by simp
  have "advances (progress_of r) (progress_of x)"
    using r(2) by (cases r) (auto dest: rounds_advance)
  with Suc.prems(3) have "\<not> kept_any (progress_of r)"
    by (auto simp: advances_def kept_any_def prefix_def)
  then have here: "same_files (dk_nodes d) (dk_nodes d1)"
    by (rule round_files[OF r(1) v, rotated]) (rule tidy)
  show ?case
  proof (cases r)
    case (Again pg')
    with r Suc.prems have "same_files (dk_nodes d1) (dk_nodes e)" by (intro Suc.IH[of "Suc i" pg' d1]) simp_all
    with here show ?thesis by (rule same_files_trans)
  qed (use r here in auto)
qed simp

text \<open>C8. A repair run that kept no patch leaves every file outside \<open>.shamsu\<close> as it was: whatever the model
  proposed, was applied, verified and found wanting has been taken back. The verification command writes no
  file of the workspace, and the file of each plan that is tried is tidy when it is tried: resolved to its own place
  outside \<open>.shamsu\<close>, no directory, with nothing in the way of its backup.\<close>

theorem unkept_repair_restores:
  assumes "repair_run env sb n d = (Inr res, e)" "\<forall>a \<in> set (rs_attempts res). \<not> ra_kept a" "\<not> internal p"
    and "verifier_local env" "orderly_run env sb n d"
  shows "content_at (dk_nodes e) p = content_at (dk_nodes d) p"
proof -
  obtain packet d1 where v: "re_verify env d = (packet, d1)" by fastforce
  then have "verify_digest env d = (Inr packet, d1)" by (simp add: verify_digest_def)
  note first = verify_same_files[OF assms(4) this]
  define pg where "pg = \<lparr>pg_errors = repair_errors_from_packet packet, pg_history = [], pg_attempts = [], pg_failed = []\<rparr>"
  have "same_files (dk_nodes d) (dk_nodes e)"
  proof (cases "packet_ok packet")
    case True
    with assms(1) v first show ?thesis by (auto simp: repair_run_def verify_digest_def seq_def)
  next
    case False
    with assms(1) v obtain r d2 where r: "repair_rounds env sb n 1 pg d1 = (Inr r, d2)"
        "(case r of Solved pg \<Rightarrow> ret (solved_result (pg_attempts pg) (ra_index (last (pg_attempts pg))))
          | Stopped reason pg \<Rightarrow> final_report env reason pg | Again pg \<Rightarrow> final_report env [] pg) d2 = (Inr res, e)"
      unfolding repair_run_def pg_def by (auto elim!: seq_InrE simp: verify_digest_def split: prod.splits)
    have last: "same_files (dk_nodes d2) (dk_nodes e) \<and> rs_attempts res = pg_attempts (progress_of r)"
      using r(2) unfolding final_report_def Let_def
      by (cases r) (auto elim!: seq_InrE simp: solved_result_def intro: verify_same_files[OF assms(4)])
    then have "\<not> kept_any (progress_of r)" using assms(2) by (auto simp: kept_any_def)
    with rounds_files[OF assms(4) r(1)] assms(5) v have "same_files (dk_nodes d1) (dk_nodes d2)"
      by (simp add: orderly_run_def pg_def)
    with first last show ?thesis by (blast intro: same_files_trans)
  qed
  with assms(3) show ?thesis by (simp add: same_files_def)
qed

text \<open>Kept patches never add errors.\<close>

lemma repair_never_adds_errors:
  "repair_rounds env sb n i pg d = (Inr x, e) \<Longrightarrow> length (pg_errors (progress_of x)) \<le> length (pg_errors pg)"
  using rounds_advance by (fastforce simp: advances_def)

text \<open>A failing verifier whose output holds no diagnostic that was recognized counts as an improvement.\<close>

lemma unreadable_failure_is_progress:
  "es \<noteq> [] \<Longrightarrow> code \<noteq> 0 \<Longrightarrow> is_progress (compare_errors es [] code)"
  by (simp add: compare_errors_def is_progress_def)

subsection \<open>A repair of one file\<close>

definition demo_finding :: diagnostic where
  "demo_finding = \<lparr>dg_tool = ''make'', dg_severity = ''error'', dg_code = [], dg_category = ''generic'', dg_message = ''boom'',
     dg_file = ''a.txt'', dg_line = Some 1, dg_column = None, dg_symbol = [], dg_module = [], dg_excerpt = [], dg_count = 1\<rparr>"

definition demo_packet :: "bool \<Rightarrow> error_packet" where
  "demo_packet fine = \<lparr>pk_command = ''make'', pk_exit = (if fine then 0 else 1), pk_tool = ''make'',
     pk_root = (if fine then [] else [demo_finding]), pk_secondary = []\<rparr>"

text \<open>The verifier wants one content, the model proposes a replacement.\<close>

definition demo_repair :: "string \<Rightarrow> repair_env" where
  "demo_repair proposal = \<lparr>re_command = ''make'',
     re_verify = (\<lambda>d. (demo_packet (content_at (dk_nodes d) [''a.txt''] = Some ''ok''), d)),
     re_propose = (\<lambda>_ _. Some \<lparr>rp_cause = ''typo'', rp_target = ''a.txt'', rp_search = ''x'', rp_replace = proposal, rp_content = []\<rparr>),
     re_module = (\<lambda>_ _ _. []), re_tests = (\<lambda>_ _. []), re_import_fix = (\<lambda>_ _ _. []), re_fixture = (\<lambda>_ _ _. None),
     re_editable = None, re_hash = (\<lambda>s. s)\<rparr>"

lemma demo_repair_local: "verifier_local (demo_repair p)"
proof -
  have "\<exists>ns. d = d\<lparr>dk_nodes := ns\<rparr> \<and> harmless tx names R (dk_nodes d) ns" for d :: disk and R tx names
    by (intro exI[of _ "dk_nodes d"]) (simp add: harmless_refl)
  then show ?thesis by (simp add: verifier_local_def demo_repair_def)
qed

lemma demo_solved: "case repair_run (demo_repair ''ok'') demo_sandbox 2 demo_files of
    (Inr res, e) \<Rightarrow> rs_success res \<and> content_at (dk_nodes e) [''a.txt''] = Some ''ok'' | _ \<Rightarrow> False"
  by code_simp

lemma demo_undone: "case repair_run (demo_repair ''no'') demo_sandbox 1 demo_files of
    (Inr res, e) \<Rightarrow> \<not> rs_success res \<and> rs_attempts res \<noteq> [] \<and> list_all (\<lambda>a. \<not> ra_kept a) (rs_attempts res) | _ \<Rightarrow> False"
  by code_simp

lemma demo_choice: "case choose_plan (demo_repair ''no'') demo_sandbox 1
     \<lparr>pg_errors = repair_errors_from_packet (demo_packet False), pg_history = [], pg_attempts = [], pg_failed = []\<rparr> demo_files of
   Try e p \<Rightarrow> rp_target p = ''a.txt'' | _ \<Rightarrow> False"
  by code_simp

theorem repair_success_is_verified_witness:
  "\<exists>d1 packet d2. re_verify (demo_repair ''ok'') d1 = (packet, d2) \<and> pk_exit packet = 0 \<and> pk_root packet = [] \<and>
     content_at (dk_nodes d2) [''a.txt''] = Some ''ok''"
proof -
  obtain res e where run: "repair_run (demo_repair ''ok'') demo_sandbox 2 demo_files = (Inr res, e)" "rs_success res"
      "content_at (dk_nodes e) [''a.txt''] = Some ''ok''"
    using demo_solved by (auto split: prod.splits sum.splits)
  from repair_success_is_verified[OF run(1,2)] run(3) show ?thesis by metis
qed

lemma demo_orderly: "orderly_run (demo_repair ''no'') demo_sandbox 1 demo_files"
proof -
  have v: "re_verify (demo_repair ''no'') demo_files = (demo_packet False, demo_files)" by (simp add: demo_repair_def demo_files_def content_at_def lookup_def)
  have tx: "next_transaction demo_files = ''t-u''" by code_simp
  have "tidy demo_sandbox ''t-u'' (dk_nodes demo_files) [''a.txt'']"
    using demo_tidy unfolding tidy_def by simp
  with demo_choice show ?thesis
    unfolding orderly_run_def v One_nat_def
    by (simp add: tx split: choice.splits round_end.splits sum.splits prod.splits)
qed

theorem unkept_repair_restores_witness:
  "case repair_run (demo_repair ''no'') demo_sandbox 1 demo_files of
     (Inr res, e) \<Rightarrow> content_at (dk_nodes e) [''a.txt''] = Some ''x'' | _ \<Rightarrow> False"
proof -
  obtain res e where run: "repair_run (demo_repair ''no'') demo_sandbox 1 demo_files = (Inr res, e)"
      "\<forall>a \<in> set (rs_attempts res). \<not> ra_kept a"
    using demo_undone by (auto split: prod.splits sum.splits simp: list_all_iff)
  have "content_at (dk_nodes e) [''a.txt''] = content_at (dk_nodes demo_files) [''a.txt'']"
    by (rule unkept_repair_restores[OF run _ demo_repair_local demo_orderly]) (simp add: internal_def)
  with run(1) show ?thesis by (simp add: demo_files_def content_at_def lookup_def)
qed

end
