(* ===== verification/FinalMessage.thy ===== *)
theory FinalMessage
  imports RepairLoop
begin

text \<open>
  The final message of a repair (repair/prompt.py): after a failing verification no word that
  claims success is left in it. Matches of the pattern are the maximal runs of word characters that
  spell such a word, and the neutral words spell none.
\<close>

subsection \<open>The words that claim success\<close>

lemma lower_of: "of_char (lower_char c) = (let n = (of_char c :: nat) in
     if (65 \<le> n \<and> n \<le> 90) \<or> (192 \<le> n \<and> n \<le> 222 \<and> n \<noteq> 215) then n + 32 else n)"
  by (auto simp: lower_char_def Let_def)

lemma letter_side:
  assumes "same_letter a c" "is_letter a"
  shows "is_word_char c"
proof -
  define m n where "m = (of_char a :: nat)" and "n = (of_char c :: nat)"
  have "lower_char a = lower_char c" using assms(1) by (simp add: same_letter_def)
  then have "(of_char (lower_char a) :: nat) = of_char (lower_char c)" by simp
  then have "(if (65 \<le> m \<and> m \<le> 90) \<or> (192 \<le> m \<and> m \<le> 222 \<and> m \<noteq> 215) then m + 32 else m)
      = (if (65 \<le> n \<and> n \<le> 90) \<or> (192 \<le> n \<and> n \<le> 222 \<and> n \<noteq> 215) then n + 32 else n)"
    unfolding lower_of Let_def m_def n_def .
  moreover have "(65 \<le> m \<and> m \<le> 90) \<or> (97 \<le> m \<and> m \<le> 122)"
    using assms(2) by (simp add: is_letter_def m_def Let_def)
  ultimately have "(65 \<le> n \<and> n \<le> 90) \<or> (97 \<le> n \<and> n \<le> 122)"
    by (simp split: if_splits; arith)
  then show ?thesis by (auto simp: is_word_char_def is_letter_def n_def Let_def)
qed

lemma success_word_free: "look_free success_word" "0 < least success_word"
  by code_simp+

lemma success_word_chars: "matches success_word w \<Longrightarrow> w \<noteq> [] \<and> list_all is_word_char w"
proof
  assume m: "matches success_word w"
  show "w \<noteq> []" using matches_least[OF m] success_word_free(2) by auto
  have "avoids c success_word" if "\<not> is_word_char c" for c
    using that by (auto simp: success_word_def words_def opt_def is_letter_def dest: letter_side)
  with matches_avoids[OF m] show "list_all is_word_char w" by (auto simp: list_all_iff)
qed

lemma word_side_simps [simp]: "word_side (c # s) = is_word_char c" "word_side [] = False"
  by (simp_all add: word_side_def)

lemma word_side_append: "word_side (s @ t) = (if s = [] then word_side t else is_word_char (hd s))"
  by (cases s) simp_all

lemma claim_spans:
  "spans success_claim (x, y) q \<longleftrightarrow> (\<exists>w z. y = w @ z \<and> q = (rev w @ x, z) \<and> matches success_word w \<and> \<not> word_side x \<and> \<not> word_side z)"
proof
  assume "spans success_claim (x, y) q"
  then have s: "word_side x \<noteq> word_side y" "spans success_word (x, y) q" "word_side (fst q) \<noteq> word_side (snd q)"
    by (auto simp: success_claim_def boundary_def)
  from spans_piece[OF success_word_free(1) s(2)] obtain w where w: "fst q = rev w @ x" "y = w @ snd q" "matches success_word w" by auto
  with success_word_chars[OF w(3)] have "word_side y" "word_side (fst q)"
    by (auto simp: word_side_append hd_rev list_all_iff)
  with s w show "\<exists>w z. y = w @ z \<and> q = (rev w @ x, z) \<and> matches success_word w \<and> \<not> word_side x \<and> \<not> word_side z"
    by (intro exI[of _ w] exI[of _ "snd q"]) (auto simp: prod_eq_iff)
next
  assume "\<exists>w z. y = w @ z \<and> q = (rev w @ x, z) \<and> matches success_word w \<and> \<not> word_side x \<and> \<not> word_side z"
  then obtain w z where w: "y = w @ z" "q = (rev w @ x, z)" "matches success_word w" "\<not> word_side x" "\<not> word_side z" by blast
  with success_word_chars[OF w(3)] have "word_side y" "word_side (rev w @ x)"
    by (auto simp: word_side_append hd_rev list_all_iff)
  moreover have "spans success_word (x, y) q" using matches_anywhere[OF success_word_free(1) w(3)] w(1,2) by simp
  ultimately show "spans success_claim (x, y) q"
    using w by (auto simp: success_claim_def boundary_def relcompp_apply)
qed

lemma neutral_words: "\<exists>n \<in> {''failing'', ''unconfirmed'', ''attempted''}. neutral_word w = n"
  by (simp add: neutral_word_def Let_def)

lemma spans_lit: "spans (lit s) (u, v) q \<Longrightarrow> list_all2 same_letter s (take (length s) v)"
proof (induction s arbitrary: u v)
  case (Cons c s)
  show ?case
  proof (cases v)
    case (Cons d t)
    with Cons.prems Cons.IH[of "d # u" t] show ?thesis by (cases s) auto
  qed (use Cons.prems in \<open>cases s; auto\<close>)
qed simp

lemma success_word_start:
  "matches success_word w \<Longrightarrow> \<exists>s \<in> {''fixed'', ''resolved'', ''verified'', ''pass''}. list_all2 same_letter s (take (length s) w)"
  unfolding matches_def success_word_def by (auto dest: spans_lit simp del: lit.simps)

lemma neutral_word_chars: "list_all is_word_char (neutral_word w)"
  using neutral_words[of w] by (auto simp: is_word_char_def is_letter_def)

lemma other_letters:
  "\<not> same_letter (CHR ''x'') (CHR ''i'')" "\<not> same_letter (CHR ''f'') (CHR ''u'')" "\<not> same_letter (CHR ''f'') (CHR ''a'')"
  "\<not> same_letter (CHR ''r'') (CHR ''f'')" "\<not> same_letter (CHR ''r'') (CHR ''u'')" "\<not> same_letter (CHR ''r'') (CHR ''a'')"
  "\<not> same_letter (CHR ''v'') (CHR ''f'')" "\<not> same_letter (CHR ''v'') (CHR ''u'')" "\<not> same_letter (CHR ''v'') (CHR ''a'')"
  "\<not> same_letter (CHR ''p'') (CHR ''f'')" "\<not> same_letter (CHR ''p'') (CHR ''u'')" "\<not> same_letter (CHR ''p'') (CHR ''a'')"
  "\<not> same_letter (CHR ''i'') (CHR ''a'')"
  by code_simp+

lemma neutral_claims_nothing: "\<not> matches success_word (neutral_word w)"
proof
  assume "matches success_word (neutral_word w)"
  from success_word_start[OF this] neutral_words[of w] show False
    by (elim bexE insertE emptyE) (simp_all add: other_letters)
qed

lemma neutral_word_present: "neutral_word w \<noteq> []"
  using neutral_words[of w] by (auto)

text \<open>A word that claims success, as a decomposition of the text.\<close>

definition claims :: "string \<Rightarrow> string \<Rightarrow> bool" where
  "claims u t \<longleftrightarrow> (\<exists>a w z. t = a @ w @ z \<and> matches success_word w \<and> \<not> word_side (rev a @ u) \<and> \<not> word_side z)"

lemma claims_found: "found success_claim t \<longleftrightarrow> claims [] t"
  by (auto simp: found_spans claim_spans claims_def)

lemma claims_none: "search_from [success_claim] u v = None \<Longrightarrow> \<not> claims u v"
  using search_none[of success_claim u v] by (fastforce simp: claims_def claim_spans)

lemma word_chars_side: "list_all is_word_char w \<Longrightarrow> word_side (w @ t) \<longleftrightarrow> w \<noteq> [] \<or> word_side t"
    "list_all is_word_char w \<Longrightarrow> word_side (rev w @ t) \<longleftrightarrow> w \<noteq> [] \<or> word_side t"
  by (auto simp: word_side_append hd_rev list_all_iff)

lemma split_append:
  assumes "x @ y = a @ b"
  obtains (left) p where "x = a @ p" "b = p @ y" | (right) p where "p \<noteq> []" "a = x @ p" "y = p @ b"
  using assms by (cases "length a \<le> length x") (auto simp: append_eq_append_conv2)

text \<open>A word between two pieces that do not claim: the words around it do not change.\<close>

lemma claims_around:
  assumes n: "n \<noteq> []" "list_all is_word_char n" "\<not> matches success_word n"
    and sides: "\<not> word_side (rev gap @ u)" "\<not> word_side back"
    and left: "\<And>a w z. gap = a @ w @ z \<Longrightarrow> z \<noteq> [] \<Longrightarrow> matches success_word w \<Longrightarrow> \<not> word_side (rev a @ u) \<Longrightarrow> word_side z"
    and right: "\<not> claims u' back"
  shows "\<not> claims u (gap @ n @ back)"
proof
  assume "claims u (gap @ n @ back)"
  then obtain a w z where w: "gap @ n @ back = a @ w @ z" "matches success_word w" "\<not> word_side (rev a @ u)" "\<not> word_side z"
    by (auto simp: claims_def)
  note c = success_word_chars[OF w(2)]
  from w(1) consider (in_gap) y where "gap = a @ w @ y" "z = y @ n @ back"
    | (over) x y where "gap = a @ x" "x \<noteq> []" "w = x @ y"
    | (after) b where "a = gap @ b" "n @ back = b @ w @ z"
  proof (cases rule: split_append)
    case (left p)
    note gap = left(1)
    from left(2) show ?thesis
    proof (cases rule: split_append)
      case (left q) with gap that(2)[of p q] that(3)[of "[]"] w(1) show ?thesis by (cases "p = []") simp_all
    next
      case (right q) with gap that(1)[of q] show ?thesis by simp
    qed
  next
    case (right p) then show ?thesis using that(3)[of p] by simp
  qed
  then show False
  proof cases
    case in_gap
    show False
    proof (cases "y = []")
      case True with in_gap w(4) n show False by (simp add: word_chars_side)
    next
      case False
      with in_gap(2) have "word_side z = word_side y" by (cases y) simp_all
      with False left[OF in_gap(1) False w(2,3)] w(4) show False by simp
    qed
  next
    case over
    with c have "list_all is_word_char x" by simp
    with over sides(1) show False by (simp add: word_chars_side)
  next
    case after
    from this(2) consider (inside) y where "n = b @ y" "w @ z = y @ back" | (past) y where "b = n @ y" "back = y @ w @ z"
      by (rule split_append)
    then show False
    proof cases
      case inside
      with n(2) have "list_all is_word_char b" "list_all is_word_char y" by auto
      with w(3) after(1) have b: "b = []" by (auto simp: word_chars_side)
      from inside(2) consider x where "w = y @ x" "back = x @ z" | x where "y = w @ x" "z = x @ back" "x \<noteq> []"
        by (cases rule: split_append) (metis append.right_neutral append_Nil2, metis)
      then show False
      proof cases
        case 1
        with c sides(2) have "x = []" by (auto simp: word_chars_side)
        with 1 inside b w(2) n(3) show False by simp
      next
        case 2
        with \<open>list_all is_word_char y\<close> w(4) show False by (auto simp: word_chars_side)
      qed
    next
      case past
      have "y \<noteq> []" using w(3) after(1) past n by (auto simp: word_chars_side)
      then have "word_side (rev y @ r) = word_side (rev y)" for r by (simp add: word_side_def)
      with past w after(1) right show False by (auto simp: claims_def)
    qed
  qed
qed

lemma claim_round:
  assumes "search_from [success_claim] u v = Some (pre, ts, u', v')"
  obtains gap w where "v = gap @ w @ v'" "matches success_word w" "\<not> word_side (rev gap @ u)" "\<not> word_side v'"
    and "replace_from [success_claim] f u v = gap @ f ts @ replace_from [success_claim] f u' v'" "length v' < length v"
    and "\<And>a w z. gap = a @ w @ z \<Longrightarrow> z \<noteq> [] \<Longrightarrow> matches success_word w \<Longrightarrow> \<not> word_side (rev a @ u) \<Longrightarrow> word_side z"
proof -
  from assms obtain gap rest where g: "v = gap @ rest" "pre = rev u @ gap" "spans success_claim (rev gap @ u, rest) (u', v')"
      "\<And>a b p. gap = a @ b \<Longrightarrow> b \<noteq> [] \<Longrightarrow> \<not> spans success_claim (rev a @ u, b @ rest) p" by (rule search_gap) blast
  from g(3) obtain w where w: "rest = w @ v'" "u' = rev w @ rev gap @ u" "matches success_word w"
      "\<not> word_side (rev gap @ u)" "\<not> word_side v'" by (auto simp: claim_spans)
  from success_word_chars[OF w(3)] have "w \<noteq> []" by simp
  with assms g(1,2) w(1,2)
  have "replace_from [success_claim] f u v = gap @ f ts @ replace_from [success_claim] f u' v'" "length v' < length v"
    unfolding replace_from.simps[of _ f u v] by simp_all
  moreover have "word_side z" if s: "gap = a @ x @ z" "z \<noteq> []" "matches success_word x" "\<not> word_side (rev a @ u)" for a x z
    using g(4)[OF s(1), of "(rev x @ rev a @ u, z @ rest)"] s(2,3,4) by (cases z) (auto simp: claim_spans)
  ultimately show ?thesis using that[of gap w] g(1) w by blast
qed

lemma replaced_side:
  assumes "\<not> word_side v"
  shows "\<not> word_side (replace_from [success_claim] f u v)"
proof (cases "search_from [success_claim] u v")
  case None
  with assms show ?thesis by (simp add: replace_from.simps)
next
  case (Some a)
  obtain pre ts u' v' where "a = (pre, ts, u', v')" by (cases a) auto
  with Some obtain gap w where g: "v = gap @ w @ v'" "matches success_word w"
      "replace_from [success_claim] f u v = gap @ f ts @ replace_from [success_claim] f u' v'"
    using claim_round[where u = u and v = v and f = f] by blast
  from assms g(1) success_word_chars[OF g(2)] have "gap \<noteq> []" by (auto simp: word_chars_side)
  with assms g show ?thesis by (simp add: word_side_append)
qed

lemma replaced_claims:
  "\<not> claims u (replace_from [success_claim] (\<lambda>ts. neutral_word (hd ts)) u v)"
proof (induction "length v" arbitrary: u v rule: less_induct)
  case less
  show ?case
  proof (cases "search_from [success_claim] u v")
    case None
    with claims_none[OF None] show ?thesis by (simp add: replace_from.simps)
  next
    case (Some a)
    obtain pre ts u' v' where "a = (pre, ts, u', v')" by (cases a) auto
    with Some have "search_from [success_claim] u v = Some (pre, ts, u', v')" by simp
    then show ?thesis
    proof (rule claim_round[where f = "\<lambda>ts. neutral_word (hd ts)"])
      fix gap w
      assume g: "v = gap @ w @ v'" "matches success_word w" "\<not> word_side (rev gap @ u)" "\<not> word_side v'" "length v' < length v"
        and eq: "replace_from [success_claim] (\<lambda>ts. neutral_word (hd ts)) u v =
          gap @ neutral_word (hd ts) @ replace_from [success_claim] (\<lambda>ts. neutral_word (hd ts)) u' v'"
        and left: "\<And>a w z. gap = a @ w @ z \<Longrightarrow> z \<noteq> [] \<Longrightarrow> matches success_word w \<Longrightarrow> \<not> word_side (rev a @ u) \<Longrightarrow> word_side z"
      show ?thesis unfolding eq
        by (rule claims_around[OF _ _ _ g(3) replaced_side[OF g(4)] left less.hyps[OF g(5)]]) (rule neutral_word_present neutral_word_chars neutral_claims_nothing)+
    qed
  qed
qed

subsection \<open>The guarded message\<close>

text \<open>
  C25. After a failing verification the guarded final message contains no claim of success: replacing
  the claims neither leaves one behind nor makes a new one where the replacement meets the text
  around it.
\<close>

theorem failed_runs_claim_nothing:
  "\<not> contains_unverified_success_claim (enforce_final_response message code) code"
  using replaced_claims[of "[]" message]
  by (auto simp: contains_unverified_success_claim_def enforce_final_response_def claims_found replace_groups_def claims_def
      dest: success_word_chars)

end
