(* ===== verification/EditMatching.thy ===== *)
theory EditMatching
  imports Regex Paths
begin

text \<open>
  The text work of the editing tools in \<open>tools/agent_tools.py\<close>: how the text a model wants to replace is
  found in a file although its white space, its indentation or its line ends were mangled, how the
  replacement is adjusted, and when an overwrite would gut a file.
\<close>

subsection \<open>Searching\<close>

text \<open>The text before and after the first occurrence.\<close>

fun cut_at :: "string \<Rightarrow> string \<Rightarrow> (string \<times> string) option" where
  "cut_at old [] = (if old = [] then Some ([], []) else None)"
| "cut_at old (c # cs) =
     (if starts_with (c # cs) old then Some ([], drop (length old) (c # cs))
      else map_option (\<lambda>(a, b). (c # a, b)) (cut_at old cs))"

lemma cut_at_Some: "cut_at old s = Some (a, b) \<Longrightarrow> s = a @ old @ b"
proof (induction old s arbitrary: a rule: cut_at.induct)
  case (2 old c cs)
  show ?case
  proof (cases "starts_with (c # cs) old")
    case True
    then obtain z where z: "c # cs = old @ z" by (auto simp: starts_with_prefix prefix_def)
    from True 2(2) have "a = []" "b = drop (length old) (c # cs)" by auto
    with z show ?thesis by simp
  next
    case False
    with 2 show ?thesis by auto
  qed
qed (simp split: if_splits)

lemma cut_at_None: "cut_at old s = None \<Longrightarrow> \<not> contains old s"
  by (induction old s rule: cut_at.induct) (auto split: if_splits)

text \<open>\<open>count\<close> and \<open>replace\<close>. The empty text occurs before every character and at the end.\<close>

function count_text :: "string \<Rightarrow> string \<Rightarrow> nat" where
  "count_text old s = (if old = [] then length s + 1 else case cut_at old s of None \<Rightarrow> 0 | Some (a, b) \<Rightarrow> Suc (count_text old b))"
  by pat_completeness auto
termination
  by (relation "measure (\<lambda>(old, s). length s)") (auto dest!: cut_at_Some)

declare count_text.simps [simp del]

function replace_every :: "string \<Rightarrow> string \<Rightarrow> string \<Rightarrow> string" where
  "replace_every old new s =
     (if old = [] then concat (map (\<lambda>c. new @ [c]) s) @ new else case cut_at old s of None \<Rightarrow> s | Some (a, b) \<Rightarrow> a @ new @ replace_every old new b)"
  by pat_completeness auto
termination
  by (relation "measure (\<lambda>(old, new, s). length s)") (auto dest!: cut_at_Some)

declare replace_every.simps [simp del]

definition replace_once :: "string \<Rightarrow> string \<Rightarrow> string \<Rightarrow> string" where
  "replace_once old new s = (case cut_at old s of None \<Rightarrow> s | Some (a, b) \<Rightarrow> a @ new @ b)"

text \<open>The places of the first occurrences, at most \<open>n\<close>.\<close>

fun places_from :: "nat \<Rightarrow> string \<Rightarrow> nat \<Rightarrow> string \<Rightarrow> nat list" where
  "places_from 0 old offset s = []"
| "places_from (Suc n) old offset s = (case cut_at old s of
     None \<Rightarrow> []
   | Some (a, b) \<Rightarrow> (offset + length a) # places_from n old (offset + length a + length old) b)"

subsection \<open>Mangled text\<close>

definition elided_value :: string where
  "elided_value = ''<omitted from history - call read_file for the current text>''"

definition legacy_elision_marker :: string where
  "legacy_elision_marker = ''...[elided]''"

definition looks_elided :: "string \<Rightarrow> bool" where
  "looks_elided value \<longleftrightarrow> contains elided_value value \<or> contains legacy_elision_marker value"

text \<open>A backslash and the letter n, r or t, unless the backslash is escaped itself.\<close>

definition literal_escape_parts :: "rx list" where
  "literal_escape_parts = [
     cats [Look (\<lambda>u v. u = [] \<or> hd u \<noteq> backslash), exact [backslash]],
     One (\<lambda>c. c \<in> set ''nrt'')]"

definition escape_char :: "char \<Rightarrow> char" where
  "escape_char c = (if c = CHR ''n'' then newline else if c = CHR ''r'' then CHR 0x0D else CHR 0x09)"

definition decode_literal_escapes :: "string \<Rightarrow> string" where
  "decode_literal_escapes s = replace_groups literal_escape_parts (\<lambda>ts. map escape_char (ts ! 1)) s"

definition mentions_literal_escapes :: "string \<Rightarrow> bool" where
  "mentions_literal_escapes s \<longleftrightarrow> search_groups literal_escape_parts s \<noteq> None"

definition lines_of :: "string \<Rightarrow> string list" where
  "lines_of s = split_char newline s"

text \<open>The one place whose lines agree after \<open>view\<close>, as the file has it.\<close>

definition block_starts :: "(string \<Rightarrow> string) \<Rightarrow> string list \<Rightarrow> string list \<Rightarrow> nat list" where
  "block_starts view file_lines old_lines =
     filter (\<lambda>i. map view (take (length old_lines) (drop i file_lines)) = map view old_lines)
       [0..<length file_lines - length old_lines + 1]"

definition unique_block :: "(string \<Rightarrow> string) \<Rightarrow> string \<Rightarrow> string \<Rightarrow> string option" where
  "unique_block view content old =
     (let file_lines = lines_of content; old_lines = lines_of old
      in if old = [] \<or> length file_lines < length old_lines then None
         else case block_starts view file_lines old_lines of
           [i] \<Rightarrow> Some (join [newline] (take (length old_lines) (drop i file_lines)))
         | _ \<Rightarrow> None)"

definition fuzzy_match_block :: "string \<Rightarrow> string \<Rightarrow> string option" where
  "fuzzy_match_block content old = unique_block rstrip content old"

definition min_indent_fuzz_lines :: nat where "min_indent_fuzz_lines = 3"

definition indent_shifted_match_block :: "string \<Rightarrow> string \<Rightarrow> string option" where
  "indent_shifted_match_block content old =
     (if length (lines_of old) < min_indent_fuzz_lines then None else unique_block strip content old)"

definition indent_of :: "string \<Rightarrow> int" where
  "indent_of line = int (length line) - int (length (lstrip line))"

definition outdented :: "string \<Rightarrow> int \<Rightarrow> string" where
  "outdented line delta =
     (if 0 < delta then drop (nat (min delta (indent_of line))) line
      else if delta < 0 then replicate (nat (- delta)) (CHR '' '') @ line
      else line)"

text \<open>What a line of the old text is off by; the first line of its kind counts.\<close>

definition line_deltas :: "string \<Rightarrow> string \<Rightarrow> (string \<times> int) list" where
  "line_deltas old matched =
     fold (\<lambda>(o_line, m_line) ds. if strip o_line \<noteq> [] \<and> map_of ds (strip o_line) = None
         then ds @ [(strip o_line, indent_of o_line - indent_of m_line)] else ds)
       (zip (lines_of old) (lines_of matched)) []"

fun realign_lines :: "(string \<times> int) list \<Rightarrow> int \<Rightarrow> string list \<Rightarrow> string list" where
  "realign_lines ds carried [] = []"
| "realign_lines ds carried (line # rest) =
     (if strip line = [] then line # realign_lines ds carried rest
      else
        let carried = (case map_of ds (strip line) of None \<Rightarrow> carried | Some d \<Rightarrow> d)
        in outdented line carried # realign_lines ds carried rest)"

definition realign_replacement :: "string \<Rightarrow> string \<Rightarrow> string \<Rightarrow> string" where
  "realign_replacement old matched new = join [newline] (realign_lines (line_deltas old matched) 0 (lines_of new))"

text \<open>A block in the place of an anchor inside a line takes over the indentation of the line.\<close>

definition last_line :: "string \<Rightarrow> string" where
  "last_line s = rev (takeWhile (\<lambda>c. c \<noteq> newline) (rev s))"

definition indent_multiline_replacement :: "string \<Rightarrow> string \<Rightarrow> string \<Rightarrow> string" where
  "indent_multiline_replacement content old new =
     (if newline \<notin> set new \<or> newline \<in> set old then new
      else case cut_at old content of
        None \<Rightarrow> new
      | Some (a, _) \<Rightarrow>
          (let indent = last_line a; ls = lines_of new
           in if indent = [] \<or> strip indent \<noteq> [] then new
              else join [newline] (hd ls # map (\<lambda>l. if l \<noteq> [] \<and> hd l \<noteq> CHR '' '' \<and> hd l \<noteq> CHR 0x09 then indent @ l else l) (tl ls))))"

subsection \<open>Several occurrences\<close>

record edit_context =
  ec_start :: nat
  ec_end :: nat
  ec_match :: nat
  ec_text :: string

definition newlines_in :: "string \<Rightarrow> nat" where
  "newlines_in s = length (filter (\<lambda>c. c = newline) s)"

definition edit_context_candidates :: "string \<Rightarrow> string \<Rightarrow> edit_context list" where
  "edit_context_candidates content old =
     (if old = [] then []
      else
        let ls = splitlines content
        in map (\<lambda>i.
             let start_line = newlines_in (take i content);
                 span_lines = newlines_in old + 1;
                 block_start = start_line - 2;
                 block_end = min (length ls) (start_line + span_lines + 2)
             in \<lparr>ec_start = block_start + 1, ec_end = block_end, ec_match = start_line + 1,
                 ec_text = join [newline] (drop block_start (take block_end ls))\<rparr>)
           (places_from 5 old 0 content))"

definition edit_hint_stopwords :: "string list" where
  "edit_hint_stopwords = [''after'', ''before'', ''change'', ''code'', ''file'', ''fix'', ''from'', ''function'', ''make'', ''returns'',
     ''script'', ''smallest'', ''then'', ''this'', ''verify'', ''where'', ''with'', ''output'', ''into'', ''instead'', ''named'', ''result'',
     ''requested'']"

definition name_token :: rx where
  "name_token = (let part = One (\<lambda>c. is_letter c \<or> is_digit c \<or> c = CHR ''_'')
     in cats [One (\<lambda>c. is_letter c \<or> c = CHR ''_''), part, part, Star part])"

definition tokens_of :: "string \<Rightarrow> string list" where
  "tokens_of s = uniq (map (\<lambda>ts. lower (hd ts)) (find_groups [name_token] s))"

definition context_score :: "string list \<Rightarrow> edit_context \<Rightarrow> nat" where
  "context_score hints c =
     (let shown = join [newline] (take (ec_match c - ec_start c + 1) (splitlines (ec_text c)))
      in length (filter (\<lambda>h. h \<in> set (tokens_of shown)) hints))"

definition select_edit_context :: "edit_context list \<Rightarrow> string \<Rightarrow> string \<Rightarrow> edit_context option" where
  "select_edit_context candidates user_request old =
     (let hints = filter (\<lambda>t. t \<notin> set edit_hint_stopwords \<and> t \<notin> set (tokens_of old)) (tokens_of user_request);
          scored = sort_key (\<lambda>(n, _). - int n) (map (\<lambda>c. (context_score hints c, c)) candidates)
      in if hints = [] then None
         else case scored of
           [] \<Rightarrow> None
         | (n, c) # rest \<Rightarrow> if n = 0 \<or> (rest \<noteq> [] \<and> fst (hd rest) = n) then None else Some c)"

subsection \<open>The edit\<close>

text \<open>
  What an edit comes to: the text of the file that is replaced and by what, and whether escapes were
  decoded or the context chosen. \<open>candidate is decoded\<close> also holds for the text as sent when there was
  nothing to decode: \<open>re.sub\<close> returns its argument then.
\<close>

record edit_match =
  em_old :: string
  em_new :: string
  em_count :: nat
  em_unescaped :: bool

definition repair_by :: "string \<Rightarrow> string \<Rightarrow> string \<Rightarrow> string \<Rightarrow> edit_match option" where
  "repair_by content decoded new candidate =
     (let decoded_new = (if candidate = decoded then decode_literal_escapes new else new);
          matched = (\<lambda>block replacement. Some \<lparr>em_old = block, em_new = replacement, em_count = count_text block content,
            em_unescaped = (candidate = decoded)\<rparr>);
          fuzzy = fuzzy_match_block content candidate
      in if fuzzy \<noteq> None \<and> fuzzy \<noteq> Some new then matched (the fuzzy) decoded_new
         else case indent_shifted_match_block content candidate of
           None \<Rightarrow> None
         | Some block \<Rightarrow>
             let replacement = realign_replacement candidate block decoded_new
             in if block = replacement then None else matched block replacement)"

primrec first_repair :: "string \<Rightarrow> string \<Rightarrow> string \<Rightarrow> string list \<Rightarrow> edit_match option" where
  "first_repair content decoded new [] = None"
| "first_repair content decoded new (candidate # rest) = (case repair_by content decoded new candidate of
     None \<Rightarrow> first_repair content decoded new rest | Some m \<Rightarrow> Some m)"

definition find_edit :: "string \<Rightarrow> string \<Rightarrow> string \<Rightarrow> edit_match option" where
  "find_edit content old new =
     (let decoded = decode_literal_escapes old
      in if count_text old content \<noteq> 0
           then Some \<lparr>em_old = old, em_new = new, em_count = count_text old content, em_unescaped = False\<rparr>
         else if decoded \<noteq> old \<and> count_text decoded content \<noteq> 0
           then Some \<lparr>em_old = decoded, em_new = decode_literal_escapes new, em_count = count_text decoded content,
             em_unescaped = True\<rparr>
         else first_repair content decoded new (if decoded = old then [old] else [old, decoded]))"

datatype edit_failure = NotFound | Ambiguous nat "edit_context list" | SameText nat

record planned_edit =
  pe_old :: string
  pe_new :: string
  pe_content :: string
  pe_replacements :: nat
  pe_unescaped :: bool
  pe_auto :: bool

text \<open>The occurrence that the words of the request single out.\<close>

definition disambiguate :: "string \<Rightarrow> string \<Rightarrow> edit_match \<Rightarrow> edit_match \<times> bool" where
  "disambiguate content user_request m =
     (case select_edit_context (edit_context_candidates content (em_old m)) user_request (em_old m) of
        None \<Rightarrow> (m, False)
      | Some c \<Rightarrow>
          if ec_text c \<noteq> [] \<and> count_text (ec_text c) content = 1
          then (m\<lparr>em_old := ec_text c, em_new := replace_once (em_old m) (em_new m) (ec_text c), em_count := 1\<rparr>, True)
          else (m, False))"

definition plan_edit :: "string \<Rightarrow> string \<Rightarrow> string \<Rightarrow> bool \<Rightarrow> string \<Rightarrow> edit_failure + planned_edit" where
  "plan_edit content old new everywhere user_request = (case find_edit content old new of
     None \<Rightarrow> Inl NotFound
   | Some m \<Rightarrow> if em_count m = 0 then Inl NotFound else
       (let (m, auto_chosen) = (if 1 < em_count m \<and> \<not> everywhere then disambiguate content user_request m else (m, False))
        in if 1 < em_count m \<and> \<not> everywhere then Inl (Ambiguous (em_count m) (edit_context_candidates content (em_old m)))
           else if em_old m = em_new m then Inl (SameText (em_count m))
           else
             let replacement = (if everywhere then em_new m else indent_multiline_replacement content (em_old m) (em_new m))
             in Inr \<lparr>pe_old = em_old m, pe_new = replacement,
                  pe_content = (if everywhere then replace_every (em_old m) replacement content
                    else replace_once (em_old m) replacement content),
                  pe_replacements = (if everywhere then em_count m else 1),
                  pe_unescaped = em_unescaped m, pe_auto = auto_chosen\<rparr>))"

subsection \<open>Overwrites that gut a file\<close>

definition line_head :: rx where
  "line_head = Look (\<lambda>u v. u = [] \<or> hd u = newline)"

definition optional_word :: "string \<Rightarrow> rx" where
  "optional_word w = opt (Cat (exact w) (plus space))"

definition top_level :: rx where
  "top_level = ors [
     cats [line_head, Star space, optional_word ''export'', optional_word ''default'', optional_word ''async'',
       ors (map exact [''def'', ''class'', ''function'', ''interface'', ''type'', ''struct'', ''impl'', ''fn'']), plus space, One is_word_char],
     cats [line_head, Star space, optional_word ''export'', ors (map exact [''const'', ''let'', ''var'']), plus space,
       plus (One is_word_char), Star space, exact ''='', Star space, ors (map exact [''('', ''function'', ''async'', ''{''])],
     cats [line_head, Star space, exact ''{%'', Star space, exact ''block'', boundary]]"

definition gutting_overwrite :: "string option \<Rightarrow> string \<Rightarrow> string" where
  "gutting_overwrite existing content = (case existing of
     None \<Rightarrow> []
   | Some old \<Rightarrow>
       (let n = length (find_groups [top_level] old)
        in if n = 0 \<or> length old < 200 then []
           else if found top_level content then []
           else if length old \<le> 4 * length content then []
           else ''the existing file is '' @ nat_str (length old) @ '' bytes and defines '' @ nat_str n @
             '' top-level name(s); the replacement is '' @ nat_str (length content) @ '' bytes and defines none.''))"

end
