(* ===== verification/EditSafety.thy ===== *)
theory EditSafety
  imports EditMatching
begin

text \<open>
  What an edit does to a file: the new text takes the place of the occurrences of the text that was found,
  the rest stays, and what was found resembles what the model wrote.
\<close>

subsection \<open>Occurrences\<close>

lemma join_Cons: "ps \<noteq> [] \<Longrightarrow> join sep (p # ps) = p @ sep @ join sep ps"
  by (cases ps) auto

lemma join_chars: "join [] (map (\<lambda>c. [c]) s) = s"
  by (induction s rule: induct_list012) auto

lemma spread_out: "concat (map (\<lambda>c. new @ [c]) s) @ new = join new ([] # map (\<lambda>c. [c]) s @ [[]])"
  by (induction s) (auto simp: join_Cons)

lemma join_sep_Nil: "join [] ps = concat ps"
  by (induction ps rule: induct_list012) auto

text \<open>Counting and replacing go by the same pieces.\<close>

lemma pieces:
  "\<exists>ps. length ps = Suc (count_text old s) \<and> s = join old ps \<and> (\<forall>new. replace_every old new s = join new ps)"
proof (induction old s rule: count_text.induct)
  case (1 old s)
  consider "old = []" | "old \<noteq> []" "cut_at old s = None" | a b where "old \<noteq> []" "cut_at old s = Some (a, b)" by force
  then show ?case
  proof cases
    case 1
    let ?ps = "[] # map (\<lambda>c. [c]) s @ [[]]"
    have "length ?ps = Suc (count_text old s)" by (simp add: 1 count_text.simps)
    moreover have "s = join old ?ps" by (simp add: 1 join_sep_Nil)
    moreover have "replace_every old new s = join new ?ps" for new
      by (simp add: 1 replace_every.simps spread_out del: append_Cons)
    ultimately show ?thesis by blast
  next
    case 2
    then show ?thesis by (intro exI[of _ "[s]"]) (simp add: count_text.simps replace_every.simps)
  next
    case 3
    from "1"[OF 3(1,2)] obtain ps where ps: "length ps = Suc (count_text old b)" "b = join old ps"
        "\<And>new. replace_every old new b = join new ps" by auto
    then have "ps \<noteq> []" by auto
    moreover have "count_text old s = Suc (count_text old b)" "\<And>new. replace_every old new s = a @ new @ replace_every old new b"
      by (simp_all add: 3 count_text.simps[of old s] replace_every.simps[of old _ s])
    ultimately show ?thesis
      using ps cut_at_Some[OF 3(2)] by (intro exI[of _ "a # ps"]) (simp add: join_Cons)
  qed
qed

lemma once_among_one:
  assumes "count_text old s = Suc 0"
  shows "\<exists>a b. s = join old [a, b] \<and> replace_once old new s = join new [a, b]"
proof (cases "cut_at old s")
  case None
  with assms show ?thesis by (cases "old = []") (auto simp: count_text.simps)
next
  case (Some p)
  then show ?thesis by (cases p) (auto simp: replace_once_def dest: cut_at_Some)
qed

subsection \<open>What is found\<close>

definition resembles :: "string \<Rightarrow> string \<Rightarrow> bool" where
  "resembles old m \<longleftrightarrow> m = old \<or> map strip (lines_of m) = map strip (lines_of old)"

definition stands_for :: "string \<Rightarrow> string \<Rightarrow> bool" where
  "stands_for old m \<longleftrightarrow> resembles old m \<or> resembles (decode_literal_escapes old) m"

lemma split_join: "ls \<noteq> [] \<Longrightarrow> \<forall>l \<in> set ls. d \<notin> set l \<Longrightarrow> split_char d (join [d] ls) = ls"
proof (induction ls rule: induct_list012)
  case (2 x)
  then show ?case by (induction x) auto
next
  case (3 x y zs)
  have "split_char d (x @ d # t) = x # split_char d t" if "d \<notin> set x" for t
    using that by (induction x) auto
  with 3 show ?case by simp
qed simp

lemma unique_block_lines:
  assumes "unique_block view content old = Some m"
  shows "map view (lines_of m) = map view (lines_of old)"
proof -
  from assms obtain i where i: "i \<in> set (block_starts view (lines_of content) (lines_of old))"
      and m: "m = join [newline] (take (length (lines_of old)) (drop i (lines_of content)))" (is "m = join _ ?ls")
    by (auto simp: unique_block_def Let_def split: if_splits list.splits)
  then have same: "map view ?ls = map view (lines_of old)"
    by (simp only: block_starts_def set_filter mem_Collect_eq)
  then have "length ?ls = length (lines_of old)" by (metis length_map)
  then have "?ls \<noteq> []" by (metis length_0_conv lines_of_def split_char_nonempty)
  moreover have "\<forall>l \<in> set ?ls. newline \<notin> set l"
    by (metis in_set_dropD in_set_takeD lines_of_def split_char_sep)
  ultimately have "lines_of m = ?ls" unfolding m lines_of_def by (rule split_join)
  with same show ?thesis by simp
qed

lemma strip_rstrip: "strip (rstrip s) = strip s"
proof (cases "\<forall>c \<in> set s. is_space c")
  case True
  then have "lstrip s = []" "rstrip s = []" by (auto simp: lstrip_def rstrip_def dropWhile_eq_Nil_conv)
  then show ?thesis by (simp add: strip_def) (simp add: lstrip_def rstrip_def)
next
  case False
  have "lstrip (rstrip s) = rstrip (lstrip s)" using False
    by (induction s) (auto simp: lstrip_def rstrip_def dropWhile_append)
  then show ?thesis by (simp add: strip_def)
qed

lemma fuzzy_resembles: "fuzzy_match_block content old = Some m \<Longrightarrow> resembles old m"
  unfolding fuzzy_match_block_def resembles_def
  by (drule unique_block_lines, drule arg_cong[where f = "map strip"]) (simp add: comp_def strip_rstrip)

lemma shifted_resembles: "indent_shifted_match_block content old = Some m \<Longrightarrow> resembles old m"
  unfolding indent_shifted_match_block_def resembles_def by (auto split: if_splits dest: unique_block_lines)

text \<open>The replacement is the new text, or its lines moved in or out.\<close>

lemma strip_lead: "\<forall>c \<in> set a. is_space c \<Longrightarrow> strip (a @ s) = strip s"
proof -
  assume "\<forall>c \<in> set a. is_space c"
  then have "lstrip (a @ s) = lstrip s" by (induction a) (simp_all add: lstrip_def)
  then show ?thesis by (simp add: strip_def)
qed

lemma outdented_strip: "strip (outdented line delta) = strip line"
proof -
  have "strip (drop n line) = strip line" if "n \<le> length line - length (lstrip line)" for n
  proof -
    have lead: "line = takeWhile is_space line @ lstrip line" by (simp add: lstrip_def)
    then have "n \<le> length (takeWhile is_space line)" using that by (metis add_diff_cancel_right' length_append)
    then have "\<forall>c \<in> set (take n line). is_space c"
      by (metis lead in_set_takeD set_takeWhileD take_append diff_is_0_eq' take0 append_Nil2)
    then show ?thesis using strip_lead[of "take n line" "drop n line"] by simp
  qed
  then have "strip (drop (nat (min delta (indent_of line))) line) = strip line" by (simp add: indent_of_def min_def)
  moreover have "strip (replicate n (CHR '' '') @ line) = strip line" for n
    by (rule strip_lead) (simp add: is_space_def)
  ultimately show ?thesis by (simp add: outdented_def)
qed

lemma realigned_strip: "map strip (realign_lines ds carried ls) = map strip ls"
  by (induction ds carried ls rule: realign_lines.induct) (simp_all add: Let_def outdented_strip)

lemma newline_no_blank: "newline \<noteq> CHR '' ''"
  by code_simp

lemma realigned_free: "\<forall>l \<in> set ls. newline \<notin> set l \<Longrightarrow> \<forall>l \<in> set (realign_lines ds carried ls). newline \<notin> set l"
  by (induction ds carried ls rule: realign_lines.induct)
    (auto simp: Let_def outdented_def newline_no_blank dest: in_set_dropD split: if_splits)

lemma realigned_resembles: "resembles new (realign_replacement old m new)"
proof -
  let ?ls = "realign_lines (line_deltas old m) 0 (lines_of new)"
  have "map strip ?ls = map strip (lines_of new)" by (rule realigned_strip)
  moreover from this have "?ls \<noteq> []" by (metis list.map_disc_iff lines_of_def split_char_nonempty)
  then have "lines_of (join [newline] ?ls) = ?ls"
    unfolding lines_of_def by (rule split_join) (use realigned_free in \<open>auto simp: lines_of_def dest: split_char_sep\<close>)
  ultimately show ?thesis by (simp add: resembles_def realign_replacement_def)
qed

lemma stands_for_texts [simp]: "stands_for new new" "stands_for new (decode_literal_escapes new)"
  by (simp_all add: stands_for_def resembles_def)

lemma realigned_stands:
  "stands_for new (realign_replacement c m new)" "stands_for new (realign_replacement c m (decode_literal_escapes new))"
  using realigned_resembles by (auto simp: stands_for_def)

lemma repair_by_found:
  "repair_by content decoded new c = Some m \<Longrightarrow>
     resembles c (em_old m) \<and> stands_for new (em_new m) \<and> em_count m = count_text (em_old m) content"
  by (auto simp: repair_by_def Let_def realigned_stands split: if_splits option.splits dest: fuzzy_resembles shifted_resembles)

lemma first_repair_found:
  "first_repair content decoded new cs = Some m \<Longrightarrow>
     \<exists>c \<in> set cs. resembles c (em_old m) \<and> stands_for new (em_new m) \<and> em_count m = count_text (em_old m) content"
  by (induction cs) (auto split: option.splits dest: repair_by_found)

lemma find_edit_found:
  "find_edit content old new = Some m \<Longrightarrow> stands_for old (em_old m) \<and> stands_for new (em_new m) \<and>
     em_count m = count_text (em_old m) content \<and> (count_text old content \<noteq> 0 \<longrightarrow> em_old m = old \<and> em_new m = new)"
  by (auto simp: find_edit_def Let_def stands_for_def[of old] resembles_def simp del: first_repair.simps split: if_splits dest!: first_repair_found)

lemma disambiguate_found:
  assumes "disambiguate content req m = (n, auto_chosen)" and "em_count m = count_text (em_old m) content"
  shows "em_count n = count_text (em_old n) content \<and>
    (if auto_chosen then em_new n = replace_once (em_old m) (em_new m) (em_old n) else n = m)"
  using assms by (auto simp: disambiguate_def split: option.splits if_splits)

lemma replace_once_changes: "replace_once old new s \<noteq> s \<Longrightarrow> \<exists>a b. s = a @ old @ b \<and> replace_once old new s = a @ new @ b"
  by (auto simp: replace_once_def split: option.splits dest!: cut_at_Some)

text \<open>Multi-line text in the place of an anchor inside a line: white space is put before some of its lines.\<close>

definition indented_as :: "string \<Rightarrow> string \<Rightarrow> bool" where
  "indented_as s t \<longleftrightarrow> list_all2 (\<lambda>l m. \<exists>i. strip i = [] \<and> m = i @ l) (lines_of s) (lines_of t)"

lemma indented_as_refl: "indented_as s s"
  unfolding indented_as_def by (rule list.rel_refl) (auto intro: exI[of _ "[]"] simp: strip_def lstrip_def rstrip_def)

lemma multiline_indented:
  "indented_as new (indent_multiline_replacement content old new)"
  "newline \<in> set old \<Longrightarrow> indent_multiline_replacement content old new = new"
proof -
  show "newline \<in> set old \<Longrightarrow> indent_multiline_replacement content old new = new"
    by (simp add: indent_multiline_replacement_def)
  show "indented_as new (indent_multiline_replacement content old new)"
  proof (cases "indent_multiline_replacement content old new = new")
    case True
    then show ?thesis using indented_as_refl by simp
  next
    case False
    then obtain a where i: "strip (last_line a) = []" and e: "indent_multiline_replacement content old new =
        join [newline] (hd (lines_of new) # map (\<lambda>l. if l \<noteq> [] \<and> hd l \<noteq> CHR '' '' \<and> hd l \<noteq> CHR 0x09 then last_line a @ l else l)
          (tl (lines_of new)))" (is "_ = join _ ?ls")
      by (auto simp: indent_multiline_replacement_def Let_def split: if_splits option.splits)
    have ne: "lines_of new \<noteq> []" by (simp add: lines_of_def split_char_nonempty)
    have free: "newline \<notin> set l" if "l \<in> set (lines_of new)" for l using that by (metis lines_of_def split_char_sep)
    have "newline \<notin> set (last_line a)" by (auto simp: last_line_def dest: set_takeWhileD)
    then have "\<forall>l \<in> set ?ls. newline \<notin> set l"
      using free hd_in_set[OF ne] list.set_sel(2)[OF ne] by (auto split: if_splits)
    then have "lines_of (join [newline] ?ls) = ?ls" unfolding lines_of_def by (intro split_join) simp_all
    moreover have "list_all2 (\<lambda>l m. \<exists>i. strip i = [] \<and> m = i @ l) (lines_of new) ?ls"
    proof -
      have nil: "strip [] = []" by (simp add: strip_def lstrip_def rstrip_def)
      have "list_all2 (\<lambda>l m. \<exists>i. strip i = [] \<and> m = i @ l) (hd (lines_of new) # tl (lines_of new)) ?ls"
        using i nil by (auto simp: list_all2_map2 intro!: list.rel_refl)
      then show ?thesis using ne by simp
    qed
    ultimately show ?thesis by (simp add: indented_as_def e)
  qed
qed

text \<open>The plan of an edit comes from a match, chosen among its occurrences if need be.\<close>

lemma plan_edit_match:
  assumes "plan_edit content old new everywhere req = Inr p"
  obtains m n x y where "stands_for old m" "stands_for new n" "count_text old content \<noteq> 0 \<Longrightarrow> m = old \<and> n = new"
    "pe_old p = x @ m @ y" "pe_new p = (if everywhere then x @ n @ y else indent_multiline_replacement content (pe_old p) (x @ n @ y))"
    "\<not> pe_auto p \<Longrightarrow> x = [] \<and> y = []" "count_text (pe_old p) content \<noteq> 0"
    "\<not> everywhere \<Longrightarrow> count_text (pe_old p) content = Suc 0"
    "pe_content p = (if everywhere then replace_every else replace_once) (pe_old p) (pe_new p) content"
    "pe_replacements p = count_text (pe_old p) content"
proof -
  from assms obtain m where f: "find_edit content old new = Some m" and nz: "em_count m \<noteq> 0"
    by (auto simp: plan_edit_def split: option.splits if_splits)
  note found = find_edit_found[OF f]
  obtain n auto_chosen where n: "(if 1 < em_count m \<and> \<not> everywhere then disambiguate content req m else (m, False)) = (n, auto_chosen)"
    by fastforce
  from assms f nz n have p: "\<not> (1 < em_count n \<and> \<not> everywhere)" "em_old n \<noteq> em_new n" "pe_old p = em_old n" "pe_auto p = auto_chosen"
      "pe_new p = (if everywhere then em_new n else indent_multiline_replacement content (em_old n) (em_new n))"
      "pe_content p = (if everywhere then replace_every else replace_once) (pe_old p) (pe_new p) content"
      "pe_replacements p = (if everywhere then em_count n else 1)"
    by (auto simp: plan_edit_def Let_def split: if_splits)
  have d: "em_count n = count_text (em_old n) content \<and>
      (if auto_chosen then em_new n = replace_once (em_old m) (em_new m) (em_old n) \<and> \<not> everywhere else n = m)"
    using n found disambiguate_found[of content req m n auto_chosen] by (auto split: if_splits)
  have one: "em_count n = Suc 0" if "\<not> everywhere"
  proof (cases auto_chosen)
    case True
    with n p show ?thesis by (auto simp: disambiguate_def split: if_splits option.splits)
  next
    case False
    with d nz p(1) that show ?thesis by simp
  qed
  obtain x y where xy: "em_old n = x @ em_old m @ y" "em_new n = x @ em_new m @ y" "\<not> auto_chosen \<Longrightarrow> x = [] \<and> y = []"
  proof (cases auto_chosen)
    case True
    with d p(2) replace_once_changes[of "em_old m" "em_new m" "em_old n"] show thesis using that by metis
  qed (use d that in auto)
  show thesis
  proof (rule that[of "em_old m" "em_new m" x y])
    show "count_text (pe_old p) content \<noteq> 0" using one d nz p(3) by (cases everywhere) (auto split: if_splits)
  qed (use found xy p d one in \<open>auto split: if_splits\<close>)
qed

subsection \<open>Edits are local\<close>

text \<open>
  C15. An edit replaces what was found and nothing else. The file is pieces joined by a text, and afterwards the same
  pieces joined by its replacement; without \<open>replace_all\<close> there is one occurrence. The text is what was found, the
  replacement what is written for it, both within the same surroundings \<open>x\<close> and \<open>y\<close>, which are empty unless the request
  singled out one of several occurrences; these survive. What was found stands for the old text of the call
  and what is written for the new one: they are these texts where the old one occurs literally, and agree with them
  line by line up to white space at the ends, perhaps with escapes decoded, where it does not. At the end white space
  may be put before lines of the replacement, and only where what is replaced is within one line.
\<close>

theorem edits_are_local:
  assumes "plan_edit content old new everywhere req = Inr p"
  shows "\<exists>ps m n x y. content = join (pe_old p) ps \<and> pe_content p = join (pe_new p) ps \<and>
    length ps = Suc (pe_replacements p) \<and> 0 < pe_replacements p \<and> (\<not> everywhere \<longrightarrow> count_text (pe_old p) content = 1) \<and>
    pe_old p = x @ m @ y \<and> indented_as (x @ n @ y) (pe_new p) \<and> (everywhere \<or> newline \<in> set (pe_old p) \<longrightarrow> pe_new p = x @ n @ y) \<and>
    (\<not> pe_auto p \<longrightarrow> x = [] \<and> y = []) \<and> stands_for old m \<and> stands_for new n \<and> (count_text old content \<noteq> 0 \<longrightarrow> m = old \<and> n = new)"
proof -
  from plan_edit_match[OF assms] obtain m n x y where m: "stands_for old m" "stands_for new n"
      "count_text old content \<noteq> 0 \<Longrightarrow> m = old \<and> n = new" "pe_old p = x @ m @ y"
    and new: "pe_new p = (if everywhere then x @ n @ y else indent_multiline_replacement content (pe_old p) (x @ n @ y))"
    and ctx: "\<not> pe_auto p \<Longrightarrow> x = [] \<and> y = []"
    and c: "count_text (pe_old p) content \<noteq> 0" "\<not> everywhere \<Longrightarrow> count_text (pe_old p) content = Suc 0"
      "pe_content p = (if everywhere then replace_every else replace_once) (pe_old p) (pe_new p) content"
      "pe_replacements p = count_text (pe_old p) content" by metis
  obtain ps where ps: "content = join (pe_old p) ps" "pe_content p = join (pe_new p) ps" "length ps = Suc (pe_replacements p)"
  proof (cases everywhere)
    case True
    with pieces[of "pe_old p" content] c that show ?thesis by metis
  next
    case False
    with once_among_one[of "pe_old p" content "pe_new p"] c(2-4) that show ?thesis by (metis One_nat_def length_Cons list.size(3))
  qed
  have "indented_as (x @ n @ y) (pe_new p)" "everywhere \<or> newline \<in> set (pe_old p) \<longrightarrow> pe_new p = x @ n @ y"
    using multiline_indented[where new = "x @ n @ y" and content = content and old = "pe_old p"] indented_as_refl new by auto
  moreover have "0 < pe_replacements p" "\<not> everywhere \<longrightarrow> count_text (pe_old p) content = 1" "\<not> pe_auto p \<longrightarrow> x = [] \<and> y = []"
      "count_text old content \<noteq> 0 \<longrightarrow> m = old \<and> n = new"
    using c(1,2,4) ctx m(3) by simp_all
  ultimately show ?thesis using ps m(1,2,4) by blast
qed

theorem edits_are_local_witness:
  "\<exists>p. plan_edit ''ab  '' ''ab'' ''cd'' False [] = Inr p \<and> pe_content p = ''cd  '' \<and>
     (\<exists>ps. ''ab  '' = join (pe_old p) ps \<and> pe_content p = join (pe_new p) ps)"
proof -
  have e: "plan_edit ''ab  '' ''ab'' ''cd'' False [] = Inr \<lparr>pe_old = ''ab'', pe_new = ''cd'', pe_content = ''cd  '',
      pe_replacements = 1, pe_unescaped = False, pe_auto = False\<rparr>" (is "_ = Inr ?p")
    by code_simp
  from edits_are_local[OF this] show ?thesis using e by auto
qed

text \<open>
  When the white space of the old text had to be repaired, escapes in the new text are decoded although the
  old text has none: the backslash-n inside the call becomes a line break.
\<close>

lemma escapes_decoded_without_need:
  "map_sum id pe_content (plan_edit (''a  '' @ newline # ''b'') (''a'' @ newline # ''b'') (''p('' @ backslash # ''n)'') False []) =
     Inr (''p('' @ newline # '')'')"
  by code_simp

text \<open>Blank text that matches the one blank line has no characters, and so occurs everywhere.\<close>

lemma blank_match_spreads:
  "map_sum id pe_content (plan_edit (''ab'' @ newline # newline # ''c'') ''  '' ''X'' True []) = Inr (''XaXbX'' @ newline # ''X'' @ newline # ''XcX'')"
  by code_simp

end
