(* ===== verification/PhaseContracts.thy ===== *)
theory PhaseContracts
  imports Regex Json Paths
begin

text \<open>
  The phase contracts of \<open>runtime/phase_contracts.py\<close> and the gates for advanced capabilities of
  \<open>runtime/advanced_capabilities.py\<close>: which tools and which commands a phase of the work allows. Sets of
  names are lists; \<open>show\<close> is \<open>str\<close> of an argument that is no text.
\<close>

subsection \<open>Arguments\<close>

text \<open>\<open>str(arguments.get(k) or "")\<close>.\<close>

definition arg_text :: "(json \<Rightarrow> string) \<Rightarrow> dict \<Rightarrow> string \<Rightarrow> string" where
  "arg_text show d k = (case dict_get d k of
     None \<Rightarrow> [] | Some (JStr s) \<Rightarrow> s | Some j \<Rightarrow> if truthy j then show j else [])"

text \<open>A word of the pattern, between boundaries.\<close>

definition word :: "rx \<Rightarrow> rx" where
  "word r = cats [boundary, r, boundary]"

definition gap :: rx where
  "gap = plus space"

subsection \<open>Advanced capabilities\<close>

datatype advanced_capability = DOCUMENTATION_RETRIEVAL | PACKAGE_INSTALLATION | DOCKER | DATABASES | PRD_WORKFLOWS
  | LARGER_PROJECT_AUTONOMY

fun capability_value :: "advanced_capability \<Rightarrow> string" where
  "capability_value DOCUMENTATION_RETRIEVAL = ''documentation_retrieval''"
| "capability_value PACKAGE_INSTALLATION = ''package_installation''"
| "capability_value DOCKER = ''docker''"
| "capability_value DATABASES = ''databases''"
| "capability_value PRD_WORKFLOWS = ''prd_workflows''"
| "capability_value LARGER_PROJECT_AUTONOMY = ''larger_project_autonomy''"

definition all_capabilities :: "advanced_capability list" where
  "all_capabilities = [DOCUMENTATION_RETRIEVAL, PACKAGE_INSTALLATION, DOCKER, DATABASES, PRD_WORKFLOWS, LARGER_PROJECT_AUTONOMY]"

text \<open>Of a contract: the order, the tools and the commands; the rest is text for people.\<close>

record capability_contract =
  cc_order :: nat
  cc_tools :: "string list"
  cc_patterns :: "rx list"

definition docker_patterns :: "rx list" where
  "docker_patterns = [word (lit ''docker''), word (lit ''docker-compose''), word (cats [lit ''docker'', gap, lit ''compose''])]"

fun capability_contract_of :: "advanced_capability \<Rightarrow> capability_contract" where
  "capability_contract_of DOCUMENTATION_RETRIEVAL =
     \<lparr>cc_order = 1, cc_tools = [''ingest_docs'', ''search_docs'', ''ask_docs'', ''summarize_docs''], cc_patterns = []\<rparr>"
| "capability_contract_of PACKAGE_INSTALLATION =
     \<lparr>cc_order = 2, cc_tools = [], cc_patterns = [
        word (cats [ors [lit ''pip'', lit ''pip3'', cats [lit ''python'', gap, lit ''-m'', gap, lit ''pip'']], gap, lit ''install'']),
        word (cats [words [''npm'', ''pnpm'', ''yarn''], gap, words [''install'', ''add'']]),
        word (cats [lit ''poetry'', gap, lit ''add'']),
        word (cats [lit ''uv'', gap, lit ''add'']),
        word (cats [lit ''cargo'', gap, lit ''add'']),
        word (cats [lit ''go'', gap, lit ''get'']),
        word (cats [lit ''dotnet'', gap, lit ''add'', gap, lit ''package''])]\<rparr>"
| "capability_contract_of DOCKER = \<lparr>cc_order = 3, cc_tools = [], cc_patterns = docker_patterns\<rparr>"
| "capability_contract_of DATABASES =
     \<lparr>cc_order = 4, cc_tools = [], cc_patterns = [
        word (lit ''psql''), word (lit ''mysql''), word (lit ''sqlite3''), word (lit ''alembic''),
        word (cats [lit ''prisma'', gap, lit ''migrate'']), word (cats [lit ''manage.py'', gap, lit ''migrate''])]\<rparr>"
| "capability_contract_of PRD_WORKFLOWS = \<lparr>cc_order = 5, cc_tools = [], cc_patterns = []\<rparr>"
| "capability_contract_of LARGER_PROJECT_AUTONOMY = \<lparr>cc_order = 6, cc_tools = [], cc_patterns = []\<rparr>"

definition normalize_advanced_capabilities :: "string list \<Rightarrow> advanced_capability list" where
  "normalize_advanced_capabilities values = filter (\<lambda>c. capability_value c \<in> set values) all_capabilities"

definition required_capability :: "(json \<Rightarrow> string) \<Rightarrow> string \<Rightarrow> dict \<Rightarrow> advanced_capability option" where
  "required_capability show requested arguments =
     (case find (\<lambda>c. requested \<in> set (cc_tools (capability_contract_of c))) all_capabilities of
        Some c \<Rightarrow> Some c
      | None \<Rightarrow>
          if requested \<notin> {''run_command'', ''test.run''} then None
          else
            let lowered = lower (arg_text show arguments ''command'')
            in find (\<lambda>c. list_ex (\<lambda>r. found r lowered) (cc_patterns (capability_contract_of c))) all_capabilities)"

definition advanced_capability_denial ::
  "(json \<Rightarrow> string) \<Rightarrow> string \<Rightarrow> dict \<Rightarrow> string list \<Rightarrow> (advanced_capability \<times> string) option" where
  "advanced_capability_denial show requested arguments enabled = (case required_capability show requested arguments of
     None \<Rightarrow> None
   | Some c \<Rightarrow>
       if c \<in> set (normalize_advanced_capabilities enabled) then None
       else Some (c, ''Advanced capability '' @ capability_value c @
         '' is disabled until the core coding benchmark passes inspect->plan->retrieve->patch->test->verify->checkpoint. Enable order '' @
         nat_str (cc_order (capability_contract_of c)) @ '' only through the readiness gate.''))"

subsection \<open>Phases and their contracts\<close>

datatype execution_phase = EXPLORE | PLAN | AUTHOR | VERIFY | REPAIR | DEPLOY | COMPLETE

fun phase_value :: "execution_phase \<Rightarrow> string" where
  "phase_value EXPLORE = ''EXPLORE''"
| "phase_value PLAN = ''PLAN''"
| "phase_value AUTHOR = ''AUTHOR''"
| "phase_value VERIFY = ''VERIFY''"
| "phase_value REPAIR = ''REPAIR''"
| "phase_value DEPLOY = ''DEPLOY''"
| "phase_value COMPLETE = ''COMPLETE''"

definition all_phases :: "execution_phase list" where
  "all_phases = [EXPLORE, PLAN, AUTHOR, VERIFY, REPAIR, DEPLOY, COMPLETE]"

definition read_tools :: "string list" where
  "read_tools = [''project.inspect'', ''code.search'', ''file.read'', ''git.inspect'', ''list_files'', ''read_file'', ''file_info'',
     ''find_file'', ''grep_files'', ''search_index'', ''web_search'', ''fetch_url'', ''ingest_docs'', ''search_docs'', ''ask_docs'',
     ''summarize_docs'', ''git_status'', ''git_status_full'', ''git_diff'', ''git_diff_staged'', ''git_diff_file'', ''git_branch'',
     ''git_branches'', ''git_remote'', ''git_log'', ''git_unpushed_commits'', ''git_stash_list'', ''ask_user'']"

definition file_mutation_tools :: "string list" where
  "file_mutation_tools = [''file.patch'', ''edit_file'', ''append_file'', ''write_file'', ''move_file'', ''delete_file'',
     ''request_scope_expansion'', ''scope.expand'']"

definition git_mutation_tools :: "string list" where
  "git_mutation_tools = [''git.checkpoint'', ''git_add'', ''git_add_all'', ''git_init'', ''git_commit'', ''git_create_branch'',
     ''git_checkout'', ''git_restore'', ''git_stash_push'', ''git_stash_pop'', ''git_fetch'', ''git_pull'', ''git_push'']"

definition node_script :: "string \<Rightarrow> string list \<Rightarrow> rx" where
  "node_script tool scripts = word (cats [lit tool, gap, ors [lit ''test'', cats [lit ''run'', gap, words scripts]]])"

definition verify_command_patterns :: "rx list" where
  "verify_command_patterns = (let scripts = [''test'', ''lint'', ''typecheck'', ''build''] in [
     word (lit ''pytest''), word (lit ''unittest''), word (lit ''tox''),
     node_script ''npm'' scripts, node_script ''pnpm'' scripts, node_script ''yarn'' scripts,
     word (cats [lit ''ruff'', gap, lit ''check'']), word (lit ''eslint''), word (lit ''mypy''), word (lit ''pyright''), word (lit ''tsc''),
     word (cats [lit ''python'', gap, lit ''-m'', gap, words [''pytest'', ''unittest'', ''compileall'', ''mypy'']]),
     word (cats [lit ''go'', gap, lit ''test'']),
     word (cats [lit ''cargo'', gap, words [''test'', ''check'', ''build'']]),
     word (cats [lit ''dotnet'', gap, words [''test'', ''build'']]),
     word (cats [lit ''git'', gap, words [''status'', ''diff'', ''log'', ''branch'', ''remote'']]),
     word (lit ''curl''), word (lit ''invoke-webrequest''), word (lit ''invoke-restmethod'')])"

definition author_check_command_patterns :: "rx list" where
  "author_check_command_patterns = (let scripts = [''test'', ''lint'', ''typecheck''] in [
     word (lit ''pytest''), word (cats [lit ''ruff'', gap, lit ''check'']), word (lit ''mypy''), word (lit ''pyright''),
     word (cats [lit ''tsc'', gap, lit ''--noEmit'']),
     word (cats [lit ''python'', gap, lit ''-m'', gap, words [''pytest'', ''compileall'', ''mypy'']]),
     cats [boundary, words [''python'', ''python.exe'', ''py''], opt (One (\<lambda>c. c = CHR 0x22 \<or> c = CHR 0x27)), gap, lit ''-c'', boundary],
     node_script ''npm'' scripts, node_script ''pnpm'' scripts, node_script ''yarn'' scripts,
     word (cats [lit ''go'', gap, lit ''test'']),
     word (cats [lit ''cargo'', gap, words [''test'', ''check'']]),
     word (cats [lit ''dotnet'', gap, lit ''test''])])"

definition deploy_command_patterns :: "rx list" where
  "deploy_command_patterns = docker_patterns @ [word (lit ''curl''), word (lit ''invoke-webrequest''), word (lit ''invoke-restmethod'')]"

definition dangerous_command_patterns :: "rx list" where
  "dangerous_command_patterns = [
     word (cats [lit ''rm'', gap, lit ''-rf'']),
     cats [boundary, lit ''remove-item'', boundary, Star dot, boundary, lit ''-recurse'', boundary],
     word (cats [lit ''del'', gap, lit ''/'', one_of ''sq'']),
     word (cats [lit ''rmdir'', gap, lit ''/'', one_of ''sq'']),
     word (cats [lit ''drop'', gap, lit ''database'']),
     word (cats [lit ''truncate'', gap, lit ''table'']),
     word (lit ''kubectl''), word (lit ''terraform''), word (lit ''aws''), word (lit ''gcloud''), word (lit ''az''),
     word (cats [lit ''git'', gap, words [''push'', ''pull'', ''fetch'', ''checkout'', ''restore'', ''reset'', ''clean'']])]"

record phase_contract =
  pc_tools :: "string list"
  pc_patterns :: "rx list"
  pc_no_mutation :: bool
  pc_reason :: string

definition patching_tools :: "string list" where
  "patching_tools = [''file.patch'', ''scope.expand'', ''request_scope_expansion'', ''test.run'', ''edit_file'', ''append_file'',
     ''write_file'', ''move_file'', ''run_command'']"

fun contract_of :: "execution_phase \<Rightarrow> phase_contract" where
  "contract_of EXPLORE = \<lparr>pc_tools = read_tools, pc_patterns = [], pc_no_mutation = True,
     pc_reason = ''EXPLORE is read-only: inspect files, code, Git, docs, and configuration.''\<rparr>"
| "contract_of PLAN = \<lparr>pc_tools = read_tools, pc_patterns = [], pc_no_mutation = True,
     pc_reason = ''PLAN is read-only: create and analyze the plan without changing the project.''\<rparr>"
| "contract_of AUTHOR = \<lparr>pc_tools = read_tools @ patching_tools, pc_patterns = author_check_command_patterns, pc_no_mutation = False,
     pc_reason = ''AUTHOR permits file patches and narrow code checks only.''\<rparr>"
| "contract_of VERIFY = \<lparr>pc_tools = read_tools @ [''test.run'', ''git.checkpoint'', ''run_command''],
     pc_patterns = verify_command_patterns, pc_no_mutation = True,
     pc_reason = ''VERIFY permits tests, lint, type checks, builds, diffs, and health checks; source edits are blocked.''\<rparr>"
| "contract_of REPAIR = \<lparr>pc_tools = read_tools @ patching_tools,
     pc_patterns = author_check_command_patterns @ verify_command_patterns, pc_no_mutation = False,
     pc_reason = ''REPAIR permits targeted edits and verification based on failure evidence.''\<rparr>"
| "contract_of DEPLOY = \<lparr>pc_tools = read_tools @ [''test.run'', ''git.checkpoint'', ''run_command''],
     pc_patterns = deploy_command_patterns @ verify_command_patterns, pc_no_mutation = False,
     pc_reason = ''DEPLOY permits local Docker operations, service health checks, and smoke tests.''\<rparr>"
| "contract_of COMPLETE = \<lparr>pc_tools = [], pc_patterns = [], pc_no_mutation = True,
     pc_reason = ''COMPLETE produces the final report from registered runtime evidence; tools are closed.''\<rparr>"

definition phase_aliases :: "(string \<times> execution_phase) list" where
  "phase_aliases = [(''initialized'', EXPLORE), (''created'', EXPLORE), (''running'', AUTHOR), (''planned'', PLAN),
     (''plan_contract_saved'', PLAN), (''approval'', PLAN), (''executing_plan'', AUTHOR), (''step_completed'', VERIFY),
     (''replanned'', PLAN), (''blocked'', REPAIR), (''failed'', REPAIR), (''cancelled'', COMPLETE), (''timed_out'', COMPLETE),
     (''completed'', COMPLETE)]"

text \<open>\<open>upper\<close>, as far as it can make one of the names.\<close>

definition normalize_phase :: "string \<Rightarrow> execution_phase" where
  "normalize_phase value =
     (let raw = strip value
      in case find (\<lambda>p. phase_value p = upper_ascii raw) all_phases of
           Some p \<Rightarrow> p
         | None \<Rightarrow> (case map_of phase_aliases (lower raw) of Some p \<Rightarrow> p | None \<Rightarrow> AUTHOR))"

definition normalize_risk :: "string option \<Rightarrow> string" where
  "normalize_risk value =
     (let risk = lower (strip (case value of None \<Rightarrow> ''medium'' | Some v \<Rightarrow> if v = [] then ''medium'' else v))
      in if risk \<in> {''low'', ''medium'', ''high''} then risk else ''medium'')"

subsection \<open>The policy\<close>

definition matches_tool :: "string \<Rightarrow> string list \<Rightarrow> bool" where
  "matches_tool name allowed \<longleftrightarrow> name \<in> set allowed \<or>
     list_ex (\<lambda>p. p \<noteq> [] \<and> last p = CHR ''*'' \<and> starts_with name (butlast p)) allowed"

definition phase_allowed_tools ::
  "(json \<Rightarrow> string) \<Rightarrow> execution_phase \<Rightarrow> string list option \<Rightarrow> string list \<Rightarrow> string list" where
  "phase_allowed_tools show phase available enabled =
     (let allowed = filter (\<lambda>t. advanced_capability_denial show t [] enabled = None) (pc_tools (contract_of phase))
      in sorted_set (case available of None \<Rightarrow> allowed | Some names \<Rightarrow> filter (\<lambda>t. matches_tool t names) allowed))"

definition evaluate_command :: "string \<Rightarrow> execution_phase \<Rightarrow> string \<Rightarrow> string" where
  "evaluate_command command phase risk =
     (let lowered = lower (strip command); patterns = pc_patterns (contract_of phase)
      in if lowered = [] then ''Missing command.''
         else if list_ex (\<lambda>r. found r lowered) dangerous_command_patterns
           then ''Command is outside the safe command set for '' @ phase_value phase @ ''.''
         else if patterns = [] then ''run_command is not available for commands in '' @ phase_value phase @ ''.''
         else if \<not> list_ex (\<lambda>r. found r lowered) patterns
           then ''Command does not match the allowed command set for '' @ phase_value phase @ ''.''
         else if risk = ''high'' \<and> phase \<notin> {VERIFY, DEPLOY}
           then ''High-risk tasks may only run commands in VERIFY or DEPLOY phases.''
         else [])"

record policy_decision =
  pd_allowed :: bool
  pd_tool :: string
  pd_phase :: execution_phase
  pd_tools :: "string list"
  pd_reason :: string

definition denial_payload :: "policy_decision \<Rightarrow> dict" where
  "denial_payload d = dict_of [(''requested_tool'', JStr (pd_tool d)), (''current_phase'', JStr (phase_value (pd_phase d))),
     (''allowed_tools'', strs (pd_tools d)), (''reason'', JStr (pd_reason d)), (''phase_denied'', JBool True)]"

text \<open>The reason of a denial, or none.\<close>

definition policy_denial ::
  "(json \<Rightarrow> string) \<Rightarrow> string \<Rightarrow> dict \<Rightarrow> execution_phase \<Rightarrow> string option \<Rightarrow> string list \<Rightarrow> string option" where
  "policy_denial show requested arguments phase task_risk enabled =
     (let risk = normalize_risk task_risk;
          command_denial = (if requested = ''run_command'' then evaluate_command (arg_text show arguments ''command'') phase risk else [])
      in if \<not> matches_tool requested (pc_tools (contract_of phase))
         then Some (requested @ '' is not permitted in '' @ phase_value phase @ ''. '' @ pc_reason (contract_of phase))
         else case advanced_capability_denial show requested arguments enabled of
           Some (_, reason) \<Rightarrow> Some reason
         | None \<Rightarrow>
             if command_denial \<noteq> [] then Some command_denial
             else if risk = ''high'' \<and> requested \<in> {''file.patch'', ''edit_file'', ''append_file'', ''write_file''} \<and> phase \<noteq> REPAIR
               then Some ''High-risk file edits must run through the REPAIR phase.''
             else if risk = ''high'' \<and> requested \<in> {''move_file'', ''delete_file''} \<union> set git_mutation_tools
               then Some ''High-risk tasks cannot perform destructive file or Git mutation tools.''
             else if starts_with requested ''mcp__'' \<and> phase \<in> {EXPLORE, PLAN, VERIFY, COMPLETE}
               then Some ''External MCP calls are not trusted as read-only by the phase contract.''
             else None)"

definition evaluate_phase_tool_policy ::
  "(json \<Rightarrow> string) \<Rightarrow> string \<Rightarrow> dict \<Rightarrow> execution_phase \<Rightarrow> string option \<Rightarrow> string list option \<Rightarrow> string list \<Rightarrow> policy_decision" where
  "evaluate_phase_tool_policy show requested arguments phase task_risk available enabled =
     (let denial = policy_denial show requested arguments phase task_risk enabled
      in \<lparr>pd_allowed = (denial = None), pd_tool = requested, pd_phase = phase,
          pd_tools = phase_allowed_tools show phase available enabled,
          pd_reason = (case denial of None \<Rightarrow> [] | Some reason \<Rightarrow> reason)\<rparr>)"

definition verifying_evidence :: "string list" where
  "verifying_evidence = [''test_passed'', ''typecheck_passed'', ''lint_passed'', ''build_passed'', ''service_healthy'',
     ''migration_passed'', ''smoke_test_passed'', ''git_diff_reviewed'']"

definition phase_for_step :: "string list \<Rightarrow> string list \<Rightarrow> bool \<Rightarrow> string option \<Rightarrow> execution_phase" where
  "phase_for_step tools evidence approval_required risk =
     (if set tools \<inter> set file_mutation_tools \<noteq> {} then (if normalize_risk risk = ''high'' then REPAIR else AUTHOR)
      else if set evidence \<inter> set verifying_evidence \<noteq> {} then VERIFY
      else if approval_required then PLAN
      else EXPLORE)"

end
