(* ===== verification/ToolScope.thy ===== *)
theory ToolScope
  imports EditMatching PhaseContracts CommandGate RepairLoop
begin

text \<open>
  The desk the model's tools work at: the settings of \<open>AgentToolRegistry\<close> in \<open>tools/agent_tools.py\<close>, what
  a path of the model names (\<open>tools/path_resolve.py\<close>), which files a task may read and write, and the
  record of a dry run (\<open>safety/dry_run.py\<close>).
\<close>

subsection \<open>Results\<close>

record tool_result =
  tl_ok :: bool
  tl_message :: string
  tl_data :: dict

definition tool_result :: "bool \<Rightarrow> string \<Rightarrow> dict \<Rightarrow> tool_result" where
  "tool_result ok message data = \<lparr>tl_ok = ok, tl_message = message, tl_data = dict_of data\<rparr>"

text \<open>Length of a text in UTF-8.\<close>

definition utf8_length :: "string \<Rightarrow> nat" where
  "utf8_length s = sum_list (map (\<lambda>c. if (of_char c :: nat) < 128 then 1 else 2) s)"

subsection \<open>State\<close>

record planned_mutation =
  pn_action :: string
  pn_path :: string
  pn_detail :: string
  pn_size :: nat

text \<open>Sets of paths and names are lists without duplicates; phases are kept normalized.\<close>

record registry =
  rg_read_only :: bool
  rg_dry :: bool
  rg_write :: "string list option"
  rg_read :: "string list option"
  rg_request :: string
  rg_prefix :: string
  rg_tools :: "string list option"
  rg_phase :: "execution_phase option"
  rg_risk :: string
  rg_capabilities :: "string list"
  rg_logical :: bool
  rg_aliases :: "(string \<times> string) list"

record desk =
  ds_registry :: registry
  ds_gate :: gate
  ds_disk :: disk
  ds_planned :: "planned_mutation list"

type_synonym 'a desk_eff = "(desk, 'a) eff"

definition on_gate :: "'a gate_eff \<Rightarrow> 'a desk_eff" where
  "on_gate m s = (case m (ds_gate s) of (r, g) \<Rightarrow> (r, s\<lparr>ds_gate := g\<rparr>))"

definition on_disk :: "'a tx_eff \<Rightarrow> 'a desk_eff" where
  "on_disk m s = (case m (ds_disk s) of (r, d) \<Rightarrow> (r, s\<lparr>ds_disk := d\<rparr>))"

text \<open>
  What the registry is built with, and the world. \<open>walk\<close> lists the files below the root in the order of
  \<open>os.walk\<close>, \<open>indexed\<close> those of the indexer; \<open>check\<close> says what is wrong with a text in a file with some suffix; \<open>peek\<close> is the text under the
  root joined with a path that nobody validated; \<open>diff\<close>, \<open>changes\<close>, \<open>hint\<close> and \<open>candidates\<close> feed messages
  and the saved patch; \<open>aftermath\<close> is what the commands that were started have done to the files.
\<close>

record tool_env =
  te_sandbox :: sandbox
  te_root :: string
  te_manager :: manager
  te_runner :: command_runner
  te_world :: "nodes \<Rightarrow> project_world"
  te_aftermath :: "gate_event list \<Rightarrow> nodes \<Rightarrow> nodes"
  te_walk :: "nodes \<Rightarrow> string list"
  te_indexed :: "nodes \<Rightarrow> string list"
  te_check :: "string \<Rightarrow> string \<Rightarrow> string option"
  te_peek :: "nodes \<Rightarrow> string \<Rightarrow> string option"
  te_loads :: "string \<Rightarrow> json option"
  te_diff :: "string \<Rightarrow> string \<Rightarrow> string \<Rightarrow> string \<Rightarrow> string"
  te_changes :: "string \<Rightarrow> string \<Rightarrow> nat \<times> nat"
  te_hint :: "string \<Rightarrow> string \<Rightarrow> string"
  te_excerpt :: "string \<Rightarrow> string \<Rightarrow> string"
  te_candidates :: "nodes \<Rightarrow> string \<Rightarrow> string list"
  te_show :: "json \<Rightarrow> string"
  te_context_phase :: "gate \<Rightarrow> string option"
  te_expand :: "(string \<Rightarrow> string \<Rightarrow> tool_result desk_eff) option"
  te_elsewhere :: "string \<Rightarrow> dict \<Rightarrow> tool_result desk_eff"

subsection \<open>Paths of the model\<close>

definition quote_marks :: string where
  "quote_marks = ''`'' @ [CHR 0x22, CHR 0x27]"

fun drop_here :: "string \<Rightarrow> string" where
  "drop_here (a # b # s) = (if a = CHR ''.'' \<and> b = CHR ''/'' then drop_here s else a # b # s)"
| "drop_here s = s"

definition normalize_workspace_path :: "string \<Rightarrow> string" where
  "normalize_workspace_path p =
     strip (drop_here (replace_char backslash (CHR ''/'') (strip (rstrip_of quote_marks (lstrip_of quote_marks (strip p))))))"

definition normalized_or :: "string \<Rightarrow> string" where
  "normalized_or p = (let q = normalize_workspace_path p in if q = [] then p else q)"

text \<open>\<open>PurePosixPath(p).name\<close> and \<open>.suffix\<close>, and \<open>relative_to(root).as_posix()\<close>.\<close>

definition base_name :: "string \<Rightarrow> string" where
  "base_name p = (let ps = posix_parts p in if ps = [] then [] else last ps)"

definition name_suffix :: "string \<Rightarrow> string" where
  "name_suffix name =
     (let after = takeWhile (\<lambda>c. c \<noteq> CHR ''.'') (rev name); before = drop (length after) (rev name)
      in if before = [] \<or> length before = 1 \<or> after = [] then [] else CHR ''.'' # rev after)"

definition as_posix :: "path \<Rightarrow> string" where
  "as_posix t = (if t = [] then ''.'' else join ''/'' t)"

subsection \<open>Scopes\<close>

text \<open>A path is one of the items or lies below one.\<close>

definition in_scope :: "string list \<Rightarrow> string \<Rightarrow> bool" where
  "in_scope items p \<longleftrightarrow> list_ex (\<lambda>item. p = item \<or> starts_with p (rstrip_of ''/'' item @ ''/'')) items"

text \<open>The sandbox raises a \<open>SecurityError\<close> or returns a path inside.\<close>

definition inside_text :: "tool_env \<Rightarrow> string \<Rightarrow> string" where
  "inside_text env p = (let clean = normalized_or p in case te_sandbox env clean of Inl _ \<Rightarrow> lower clean | Inr t \<Rightarrow> lower (as_posix t))"

definition inside_allowed_read_scope :: "tool_env \<Rightarrow> registry \<Rightarrow> string \<Rightarrow> bool" where
  "inside_allowed_read_scope env rg p = (case rg_read rg of None \<Rightarrow> True | Some items \<Rightarrow> in_scope items (inside_text env p))"

definition scoped_write_path :: "registry \<Rightarrow> string \<Rightarrow> string" where
  "scoped_write_path rg p =
     (let n = normalized_or p
      in case rg_write rg of
           None \<Rightarrow> n
         | Some items \<Rightarrow>
             if in_scope items (lower n) then n
             else if length items = 1 \<and> (case rg_read rg of None \<Rightarrow> False | Some rs \<Rightarrow> set rs = set items)
               then rstrip_of ''/'' (hd items) @ ''/'' @ lstrip_of ''/'' n
             else if length items = 1 then
               (let target = rstrip_of ''/'' (hd items); short = lstrip_of ''/'' (lower n)
                in if target = short \<or> ends_with target (''/'' @ short) then target else n)
             else n)"

definition resolved_read_path :: "tool_env \<Rightarrow> registry \<Rightarrow> nodes \<Rightarrow> string \<Rightarrow> string" where
  "resolved_read_path env rg ns p =
     (let n = normalized_or p
      in case te_sandbox env n of
           Inl _ \<Rightarrow> n
         | Inr t \<Rightarrow>
             if present ns t then n
             else
               let resolved = (case map_of (rg_aliases rg) (lower n) of None \<Rightarrow> [] | Some r \<Rightarrow> r)
               in if resolved = [] \<or> \<not> inside_allowed_read_scope env rg resolved then n
                  else case te_sandbox env resolved of
                    Inl _ \<Rightarrow> n | Inr u \<Rightarrow> if is_file ns u then resolved else n)"

definition basename_scopes :: "string list \<Rightarrow> string \<Rightarrow> string list" where
  "basename_scopes items name =
     filter (\<lambda>item. CHR ''/'' \<notin> set (rstrip_of ''/'' (lstrip_of ''/'' item)) \<and> lower (base_name item) = name) items"

definition allowed_by_unique_basename_scope :: "tool_env \<Rightarrow> registry \<Rightarrow> nodes \<Rightarrow> string \<Rightarrow> string list \<Rightarrow> bool" where
  "allowed_by_unique_basename_scope env rg ns normalized items =
     (let name = lower (base_name normalized)
      in if name = [] \<or> basename_scopes items name = [] then False
         else
           let matched = uniq (filter (\<lambda>r. base_name r = name \<and> inside_allowed_read_scope env rg r)
                 (map (\<lambda>f. lower (normalize_workspace_path f)) (te_walk env ns)))
           in length matched = 1 \<and> lower normalized \<in> set matched)"

definition outside_allowed_scope :: "tool_env \<Rightarrow> registry \<Rightarrow> nodes \<Rightarrow> string \<Rightarrow> tool_result option" where
  "outside_allowed_scope env rg ns p = (case rg_write rg of
     None \<Rightarrow> None
   | Some items \<Rightarrow>
       (let normalized = inside_text env p
        in if in_scope items normalized then None
           else if allowed_by_unique_basename_scope env rg ns normalized items then None
           else Some (tool_result False
             (''Write rejected: '' @ p @ '' is outside this task's locked write scope. This request allowed changes only to '' @
              join '', '' (sorted_set items) @ ''. No file was modified.'')
             [(''scoped_read_only'', JBool True), (''out_of_contract_write'', JBool True), (''filepath'', JStr p),
              (''allowed'', strs (sorted_set items))])))"

definition scoped_candidates :: "tool_env \<Rightarrow> registry \<Rightarrow> string list \<Rightarrow> string list" where
  "scoped_candidates env rg cs = filter (inside_allowed_read_scope env rg) cs"

subsection \<open>The same file under another root\<close>

definition frontend_roots :: "string list" where
  "frontend_roots = [''client/'', ''frontend/'', ''app/'', ''web/'', ''packages/'', ''src/'']"

text \<open>The last file of a spelling wins in the dictionary of lower-case names.\<close>

definition spelled :: "string list \<Rightarrow> string \<Rightarrow> string list" where
  "spelled files name = (let same = filter (\<lambda>f. lower f = name) files in if same = [] then [] else [last same])"

definition strong_path_candidates :: "string list \<Rightarrow> string \<Rightarrow> string list" where
  "strong_path_candidates files requested =
     (let requested = normalize_workspace_path requested; wanted = lower requested
      in if requested = [] then []
         else take 5 (uniq (spelled files wanted @ filter (\<lambda>f. ends_with (lower f) (''/'' @ wanted)) files @
           concat (map (\<lambda>r. spelled files (lower (r @ requested))) frontend_roots))))"

subsection \<open>Settings\<close>

definition set_registry :: "(registry \<Rightarrow> registry) \<Rightarrow> unit desk_eff" where
  "set_registry f = modify (\<lambda>s. s\<lparr>ds_registry := f (ds_registry s)\<rparr>)"

definition set_allowed_write_paths :: "string list option \<Rightarrow> unit desk_eff" where
  "set_allowed_write_paths paths = set_registry (\<lambda>rg. rg\<lparr>rg_write :=
     map_option (\<lambda>ps. uniq (map (\<lambda>p. lower (normalize_workspace_path p)) (filter (\<lambda>p. p \<noteq> []) ps))) paths\<rparr>)"

definition set_allowed_read_paths :: "string list option \<Rightarrow> unit desk_eff" where
  "set_allowed_read_paths paths = set_registry (\<lambda>rg. rg\<lparr>rg_read :=
     map_option (\<lambda>ps. uniq (map (\<lambda>p. lower (normalize_workspace_path p)) (filter (\<lambda>p. normalize_workspace_path p \<noteq> []) ps))) paths\<rparr>)"

definition set_phase :: "string \<Rightarrow> string option \<Rightarrow> unit desk_eff" where
  "set_phase phase risk = set_registry (\<lambda>rg. rg\<lparr>rg_phase := Some (normalize_phase phase),
     rg_risk := (case risk of None \<Rightarrow> rg_risk rg | Some r \<Rightarrow> if r = [] then ''medium'' else r)\<rparr>)"

definition clear_phase :: "unit desk_eff" where
  "clear_phase = set_registry (\<lambda>rg. rg\<lparr>rg_phase := None, rg_risk := ''medium''\<rparr>)"

definition set_enabled_advanced_capabilities :: "string list \<Rightarrow> unit desk_eff" where
  "set_enabled_advanced_capabilities names =
     set_registry (\<lambda>rg. rg\<lparr>rg_capabilities := map capability_value (normalize_advanced_capabilities names)\<rparr>)"

subsection \<open>Dry runs and refusals\<close>

definition record_planned :: "string \<Rightarrow> string \<Rightarrow> string \<Rightarrow> nat \<Rightarrow> unit desk_eff" where
  "record_planned action p detail bytes = modify (\<lambda>s. s\<lparr>ds_planned := ds_planned s @
     [\<lparr>pn_action = action, pn_path = p, pn_detail = detail, pn_size = bytes\<rparr>]\<rparr>)"

definition dry_run_summary :: "planned_mutation list \<Rightarrow> string" where
  "dry_run_summary ps =
     (if ps = [] then ''Dry run complete: the agent planned no file changes.''
      else join [newline] ((''Dry run complete: '' @ nat_str (length ps) @ '' file change(s) planned, none applied.'') #
        map (\<lambda>p. ''  would '' @ pn_action p @ '' '' @ pn_path p) ps))"

definition planned :: "string \<Rightarrow> string \<Rightarrow> string \<Rightarrow> nat \<Rightarrow> tool_result desk_eff" where
  "planned action p detail bytes =
     seq (record_planned action p detail bytes) (\<lambda>_.
     ret (tool_result True (''[dry run] Would '' @ action @ '' '' @ p @ ''. Nothing was written. Continue as though this succeeded.'')
       [(''dry_run'', JBool True), (''planned_action'', JStr action), (''filepath'', JStr p), (''resolved_filepath'', JStr p),
        (''detail'', JStr detail), (''size_bytes'', JInt (int bytes))]))"

definition read_only_refusal :: "string \<Rightarrow> string \<Rightarrow> tool_result" where
  "read_only_refusal action target =
     tool_result False (''Refused to '' @ action @ '' '' @ target @
         '': this request said not to change files. No file was modified. Ask again without that restriction if you want the change.'')
       [(''read_only'', JBool True), (''blocked_action'', JStr action), (''filepath'', JStr target)]"

end
