(* ===== verification/FileTools.thy ===== *)
theory FileTools
  imports ToolScope
begin

text \<open>
  The tools of \<open>tools/agent_tools.py\<close> that change files: \<open>write_file\<close>, \<open>edit_file\<close>, \<open>append_file\<close>,
  \<open>move_file\<close> and \<open>delete_file\<close>, and \<open>run_command\<close>. Each is a verdict, taken on the desk as it stands,
  and for a call that goes ahead the question to the user and the transaction.
\<close>

subsection \<open>Verdicts\<close>

datatype 'j verdict = Refused tool_result | Rehearsed string string string nat | Agreed 'j

definition refusal :: "string \<Rightarrow> dict \<Rightarrow> 'j verdict" where
  "refusal message data = Refused (tool_result False message data)"

definition run_verdict :: "('j \<Rightarrow> tool_result desk_eff) \<Rightarrow> 'j verdict \<Rightarrow> tool_result desk_eff" where
  "run_verdict commit v = (case v of
     Refused r \<Rightarrow> ret r
   | Rehearsed action p detail bytes \<Rightarrow> planned action p detail bytes
   | Agreed j \<Rightarrow> commit j)"

definition at_path :: "string \<Rightarrow> dict" where
  "at_path p = [(''filepath'', JStr p)]"

text \<open>A refusal of the sandbox.\<close>

definition security_refusal :: "py_error \<Rightarrow> string \<Rightarrow> dict \<Rightarrow> 'j verdict" where
  "security_refusal e p more_data = refusal (error_message e) (at_path p @ more_data)"

definition no_candidates :: dict where
  "no_candidates = [(''candidates'', JList [])]"

definition file_request :: "tool_env \<Rightarrow> string \<Rightarrow> string \<Rightarrow> string \<Rightarrow> string option \<Rightarrow> string \<Rightarrow> string list \<Rightarrow> permission_request" where
  "file_request env action description risk preview reason targets =
     \<lparr>pq_action = action, pq_description = description, pq_risk = risk, pq_preview = preview,
      pq_dir = Some (te_root env), pq_reason = Some reason, pq_targets = targets\<rparr>"

definition asked_first :: "tool_env \<Rightarrow> permission_request \<Rightarrow> tool_result \<Rightarrow> tool_result desk_eff \<Rightarrow> tool_result desk_eff" where
  "asked_first env request denied m =
     seq (on_gate (ask (te_manager env) request)) (\<lambda>ok. if ok then m else ret denied)"

definition file_op :: "op_kind \<Rightarrow> string \<Rightarrow> string \<Rightarrow> string \<Rightarrow> operation" where
  "file_op kind p dest reason = \<lparr>op_kind_of = kind, op_path = p, op_dest = dest, op_reason = reason, op_content = []\<rparr>"

subsection \<open>Guards\<close>

text \<open>Why a file that parses would no longer do so; files that did not parse before may be repaired.\<close>

definition breaks_a_working_file :: "tool_env \<Rightarrow> string option \<Rightarrow> string \<Rightarrow> string \<Rightarrow> string" where
  "breaks_a_working_file env existing suff content = (case existing of
     None \<Rightarrow> []
   | Some old \<Rightarrow>
       if te_check env old suff \<noteq> None then []
       else case te_check env content suff of
         None \<Rightarrow> [] | Some detail \<Rightarrow> ''the replacement does not parse ('' @ detail @ '')'')"

definition way_out :: string where
  "way_out = '' If you are removing or replacing a whole class or function, call replace_symbol with its NAME instead of matching its text - it takes the whole definition and cannot leave a brace behind.''"

text \<open>The content of a serialized call of this tool, instead of the content of a file.\<close>

definition unwrap_serialized_tool_call :: "tool_env \<Rightarrow> string \<Rightarrow> string \<Rightarrow> string option" where
  "unwrap_serialized_tool_call env content tool =
     (let s = strip content
      in if s = [] \<or> hd s \<noteq> CHR ''{'' \<or> last s \<noteq> CHR ''}'' then None
         else case te_loads env s of
           Some (JObj payload) \<Rightarrow>
             if dict_get payload ''name'' \<noteq> Some (JStr tool) then None
             else (case (case dict_get payload ''arguments'' of
                  Some (JStr a) \<Rightarrow> te_loads env a | other \<Rightarrow> other) of
                Some (JObj arguments) \<Rightarrow>
                  (case dict_get arguments ''content'' of
                     Some (JStr inner) \<Rightarrow> if strip inner = [] then None else Some inner
                   | _ \<Rightarrow> None)
              | _ \<Rightarrow> None)
         | _ \<Rightarrow> None)"

definition suffix_of :: "string \<Rightarrow> string" where
  "suffix_of name = lower (name_suffix name)"

definition target_name :: "path \<Rightarrow> string" where
  "target_name t = (if t = [] then [] else last t)"

text \<open>The text of a file, as reading it gives it.\<close>

definition text_at :: "nodes \<Rightarrow> path \<Rightarrow> string option" where
  "text_at ns t = map_option universal (content_at ns t)"

definition missing_file :: "tool_env \<Rightarrow> registry \<Rightarrow> nodes \<Rightarrow> string \<Rightarrow> string \<Rightarrow> string \<Rightarrow> string \<Rightarrow> 'j verdict" where
  "missing_file env rg ns verb tool otherwise p =
     (let cs = scoped_candidates env rg (te_candidates env ns p)
      in refusal (''Cannot '' @ verb @ '': file does not exist: '' @ p @ ''.'' @
           (if cs = [] then otherwise
            else '' Candidates: '' @ join '', '' cs @ ''. Confirm the real path, then call '' @ tool @ '' on it.''))
         (at_path p @ [(''candidates'', strs cs)]))"

subsection \<open>write_file\<close>

record write_job =
  wj_path :: string
  wj_target :: path
  wj_exists :: bool
  wj_old :: string
  wj_content :: string

definition judge_write :: "tool_env \<Rightarrow> string \<Rightarrow> string \<Rightarrow> bool \<Rightarrow> desk \<Rightarrow> write_job verdict" where
  "judge_write env filepath content overwrite s =
     (let rg = ds_registry s; ns = dk_nodes (ds_disk s);
          filepath' = resolved_read_path env rg ns (scoped_write_path rg filepath);
          normalized = normalize_workspace_path filepath'
      in if rg_read_only rg then Refused (read_only_refusal ''write'' (if filepath = [] then ''the file'' else filepath))
         else case outside_allowed_scope env rg ns filepath' of
           Some r \<Rightarrow> Refused r
         | None \<Rightarrow>
             if rg_dry rg then
               (let target = normalized_or filepath'
                in Rehearsed (if te_peek env ns target \<noteq> None then ''overwrite'' else ''create'') target
                     (nat_str (length (splitlines content)) @ '' line(s)'') (utf8_length content))
             else if normalized = [] then refusal ''Missing filepath.'' []
             else if strip content = [] \<and> base_name normalized \<noteq> ''__init__.py'' then
               refusal (''Refusing an empty write to '' @ normalized @ ''. The content argument is missing or blank, so this would erase/create a hollow source file. Provide the complete file content. Empty writes are allowed only for __init__.py package markers.'')
                 (at_path normalized @ [(''content_missing'', JBool True)])
             else
               let content = (case unwrap_serialized_tool_call env content ''write_file'' of None \<Rightarrow> content | Some inner \<Rightarrow> inner);
                   existing = te_peek env ns normalized;
                   broken = breaks_a_working_file env existing (suffix_of (base_name normalized)) content;
                   gutted = gutting_overwrite existing content
               in if broken \<noteq> [] then
                    refusal (''Refusing to overwrite '' @ normalized @ '': '' @ broken @ '', but the file on disk currently does. This is a truncated or malformed generation - the working file has been kept. Send the COMPLETE file content.'' @ way_out)
                      (at_path normalized @ [(''syntax_regression'', JBool True)])
                  else if gutted \<noteq> [] then
                    refusal (''Refusing to overwrite '' @ normalized @ '': '' @ gutted @ '' This looks like a truncated generation rather than the file you meant to write. Read the file, then send its COMPLETE new content - or use edit_file/append_file to change one part of it.'')
                      (at_path normalized @ [(''gutting_overwrite'', JBool True)])
                  else case te_sandbox env normalized of
                    Inl e \<Rightarrow> security_refusal e normalized []
                  | Inr target \<Rightarrow>
                      if is_dir ns target then refusal (normalized @ '' is a directory, not a file.'') (at_path normalized @ no_candidates)
                      else
                        let exists_there = present ns target;
                            strong = (if exists_there then []
                              else scoped_candidates env rg (strong_path_candidates (te_walk env ns) normalized));
                            old = (case text_at ns target of None \<Rightarrow> [] | Some t \<Rightarrow> t)
                        in if strong \<noteq> [] then
                             refusal (''Refusing to create '' @ normalized @ '': a matching file already exists at a different path. Candidates: '' @ join '', '' strong @ ''. Edit the existing file (edit_file/write_file) or pass the correct path.'')
                               (at_path normalized @ [(''candidates'', strs strong)])
                           else if exists_there \<and> \<not> overwrite then
                             refusal ''File already exists. Set overwrite=true if overwriting is intended.'' (at_path normalized @ no_candidates)
                           else if exists_there \<and> old = content then
                             refusal (''No change: what you sent is byte-for-byte identical to what '' @ normalized @ '' already contains, so nothing was written. If the file is still wrong, the fix you have in mind is not the one you sent - read it again and change the part that is actually different.'')
                               (at_path normalized @ [(''identical'', JBool True), (''line_count'', JInt (int (length (splitlines content))))])
                           else Agreed \<lparr>wj_path = normalized, wj_target = target, wj_exists = exists_there, wj_old = old,
                             wj_content = content\<rparr>)"

text \<open>The change itself, in a transaction; the text that is saved as the patch.\<close>

definition store_content ::
  "tool_env \<Rightarrow> string \<Rightarrow> operation \<Rightarrow> string \<Rightarrow> path \<Rightarrow> bool \<Rightarrow> string \<Rightarrow> string \<Rightarrow> string tx_eff" where
  "store_content env reason op p target with_parents content patch_text =
     seq (begin_transaction reason [op] False) (\<lambda>tx.
     seq (backup_file (te_sandbox env) tx p) (\<lambda>_.
     seq (if with_parents then on_nodes (mkdir_parents (butlast target)) else ret ()) (\<lambda>_.
     seq (on_nodes (write_text target content)) (\<lambda>_.
     seq (record_after (te_sandbox env) tx p) (\<lambda>_.
     seq (save_patch tx patch_text) (\<lambda>_.
     seq (finalize_transaction tx ''applied'' []) (\<lambda>_.
     ret tx)))))))"

definition commit_write :: "tool_env \<Rightarrow> write_job \<Rightarrow> tool_result desk_eff" where
  "commit_write env j =
     (let p = wj_path j; content = wj_content j; old_name = (if wj_exists j then ''a/'' @ p else ''/dev/null'')
      in asked_first env
           (file_request env (if wj_exists j then ''file_edit'' else ''file_write'')
             ((if wj_exists j then ''Overwrite'' else ''Create'') @ '' file: '' @ p) ''medium'' (Some (take 4000 content))
             ''The agent requested a workspace file write.'' [p])
           (tool_result False ''File write denied by user.'' (at_path p))
           (seq (on_disk (store_content env (''Agent write_file: '' @ p)
                (file_op (if wj_exists j then EDIT_FILE else CREATE_FILE) p [] []) p (wj_target j) True content
                (te_diff env old_name (''b/'' @ p) (wj_old j) content))) (\<lambda>tx.
            let (added, removed) = te_changes env (wj_old j) content; total = length (splitlines content)
            in ret (tool_result True
              ((if wj_exists j then ''Overwrote '' else ''Created '') @ p @ '' (+'' @ nat_str added @
                 (if wj_exists j then '' -'' @ nat_str removed else []) @ '' lines, '' @ nat_str total @ '' total).'')
              (at_path p @ [(''resolved_filepath'', JStr p), (''bytes_written'', JInt (int (utf8_length content))),
                 (''transaction_id'', JStr tx), (''created'', JBool (\<not> wj_exists j)), (''overwrote'', JBool (wj_exists j)),
                 (''lines_added'', JInt (int added)), (''lines_removed'', JInt (int removed)),
                 (''line_count'', JInt (int total))])))))"

definition write_file_tool :: "tool_env \<Rightarrow> string \<Rightarrow> string \<Rightarrow> bool \<Rightarrow> tool_result desk_eff" where
  "write_file_tool env filepath content overwrite =
     seq (gets (judge_write env filepath content overwrite)) (run_verdict (commit_write env))"

subsection \<open>edit_file\<close>

record edit_job =
  ej_path :: string
  ej_target :: path
  ej_content :: string
  ej_edit :: planned_edit

definition edit_preview :: "string \<Rightarrow> string \<Rightarrow> string \<Rightarrow> string" where
  "edit_preview p old new =
     ''edit '' @ p @ [newline] @ ''--- old'' @ [newline] @ take 1500 old @ [newline] @ ''+++ new'' @ [newline] @ take 1500 new"

definition elided_refusal :: "string \<Rightarrow> string \<Rightarrow> 'j verdict" where
  "elided_refusal p label =
     refusal (label @ '' is a fragment of the conversation history, not file text - it still carries the marker this harness puts in place of an old payload. Call read_file on '' @ p @ '' and copy the text from the result, not from your earlier message.'')
       (at_path p @ no_candidates @ [(''elided_argument'', JStr label)])"

definition context_json :: "edit_context \<Rightarrow> json" where
  "context_json c = JObj (dict_of [(''line_start'', JInt (int (ec_start c))), (''line_end'', JInt (int (ec_end c))),
     (''match_line'', JInt (int (ec_match c))), (''text'', JStr (ec_text c))])"

definition edit_failed :: "tool_env \<Rightarrow> string \<Rightarrow> string \<Rightarrow> string \<Rightarrow> edit_failure \<Rightarrow> 'j verdict" where
  "edit_failed env p content old f = (case f of
     NotFound \<Rightarrow>
       refusal (''old_string not found in '' @ p @ ''. The file was NOT changed. '' @
           (if mentions_literal_escapes old
            then ''Your old_string contains a literal backslash-n where a newline belongs. Send real line breaks, not the two characters. ''
            else []) @ te_hint env content old)
         (at_path p @ [(''matches'', JInt 0), (''current_excerpt'', JStr (te_excerpt env content old))])
   | Ambiguous n contexts \<Rightarrow>
       refusal (''old_string appears '' @ nat_str n @ '' times in '' @ p @ ''. Add more surrounding context to make it unique, or set replace_all=true. The file was NOT changed.'')
         (at_path p @ [(''matches'', JInt (int n)), (''candidate_contexts'', JList (map context_json contexts))])
   | SameText n \<Rightarrow>
       refusal ''old_string and new_string are identical; nothing to change.'' (at_path p @ [(''matches'', JInt (int n))]))"

definition judge_edit :: "tool_env \<Rightarrow> string \<Rightarrow> string \<Rightarrow> string \<Rightarrow> bool \<Rightarrow> desk \<Rightarrow> edit_job verdict" where
  "judge_edit env filepath old new everywhere s =
     (let rg = ds_registry s; ns = dk_nodes (ds_disk s);
          filepath' = resolved_read_path env rg ns (scoped_write_path rg filepath);
          normalized = normalize_workspace_path filepath'
      in if rg_read_only rg then Refused (read_only_refusal ''edit'' (if filepath = [] then ''the file'' else filepath))
         else case outside_allowed_scope env rg ns filepath' of
           Some r \<Rightarrow> Refused r
         | None \<Rightarrow>
             if rg_dry rg then
               Rehearsed ''edit'' (normalized_or filepath') (if old = [] then ''in-place edit'' else ''replace '' @ py_repr (take 40 old)) 0
             else if normalized = [] then refusal ''Missing filepath.'' (at_path filepath' @ no_candidates)
             else if old = [] then
               refusal ''Missing old_string. Provide the exact text to replace (use write_file to create a new file).''
                 (at_path normalized @ no_candidates)
             else if looks_elided old then elided_refusal normalized ''old_string''
             else if looks_elided new then elided_refusal normalized ''new_string''
             else case te_sandbox env normalized of
               Inl e \<Rightarrow> security_refusal e normalized no_candidates
             | Inr target \<Rightarrow>
                 (case text_at ns target of
                    None \<Rightarrow> missing_file env rg ns ''edit'' ''edit_file''
                      '' Use find_file to locate it, or write_file to create it.'' normalized
                  | Some content \<Rightarrow>
                      (case plan_edit content old new everywhere (rg_request rg) of
                         Inl f \<Rightarrow> edit_failed env normalized content old f
                       | Inr e \<Rightarrow>
                           let broken = breaks_a_working_file env (Some content) (suffix_of (target_name target)) (pe_content e)
                           in if broken \<noteq> [] then
                                refusal (''Refusing to edit '' @ normalized @ '': '' @ broken @ '', but the file on disk currently does. The replacement text is truncated or malformed - the working file has been kept.'' @ way_out)
                                  (at_path normalized @ [(''syntax_regression'', JBool True)])
                              else Agreed \<lparr>ej_path = normalized, ej_target = target, ej_content = content, ej_edit = e\<rparr>)))"

definition commit_edit :: "tool_env \<Rightarrow> edit_job \<Rightarrow> tool_result desk_eff" where
  "commit_edit env j =
     (let p = ej_path j; e = ej_edit j; shown = nat_str (pe_replacements e) @ '' replacement(s)''
      in asked_first env
           (file_request env ''file_edit'' (''Edit file: '' @ p @ '' ('' @ shown @ '')'') ''medium''
             (Some (edit_preview p (pe_old e) (pe_new e))) ''The agent requested a targeted file edit.'' [p])
           (tool_result False ''File edit denied by user.'' (at_path p))
           (seq (on_disk (store_content env (''Agent edit_file: '' @ p) (file_op EDIT_FILE p [] []) p (ej_target j) False
                (pe_content e) (te_diff env (''a/'' @ p) (''b/'' @ p) (ej_content j) (pe_content e)))) (\<lambda>tx.
            let (added, removed) = te_changes env (pe_old e) (pe_new e);
                start_line = newlines_in (case cut_at (pe_old e) (ej_content j) of None \<Rightarrow> [] | Some (a, _) \<Rightarrow> a) + 1;
                end_line = start_line + newlines_in (pe_old e)
            in ret (tool_result True
              (''Edited '' @ p @ '': +'' @ nat_str added @ '' -'' @ nat_str removed @ '' lines (lines '' @ nat_str start_line @ ''-'' @
                 nat_str end_line @ '', '' @ shown @ '').'' @
                 (if pe_unescaped e then '' Note: your old_string had a literal backslash-n where a newline belongs; it was decoded to match. Send real line breaks next time.''
                  else []))
              (at_path p @ [(''resolved_filepath'', JStr p), (''replacements'', JInt (int (pe_replacements e))),
                 (''bytes_written'', JInt (int (utf8_length (pe_content e)))), (''transaction_id'', JStr tx),
                 (''lines_added'', JInt (int added)), (''lines_removed'', JInt (int removed)), (''start_line'', JInt (int start_line)),
                 (''end_line'', JInt (int end_line)), (''auto_disambiguated'', JBool (pe_auto e)),
                 (''unescaped_literal_newlines'', JBool (pe_unescaped e))])))))"

definition edit_file_tool :: "tool_env \<Rightarrow> string \<Rightarrow> string \<Rightarrow> string \<Rightarrow> bool \<Rightarrow> tool_result desk_eff" where
  "edit_file_tool env filepath old new everywhere =
     seq (gets (judge_edit env filepath old new everywhere)) (run_verdict (commit_edit env))"

subsection \<open>append_file\<close>

record append_job =
  pj_path :: string
  pj_target :: path
  pj_old :: string
  pj_separator :: string
  pj_content :: string

definition ends_a_line :: "char \<Rightarrow> bool" where
  "ends_a_line c \<longleftrightarrow> c = newline \<or> c = CHR 0x0D"

definition append_separator :: "string \<Rightarrow> string \<Rightarrow> string" where
  "append_separator old content =
     (if old \<noteq> [] \<and> \<not> ends_a_line (last old) \<and> \<not> ends_a_line (hd content) then [newline] else [])"

definition judge_append :: "tool_env \<Rightarrow> string \<Rightarrow> string \<Rightarrow> desk \<Rightarrow> append_job verdict" where
  "judge_append env filepath content s =
     (let rg = ds_registry s; ns = dk_nodes (ds_disk s);
          filepath' = resolved_read_path env rg ns (scoped_write_path rg filepath);
          normalized = normalize_workspace_path filepath'
      in if rg_read_only rg then Refused (read_only_refusal ''append to'' (if filepath = [] then ''the file'' else filepath))
         else case outside_allowed_scope env rg ns filepath' of
           Some r \<Rightarrow> Refused r
         | None \<Rightarrow>
             if normalized = [] then refusal ''Missing filepath.'' (at_path filepath' @ no_candidates)
             else if content = [] then
               refusal ''Missing content. Pass the text to append; the file was NOT changed.'' (at_path normalized @ no_candidates)
             else if rg_dry rg then
               Rehearsed ''append'' normalized (nat_str (length (splitlines content)) @ '' line(s)'') (utf8_length content)
             else case te_sandbox env normalized of
               Inl e \<Rightarrow> security_refusal e normalized no_candidates
             | Inr target \<Rightarrow>
                 (case text_at ns target of
                    None \<Rightarrow> missing_file env rg ns ''append'' ''append_file'' '' Use write_file to create it.'' normalized
                  | Some old \<Rightarrow>
                      (let separator = append_separator old content;
                           broken = breaks_a_working_file env (Some old) (suffix_of (target_name target)) (old @ separator @ content)
                       in if broken \<noteq> [] then
                            refusal (''Refusing to append to '' @ normalized @ '': '' @ broken @ '', but the file on disk currently does. The appended text is truncated or malformed - the working file has been kept.'' @ way_out)
                              (at_path normalized @ [(''syntax_regression'', JBool True)])
                          else Agreed \<lparr>pj_path = normalized, pj_target = target, pj_old = old, pj_separator = separator, pj_content = content\<rparr>)))"

definition commit_append :: "tool_env \<Rightarrow> append_job \<Rightarrow> tool_result desk_eff" where
  "commit_append env j =
     (let p = pj_path j; old = pj_old j; appended = pj_separator j @ pj_content j; new = old @ appended
      in asked_first env
           (file_request env ''file_edit'' (''Append to file: '' @ p) ''medium'' (Some (take 4000 appended))
             ''The agent requested content be appended to an existing workspace file.'' [p])
           (tool_result False ''File append denied by user.'' (at_path p))
           (seq (on_disk (store_content env (''Agent append_file: '' @ p) (file_op EDIT_FILE p [] ''append'') p (pj_target j) False
                new (te_diff env (''a/'' @ p) (''b/'' @ p) old new))) (\<lambda>tx.
            let (added, removed) = te_changes env old new; start_line = length (splitlines old) + 1
            in ret (tool_result True
              (''Appended to '' @ p @ '': +'' @ nat_str added @ '' -'' @ nat_str removed @ '' lines (starting at line '' @
                 nat_str start_line @ '').'')
              (at_path p @ [(''resolved_filepath'', JStr p), (''bytes_written'', JInt (int (utf8_length appended))),
                 (''transaction_id'', JStr tx), (''lines_added'', JInt (int added)), (''lines_removed'', JInt (int removed)),
                 (''start_line'', JInt (int start_line)), (''separator_added'', JBool (pj_separator j \<noteq> []))])))))"

definition append_file_tool :: "tool_env \<Rightarrow> string \<Rightarrow> string \<Rightarrow> tool_result desk_eff" where
  "append_file_tool env filepath content =
     seq (gets (judge_append env filepath content)) (run_verdict (commit_append env))"

subsection \<open>move_file\<close>

record move_job =
  vj_from :: string
  vj_to :: string
  vj_source :: path
  vj_target :: path

definition judge_move :: "tool_env \<Rightarrow> string \<Rightarrow> string \<Rightarrow> desk \<Rightarrow> move_job verdict" where
  "judge_move env source destination s =
     (let rg = ds_registry s; ns = dk_nodes (ds_disk s);
          source' = scoped_write_path rg source; destination' = scoped_write_path rg destination;
          from_path = normalize_workspace_path source'; to_path = normalize_workspace_path destination'
      in if rg_read_only rg then Refused (read_only_refusal ''move'' (if source = [] then ''the file'' else source))
         else case outside_allowed_scope env rg ns source' of
           Some r \<Rightarrow> Refused r
         | None \<Rightarrow> (case outside_allowed_scope env rg ns destination' of
             Some r \<Rightarrow> Refused r
           | None \<Rightarrow>
               if rg_dry rg then Rehearsed ''move'' (normalized_or source') (''to '' @ normalized_or destination') 0
               else if from_path = [] \<or> to_path = [] then refusal ''move_file needs both source and destination.'' []
               else if from_path = to_path then refusal ''Source and destination are the same file.'' (at_path from_path)
               else case te_sandbox env from_path of
                 Inl e \<Rightarrow> security_refusal e from_path []
               | Inr src \<Rightarrow> (case te_sandbox env to_path of
                   Inl e \<Rightarrow> security_refusal e from_path []
                 | Inr dest \<Rightarrow>
                     if \<not> is_file ns src then
                       refusal (''Cannot move '' @ from_path @ '': it is not a file in this workspace.'') (at_path from_path)
                     else if present ns dest then
                       refusal (''Refusing to move '' @ from_path @ '' onto '' @ to_path @ '': the destination already exists. Pick a different destination, or edit/delete that file explicitly first.'')
                         (at_path to_path)
                     else Agreed \<lparr>vj_from = from_path, vj_to = to_path, vj_source = src, vj_target = dest\<rparr>)))"

text \<open>\<open>except OSError\<close>: the transaction is marked as failed.\<close>

definition or_failed :: "string \<Rightarrow> unit tx_eff \<Rightarrow> string option tx_eff" where
  "or_failed tx m = catch (seq m (\<lambda>_. ret None)) (\<lambda>e. case e of
     OSError message \<Rightarrow> seq (finalize_transaction tx ''failed'' []) (\<lambda>_. ret (Some message))
   | _ \<Rightarrow> raise e)"

definition store_move :: "tool_env \<Rightarrow> move_job \<Rightarrow> (string + string) tx_eff" where
  "store_move env j =
     seq (begin_transaction (''Agent move_file: '' @ vj_from j @ '' -> '' @ vj_to j) [file_op MOVE_FILE (vj_from j) (vj_to j) []] True) (\<lambda>tx.
     seq (backup_file (te_sandbox env) tx (vj_from j)) (\<lambda>_.
     seq (or_failed tx (seq (on_nodes (mkdir_parents (butlast (vj_target j)))) (\<lambda>_. on_nodes (move (vj_source j) (vj_target j))))) (\<lambda>failed.
     case failed of
       Some message \<Rightarrow> ret (Inl message)
     | None \<Rightarrow>
         seq (record_after (te_sandbox env) tx (vj_to j)) (\<lambda>_.
         seq (finalize_transaction tx ''applied'' []) (\<lambda>_. ret (Inr tx))))))"

definition commit_move :: "tool_env \<Rightarrow> move_job \<Rightarrow> tool_result desk_eff" where
  "commit_move env j =
     asked_first env
       (file_request env ''file_edit'' (''Move '' @ vj_from j @ '' -> '' @ vj_to j) ''medium'' None
         ''The agent requested a workspace file move/rename.'' [vj_from j, vj_to j])
       (tool_result False ''Move denied by user.'' (at_path (vj_from j)))
       (seq (on_disk (store_move env j)) (\<lambda>r. ret (case r of
          Inl message \<Rightarrow> tool_result False (''Move failed: '' @ message) (at_path (vj_from j))
        | Inr tx \<Rightarrow> tool_result True (''Moved '' @ vj_from j @ '' -> '' @ vj_to j @ ''.'')
            (at_path (vj_to j) @ [(''source'', JStr (vj_from j)), (''transaction_id'', JStr tx)]))))"

definition move_file_tool :: "tool_env \<Rightarrow> string \<Rightarrow> string \<Rightarrow> tool_result desk_eff" where
  "move_file_tool env source destination =
     seq (gets (judge_move env source destination)) (run_verdict (commit_move env))"

subsection \<open>delete_file\<close>

definition judge_delete :: "tool_env \<Rightarrow> string \<Rightarrow> desk \<Rightarrow> (string \<times> path) verdict" where
  "judge_delete env filepath s =
     (let rg = ds_registry s; ns = dk_nodes (ds_disk s);
          filepath' = scoped_write_path rg filepath; normalized = normalize_workspace_path filepath'
      in if rg_read_only rg then Refused (read_only_refusal ''delete'' (if filepath = [] then ''the file'' else filepath))
         else case outside_allowed_scope env rg ns filepath' of
           Some r \<Rightarrow> Refused r
         | None \<Rightarrow>
             if rg_dry rg then Rehearsed ''delete'' (normalized_or filepath') [] 0
             else if normalized = [] then refusal ''Missing filepath.'' []
             else case te_sandbox env normalized of
               Inl e \<Rightarrow> security_refusal e normalized []
             | Inr target \<Rightarrow>
                 if \<not> is_file ns target then
                   refusal (''Cannot delete '' @ normalized @ '': it is not a file in this workspace.'') (at_path normalized)
                 else Agreed (normalized, target))"

definition store_delete :: "tool_env \<Rightarrow> string \<Rightarrow> path \<Rightarrow> (string + string) tx_eff" where
  "store_delete env p target =
     seq (begin_transaction (''Agent delete_file: '' @ p) [file_op DELETE_FILE p [] []] True) (\<lambda>tx.
     seq (backup_file (te_sandbox env) tx p) (\<lambda>_.
     seq (or_failed tx (on_nodes (unlink target))) (\<lambda>failed. case failed of
       Some message \<Rightarrow> ret (Inl message)
     | None \<Rightarrow> seq (finalize_transaction tx ''applied'' []) (\<lambda>_. ret (Inr tx)))))"

definition commit_delete :: "tool_env \<Rightarrow> string \<times> path \<Rightarrow> tool_result desk_eff" where
  "commit_delete env j = (case j of (p, target) \<Rightarrow>
     asked_first env
       (file_request env ''file_delete'' (''Delete file: '' @ p) ''high'' None ''The agent requested a workspace file deletion.'' [p])
       (tool_result False ''Delete denied by user.'' (at_path p))
       (seq (on_disk (store_delete env p target)) (\<lambda>r. ret (case r of
          Inl message \<Rightarrow> tool_result False (''Delete failed: '' @ message) (at_path p)
        | Inr tx \<Rightarrow> tool_result True (''Deleted '' @ p @ ''. Recoverable with /undo.'')
            (at_path p @ [(''transaction_id'', JStr tx)])))))"

definition delete_file_tool :: "tool_env \<Rightarrow> string \<Rightarrow> tool_result desk_eff" where
  "delete_file_tool env filepath = seq (gets (judge_delete env filepath)) (run_verdict (commit_delete env))"

subsection \<open>run_command\<close>

definition mentions_manage_py :: "string \<Rightarrow> bool" where
  "mentions_manage_py command \<longleftrightarrow>
     found (cats [Or (Look (\<lambda>u v. u = [])) space, exact ''manage.py'', Or space text_end]) command"

text \<open>A framework command without a directory runs beside its one entry point.\<close>

definition scoped_command_cwd :: "tool_env \<Rightarrow> registry \<Rightarrow> nodes \<Rightarrow> string \<Rightarrow> string \<Rightarrow> string" where
  "scoped_command_cwd env rg ns command cwd =
     (let normalized = (let n = normalize_workspace_path cwd in if n = [] then ''.'' else n)
      in if normalized \<noteq> ''.'' \<or> \<not> mentions_manage_py command then normalized
         else case filter (\<lambda>f. base_name f = ''manage.py'' \<and> inside_allowed_read_scope env rg f) (te_indexed env ns) of
           [f] \<Rightarrow> as_posix (butlast (posix_parts f))
         | _ \<Rightarrow> normalized)"

definition command_data :: "tool_env \<Rightarrow> string \<Rightarrow> int \<Rightarrow> string \<Rightarrow> string \<Rightarrow> dict" where
  "command_data env cwd code out err =
     [(''exit_code'', JInt code), (''stdout'', JStr out), (''stderr'', JStr err), (''cwd'', JStr cwd)] @
     (if code = 124 then [(''timeout'', JBool True), (''timeout_category'', JStr ''TOOL_TIMEOUT''),
        (''timeout_seconds'', JInt (rn_seconds (te_runner env)))] else [])"

text \<open>
  The commands that were started change the files. What the result says about touched files, the resolved
  command and diagnostics is left out.
\<close>

definition run_command_tool :: "tool_env \<Rightarrow> string \<Rightarrow> string \<Rightarrow> tool_result desk_eff" where
  "run_command_tool env command cwd =
     seq (gets (\<lambda>s. (ds_registry s, dk_nodes (ds_disk s), length (gt_trace (ds_gate s))))) (\<lambda>(rg, ns, before_it).
     if strip command = [] then ret (tool_result False ''Missing command.'' [])
     else if rg_read_only rg \<and> command_may_write_workspace command then
       ret (tool_result False ''Refused to run a workspace-writing command: this request said not to change files. Run the command without redirection or file-writing shell syntax.''
         [(''read_only'', JBool True), (''blocked_action'', JStr ''run_command''), (''command'', JStr command),
          (''outcome_classification'', JStr ''policy_decision''), (''actionable'', JBool False)])
     else
       let dir = scoped_command_cwd env rg ns command cwd
       in case te_sandbox env dir of
            Inl e \<Rightarrow> raise e
          | Inr t \<Rightarrow>
              seq (on_gate (run_command (te_runner env) (te_world env ns) command
                (CHR ''/'' # join ''/'' (pw_root (te_world env ns) @ t)))) (\<lambda>(code, out, err).
              seq (gets (\<lambda>s. drop before_it (gt_trace (ds_gate s)))) (\<lambda>new.
              seq (on_disk (modify (\<lambda>d. d\<lparr>dk_nodes := te_aftermath env new (dk_nodes d)\<rparr>))) (\<lambda>_.
              ret (tool_result (code = 0) (''Command exited with '' @ int_str code @ ''.'') (command_data env dir code out err))))))"

end
