(* ===== verification/ToolDispatch.thy ===== *)
theory ToolDispatch
  imports FileTools
begin

text \<open>
  How a call of the model reaches a tool: the aliases and logical tools of \<open>tools/logical.py\<close>, and
  \<open>AgentToolRegistry.execute\<close> with its gates, the phase contract, the tools of the step and the prefix that
  was asked for. Tools that neither change files nor run commands, MCP and Git are a parameter.
\<close>

subsection \<open>Logical tools\<close>

text \<open>A specification without its description, its schemas and the words on how to take it back.\<close>

record logical_spec =
  ls_name :: string
  ls_phases :: "execution_phase list"
  ls_risk :: string
  ls_timeout :: nat
  ls_budget :: nat
  ls_evidence :: "string list"
  ls_reversible :: bool

definition read_phases :: "execution_phase list" where
  "read_phases = [EXPLORE, PLAN, AUTHOR, VERIFY, REPAIR, DEPLOY]"

definition patch_phases :: "execution_phase list" where "patch_phases = [AUTHOR, REPAIR]"
definition test_phases :: "execution_phase list" where "test_phases = [AUTHOR, VERIFY, REPAIR, DEPLOY]"
definition checkpoint_phases :: "execution_phase list" where "checkpoint_phases = [VERIFY, DEPLOY]"
definition scope_phases :: "execution_phase list" where "scope_phases = [AUTHOR, REPAIR]"

definition logical_spec :: "string \<Rightarrow> execution_phase list \<Rightarrow> string \<Rightarrow> nat \<Rightarrow> nat \<Rightarrow> string list \<Rightarrow> bool \<Rightarrow> logical_spec" where
  "logical_spec name phases risk timeout budget evidence reversible =
     \<lparr>ls_name = name, ls_phases = phases, ls_risk = risk, ls_timeout = timeout, ls_budget = budget, ls_evidence = evidence,
      ls_reversible = reversible\<rparr>"

definition logical_tool_specs :: "logical_spec list" where
  "logical_tool_specs = [
     logical_spec ''project.inspect'' read_phases ''low'' 20 1500 [] True,
     logical_spec ''code.search'' read_phases ''low'' 30 1800 [] True,
     logical_spec ''file.read'' read_phases ''low'' 15 2200 [] True,
     logical_spec ''file.patch'' patch_phases ''medium'' 30 1200 [''file_changed''] True,
     logical_spec ''scope.expand'' scope_phases ''medium'' 10 500 [] True,
     logical_spec ''test.run'' test_phases ''low'' 120 2000
       [''test_passed'', ''lint_passed'', ''typecheck_passed'', ''build_passed'', ''service_healthy''] True,
     logical_spec ''git.inspect'' read_phases ''low'' 20 1800 [] True,
     logical_spec ''git.checkpoint'' checkpoint_phases ''medium'' 45 1600 [''git_diff_reviewed''] False]"

definition find_spec :: "string \<Rightarrow> logical_spec option" where
  "find_spec name = find (\<lambda>spec. ls_name spec = name) logical_tool_specs"

definition is_logical_tool :: "string \<Rightarrow> bool" where
  "is_logical_tool name \<longleftrightarrow> find_spec name \<noteq> None"

definition git_mutations_without_logical_equivalent :: "string list" where
  "git_mutations_without_logical_equivalent = [''git_init'', ''git_create_branch'', ''git_checkout'', ''git_restore'', ''git_stash_push'',
     ''git_stash_pop'', ''git_fetch'', ''git_pull'', ''git_push'']"

subsection \<open>Aliases\<close>

definition given :: "dict \<Rightarrow> string \<Rightarrow> json \<Rightarrow> json" where
  "given arguments k otherwise = (case dict_get arguments k of None \<Rightarrow> otherwise | Some j \<Rightarrow> j)"

definition alias_search_args :: "string \<Rightarrow> dict \<Rightarrow> dict" where
  "alias_search_args name arguments =
     (if name = ''find_file'' then dict_of [(''query'', given arguments ''query'' (JStr [])), (''limit'', given arguments ''limit'' (JInt 20))]
      else if name = ''grep_files'' then arguments
      else dict_of [(''query'', given arguments ''query'' (JStr []))])"

definition alias_patch_args :: "string \<Rightarrow> dict \<Rightarrow> dict" where
  "alias_patch_args name arguments =
     (if name = ''edit_file'' then
        dict_of [(''operation'', JStr ''replace''), (''filepath'', given arguments ''filepath'' (JStr [])),
          (''old_string'', given arguments ''old_string'' (JStr [])), (''new_string'', given arguments ''new_string'' (JStr [])),
          (''replace_all'', given arguments ''replace_all'' (JBool False))]
      else
        dict_of [(''operation'', JStr (if name = ''append_file'' then ''append'' else ''write'')),
          (''filepath'', given arguments ''filepath'' (JStr [])), (''content'', given arguments ''content'' (JStr []))])"

definition git_inspect_modes :: "(string \<times> string) list" where
  "git_inspect_modes = [(''git_status'', ''status''), (''git_status_full'', ''status''), (''git_diff'', ''diff''),
     (''git_diff_staged'', ''staged_diff''), (''git_diff_file'', ''file_diff''), (''git_branch'', ''branch''), (''git_branches'', ''branch''),
     (''git_remote'', ''overview''), (''git_log'', ''log''), (''git_unpushed_commits'', ''log'')]"

text \<open>The caller's own arguments come last.\<close>

definition alias_git_inspect_args :: "string \<Rightarrow> dict \<Rightarrow> dict" where
  "alias_git_inspect_args name arguments =
     dict_of ((''mode'', JStr (case map_of git_inspect_modes name of None \<Rightarrow> ''overview'' | Some m \<Rightarrow> m)) # arguments)"

definition alias_git_checkpoint_args :: "string \<Rightarrow> dict \<Rightarrow> dict" where
  "alias_git_checkpoint_args name arguments =
     (if name = ''git_commit'' then
        dict_of [(''action'', JStr ''commit''), (''paths'', JStr []), (''message'', given arguments ''message'' (JStr []))]
      else if name = ''git_add_all'' then dict_of [(''action'', JStr ''stage''), (''paths'', JStr [])]
      else dict_of [(''action'', JStr ''stage''), (''paths'', given arguments ''paths'' (JStr []))])"

definition tool_alias :: "string \<Rightarrow> dict \<Rightarrow> (string \<times> dict) option" where
  "tool_alias name arguments =
     (if name = ''list_files'' then
        Some (''project.inspect'', dict_of [(''path'', given arguments ''path'' (JStr ''.'')), (''include_git'', JBool False)])
      else if name = ''file_info'' then
        Some (''project.inspect'', dict_of [(''path'', given arguments ''filepath'' (JStr ''.'')), (''include_git'', JBool False)])
      else if name = ''read_file'' then Some (''file.read'', arguments)
      else if name \<in> {''find_file'', ''grep_files'', ''search_index''} then Some (''code.search'', alias_search_args name arguments)
      else if name \<in> {''write_file'', ''edit_file'', ''append_file''} then Some (''file.patch'', alias_patch_args name arguments)
      else if name = ''request_scope_expansion'' then Some (''scope.expand'', arguments)
      else if name = ''run_command'' then Some (''test.run'', arguments)
      else if starts_with name ''git_'' then
        (if name \<in> {''git_add'', ''git_add_all'', ''git_commit''} then Some (''git.checkpoint'', alias_git_checkpoint_args name arguments)
         else if name \<in> set git_mutations_without_logical_equivalent then None
         else Some (''git.inspect'', alias_git_inspect_args name arguments))
      else None)"

text \<open>The names alone, for the tools a step allows.\<close>

definition low_level_to_logical :: "(string \<times> string) list" where
  "low_level_to_logical = [(''list_files'', ''project.inspect''), (''file_info'', ''project.inspect''), (''read_file'', ''file.read''),
     (''find_file'', ''code.search''), (''grep_files'', ''code.search''), (''search_index'', ''code.search''), (''write_file'', ''file.patch''),
     (''edit_file'', ''file.patch''), (''append_file'', ''file.patch''), (''request_scope_expansion'', ''scope.expand''),
     (''run_command'', ''test.run''), (''git_add'', ''git.checkpoint''), (''git_add_all'', ''git.checkpoint''),
     (''git_commit'', ''git.checkpoint'')]"

definition logical_to_low_level :: "string \<Rightarrow> string list" where
  "logical_to_low_level name = map fst (filter (\<lambda>(low, logical). logical = name) low_level_to_logical)"

definition logical_target :: "string \<Rightarrow> string" where
  "logical_target name = (case map_of low_level_to_logical name of
     Some t \<Rightarrow> t
   | None \<Rightarrow>
       if starts_with name ''git_'' \<and> name \<notin> set git_mutations_without_logical_equivalent then ''git.inspect'' else [])"

definition expand_tool_aliases :: "string list \<Rightarrow> string list" where
  "expand_tool_aliases names =
     (let original = uniq (filter (\<lambda>n. n \<noteq> []) names)
      in uniq (original @ filter (\<lambda>t. t \<noteq> []) (map logical_target original) @
           concat (map (\<lambda>n. if is_logical_tool n then logical_to_low_level n else []) original)))"

definition set_allowed_tools :: "string list option \<Rightarrow> unit desk_eff" where
  "set_allowed_tools names = set_registry (\<lambda>rg. rg\<lparr>rg_tools := map_option expand_tool_aliases names\<rparr>)"

subsection \<open>Gates\<close>

definition effective_phase :: "tool_env \<Rightarrow> desk \<Rightarrow> execution_phase" where
  "effective_phase env s = (case rg_phase (ds_registry s) of
     Some p \<Rightarrow> p
   | None \<Rightarrow> (case te_context_phase env (ds_gate s) of Some p \<Rightarrow> normalize_phase p | None \<Rightarrow> AUTHOR))"

definition phase_context_active :: "desk \<Rightarrow> bool" where
  "phase_context_active s \<longleftrightarrow> rg_phase (ds_registry s) \<noteq> None \<or> gt_task (ds_gate s) \<noteq> None"

definition tool_is_allowed :: "registry \<Rightarrow> string \<Rightarrow> bool" where
  "tool_is_allowed rg name = (case rg_tools rg of None \<Rightarrow> True | Some names \<Rightarrow> matches_tool name names)"

definition logical_tool_allowed :: "registry \<Rightarrow> string \<Rightarrow> bool" where
  "logical_tool_allowed rg name = (case rg_tools rg of None \<Rightarrow> True | Some names \<Rightarrow> name \<in> set names)"

definition tool_allowed_by_phase :: "tool_env \<Rightarrow> desk \<Rightarrow> string \<Rightarrow> bool" where
  "tool_allowed_by_phase env s name \<longleftrightarrow> \<not> phase_context_active s \<or>
     matches_tool name (phase_allowed_tools (te_show env) (effective_phase env s) None (rg_capabilities (ds_registry s)))"

definition is_tool_allowed :: "tool_env \<Rightarrow> desk \<Rightarrow> string \<Rightarrow> bool" where
  "is_tool_allowed env s name \<longleftrightarrow> tool_is_allowed (ds_registry s) name \<and> tool_allowed_by_phase env s name"

definition policy_of :: "tool_env \<Rightarrow> desk \<Rightarrow> string \<Rightarrow> dict \<Rightarrow> policy_decision" where
  "policy_of env s name arguments =
     evaluate_phase_tool_policy (te_show env) name arguments (effective_phase env s) (Some (rg_risk (ds_registry s))) None
       (rg_capabilities (ds_registry s))"

definition phase_policy_denial :: "tool_env \<Rightarrow> desk \<Rightarrow> string \<Rightarrow> dict \<Rightarrow> tool_result option" where
  "phase_policy_denial env s name arguments =
     (if \<not> phase_context_active s then None
      else
        let decision = policy_of env s name arguments
        in if pd_allowed decision then None
           else Some \<lparr>tl_ok = False, tl_message = ''Tool '' @ name @ '' denied by phase contract: '' @ pd_reason decision,
             tl_data = denial_payload decision\<rparr>)"

definition not_in_step :: "desk \<Rightarrow> execution_phase \<Rightarrow> string \<Rightarrow> string \<Rightarrow> string \<Rightarrow> tool_result" where
  "not_in_step s phase tool requested reason =
     tool_result False (''Tool '' @ tool @ '' is not allowed for the current orchestrated step.'')
       [(''blocked_tool'', JStr tool), (''requested_tool'', JStr requested), (''current_phase'', JStr (phase_value phase)),
        (''allowed_tools'', strs (sorted_set (case rg_tools (ds_registry s) of None \<Rightarrow> [] | Some names \<Rightarrow> names))),
        (''reason'', JStr reason)]"

subsection \<open>The tools that change files\<close>

text \<open>\<open>_as_bool\<close>.\<close>

definition as_bool :: "(json \<Rightarrow> string) \<Rightarrow> json option \<Rightarrow> bool \<Rightarrow> bool" where
  "as_bool show value otherwise = (case value of
     None \<Rightarrow> otherwise
   | Some JNull \<Rightarrow> otherwise
   | Some (JBool b) \<Rightarrow> b
   | Some j \<Rightarrow>
       if j = JStr [] then otherwise
       else lower (strip (case j of JStr t \<Rightarrow> t | _ \<Rightarrow> show j)) \<in> {''1'', ''true'', ''yes'', ''y'', ''on''})"

text \<open>\<open>data\<close> of a patch that succeeded names the file.\<close>

definition patch_touched :: "string \<Rightarrow> tool_result \<Rightarrow> tool_result" where
  "patch_touched filepath r =
     (let named = (\<lambda>k. case dict_get (tl_data r) k of Some (JStr p) \<Rightarrow> p | _ \<Rightarrow> []);
          touched = (if named ''resolved_filepath'' \<noteq> [] then named ''resolved_filepath''
            else if named ''filepath'' \<noteq> [] then named ''filepath'' else filepath)
      in if \<not> tl_ok r \<or> touched = [] then r
         else r\<lparr>tl_data := dict_set ''resolved_filepath'' (JStr touched) (dict_set ''touched_files'' (strs [touched]) (tl_data r))\<rparr>)"

definition file_patch :: "tool_env \<Rightarrow> dict \<Rightarrow> tool_result desk_eff" where
  "file_patch env arguments =
     (let arg = arg_text (te_show env) arguments; operation = lower (strip (arg ''operation'')); filepath = arg ''filepath'';
          done = (\<lambda>r. ret (patch_touched filepath r))
      in if operation = ''replace'' then
           seq (edit_file_tool env filepath (arg ''old_string'') (arg ''new_string'')
             (as_bool (te_show env) (dict_get arguments ''replace_all'') False)) done
         else if operation = ''append'' then seq (append_file_tool env filepath (arg ''content'')) done
         else if operation = ''write'' then seq (write_file_tool env filepath (arg ''content'') True) done
         else ret (tool_result False ''file.patch operation must be replace, append, or write.''
           [(''operation'', JStr operation), (''filepath'', JStr filepath)]))"

definition test_run_tool :: "tool_env \<Rightarrow> dict \<Rightarrow> tool_result desk_eff" where
  "test_run_tool env arguments =
     (let arg = arg_text (te_show env) arguments; command = arg ''command''
      in seq (gets (\<lambda>s. policy_of env s ''run_command'' [(''command'', JStr command)])) (\<lambda>decision.
           if \<not> pd_allowed decision then
             ret \<lparr>tl_ok = False, tl_message = ''test.run denied: '' @ pd_reason decision, tl_data = denial_payload decision\<rparr>
           else run_command_tool env command (if arg ''cwd'' = [] then ''.'' else arg ''cwd'')))"

definition request_scope_expansion :: "tool_env \<Rightarrow> dict \<Rightarrow> tool_result desk_eff" where
  "request_scope_expansion env arguments =
     (let arg = arg_text (te_show env) arguments
      in case te_expand env of
           None \<Rightarrow> ret (tool_result False ''Scope expansion is not available for this task.''
             [(''filepath'', JStr (arg ''filepath'')), (''reason'', JStr (arg ''reason'')), (''scope_expansion'', JBool False)])
         | Some handler \<Rightarrow> handler (arg ''filepath'') (arg ''reason''))"

definition logical_metadata :: "logical_spec \<Rightarrow> json" where
  "logical_metadata spec = JObj (dict_of [(''name'', JStr (ls_name spec)), (''risk'', JStr (ls_risk spec)),
     (''timeout_seconds'', JInt (int (ls_timeout spec))), (''output_budget_tokens'', JInt (int (ls_budget spec))),
     (''evidence_produced'', strs (ls_evidence spec)), (''reversible'', JBool (ls_reversible spec))])"

definition with_metadata :: "logical_spec \<Rightarrow> tool_result \<Rightarrow> tool_result" where
  "with_metadata spec r = r\<lparr>tl_data := dict_set ''logical_tool'' (logical_metadata spec) (tl_data r)\<rparr>"

definition logical_denial :: "string \<Rightarrow> execution_phase \<Rightarrow> string \<Rightarrow> tool_result" where
  "logical_denial name phase reason =
     tool_result False (''Logical tool '' @ name @ '' denied by phase contract: '' @ reason)
       [(''requested_tool'', JStr name), (''current_phase'', JStr (phase_value phase)),
        (''allowed_tools'', strs (sorted_set (map ls_name (filter (\<lambda>spec. phase \<in> set (ls_phases spec)) logical_tool_specs)))),
        (''reason'', JStr reason), (''phase_denied'', JBool True)]"

definition execute_logical :: "tool_env \<Rightarrow> string \<Rightarrow> dict \<Rightarrow> tool_result desk_eff" where
  "execute_logical env name arguments = (case find_spec name of
     None \<Rightarrow> ret (tool_result False (''Unknown logical tool: '' @ name) [(''tool'', JStr name)])
   | Some spec \<Rightarrow>
       seq (gets (effective_phase env)) (\<lambda>phase.
       if phase \<notin> set (ls_phases spec) then
         ret (logical_denial name phase (name @ '' is not available in '' @ phase_value phase @ ''.''))
       else
         seq (if name = ''file.patch'' then file_patch env arguments
              else if name = ''test.run'' then test_run_tool env arguments
              else if name = ''scope.expand'' then request_scope_expansion env arguments
              else te_elsewhere env name arguments) (\<lambda>r. ret (with_metadata spec r))))"

subsection \<open>execute\<close>

definition dispatch :: "tool_env \<Rightarrow> string \<Rightarrow> dict \<Rightarrow> tool_result desk_eff" where
  "dispatch env name arguments =
     (let arg = arg_text (te_show env) arguments
      in if name = ''edit_file'' then
           edit_file_tool env (arg ''filepath'') (arg ''old_string'') (arg ''new_string'')
             (as_bool (te_show env) (dict_get arguments ''replace_all'') False)
         else if name = ''append_file'' then append_file_tool env (arg ''filepath'') (arg ''content'')
         else if name = ''write_file'' then
           write_file_tool env (arg ''filepath'') (arg ''content'') (as_bool (te_show env) (dict_get arguments ''overwrite'') True)
         else if name = ''move_file'' then move_file_tool env (arg ''source'') (arg ''destination'')
         else if name = ''delete_file'' then delete_file_tool env (arg ''filepath'')
         else if name = ''run_command'' then
           run_command_tool env (arg ''command'') (if arg ''cwd'' = [] then ''.'' else arg ''cwd'')
         else te_elsewhere env name arguments)"

definition prefix_refusal :: "string \<Rightarrow> string \<Rightarrow> tool_result" where
  "prefix_refusal wanted name =
     tool_result False (''This request explicitly requires a '' @ wanted @ '' tool. Do not substitute '' @ name @
         ''; call one of the registered '' @ wanted @ '' tools.'')
       [(''required_tool_prefix'', JStr wanted), (''blocked_tool'', JStr name)]"

definition execute_low_level :: "tool_env \<Rightarrow> string \<Rightarrow> dict \<Rightarrow> tool_result desk_eff" where
  "execute_low_level env name arguments =
     seq (gets (\<lambda>s. (s, ds_registry s, phase_policy_denial env s name arguments))) (\<lambda>(s, rg, denial).
     case denial of
       Some r \<Rightarrow> ret r
     | None \<Rightarrow>
         if \<not> tool_is_allowed rg name then
           ret (not_in_step s (effective_phase env s) name name ''Tool is not in the active plan step's allowed tools.'')
         else if rg_prefix rg \<noteq> [] \<and> \<not> starts_with name (rg_prefix rg) \<and> name \<noteq> ''ask_user'' then
           ret (prefix_refusal (rg_prefix rg) name)
         else dispatch env name arguments)"

definition execute_call :: "tool_env \<Rightarrow> string \<Rightarrow> dict \<Rightarrow> tool_result desk_eff" where
  "execute_call env name arguments =
     (if name = ''request_scope_expansion'' then request_scope_expansion env arguments
      else seq (gets (\<lambda>s. s)) (\<lambda>s.
        let (logical_name, logical_args) = (if is_logical_tool name then (name, arguments)
              else case tool_alias name arguments of None \<Rightarrow> (name, arguments) | Some a \<Rightarrow> a)
        in if rg_logical (ds_registry s) \<and> is_logical_tool logical_name then
             (if \<not> logical_tool_allowed (ds_registry s) logical_name
              then ret (not_in_step s (effective_phase env s) logical_name name
                ''Logical tool is not in the active plan step's allowed tools.'')
              else execute_logical env logical_name logical_args)
           else execute_low_level env name arguments))"

text \<open>Whatever a tool raises becomes a result that says no.\<close>

definition error_class :: "py_error \<Rightarrow> string" where
  "error_class e = (case e of ValueError _ \<Rightarrow> ''ValueError'' | TypeError _ \<Rightarrow> ''TypeError'' | KeyError _ \<Rightarrow> ''KeyError''
   | IndexError _ \<Rightarrow> ''IndexError''
   | RuntimeStateError _ \<Rightarrow> ''RuntimeStateError'' | InvalidStateTransition _ \<Rightarrow> ''InvalidStateTransition''
   | CorruptRuntimeState _ \<Rightarrow> ''CorruptRuntimeState'' | IntegrityError _ \<Rightarrow> ''IntegrityError'' | OSError _ \<Rightarrow> ''OSError''
   | SecurityError _ \<Rightarrow> ''SecurityError'' | DiffValidationError _ \<Rightarrow> ''DiffValidationError''
   | MutationSafetyError _ \<Rightarrow> ''MutationSafetyError'' | ChangeRequestError _ \<Rightarrow> ''ChangeRequestError'')"

fun error_text :: "py_error \<Rightarrow> string" where
  "error_text (ValueError m) = m" | "error_text (TypeError m) = m" | "error_text (KeyError m) = m"
| "error_text (IndexError m) = m"
| "error_text (RuntimeStateError m) = m" | "error_text (InvalidStateTransition m) = m" | "error_text (CorruptRuntimeState m) = m"
| "error_text (IntegrityError m) = m" | "error_text (OSError m) = m" | "error_text (SecurityError m) = m"
| "error_text (DiffValidationError m) = m" | "error_text (MutationSafetyError m) = m" | "error_text (ChangeRequestError m) = m"

definition execute_tool :: "tool_env \<Rightarrow> string \<Rightarrow> dict \<Rightarrow> desk \<Rightarrow> tool_result \<times> desk" where
  "execute_tool env name arguments s = (case execute_call env name arguments s of
     (Inr r, t) \<Rightarrow> (r, t)
   | (Inl e, t) \<Rightarrow> (tool_result False (error_text e)
       [(''tool'', JStr name), (''exception_class'', JStr (error_class e)), (''exception_message'', JStr (error_text e)),
        (''phase'', JStr ''tool_execution'')], t))"

end
