(* ===== verification/ToolFrames.thy ===== *)
theory ToolFrames
  imports ToolDispatch RollbackSafety ApprovalSafety
begin

text \<open>
  What the tools that change files leave alone. Asking the user changes no file and leaves a trace of what was
  agreed; each transaction of a tool changes at most the files it is about, apart from what lies below \<open>.shamsu\<close>.
\<close>

subsection \<open>Consent\<close>

definition agrees :: "permission_request \<Rightarrow> gate_event \<Rightarrow> bool" where
  "agrees q e \<longleftrightarrow> (\<exists>scope source. e = Answered q True scope source) \<or> (\<exists>s. e = AutoApproved q s)"

interpretation growing: gate_steps "\<lambda>g h. \<exists>es. gt_trace h = gt_trace g @ es"
  by unfold_locales auto

lemma remember_choice_grows: "remember_choice a scope g = (r, h) \<Longrightarrow> \<exists>es. gt_trace h = gt_trace g @ es"
  by (auto simp: remember_choice_def remember_def update_perms_def save_permissions_def emit_def seq_def
      split: if_splits option.splits prod.splits sum.splits)

lemma ask_menu_agreed:
  assumes "ask_menu m menu q previous g = (Inr True, h)"
  shows "\<exists>es. gt_trace h = gt_trace g @ es \<and> (\<exists>e \<in> set es. agrees q e)"
proof -
  let ?offer = "is_auto_approvable_action (pq_action q) \<and> am_memory m"
  from assms obtain r g1 where r: "prompting (menu q ?offer) g = (r, g1)"
      "(case r of Inl e \<Rightarrow> always_then (raise e) (settle previous None)
        | Inr (approved, scope) \<Rightarrow>
          always_then
            (seq (emit (Answered q approved (if approved then scope else ''none'') ''interactive_menu'')) (\<lambda>_.
             seq (if approved \<and> ?offer then remember_choice (pq_action q) scope else ret ()) (\<lambda>_.
             ret approved)))
            (settle previous (Some approved))) g1 = (Inr True, h)"
    unfolding ask_menu_def Let_def by (erule_tac seq_InrE) (simp add: attempt_Inr)
  then obtain scope where a: "r = Inr (True, scope)"
    by (cases r) (auto elim!: seq_InrE split: prod.splits dest!: always_then_Inr)
  let ?g = "g1\<lparr>gt_trace := gt_trace g1 @ [Answered q True scope ''interactive_menu'']\<rparr>"
  from r(2) obtain t y where t: "(if ?offer then remember_choice (pq_action q) scope else ret ()) ?g = (Inr (), t)"
      "settle previous (Some True) t = (Inr y, h)"
    unfolding a by (auto elim!: seq_InrE simp: emit_Inr dest!: always_then_Inr)
  from t(1) obtain es where "gt_trace t = gt_trace ?g @ es"
    by (cases ?offer) (auto dest: remember_choice_grows)
  with t(2) r(1) show ?thesis by (auto dest!: quiet_trace simp: agrees_def)
qed

lemma ask_callback_agreed:
  assumes "ask_callback m q previous g = (Inr True, h)"
  shows "\<exists>es. gt_trace h = gt_trace g @ es \<and> (\<exists>e \<in> set es. agrees q e)"
proof -
  let ?more = "\<lambda>approved. case am_remember m of None \<Rightarrow> ret () | Some question \<Rightarrow>
      if approved \<and> is_auto_approvable_action (pq_action q) \<and> am_memory m
      then seq (prompting (question (pq_action q))) (remember_choice (pq_action q)) else ret ()"
  from assms obtain r g1 where r: "prompting (am_approve m q) g = (r, g1)"
      "(case r of Inl e \<Rightarrow> always_then (raise e) (settle previous None)
        | Inr approved \<Rightarrow>
          seq (always_then (emit (Answered q approved (if approved then ''once'' else ''none'') ''approval_callback''))
            (settle previous (Some approved))) (\<lambda>_. seq (?more approved) (\<lambda>_. ret approved))) g1 = (Inr True, h)"
    unfolding ask_callback_def by (erule_tac seq_InrE) (simp add: attempt_Inr)
  then have a: "r = Inr True"
    by (cases r) (auto elim!: seq_InrE dest!: always_then_Inr)
  from r(2)[unfolded a] obtain g2 x y where g:
      "always_then (emit (Answered q True ''once'' ''approval_callback'')) (settle previous (Some True)) g1 = (Inr x, g2)"
      "?more True g2 = (Inr y, h)"
    unfolding sum.case by (elim seq_InrE) auto
  from g(2) obtain es where "gt_trace h = gt_trace g2 @ es"
    by (auto split: if_splits option.splits elim!: seq_InrE dest!: remember_choice_grows quiet_trace)
  moreover from g(1) have "gt_trace g2 = gt_trace g1 @ [Answered q True ''once'' ''approval_callback'']"
    by (auto dest!: always_then_Inr quiet_trace simp: emit_Inr)
  ultimately show ?thesis using r(1) by (auto dest!: quiet_trace simp: agrees_def)
qed

lemma ask_agreed:
  assumes "ask m q g = (Inr True, h)"
  shows "\<exists>es. gt_trace h = gt_trace g @ es \<and> (\<exists>e \<in> set es. agrees q e)"
proof (cases "is_auto_approvable_action (pq_action q) \<and> am_memory m \<and> is_remembered (gt_perms g) (pq_action q)")
  case True
  with assms show ?thesis by (auto simp: ask_def Let_def agrees_def emit_def)
next
  case False
  with assms obtain g1 g2 g3 previous x where g: "emit (Requested q) g = (Inr x, g1)"
      "on_gate_rc (mark_waiting_for_approval (waiting_message (pq_action q))) g1 = (Inr previous, g2)"
      "(case gt_task g2 of None \<Rightarrow> ret ()
        | Some tid \<Rightarrow> seq (on_gate_store (record_approval_requested tid (request_dict q))) (\<lambda>_. ret ())) g2 = (Inr (), g3)"
      "(case am_menu m of Some menu \<Rightarrow> ask_menu m menu q previous | None \<Rightarrow> ask_callback m q previous) g3 = (Inr True, h)"
    unfolding ask_def Let_def by (auto elim!: seq_InrE split: if_splits)
  have "gt_trace g3 = gt_trace g2"
    using g(3) by (auto elim!: seq_InrE dest!: quiet_trace split: option.splits)
  moreover have "\<exists>es. gt_trace h = gt_trace g3 @ es \<and> (\<exists>e \<in> set es. agrees q e)"
    using g(4) ask_menu_agreed ask_callback_agreed by (auto split: option.splits)
  ultimately show ?thesis using g(1) quiet_trace(1)[OF g(2)] by (auto simp: emit_Inr)
qed

subsection \<open>Files that stay\<close>

text \<open>
  Apart from what lies below \<open>.shamsu\<close>, a file has what it had or one of the contents \<open>T\<close> allows it.
\<close>

definition only_files :: "(path \<times> string option) set \<Rightarrow> disk \<Rightarrow> disk \<Rightarrow> bool" where
  "only_files T d e \<longleftrightarrow> (\<forall>p. \<not> internal p \<longrightarrow>
     content_at (dk_nodes e) p = content_at (dk_nodes d) p \<or> (p, content_at (dk_nodes e) p) \<in> T)"

interpretation files: evolution "only_files T" for T
proof
  show "only_files T d e \<Longrightarrow> only_files T e f \<Longrightarrow> only_files T d f" for d e f
    unfolding only_files_def by metis
qed (simp add: only_files_def)

lemma only_nodes: "dk_nodes e = dk_nodes d \<Longrightarrow> only_files T d e"
  by (simp add: only_files_def)

lemma files_bookkeeping:
  "evolves (only_files T) (write_manifest tx m) d" "evolves (only_files T) (known_manifest tx) d"
  "evolves (only_files T) (journal_append e) d" "evolves (only_files T) (save_patch tx s) d"
  "evolves (only_files T) new_transaction_id d"
  by (auto simp: evolves_def write_manifest_def known_manifest_def journal_append_def save_patch_def new_transaction_id_def
      intro!: only_nodes)

lemma files_on_nodes:
  assumes "\<And>ns r ms q. m ns = (r, ms) \<Longrightarrow> \<not> internal q \<Longrightarrow>
      content_at ms q = content_at ns q \<or> (q, content_at ms q) \<in> T"
  shows "evolves (only_files T) (on_nodes m) d"
  using assms by (simp add: evolves_def on_nodes_def only_files_def split: prod.splits)

lemma files_mkdir: "evolves (only_files T) (on_nodes (mkdir_parents p)) d"
  by (rule files_on_nodes) (simp add: mkdir_parents_def make_dirs_content)

lemma files_place:
  assumes "\<And>ns r ms q. m ns = (r, ms) \<Longrightarrow> q \<noteq> p \<Longrightarrow> lookup ms q = lookup ns q"
    and "internal p \<or> (\<forall>ns r ms. m ns = (r, ms) \<longrightarrow> lookup ms p = lookup ns p \<or> (p, content_at ms p) \<in> T)"
  shows "evolves (only_files T) (on_nodes m) d"
proof (rule files_on_nodes)
  fix ns r ms q assume m: "m ns = (r, ms)" and i: "\<not> internal q"
  then have "lookup ms q = lookup ns q \<or> (q, content_at ms q) \<in> T"
    using assms(1)[OF m, of q] assms(2) by (cases "q = p") auto
  then show "content_at ms q = content_at ns q \<or> (q, content_at ms q) \<in> T"
    using content_lookup by blast
qed

lemma files_write: "internal p \<or> (p, Some c) \<in> T \<Longrightarrow> evolves (only_files T) (on_nodes (write_text p c)) d"
  by (rule files_place[where p = p]) (auto simp: write_text_lookup content_at_def)

lemma files_unlink: "(p, None) \<in> T \<Longrightarrow> evolves (only_files T) (on_nodes (unlink p)) d"
  by (rule files_place[where p = p]) (auto simp: unlink_lookup content_at_def)

lemma internal_target: "internal p \<Longrightarrow> internal (real_target ns src p)"
  by (auto simp: internal_def real_target_def)

lemma files_copy: "internal p \<Longrightarrow> evolves (only_files T) (on_nodes (copy_file src p)) d"
proof (rule files_on_nodes)
  fix ns r ms q assume i: "internal p" "\<not> internal q" and run: "copy_file src p ns = (r, ms)"
  then have "q \<noteq> real_target ns src p" using internal_target by blast
  with run have "lookup ms q = lookup ns q"
    by (auto simp: copy_file_def write_text_lookup split: option.splits)
  then show "content_at ms q = content_at ns q \<or> (q, content_at ms q) \<in> T" using content_lookup by blast
qed


lemma evolves_if: "evolves R m s \<Longrightarrow> evolves R n s \<Longrightarrow> evolves R (if b then m else n) s"
  by simp

lemma files_begin: "evolves (only_files T) (begin_transaction reason ops destructive) d"
proof -
  have "evolves (only_files T) (\<lambda>d. (Inr (dk_clock d (dk_ticks d)), d\<lparr>dk_ticks := Suc (dk_ticks d)\<rparr>)) d" for d
    by (simp add: evolves_def only_nodes)
  then show ?thesis
    unfolding begin_transaction_def
    by (intro files.evolves_seq_all files_bookkeeping files_mkdir files.evolves_ret)
qed

lemma files_backup: "evolves (only_files T) (backup_file sb tx p) d"
proof -
  have i: "internal (tx_dir tx @ backup_rel p)" by (simp add: internal_def tx_dir_def)
  show ?thesis
    unfolding backup_file_def Let_def
    by (rule files.evolves_seq_all[OF files_bookkeeping(2)], rule evolves_if[OF files.evolves_ret],
      rule files.evolves_seq_all[OF files.evolves_lift], rule files.evolves_seq_all[OF files.evolves_gets],
      rule files.evolves_seq_all[OF _ files_bookkeeping(1)], rule evolves_if[OF files.evolves_ret],
      rule files.evolves_seq_all[OF files_mkdir], rule files.evolves_seq_all[OF files_copy[OF i] files.evolves_ret])
qed

lemma files_record: "evolves (only_files T) (record_after sb tx p) d"
  unfolding record_after_def by (intro files.evolves_seq_all files_bookkeeping files.evolves_reads)

lemma files_finalize: "evolves (only_files T) (finalize_transaction tx status error) d"
  unfolding finalize_transaction_def Let_def by (intro files.evolves_seq_all files_bookkeeping files.evolves_reads)

lemmas files_kept = files_bookkeeping files_mkdir files_write files_unlink files_copy files_begin files_backup files_record
  files_finalize files.evolves_reads

lemma files_store: "evolves (only_files ({target} \<times> {Some content})) (store_content env reason op p target b content patch_text) d"
  unfolding store_content_def by (intro files.evolves_seq_all files_kept evolves_if) simp

lemma files_or_failed: "evolves (only_files T) m d \<Longrightarrow> evolves (only_files T) (or_failed tx m) d"
proof -
  assume m: "evolves (only_files T) m d"
  have h: "only_files T e (snd ((case x of OSError message \<Rightarrow>
      seq (finalize_transaction tx ''failed'' []) (\<lambda>_. ret (Some message)) | _ \<Rightarrow> raise x) e))" for x e
    using files.evolves_seq_all[OF files_finalize files.evolves_ret, of T tx "''failed''" "[]"]
    by (cases x) (auto simp: evolves_def files.refl_R)
  show ?thesis
  proof (cases "m d")
    case (Pair r e)
    with m have "only_files T d e" by (simp add: evolves_def)
    then show ?thesis
      using files.trans_R[OF _ h] Pair by (cases r) (simp_all add: evolves_def or_failed_def catch_def seq_def)
  qed
qed

lemma files_delete: "evolves (only_files ({target} \<times> {None})) (store_delete env p target) d"
  unfolding store_delete_def by (auto intro!: files.evolves_seq_all files_kept files_or_failed split: option.splits)

subsection \<open>Moves\<close>

text \<open>Before the move itself, nothing outside \<open>.shamsu\<close> is touched and files stay files.\<close>

definition aside :: "disk \<Rightarrow> disk \<Rightarrow> bool" where
  "aside d e \<longleftrightarrow> (\<forall>p. \<not> internal p \<longrightarrow> lookup (dk_nodes e) p = lookup (dk_nodes d) p) \<and>
     (\<forall>p. is_file (dk_nodes d) p \<longrightarrow> is_file (dk_nodes e) p)"

interpretation aside: evolution aside
  by unfold_locales (simp_all add: aside_def)

lemma aside_nodes: "dk_nodes e = dk_nodes d \<Longrightarrow> aside d e"
  by (simp add: aside_def)

lemma aside_bookkeeping:
  "evolves aside (write_manifest tx m) d" "evolves aside (known_manifest tx) d" "evolves aside new_transaction_id d"
  by (auto simp: evolves_def write_manifest_def known_manifest_def new_transaction_id_def intro!: aside_nodes)

lemma aside_on_nodes:
  assumes "\<And>ns r ms q. m ns = (r, ms) \<Longrightarrow> lookup ms q = lookup ns q \<or> internal q \<and> (is_file ns q \<longrightarrow> is_file ms q)"
  shows "evolves aside (on_nodes m) d"
proof -
  obtain r ms where m: "m (dk_nodes d) = (r, ms)" by fastforce
  note l = assms[OF m]
  have "is_file ms q" if "is_file (dk_nodes d) q" for q
    using l[of q] that content_lookup[of ms q "dk_nodes d" q] by (auto simp: is_file_def)
  moreover have "lookup ms q = lookup (dk_nodes d) q" if "\<not> internal q" for q
    using l[of q] that by blast
  ultimately show ?thesis
    using m by (simp add: evolves_def on_nodes_def aside_def)
qed

lemma aside_mkdir: "internal p \<or> p = [] \<Longrightarrow> evolves aside (on_nodes (mkdir_parents p)) d"
proof (rule aside_on_nodes)
  fix ns r ms q assume i: "internal p \<or> p = []" and run: "mkdir_parents p ns = (r, ms)"
  have "lookup ms q = lookup ns q \<or> (lookup ns q = None \<and> prefix q p)"
    using make_dirs_lookup[OF run[unfolded mkdir_parents_def], of q] by auto
  moreover have "internal q" if "lookup ns q = None" "prefix q p"
    using that i internal_prefix[of q p] by (cases "q = []") auto
  ultimately show "lookup ms q = lookup ns q \<or> internal q \<and> (is_file ns q \<longrightarrow> is_file ms q)"
    by (auto simp: is_file_def content_at_def)
qed

lemma aside_copy: "internal p \<Longrightarrow> evolves aside (on_nodes (copy_file src p)) d"
proof (rule aside_on_nodes)
  fix ns r ms q assume i: "internal p" and run: "copy_file src p ns = (r, ms)"
  show "lookup ms q = lookup ns q \<or> internal q \<and> (is_file ns q \<longrightarrow> is_file ms q)"
  proof (cases "content_at ns src")
    case (Some c)
    with run write_text_lookup[of "real_target ns src p" c ns r ms q] internal_target[OF i, of ns src]
    show ?thesis by (auto simp: copy_file_def is_file_def content_at_def)
  qed (use run in \<open>simp add: copy_file_def\<close>)
qed

lemma aside_begin: "evolves aside (begin_transaction reason ops destructive) d"
proof -
  have "evolves aside (\<lambda>d. (Inr (dk_clock d (dk_ticks d)), d\<lparr>dk_ticks := Suc (dk_ticks d)\<rparr>)) d" for d
    by (simp add: evolves_def aside_nodes)
  moreover have "internal (tx_dir tx)" for tx by (simp add: internal_def tx_dir_def)
  ultimately show ?thesis
    unfolding begin_transaction_def
    by (intro aside.evolves_seq_all aside_bookkeeping aside_mkdir aside.evolves_ret) simp_all
qed

lemma aside_backup: "evolves aside (backup_file sb tx p) d"
proof -
  have i: "internal (tx_dir tx @ backup_rel p)" by (simp add: internal_def tx_dir_def)
  have j: "internal (butlast (tx_dir tx @ backup_rel p)) \<or> butlast (tx_dir tx @ backup_rel p) = []"
    by (simp add: internal_def tx_dir_def backup_rel_def butlast_append)
  show ?thesis
    unfolding backup_file_def Let_def
    by (rule aside.evolves_seq_all[OF aside_bookkeeping(2)], rule evolves_if[OF aside.evolves_ret],
      rule aside.evolves_seq_all[OF aside.evolves_lift], rule aside.evolves_seq_all[OF aside.evolves_gets],
      rule aside.evolves_seq_all[OF _ aside_bookkeeping(1)], rule evolves_if[OF aside.evolves_ret],
      rule aside.evolves_seq_all[OF aside_mkdir[OF j]], rule aside.evolves_seq_all[OF aside_copy[OF i] aside.evolves_ret])
qed

lemma files_relocate:
  assumes "is_file (dk_nodes d) src" "dst \<noteq> []" "internal dst \<or> \<not> is_dir (dk_nodes d) dst"
  shows "evolves (only_files ({src, dst} \<times> UNIV)) (seq (on_nodes (mkdir_parents (butlast dst))) (\<lambda>_. on_nodes (move src dst))) d"
proof (rule files.evolves_seq[OF files_mkdir])
  fix x t assume "on_nodes (mkdir_parents (butlast dst)) d = (Inr x, t)"
  then obtain ns where ns: "mkdir_parents (butlast dst) (dk_nodes d) = (Inr x, ns)" and t: "t = d\<lparr>dk_nodes := ns\<rparr>"
    by (auto simp: on_nodes_def split: prod.splits)
  note l = make_dirs_lookup[OF ns[unfolded mkdir_parents_def]]
  have src: "is_file ns src" using l[of src] assms(1) by (auto simp: is_file_def content_at_def)
  then have s: "\<not> is_dir ns src" "src \<noteq> []" by (auto simp: is_file_def is_dir_def content_at_def)
  have dst: "internal dst \<or> real_target ns src dst = dst"
    using l[of dst] assms(2,3) not_prefix_butlast[OF assms(2), of dst] by (auto simp: real_target_def is_dir_def)
  obtain r ms where m: "move src dst ns = (r, ms)" by fastforce
  have "content_at ms q = content_at ns q" if "\<not> internal q" "q \<notin> {src, dst}" for q
  proof -
    have "q \<noteq> real_target ns src dst" "real_target ns src dst \<noteq> []"
      using that dst internal_target[of dst ns src] assms(2) by (auto simp: real_target_def)
    with move_lookup[OF m s, of q] that(2) show ?thesis by (intro content_lookup) auto
  qed
  with m t show "evolves (only_files ({src, dst} \<times> UNIV)) (on_nodes (move src dst)) t"
    by (auto simp: evolves_def on_nodes_def only_files_def)
qed

lemma files_move:
  assumes "is_file (dk_nodes d) (vj_source j)" "\<not> present (dk_nodes d) (vj_target j)"
  shows "evolves (only_files ({vj_source j, vj_target j} \<times> UNIV)) (store_move env j) d"
proof -
  have ne: "vj_target j \<noteq> []" using assms(2) by (auto simp: present_def)
  have absent: "internal (vj_target j) \<or> \<not> is_dir (dk_nodes e) (vj_target j)" "is_file (dk_nodes e) (vj_source j)"
    if "aside d e" for e
    using that assms by (auto simp: aside_def is_dir_def present_def)
  show ?thesis
    unfolding store_move_def
  proof (rule files.evolves_seq[OF files_begin], rule files.evolves_seq[OF files_backup], rule files.evolves_seq)
    fix tx t u x
    assume b: "begin_transaction (''Agent move_file: '' @ vj_from j @ '' -> '' @ vj_to j) [file_op MOVE_FILE (vj_from j) (vj_to j) []] True d = (Inr tx, t)"
      and k: "backup_file (te_sandbox env) tx (vj_from j) t = (Inr x, u)"
    have "aside d u"
      using aside.trans_R evolvesD[OF aside_begin b] evolvesD[OF aside_backup k] by blast
    note r = files_relocate[OF absent(2)[OF this] ne absent(1)[OF this]]
    show "evolves (only_files ({vj_source j, vj_target j} \<times> UNIV)) (or_failed tx (seq (on_nodes (mkdir_parents (butlast (vj_target j))))
        (\<lambda>_. on_nodes (move (vj_source j) (vj_target j))))) u"
      by (rule files_or_failed[OF r])
  next
    fix tx t u x and failed :: "string option" and v
    show "evolves (only_files ({vj_source j, vj_target j} \<times> UNIV)) (case failed of Some message \<Rightarrow> ret (Inl message)
      | None \<Rightarrow> seq (record_after (te_sandbox env) tx (vj_to j)) (\<lambda>_.
          seq (finalize_transaction tx ''applied'' []) (\<lambda>_. ret (Inr tx)))) v"
      by (cases failed) (auto intro!: files.evolves_seq_all files_record files_finalize files.evolves_ret)
  qed
qed

end
