(* ===== verification/ToolSafety.thy ===== *)
theory ToolSafety
  imports ToolFrames CommandSafety
begin

text \<open>
  What the tools that change files may do: a file changes only if the registry may write, the file is in
  the scope of the task and the user, or what the user had granted before, agreed to a request that names it.
\<close>

subsection \<open>Consent to a file\<close>

definition consents :: "tool_env \<Rightarrow> path \<Rightarrow> gate_event \<Rightarrow> bool" where
  "consents env p e \<longleftrightarrow> (\<exists>q. agrees q e \<and> (\<exists>n \<in> set (pq_targets q). te_sandbox env n = Inr p))"

text \<open>The scope of a task: the items, what lies below them, and names without a directory wherever they are.\<close>

definition scoped :: "string list option \<Rightarrow> path \<Rightarrow> bool" where
  "scoped scope p \<longleftrightarrow> (case scope of None \<Rightarrow> True | Some items \<Rightarrow>
     in_scope items (lower (as_posix p)) \<or>
     (\<exists>item \<in> set items. CHR ''/'' \<notin> set (rstrip_of ''/'' (lstrip_of ''/'' item)) \<and>
        lower (base_name item) = lower (base_name (lower (as_posix p)))))"

definition permitted :: "registry \<Rightarrow> path \<Rightarrow> bool" where
  "permitted rg p \<longleftrightarrow> \<not> rg_read_only rg \<and> \<not> rg_dry rg \<and> scoped (rg_write rg) p"

definition file_step :: "tool_env \<Rightarrow> desk \<Rightarrow> desk \<Rightarrow> bool" where
  "file_step env s t \<longleftrightarrow> ds_registry t = ds_registry s \<and>
     (\<exists>es. gt_trace (ds_gate t) = gt_trace (ds_gate s) @ es \<and>
        (\<forall>p. \<not> internal p \<longrightarrow> content_at (dk_nodes (ds_disk t)) p \<noteq> content_at (dk_nodes (ds_disk s)) p \<longrightarrow>
           permitted (ds_registry s) p \<and> (\<exists>e \<in> set es. consents env p e)))"

interpretation steps: evolution "file_step env" for env
proof
  show "file_step env s s" for s by (simp add: file_step_def)
next
  fix s t u assume a: "file_step env s t" "file_step env t u"
  then obtain es fs where
      e: "gt_trace (ds_gate t) = gt_trace (ds_gate s) @ es" "gt_trace (ds_gate u) = gt_trace (ds_gate t) @ fs"
        "\<And>p. \<not> internal p \<Longrightarrow> content_at (dk_nodes (ds_disk t)) p \<noteq> content_at (dk_nodes (ds_disk s)) p \<Longrightarrow>
           permitted (ds_registry s) p \<and> (\<exists>e \<in> set es. consents env p e)"
        "\<And>p. \<not> internal p \<Longrightarrow> content_at (dk_nodes (ds_disk u)) p \<noteq> content_at (dk_nodes (ds_disk t)) p \<Longrightarrow>
           permitted (ds_registry s) p \<and> (\<exists>e \<in> set fs. consents env p e)"
      and rg: "ds_registry u = ds_registry s"
    unfolding file_step_def by auto
  have "permitted (ds_registry s) p \<and> (\<exists>e \<in> set (es @ fs). consents env p e)"
    if "\<not> internal p" "content_at (dk_nodes (ds_disk u)) p \<noteq> content_at (dk_nodes (ds_disk s)) p" for p
    using e(3,4)[OF that(1)] that(2) by fastforce
  then show "file_step env s u"
    unfolding file_step_def using rg e(1,2) by (intro conjI exI[of _ "es @ fs"]) simp_all
qed

subsection \<open>Verdicts\<close>

lemma never_agreed [simp]:
  "refusal message data \<noteq> Agreed j" "security_refusal e p d \<noteq> Agreed j" "missing_file env rg ns verb tool o' p \<noteq> Agreed j"
  "edit_failed env p content old f \<noteq> Agreed j" "elided_refusal p label \<noteq> Agreed j"
  by (simp_all add: refusal_def security_refusal_def missing_file_def Let_def edit_failed_def elided_refusal_def split: edit_failure.split)

lemma in_write_scope:
  assumes "outside_allowed_scope env rg ns f = None" and "normalize_workspace_path f \<noteq> []"
    and "te_sandbox env (normalize_workspace_path f) = Inr t"
  shows "scoped (rg_write rg) t"
proof (cases "rg_write rg")
  case (Some items)
  have inside: "inside_text env f = lower (as_posix t)"
    using assms(2,3) by (simp add: inside_text_def normalized_or_def Let_def)
  from assms(1) Some have "in_scope items (inside_text env f) \<or>
      allowed_by_unique_basename_scope env rg ns (inside_text env f) items"
    by (auto simp: outside_allowed_scope_def Let_def split: if_splits)
  moreover have "\<exists>item \<in> set items. CHR ''/'' \<notin> set (rstrip_of ''/'' (lstrip_of ''/'' item)) \<and> lower (base_name item) = lower (base_name n)"
    if "allowed_by_unique_basename_scope env rg ns n items" for n
  proof -
    from that have "basename_scopes items (lower (base_name n)) \<noteq> []"
      by (auto simp: allowed_by_unique_basename_scope_def Let_def split: if_splits)
    then show ?thesis by (auto simp: basename_scopes_def filter_empty_conv)
  qed
  ultimately show ?thesis using Some by (auto simp: scoped_def inside)
qed (simp add: scoped_def)

lemma judge_write_agreed:
  "judge_write env filepath content b s = Agreed j \<Longrightarrow>
     permitted (ds_registry s) (wj_target j) \<and> te_sandbox env (wj_path j) = Inr (wj_target j)"
  unfolding judge_write_def Let_def permitted_def
  by (auto split: if_splits option.splits sum.splits dest: in_write_scope)

lemma judge_edit_agreed:
  "judge_edit env filepath old new b s = Agreed j \<Longrightarrow>
     permitted (ds_registry s) (ej_target j) \<and> te_sandbox env (ej_path j) = Inr (ej_target j)"
  unfolding judge_edit_def Let_def permitted_def
  by (auto split: if_splits option.splits sum.splits dest: in_write_scope)

lemma judge_append_agreed:
  "judge_append env filepath content s = Agreed j \<Longrightarrow>
     permitted (ds_registry s) (pj_target j) \<and> te_sandbox env (pj_path j) = Inr (pj_target j)"
  unfolding judge_append_def Let_def permitted_def
  by (auto split: if_splits option.splits sum.splits dest: in_write_scope)

lemma judge_move_agreed:
  "judge_move env source destination s = Agreed j \<Longrightarrow>
     permitted (ds_registry s) (vj_source j) \<and> te_sandbox env (vj_from j) = Inr (vj_source j) \<and>
     permitted (ds_registry s) (vj_target j) \<and> te_sandbox env (vj_to j) = Inr (vj_target j) \<and>
     is_file (dk_nodes (ds_disk s)) (vj_source j) \<and> \<not> present (dk_nodes (ds_disk s)) (vj_target j)"
  unfolding judge_move_def Let_def permitted_def
  by (auto split: if_splits option.splits sum.splits dest: in_write_scope)

lemma judge_delete_agreed:
  "judge_delete env filepath s = Agreed (p, target) \<Longrightarrow>
     permitted (ds_registry s) target \<and> te_sandbox env p = Inr target"
  unfolding judge_delete_def Let_def permitted_def
  by (auto split: if_splits option.splits sum.splits dest: in_write_scope)

subsection \<open>Steps\<close>

lemma step_planned: "evolves (file_step env) (planned action p detail bytes) s"
  by (simp add: evolves_def planned_def record_planned_def file_step_def)

lemma step_on_gate:
  assumes "m (ds_gate s) = (r, g)" and "\<exists>es. gt_trace g = gt_trace (ds_gate s) @ es"
  shows "evolves (file_step env) (on_gate m) s"
  using assms by (auto simp: evolves_def on_gate_def file_step_def)

lemma ask_grows: "ask m q g = (r, h) \<Longrightarrow> \<exists>es. gt_trace h = gt_trace g @ es"
  using growing.ev_ask[of m q g] by (simp add: evolves_def)

text \<open>A change after the question touches the files the question names.\<close>

lemma step_asked:
  assumes targets: "\<And>p c. (p, c) \<in> T \<Longrightarrow> permitted (ds_registry s) p \<and> (\<exists>n \<in> set (pq_targets q). te_sandbox env n = Inr p)"
    and change: "\<And>d. d = ds_disk s \<Longrightarrow> evolves (only_files T) m d"
    and result: "\<And>x t. evolves (\<lambda>s t. t = s) (f x) t"
  shows "evolves (file_step env) (asked_first env q denied (seq (on_disk m) f)) s"
proof -
  obtain r g where ask: "ask (te_manager env) q (ds_gate s) = (r, g)" by fastforce
  have quiet: "snd (f x t) = t" for x t using result[of x t] by (simp add: evolves_def)
  show ?thesis
  proof (cases "r = Inr True")
    case True
    then obtain es where es: "gt_trace g = gt_trace (ds_gate s) @ es" "\<exists>e \<in> set es. agrees q e"
      using ask_agreed ask by blast
    obtain x d where m: "m (ds_disk s) = (x, d)" by fastforce
    have "only_files T (ds_disk s) d" using change[OF refl] m by (simp add: evolves_def)
    then have "permitted (ds_registry s) p \<and> (\<exists>e \<in> set es. consents env p e)"
      if "\<not> internal p" "content_at (dk_nodes d) p \<noteq> content_at (dk_nodes (ds_disk s)) p" for p
      using that targets[of p] es(2) unfolding only_files_def consents_def by blast
    moreover have "snd (asked_first env q denied (seq (on_disk m) f) s) = s\<lparr>ds_gate := g, ds_disk := d\<rparr>"
      using ask m True by (cases x) (simp_all add: asked_first_def on_gate_def on_disk_def seq_def quiet)
    ultimately show ?thesis
      using es(1) by (auto simp: evolves_def file_step_def)
  next
    case False
    then have "snd (asked_first env q denied (seq (on_disk m) f) s) = s\<lparr>ds_gate := g\<rparr>"
      using ask by (cases r) (auto simp: asked_first_def on_gate_def seq_def)
    with ask_grows[OF ask] show ?thesis by (simp add: evolves_def file_step_def)
  qed
qed

lemma step_verdict:
  "(\<And>j. v = Agreed j \<Longrightarrow> evolves (file_step env) (commit j) s) \<Longrightarrow> evolves (file_step env) (run_verdict commit v) s"
  by (cases v) (simp_all add: run_verdict_def steps.evolves_ret step_planned)

lemma step_tool:
  assumes "\<And>j. judge s = Agreed j \<Longrightarrow> evolves (file_step env) (commit j) s"
  shows "evolves (file_step env) (seq (gets judge) (run_verdict commit)) s"
  using step_verdict[of "judge s" env commit s] assms by (simp add: evolves_def)

lemma step_stored:
  assumes "permitted (ds_registry s) target \<and> te_sandbox env p = Inr target" and "p \<in> set (pq_targets q)"
    and "evolves (only_files ({target} \<times> C)) m (ds_disk s)" and "\<And>x t. evolves (\<lambda>s t. t = s) (f x) t"
  shows "evolves (file_step env) (asked_first env q denied (seq (on_disk m) f)) s"
  by (rule step_asked[where T = "{target} \<times> C"]) (use assms in auto)

lemma file_request_targets [simp]: "pq_targets (file_request env action description risk preview reason targets) = targets"
  by (simp add: file_request_def)

lemma step_write: "evolves (file_step env) (write_file_tool env filepath content b) s"
  unfolding write_file_tool_def commit_write_def Let_def
  by (rule step_tool, rule step_stored[OF judge_write_agreed _ files_store])
    (simp_all add: evolves_def split: prod.split)

lemma step_edit: "evolves (file_step env) (edit_file_tool env filepath old new b) s"
  unfolding edit_file_tool_def commit_edit_def Let_def
  by (rule step_tool, rule step_stored[OF judge_edit_agreed _ files_store])
    (simp_all add: evolves_def split: prod.split)

lemma step_append: "evolves (file_step env) (append_file_tool env filepath content) s"
  unfolding append_file_tool_def commit_append_def Let_def
  by (rule step_tool, rule step_stored[OF judge_append_agreed _ files_store])
    (simp_all add: evolves_def split: prod.split)

lemma step_delete: "evolves (file_step env) (delete_file_tool env filepath) s"
  unfolding delete_file_tool_def
proof (rule step_tool)
  fix j assume "judge_delete env filepath s = Agreed j"
  then show "evolves (file_step env) (commit_delete env j) s"
    unfolding commit_delete_def
    by (cases j) (simp, rule step_stored[OF judge_delete_agreed _ files_delete], simp_all add: evolves_def)
qed

lemma step_move: "evolves (file_step env) (move_file_tool env source destination) s"
  unfolding move_file_tool_def
proof (rule step_tool)
  fix j assume "judge_move env source destination s = Agreed j"
  note a = judge_move_agreed[OF this]
  show "evolves (file_step env) (commit_move env j) s"
    unfolding commit_move_def
    by (rule step_asked[where T = "{vj_source j, vj_target j} \<times> UNIV"])
      (use a files_move[of "ds_disk s" j env] in \<open>auto simp: evolves_def\<close>)
qed

subsection \<open>Calls\<close>

definition file_tools :: "string list" where
  "file_tools = [''edit_file'', ''append_file'', ''write_file'', ''move_file'', ''delete_file'']"

text \<open>The tools whose calls are followed; \<open>file.patch\<close> exists where logical tools are enabled.\<close>

definition changes_files :: "registry \<Rightarrow> string \<Rightarrow> bool" where
  "changes_files rg name \<longleftrightarrow> name \<in> set file_tools \<or> (rg_logical rg \<and> name = ''file.patch'')"

primrec run_calls :: "tool_env \<Rightarrow> (string \<times> dict) list \<Rightarrow> desk \<Rightarrow> desk" where
  "run_calls env [] s = s"
| "run_calls env (c # cs) s = run_calls env cs (snd (execute_tool env (fst c) (snd c) s))"

lemma step_patch: "evolves (file_step env) (file_patch env arguments) s"
  unfolding file_patch_def Let_def
  by (rule evolves_if[OF steps.evolves_seq[OF step_edit steps.evolves_ret]],
    rule evolves_if[OF steps.evolves_seq[OF step_append steps.evolves_ret]],
    rule evolves_if[OF steps.evolves_seq[OF step_write steps.evolves_ret] steps.evolves_ret])

lemma step_dispatch: "name \<in> set file_tools \<Longrightarrow> evolves (file_step env) (dispatch env name arguments) s"
  unfolding dispatch_def Let_def
  by (auto simp: file_tools_def step_edit step_append step_write step_move step_delete)

lemma step_low_level: "name \<in> set file_tools \<Longrightarrow> evolves (file_step env) (execute_low_level env name arguments) s"
  unfolding execute_low_level_def
  by (rule steps.evolves_seq[OF steps.evolves_gets])
    (auto intro!: steps.evolves_ret step_dispatch split: option.split)

lemma step_logical: "evolves (file_step env) (execute_logical env ''file.patch'' arguments) s"
proof -
  have "evolves (file_step env) (if phase \<notin> set (ls_phases spec) then ret x else
      seq (if ''file.patch'' = ''file.patch'' then file_patch env arguments
              else if ''file.patch'' = ''test.run'' then test_run_tool env arguments
              else if ''file.patch'' = ''scope.expand'' then request_scope_expansion env arguments
              else te_elsewhere env ''file.patch'' arguments) (\<lambda>r. ret (with_metadata spec r))) s" for phase spec x s
    unfolding if_P[OF refl] by (intro evolves_if steps.evolves_ret steps.evolves_seq[OF step_patch])
  then show ?thesis
    unfolding execute_logical_def
    by (cases "find_spec ''file.patch''") (simp_all only: option.case steps.evolves_ret steps.evolves_seq[OF steps.evolves_gets])
qed

lemma plain_names:
  "is_logical_tool ''file.patch''" "\<not> is_logical_tool ''edit_file''" "\<not> is_logical_tool ''append_file''"
  "\<not> is_logical_tool ''write_file''" "\<not> is_logical_tool ''move_file''" "\<not> is_logical_tool ''delete_file''"
  by code_simp+

lemma logical_names:
  "is_logical_tool ''file.patch''" "name \<in> set file_tools \<Longrightarrow> \<not> is_logical_tool name"
  "name \<in> set file_tools \<Longrightarrow> name \<noteq> ''request_scope_expansion''"
  unfolding file_tools_def list.set insert_iff empty_iff using plain_names by auto

lemma file_aliases:
  "tool_alias ''edit_file'' arguments = Some (''file.patch'', alias_patch_args ''edit_file'' arguments)"
  "tool_alias ''append_file'' arguments = Some (''file.patch'', alias_patch_args ''append_file'' arguments)"
  "tool_alias ''write_file'' arguments = Some (''file.patch'', alias_patch_args ''write_file'' arguments)"
  "tool_alias ''move_file'' arguments = None" "tool_alias ''delete_file'' arguments = None"
  by (simp_all add: tool_alias_def starts_with_def)

lemma file_alias: "name \<in> set file_tools \<Longrightarrow> tool_alias name arguments =
    (if name = ''move_file'' \<or> name = ''delete_file'' then None else Some (''file.patch'', alias_patch_args name arguments))"
  unfolding file_tools_def list.set insert_iff empty_iff
  by (elim disjE) (simp_all add: file_aliases)

lemma denied_step [simp]: "\<not> tl_ok (not_in_step s p a b c)"
  by (simp add: not_in_step_def tool_result_def)

text \<open>A call ends with the logical patch, or with the tool of its own name.\<close>

lemma call_route:
  assumes "changes_files (ds_registry s) name"
  obtains r where "execute_call env name arguments s = (Inr r, s)" "\<not> tl_ok r"
  | args where "name \<noteq> ''move_file''" "name \<noteq> ''delete_file''" "logical_tool_allowed (ds_registry s) ''file.patch''" "rg_logical (ds_registry s)"
      "execute_call env name arguments s = execute_logical env ''file.patch'' args s"
  | "name \<in> set file_tools" "\<not> rg_logical (ds_registry s) \<or> (name = ''move_file'' \<or> name = ''delete_file'')"
      "execute_call env name arguments s = execute_low_level env name arguments s"
proof (cases "name = ''file.patch''")
  case True
  with assms have l: "rg_logical (ds_registry s)" by (auto simp: changes_files_def file_tools_def)
  show thesis
  proof (cases "logical_tool_allowed (ds_registry s) ''file.patch''")
    case False
    then show thesis using that(1) True l by (simp add: execute_call_def logical_names)
  next
    case allowed: True
    then show thesis using that(2) True l by (simp add: execute_call_def logical_names)
  qed
next
  case False
  with assms have n: "name \<in> set file_tools" by (simp add: changes_files_def)
  show thesis
  proof (cases "rg_logical (ds_registry s) \<and> \<not> (name = ''move_file'' \<or> name = ''delete_file'')")
    case True
    then have "execute_call env name arguments s = (if \<not> logical_tool_allowed (ds_registry s) ''file.patch''
        then (Inr (not_in_step s (effective_phase env s) ''file.patch'' name ''Logical tool is not in the active plan step's allowed tools.''), s)
        else execute_logical env ''file.patch'' (alias_patch_args name arguments) s)"
      using n by (simp add: execute_call_def logical_names file_alias)
    with that(1,2) True show thesis by (auto split: if_splits)
  next
    case False
    then have "execute_call env name arguments s = execute_low_level env name arguments s"
      using n by (auto simp: execute_call_def logical_names file_alias)
    with that(3) n False show thesis by blast
  qed
qed

lemma step_call: "changes_files (ds_registry s) name \<Longrightarrow> file_step env s (snd (execute_tool env name arguments s))"
proof -
  assume c: "changes_files (ds_registry s) name"
  have "evolves (file_step env) (execute_call env name arguments) s"
    using c
  proof (rule call_route[of s name env arguments])
    fix r assume "execute_call env name arguments s = (Inr r, s)"
    then show ?thesis by (simp add: evolves_def steps.refl_R)
  next
    fix args assume "execute_call env name arguments s = execute_logical env ''file.patch'' args s"
    with step_logical show ?thesis by (simp add: evolves_def)
  next
    assume "name \<in> set file_tools" "execute_call env name arguments s = execute_low_level env name arguments s"
    with step_low_level show ?thesis by (simp add: evolves_def)
  qed
  then show ?thesis by (auto simp: execute_tool_def evolves_def split: prod.splits sum.splits)
qed

lemma steps_calls:
  "\<forall>c \<in> set calls. changes_files (ds_registry s) (fst c) \<Longrightarrow> file_step env s (run_calls env calls s)"
proof (induction calls arbitrary: s)
  case (Cons c calls)
  then have one: "file_step env s (snd (execute_tool env (fst c) (snd c) s))"
    using step_call by simp
  then have "ds_registry (snd (execute_tool env (fst c) (snd c) s)) = ds_registry s"
    by (simp add: file_step_def)
  with Cons show ?case using steps.trans_R[OF one] by simp
qed (simp add: steps.refl_R)

subsection \<open>A desk to evaluate on\<close>

definition demo_registry :: registry where
  "demo_registry = \<lparr>rg_read_only = False, rg_dry = False, rg_write = Some [''a.txt''], rg_read = None, rg_request = [],
     rg_prefix = [], rg_tools = None, rg_phase = Some AUTHOR, rg_risk = ''medium'', rg_capabilities = [], rg_logical = False,
     rg_aliases = []\<rparr>"

definition demo_desk :: desk where
  "demo_desk = \<lparr>ds_registry = demo_registry, ds_gate = demo_gate, ds_disk = demo_files, ds_planned = []\<rparr>"

definition demo_bench :: tool_env where
  "demo_bench = \<lparr>te_sandbox = demo_sandbox, te_root = ''/w'', te_manager = demo_yes, te_runner = demo_shell,
     te_world = (\<lambda>_. demo_project), te_aftermath = (\<lambda>_ ns. ns), te_walk = (\<lambda>_. [''a.txt'', ''b.txt'']),
     te_indexed = (\<lambda>_. [''a.txt'', ''b.txt'']), te_check = (\<lambda>_ _. None), te_peek = (\<lambda>_ _. None), te_loads = (\<lambda>_. None),
     te_diff = (\<lambda>_ _ _ _. ''diff''), te_changes = (\<lambda>_ _. (1, 1)), te_hint = (\<lambda>_ _. []), te_excerpt = (\<lambda>_ _. []),
     te_candidates = (\<lambda>_ _. []), te_show = (\<lambda>_. []), te_context_phase = (\<lambda>_. None), te_expand = None,
     te_elsewhere = (\<lambda>_ _. ret (tool_result False [] []))\<rparr>"

definition demo_edit :: dict where
  "demo_edit = [(''filepath'', JStr ''a.txt''), (''old_string'', JStr ''x''), (''new_string'', JStr ''z'')]"

lemma demo_edited:
  "content_at (dk_nodes (ds_disk (snd (execute_tool demo_bench ''edit_file'' demo_edit demo_desk)))) [''a.txt''] = Some ''z''"
  by code_simp

end
