(* ===== verification/ToolUndo.thy ===== *)
theory ToolUndo
  imports ToolSafety
begin

text \<open>
  What a tool did to the files can be undone: the transaction a successful call reports is tracked, so
  rolling it back gives every file its content back.
\<close>

subsection \<open>What a result names\<close>

lemma dict_get_of [simp]: "dict_get (dict_of d) k = map_of (rev d) k"
  by (induction d rule: rev_induct) (auto simp: dict_of_def dict_get_def)

definition named :: "tool_result \<Rightarrow> string list" where
  "named r = concat (map (\<lambda>k. case dict_get (tl_data r) k of Some (JStr p) \<Rightarrow> [p] | _ \<Rightarrow> []) [''filepath'', ''source''])"

definition transaction_of :: "tool_result \<Rightarrow> string option" where
  "transaction_of r = (case dict_get (tl_data r) ''transaction_id'' of Some (JStr tx) \<Rightarrow> Some tx | _ \<Rightarrow> None)"

lemma about_wrapped [simp]:
  "named (with_metadata spec r) = named r" "transaction_of (with_metadata spec r) = transaction_of r"
  "tl_ok (with_metadata spec r) = tl_ok r"
  "named (patch_touched p r) = named r" "transaction_of (patch_touched p r) = transaction_of r"
  "tl_ok (patch_touched p r) = tl_ok r"
  by (simp_all add: named_def transaction_of_def with_metadata_def patch_touched_def Let_def)

subsection \<open>Transactions of the tools are tracked\<close>

lemma keeps_run:
  "keeps tx base names R m S \<Longrightarrow> tracked tx base names R d \<Longrightarrow> m d = (Inr x, e) \<Longrightarrow> tracked tx base names (S x) e"
  unfolding keeps_def by fastforce

lemma keeps_may_make:
  "tidy sb tx base names \<Longrightarrow> r \<in> set names \<Longrightarrow>
     keeps tx base names R (if b then on_nodes (mkdir_parents (butlast (posix_parts r))) else ret ()) (\<lambda>_. R)"
  by (intro keeps_if keeps_mkdir(1) keeps_pure(4)) simp_all

lemma store_content_tracked:
  assumes t: "tidy (te_sandbox env) (next_transaction d) (dk_nodes d) names" "p \<in> set names"
    and run: "store_content env reason op p (posix_parts p) b content patch_text d = (Inr x, e)"
  shows "x = next_transaction d \<and> tracked (next_transaction d) (dk_nodes d) names {} e"
proof -
  let ?tx = "next_transaction d"
  from run obtain y d1 where begun: "begin_transaction reason [op] False d = (Inr y, d1)"
      and rest: "seq (backup_file (te_sandbox env) y p) (\<lambda>_.
         seq (if b then on_nodes (mkdir_parents (butlast (posix_parts p))) else ret ()) (\<lambda>_.
         seq (on_nodes (write_text (posix_parts p) content)) (\<lambda>_.
         seq (record_after (te_sandbox env) y p) (\<lambda>_.
         seq (save_patch y patch_text) (\<lambda>_.
         seq (finalize_transaction y ''applied'' []) (\<lambda>_. ret y)))))) d1 = (Inr x, e)"
    unfolding store_content_def by (erule_tac seq_InrE)
  note b = begin_tracks[OF t(1) refl begun]
  from rest obtain d2 d3 d4 d5 d6 d7 u2 u3 u4 u5 u6 u7 where
      steps: "backup_file (te_sandbox env) y p d1 = (Inr u2, d2)"
        "(if b then on_nodes (mkdir_parents (butlast (posix_parts p))) else ret ()) d2 = (Inr u3, d3)"
        "on_nodes (write_text (posix_parts p) content) d3 = (Inr u4, d4)"
        "record_after (te_sandbox env) y p d4 = (Inr u5, d5)" "save_patch y patch_text d5 = (Inr u6, d6)"
        "finalize_transaction y ''applied'' [] d6 = (Inr u7, d7)" "ret y d7 = (Inr x, e)"
    by (elim seq_InrE) (rule that)
  then have fin: "finalize_transaction y ''applied'' [] d6 = (Inr u7, e)" and x: "x = y" by simp_all
  from b have y: "y = ?tx" and "tracked ?tx (dk_nodes d) names {} d1" by simp_all
  then have "tracked ?tx (dk_nodes d) names {p} d2"
    using keeps_run[OF keeps_backup[OF t] _ steps(1)[unfolded y]] by simp
  from keeps_run[OF keeps_may_make[OF t] this steps(2)] have "tracked ?tx (dk_nodes d) names {p} d3" .
  from keeps_run[OF keeps_write[OF t singletonI] this steps(3)] have "tracked ?tx (dk_nodes d) names {p} d4" by simp
  from keeps_run[OF keeps_record[OF singletonI] this steps(4)[unfolded y]] have "tracked ?tx (dk_nodes d) names {p} d5" by simp
  from keeps_run[OF keeps_save_patch this steps(5)[unfolded y]] have "tracked ?tx (dk_nodes d) names {p} d6" .
  from keeps_run[OF keeps_finalize this fin[unfolded y]] have "tracked ?tx (dk_nodes d) names {p} e" by simp
  with x y show ?thesis by (auto intro: tracked_less)
qed

lemma store_delete_tracked:
  assumes t: "tidy (te_sandbox env) (next_transaction d) (dk_nodes d) names" "p \<in> set names"
    and run: "store_delete env p (posix_parts p) d = (Inr (Inr x), e)"
  shows "x = next_transaction d \<and> tracked (next_transaction d) (dk_nodes d) names {} e"
proof -
  let ?tx = "next_transaction d"
  from run obtain y d1 d2 d3 d4 z u v where
      begun: "begin_transaction (''Agent delete_file: '' @ p) [file_op DELETE_FILE p [] []] True d = (Inr y, d1)"
      and steps: "backup_file (te_sandbox env) y p d1 = (Inr u, d2)"
        "or_failed y (on_nodes (unlink (posix_parts p))) d2 = (Inr None, d3)"
        "finalize_transaction y ''applied'' [] d3 = (Inr v, e)" "x = y"
    unfolding store_delete_def by (auto elim!: seq_InrE split: option.splits)
  note b = begin_tracks[OF t(1) refl begun]
  then have [simp]: "y = ?tx" by simp
  from steps(2) have unlinked: "on_nodes (unlink (posix_parts p)) d2 = (Inr (), d3)"
    by (auto simp: or_failed_def catch_def seq_def split: prod.splits sum.splits py_error.splits)
  have "tracked ?tx (dk_nodes d) names {p} d2"
    using keeps_run[OF keeps_backup[OF t]] b steps(1) by simp
  then have "tracked ?tx (dk_nodes d) names {p} d3"
    using keeps_run[OF keeps_unlink[OF t]] unlinked by simp
  then have "tracked ?tx (dk_nodes d) names {p} e"
    using keeps_run[OF keeps_finalize _ steps(3)] by simp
  with steps(4) show ?thesis by (auto intro: tracked_less)
qed

subsection \<open>Moves\<close>

text \<open>The place a file was moved to is in the manifest, without an entry that there was a file before.\<close>

definition restorable :: "string \<Rightarrow> nodes \<Rightarrow> string list \<Rightarrow> disk \<Rightarrow> bool" where
  "restorable tx base names d \<longleftrightarrow> (\<exists>m. load_manifest d tx = Some m \<and> mf_status m \<noteq> ''rolled_back'' \<and>
     set (mf_touched m) \<subseteq> set names \<and> restoring tx base names m {} (dk_nodes d))"

lemma tracked_restorable: "tracked tx base names R d \<Longrightarrow> restorable tx base names d"
  unfolding tracked_def restorable_def good_def restoring_def by auto

lemma restoring_moved:
  assumes t: "tidy sb tx base names" "p \<in> set names" "q \<in> set names" "content_at base (posix_parts q) = None"
    and g: "good tx base names {p} m ns" and run: "move (posix_parts p) (posix_parts q) ns = (x, ms)"
    and m': "mf_before m' = mf_before m" "mf_backups m' = mf_backups m" "set (mf_touched m') = insert q (set (mf_touched m))"
  shows "set (mf_touched m') \<subseteq> set names \<and> restoring tx base names m' {} ms"
proof -
  have g': "set (mf_touched m) \<subseteq> set names" "p \<in> set (mf_touched m)"
      "\<And>r. map_of (mf_before m) r \<noteq> None \<longleftrightarrow> r \<in> set (mf_touched m)"
      "\<And>r. r \<in> set (mf_touched m) \<Longrightarrow> saved tx base m ns r"
      "\<And>p. \<not> internal p \<Longrightarrow> p \<notin> posix_parts ` set (mf_touched m) \<Longrightarrow> content_at ns p = content_at base p"
      "\<And>r. r \<in> set names \<Longrightarrow> \<not> is_dir ns (posix_parts r)"
      "\<And>q. \<not> internal q \<Longrightarrow> is_dir base q \<Longrightarrow> is_dir ns q"
    using g unfolding good_def by blast+
  have real: "real_target ns (posix_parts p) (posix_parts q) = posix_parts q"
    using g'(6)[OF t(3)] by (simp add: real_target_def)
  have l: "lookup ms u = lookup ns u \<or> (u = posix_parts p \<and> lookup ms u = None \<and> lookup ns u \<noteq> Some Dir)
    \<or> (u = posix_parts q \<and> (\<exists>c. lookup ms u = Some (File c)) \<and> lookup ns u \<noteq> Some Dir)" for u
    using move_lookup[OF run g'(6)[OF t(2)] tidy_name(2)[OF t(1,2)], of u] tidy_name(2)[OF t(1,3)] unfolding real by blast
  have dir: "is_dir ms u = is_dir ns u" for u using l[of u] by (auto simp: is_dir_def)
  have c: "content_at ms u = content_at ns u" if "u \<noteq> posix_parts p" "u \<noteq> posix_parts q" for u
    using l[of u] that content_lookup by blast
  have "saved tx base m' ms r" if "r \<in> set (mf_touched m)" for r
  proof -
    have "backup_path tx r \<noteq> posix_parts p" "backup_path tx r \<noteq> posix_parts q"
      using that g'(1) tidy_eq(4)[OF t(1)] t(2,3) by blast+
    with g'(4)[OF that] c show ?thesis by (simp add: saved_def m' split: option.splits)
  qed
  moreover have "saved tx base m' ms q"
    using g'(3)[of q] g'(4)[of q] t(4) by (cases "q \<in> set (mf_touched m)") (auto simp: saved_def m')
  moreover have "content_at ms u = content_at base u" if "\<not> internal u" "u \<notin> posix_parts ` set (mf_touched m')" for u
  proof -
    have "u \<notin> posix_parts ` set (mf_touched m)" "u \<noteq> posix_parts p" "u \<noteq> posix_parts q"
      using that(2) g'(2) unfolding m' by blast+
    with c g'(5)[OF that(1)] show ?thesis by simp
  qed
  ultimately show ?thesis
    using g'(1,6,7) t(3) unfolding restoring_def dir m'(3) by auto
qed

lemma store_move_restorable:
  assumes t: "tidy (te_sandbox env) (next_transaction d) (dk_nodes d) names" "vj_from j \<in> set names" "vj_to j \<in> set names"
    and j: "vj_source j = posix_parts (vj_from j)" "vj_target j = posix_parts (vj_to j)"
    and to: "content_at (dk_nodes d) (posix_parts (vj_to j)) = None"
    and run: "store_move env j d = (Inr (Inr x), e)"
  shows "x = next_transaction d \<and> restorable (next_transaction d) (dk_nodes d) names e"
proof -
  let ?tx = "next_transaction d"
  from run obtain y d1 d2 d3 d4 u v w where
      begun: "begin_transaction (''Agent move_file: '' @ vj_from j @ '' -> '' @ vj_to j) [file_op MOVE_FILE (vj_from j) (vj_to j) []] True d = (Inr y, d1)"
      and steps: "backup_file (te_sandbox env) y (vj_from j) d1 = (Inr u, d2)"
        "or_failed y (seq (on_nodes (mkdir_parents (butlast (vj_target j)))) (\<lambda>_. on_nodes (move (vj_source j) (vj_target j)))) d2 = (Inr None, d3)"
        "record_after (te_sandbox env) y (vj_to j) d3 = (Inr w, d4)"
        "finalize_transaction y ''applied'' [] d4 = (Inr v, e)" "x = y"
    unfolding store_move_def by (auto elim!: seq_InrE split: option.splits)
  note b = begin_tracks[OF t(1) refl begun]
  then have [simp]: "y = ?tx" by simp
  from steps(2) obtain d2' z where made: "on_nodes (mkdir_parents (butlast (vj_target j))) d2 = (Inr z, d2')"
      and moved: "on_nodes (move (vj_source j) (vj_target j)) d2' = (Inr (), d3)"
    by (auto simp: or_failed_def catch_def seq_def split: prod.splits sum.splits py_error.splits)
  have "tracked ?tx (dk_nodes d) names {vj_from j} d2"
    using keeps_run[OF keeps_backup[OF t(1,2)]] b steps(1) by simp
  then have "tracked ?tx (dk_nodes d) names {vj_from j} d2'"
    using keeps_run[OF keeps_mkdir(1)[OF t(1,3)]] made unfolding j by simp
  then obtain m where m: "load_manifest d2' ?tx = Some m" "good ?tx (dk_nodes d) names {vj_from j} m (dk_nodes d2')"
    unfolding tracked_def by blast
  from moved obtain ms where ms: "move (vj_source j) (vj_target j) (dk_nodes d2') = (Inr (), ms)" "d3 = d2'\<lparr>dk_nodes := ms\<rparr>"
    by (auto simp: on_nodes_def split: prod.splits)
  have "\<exists>m'. load_manifest e ?tx = Some m' \<and> mf_status m' = ''applied'' \<and> dk_nodes e = ms \<and> mf_before m' = mf_before m \<and>
      mf_backups m' = mf_backups m \<and> mf_touched m' = add_new (mf_touched m) (vj_to j)"
    using steps(3,4) m(1) ms(2)
    by (auto simp: record_after_def finalize_transaction_def known_manifest_def write_manifest_def journal_append_def
        load_manifest_def seq_def Let_def)
  then obtain m' where m': "load_manifest e ?tx = Some m'" "mf_status m' = ''applied''" "dk_nodes e = ms" "mf_before m' = mf_before m"
      "mf_backups m' = mf_backups m" "mf_touched m' = add_new (mf_touched m) (vj_to j)"
    by blast
  have "set (mf_touched m') = insert (vj_to j) (set (mf_touched m))" unfolding m'(6) by simp
  from restoring_moved[OF t to m(2) ms(1)[unfolded j] m'(4,5) this] m' steps(5) show ?thesis
    by (auto simp: restorable_def)
qed

subsection \<open>Undoing\<close>

definition can_undo :: "tool_env \<Rightarrow> desk \<Rightarrow> tool_result \<Rightarrow> desk \<Rightarrow> bool" where
  "can_undo env s r t \<longleftrightarrow> (\<exists>tx msg f. transaction_of r = Some tx \<and>
     rollback_transaction (te_sandbox env) tx (ds_disk t) = (Inr (True, msg), f) \<and>
     (\<forall>p. \<not> internal p \<longrightarrow> content_at (dk_nodes f) p = content_at (dk_nodes (ds_disk s)) p))"

text \<open>A call that succeeded where the files it names are tidy.\<close>

definition tidy_success :: "tool_env \<Rightarrow> desk \<Rightarrow> tool_result \<Rightarrow> bool" where
  "tidy_success env s r \<longleftrightarrow> tl_ok r \<and>
     tidy (te_sandbox env) (next_transaction (ds_disk s)) (dk_nodes (ds_disk s)) (named r)"

lemma undo_tracked:
  assumes "tidy_success env s r" and "transaction_of r = Some (next_transaction (ds_disk s))"
    and "restorable (next_transaction (ds_disk s)) (dk_nodes (ds_disk s)) (named r) (ds_disk t)"
  shows "can_undo env s r t"
  using rollback_of_restoring[of "te_sandbox env" _ _ "named r" "ds_disk t"] assms
  unfolding can_undo_def tidy_success_def restorable_def by blast

lemma undo_asked:
  assumes run: "asked_first env q denied (seq (on_disk m) f) s = (Inr r, t)" and ok: "tidy_success env s r" "\<not> tl_ok denied"
    and result: "\<And>x y e u v. m (ds_disk s) = (Inr x, e) \<Longrightarrow> f x u = (Inr y, v) \<Longrightarrow> tidy_success env s y \<Longrightarrow>
      v = u \<and> transaction_of y = Some (next_transaction (ds_disk s)) \<and>
      restorable (next_transaction (ds_disk s)) (dk_nodes (ds_disk s)) (named y) e"
  shows "can_undo env s r t"
proof -
  from run ok obtain g x e where m: "m (ds_disk s) = (Inr x, e)" and f: "f x (s\<lparr>ds_gate := g, ds_disk := e\<rparr>) = (Inr r, t)"
    unfolding asked_first_def
    by (auto elim!: seq_InrE simp: on_gate_def on_disk_def tidy_success_def split: if_splits prod.splits)
  from result[OF m f ok(1)] show ?thesis by (intro undo_tracked[OF ok(1)]) auto
qed

lemma undo_tool:
  assumes "seq (gets judge) (run_verdict commit) s = (Inr r, t)" and "tl_ok r" "\<not> rg_dry (ds_registry s)"
    and "\<And>x. judge s = Refused x \<Longrightarrow> \<not> tl_ok x" "\<And>a p d n. judge s = Rehearsed a p d n \<Longrightarrow> rg_dry (ds_registry s)"
    and "\<And>j. judge s = Agreed j \<Longrightarrow> commit j s = (Inr r, t) \<Longrightarrow> can_undo env s r t"
  shows "can_undo env s r t"
  using assms by (cases "judge s") (auto simp: run_verdict_def)

lemma refusals [simp]:
  "\<not> tl_ok (tool_result False m d)" "tl_ok (tool_result True m d)" "\<not> tl_ok (read_only_refusal a p)"
  by (simp_all add: tool_result_def read_only_refusal_def)

lemma refused_no [simp]:
  "refusal m d = Refused x \<Longrightarrow> \<not> tl_ok x" "security_refusal e p d = Refused x \<Longrightarrow> \<not> tl_ok x"
  "missing_file env rg ns verb tool o' p = Refused x \<Longrightarrow> \<not> tl_ok x"
  "edit_failed env p content old f = Refused x \<Longrightarrow> \<not> tl_ok x" "elided_refusal p label = Refused x \<Longrightarrow> \<not> tl_ok x"
  "outside_allowed_scope env rg ns p = Some x \<Longrightarrow> \<not> tl_ok x"
  by (auto simp: refusal_def security_refusal_def missing_file_def edit_failed_def elided_refusal_def outside_allowed_scope_def
      Let_def split: edit_failure.splits option.splits if_splits)

lemma refused_not_rehearsed [simp]:
  "refusal m d \<noteq> Rehearsed a b c n" "security_refusal e p d \<noteq> Rehearsed a b c n"
  "missing_file env rg ns verb tool o' p \<noteq> Rehearsed a b c n" "edit_failed env p content old f \<noteq> Rehearsed a b c n"
  "elided_refusal p label \<noteq> Rehearsed a b c n"
  by (simp_all add: refusal_def security_refusal_def missing_file_def edit_failed_def elided_refusal_def Let_def split: edit_failure.split)

lemma judge_write_other:
  "judge_write env filepath content b s = Refused x \<Longrightarrow> \<not> tl_ok x"
  "judge_write env filepath content b s = Rehearsed a p d n \<Longrightarrow> rg_dry (ds_registry s)"
  unfolding judge_write_def Let_def by (auto split: if_splits option.splits sum.splits)

lemma stored_restorable:
  assumes "store_content env reason op p target b content patch_text d = (Inr x, e)" and "te_sandbox env p = Inr target"
    and "tidy (te_sandbox env) (next_transaction d) (dk_nodes d) names" and "p \<in> set names"
  shows "x = next_transaction d \<and> restorable (next_transaction d) (dk_nodes d) names e"
  using store_content_tracked[OF assms(3,4)] tidy_name(1)[OF assms(3,4)] assms(1,2) tracked_restorable by (metis sum.inject(2))

lemma undo_stored:
  assumes "asked_first env q denied (seq (on_disk (store_content env reason op p target b content patch_text)) f) s = (Inr r, t)"
    and "tidy_success env s r" "\<not> tl_ok denied" "te_sandbox env p = Inr target"
    and "\<And>x y u v. f x u = (Inr y, v) \<Longrightarrow> v = u \<and> transaction_of y = Some x \<and> p \<in> set (named y)"
  shows "can_undo env s r t"
proof (rule undo_asked[OF assms(1-3)])
  fix x y e u v
  assume m: "store_content env reason op p target b content patch_text (ds_disk s) = (Inr x, e)" and f: "f x u = (Inr y, v)"
    and y: "tidy_success env s y"
  from assms(5)[OF f] stored_restorable[OF m assms(4), of "named y"] y
  show "v = u \<and> transaction_of y = Some (next_transaction (ds_disk s)) \<and>
      restorable (next_transaction (ds_disk s)) (dk_nodes (ds_disk s)) (named y) e"
    by (auto simp: tidy_success_def)
qed

lemmas result_names = named_def transaction_of_def tool_result_def at_path_def

lemma judge_edit_other:
  "judge_edit env filepath old new b s = Refused x \<Longrightarrow> \<not> tl_ok x"
  "judge_edit env filepath old new b s = Rehearsed a p d n \<Longrightarrow> rg_dry (ds_registry s)"
  unfolding judge_edit_def Let_def by (auto split: if_splits option.splits sum.splits)

lemma judge_append_other:
  "judge_append env filepath content s = Refused x \<Longrightarrow> \<not> tl_ok x"
  "judge_append env filepath content s = Rehearsed a p d n \<Longrightarrow> rg_dry (ds_registry s)"
  unfolding judge_append_def Let_def by (auto split: if_splits option.splits sum.splits)

lemma judge_move_other:
  "judge_move env source destination s = Refused x \<Longrightarrow> \<not> tl_ok x"
  "judge_move env source destination s = Rehearsed a p d n \<Longrightarrow> rg_dry (ds_registry s)"
  unfolding judge_move_def Let_def by (auto split: if_splits option.splits sum.splits)

lemma judge_delete_other:
  "judge_delete env filepath s = Refused x \<Longrightarrow> \<not> tl_ok x"
  "judge_delete env filepath s = Rehearsed a p d n \<Longrightarrow> rg_dry (ds_registry s)"
  unfolding judge_delete_def Let_def by (auto split: if_splits option.splits sum.splits)

lemma undo_write:
  assumes "write_file_tool env filepath content b s = (Inr r, t)" "tidy_success env s r" "\<not> rg_dry (ds_registry s)"
  shows "can_undo env s r t"
proof (rule undo_tool[OF assms(1)[unfolded write_file_tool_def]])
  fix j assume j: "judge_write env filepath content b s = Agreed j" and run: "commit_write env j s = (Inr r, t)"
  have p: "te_sandbox env (wj_path j) = Inr (wj_target j)" using judge_write_agreed[OF j] by simp
  show "can_undo env s r t"
    by (rule undo_stored[OF run[unfolded commit_write_def Let_def] assms(2) _ p]) (auto simp: result_names split: prod.splits)
qed (use assms in \<open>simp_all add: tidy_success_def judge_write_other\<close>)

lemma undo_edit:
  assumes "edit_file_tool env filepath old new b s = (Inr r, t)" "tidy_success env s r" "\<not> rg_dry (ds_registry s)"
  shows "can_undo env s r t"
proof (rule undo_tool[OF assms(1)[unfolded edit_file_tool_def]])
  fix j assume j: "judge_edit env filepath old new b s = Agreed j" and run: "commit_edit env j s = (Inr r, t)"
  have p: "te_sandbox env (ej_path j) = Inr (ej_target j)" using judge_edit_agreed[OF j] by simp
  show "can_undo env s r t"
    by (rule undo_stored[OF run[unfolded commit_edit_def Let_def] assms(2) _ p]) (auto simp: result_names split: prod.splits)
qed (use assms in \<open>simp_all add: tidy_success_def judge_edit_other\<close>)

lemma undo_append:
  assumes "append_file_tool env filepath content s = (Inr r, t)" "tidy_success env s r" "\<not> rg_dry (ds_registry s)"
  shows "can_undo env s r t"
proof (rule undo_tool[OF assms(1)[unfolded append_file_tool_def]])
  fix j assume j: "judge_append env filepath content s = Agreed j" and run: "commit_append env j s = (Inr r, t)"
  have p: "te_sandbox env (pj_path j) = Inr (pj_target j)" using judge_append_agreed[OF j] by simp
  show "can_undo env s r t"
    by (rule undo_stored[OF run[unfolded commit_append_def Let_def] assms(2) _ p]) (auto simp: result_names split: prod.splits)
qed (use assms in \<open>simp_all add: tidy_success_def judge_append_other\<close>)

lemma undo_delete:
  assumes "delete_file_tool env filepath s = (Inr r, t)" "tidy_success env s r" "\<not> rg_dry (ds_registry s)"
  shows "can_undo env s r t"
proof (rule undo_tool[OF assms(1)[unfolded delete_file_tool_def]])
  fix j assume j: "judge_delete env filepath s = Agreed j" and run: "commit_delete env j s = (Inr r, t)"
  obtain p target where [simp]: "j = (p, target)" by (cases j)
  have p: "te_sandbox env p = Inr target" using judge_delete_agreed j by simp
  show "can_undo env s r t"
  proof (rule undo_asked[OF run[unfolded commit_delete_def \<open>j = (p, target)\<close> prod.case] assms(2)])
    fix x y e u v
    assume m: "store_delete env p target (ds_disk s) = (Inr x, e)" and y: "tidy_success env s y"
      and f: "ret (case x of Inl message \<Rightarrow> tool_result False (''Delete failed: '' @ message) (at_path p)
        | Inr tx \<Rightarrow> tool_result True (''Deleted '' @ p @ ''. Recoverable with /undo.'')
            (at_path p @ [(''transaction_id'', JStr tx)])) u = (Inr y, v)"
    from y f obtain tx where x: "x = Inr tx" by (cases x) (auto simp: tidy_success_def)
    with f have n: "v = u" "named y = [p]" "transaction_of y = Some tx" by (auto simp: result_names)
    with y have t: "tidy (te_sandbox env) (next_transaction (ds_disk s)) (dk_nodes (ds_disk s)) [p]" by (simp add: tidy_success_def)
    with p tidy_name(1)[OF t] have "target = posix_parts p" by simp
    with store_delete_tracked[OF t] m x n tracked_restorable
    show "v = u \<and> transaction_of y = Some (next_transaction (ds_disk s)) \<and>
      restorable (next_transaction (ds_disk s)) (dk_nodes (ds_disk s)) (named y) e" by fastforce
  qed simp
qed (use assms in \<open>simp_all add: tidy_success_def judge_delete_other\<close>)

lemma undo_move:
  assumes "move_file_tool env source destination s = (Inr r, t)" "tidy_success env s r" "\<not> rg_dry (ds_registry s)"
  shows "can_undo env s r t"
proof (rule undo_tool[OF assms(1)[unfolded move_file_tool_def]])
  fix j assume j: "judge_move env source destination s = Agreed j" and run: "commit_move env j s = (Inr r, t)"
  note a = judge_move_agreed[OF j]
  show "can_undo env s r t"
  proof (rule undo_asked[OF run[unfolded commit_move_def] assms(2)])
    fix x y e u v
    assume m: "store_move env j (ds_disk s) = (Inr x, e)" and y: "tidy_success env s y"
      and f: "ret (case x of Inl message \<Rightarrow> tool_result False (''Move failed: '' @ message) (at_path (vj_from j))
        | Inr tx \<Rightarrow> tool_result True (''Moved '' @ vj_from j @ '' -> '' @ vj_to j @ ''.'')
            (at_path (vj_to j) @ [(''source'', JStr (vj_from j)), (''transaction_id'', JStr tx)])) u = (Inr y, v)"
    from y f obtain tx where x: "x = Inr tx" by (cases x) (auto simp: tidy_success_def)
    with f have n: "v = u" "named y = [vj_to j, vj_from j]" "transaction_of y = Some tx" by (auto simp: result_names)
    with y have t: "tidy (te_sandbox env) (next_transaction (ds_disk s)) (dk_nodes (ds_disk s)) [vj_to j, vj_from j]"
      by (simp add: tidy_success_def)
    have places: "vj_source j = posix_parts (vj_from j)" "vj_target j = posix_parts (vj_to j)"
      using a tidy_name(1)[OF t] by auto
    then have "content_at (dk_nodes (ds_disk s)) (posix_parts (vj_to j)) = None"
      using a by (simp add: present_def content_at_def)
    from store_move_restorable[OF t _ _ places this m[unfolded x]] n
    show "v = u \<and> transaction_of y = Some (next_transaction (ds_disk s)) \<and>
      restorable (next_transaction (ds_disk s)) (dk_nodes (ds_disk s)) (named y) e" by simp
  qed simp
qed (use assms in \<open>simp_all add: tidy_success_def judge_move_other\<close>)

end
