(* ===== verification/PhaseSafety.thy ===== *)
theory PhaseSafety
  imports PhaseContracts
begin

text \<open>
  What the phase contracts allow: changes of files, of the repository and commands are confined to the phases that
  are for them.
\<close>

lemma no_patterns: "matches_tool name (pc_tools (contract_of phase)) \<longleftrightarrow> name \<in> set (pc_tools (contract_of phase))"
  by (cases phase) (simp_all add: matches_tool_def read_tools_def patching_tools_def)

lemma phase_policy_allows:
  assumes "pd_allowed (evaluate_phase_tool_policy show name arguments phase risk available enabled)"
  shows "name \<in> set file_mutation_tools \<Longrightarrow> phase \<in> {AUTHOR, REPAIR}"
    "name \<in> set file_mutation_tools \<Longrightarrow> name \<noteq> ''delete_file''"
    "name \<in> set file_mutation_tools \<Longrightarrow> name \<notin> {''scope.expand'', ''request_scope_expansion''} \<Longrightarrow>
       normalize_risk risk = ''high'' \<Longrightarrow> phase = REPAIR \<and> name \<noteq> ''move_file''"
    "name \<in> set git_mutation_tools \<Longrightarrow> name = ''git.checkpoint'' \<and> phase \<in> {VERIFY, DEPLOY} \<and> normalize_risk risk \<noteq> ''high''"
    "name = ''run_command'' \<Longrightarrow> phase \<in> {AUTHOR, VERIFY, REPAIR, DEPLOY} \<and>
        (\<exists>r \<in> set (pc_patterns (contract_of phase)). found r (lower (strip (arg_text show arguments ''command'')))) \<and>
        (\<forall>r \<in> set dangerous_command_patterns. \<not> found r (lower (strip (arg_text show arguments ''command'')))) \<and>
        (normalize_risk risk = ''high'' \<longrightarrow> phase \<in> {VERIFY, DEPLOY})"
    "\<not> starts_with name ''mcp__''"
proof -
  have d: "policy_denial show name arguments phase risk enabled = None"
    using assms by (simp add: evaluate_phase_tool_policy_def Let_def)
  then have m: "name \<in> set (pc_tools (contract_of phase))"
    unfolding policy_denial_def no_patterns Let_def by (auto split: if_splits)
  have high: "normalize_risk risk = ''high'' \<Longrightarrow> name \<notin> {''move_file'', ''delete_file''} \<union> set git_mutation_tools"
      "normalize_risk risk = ''high'' \<Longrightarrow> name \<in> {''file.patch'', ''edit_file'', ''append_file'', ''write_file''} \<Longrightarrow> phase = REPAIR"
    using d unfolding policy_denial_def Let_def by (auto split: if_splits option.splits)
  have command: "name = ''run_command'' \<Longrightarrow> evaluate_command (arg_text show arguments ''command'') phase (normalize_risk risk) = []"
    using d unfolding policy_denial_def Let_def by (auto split: if_splits option.splits)
  have files: "name \<in> set file_mutation_tools \<longrightarrow> phase \<in> {AUTHOR, REPAIR} \<and> name \<noteq> ''delete_file''"
    using m by (cases phase) (auto simp: file_mutation_tools_def read_tools_def patching_tools_def)
  have git: "name \<in> set git_mutation_tools \<longrightarrow> name = ''git.checkpoint'' \<and> phase \<in> {VERIFY, DEPLOY}"
    using m by (cases phase) (auto simp: git_mutation_tools_def read_tools_def patching_tools_def)
  have runs: "name = ''run_command'' \<longrightarrow> phase \<in> {AUTHOR, VERIFY, REPAIR, DEPLOY}"
    using m by (cases phase) (auto simp: read_tools_def)
  have mcp: "\<not> starts_with name ''mcp__''"
    using m by (cases phase) (auto simp: read_tools_def patching_tools_def starts_with_def)
  have matched: "name = ''run_command'' \<longrightarrow>
      (\<exists>r \<in> set (pc_patterns (contract_of phase)). found r (lower (strip (arg_text show arguments ''command'')))) \<and>
      (\<forall>r \<in> set dangerous_command_patterns. \<not> found r (lower (strip (arg_text show arguments ''command'')))) \<and>
      (normalize_risk risk = ''high'' \<longrightarrow> phase \<in> {VERIFY, DEPLOY})"
    using command unfolding evaluate_command_def Let_def list_ex_iff by (auto split: if_splits)
  have edits: "phase = REPAIR \<and> name \<noteq> ''move_file''"
    if "name \<in> set file_mutation_tools" "normalize_risk risk = ''high''" "name \<notin> {''scope.expand'', ''request_scope_expansion''}"
    using that(1) unfolding file_mutation_tools_def list.set insert_iff empty_iff
    by (elim disjE) (use high[OF that(2)] files that in simp_all)
  have high_git: "normalize_risk risk \<noteq> ''high''" if "name \<in> set git_mutation_tools"
    using high(1) that by (metis UnI2)
  show "name \<in> set file_mutation_tools \<Longrightarrow> phase \<in> {AUTHOR, REPAIR}"
    "name \<in> set file_mutation_tools \<Longrightarrow> name \<noteq> ''delete_file''"
    using files by iprover+
  show "name \<in> set git_mutation_tools \<Longrightarrow> name = ''git.checkpoint'' \<and> phase \<in> {VERIFY, DEPLOY} \<and> normalize_risk risk \<noteq> ''high''"
    using git high_git by iprover
  show "name = ''run_command'' \<Longrightarrow> phase \<in> {AUTHOR, VERIFY, REPAIR, DEPLOY} \<and>
        (\<exists>r \<in> set (pc_patterns (contract_of phase)). found r (lower (strip (arg_text show arguments ''command'')))) \<and>
        (\<forall>r \<in> set dangerous_command_patterns. \<not> found r (lower (strip (arg_text show arguments ''command'')))) \<and>
        (normalize_risk risk = ''high'' \<longrightarrow> phase \<in> {VERIFY, DEPLOY})"
    using runs matched by iprover
  show "name \<in> set file_mutation_tools \<Longrightarrow> name \<notin> {''scope.expand'', ''request_scope_expansion''} \<Longrightarrow>
       normalize_risk risk = ''high'' \<Longrightarrow> phase = REPAIR \<and> name \<noteq> ''move_file''"
    using edits by iprover
  show "\<not> starts_with name ''mcp__''" by (rule mcp)
qed

text \<open>
  C23. The policy of a phase protects the files: a tool that changes files is allowed only in AUTHOR and REPAIR,
  and for a task of high risk only in REPAIR and not to move a file; deleting a file is never allowed. The one
  Git mutation that is allowed is the checkpoint, in VERIFY and DEPLOY and not at high risk. A command runs in
  AUTHOR, VERIFY, REPAIR and DEPLOY only, matches an allowed pattern of the phase and no dangerous one, and in
  AUTHOR and REPAIR not at high risk. No tool of an MCP server is allowed in any phase.
\<close>

theorem phase_policy_protects_files:
  assumes "pd_allowed (evaluate_phase_tool_policy show name arguments phase risk available enabled)"
  shows "(name \<in> set file_mutation_tools \<longrightarrow> phase \<in> {AUTHOR, REPAIR} \<and> name \<noteq> ''delete_file'' \<and>
        (normalize_risk risk = ''high'' \<and> name \<notin> {''scope.expand'', ''request_scope_expansion''} \<longrightarrow> phase = REPAIR \<and> name \<noteq> ''move_file'')) \<and>
      (name \<in> set git_mutation_tools \<longrightarrow> name = ''git.checkpoint'' \<and> phase \<in> {VERIFY, DEPLOY} \<and> normalize_risk risk \<noteq> ''high'') \<and>
      (name = ''run_command'' \<longrightarrow> phase \<in> {AUTHOR, VERIFY, REPAIR, DEPLOY} \<and>
        (\<exists>r \<in> set (pc_patterns (contract_of phase)). found r (lower (strip (arg_text show arguments ''command'')))) \<and>
        (\<forall>r \<in> set dangerous_command_patterns. \<not> found r (lower (strip (arg_text show arguments ''command'')))) \<and>
        (normalize_risk risk = ''high'' \<longrightarrow> phase \<in> {VERIFY, DEPLOY})) \<and>
      \<not> starts_with name ''mcp__''"
  using phase_policy_allows[OF assms] by iprover

theorem phase_policy_protects_files_witness:
  "normalize_risk (Some ''high'') = ''high'' \<and> REPAIR \<in> {AUTHOR, REPAIR} \<and>
     pd_allowed (evaluate_phase_tool_policy (\<lambda>_. []) ''edit_file'' [] REPAIR (Some ''high'') None [])"
proof -
  have a: "pd_allowed (evaluate_phase_tool_policy (\<lambda>_. []) ''edit_file'' [] REPAIR (Some ''high'') None [])"
    by code_simp
  have "''edit_file'' \<in> set file_mutation_tools" "normalize_risk (Some ''high'') = ''high''"
    by code_simp+
  with phase_policy_protects_files[OF a] a show ?thesis by blast
qed

text \<open>
  A step whose only tool runs commands, without evidence that verifies, is given the phase EXPLORE, where
  commands are denied.
\<close>

lemma command_step_is_denied:
  "phase_for_step [''run_command''] [''command_output''] False None = EXPLORE"
  "\<not> pd_allowed (evaluate_phase_tool_policy show ''run_command'' arguments EXPLORE risk available enabled)"
proof -
  show "phase_for_step [''run_command''] [''command_output''] False None = EXPLORE" by code_simp
  have "\<not> matches_tool ''run_command'' (pc_tools (contract_of EXPLORE))" by code_simp
  then show "\<not> pd_allowed (evaluate_phase_tool_policy show ''run_command'' arguments EXPLORE risk available enabled)"
    by (simp add: evaluate_phase_tool_policy_def policy_denial_def Let_def del: contract_of.simps)
qed

end
