(* ===== verification/ToolGates.thy ===== *)
theory ToolGates
  imports ToolUndo PhaseSafety
begin

text \<open>
  The properties of the tools that change files: consent and scope over any sequence of calls, undoing a call,
  and the gates of the phases.
\<close>

subsection \<open>Consent and scope\<close>

text \<open>
  C5. Whatever sequence of calls of the tools that change files the model makes, a file outside \<open>.shamsu\<close> is
  different afterwards only if the registry is neither read-only nor dry, the file is in the write scope of the
  task, and among the events of these calls someone agreed to a request that names the file, or a granted
  permission did.
\<close>

theorem files_change_only_with_consent:
  assumes "\<forall>c \<in> set calls. changes_files (ds_registry s) (fst c)" and "\<not> internal p"
    and "content_at (dk_nodes (ds_disk (run_calls env calls s))) p \<noteq> content_at (dk_nodes (ds_disk s)) p"
  shows "\<not> rg_read_only (ds_registry s) \<and> \<not> rg_dry (ds_registry s) \<and> scoped (rg_write (ds_registry s)) p \<and>
    (\<exists>es. gt_trace (ds_gate (run_calls env calls s)) = gt_trace (ds_gate s) @ es \<and> (\<exists>e \<in> set es. consents env p e))"
  using steps_calls[OF assms(1), of env] assms(2,3) unfolding file_step_def permitted_def by blast

lemma demo_content: "content_at (dk_nodes (ds_disk demo_desk)) [''a.txt''] = Some ''x''"
  by (simp add: demo_desk_def demo_files_def content_at_def lookup_def)

lemma demo_changed:
  "content_at (dk_nodes (ds_disk (snd (execute_tool demo_bench ''edit_file'' demo_edit demo_desk)))) [''a.txt''] \<noteq>
     content_at (dk_nodes (ds_disk demo_desk)) [''a.txt'']"
  by (simp add: demo_edited demo_content)

lemma demo_plain: "changes_files rg ''edit_file''" "\<not> internal [''a.txt'']"
  by (simp_all add: changes_files_def file_tools_def internal_def)

theorem files_change_only_with_consent_witness:
  "\<exists>es. gt_trace (ds_gate (run_calls demo_bench [(''edit_file'', demo_edit)] demo_desk)) = gt_trace (ds_gate demo_desk) @ es \<and>
     (\<exists>e \<in> set es. consents demo_bench [''a.txt''] e)"
  using files_change_only_with_consent[of "[(''edit_file'', demo_edit)]" demo_desk "[''a.txt'']" demo_bench] demo_changed demo_plain
  by simp

subsection \<open>Undoing\<close>

lemma undo_patch:
  assumes "file_patch env arguments s = (Inr r, t)" "tidy_success env s r" "\<not> rg_dry (ds_registry s)"
  shows "can_undo env s r t"
proof -
  have wrapped: "\<exists>x. m s = (Inr x, t) \<and> r = patch_touched p x"
    if "seq m (\<lambda>r. ret (patch_touched p r)) s = (Inr r, t)" for m p
    using that by (auto elim!: seq_InrE)
  have same: "can_undo env s (patch_touched p x) t = can_undo env s x t" "tidy_success env s (patch_touched p x) = tidy_success env s x" for p x
    by (simp_all add: can_undo_def tidy_success_def)
  show ?thesis
    using assms unfolding file_patch_def Let_def
    by (auto split: if_splits dest!: wrapped simp: same tidy_success_def[of _ _ "tool_result False _ _"] intro: undo_edit undo_append undo_write)
qed

lemma undo_dispatch:
  assumes "dispatch env name arguments s = (Inr r, t)" "name \<in> set file_tools" "tidy_success env s r" "\<not> rg_dry (ds_registry s)"
  shows "can_undo env s r t"
  using assms undo_edit undo_append undo_write undo_move undo_delete unfolding dispatch_def Let_def file_tools_def
  by (auto split: if_splits)

lemma undo_low_level:
  assumes "execute_low_level env name arguments s = (Inr r, t)" "name \<in> set file_tools" "tidy_success env s r" "\<not> rg_dry (ds_registry s)"
  shows "can_undo env s r t"
proof -
  have no: "\<not> tl_ok (not_in_step s p a b c)" "\<not> tl_ok (prefix_refusal w n)" "phase_policy_denial env s name arguments = Some x \<Longrightarrow> \<not> tl_ok x"
    for p a b c w n x by (auto simp: not_in_step_def prefix_refusal_def phase_policy_denial_def Let_def split: if_splits)
  then show ?thesis
    using assms undo_dispatch unfolding execute_low_level_def
    by (auto split: option.splits if_splits simp: tidy_success_def)
qed

lemma undo_logical:
  assumes "execute_logical env ''file.patch'' arguments s = (Inr r, t)" "tidy_success env s r" "\<not> rg_dry (ds_registry s)"
  shows "can_undo env s r t"
proof -
  have "\<exists>x spec. file_patch env arguments s = (Inr x, t) \<and> r = with_metadata spec x"
    using assms(1,2) unfolding execute_logical_def
    by (auto split: option.splits if_splits elim!: seq_InrE simp: tidy_success_def logical_denial_def)
  then obtain x spec where x: "file_patch env arguments s = (Inr x, t)" "r = with_metadata spec x" by blast
  with undo_patch[OF x(1) _ assms(3)] assms(2) show ?thesis
    by (simp add: can_undo_def tidy_success_def)
qed

text \<open>
  C6. A successful call of a tool that changes files, other than in a dry run, can be undone. The files its result names are
  tidy before the call: the sandbox resolves each to its own place, outside \<open>.shamsu\<close> and through no link, none is a
  directory or lies below another, and nothing is in the way of their backups. Then the result also names a transaction
  whose rollback succeeds and gives every file outside \<open>.shamsu\<close> the content it had before the call, and removes what
  was not there.
\<close>

theorem tool_calls_can_be_undone:
  assumes "changes_files (ds_registry s) name" and "execute_tool env name arguments s = (r, t)"
    and "tidy_success env s r" and "\<not> rg_dry (ds_registry s)"
  shows "\<exists>tx msg f. transaction_of r = Some tx \<and> rollback_transaction (te_sandbox env) tx (ds_disk t) = (Inr (True, msg), f) \<and>
    (\<forall>p. \<not> internal p \<longrightarrow> content_at (dk_nodes f) p = content_at (dk_nodes (ds_disk s)) p)"
proof -
  from assms(2,3) have call: "execute_call env name arguments s = (Inr r, t)"
    by (auto simp: execute_tool_def tidy_success_def split: prod.splits sum.splits)
  have "can_undo env s r t"
    using assms(1)
  proof (rule call_route[of s name env arguments])
    fix x assume "execute_call env name arguments s = (Inr x, s)" "\<not> tl_ok x"
    with call assms(3) show ?thesis by (simp add: tidy_success_def)
  next
    fix args assume "execute_call env name arguments s = execute_logical env ''file.patch'' args s"
    with call assms(3,4) undo_logical show ?thesis by metis
  next
    assume "name \<in> set file_tools" "execute_call env name arguments s = execute_low_level env name arguments s"
    with call assms(3,4) undo_low_level show ?thesis by metis
  qed
  then show ?thesis unfolding can_undo_def .
qed

lemma demo_result:
  "transaction_of (fst (execute_tool demo_bench ''edit_file'' demo_edit demo_desk)) = Some ''t-u'' \<and>
   named (fst (execute_tool demo_bench ''edit_file'' demo_edit demo_desk)) = [''a.txt''] \<and>
   tl_ok (fst (execute_tool demo_bench ''edit_file'' demo_edit demo_desk))"
  by code_simp

theorem tool_calls_can_be_undone_witness:
  "content_at (dk_nodes (snd (rollback_transaction demo_sandbox ''t-u''
     (ds_disk (snd (execute_tool demo_bench ''edit_file'' demo_edit demo_desk)))))) [''a.txt''] = Some ''x''"
proof -
  obtain r t where run: "execute_tool demo_bench ''edit_file'' demo_edit demo_desk = (r, t)" by fastforce
  have tx: "next_transaction (ds_disk demo_desk) = ''t-u''" by code_simp
  have box: "te_sandbox demo_bench = demo_sandbox" by (simp add: demo_bench_def)
  have "tidy demo_sandbox ''t-u'' (dk_nodes (ds_disk demo_desk)) [''a.txt'']"
    using demo_tidy by (simp add: tidy_def demo_desk_def)
  then have ok: "tidy_success demo_bench demo_desk r"
    using demo_result run unfolding tidy_success_def tx box by simp
  have "\<not> rg_dry (ds_registry demo_desk)" by (simp add: demo_desk_def demo_registry_def)
  from tool_calls_can_be_undone[OF demo_plain(1) run ok this] obtain msg f where
      "rollback_transaction demo_sandbox ''t-u'' (ds_disk t) = (Inr (True, msg), f)"
      "\<And>p. \<not> internal p \<Longrightarrow> content_at (dk_nodes f) p = content_at (dk_nodes (ds_disk demo_desk)) p"
    using demo_result run unfolding box by auto
  with run demo_plain(2) demo_content show ?thesis by simp
qed


subsection \<open>Phases\<close>

lemma low_level_denied:
  "ds_disk (snd (execute_low_level env name arguments s)) \<noteq> ds_disk s \<Longrightarrow>
     phase_policy_denial env s name arguments = None \<and> tool_is_allowed (ds_registry s) name"
  unfolding execute_low_level_def by (auto split: option.splits if_splits)

lemma logical_denied:
  assumes "ds_disk (snd (execute_logical env ''file.patch'' arguments s)) \<noteq> ds_disk s"
  shows "effective_phase env s \<in> {AUTHOR, REPAIR}"
proof -
  have "\<exists>spec. find_spec ''file.patch'' = Some spec \<and> ls_phases spec = [AUTHOR, REPAIR]"
    by (simp add: find_spec_def logical_tool_specs_def logical_spec_def patch_phases_def)
  with assms show ?thesis
    unfolding execute_logical_def by (auto split: if_splits)
qed

text \<open>
  C12. While a phase is in force, a call of a tool that changes files leaves the disk alone unless the phase is
  AUTHOR or REPAIR; deleting never goes ahead. Where the step lists its tools, the tool or \<open>file.patch\<close> is
  listed. Without logical tools a task of high risk changes files only in REPAIR, and moves none.
\<close>

theorem phases_guard_files:
  assumes "changes_files (ds_registry s) name" and "phase_context_active s"
    and "ds_disk (snd (execute_tool env name arguments s)) \<noteq> ds_disk s"
  shows "effective_phase env s \<in> {AUTHOR, REPAIR} \<and> name \<noteq> ''delete_file'' \<and>
    (\<forall>names. rg_tools (ds_registry s) = Some names \<longrightarrow> matches_tool name names \<or> ''file.patch'' \<in> set names) \<and>
    (\<not> rg_logical (ds_registry s) \<and> normalize_risk (Some (rg_risk (ds_registry s))) = ''high'' \<longrightarrow>
       effective_phase env s = REPAIR \<and> name \<noteq> ''move_file'')"
proof -
  have d: "ds_disk (snd (execute_call env name arguments s)) \<noteq> ds_disk s"
    using assms(3) by (simp add: execute_tool_def split: prod.splits sum.splits)
  show ?thesis
    using assms(1)
  proof (rule call_route[of s name env arguments])
    fix r assume "execute_call env name arguments s = (Inr r, s)"
    with d show ?thesis by simp
  next
    fix args assume "execute_call env name arguments s = execute_logical env ''file.patch'' args s"
      and n: "name \<noteq> ''delete_file''" "logical_tool_allowed (ds_registry s) ''file.patch''" "rg_logical (ds_registry s)"
    with d logical_denied have "effective_phase env s \<in> {AUTHOR, REPAIR}" by metis
    with n show ?thesis by (simp add: logical_tool_allowed_def split: option.splits)
  next
    assume n: "name \<in> set file_tools" and "execute_call env name arguments s = execute_low_level env name arguments s"
    with d low_level_denied[of env name arguments s]
    have a: "phase_policy_denial env s name arguments = None" "tool_is_allowed (ds_registry s) name" by auto
    then have p: "pd_allowed (evaluate_phase_tool_policy (te_show env) name arguments (effective_phase env s)
        (Some (rg_risk (ds_registry s))) None (rg_capabilities (ds_registry s)))"
      using assms(2) by (simp add: phase_policy_denial_def policy_of_def Let_def split: if_splits)
    have m: "name \<in> set file_mutation_tools" "name \<notin> {''scope.expand'', ''request_scope_expansion''}"
      using n unfolding file_tools_def file_mutation_tools_def by auto
    from phase_policy_allows(1,2)[OF p m(1)] phase_policy_allows(3)[OF p m] a(2) show ?thesis
      by (auto simp: tool_is_allowed_def split: option.splits)
  qed
qed

theorem phases_guard_files_witness:
  "phase_context_active demo_desk \<and> effective_phase demo_bench demo_desk \<in> {AUTHOR, REPAIR}"
proof -
  have a: "phase_context_active demo_desk" by (simp add: phase_context_active_def demo_desk_def demo_registry_def)
  have "ds_disk (snd (execute_tool demo_bench ''edit_file'' demo_edit demo_desk)) \<noteq> ds_disk demo_desk"
    using demo_changed by auto
  with phases_guard_files[OF demo_plain(1) a] a show ?thesis by blast
qed

end
