(* ===== verification/TaskContracts.thy ===== *)
theory TaskContracts
  imports ToolDispatch
begin

text \<open>
  The contracts of approved plans, \<open>plans/contracts.py\<close> with the step parser of \<open>plans/store.py\<close>: how a contract
  comes out of a plan, the preflight that locks what it may write, its validation, the wishes for more scope,
  the plan the runtime gets of it, and its file.
\<close>

subsection \<open>Records\<close>

record scope_decision =
  sd_path :: string
  sd_reason :: string
  sd_source :: string

record file_preflight =
  fp_inspected_paths :: "string list"
  fp_candidate_files :: "string list"
  fp_planner_proposed_files :: "string list"
  fp_selected_files :: "string list"
  fp_allowed_write_paths :: "string list"
  fp_expected_write_paths :: "string list"
  fp_relevant_symbols :: "string list"
  fp_rationale :: "scope_decision list"
  fp_confidence :: string
  fp_unresolved_ambiguity :: string

record task_contract =
  tc_task_id :: string
  tc_run_id :: string
  tc_objective :: string
  tc_requirement_refs :: "string list"
  tc_dependencies :: "string list"
  tc_allowed_read_paths :: "string list"
  tc_candidate_files :: "string list"
  tc_allowed_write_paths :: "string list"
  tc_expected_write_paths :: "string list"
  tc_forbidden_paths :: "string list"
  tc_relevant_symbols :: "string list"
  tc_constraints :: "string list"
  tc_acceptance_criteria :: "string list"
  tc_verification_requirements :: "string list"
  tc_phase :: string
  tc_status :: string
  tc_attempt_id :: string
  tc_attempt_index :: int
  tc_evidence_refs :: "string list"
  tc_planner_proposed_files :: "string list"
  tc_file_selection_rationale :: "scope_decision list"
  tc_preflight :: "file_preflight option"

text \<open>\<open>TaskContract(task_id=..., run_id=..., objective=...)\<close> with the defaults of the other fields.\<close>

definition task_contract :: "string \<Rightarrow> string \<Rightarrow> string \<Rightarrow> task_contract" where
  "task_contract task_id run_id objective =
     \<lparr>tc_task_id = task_id, tc_run_id = run_id, tc_objective = objective, tc_requirement_refs = [], tc_dependencies = [],
      tc_allowed_read_paths = [], tc_candidate_files = [], tc_allowed_write_paths = [], tc_expected_write_paths = [],
      tc_forbidden_paths = [], tc_relevant_symbols = [], tc_constraints = [], tc_acceptance_criteria = [],
      tc_verification_requirements = [], tc_phase = phase_value AUTHOR, tc_status = ''pending'', tc_attempt_id = ''attempt-001'',
      tc_attempt_index = 1, tc_evidence_refs = [], tc_planner_proposed_files = [], tc_file_selection_rationale = [],
      tc_preflight = None\<rparr>"

subsection \<open>Paths\<close>

definition normalize_hint :: "string \<Rightarrow> string" where
  "normalize_hint p = lstrip_of ''./'' (replace_char backslash (CHR ''/'') (strip p))"

definition dedupe :: "string list \<Rightarrow> string list" where
  "dedupe values = uniq (filter (\<lambda>v. v \<noteq> []) (map normalize_hint values))"

text \<open>\<open>_normalize_paths\<close>: the complaints it appends to \<open>errors\<close>, and the paths. The sandbox raises a \<open>SecurityError\<close> or
  returns a path inside.\<close>

definition hinted :: "sandbox \<Rightarrow> string list \<Rightarrow> (string \<times> path checked) list" where
  "hinted sb raws = map (\<lambda>p. (p, sb p)) (filter (\<lambda>p. p \<noteq> []) (map normalize_hint raws))"

definition path_errors :: "sandbox \<Rightarrow> string \<Rightarrow> string list \<Rightarrow> string list" where
  "path_errors sb label raws = concat (map (\<lambda>(p, r). case r of Inr _ \<Rightarrow> []
     | Inl e \<Rightarrow> [label @ '': '' @ p @ '' is outside workspace ('' @ error_text e @ '')'']) (hinted sb raws))"

definition normalize_paths :: "sandbox \<Rightarrow> string list \<Rightarrow> string list" where
  "normalize_paths sb raws = uniq (concat (map (\<lambda>(p, r). case r of Inl _ \<Rightarrow> [] | Inr t \<Rightarrow> [as_posix t]) (hinted sb raws)))"

definition path_in_scope :: "string \<Rightarrow> string list \<Rightarrow> bool" where
  "path_in_scope p allowed = in_scope allowed p"

subsection \<open>Reading texts\<close>

definition word_part :: rx where
  "word_part = One (\<lambda>c. is_letter c \<or> is_digit c \<or> c = CHR ''_'')"

definition keyword_rx :: rx where
  "keyword_rx = cats [One is_letter, times 2 word_part, Star word_part]"

definition stop_words :: "string list" where
  "stop_words = [''the'', ''and'', ''for'', ''with'', ''this'', ''that'', ''into'', ''from'', ''add'', ''fix'', ''update'']"

definition keywords_of :: "string \<Rightarrow> string list" where
  "keywords_of text' = take 12 (filter (\<lambda>w. w \<notin> set stop_words) (uniq (map hd (find_groups [keyword_rx] (lower text')))))"

definition quoted_path_parts :: "rx list" where
  "quoted_path_parts = [exact ''`'', cats [plus (none_of ''`''), exact ''.'', plus alnum], exact ''`'']"

definition bare_path_parts :: "rx list" where
  "bare_path_parts = [boundary, cats [plus (One (\<lambda>c. is_letter c \<or> is_digit c \<or> c \<in> set ''_./-'')), exact ''.'',
     ors (map exact [''py'', ''js'', ''ts'', ''tsx'', ''jsx'', ''html'', ''css'', ''md'', ''json'', ''toml'', ''yaml'', ''yml''])], boundary]"

definition paths_from_text :: "string \<Rightarrow> string list" where
  "paths_from_text text' = dedupe (map (\<lambda>ts. ts ! 1) (find_groups quoted_path_parts text') @
     map (\<lambda>ts. ts ! 1) (find_groups bare_path_parts text'))"

definition heading_parts :: "rx list" where
  "heading_parts = [cats [line_start, Star space, ors (map (\<lambda>n. times n (exact ''#'')) [6, 5, 4, 3, 2, 1]), plus space],
     Star dot, text_end]"

definition heading_of :: "string \<Rightarrow> string option" where
  "heading_of line = map_option (\<lambda>(_, ts, _). ts ! 1) (search_groups heading_parts line)"

definition item_parts :: "rx list" where
  "item_parts = [cats [line_start, Star space, Or (cats [plus digit, one_of '').'']) (one_of ''-*''), plus space], Star dot, text_end]"

fun steps_below :: "bool \<Rightarrow> string list \<Rightarrow> string list" where
  "steps_below inside [] = []"
| "steps_below inside (line # rest) = (case heading_of line of
     Some h \<Rightarrow> steps_below (starts_with (lower (strip h)) ''steps'') rest
   | None \<Rightarrow>
       (if \<not> inside then [] else case search_groups item_parts line of
          None \<Rightarrow> [] | Some (_, ts, _) \<Rightarrow> if strip (ts ! 1) = [] then [] else [strip (ts ! 1)]) @ steps_below inside rest)"

definition parse_plan_steps :: "string \<Rightarrow> string list" where
  "parse_plan_steps markdown = steps_below False (splitlines markdown)"

fun verification_below :: "bool \<Rightarrow> string list \<Rightarrow> string list" where
  "verification_below inside [] = []"
| "verification_below inside (line # rest) = (case heading_of line of
     Some h \<Rightarrow> verification_below (starts_with (lower (strip h)) ''verification'') rest
   | None \<Rightarrow> (if inside \<and> strip line \<noteq> [] then [strip (lstrip_of ''-*'' (strip line))] else []) @ verification_below inside rest)"

definition extract_verification :: "string \<Rightarrow> string list" where
  "extract_verification markdown =
     (let lines = verification_below False (splitlines markdown)
      in if lines = [] then [''Run the narrowest available project verification.''] else lines)"

subsection \<open>Contracts of a plan\<close>

text \<open>A step of \<open>agents/plan_mode.py\<close>. \<open>show\<close> is \<open>str\<close> on values that are no text.\<close>

record planned_step =
  pl_description :: string
  pl_target_file :: string
  pl_verify :: string
  pl_acceptance_criteria :: "string list"
  pl_constraints :: "string list"

definition listify :: "(json \<Rightarrow> string) \<Rightarrow> json option \<Rightarrow> string list" where
  "listify show value =
     (let str = (\<lambda>j. case j of JStr s \<Rightarrow> s | _ \<Rightarrow> show j); stripped = (\<lambda>xs. filter (\<lambda>s. s \<noteq> []) (map strip xs))
      in case value of None \<Rightarrow> [] | Some JNull \<Rightarrow> [] | Some (JList xs) \<Rightarrow> stripped (map str xs) | Some j \<Rightarrow> stripped [str j])"

definition step_label :: "string \<Rightarrow> nat \<Rightarrow> string" where
  "step_label plan_id index =
     plan_id @ ''-task-'' @ replicate (3 - length (nat_str index)) (CHR ''0'') @ nat_str index"

definition refs_of :: "string \<Rightarrow> string list" where
  "refs_of task = (if strip task = [] then [] else [strip task])"

definition planned_contract :: "string \<Rightarrow> string list \<Rightarrow> string list \<Rightarrow> string \<Rightarrow> nat \<Rightarrow> string \<Rightarrow> planned_step \<Rightarrow> task_contract" where
  "planned_contract plan_id verification plan_files task index previous s =
     (let target = normalize_hint (pl_target_file s); targets = (if target = [] then [] else [target]);
          own = (if strip (pl_verify s) = [] then [] else [strip (pl_verify s)]);
          criteria = filter (\<lambda>c. c \<noteq> []) (map strip (pl_acceptance_criteria s))
      in (task_contract (step_label plan_id index) plan_id (strip (pl_description s)))
           \<lparr>tc_requirement_refs := refs_of task,
            tc_dependencies := (if previous = [] then [] else [previous]),
            tc_expected_write_paths := targets, tc_allowed_write_paths := targets,
            tc_planner_proposed_files := dedupe (target # plan_files),
            tc_constraints := filter (\<lambda>c. c \<noteq> []) (map strip (pl_constraints s)),
            tc_acceptance_criteria := (if criteria = [] then [''Complete step: '' @ strip (pl_description s)] else criteria),
            tc_verification_requirements := (if own = [] then verification else own)\<rparr>)"

fun chain_contracts :: "(nat \<Rightarrow> string \<Rightarrow> 'a \<Rightarrow> task_contract) \<Rightarrow> nat \<Rightarrow> string \<Rightarrow> 'a list \<Rightarrow> task_contract list" where
  "chain_contracts build index previous [] = []"
| "chain_contracts build index previous (s # ss) =
     (let c = build index previous s in c # chain_contracts build (Suc index) (tc_task_id c) ss)"

definition contracts_from_planner_data ::
    "(json \<Rightarrow> string) \<Rightarrow> string \<Rightarrow> dict \<Rightarrow> planned_step list \<Rightarrow> string \<Rightarrow> task_contract list" where
  "contracts_from_planner_data show plan_id data plan_steps task =
     chain_contracts (planned_contract plan_id (listify show (dict_get data ''verification''))
       (dedupe (map normalize_hint (listify show (dict_get data ''files'')))) task) 1 [] plan_steps"

definition markdown_contract :: "string \<Rightarrow> string list \<Rightarrow> string \<Rightarrow> nat \<Rightarrow> string \<Rightarrow> string \<Rightarrow> task_contract" where
  "markdown_contract plan_id verification task index previous text' =
     (let paths = paths_from_text text'; said = (if strip text' = [] then strip task else strip text')
      in (task_contract (step_label plan_id index) plan_id (if said = [] then ''Execute approved plan'' else said))
           \<lparr>tc_requirement_refs := refs_of task,
            tc_dependencies := (if previous = [] then [] else [previous]),
            tc_expected_write_paths := paths, tc_allowed_write_paths := paths, tc_planner_proposed_files := paths,
            tc_acceptance_criteria := [''Complete approved step: '' @ said],
            tc_verification_requirements := verification\<rparr>)"

definition contracts_from_markdown :: "string \<Rightarrow> string \<Rightarrow> string list \<Rightarrow> string \<Rightarrow> task_contract list" where
  "contracts_from_markdown plan_id task steps markdown =
     chain_contracts (markdown_contract plan_id (extract_verification markdown) task) 1 [] (if steps = [] then [task] else steps)"

subsection \<open>Validation\<close>

definition validate_contract :: "sandbox \<Rightarrow> task_contract \<Rightarrow> string list" where
  "validate_contract sb c =
     (let name = tc_task_id c;
          allowed = normalize_paths sb (tc_allowed_write_paths c);
          expected = normalize_paths sb (tc_expected_write_paths c);
          forbidden = normalize_paths sb (tc_forbidden_paths c)
      in (if name = [] then [''task_id is required''] else []) @
         (if tc_run_id c = [] then [''run_id is required''] else []) @
         (if strip (tc_objective c) = [] then [name @ '': objective is required''] else []) @
         (if tc_acceptance_criteria c = [] then [name @ '': acceptance_criteria is required''] else []) @
         (if tc_verification_requirements c = [] then [name @ '': verification_requirements is required''] else []) @
         path_errors sb ''allowed_write_paths'' (tc_allowed_write_paths c) @
         path_errors sb ''expected_write_paths'' (tc_expected_write_paths c) @
         path_errors sb ''forbidden_paths'' (tc_forbidden_paths c) @
         map (\<lambda>p. name @ '': expected path '' @ p @ '' is outside allowed_write_paths'')
           (filter (\<lambda>p. allowed \<noteq> [] \<and> \<not> path_in_scope p allowed) expected) @
         map (\<lambda>p. name @ '': forbidden path '' @ p @ '' conflicts with allowed_write_paths'')
           (filter (\<lambda>p. path_in_scope p allowed) forbidden))"

subsection \<open>Preflight\<close>

text \<open>\<open>walked\<close> are the source files the walk over the workspace meets, with their times of modification.\<close>

definition workspace_source_files :: "(int \<times> string) list \<Rightarrow> nat \<Rightarrow> string list" where
  "workspace_source_files walked limit = take limit (map snd (rev (sort_key fst (sort_key snd walked))))"

definition add_score :: "string \<Rightarrow> int \<Rightarrow> (string \<times> int) list \<Rightarrow> (string \<times> int) list" where
  "add_score p k scores = AList.update p ((case map_of scores p of None \<Rightarrow> 0 | Some n \<Rightarrow> n) + k) scores"

definition keyword_score :: "string list \<Rightarrow> string \<Rightarrow> int" where
  "keyword_score keywords p = sum_list (map (\<lambda>k. if contains k (lower p) then 2 else 0) keywords)"

definition candidate_scores :: "string list \<Rightarrow> string list \<Rightarrow> string list \<Rightarrow> (string \<times> int) list" where
  "candidate_scores proposed keywords existing =
     fold (\<lambda>p scores. let k = keyword_score keywords p in if k = 0 then scores else add_score p k scores) existing
       (fold (\<lambda>p scores. if p = [] then scores else add_score p 10 scores) proposed [])"

definition ranked :: "(string \<times> int) list \<Rightarrow> string list" where
  "ranked scores = map fst (sort_key (\<lambda>(_, k). - k) (sort_key fst scores))"

definition scope_reason :: "string \<Rightarrow> string list \<Rightarrow> string list \<Rightarrow> string" where
  "scope_reason p proposed existing =
     (if p \<in> set proposed \<and> p \<in> set existing then ''planner proposed this existing workspace file''
      else if p \<in> set proposed then ''planner proposed this path''
      else ''preflight selected this candidate from repository filenames'')"

definition run_file_preflight :: "(int \<times> string) list \<Rightarrow> nat \<Rightarrow> task_contract \<Rightarrow> task_contract" where
  "run_file_preflight walked max_candidates c =
     (let existing = workspace_source_files walked 160;
          proposed = dedupe (tc_planner_proposed_files c @ tc_expected_write_paths c @ tc_allowed_write_paths c);
          keywords = keywords_of (tc_objective c @ '' '' @ join '' '' (tc_requirement_refs c));
          candidates = take max_candidates (ranked (candidate_scores proposed keywords existing));
          named = dedupe (filter (\<lambda>p. p \<noteq> []) proposed);
          selected = (if named = [] then take 2 candidates else named);
          rationale = map (\<lambda>p. \<lparr>sd_path = p, sd_reason = scope_reason p proposed existing, sd_source = ''preflight''\<rparr>) selected;
          expected = dedupe (if tc_expected_write_paths c = [] then selected else tc_expected_write_paths c)
      in c\<lparr>tc_candidate_files := candidates, tc_allowed_write_paths := selected, tc_expected_write_paths := expected,
           tc_allowed_read_paths := dedupe (tc_allowed_read_paths c @ candidates),
           tc_file_selection_rationale := rationale,
           tc_preflight := Some \<lparr>fp_inspected_paths = filter (\<lambda>p. name_suffix (base_name p) \<noteq> []) candidates,
             fp_candidate_files = candidates, fp_planner_proposed_files = proposed, fp_selected_files = selected,
             fp_allowed_write_paths = selected, fp_expected_write_paths = expected, fp_relevant_symbols = [],
             fp_rationale = rationale,
             fp_confidence = (if proposed \<noteq> [] then ''high'' else if selected \<noteq> [] then ''medium'' else ''low''),
             fp_unresolved_ambiguity = (if selected \<noteq> [] then [] else ''No concrete file target could be inferred.'')\<rparr>,
           tc_phase := phase_value AUTHOR\<rparr>)"

subsection \<open>Wishes for more scope\<close>

record scope_expansion =
  se_ok :: bool
  se_contract :: task_contract
  se_message :: string
  se_path :: string

definition scope_expansion :: "bool \<Rightarrow> task_contract \<Rightarrow> string \<Rightarrow> string \<Rightarrow> scope_expansion" where
  "scope_expansion ok c message p = \<lparr>se_ok = ok, se_contract = c, se_message = message, se_path = p\<rparr>"

text \<open>What is granted goes into the contract and into the record of its preflight.\<close>

definition widen :: "string \<Rightarrow> string \<Rightarrow> task_contract \<Rightarrow> task_contract" where
  "widen p reason c =
     (let allowed = dedupe (tc_allowed_write_paths c @ [p]);
          expected = dedupe (tc_expected_write_paths c @ [p]);
          rationale = tc_file_selection_rationale c @
            [\<lparr>sd_path = p, sd_reason = take 300 (strip reason), sd_source = ''scope_expansion''\<rparr>]
      in c\<lparr>tc_allowed_write_paths := allowed, tc_expected_write_paths := expected,
           tc_candidate_files := dedupe (tc_candidate_files c @ [p]), tc_file_selection_rationale := rationale,
           tc_preflight := map_option (\<lambda>f. f\<lparr>fp_allowed_write_paths := allowed, fp_expected_write_paths := expected,
             fp_selected_files := allowed, fp_rationale := rationale\<rparr>) (tc_preflight c)\<rparr>)"

definition request_scope_expansion_on :: "sandbox \<Rightarrow> task_contract \<Rightarrow> string \<Rightarrow> string \<Rightarrow> py_error + scope_expansion" where
  "request_scope_expansion_on sb c p reason =
     (let hint = normalize_hint p; errors = path_errors sb ''scope_expansion'' [hint]
      in if hint = [] then Inr (scope_expansion False c ''Scope expansion rejected: missing path.'' [])
         else if errors \<noteq> [] then Inr (scope_expansion False c (''Scope expansion rejected: '' @ join ''; '' errors) hint)
         else case normalize_paths sb [hint] of
           [] \<Rightarrow> Inl (IndexError ''list index out of range'')
         | n # _ \<Rightarrow> Inr (
             if n \<in> set (tc_forbidden_paths c) then
               scope_expansion False c (''Scope expansion rejected: '' @ n @ '' is forbidden.'') n
             else if strip reason = [] then scope_expansion False c ''Scope expansion rejected: reason is required.'' n
             else if n \<in> set (tc_allowed_write_paths c) then
               scope_expansion True c (n @ '' is already in the locked write scope.'') n
             else scope_expansion True (widen n reason c) (''Scope expansion approved for '' @ n @ ''.'') n))"

subsection \<open>The contract as text and as a plan of the runtime\<close>

definition or_none :: "string \<Rightarrow> string list \<Rightarrow> string" where
  "or_none sep xs = (let t = join sep xs in if t = [] then ''none'' else t)"

definition contract_prompt :: "task_contract \<Rightarrow> string" where
  "contract_prompt c = join [newline] (
     [''Task Contract:'', ''- task_id: '' @ tc_task_id c, ''- attempt_id: '' @ tc_attempt_id c, ''- objective: '' @ tc_objective c,
      ''- locked_write_scope: '' @ or_none '', '' (tc_allowed_write_paths c),
      ''- expected_write_paths: '' @ or_none '', '' (tc_expected_write_paths c),
      ''- candidate_files: '' @ or_none '', '' (take 8 (tc_candidate_files c)),
      ''- acceptance_criteria: '' @ or_none ''; '' (tc_acceptance_criteria c),
      ''- verification_requirements: '' @ or_none ''; '' (tc_verification_requirements c)] @
     (if tc_file_selection_rationale c = [] then [] else
       [''- scope_rationale: '' @ join ''; '' (map (\<lambda>d. sd_path d @ '': '' @ sd_reason d) (take 6 (tc_file_selection_rationale c)))]) @
     [''Do not write outside locked_write_scope. If another file is genuinely required, '' @
      ''call request_scope_expansion with the path and reason before writing it.''])"

definition contract_tools :: "string list" where
  "contract_tools = [''file.read'', ''code.search'', ''file.patch'', ''test.run'', ''request_scope_expansion'', ''scope.expand'',
     ''read_file'', ''edit_file'', ''append_file'', ''write_file'', ''run_command'']"

definition to_runtime_plan :: "string \<Rightarrow> task_contract \<Rightarrow> string \<Rightarrow> string \<Rightarrow> string \<Rightarrow> execution_plan" where
  "to_runtime_plan now_text c runtime_task_id runtime_run_id plan_id =
     (let allowed = tc_allowed_write_paths c; title = take 80 (tc_objective c);
          verification = (if tc_verification_requirements c = []
            then [''Verify the changed files with the narrowest available project check.''] else tc_verification_requirements c);
          st = \<lparr>ps_step_id = tc_task_id c, ps_title = (if title = [] then tc_task_id c else title), ps_goal = tc_objective c,
            ps_inputs = (if tc_allowed_read_paths c = [] then tc_candidate_files c else tc_allowed_read_paths c),
            ps_expected_outputs = (if tc_expected_write_paths c = [] then allowed else tc_expected_write_paths c),
            ps_constraints = tc_constraints c @
              (if allowed = [] then [] else [''Locked write scope: '' @ join '', '' allowed]) @
              (if tc_forbidden_paths c = [] then [] else [''Forbidden paths: '' @ join '', '' (tc_forbidden_paths c)]) @
              map (\<lambda>v. ''Verification requirement: '' @ v) verification,
            ps_allowed_tools = contract_tools, ps_acceptance_criteria = tc_acceptance_criteria c,
            ps_required_evidence = [evidence_type_value FILE_CHANGED], ps_risk_level = RISK_MEDIUM,
            ps_approval_required = False, ps_status = PLAN_PENDING, ps_dependencies = tc_dependencies c\<rparr>
      in \<lparr>ep_plan_id = plan_id, ep_task_id = runtime_task_id, ep_run_id = runtime_run_id,
          ep_title = (if title = [] then ''Task contract'' else title),
          ep_summary = ''Structured Task Contract persisted from approved plan.'', ep_steps = [st],
          ep_created_at = now_text, ep_updated_at = now_text\<rparr>)"

subsection \<open>Contracts as dictionaries\<close>

definition decision_to_dict :: "scope_decision \<Rightarrow> dict" where
  "decision_to_dict d = [(''path'', JStr (sd_path d)), (''reason'', JStr (sd_reason d)), (''source'', JStr (sd_source d))]"

definition decisions :: "scope_decision list \<Rightarrow> json" where
  "decisions ds = JList (map (\<lambda>d. JObj (decision_to_dict d)) ds)"

definition preflight_to_dict :: "file_preflight \<Rightarrow> dict" where
  "preflight_to_dict f = [
     (''allowed_write_paths'', strs (fp_allowed_write_paths f)),
     (''candidate_files'', strs (fp_candidate_files f)),
     (''confidence'', JStr (fp_confidence f)),
     (''expected_write_paths'', strs (fp_expected_write_paths f)),
     (''inspected_paths'', strs (fp_inspected_paths f)),
     (''planner_proposed_files'', strs (fp_planner_proposed_files f)),
     (''rationale'', decisions (fp_rationale f)),
     (''relevant_symbols'', strs (fp_relevant_symbols f)),
     (''selected_files'', strs (fp_selected_files f)),
     (''unresolved_ambiguity'', JStr (fp_unresolved_ambiguity f))]"

definition contract_to_dict :: "task_contract \<Rightarrow> dict" where
  "contract_to_dict c = [
     (''acceptance_criteria'', strs (tc_acceptance_criteria c)),
     (''allowed_read_paths'', strs (tc_allowed_read_paths c)),
     (''allowed_write_paths'', strs (tc_allowed_write_paths c)),
     (''attempt_id'', JStr (tc_attempt_id c)),
     (''attempt_index'', JInt (tc_attempt_index c)),
     (''candidate_files'', strs (tc_candidate_files c)),
     (''constraints'', strs (tc_constraints c)),
     (''dependencies'', strs (tc_dependencies c)),
     (''evidence_refs'', strs (tc_evidence_refs c)),
     (''expected_write_paths'', strs (tc_expected_write_paths c)),
     (''file_selection_rationale'', decisions (tc_file_selection_rationale c)),
     (''forbidden_paths'', strs (tc_forbidden_paths c)),
     (''objective'', JStr (tc_objective c)),
     (''phase'', JStr (tc_phase c)),
     (''planner_proposed_files'', strs (tc_planner_proposed_files c)),
     (''preflight'', (case tc_preflight c of None \<Rightarrow> JNull | Some f \<Rightarrow> JObj (preflight_to_dict f))),
     (''relevant_symbols'', strs (tc_relevant_symbols c)),
     (''requirement_refs'', strs (tc_requirement_refs c)),
     (''run_id'', JStr (tc_run_id c)),
     (''status'', JStr (tc_status c)),
     (''task_id'', JStr (tc_task_id c)),
     (''verification_requirements'', strs (tc_verification_requirements c))]"

text \<open>\<open>[item for item in data.get(k, []) if isinstance(item, dict)]\<close>: what a \<open>for\<close> meets in a text or a dictionary is
  no dictionary, and other values cannot be iterated.\<close>

fun dicts_among :: "json list \<Rightarrow> dict list" where
  "dicts_among [] = []"
| "dicts_among (JObj d # xs) = d # dicts_among xs"
| "dicts_among (_ # xs) = dicts_among xs"

definition dict_items :: "dict \<Rightarrow> string \<Rightarrow> py_error + dict list" where
  "dict_items d k = (case dict_get d k of None \<Rightarrow> Inr [] | Some (JList xs) \<Rightarrow> Inr (dicts_among xs)
     | Some (JStr _) \<Rightarrow> Inr [] | Some (JObj _) \<Rightarrow> Inr [] | _ \<Rightarrow> Inl (TypeError ''object is not iterable''))"

definition decision_from_dict :: "dict \<Rightarrow> py_error + scope_decision" where
  "decision_from_dict d =
     rbind (known_keys [''path'', ''reason'', ''source''] d) (\<lambda>_.
     rbind (str_req d ''path'') (\<lambda>path.
     rbind (str_req d ''reason'') (\<lambda>reason.
     rbind (str_opt d ''source'' ''preflight'') (\<lambda>source.
     Inr \<lparr>sd_path = path, sd_reason = reason, sd_source = source\<rparr>))))"

definition decisions_from :: "dict \<Rightarrow> string \<Rightarrow> py_error + scope_decision list" where
  "decisions_from d k = rbind (dict_items d k) (rmap decision_from_dict)"

definition preflight_from_dict :: "dict \<Rightarrow> py_error + file_preflight" where
  "preflight_from_dict d =
     rbind (decisions_from d ''rationale'') (\<lambda>rationale.
     rbind (known_keys [''allowed_write_paths'', ''candidate_files'', ''confidence'', ''expected_write_paths'', ''inspected_paths'',
       ''planner_proposed_files'', ''rationale'', ''relevant_symbols'', ''selected_files'', ''unresolved_ambiguity''] d) (\<lambda>_.
     rbind (strs_opt d ''inspected_paths'') (\<lambda>inspected.
     rbind (strs_opt d ''candidate_files'') (\<lambda>candidates.
     rbind (strs_opt d ''planner_proposed_files'') (\<lambda>proposed.
     rbind (strs_opt d ''selected_files'') (\<lambda>selected.
     rbind (strs_opt d ''allowed_write_paths'') (\<lambda>allowed.
     rbind (strs_opt d ''expected_write_paths'') (\<lambda>expected.
     rbind (strs_opt d ''relevant_symbols'') (\<lambda>symbols.
     rbind (str_opt d ''confidence'' ''medium'') (\<lambda>confidence.
     rbind (str_opt d ''unresolved_ambiguity'' []) (\<lambda>ambiguity.
     Inr \<lparr>fp_inspected_paths = inspected, fp_candidate_files = candidates, fp_planner_proposed_files = proposed,
       fp_selected_files = selected, fp_allowed_write_paths = allowed, fp_expected_write_paths = expected,
       fp_relevant_symbols = symbols, fp_rationale = rationale, fp_confidence = confidence,
       fp_unresolved_ambiguity = ambiguity\<rparr>)))))))))))"

definition contract_keys :: "string list" where
  "contract_keys = [''acceptance_criteria'', ''allowed_read_paths'', ''allowed_write_paths'', ''attempt_id'', ''attempt_index'',
     ''candidate_files'', ''constraints'', ''dependencies'', ''evidence_refs'', ''expected_write_paths'',
     ''file_selection_rationale'', ''forbidden_paths'', ''objective'', ''phase'', ''planner_proposed_files'', ''preflight'',
     ''relevant_symbols'', ''requirement_refs'', ''run_id'', ''status'', ''task_id'', ''verification_requirements'']"

definition contract_from_dict :: "dict \<Rightarrow> py_error + task_contract" where
  "contract_from_dict d =
     rbind (case dict_get d ''preflight'' of Some (JObj e) \<Rightarrow> rbind (preflight_from_dict e) (\<lambda>f. Inr (Some f)) | _ \<Rightarrow> Inr None) (\<lambda>preflight.
     rbind (decisions_from d ''file_selection_rationale'') (\<lambda>rationale.
     rbind (strs_or_empty d ''requirement_refs'') (\<lambda>refs.
     rbind (strs_or_empty d ''dependencies'') (\<lambda>dependencies.
     rbind (strs_or_empty d ''allowed_read_paths'') (\<lambda>reads.
     rbind (strs_or_empty d ''candidate_files'') (\<lambda>candidates.
     rbind (strs_or_empty d ''allowed_write_paths'') (\<lambda>allowed.
     rbind (strs_or_empty d ''expected_write_paths'') (\<lambda>expected.
     rbind (strs_or_empty d ''forbidden_paths'') (\<lambda>forbidden.
     rbind (strs_or_empty d ''relevant_symbols'') (\<lambda>symbols.
     rbind (strs_or_empty d ''constraints'') (\<lambda>constraints.
     rbind (strs_or_empty d ''acceptance_criteria'') (\<lambda>criteria.
     rbind (strs_or_empty d ''verification_requirements'') (\<lambda>verification.
     rbind (strs_or_empty d ''evidence_refs'') (\<lambda>evidence.
     rbind (strs_or_empty d ''planner_proposed_files'') (\<lambda>proposed.
     rbind (known_keys contract_keys d) (\<lambda>_.
     rbind (str_req d ''task_id'') (\<lambda>task_id.
     rbind (str_req d ''run_id'') (\<lambda>run_id.
     rbind (str_req d ''objective'') (\<lambda>objective.
     rbind (str_opt d ''phase'' (phase_value AUTHOR)) (\<lambda>phase.
     rbind (str_opt d ''status'' ''pending'') (\<lambda>status.
     rbind (str_opt d ''attempt_id'' ''attempt-001'') (\<lambda>attempt.
     rbind (int_opt d ''attempt_index'' 1) (\<lambda>index.
     Inr \<lparr>tc_task_id = task_id, tc_run_id = run_id, tc_objective = objective, tc_requirement_refs = refs,
       tc_dependencies = dependencies, tc_allowed_read_paths = reads, tc_candidate_files = candidates,
       tc_allowed_write_paths = allowed, tc_expected_write_paths = expected, tc_forbidden_paths = forbidden,
       tc_relevant_symbols = symbols, tc_constraints = constraints, tc_acceptance_criteria = criteria,
       tc_verification_requirements = verification, tc_phase = phase, tc_status = status, tc_attempt_id = attempt,
       tc_attempt_index = index, tc_evidence_refs = evidence, tc_planner_proposed_files = proposed,
       tc_file_selection_rationale = rationale, tc_preflight = preflight\<rparr>)))))))))))))))))))))))"

subsection \<open>The file of the contracts of a plan\<close>

text \<open>The files below \<open>.shamsu/plans\<close>, by the plan they belong to.\<close>

type_synonym contract_files = "(string \<times> json_text) list"

definition write_plan_contracts :: "string \<Rightarrow> task_contract list \<Rightarrow> contract_files \<Rightarrow> contract_files" where
  "write_plan_contracts plan_id cs files = AList.update plan_id
     (dumps (JObj [(''contracts'', JList (map (\<lambda>c. JObj (contract_to_dict c)) cs)), (''plan_id'', JStr plan_id)])) files"

definition load_plan_contracts :: "string \<Rightarrow> contract_files \<Rightarrow> py_error + task_contract list" where
  "load_plan_contracts plan_id files = (case map_of files plan_id of
     None \<Rightarrow> Inr []
   | Some (Garbage t) \<Rightarrow> Inl (ValueError t)
   | Some (Text (JObj d)) \<Rightarrow> rbind (dict_items d ''contracts'') (rmap contract_from_dict)
   | Some (Text _) \<Rightarrow> Inr [])"

subsection \<open>Round trip\<close>

lemma dicts_among_map [simp]: "dicts_among (map (\<lambda>x. JObj (f x)) xs) = map f xs"
  by (induction xs) auto

lemma decision_roundtrip: "decision_from_dict (decision_to_dict d) = Inr d"
  by (simp add: decision_from_dict_def decision_to_dict_def field_defs)

lemma decisions_roundtrip: "dict_get d k = Some (decisions ds) \<Longrightarrow> decisions_from d k = Inr ds"
  by (simp add: decisions_from_def dict_items_def decisions_def rmap_map decision_roundtrip)

lemma preflight_roundtrip: "preflight_from_dict (preflight_to_dict f) = Inr f"
proof -
  have "decisions_from (preflight_to_dict f) ''rationale'' = Inr (fp_rationale f)"
    by (rule decisions_roundtrip) (simp add: preflight_to_dict_def dict_get_def)
  then show ?thesis
    unfolding preflight_from_dict_def by (simp add: preflight_to_dict_def field_defs)
qed

lemma contract_roundtrip: "contract_from_dict (contract_to_dict c) = Inr c"
proof -
  have "decisions_from (contract_to_dict c) ''file_selection_rationale'' = Inr (tc_file_selection_rationale c)"
    by (rule decisions_roundtrip) (simp add: contract_to_dict_def dict_get_def)
  moreover have "(case dict_get (contract_to_dict c) ''preflight'' of Some (JObj e) \<Rightarrow> rbind (preflight_from_dict e) (\<lambda>f. Inr (Some f))
      | _ \<Rightarrow> Inr None) = Inr (tc_preflight c)"
    by (cases "tc_preflight c") (simp_all add: contract_to_dict_def dict_get_def preflight_roundtrip)
  ultimately show ?thesis
    unfolding contract_from_dict_def by (simp add: contract_to_dict_def contract_keys_def field_defs)
qed

lemma contracts_roundtrip: "load_plan_contracts plan_id (write_plan_contracts plan_id cs files) = Inr cs"
  by (simp add: load_plan_contracts_def write_plan_contracts_def dumps_def dict_items_def dict_get_def rmap_map
      contract_roundtrip update_conv')

end
