(* ===== verification/MilestoneTasks.thy ===== *)
theory MilestoneTasks
  imports TaskContracts ChangeRequests
begin

text \<open>
  The tracker of long tasks, \<open>tasks/state.py\<close>: steps with dependencies, the marks a run leaves on them, the advance
  from one phase to the next, and the files of the tasks. The clock is an argument.
\<close>

subsection \<open>Records\<close>

record milestone_step =
  ms_id :: int
  ms_description :: string
  ms_type :: string
  ms_specialist :: string
  ms_status :: task_step_status
  ms_depends_on :: "int list"
  ms_target_file :: "string option"
  ms_result :: "string option"
  ms_error :: "string option"
  ms_phase :: string

record test_failure =
  tf_file :: string
  tf_test_name :: string
  tf_error_message :: string
  tf_line :: "int option"

record test_report =
  rp_passed :: int
  rp_failed :: int
  rp_failures :: "test_failure list"
  rp_raw_output :: string

record milestone_task =
  mt_task_id :: string
  mt_user_request :: string
  mt_steps :: "milestone_step list"
  mt_phase :: string
  mt_created_at :: string
  mt_updated_at :: string
  mt_files_created :: "string list"
  mt_files_edited :: "string list"
  mt_commands_executed :: "dict list"
  mt_test_results :: "test_report list"
  mt_next_action :: string

definition create_milestone_task :: "string \<Rightarrow> string \<Rightarrow> string \<Rightarrow> milestone_step list \<Rightarrow> string \<Rightarrow> milestone_task" where
  "create_milestone_task uuid now_text user_request steps phase =
     \<lparr>mt_task_id = ''task-'' @ take 12 uuid, mt_user_request = user_request, mt_steps = steps, mt_phase = phase,
      mt_created_at = now_text, mt_updated_at = now_text, mt_files_created = [], mt_files_edited = [], mt_commands_executed = [],
      mt_test_results = [], mt_next_action = []\<rparr>"

subsection \<open>What to do next\<close>

definition blocked_steps :: "milestone_task \<Rightarrow> milestone_step list" where
  "blocked_steps t = filter (\<lambda>s. ms_status s = STEP_BLOCKED) (mt_steps t)"

definition next_pending :: "milestone_task \<Rightarrow> milestone_step option" where
  "next_pending t =
     (let done_ids = map ms_id (filter (\<lambda>s. ms_status s = STEP_DONE) (mt_steps t))
      in find (\<lambda>s. ms_status s = STEP_PENDING \<and> list_all (\<lambda>d. d \<in> set done_ids) (ms_depends_on s)) (mt_steps t))"

subsection \<open>Marks\<close>

definition find_step :: "milestone_task \<Rightarrow> int \<Rightarrow> py_error + milestone_step" where
  "find_step t i = (case find (\<lambda>s. ms_id s = i) (mt_steps t) of
     None \<Rightarrow> Inl (ValueError (''Unknown task step id: '' @ int_str i)) | Some s \<Rightarrow> Inr s)"

text \<open>The step object that was found is the one that changes: the first with its identifier.\<close>

fun put_step :: "int \<Rightarrow> (milestone_step \<Rightarrow> milestone_step) \<Rightarrow> milestone_step list \<Rightarrow> milestone_step list" where
  "put_step i f [] = []"
| "put_step i f (s # ss) = (if ms_id s = i then f s # ss else s # put_step i f ss)"

definition mark_step :: "string \<Rightarrow> (milestone_step \<Rightarrow> milestone_step) \<Rightarrow> (milestone_step \<Rightarrow> string \<Rightarrow> string) \<Rightarrow>
    milestone_task \<Rightarrow> int \<Rightarrow> py_error + milestone_task" where
  "mark_step now_text f act t i = rbind (find_step t i) (\<lambda>s.
     Inr (t\<lparr>mt_steps := put_step i f (mt_steps t), mt_next_action := act s (mt_next_action t), mt_updated_at := now_text\<rparr>))"

definition mark_step_running :: "string \<Rightarrow> milestone_task \<Rightarrow> int \<Rightarrow> py_error + milestone_task" where
  "mark_step_running now_text t i = mark_step now_text (\<lambda>s. s\<lparr>ms_status := STEP_RUNNING, ms_error := None\<rparr>)
     (\<lambda>s _. ''Running step '' @ int_str i @ '': '' @ ms_description s) t i"

definition mark_step_done :: "string \<Rightarrow> milestone_task \<Rightarrow> int \<Rightarrow> string option \<Rightarrow> py_error + milestone_task" where
  "mark_step_done now_text t i result =
     mark_step now_text (\<lambda>s. s\<lparr>ms_status := STEP_DONE, ms_error := None, ms_result := result\<rparr>) (\<lambda>_ _. []) t i"

definition mark_step_failed :: "string \<Rightarrow> milestone_task \<Rightarrow> int \<Rightarrow> string \<Rightarrow> py_error + milestone_task" where
  "mark_step_failed now_text t i error = mark_step now_text (\<lambda>s. s\<lparr>ms_status := STEP_FAILED, ms_error := Some error\<rparr>)
     (\<lambda>_ _. ''Step '' @ int_str i @ '' failed: '' @ error) t i"

definition mark_step_blocked :: "string \<Rightarrow> milestone_task \<Rightarrow> int \<Rightarrow> string \<Rightarrow> py_error + milestone_task" where
  "mark_step_blocked now_text t i reason = mark_step now_text (\<lambda>s. s\<lparr>ms_status := STEP_BLOCKED, ms_error := Some reason\<rparr>)
     (\<lambda>_ _. ''Blocked on step '' @ int_str i @ '': '' @ reason) t i"

definition mark_step_skipped :: "string \<Rightarrow> milestone_task \<Rightarrow> int \<Rightarrow> string \<Rightarrow> py_error + milestone_task" where
  "mark_step_skipped now_text t i reason =
     mark_step now_text (\<lambda>s. s\<lparr>ms_status := STEP_SKIPPED, ms_error := Some reason\<rparr>) (\<lambda>_ act. act) t i"

definition record_file_created :: "milestone_task \<Rightarrow> string \<Rightarrow> milestone_task" where
  "record_file_created t p = t\<lparr>mt_files_created := add_new (mt_files_created t) p\<rparr>"

definition record_file_edited :: "milestone_task \<Rightarrow> string \<Rightarrow> milestone_task" where
  "record_file_edited t p = t\<lparr>mt_files_edited := add_new (mt_files_edited t) p\<rparr>"

definition record_command :: "string \<Rightarrow> milestone_task \<Rightarrow> string \<Rightarrow> int \<Rightarrow> milestone_task" where
  "record_command now_text t command exit_code = t\<lparr>mt_commands_executed := mt_commands_executed t @
     [[(''at'', JStr now_text), (''command'', JStr command), (''exit_code'', JInt exit_code)]]\<rparr>"

definition record_test_result :: "milestone_task \<Rightarrow> test_report \<Rightarrow> milestone_task" where
  "record_test_result t r = t\<lparr>mt_test_results := mt_test_results t @ [r]\<rparr>"

subsection \<open>Phases\<close>

definition unfinished_steps :: "milestone_task \<Rightarrow> milestone_step list" where
  "unfinished_steps t = filter (\<lambda>s. ms_phase s = mt_phase t \<and> ms_status s \<notin> {STEP_DONE, STEP_SKIPPED}) (mt_steps t)"

definition advance_phase :: "string \<Rightarrow> milestone_task \<Rightarrow> string \<Rightarrow> test_report option \<Rightarrow> bool \<times> milestone_task" where
  "advance_phase now_text t next_phase test_result =
     (let stay = (\<lambda>t message. (False, t\<lparr>mt_next_action := ''Cannot advance to '' @ quoted next_phase @ '': '' @ message,
            mt_updated_at := now_text\<rparr>));
          go = (\<lambda>t. (True, t\<lparr>mt_phase := next_phase, mt_next_action := [], mt_updated_at := now_text\<rparr>))
      in case unfinished_steps t of
           first # _ \<Rightarrow> stay t (nat_str (length (unfinished_steps t)) @ '' step(s) in '' @ quoted (mt_phase t) @
             '' not yet done (first: step '' @ int_str (ms_id first) @ '' - '' @ ms_description first @ '').'')
         | [] \<Rightarrow> (case test_result of
             None \<Rightarrow> go t
           | Some r \<Rightarrow>
               let t = record_test_result t r
               in if rp_failed r \<noteq> 0
                  then stay t (int_str (rp_failed r) @ '' test(s) failing in '' @ quoted (mt_phase t) @ ''.'')
                  else go t))"

subsection \<open>Dictionaries and files\<close>

definition ints :: "int list \<Rightarrow> json" where
  "ints xs = JList (map JInt xs)"

definition milestone_step_to_dict :: "milestone_step \<Rightarrow> dict" where
  "milestone_step_to_dict s = [
     (''depends_on'', ints (ms_depends_on s)), (''description'', JStr (ms_description s)), (''error'', str_or_null (ms_error s)),
     (''id'', JInt (ms_id s)), (''phase'', JStr (ms_phase s)), (''result'', str_or_null (ms_result s)),
     (''specialist'', JStr (ms_specialist s)), (''status'', JStr (task_step_status_value (ms_status s))),
     (''target_file'', str_or_null (ms_target_file s)), (''type'', JStr (ms_type s))]"

definition test_failure_to_dict :: "test_failure \<Rightarrow> dict" where
  "test_failure_to_dict f = [(''error_message'', JStr (tf_error_message f)), (''file'', JStr (tf_file f)),
     (''line'', int_or_null (tf_line f)), (''test_name'', JStr (tf_test_name f))]"

definition report_to_dict :: "test_report \<Rightarrow> dict" where
  "report_to_dict r = [(''failed'', JInt (rp_failed r)), (''failures'', JList (map (\<lambda>f. JObj (test_failure_to_dict f)) (rp_failures r))),
     (''passed'', JInt (rp_passed r)), (''raw_output'', JStr (rp_raw_output r))]"

definition milestone_task_to_dict :: "milestone_task \<Rightarrow> dict" where
  "milestone_task_to_dict t = [
     (''commands_executed'', JList (map JObj (mt_commands_executed t))),
     (''created_at'', JStr (mt_created_at t)),
     (''files_created'', strs (mt_files_created t)),
     (''files_edited'', strs (mt_files_edited t)),
     (''next_action'', JStr (mt_next_action t)),
     (''phase'', JStr (mt_phase t)),
     (''steps'', JList (map (\<lambda>s. JObj (milestone_step_to_dict s)) (mt_steps t))),
     (''task_id'', JStr (mt_task_id t)),
     (''test_results'', JList (map (\<lambda>r. JObj (report_to_dict r)) (mt_test_results t))),
     (''updated_at'', JStr (mt_updated_at t)),
     (''user_request'', JStr (mt_user_request t))]"

text \<open>\<open>data[k]\<close> of a value of the declared type.\<close>

definition str_at :: "dict \<Rightarrow> string \<Rightarrow> py_error + string" where
  "str_at d k = (case dict_get d k of None \<Rightarrow> Inl (KeyError k) | Some (JStr s) \<Rightarrow> Inr s | _ \<Rightarrow> Inl (type_error k))"

definition int_at :: "dict \<Rightarrow> string \<Rightarrow> py_error + int" where
  "int_at d k = (case dict_get d k of None \<Rightarrow> Inl (KeyError k) | Some (JInt i) \<Rightarrow> Inr i | _ \<Rightarrow> Inl (type_error k))"

fun json_ints :: "json list \<Rightarrow> py_error + int list" where
  "json_ints [] = Inr []"
| "json_ints (JInt i # xs) = rbind (json_ints xs) (\<lambda>is. Inr (i # is))"
| "json_ints (_ # xs) = Inl (type_error ''depends_on'')"

definition ints_opt :: "dict \<Rightarrow> string \<Rightarrow> py_error + int list" where
  "ints_opt d k = (case dict_get d k of None \<Rightarrow> Inr [] | Some (JList xs) \<Rightarrow> json_ints xs | _ \<Rightarrow> Inl (type_error k))"

definition dicts_opt :: "dict \<Rightarrow> string \<Rightarrow> py_error + dict list" where
  "dicts_opt d k = (case dict_get d k of None \<Rightarrow> Inr [] | Some (JList xs) \<Rightarrow> json_dicts xs | _ \<Rightarrow> Inl (type_error k))"

definition milestone_step_from_dict :: "dict \<Rightarrow> py_error + milestone_step" where
  "milestone_step_from_dict d =
     rbind (int_at d ''id'') (\<lambda>i.
     rbind (str_at d ''description'') (\<lambda>description.
     rbind (str_at d ''type'') (\<lambda>type'.
     rbind (str_opt d ''specialist'' ''coder'') (\<lambda>specialist.
     rbind (enum_opt task_step_status_value task_step_statuses d ''status'' STEP_PENDING) (\<lambda>status.
     rbind (ints_opt d ''depends_on'') (\<lambda>depends_on.
     rbind (null_str_opt d ''target_file'') (\<lambda>target_file.
     rbind (null_str_opt d ''result'') (\<lambda>result.
     rbind (null_str_opt d ''error'') (\<lambda>error.
     rbind (str_opt d ''phase'' ''default'') (\<lambda>phase.
     Inr \<lparr>ms_id = i, ms_description = description, ms_type = type', ms_specialist = specialist, ms_status = status,
       ms_depends_on = depends_on, ms_target_file = target_file, ms_result = result, ms_error = error, ms_phase = phase\<rparr>))))))))))"

definition test_failure_from_dict :: "dict \<Rightarrow> py_error + test_failure" where
  "test_failure_from_dict d =
     rbind (known_keys [''error_message'', ''file'', ''line'', ''test_name''] d) (\<lambda>_.
     rbind (str_req d ''file'') (\<lambda>file.
     rbind (str_req d ''test_name'') (\<lambda>test_name.
     rbind (str_req d ''error_message'') (\<lambda>error_message.
     rbind (null_int_opt d ''line'') (\<lambda>line.
     Inr \<lparr>tf_file = file, tf_test_name = test_name, tf_error_message = error_message, tf_line = line\<rparr>)))))"

definition report_from_dict :: "dict \<Rightarrow> py_error + test_report" where
  "report_from_dict d =
     rbind (int_at d ''passed'') (\<lambda>passed.
     rbind (int_at d ''failed'') (\<lambda>failed.
     rbind (rbind (dicts_opt d ''failures'') (rmap test_failure_from_dict)) (\<lambda>failures.
     rbind (str_opt d ''raw_output'' []) (\<lambda>raw_output.
     Inr \<lparr>rp_passed = passed, rp_failed = failed, rp_failures = failures, rp_raw_output = raw_output\<rparr>))))"

definition milestone_task_from_dict :: "string \<Rightarrow> dict \<Rightarrow> py_error + milestone_task" where
  "milestone_task_from_dict now_text d =
     rbind (if dict_get d ''steps'' = None then Inl (KeyError ''steps'')
            else rbind (dicts_opt d ''steps'') (rmap milestone_step_from_dict)) (\<lambda>steps.
     rbind (rbind (dicts_opt d ''test_results'') (rmap report_from_dict)) (\<lambda>test_results.
     rbind (str_at d ''task_id'') (\<lambda>task_id.
     rbind (str_at d ''user_request'') (\<lambda>user_request.
     rbind (str_opt d ''phase'' ''default'') (\<lambda>phase.
     rbind (str_opt d ''created_at'' now_text) (\<lambda>created_at.
     rbind (str_opt d ''updated_at'' now_text) (\<lambda>updated_at.
     rbind (strs_opt d ''files_created'') (\<lambda>files_created.
     rbind (strs_opt d ''files_edited'') (\<lambda>files_edited.
     rbind (dicts_opt d ''commands_executed'') (\<lambda>commands_executed.
     rbind (str_opt d ''next_action'' []) (\<lambda>next_action.
     Inr \<lparr>mt_task_id = task_id, mt_user_request = user_request, mt_steps = steps, mt_phase = phase,
       mt_created_at = created_at, mt_updated_at = updated_at, mt_files_created = files_created,
       mt_files_edited = files_edited, mt_commands_executed = commands_executed, mt_test_results = test_results,
       mt_next_action = next_action\<rparr>)))))))))))"

text \<open>The files below \<open>.shamsu/tasks\<close>, by the task they belong to. Saving stamps the task object itself.\<close>

type_synonym task_files = "(string \<times> json_text) list"

definition save_milestone_task :: "string \<Rightarrow> milestone_task \<Rightarrow> task_files \<Rightarrow> milestone_task \<times> task_files" where
  "save_milestone_task now_text t files =
     (let t = t\<lparr>mt_updated_at := now_text\<rparr> in (t, AList.update (mt_task_id t) (dumps (JObj (milestone_task_to_dict t))) files))"

definition load_milestone_task :: "string \<Rightarrow> string \<Rightarrow> task_files \<Rightarrow> py_error + milestone_task" where
  "load_milestone_task now_text task_id files = (case map_of files task_id of
     None \<Rightarrow> Inl (OSError ''No such file or directory'')
   | Some (Garbage t) \<Rightarrow> Inl (ValueError t)
   | Some (Text (JObj d)) \<Rightarrow> milestone_task_from_dict now_text d
   | Some (Text _) \<Rightarrow> Inl (TypeError ''indices must be integers''))"

definition list_task_ids :: "task_files \<Rightarrow> string list" where
  "list_task_ids files = sorted_set (map fst files)"

subsection \<open>The view of a generated project\<close>

text \<open>Of the state of a generation, what the view reads.\<close>

record generation_step =
  gs_id :: int
  gs_path :: string
  gs_specialist :: "string option"
  gs_status :: task_step_status
  gs_error :: "string option"

record generation_state =
  gn_task_id :: string
  gn_prd_path :: string
  gn_project_name :: string
  gn_generation_order :: "generation_step list"
  gn_completed_files :: "string list"
  gn_last_error :: "string option"
  gn_created_at :: string
  gn_updated_at :: string

definition generation_state_to_milestone_task :: "generation_state \<Rightarrow> milestone_task" where
  "generation_state_to_milestone_task g =
     \<lparr>mt_task_id = gn_task_id g,
      mt_user_request = ''Generate Django project '' @ quoted (gn_project_name g) @ '' from '' @ gn_prd_path g,
      mt_steps = map (\<lambda>s. \<lparr>ms_id = gs_id s, ms_description = ''Generate '' @ gs_path s, ms_type = ''file_create'',
        ms_specialist = (case gs_specialist s of Some w \<Rightarrow> if w = [] then ''coder'' else w | None \<Rightarrow> ''coder''),
        ms_status = gs_status s, ms_depends_on = [], ms_target_file = Some (gs_path s), ms_result = None,
        ms_error = gs_error s, ms_phase = ''default''\<rparr>) (gn_generation_order g),
      mt_phase = ''generate'', mt_created_at = gn_created_at g, mt_updated_at = gn_updated_at g,
      mt_files_created = gn_completed_files g, mt_files_edited = [], mt_commands_executed = [], mt_test_results = [],
      mt_next_action = (case gn_last_error g of Some e \<Rightarrow> e | None \<Rightarrow> [])\<rparr>"

end
