(* ===== verification/PlanDocs.thy ===== *)
theory PlanDocs
  imports MilestoneTasks
begin

text \<open>
  The planning run of \<open>agents/plan_mode.py\<close>: the steps read out of what the planner answered, the check that their
  files exist, the document the user reviews, and the contracts written beside it. What the model answers, once
  parsed, is an argument; \<open>show\<close> is \<open>str\<close> on values that are no text.
\<close>

subsection \<open>Steps of an answer\<close>

definition plain_text :: "(json \<Rightarrow> string) \<Rightarrow> json \<Rightarrow> string" where
  "plain_text show j = (case j of JStr s \<Rightarrow> s | _ \<Rightarrow> show j)"

text \<open>\<open>str(data.get(k) or "").strip()\<close>.\<close>

definition stripped_field :: "(json \<Rightarrow> string) \<Rightarrow> dict \<Rightarrow> string \<Rightarrow> string" where
  "stripped_field show d k = (case dict_get d k of None \<Rightarrow> [] | Some j \<Rightarrow> if truthy j then strip (plain_text show j) else [])"

text \<open>\<open>for value in (data.get(k) or [])\<close>.\<close>

definition loop_items :: "dict \<Rightarrow> string \<Rightarrow> py_error + json list" where
  "loop_items d k = (case dict_get d k of None \<Rightarrow> Inr [] | Some j \<Rightarrow>
     if \<not> truthy j then Inr []
     else case j of JList xs \<Rightarrow> Inr xs | JStr s \<Rightarrow> Inr (map (\<lambda>c. JStr [c]) s) | JObj e \<Rightarrow> Inr (map (\<lambda>(k, _). JStr k) e)
       | _ \<Rightarrow> Inl (TypeError ''object is not iterable''))"

definition stripped_items :: "(json \<Rightarrow> string) \<Rightarrow> dict \<Rightarrow> string \<Rightarrow> py_error + string list" where
  "stripped_items show d k =
     rbind (loop_items d k) (\<lambda>xs. Inr (filter (\<lambda>s. s \<noteq> []) (map (\<lambda>j. strip (plain_text show j)) xs)))"

definition step_keys :: "string list" where
  "step_keys = [''steps'', ''plan'', ''tasks'', ''items'', ''actions'', ''plan_steps'']"

definition raw_steps :: "dict \<Rightarrow> json list" where
  "raw_steps d = (case find (\<lambda>k. case dict_get d k of Some (JList xs) \<Rightarrow> xs \<noteq> [] | _ \<Rightarrow> False) step_keys of
     None \<Rightarrow> [] | Some k \<Rightarrow> (case dict_get d k of Some (JList xs) \<Rightarrow> xs | _ \<Rightarrow> []))"

definition planned_step_from :: "(json \<Rightarrow> string) \<Rightarrow> json \<Rightarrow> py_error + planned_step list" where
  "planned_step_from show item = (case item of
     JObj d \<Rightarrow>
       (let description = stripped_field show d ''description''
        in if description = [] then Inr []
           else rbind (stripped_items show d ''acceptance_criteria'') (\<lambda>criteria.
                rbind (stripped_items show d ''constraints'') (\<lambda>constraints.
                Inr [\<lparr>pl_description = description, pl_target_file = stripped_field show d ''target_file'',
                  pl_verify = stripped_field show d ''verify'', pl_acceptance_criteria = criteria, pl_constraints = constraints\<rparr>])))
   | JStr s \<Rightarrow> Inr (if strip s = [] then [] else [\<lparr>pl_description = strip s, pl_target_file = [], pl_verify = [],
       pl_acceptance_criteria = [], pl_constraints = []\<rparr>])
   | _ \<Rightarrow> Inr [])"

definition steps_from_data :: "(json \<Rightarrow> string) \<Rightarrow> dict \<Rightarrow> py_error + planned_step list" where
  "steps_from_data show d = rbind (rmap (planned_step_from show) (take 12 (raw_steps d))) (\<lambda>xss. Inr (concat xss))"

text \<open>\<open>is_real\<close> answers (\<open>is_file\<close>) for a path below the workspace, as it is written.\<close>

definition unreal_targets :: "(string \<Rightarrow> bool) \<Rightarrow> planned_step list \<Rightarrow> string list" where
  "unreal_targets is_real steps = uniq (concat (map (\<lambda>s.
     let target = normalize_hint (pl_target_file s); described = lower (pl_description s)
     in if target = [] \<or> is_real target \<or>
           list_ex (\<lambda>verb. contains verb described) [''creat'', ''new file'', ''add a new'', ''write a new'']
        then [] else [target]) steps))"

subsection \<open>The document\<close>

definition plan_no_steps_marker :: string where
  "plan_no_steps_marker = ''_No steps were produced._ Edit this file to add them, then run `/proceed`.''"

definition plan_has_no_steps :: "string \<Rightarrow> bool" where
  "plan_has_no_steps markdown \<longleftrightarrow> contains plan_no_steps_marker markdown"

definition step_text :: "planned_step \<Rightarrow> string" where
  "step_text s = pl_description s @ (if pl_target_file s = [] then [] else '' (`'' @ pl_target_file s @ ''`)'')"

definition numbered :: "nat \<Rightarrow> string list \<Rightarrow> string list" where
  "numbered n xs = map (\<lambda>(i, x). nat_str i @ ''. '' @ x) (zip [n..<n + length xs] xs)"

definition said_or :: "string \<Rightarrow> string \<Rightarrow> string" where
  "said_or s t = (if s = [] then t else s)"

definition document_lines :: "(json \<Rightarrow> string) \<Rightarrow> string \<Rightarrow> string \<Rightarrow> string \<Rightarrow> dict \<Rightarrow> planned_step list \<Rightarrow> string list \<Rightarrow> string list" where
  "document_lines show title task route data steps files =
     [''# Plan: '' @ title, [], ''**Task:** '' @ strip task, ''**Type:** '' @ route, [], ''## Context'',
      said_or (stripped_field show data ''context'') ''(no additional context)'', []] @
     (if files = [] then [] else [''## Files to touch''] @ map (\<lambda>f. ''- '' @ f) files @ [[]]) @
     [''## Steps''] @ (if steps = [] then [plan_no_steps_marker] else numbered 1 (map step_text steps)) @
     [[], ''## Verification'',
      said_or (stripped_field show data ''verification'') ''Run the project's tests or build after the change.'',
      [], ''---'', ''_Review or edit this plan, then reply `proceed` (or run `/proceed`) to execute it._'']"

definition render_markdown :: "(json \<Rightarrow> string) \<Rightarrow> string \<Rightarrow> string \<Rightarrow> string \<Rightarrow> dict \<Rightarrow> planned_step list \<Rightarrow> py_error + string" where
  "render_markdown show title task route data steps =
     rbind (stripped_items show data ''files'') (\<lambda>files.
     Inr (join [newline] (document_lines show title task route data steps files) @ [newline]))"

subsection \<open>The run\<close>

text \<open>The plan documents and the contracts below \<open>.shamsu/plans\<close>.\<close>

record plan_files =
  pf_documents :: "(string \<times> string) list"
  pf_contracts :: contract_files

record plan_doc =
  pd_plan_id :: string
  pd_markdown :: string
  pd_title :: string
  pd_route :: string
  pd_steps :: "string list"

text \<open>The second answer is taken only if it names fewer files that do not exist.\<close>

definition grounded_steps :: "(json \<Rightarrow> string) \<Rightarrow> (string \<Rightarrow> bool) \<Rightarrow> dict \<Rightarrow> dict \<Rightarrow> py_error + dict \<times> planned_step list" where
  "grounded_steps show is_real answer corrected =
     rbind (steps_from_data show answer) (\<lambda>steps.
     let unreal = unreal_targets is_real steps
     in if unreal = [] then Inr (answer, steps)
        else rbind (steps_from_data show corrected) (\<lambda>retried.
          Inr (if retried \<noteq> [] \<and> length (unreal_targets is_real retried) < length unreal then (corrected, retried)
               else (answer, steps))))"

definition plan_title :: "(json \<Rightarrow> string) \<Rightarrow> string \<Rightarrow> dict \<Rightarrow> string" where
  "plan_title show task data =
     (let said = (case dict_get data ''title'' of Some j \<Rightarrow> if truthy j then plain_text show j else [] | None \<Rightarrow> [])
      in strip (said_or (said_or said (take 80 (strip task))) ''Plan''))"

definition planning_run ::
    "(json \<Rightarrow> string) \<Rightarrow> (string \<Rightarrow> bool) \<Rightarrow> dict \<Rightarrow> dict \<Rightarrow> string \<Rightarrow> string \<Rightarrow> string \<Rightarrow> (plan_files, plan_doc) eff" where
  "planning_run show is_real answer corrected plan_id task route =
     seq (lift_result (grounded_steps show is_real answer corrected)) (\<lambda>(data, steps).
     let title = plan_title show task data
     in seq (lift_result (render_markdown show title task route data steps)) (\<lambda>markdown.
        seq (modify (\<lambda>f. f\<lparr>pf_documents := AList.update plan_id markdown (pf_documents f)\<rparr>)) (\<lambda>_.
        let contracts = contracts_from_planner_data show plan_id data steps task
        in seq (modify (\<lambda>f. if contracts = [] then f
               else f\<lparr>pf_contracts := write_plan_contracts plan_id contracts (pf_contracts f)\<rparr>)) (\<lambda>_.
           ret \<lparr>pd_plan_id = plan_id, pd_markdown = markdown, pd_title = title, pd_route = route,
             pd_steps = (if steps = [] then parse_plan_steps markdown else map pl_description steps)\<rparr>))))"

end
