(* ===== verification/PlanRuns.thy ===== *)
theory PlanRuns
  imports PlanDocs
begin

text \<open>
  The execution of an approved plan in \<open>cli/repl.py\<close>: each step runs as an agent's turn under the locked scope of
  its contract, tracked as a step of a task. What the agent does is an argument: the wishes for more scope it
  makes and how its turn ends.
\<close>

subsection \<open>The scope of a turn\<close>

text \<open>The contract object the turn holds, beside the desk of its tools.\<close>

record contract_session =
  cs_contract :: task_contract
  cs_desk :: desk

definition on_desk :: "'a desk_eff \<Rightarrow> (contract_session, 'a) eff" where
  "on_desk m s = (case m (cs_desk s) of (r, d) \<Rightarrow> (r, s\<lparr>cs_desk := d\<rparr>))"

definition lock_scope :: "(contract_session, unit) eff" where
  "lock_scope = seq (gets (\<lambda>s. tc_allowed_write_paths (cs_contract s))) (\<lambda>ps. on_desk (set_allowed_write_paths (Some ps)))"

definition handle_scope_expansion :: "sandbox \<Rightarrow> string \<Rightarrow> string \<Rightarrow> (contract_session, tool_result) eff" where
  "handle_scope_expansion sb filepath reason =
     seq (read (\<lambda>s. request_scope_expansion_on sb (cs_contract s) filepath reason)) (\<lambda>e.
     if se_ok e then
       seq (modify (\<lambda>s. s\<lparr>cs_contract := se_contract e\<rparr>)) (\<lambda>_.
       seq lock_scope (\<lambda>_.
       ret (tool_result True (se_message e) [(''scope_expansion'', JBool True), (''approved'', JBool True),
         (''filepath'', JStr (se_path e)), (''allowed'', strs (tc_allowed_write_paths (se_contract e)))])))
     else ret (tool_result False (se_message e) [(''scope_expansion'', JBool True), (''approved'', JBool False),
       (''filepath'', JStr (if se_path e = [] then filepath else se_path e))]))"

text \<open>What a wish makes of the contract. One that raises leaves it alone, and the tool reports the error.\<close>

definition grant :: "sandbox \<Rightarrow> string \<times> string \<Rightarrow> task_contract \<Rightarrow> task_contract" where
  "grant sb wish c = (case request_scope_expansion_on sb c (fst wish) (snd wish) of Inl _ \<Rightarrow> c | Inr e \<Rightarrow> se_contract e)"

definition grants :: "sandbox \<Rightarrow> (string \<times> string) list \<Rightarrow> task_contract \<Rightarrow> task_contract" where
  "grants sb wishes c = fold (grant sb) wishes c"

subsection \<open>Requests\<close>

definition spaced :: "string \<Rightarrow> string list" where
  "spaced s = filter (\<lambda>w. w \<noteq> []) (split_char (CHR '' '') (map (\<lambda>c. if is_space c then CHR '' '' else c) s))"

definition render_progress_checklist :: "string list \<Rightarrow> nat \<Rightarrow> string \<Rightarrow> string" where
  "render_progress_checklist items current header =
     (let cleaned = map (\<lambda>s. take 200 (join '' '' (spaced s))) (filter (\<lambda>s. strip s \<noteq> []) items)
      in if cleaned = [] then []
         else join [newline] ((''## '' @ header @ '' (keep EVERY item satisfied - do not drop or undo any)'') #
           map (\<lambda>(i, s). nat_str (i + 1) @ ''. ['' @
             (if i < current then ''x'' else if i = current then ''>'' else '' '') @ ''] '' @ s @
             (if i = current then ''   <- implement THIS one now'' else [])) (zip [0..<length cleaned] cleaned)))"

definition plan_single_request :: "string \<Rightarrow> string \<Rightarrow> string" where
  "plan_single_request task markdown =
     ''Execute the following approved plan in this workspace. Read the relevant files first, '' @
     ''then make the changes with write_file/edit_file and verify with run_command when possible. '' @
     ''Do not claim work you did not do.'' @ [newline, newline] @ ''## Original task'' @ [newline] @ task @
     [newline, newline] @ ''## Approved plan'' @ [newline] @ markdown"

definition plan_step_request :: "string \<Rightarrow> string list \<Rightarrow> nat \<Rightarrow> nat \<Rightarrow> string" where
  "plan_step_request task steps index number =
     ''You are executing an approved plan, step '' @ nat_str index @ '' of '' @ nat_str number @ ''.'' @ [newline, newline] @
     ''Read any files you need first, then implement ONLY the current step by editing/creating '' @
     ''files with write_file/edit_file. Keep earlier steps' work intact and the project runnable. '' @
     ''Verify with run_command when possible. Do not claim work you did not do.'' @ [newline, newline] @
     ''## Original task'' @ [newline] @ task @ [newline, newline] @
     render_progress_checklist steps (index - 1) ''Plan steps''"

definition create_plan_task :: "string \<Rightarrow> string \<Rightarrow> string \<Rightarrow> string list \<Rightarrow> milestone_task" where
  "create_plan_task uuid now_text task steps =
     create_milestone_task uuid now_text task
       (map (\<lambda>(i, s). \<lparr>ms_id = int i + 1, ms_description = s, ms_type = ''file_edit'', ms_specialist = ''coder'',
          ms_status = STEP_PENDING, ms_depends_on = (if i = 0 then [] else [int i]), ms_target_file = None,
          ms_result = None, ms_error = None, ms_phase = ''step-'' @ nat_str (i + 1)\<rparr>) (zip [0..<length steps] steps))
       ''step-1''"

subsection \<open>State and world\<close>

text \<open>How a turn ends: the files it changed, and whether it asked the user something instead of finishing.\<close>

record turn_result =
  tu_changed :: "string list"
  tu_awaiting :: bool

text \<open>
  \<open>runs\<close> traces the turns: what the agent was asked under which contract. \<open>pending\<close> is what the session keeps for
  the next prompt, before it removes secrets.
\<close>

record plan_state =
  px_task_files :: task_files
  px_plans :: plan_files
  px_pending :: "dict option"
  px_runs :: "(string \<times> task_contract) list"

text \<open>\<open>walked\<close> lists the source files after the turns so far, \<open>agent\<close> says what the next turn does, \<open>session\<close> whether
  there is one.\<close>

record plan_env =
  pe_sandbox :: sandbox
  pe_clock :: "plan_state \<Rightarrow> string"
  pe_uuid :: string
  pe_session :: bool
  pe_walked :: "(string \<times> task_contract) list \<Rightarrow> (int \<times> string) list"
  pe_agent :: "(string \<times> task_contract) list \<Rightarrow> string \<Rightarrow> task_contract \<Rightarrow> (string \<times> string) list \<times> (py_error + turn_result)"

type_synonym 'a plan_eff = "(plan_state, 'a) eff"

datatype plan_outcome =
    No_steps
  | Invalid_contract "string list"
  | Single_pass
  | Asked nat
  | Stepped nat
  | Finished "string list"

text \<open>The task object and the list of contracts are local to the run; saving stamps the object.\<close>

definition save_plan_task :: "plan_env \<Rightarrow> milestone_task \<Rightarrow> milestone_task plan_eff" where
  "save_plan_task env t = (\<lambda>s. case save_milestone_task (pe_clock env s) t (px_task_files s) of
     (t, files) \<Rightarrow> (Inr t, s\<lparr>px_task_files := files\<rparr>))"

definition mark_and_save :: "plan_env \<Rightarrow> (string \<Rightarrow> py_error + milestone_task) \<Rightarrow> milestone_task plan_eff" where
  "mark_and_save env change = seq (read (\<lambda>s. change (pe_clock env s))) (save_plan_task env)"

definition write_contracts :: "string \<Rightarrow> task_contract list \<Rightarrow> unit plan_eff" where
  "write_contracts run_id cs =
     (if run_id = [] \<or> run_id = ''ad-hoc-plan'' then ret ()
      else modify (\<lambda>s. s\<lparr>px_plans := (px_plans s)\<lparr>pf_contracts := write_plan_contracts run_id cs (pf_contracts (px_plans s))\<rparr>\<rparr>))"

definition set_pending :: "plan_env \<Rightarrow> dict \<Rightarrow> unit plan_eff" where
  "set_pending env d = (if pe_session env then modify (\<lambda>s. s\<lparr>px_pending := Some d\<rparr>) else ret ())"

definition pause_plan_for_question :: "plan_env \<Rightarrow> string \<Rightarrow> string \<Rightarrow> string \<Rightarrow> string list \<Rightarrow> nat \<Rightarrow> string list \<Rightarrow> unit plan_eff" where
  "pause_plan_for_question env task route markdown steps index changed = set_pending env
     [(''awaiting'', JStr ''plan_resume''), (''changed_files'', strs changed), (''plan_markdown'', JStr markdown),
      (''resume_index'', JInt (int index)), (''route'', JStr route), (''steps'', strs steps), (''task'', JStr task),
      (''type'', JStr ''plan'')]"

definition pause_plan_after_atomic_step :: "plan_env \<Rightarrow> string \<Rightarrow> string \<Rightarrow> string \<Rightarrow> string list \<Rightarrow> string list \<Rightarrow> unit plan_eff" where
  "pause_plan_after_atomic_step env task route markdown remaining changed =
     (if remaining = [] then ret () else set_pending env
       [(''awaiting'', JStr ''plan_continue''), (''changed_files'', strs changed), (''plan_markdown'', JStr markdown),
        (''route'', JStr route), (''steps'', strs remaining), (''task'', JStr task), (''type'', JStr ''plan'')])"

text \<open>A turn; the contract object changes with the wishes that are granted, also when the turn raises.\<close>

definition agent_turn :: "plan_env \<Rightarrow> string \<Rightarrow> task_contract \<Rightarrow> (task_contract \<times> (py_error + turn_result)) plan_eff" where
  "agent_turn env request c =
     seq (gets px_runs) (\<lambda>runs.
     seq (modify (\<lambda>s. s\<lparr>px_runs := px_runs s @ [(request, c)]\<rparr>)) (\<lambda>_.
     case pe_agent env runs request c of (wishes, r) \<Rightarrow> ret (grants (pe_sandbox env) wishes c, r)))"

subsection \<open>The run\<close>

definition contract_for :: "string \<Rightarrow> string \<Rightarrow> string \<Rightarrow> task_contract list \<Rightarrow> nat \<Rightarrow> task_contract" where
  "contract_for task markdown step contracts index =
     (if index < length contracts then contracts ! index else hd (contracts_from_markdown ''ad-hoc-plan'' task [step] markdown))"

text \<open>\<open>contracts[index] = contract\<close> raises where there is no such place.\<close>

definition put_contract :: "task_contract list \<Rightarrow> nat \<Rightarrow> task_contract \<Rightarrow> task_contract list plan_eff" where
  "put_contract cs i c = (if i < length cs then ret (cs[i := c]) else raise (IndexError ''list assignment index out of range''))"

fun run_steps :: "plan_env \<Rightarrow> string \<Rightarrow> string \<Rightarrow> string \<Rightarrow> string list \<Rightarrow> nat option \<Rightarrow> nat \<Rightarrow> string list \<Rightarrow>
    task_contract list \<Rightarrow> milestone_task \<Rightarrow> string list \<Rightarrow> plan_outcome plan_eff" where
  "run_steps env task route markdown steps limit index [] contracts t changed = ret (Finished changed)"
| "run_steps env task route markdown steps limit index (step # rest) contracts t changed =
     seq (gets (\<lambda>s. run_file_preflight (pe_walked env (px_runs s)) 8 (contract_for task markdown step contracts index))) (\<lambda>c.
     seq (put_contract contracts index c) (\<lambda>contracts.
     seq (write_contracts (tc_run_id c) contracts) (\<lambda>_.
     let errors = validate_contract (pe_sandbox env) c; i = int index + 1
     in if errors \<noteq> [] then
          seq (mark_and_save env (\<lambda>at'. mark_step_failed at' t i (join ''; '' errors))) (\<lambda>_. ret (Invalid_contract errors))
        else
          seq (mark_and_save env (\<lambda>at'. mark_step_running at' t i)) (\<lambda>t.
          seq (agent_turn env (plan_step_request task steps (index + 1) (length steps) @ [newline, newline] @ contract_prompt c) c)
            (\<lambda>(c', r).
          let contracts = contracts[index := c']
          in seq (if c' = c then ret () else write_contracts (tc_run_id c') contracts) (\<lambda>_.
          case r of
            Inl e \<Rightarrow> seq (mark_and_save env (\<lambda>at'. mark_step_failed at' t i (error_text e))) (\<lambda>_. raise e)
          | Inr result \<Rightarrow>
              let changed = fold (\<lambda>p acc. add_new acc p) (tu_changed result) changed
              in if tu_awaiting result then
                   seq (save_plan_task env t) (\<lambda>_.
                   seq (pause_plan_for_question env task route markdown steps index changed) (\<lambda>_. ret (Asked index)))
                 else
                   seq (mark_and_save env (\<lambda>at'. mark_step_done at' t i (Some ''Agent completed this plan step.''))) (\<lambda>t.
                   if (case limit of None \<Rightarrow> False | Some n \<Rightarrow> n \<le> index + 1) \<and> rest \<noteq> [] then
                     seq (pause_plan_after_atomic_step env task route markdown rest changed) (\<lambda>_. ret (Stepped (index + 1)))
                   else run_steps env task route markdown steps limit (index + 1) rest contracts t changed)))))))"

definition single_pass :: "plan_env \<Rightarrow> string \<Rightarrow> string \<Rightarrow> task_contract list \<Rightarrow> plan_outcome plan_eff" where
  "single_pass env task markdown contracts =
     (let cs = (if contracts = [] then contracts_from_markdown ''ad-hoc-plan'' task [] markdown else contracts)
      in seq (gets (\<lambda>s. run_file_preflight (pe_walked env (px_runs s)) 8 (hd cs))) (\<lambda>c.
         let errors = validate_contract (pe_sandbox env) c
         in if errors \<noteq> [] then ret (Invalid_contract errors)
            else seq (agent_turn env (plan_single_request task markdown @ [newline, newline] @ contract_prompt c) c) (\<lambda>(_, r).
                 case r of Inl e \<Rightarrow> raise e | Inr _ \<Rightarrow> ret Single_pass)))"

definition execute_plan :: "plan_env \<Rightarrow> string \<Rightarrow> string \<Rightarrow> string \<Rightarrow> string list \<Rightarrow> task_contract list \<Rightarrow> int option \<Rightarrow>
    plan_outcome plan_eff" where
  "execute_plan env task route markdown steps contracts max_steps =
     (if plan_has_no_steps markdown then ret No_steps
      else if steps = [] then single_pass env task markdown contracts
      else
        let cs = (if contracts = [] then contracts_from_markdown ''ad-hoc-plan'' task steps markdown else contracts);
            limit = (case max_steps of None \<Rightarrow> None | Some n \<Rightarrow> if 0 < n then Some (nat n) else None)
        in seq (gets (\<lambda>s. create_plan_task (pe_uuid env) (pe_clock env s) task steps)) (\<lambda>t.
           seq (save_plan_task env t) (\<lambda>t.
           run_steps env task route markdown steps limit 0 steps cs t [])))"

definition load_or_create_plan_contracts :: "string \<Rightarrow> string \<Rightarrow> string list \<Rightarrow> string \<Rightarrow> task_contract list plan_eff" where
  "load_or_create_plan_contracts plan_id task steps markdown =
     seq (read (\<lambda>s. load_plan_contracts plan_id (pf_contracts (px_plans s)))) (\<lambda>cs.
     if cs \<noteq> [] then ret cs
     else
       let cs = contracts_from_markdown plan_id task steps markdown
       in seq (modify (\<lambda>s. s\<lparr>px_plans := (px_plans s)\<lparr>pf_contracts := write_plan_contracts plan_id cs (pf_contracts (px_plans s))\<rparr>\<rparr>))
            (\<lambda>_. ret cs))"

text \<open>An approved plan under the older routing; None where the document cannot be read. The fields of the pending
  action are texts, as the two pauses and the planning run store them.\<close>

definition pending_text :: "dict \<Rightarrow> string \<Rightarrow> string" where
  "pending_text d k = (case dict_get d k of Some (JStr s) \<Rightarrow> s | _ \<Rightarrow> [])"

definition execute_pending_plan :: "plan_env \<Rightarrow> dict \<Rightarrow> bool \<Rightarrow> plan_outcome option plan_eff" where
  "execute_pending_plan env pending run_all =
     (let plan_id = pending_text pending ''plan_id''; route = (if dict_get pending ''route'' = None then ''code_edit'' else pending_text pending ''route'');
          task = said_or (pending_text pending ''created_from_prompt'') (pending_text pending ''task'');
          limit = (if run_all then None else Some 1);
          go = (\<lambda>markdown steps cs. seq (execute_plan env task route markdown steps cs limit) (\<lambda>r. ret (Some r)))
      in if pending_text pending ''awaiting'' = ''plan_continue'' then
           let markdown = pending_text pending ''plan_markdown'';
               steps = (case strs_opt pending ''steps'' of Inl _ \<Rightarrow> [] | Inr ss \<Rightarrow> ss)
           in go markdown steps (contracts_from_markdown (said_or plan_id ''continued-plan'') task steps markdown)
         else
           seq (gets (\<lambda>s. map_of (pf_documents (px_plans s)) plan_id)) (\<lambda>document.
           case document of
             None \<Rightarrow> ret None
           | Some markdown \<Rightarrow>
               let steps = parse_plan_steps markdown
               in seq (load_or_create_plan_contracts plan_id task steps markdown) (go markdown steps)))"

end
