(* ===== verification/ContractSafety.thy ===== *)
theory ContractSafety
  imports PlanRuns ToolSafety
begin

text \<open>
  The properties of plans: the files of contracts and tasks, what the runtime makes of a contract, what the
  validation says after the preflight and after a grant, and the account a run leaves of its steps.
\<close>

subsection \<open>Files\<close>

lemma json_ints_map [simp]: "json_ints (map JInt is) = Inr is"
  by (induction "is") auto

lemma json_dicts_of [simp]: "json_dicts (map (\<lambda>x. JObj (f x)) xs) = Inr (map f xs)"
  by (induction xs) auto

lemma milestone_step_roundtrip: "milestone_step_from_dict (milestone_step_to_dict s) = Inr s"
  by (cases s; cases "ms_target_file s"; cases "ms_result s"; cases "ms_error s")
    (simp_all add: milestone_step_from_dict_def milestone_step_to_dict_def int_at_def str_at_def ints_opt_def ints_def
      field_defs enum_opt_def task_step_status.parse_val)

lemma test_failure_roundtrip: "test_failure_from_dict (test_failure_to_dict f) = Inr f"
  by (cases f; cases "tf_line f") (simp_all add: test_failure_from_dict_def test_failure_to_dict_def field_defs)

lemma report_roundtrip: "report_from_dict (report_to_dict r) = Inr r"
  by (simp add: report_from_dict_def report_to_dict_def int_at_def dicts_opt_def field_defs rmap_map test_failure_roundtrip)

lemma milestone_task_roundtrip: "milestone_task_from_dict now_text (milestone_task_to_dict t) = Inr t"
  by (simp add: milestone_task_from_dict_def milestone_task_to_dict_def str_at_def dicts_opt_def field_defs rmap_map milestone_step_roundtrip
      report_roundtrip)

lemma saved_task_loads:
  assumes "save_milestone_task now_text t files = (u, files')"
  shows "load_milestone_task later (mt_task_id u) files' = Inr u \<and> u = t\<lparr>mt_updated_at := now_text\<rparr>"
  using assms by (auto simp: save_milestone_task_def load_milestone_task_def Let_def dumps_def update_conv' milestone_task_roundtrip)

subsection \<open>Plans of the runtime\<close>

lemma runtime_plan_valid:
  "validate_execution_plan (to_runtime_plan now_text c task_id run_id plan_id) None = [] \<longleftrightarrow>
     plan_id \<noteq> [] \<and> task_id \<noteq> [] \<and> tc_task_id c \<noteq> [] \<and> strip (tc_objective c) \<noteq> [] \<and>
     strip (if take 80 (tc_objective c) = [] then tc_task_id c else take 80 (tc_objective c)) \<noteq> [] \<and>
     tc_acceptance_criteria c \<noteq> [] \<and> tc_dependencies c = []"
proof -
  have "\<not> acyclic {(n, d). n = tc_task_id c \<and> d \<in> set (tc_dependencies c)}"
    if "set (tc_dependencies c) \<subseteq> {tc_task_id c}" "tc_dependencies c \<noteq> []"
  proof -
    from that have "set (tc_dependencies c) = {tc_task_id c}" by (metis subset_singletonD set_empty)
    then show ?thesis by (auto simp: acyclic_def)
  qed
  moreover have "acyclic {(n, d). n = tc_task_id c \<and> d \<in> set (tc_dependencies c)}" if "tc_dependencies c = []"
    using that by (simp add: acyclic_def)
  ultimately show ?thesis
    unfolding validate_execution_plan_iff plan_well_formed_def
    by (auto simp: to_runtime_plan_def Let_def step_well_formed_def plan_edges_def intro: range_eqI[where x = FILE_CHANGED])
qed

lemma chain_lengths [simp]: "length (chain_contracts build n p ss) = length ss"
  by (induction ss arbitrary: n p) (simp_all add: Let_def)

text \<open>Every contract is built with its place and the name of the one before.\<close>

lemma chain_nth:
  "i < length ss \<Longrightarrow> chain_contracts build n p ss ! i =
     build (n + i) (if i = 0 then p else tc_task_id (chain_contracts build n p ss ! (i - 1))) (ss ! i)"
proof (induction ss arbitrary: n p i)
  case (Cons s ss)
  show ?case
  proof (cases i)
    case (Suc j)
    with Cons.prems Cons.IH[of j "Suc n" "tc_task_id (build n p s)"] show ?thesis
      by (cases j) (simp_all add: Let_def)
  qed (simp add: Let_def)
qed simp

lemma step_label_nonempty [simp]: "step_label plan_id i \<noteq> []"
  by (simp add: step_label_def)

lemma built_contracts [simp]:
  "tc_task_id (planned_contract plan_id v f task i p s) = step_label plan_id i"
  "tc_task_id (markdown_contract plan_id v task i p w) = step_label plan_id i"
  "tc_dependencies (planned_contract plan_id v f task i p s) = (if p = [] then [] else [p])"
  "tc_dependencies (markdown_contract plan_id v task i p w) = (if p = [] then [] else [p])"
  by (simp_all add: planned_contract_def markdown_contract_def task_contract_def Let_def)

lemma chain_dependencies:
  assumes "\<And>i p s. tc_task_id (build i p s) = step_label plan_id i" "\<And>i p s. tc_dependencies (build i p s) = (if p = [] then [] else [p])"
    and "0 < i" "i < length ss"
  shows "tc_dependencies (chain_contracts build 1 [] ss ! i) = [step_label plan_id i]"
  using assms(3,4) chain_nth[of i ss build 1 "[]"] chain_nth[of "i - 1" ss build 1 "[]"] by (simp add: assms(1,2))

text \<open>A text without white space at its ends.\<close>

lemma blank_strip: "strip s = [] \<longleftrightarrow> (\<forall>c \<in> set s. is_space c)"
proof -
  have "rstrip t = [] \<longleftrightarrow> (\<forall>c \<in> set t. is_space c)" for t by (simp add: rstrip_def dropWhile_eq_Nil_conv)
  moreover have "(\<forall>c \<in> set (lstrip s). is_space c) \<longleftrightarrow> lstrip s = []"
    using lstrip_keeps_no_space[of s] by (cases "lstrip s") auto
  ultimately show ?thesis by (simp add: strip_def lstrip_def dropWhile_eq_Nil_conv)
qed

lemma rstrip_start: "\<exists>ys. t = rstrip t @ ys"
  unfolding rstrip_def by (metis rev_append rev_rev_ident takeWhile_dropWhile_id)

lemma rstrip_head: "rstrip t = c # cs \<Longrightarrow> hd t = c"
  using rstrip_start[of t] by auto

lemma strip_again [simp]: "strip (strip s) = strip s"
proof -
  have "lstrip (rstrip t) = rstrip t" if "t = [] \<or> \<not> is_space (hd t)" for t
    using that rstrip_head[of t] by (cases "rstrip t"; cases "t = []") (auto simp: lstrip_def rstrip_def)
  then show ?thesis using lstrip_keeps_no_space[of s] by (simp add: strip_def)
qed

lemma stripped_head:
  assumes "strip s = s" "s \<noteq> []"
  shows "\<not> is_space (hd s)"
proof -
  obtain c cs where s: "s = c # cs" using assms(2) by (cases s) auto
  with assms(1) have "rstrip (lstrip s) = c # cs" by (simp add: strip_def)
  then have "hd (lstrip s) = c" "lstrip s \<noteq> []" using rstrip_head by (auto simp: rstrip_def)
  with s lstrip_keeps_no_space[of s] show ?thesis by auto
qed

lemma stripped_cut: "strip s = s \<Longrightarrow> s \<noteq> [] \<Longrightarrow> strip (take (Suc n) s) \<noteq> []"
  using stripped_head[of s] by (cases s) (auto simp: blank_strip)

lemma fallback_objective: "strip ''Execute approved plan'' = ''Execute approved plan''"
  by code_simp

lemma built_objectives:
  "strip (tc_objective (planned_contract plan_id v f task i p s)) = tc_objective (planned_contract plan_id v f task i p s)"
  "strip (tc_objective (markdown_contract plan_id v task i p w)) = tc_objective (markdown_contract plan_id v task i p w)"
  "tc_acceptance_criteria (planned_contract plan_id v f task i p s) \<noteq> []"
  "tc_acceptance_criteria (markdown_contract plan_id v task i p w) \<noteq> []"
  by (simp_all add: planned_contract_def markdown_contract_def task_contract_def Let_def if_distrib[of strip] fallback_objective)

lemma chain_shape:
  assumes "\<And>i p s. tc_task_id (build i p s) = step_label plan_id i" "\<And>i p s. tc_dependencies (build i p s) = (if p = [] then [] else [p])"
    and "\<And>i p s. strip (tc_objective (build i p s)) = tc_objective (build i p s)" "\<And>i p s. tc_acceptance_criteria (build i p s) \<noteq> []"
    and "i < length ss"
  shows "tc_dependencies (chain_contracts build 1 [] ss ! i) = (if i = 0 then [] else [step_label plan_id i]) \<and>
    tc_task_id (chain_contracts build 1 [] ss ! i) \<noteq> [] \<and> tc_acceptance_criteria (chain_contracts build 1 [] ss ! i) \<noteq> [] \<and>
    strip (tc_objective (chain_contracts build 1 [] ss ! i)) = tc_objective (chain_contracts build 1 [] ss ! i)"
proof (cases "i = 0")
  case True
  then show ?thesis using chain_nth[OF assms(5), of build 1 "[]"] assms(1-4) by simp
next
  case False
  then show ?thesis
    using chain_nth[OF assms(5), of build 1 "[]"] assms(1,3,4) chain_dependencies[of build plan_id i ss, OF assms(1,2) _ assms(5)] False by simp
qed

lemma contracts_shape:
  assumes "cs = contracts_from_planner_data show plan_id data steps task \<or> cs = contracts_from_markdown plan_id task texts markdown"
    and "i < length cs"
  shows "tc_dependencies (cs ! i) = (if i = 0 then [] else [step_label plan_id i]) \<and> tc_task_id (cs ! i) \<noteq> [] \<and>
    tc_acceptance_criteria (cs ! i) \<noteq> [] \<and> strip (tc_objective (cs ! i)) = tc_objective (cs ! i)"
proof -
  consider (data) f v where "cs = chain_contracts (planned_contract plan_id v f task) 1 [] steps"
    | (prose) v ts where "cs = chain_contracts (markdown_contract plan_id v task) 1 [] ts"
    using assms(1) unfolding contracts_from_planner_data_def contracts_from_markdown_def by blast
  then show ?thesis
  proof cases
    case data
    with assms(2) have "i < length steps" by simp
    from chain_shape[OF built_contracts(1,3) built_objectives(1,3) this] show ?thesis unfolding data .
  next
    case prose
    with assms(2) have "i < length ts" by simp
    from chain_shape[OF built_contracts(2,4) built_objectives(2,4) this] show ?thesis unfolding prose .
  qed
qed

text \<open>
  C22. Of the contracts of a plan at most the first reaches the runtime, and it does if it has an objective. Each later
  one depends on the one before, the plan made of it has a single step, and the store refuses a plan with a
  dependency it does not know: it raises and stores nothing.
\<close>

theorem only_first_contract_is_planned:
  assumes "cs = contracts_from_planner_data show plan_id data steps task \<or> cs = contracts_from_markdown plan_id task texts markdown"
    and "i < length cs" and "runtime_plan_id \<noteq> []" "runtime_task \<noteq> []"
  shows "let plan = to_runtime_plan now_text (cs ! i) runtime_task run_id runtime_plan_id
    in (validate_execution_plan plan None = [] \<longleftrightarrow> i = 0 \<and> tc_objective (cs ! i) \<noteq> []) \<and>
       (0 < i \<longrightarrow> (\<exists>message. save_execution_plan plan None s = (Inl (InvalidStateTransition message), s)))"
proof -
  let ?plan = "to_runtime_plan now_text (cs ! i) runtime_task run_id runtime_plan_id"
  note c = contracts_shape[OF assms(1,2)]
  have "validate_execution_plan ?plan None = [] \<longleftrightarrow> i = 0 \<and> tc_objective (cs ! i) \<noteq> []"
    using c assms(3,4) stripped_cut[of "tc_objective (cs ! i)" 79] unfolding runtime_plan_valid by auto
  then show ?thesis by (simp add: Let_def save_execution_plan_def)
qed

theorem only_first_contract_is_planned_witness:
  "\<forall>s. \<exists>message. save_execution_plan (to_runtime_plan ''now'' (contracts_from_markdown ''p'' ''work'' [''one'', ''two''] [] ! 1) ''r'' ''run'' ''rp'') None s =
     (Inl (InvalidStateTransition message), s)" (is "\<forall>s. ?Q s")
proof
  fix s
  have "1 < length (contracts_from_markdown ''p'' ''work'' [''one'', ''two''] [])" by (simp add: contracts_from_markdown_def)
  from only_first_contract_is_planned[OF disjI2[OF refl] this, of "''rp''" "''r''" "''now''" "''run''" s] show "?Q s"
    by (simp add: Let_def)
qed

subsection \<open>Validation\<close>

lemma set_dedupe: "set (dedupe xs) = {normalize_hint x |x. x \<in> set xs \<and> normalize_hint x \<noteq> []}"
  by (auto simp: dedupe_def)

lemma path_errors_Nil: "path_errors sb l raws = [] \<longleftrightarrow>
    (\<forall>p \<in> set raws. normalize_hint p \<noteq> [] \<longrightarrow> (\<exists>t. sb (normalize_hint p) = Inr t))"
proof -
  have "path_errors sb l raws = [] \<longleftrightarrow> (\<forall>x \<in> set (hinted sb raws). \<exists>t. snd x = Inr t)"
    unfolding path_errors_def by (auto split: sum.splits)
  then show ?thesis by (auto simp: hinted_def)
qed

lemma set_normalize_paths: "set (normalize_paths sb raws) =
    {as_posix t |p t. p \<in> set raws \<and> normalize_hint p \<noteq> [] \<and> sb (normalize_hint p) = Inr t}"
  by (force simp: normalize_paths_def hinted_def split: sum.splits)

lemma normalize_paths_append: "set (normalize_paths sb (xs @ ys)) = set (normalize_paths sb xs) \<union> set (normalize_paths sb ys)"
  unfolding set_normalize_paths by auto

lemma path_errors_append: "path_errors sb l (xs @ ys) = [] \<longleftrightarrow> path_errors sb l xs = [] \<and> path_errors sb l ys = []"
  unfolding path_errors_Nil by auto

lemma stable_dedupe:
  assumes "\<forall>q \<in> set xs. normalize_hint q = q"
  shows "set (dedupe xs) = set xs - {[]}"
  using assms unfolding set_dedupe by force

lemma dedupe_hints:
  "(\<And>x. x \<in> set xs \<Longrightarrow> normalize_hint (normalize_hint x) = normalize_hint x) \<Longrightarrow> normalize_hint ` set (dedupe xs) \<subseteq> normalize_hint ` set xs"
  unfolding set_dedupe by force

lemma normalize_hint_Nil [simp]: "normalize_hint [] = []"
  by (simp add: normalize_hint_def strip_def lstrip_def rstrip_def replace_char_def lstrip_of_def)

lemma stable_paths:
  assumes "\<forall>q \<in> set xs. normalize_hint q = q"
  shows "set (normalize_paths sb (dedupe xs)) = set (normalize_paths sb xs)"
    and "path_errors sb l (dedupe xs) = [] \<longleftrightarrow> path_errors sb l xs = []"
proof -
  have "normalize_hint p \<noteq> [] \<Longrightarrow> p \<in> set (dedupe xs) \<longleftrightarrow> p \<in> set xs" for p
    unfolding stable_dedupe[OF assms] by auto
  then show "set (normalize_paths sb (dedupe xs)) = set (normalize_paths sb xs)"
    and "path_errors sb l (dedupe xs) = [] \<longleftrightarrow> path_errors sb l xs = []"
    unfolding set_normalize_paths path_errors_Nil by blast+
qed

lemma in_scope_mono: "in_scope items p \<Longrightarrow> set items \<subseteq> set wider \<Longrightarrow> in_scope wider p"
  by (auto simp: in_scope_def list_ex_iff)

lemma in_scope_member: "p \<in> set items \<Longrightarrow> in_scope items p"
  by (auto simp: in_scope_def list_ex_iff)

lemma in_scope_union: "set wider = set items \<union> set rest \<Longrightarrow> in_scope wider p \<longleftrightarrow> in_scope items p \<or> in_scope rest p"
  by (auto simp: in_scope_def list_ex_iff)

lemma keys_add_score: "fst ` set (add_score p k scores) = insert p (fst ` set scores)"
  by (simp add: add_score_def update_conv' flip: dom_map_of_conv_image_fst)

lemma keys_scores:
  "fst ` set (fold (\<lambda>p scores. if Q p then scores else add_score p (f p) scores) ps scores) \<subseteq> set ps \<union> fst ` set scores"
proof (induction ps arbitrary: scores)
  case (Cons p ps)
  from Cons.IH[of "if Q p then scores else add_score p (f p) scores"] show ?case by (auto simp: keys_add_score split: if_splits)
qed simp

lemma set_ranked: "set (ranked scores) = fst ` set scores"
  by (simp add: ranked_def)

lemma candidates_known: "set (ranked (candidate_scores proposed keywords existing)) \<subseteq> set proposed \<union> set existing"
proof -
  have "fst ` set (candidate_scores proposed keywords existing) \<subseteq> set existing \<union> (set proposed \<union> {})"
    unfolding candidate_scores_def Let_def
    by (rule order_trans[OF keys_scores Un_mono[OF order_refl order_trans[OF keys_scores]]]) simp
  then show ?thesis by (auto simp: set_ranked)
qed

lemma walked_sources: "set (workspace_source_files walked n) \<subseteq> snd ` set walked"
  unfolding workspace_source_files_def by (rule order_trans[OF set_take_subset]) simp

definition complete_contract :: "task_contract \<Rightarrow> bool" where
  "complete_contract c \<longleftrightarrow> tc_task_id c \<noteq> [] \<and> tc_run_id c \<noteq> [] \<and> strip (tc_objective c) \<noteq> [] \<and>
     tc_acceptance_criteria c \<noteq> [] \<and> tc_verification_requirements c \<noteq> []"

lemma validate_contract_Nil: "validate_contract sb c = [] \<longleftrightarrow> complete_contract c \<and>
    path_errors sb ''allowed_write_paths'' (tc_allowed_write_paths c) = [] \<and>
    path_errors sb ''expected_write_paths'' (tc_expected_write_paths c) = [] \<and>
    path_errors sb ''forbidden_paths'' (tc_forbidden_paths c) = [] \<and>
    (\<forall>p \<in> set (normalize_paths sb (tc_expected_write_paths c)). normalize_paths sb (tc_allowed_write_paths c) = [] \<or>
       in_scope (normalize_paths sb (tc_allowed_write_paths c)) p) \<and>
    (\<forall>p \<in> set (normalize_paths sb (tc_forbidden_paths c)). \<not> in_scope (normalize_paths sb (tc_allowed_write_paths c)) p)"
  by (auto simp: validate_contract_def Let_def complete_contract_def path_in_scope_def filter_empty_conv)

lemma candidates_walked:
  "x \<in> set (take m (take k (ranked (candidate_scores [] keywords (workspace_source_files walked n))))) \<Longrightarrow> x \<in> snd ` set walked"
  by (drule in_set_takeD, drule in_set_takeD, drule subsetD[OF candidates_known]) (auto dest: subsetD[OF walked_sources])

lemma preflight_locks_expected:
  assumes "\<forall>q \<in> set (tc_planner_proposed_files c) \<union> set (tc_expected_write_paths c) \<union> set (tc_allowed_write_paths c) \<union> snd ` set walked.
      normalize_hint (normalize_hint q) = normalize_hint q"
    and "d = run_file_preflight walked k c"
  shows "normalize_hint ` set (tc_expected_write_paths d) \<subseteq> insert [] (normalize_hint ` set (tc_allowed_write_paths d))"
proof -
  define P where "P = dedupe (tc_planner_proposed_files c @ tc_expected_write_paths c @ tc_allowed_write_paths c)"
  let ?N = "dedupe (filter (\<lambda>p. p \<noteq> []) P)"
  let ?C = "take k (ranked (candidate_scores P (keywords_of (tc_objective c @ '' '' @ join '' '' (tc_requirement_refs c)))
    (workspace_source_files walked 160)))"
  let ?S = "if ?N = [] then take 2 ?C else ?N"
  have fields: "tc_allowed_write_paths d = ?S"
      "tc_expected_write_paths d = dedupe (if tc_expected_write_paths c = [] then ?S else tc_expected_write_paths c)"
    by (simp_all add: assms(2) run_file_preflight_def Let_def P_def)
  have set_P: "set P = {normalize_hint x |x. x \<in> set (tc_planner_proposed_files c) \<union> set (tc_expected_write_paths c) \<union>
      set (tc_allowed_write_paths c) \<and> normalize_hint x \<noteq> []}"
    unfolding P_def set_dedupe by auto
  have stable: "normalize_hint x = x \<and> x \<noteq> []" if "x \<in> set P" for x
    using that assms(1) unfolding set_P by auto
  have named: "set ?N = set P" using stable stable_dedupe[of "filter (\<lambda>p. p \<noteq> []) P"] by auto
  show ?thesis
  proof (cases "tc_expected_write_paths c = []")
    case True
    have hinted: "normalize_hint (normalize_hint x) = normalize_hint x" if "x \<in> set ?S" for x
    proof (cases "?N = []")
      case True
      then have "P = []" using named by simp
      with that True assms(1) show ?thesis using candidates_walked by auto
    qed (use that named stable in simp)
    have "normalize_hint ` set (dedupe ?S) \<subseteq> normalize_hint ` set ?S" by (rule dedupe_hints) (rule hinted)
    with True show ?thesis by (simp only: fields if_True refl subset_insertI2)
  next
    case False
    have P: "set (dedupe (tc_expected_write_paths c)) \<subseteq> set P" by (auto simp: set_dedupe set_P)
    then have "set (dedupe (tc_expected_write_paths c)) \<subseteq> set ?S" using named by (cases "?N = []") auto
    with False show ?thesis by (simp only: fields if_False subset_insertI2 image_mono)
  qed
qed
lemma expected_are_locked:
  assumes "normalize_hint ` set es \<subseteq> insert [] (normalize_hint ` set xs)"
  shows "path_errors sb l xs = [] \<Longrightarrow> path_errors sb m es = []" "set (normalize_paths sb es) \<subseteq> set (normalize_paths sb xs)"
proof -
  have known: "\<exists>y \<in> set xs. normalize_hint y = normalize_hint x" if "x \<in> set es" "normalize_hint x \<noteq> []" for x
    using that assms by (metis imageE image_eqI insertE subsetD)
  show "path_errors sb l xs = [] \<Longrightarrow> path_errors sb m es = []" unfolding path_errors_Nil by (metis known)
  show "set (normalize_paths sb es) \<subseteq> set (normalize_paths sb xs)"
    unfolding set_normalize_paths by (clarify, drule known, assumption) (metis (mono_tags, lifting))
qed

text \<open>
  C20. After the preflight a contract is valid exactly if its fields are complete, its locked paths and its forbidden
  paths are inside the workspace, and no forbidden path is, or lies below, a locked one: whatever the planner
  expected to be written is locked. This is for paths that \<open>_normalize_hint\<close> leaves alone the second time.
\<close>

theorem preflight_validation_exact:
  assumes "\<forall>q \<in> set (tc_planner_proposed_files c) \<union> set (tc_expected_write_paths c) \<union> set (tc_allowed_write_paths c) \<union> snd ` set walked.
      normalize_hint (normalize_hint q) = normalize_hint q"
  shows "let d = run_file_preflight walked k c
    in validate_contract sb d = [] \<longleftrightarrow> complete_contract c \<and> path_errors sb [] (tc_allowed_write_paths d) = [] \<and>
      path_errors sb [] (tc_forbidden_paths c) = [] \<and>
      (\<forall>p \<in> set (normalize_paths sb (tc_forbidden_paths c)). \<not> in_scope (normalize_paths sb (tc_allowed_write_paths d)) p)"
proof -
  define d where "d = run_file_preflight walked k c"
  have keeps: "complete_contract d = complete_contract c" "tc_forbidden_paths d = tc_forbidden_paths c"
    by (simp_all add: d_def run_file_preflight_def Let_def complete_contract_def)
  have errors: "path_errors sb l raws = [] \<longleftrightarrow> path_errors sb m raws = []" for l m raws
    by (simp add: path_errors_Nil)
  note locked = expected_are_locked[OF preflight_locks_expected[OF assms d_def], of sb]
  show ?thesis
    unfolding d_def[symmetric] Let_def validate_contract_Nil keeps
    using errors[of "[]"] locked in_scope_member by blast
qed

definition demo_contract :: task_contract where
  "demo_contract = (task_contract ''t'' ''p'' ''Edit it'')\<lparr>tc_allowed_write_paths := [''a.txt''], tc_expected_write_paths := [''a.txt''],
     tc_forbidden_paths := [''src/keys.py''], tc_acceptance_criteria := [''c''], tc_verification_requirements := [''v'']\<rparr>"

theorem preflight_validation_exact_witness:
  "validate_contract demo_sandbox (run_file_preflight [(7, ''a.txt''), (9, ''b.txt'')] 8 demo_contract) = []"
proof -
  have stable: "normalize_hint (normalize_hint ''a.txt'') = normalize_hint ''a.txt''" "normalize_hint (normalize_hint ''b.txt'') = normalize_hint ''b.txt''"
    by code_simp+
  have "complete_contract demo_contract \<and> (let d = run_file_preflight [(7, ''a.txt''), (9, ''b.txt'')] 8 demo_contract in
      path_errors demo_sandbox [] (tc_allowed_write_paths d) = [] \<and> path_errors demo_sandbox [] (tc_forbidden_paths demo_contract) = [] \<and>
      list_all (\<lambda>p. \<not> in_scope (normalize_paths demo_sandbox (tc_allowed_write_paths d)) p)
        (normalize_paths demo_sandbox (tc_forbidden_paths demo_contract)))"
    by code_simp
  moreover have "\<forall>q \<in> set (tc_planner_proposed_files demo_contract) \<union> set (tc_expected_write_paths demo_contract) \<union>
      set (tc_allowed_write_paths demo_contract) \<union> snd ` set [(7 :: int, ''a.txt''), (9, ''b.txt'')].
      normalize_hint (normalize_hint q) = normalize_hint q"
    using stable by (simp add: demo_contract_def task_contract_def)
  ultimately show ?thesis
    using preflight_validation_exact[where c = demo_contract and walked = "[(7, ''a.txt''), (9, ''b.txt'')]" and sb = demo_sandbox and k = 8] by (simp add: Let_def list_all_iff)
qed

lemma widened_valid_iff:
  assumes "validate_contract sb c = []"
    and "\<forall>q \<in> set (tc_allowed_write_paths c) \<union> set (tc_expected_write_paths c). normalize_hint q = q"
    and "n \<noteq> []" "normalize_hint n = n" "sb n = Inr t" "as_posix t = n"
  shows "validate_contract sb (widen n reason c) = [] \<longleftrightarrow>
    (\<forall>f \<in> set (normalize_paths sb (tc_forbidden_paths c)). \<not> in_scope [n] f) \<and>
    (normalize_paths sb (tc_allowed_write_paths c) = [] \<longrightarrow>
       (\<forall>q \<in> set (normalize_paths sb (tc_expected_write_paths c)). in_scope [n] q))"
proof -
  have v: "complete_contract c" "path_errors sb ''allowed_write_paths'' (tc_allowed_write_paths c) = []"
      "path_errors sb ''expected_write_paths'' (tc_expected_write_paths c) = []"
      "path_errors sb ''forbidden_paths'' (tc_forbidden_paths c) = []"
      "\<forall>p \<in> set (normalize_paths sb (tc_expected_write_paths c)). normalize_paths sb (tc_allowed_write_paths c) = [] \<or>
         in_scope (normalize_paths sb (tc_allowed_write_paths c)) p"
      "\<forall>p \<in> set (normalize_paths sb (tc_forbidden_paths c)). \<not> in_scope (normalize_paths sb (tc_allowed_write_paths c)) p"
    using assms(1) unfolding validate_contract_Nil by blast+
  let ?d = "widen n reason c"
  have fields: "complete_contract ?d = complete_contract c" "tc_forbidden_paths ?d = tc_forbidden_paths c"
      "tc_allowed_write_paths ?d = dedupe (tc_allowed_write_paths c @ [n])"
      "tc_expected_write_paths ?d = dedupe (tc_expected_write_paths c @ [n])"
    by (simp_all add: widen_def Let_def complete_contract_def)
  have one: "set (normalize_paths sb [n]) = {n}" "path_errors sb l [n] = []" for l
    using assms(3-6) by (auto simp: set_normalize_paths path_errors_Nil)
  have sets: "set (normalize_paths sb (dedupe (xs @ [n]))) = insert n (set (normalize_paths sb xs))"
    and errors: "path_errors sb l (dedupe (xs @ [n])) = [] \<longleftrightarrow> path_errors sb l xs = []"
    if "\<forall>q \<in> set xs. normalize_hint q = q" for xs l
    using that assms(4) one stable_paths[of "xs @ [n]"] by (simp_all add: normalize_paths_append path_errors_append)
  have scope: "in_scope (normalize_paths sb (tc_allowed_write_paths ?d)) q \<longleftrightarrow>
      in_scope (normalize_paths sb (tc_allowed_write_paths c)) q \<or> in_scope [n] q" for q
    using assms(2) by (intro in_scope_union) (auto simp: fields sets)
  have filled: "normalize_paths sb (tc_allowed_write_paths ?d) \<noteq> []"
    using sets[of "tc_allowed_write_paths c"] assms(2) by (auto simp: fields)
  have "validate_contract sb ?d = [] \<longleftrightarrow>
      (\<forall>q \<in> insert n (set (normalize_paths sb (tc_expected_write_paths c))).
         in_scope (normalize_paths sb (tc_allowed_write_paths c)) q \<or> in_scope [n] q) \<and>
      (\<forall>f \<in> set (normalize_paths sb (tc_forbidden_paths c)). \<not> in_scope [n] f)"
    using v(1-4,6) filled assms(2) unfolding validate_contract_Nil scope by (simp add: fields sets errors)
  moreover have "in_scope [n] n" by (simp add: in_scope_member)
  moreover have "normalize_paths sb (tc_allowed_write_paths c) = [] \<Longrightarrow> \<not> in_scope (normalize_paths sb (tc_allowed_write_paths c)) q" for q
    by (simp add: in_scope_def)
  ultimately show ?thesis using v(5) by (metis insert_iff)
qed

text \<open>
  C21. A granted wish keeps a valid contract valid exactly if no forbidden path is, or lies below, the path that was
  granted, and, where nothing was locked before, everything expected is or lies below it. The wish itself is compared
  with the forbidden paths by equality only. The path is one that the sandbox and \<open>_normalize_hint\<close> leave alone.
\<close>

theorem grant_keeps_contract_valid_iff:
  assumes "validate_contract sb c = []" and "request_scope_expansion_on sb c p reason = Inr e" and "se_ok e"
    and "\<forall>q \<in> set (tc_allowed_write_paths c) \<union> set (tc_expected_write_paths c). normalize_hint q = q"
    and "se_path e \<noteq> []" "normalize_hint (se_path e) = se_path e" "sb (se_path e) = Inr t" "as_posix t = se_path e"
  shows "validate_contract sb (se_contract e) = [] \<longleftrightarrow>
    (\<forall>f \<in> set (normalize_paths sb (tc_forbidden_paths c)). \<not> in_scope [se_path e] f) \<and>
    (normalize_paths sb (tc_allowed_write_paths c) = [] \<longrightarrow>
       (\<forall>q \<in> set (normalize_paths sb (tc_expected_write_paths c)). in_scope [se_path e] q))"
proof -
  let ?n = "se_path e"
  have forbidden: "\<forall>p \<in> set (normalize_paths sb (tc_forbidden_paths c)). \<not> in_scope (normalize_paths sb (tc_allowed_write_paths c)) p"
    using assms(1) unfolding validate_contract_Nil by blast
  consider (same) "se_contract e = c" "?n \<in> set (tc_allowed_write_paths c)" | (new) "se_contract e = widen ?n reason c"
    using assms(2,3) by (auto simp: request_scope_expansion_on_def Let_def scope_expansion_def split: if_splits list.splits)
  then show ?thesis
  proof cases
    case same
    with assms(5-8) have n: "?n \<in> set (normalize_paths sb (tc_allowed_write_paths c))"
      by (force simp: set_normalize_paths)
    then have "in_scope [?n] f \<Longrightarrow> in_scope (normalize_paths sb (tc_allowed_write_paths c)) f" for f
      by (auto intro: in_scope_mono)
    with same n assms(1) forbidden show ?thesis by auto
  next
    case new
    then show ?thesis using widened_valid_iff[OF assms(1,4-8)] by simp
  qed
qed

theorem grant_keeps_contract_valid_iff_witness:
  "validate_contract demo_sandbox demo_contract = [] \<and> (\<exists>e. request_scope_expansion_on demo_sandbox demo_contract ''src'' ''needed'' = Inr e \<and>
     se_ok e \<and> validate_contract demo_sandbox (se_contract e) \<noteq> [])"
proof -
  have valid: "validate_contract demo_sandbox demo_contract = []" by code_simp
  have hints: "normalize_hint ''a.txt'' = ''a.txt''" "normalize_hint ''src'' = ''src''" by code_simp+
  have box: "demo_sandbox ''src'' = Inr [''src''] \<and> as_posix [''src''] = ''src''" by code_simp
  have "case request_scope_expansion_on demo_sandbox demo_contract ''src'' ''needed'' of Inl _ \<Rightarrow> False
      | Inr e \<Rightarrow> se_ok e \<and> se_path e = ''src''" by code_simp
  then obtain e where e: "request_scope_expansion_on demo_sandbox demo_contract ''src'' ''needed'' = Inr e" "se_ok e" "se_path e = ''src''"
    by (auto split: sum.splits)
  have "\<not> list_all (\<lambda>f. \<not> in_scope [''src''] f) (normalize_paths demo_sandbox (tc_forbidden_paths demo_contract))" by code_simp
  then have bad: "\<not> (\<forall>f \<in> set (normalize_paths demo_sandbox (tc_forbidden_paths demo_contract)). \<not> in_scope [''src''] f)"
    by (simp add: list_all_iff)
  have stable: "\<forall>q \<in> set (tc_allowed_write_paths demo_contract) \<union> set (tc_expected_write_paths demo_contract). normalize_hint q = q"
    using hints by (simp add: demo_contract_def task_contract_def)
  have "validate_contract demo_sandbox (se_contract e) \<noteq> []"
    using grant_keeps_contract_valid_iff[OF valid e(1,2) stable, of "[''src'']"] e(3) box hints(2) bad by simp
  with valid e show ?thesis by blast
qed

end
