(* ===== verification/PlanScope.thy ===== *)
theory PlanScope
  imports ContractSafety
begin

text \<open>
  What a turn under a contract may write: the calls of the tools that change files, interleaved with the wishes for
  more scope, and the files that are different afterwards.
\<close>

subsection \<open>A turn as a sequence of calls\<close>

datatype turn_call = Call string dict | Wish string string

fun take_call :: "tool_env \<Rightarrow> turn_call \<Rightarrow> contract_session \<Rightarrow> contract_session" where
  "take_call env (Call name arguments) s = s\<lparr>cs_desk := snd (execute_tool env name arguments (cs_desk s))\<rparr>"
| "take_call env (Wish p reason) s = snd (handle_scope_expansion (te_sandbox env) p reason s)"

definition turn :: "tool_env \<Rightarrow> turn_call list \<Rightarrow> contract_session \<Rightarrow> contract_session" where
  "turn env calls s = fold (take_call env) calls s"

text \<open>The scope the registry makes of a contract.\<close>

definition contract_items :: "task_contract \<Rightarrow> string list" where
  "contract_items c = uniq (map (\<lambda>p. lower (normalize_workspace_path p)) (filter (\<lambda>p. p \<noteq> []) (tc_allowed_write_paths c)))"

definition locked :: "contract_session \<Rightarrow> bool" where
  "locked s \<longleftrightarrow> rg_write (ds_registry (cs_desk s)) = Some (contract_items (cs_contract s))"

text \<open>\<open>hints x q\<close>: \<open>q\<close> is what \<open>_normalize_hint\<close> leaves of \<open>x\<close>, once or several times.\<close>

definition hints :: "string \<Rightarrow> string \<Rightarrow> bool" where
  "hints = (\<lambda>x y. y = normalize_hint x)\<^sup>*\<^sup>*"

lemma hints_refl [simp]: "hints x x"
  by (simp add: hints_def)

lemma hints_step: "hints x y \<Longrightarrow> hints x (normalize_hint y)"
  unfolding hints_def by (rule rtranclp.rtrancl_into_rtrancl) simp_all

subsection \<open>Wishes\<close>

lemma lock_scope_locks:
  "snd (lock_scope s) = s\<lparr>cs_desk := (cs_desk s)\<lparr>ds_registry := (ds_registry (cs_desk s))\<lparr>rg_write := Some (contract_items (cs_contract s))\<rparr>\<rparr>\<rparr>"
  by (simp add: lock_scope_def on_desk_def set_allowed_write_paths_def set_registry_def contract_items_def)

lemma refused_wish: "request_scope_expansion_on sb c p reason = Inr e \<Longrightarrow> \<not> se_ok e \<Longrightarrow> se_contract e = c"
  by (auto simp: request_scope_expansion_on_def Let_def scope_expansion_def split: if_splits list.splits)

lemma handled_wish:
  assumes "t = snd (handle_scope_expansion sb p reason s)"
  shows "cs_contract t = grant sb (p, reason) (cs_contract s) \<and>
    (cs_desk t = cs_desk s \<and> cs_contract t = cs_contract s \<or>
     cs_desk t = (cs_desk s)\<lparr>ds_registry := (ds_registry (cs_desk s))\<lparr>rg_write := Some (contract_items (cs_contract t))\<rparr>\<rparr>)"
proof (cases "request_scope_expansion_on sb (cs_contract s) p reason")
  case (Inl e)
  with assms show ?thesis by (simp add: handle_scope_expansion_def seq_read grant_def)
next
  case (Inr e)
  have locks: "snd (seq lock_scope (\<lambda>_. ret r) u) = snd (lock_scope u)" for u :: contract_session and r :: tool_result
    by (simp add: seq_def split: prod.split sum.split)
  show ?thesis
  proof (cases "se_ok e")
    case True
    with Inr have "t = snd (lock_scope (s\<lparr>cs_contract := se_contract e\<rparr>))"
      using assms by (simp add: handle_scope_expansion_def seq_read locks)
    then show ?thesis using Inr by (simp add: lock_scope_locks grant_def)
  next
    case False
    with Inr assms show ?thesis
      using refused_wish[OF Inr] by (simp add: handle_scope_expansion_def seq_read grant_def)
  qed
qed

lemma granted_paths:
  assumes "q \<in> set (tc_allowed_write_paths (grant sb (p, reason) c))"
  shows "(\<exists>x \<in> set (tc_allowed_write_paths c). hints x q) \<or>
    (\<exists>t. strip reason \<noteq> [] \<and> sb (normalize_hint (normalize_hint p)) = Inr t \<and> as_posix t \<notin> set (tc_forbidden_paths c) \<and> hints (as_posix t) q)"
proof (cases "grant sb (p, reason) c = c")
  case True
  with assms have "q \<in> set (tc_allowed_write_paths c)" by simp
  then show ?thesis using hints_refl by blast
next
  case False
  let ?hint = "normalize_hint p"
  from False obtain n where n: "n \<in> set (normalize_paths sb [?hint])" "n \<notin> set (tc_forbidden_paths c)" "strip reason \<noteq> []"
      "grant sb (p, reason) c = widen n reason c"
    by (auto simp: grant_def request_scope_expansion_on_def Let_def scope_expansion_def split: if_splits list.splits)
  then obtain t where t: "n = as_posix t" "sb (normalize_hint ?hint) = Inr t" by (auto simp: set_normalize_paths)
  have "q \<in> set (dedupe (tc_allowed_write_paths c @ [n]))" using assms n(4) by (simp add: widen_def Let_def)
  then obtain x where x: "x \<in> set (tc_allowed_write_paths c) \<or> x = n" "q = normalize_hint x" by (auto simp: set_dedupe)
  have "hints x q" unfolding x(2) by (rule hints_step) simp
  with x(1) t n(2,3) show ?thesis by auto
qed

lemma grant_forbids [simp]: "tc_forbidden_paths (grant sb w c) = tc_forbidden_paths c"
  by (auto simp: grant_def request_scope_expansion_on_def Let_def scope_expansion_def widen_def split: list.splits sum.splits)

subsection \<open>Turns\<close>

text \<open>Where an allowed path of the contract comes from.\<close>

definition accounted_path :: "sandbox \<Rightarrow> task_contract \<Rightarrow> turn_call list \<Rightarrow> string \<Rightarrow> bool" where
  "accounted_path sb c calls q \<longleftrightarrow> (\<exists>x \<in> set (tc_allowed_write_paths c). hints x q) \<or>
     (\<exists>f reason t. Wish f reason \<in> set calls \<and> strip reason \<noteq> [] \<and> sb (normalize_hint (normalize_hint f)) = Inr t \<and>
        as_posix t \<notin> set (tc_forbidden_paths c) \<and> hints (as_posix t) q)"

definition in_contract :: "tool_env \<Rightarrow> task_contract \<Rightarrow> turn_call list \<Rightarrow> contract_session \<Rightarrow> path \<Rightarrow> bool" where
  "in_contract env c calls s p \<longleftrightarrow> (\<exists>earlier. prefix earlier calls \<and>
     scoped (Some (contract_items (cs_contract (turn env earlier s)))) p \<and>
     (\<forall>q \<in> set (tc_allowed_write_paths (cs_contract (turn env earlier s))). accounted_path (te_sandbox env) c earlier q))"

lemma accounted_more: "accounted_path sb c calls q \<Longrightarrow> accounted_path sb c (calls @ rest) q"
  unfolding accounted_path_def by auto

lemma accounted_hints: "accounted_path sb c calls x \<Longrightarrow> hints x q \<Longrightarrow> accounted_path sb c calls q"
  unfolding accounted_path_def hints_def by (meson rtranclp_trans)

lemma in_contract_more: "in_contract env c calls s p \<Longrightarrow> in_contract env c (calls @ rest) s p"
  unfolding in_contract_def by (meson prefix_append)

lemma turn_snoc [simp]: "turn env (calls @ [x]) s = take_call env x (turn env calls s)" "turn env [] s = s"
  by (simp_all add: turn_def)

lemma changes_files_write [simp]: "changes_files (rg\<lparr>rg_write := w\<rparr>) name = changes_files rg name"
  by (simp add: changes_files_def)

lemma turn_accounted:
  assumes "\<forall>name arguments. Call name arguments \<in> set calls \<longrightarrow> changes_files (ds_registry (cs_desk s)) name" and "locked s"
  shows "let t = turn env calls s; d = cs_desk s; e = cs_desk t
    in locked t \<and> tc_forbidden_paths (cs_contract t) = tc_forbidden_paths (cs_contract s) \<and>
       ds_registry e = (ds_registry d)\<lparr>rg_write := rg_write (ds_registry e)\<rparr> \<and>
       (\<forall>q \<in> set (tc_allowed_write_paths (cs_contract t)). accounted_path (te_sandbox env) (cs_contract s) calls q) \<and>
       (\<exists>es. gt_trace (ds_gate e) = gt_trace (ds_gate d) @ es \<and>
          (\<forall>p. \<not> internal p \<longrightarrow> content_at (dk_nodes (ds_disk e)) p \<noteq> content_at (dk_nodes (ds_disk d)) p \<longrightarrow>
             in_contract env (cs_contract s) calls s p \<and> (\<exists>ev \<in> set es. consents env p ev)))"
  using assms(1)
proof (induction calls rule: rev_induct)
  case Nil
  have "\<forall>q \<in> set (tc_allowed_write_paths (cs_contract s)). accounted_path (te_sandbox env) (cs_contract s) [] q"
    unfolding accounted_path_def using hints_refl by blast
  with assms(2) show ?case by (simp add: Let_def)
next
  case (snoc x calls)
  define t where "t = turn env calls s"
  from snoc obtain es where I: "locked t" "tc_forbidden_paths (cs_contract t) = tc_forbidden_paths (cs_contract s)"
      "ds_registry (cs_desk t) = (ds_registry (cs_desk s))\<lparr>rg_write := rg_write (ds_registry (cs_desk t))\<rparr>"
      "\<forall>q \<in> set (tc_allowed_write_paths (cs_contract t)). accounted_path (te_sandbox env) (cs_contract s) calls q"
      "gt_trace (ds_gate (cs_desk t)) = gt_trace (ds_gate (cs_desk s)) @ es"
      "\<And>p. \<not> internal p \<Longrightarrow> content_at (dk_nodes (ds_disk (cs_desk t))) p \<noteq> content_at (dk_nodes (ds_disk (cs_desk s))) p \<Longrightarrow>
         in_contract env (cs_contract s) calls s p \<and> (\<exists>ev \<in> set es. consents env p ev)"
    unfolding t_def Let_def by auto
  show ?case
  proof (cases x)
    case (Call name arguments)
    define u where "u = snd (execute_tool env name arguments (cs_desk t))"
    have ch: "changes_files (ds_registry (cs_desk t)) name"
      using snoc.prems Call by (subst I(3)) simp
    from step_call[OF ch] obtain fs where F: "ds_registry u = ds_registry (cs_desk t)"
        "gt_trace (ds_gate u) = gt_trace (ds_gate (cs_desk t)) @ fs"
        "\<And>p. \<not> internal p \<Longrightarrow> content_at (dk_nodes (ds_disk u)) p \<noteq> content_at (dk_nodes (ds_disk (cs_desk t))) p \<Longrightarrow>
           permitted (ds_registry (cs_desk t)) p \<and> (\<exists>e \<in> set fs. consents env p e)"
      unfolding file_step_def u_def by blast
    have now: "in_contract env (cs_contract s) (calls @ [x]) s p" if "permitted (ds_registry (cs_desk t)) p" for p
      unfolding in_contract_def
      by (rule exI[of _ calls]) (use that I(1,4) in \<open>auto simp: permitted_def locked_def simp flip: t_def\<close>)
    have "in_contract env (cs_contract s) (calls @ [x]) s p \<and> (\<exists>ev \<in> set (es @ fs). consents env p ev)"
      if p: "\<not> internal p" "content_at (dk_nodes (ds_disk u)) p \<noteq> content_at (dk_nodes (ds_disk (cs_desk s))) p" for p
    proof (cases "content_at (dk_nodes (ds_disk u)) p = content_at (dk_nodes (ds_disk (cs_desk t))) p")
      case True
      with p I(6) in_contract_more show ?thesis by fastforce
    next
      case False
      with p F(3) now show ?thesis by fastforce
    qed
    with I(1,2,4,5) F(1,2) accounted_more show ?thesis
      unfolding turn_snoc Call take_call.simps t_def[symmetric] u_def[symmetric] Let_def
      by (intro conjI exI[of _ "es @ fs"]) (simp_all add: locked_def, metis I(3))
  next
    case (Wish p reason)
    define u where "u = snd (handle_scope_expansion (te_sandbox env) p reason t)"
    from handled_wish[OF u_def] have H: "cs_contract u = grant (te_sandbox env) (p, reason) (cs_contract t)" "locked u"
        "ds_disk (cs_desk u) = ds_disk (cs_desk t)" "ds_gate (cs_desk u) = ds_gate (cs_desk t)"
        "ds_registry (cs_desk u) = (ds_registry (cs_desk t))\<lparr>rg_write := rg_write (ds_registry (cs_desk u))\<rparr>"
      using I(1) by (auto simp: locked_def)
    have "accounted_path (te_sandbox env) (cs_contract s) (calls @ [x]) q" if "q \<in> set (tc_allowed_write_paths (cs_contract u))" for q
      using granted_paths[OF that[unfolded H(1)]]
    proof
      assume "\<exists>y \<in> set (tc_allowed_write_paths (cs_contract t)). hints y q"
      with I(4) accounted_hints accounted_more show ?thesis by blast
    next
      assume "\<exists>v. strip reason \<noteq> [] \<and> te_sandbox env (normalize_hint (normalize_hint p)) = Inr v \<and>
          as_posix v \<notin> set (tc_forbidden_paths (cs_contract t)) \<and> hints (as_posix v) q"
      with I(2) Wish show ?thesis unfolding accounted_path_def by auto
    qed
    moreover have "ds_registry (cs_desk u) = (ds_registry (cs_desk s))\<lparr>rg_write := rg_write (ds_registry (cs_desk u))\<rparr>"
      by (subst H(5), subst I(3)) simp
    ultimately show ?thesis
      using I(2,5,6) H(1-4) in_contract_more
      unfolding turn_snoc Wish take_call.simps t_def[symmetric] u_def[symmetric] Let_def
      by (intro conjI exI[of _ es]) auto
  qed
qed

subsection \<open>The property\<close>

text \<open>
  C13. Let a turn start under a contract, and let it make calls of the tools that change files and wishes for more scope
  in any order. A file outside \<open>.shamsu\<close> that is different afterwards was, at some moment of the turn, in the scope of
  the contract as it stood then, and someone had agreed to a request that names it. Every path of that scope is one the
  contract started with, or one that was wished for with a reason, lies inside the workspace, and is not forbidden.
\<close>

theorem changes_stay_in_contract:
  assumes "\<forall>name arguments. Call name arguments \<in> set calls \<longrightarrow> changes_files (ds_registry d) name"
    and "s = snd (lock_scope \<lparr>cs_contract = c, cs_desk = d\<rparr>)" and "\<not> internal p"
    and "content_at (dk_nodes (ds_disk (cs_desk (turn env calls s)))) p \<noteq> content_at (dk_nodes (ds_disk d)) p"
  shows "(\<exists>earlier. prefix earlier calls \<and> scoped (Some (contract_items (cs_contract (turn env earlier s)))) p \<and>
      (\<forall>q \<in> set (tc_allowed_write_paths (cs_contract (turn env earlier s))).
        (\<exists>x \<in> set (tc_allowed_write_paths c). hints x q) \<or>
        (\<exists>f reason t. Wish f reason \<in> set earlier \<and> strip reason \<noteq> [] \<and>
           te_sandbox env (normalize_hint (normalize_hint f)) = Inr t \<and> as_posix t \<notin> set (tc_forbidden_paths c) \<and>
           hints (as_posix t) q))) \<and>
    (\<exists>es. gt_trace (ds_gate (cs_desk (turn env calls s))) = gt_trace (ds_gate d) @ es \<and> (\<exists>e \<in> set es. consents env p e))"
proof -
  have s: "locked s" "cs_contract s = c" "ds_disk (cs_desk s) = ds_disk d" "ds_gate (cs_desk s) = ds_gate d"
      "changes_files (ds_registry (cs_desk s)) name = changes_files (ds_registry d) name" for name
    by (simp_all add: assms(2) lock_scope_locks locked_def)
  have "\<forall>name arguments. Call name arguments \<in> set calls \<longrightarrow> changes_files (ds_registry (cs_desk s)) name"
    using assms(1) s(5) by blast
  from turn_accounted[OF this s(1), of env] assms(3,4) have "in_contract env c calls s p \<and>
      (\<exists>es. gt_trace (ds_gate (cs_desk (turn env calls s))) = gt_trace (ds_gate d) @ es \<and> (\<exists>e \<in> set es. consents env p e))"
    unfolding Let_def s(2-4) by blast
  then show ?thesis unfolding in_contract_def accounted_path_def .
qed

definition demo_calls :: "turn_call list" where
  "demo_calls = [Call ''edit_file'' demo_edit, Wish ''b.txt'' ''needed'']"

theorem changes_stay_in_contract_witness:
  "\<exists>es. gt_trace (ds_gate (cs_desk (turn demo_bench demo_calls \<lparr>cs_contract = demo_contract, cs_desk = demo_desk\<rparr>))) =
     gt_trace (ds_gate demo_desk) @ es \<and> (\<exists>e \<in> set es. consents demo_bench [''a.txt''] e)"
proof -
  let ?s = "\<lparr>cs_contract = demo_contract, cs_desk = demo_desk\<rparr>"
  have items: "contract_items demo_contract = [''a.txt'']" by code_simp
  have start: "?s = snd (lock_scope ?s)"
    by (simp add: lock_scope_locks items) (simp add: demo_desk_def demo_registry_def)
  have files: "\<forall>name arguments. Call name arguments \<in> set demo_calls \<longrightarrow> changes_files (ds_registry demo_desk) name"
    by (simp add: demo_calls_def changes_files_def file_tools_def)
  have disk: "ds_disk (cs_desk (take_call demo_bench (Wish f r) u)) = ds_disk (cs_desk u)" for f r u
    using handled_wish[OF refl, of "te_sandbox demo_bench" f r u] by auto
  have "content_at (dk_nodes (ds_disk (cs_desk (turn demo_bench demo_calls ?s)))) [''a.txt''] = Some ''z''"
    using demo_edited by (simp add: turn_def demo_calls_def disk del: take_call.simps(2))
  moreover have "content_at (dk_nodes (ds_disk demo_desk)) [''a.txt''] = Some ''x''"
    by (simp add: demo_desk_def demo_files_def content_at_def lookup_def)
  moreover have "\<not> internal [''a.txt'']" by (simp add: internal_def)
  ultimately show ?thesis
    using changes_stay_in_contract[OF files start, of "[''a.txt'']" demo_bench] by simp
qed

end
