(* ===== verification/PlanAccount.thy ===== *)
theory PlanAccount
  imports ContractSafety
begin

text \<open>
  The account a run of a plan leaves: which steps the saved task shows as done, failed, running or pending for each
  way the run may end, and what turns stand behind them.
\<close>

subsection \<open>Marks\<close>

definition statuses :: "milestone_task \<Rightarrow> task_step_status list" where
  "statuses t = map ms_status (mt_steps t)"

definition numbered_steps :: "nat \<Rightarrow> milestone_task \<Rightarrow> bool" where
  "numbered_steps n t \<longleftrightarrow> map ms_id (mt_steps t) = map (\<lambda>i. int i + 1) [0..<n]"

text \<open>The saved file of a task holds it.\<close>

definition filed :: "plan_state \<Rightarrow> milestone_task \<Rightarrow> bool" where
  "filed s t \<longleftrightarrow> map_of (px_task_files s) (mt_task_id t) = Some (dumps (JObj (milestone_task_to_dict t)))"

lemma put_step_nth:
  "distinct (map ms_id ss) \<Longrightarrow> k < length ss \<Longrightarrow> put_step (ms_id (ss ! k)) f ss = ss[k := f (ss ! k)]"
proof (induction ss arbitrary: k)
  case (Cons s ss)
  then show ?case by (cases k) (auto dest: nth_mem)
qed simp

lemma find_step_nth:
  assumes "distinct (map ms_id (mt_steps t))" "k < length (mt_steps t)"
  shows "find_step t (ms_id (mt_steps t ! k)) = Inr (mt_steps t ! k)"
proof -
  have "find (\<lambda>s. ms_id s = ms_id (mt_steps t ! k)) (mt_steps t) = Some (mt_steps t ! k)"
    unfolding find_Some_iff using assms by (auto simp: distinct_conv_nth intro!: exI[of _ k])
  then show ?thesis by (simp add: find_step_def)
qed

lemma numbered_nth: "numbered_steps n t \<Longrightarrow> k < n \<Longrightarrow> ms_id (mt_steps t ! k) = int k + 1 \<and> k < length (mt_steps t) \<and>
    distinct (map ms_id (mt_steps t))"
proof -
  assume n: "numbered_steps n t" "k < n"
  then have l: "length (mt_steps t) = n" unfolding numbered_steps_def by (metis length_map length_upt minus_nat.diff_0)
  have "map ms_id (mt_steps t) ! k = int k + 1" using n unfolding numbered_steps_def by simp
  moreover have "distinct (map ms_id (mt_steps t))" using n unfolding numbered_steps_def by (simp add: distinct_map inj_on_def)
  ultimately show ?thesis using l n(2) by simp
qed

lemma marked:
  assumes "numbered_steps n t" "k < n" "change (pe_clock env s) = mark_step (pe_clock env s) f act t (int k + 1)"
    and "\<And>x. ms_id (f x) = ms_id x" "\<And>x. ms_status (f x) = st"
  obtains u where "mark_and_save env change s =
      (Inr u, s\<lparr>px_task_files := AList.update (mt_task_id t) (dumps (JObj (milestone_task_to_dict u))) (px_task_files s)\<rparr>)"
    and "mt_task_id u = mt_task_id t" "numbered_steps n u" "statuses u = (statuses t)[k := st]"
proof -
  note k = numbered_nth[OF assms(1,2)]
  let ?x = "mt_steps t ! k"
  define u where "u = t\<lparr>mt_steps := (mt_steps t)[k := f ?x], mt_next_action := act ?x (mt_next_action t),
      mt_updated_at := pe_clock env s\<rparr>"
  have "change (pe_clock env s) = Inr u"
    using k find_step_nth[of t k] put_step_nth[of "mt_steps t" k f] by (simp add: assms(3) mark_step_def u_def)
  then have "mark_and_save env change s =
      (Inr u, s\<lparr>px_task_files := AList.update (mt_task_id t) (dumps (JObj (milestone_task_to_dict u))) (px_task_files s)\<rparr>)"
    by (simp add: mark_and_save_def seq_read save_plan_task_def save_milestone_task_def Let_def u_def)
  moreover have "map ms_id (mt_steps u) = map ms_id (mt_steps t)"
    using k by (simp add: u_def map_update assms(4)) (metis length_map list_update_id nth_map)
  moreover have "statuses u = (statuses t)[k := st]" by (simp add: statuses_def u_def map_update assms(5))
  ultimately show thesis using that[of u] assms(1) by (simp add: numbered_steps_def u_def)
qed

definition marks :: "plan_env \<Rightarrow> nat \<Rightarrow> nat \<Rightarrow> milestone_task \<Rightarrow> task_step_status \<Rightarrow> (string \<Rightarrow> py_error + milestone_task) \<Rightarrow> plan_state \<Rightarrow>
    milestone_task \<Rightarrow> bool" where
  "marks env n k t st change s u \<longleftrightarrow> mark_and_save env change s =
       (Inr u, s\<lparr>px_task_files := AList.update (mt_task_id t) (dumps (JObj (milestone_task_to_dict u))) (px_task_files s)\<rparr>) \<and>
     mt_task_id u = mt_task_id t \<and> numbered_steps n u \<and> statuses u = (statuses t)[k := st]"

lemma marked_steps:
  assumes "numbered_steps n t" "k < n"
  shows "\<exists>u. marks env n k t STEP_FAILED (\<lambda>at'. mark_step_failed at' t (int k + 1) e) s u"
    and "\<exists>u. marks env n k t STEP_RUNNING (\<lambda>at'. mark_step_running at' t (int k + 1)) s u"
    and "\<exists>u. marks env n k t STEP_DONE (\<lambda>at'. mark_step_done at' t (int k + 1) x) s u"
proof -
  show "\<exists>u. marks env n k t STEP_FAILED (\<lambda>at'. mark_step_failed at' t (int k + 1) e) s u"
    by (rule marked[OF assms, where change = "\<lambda>at'. mark_step_failed at' t (int k + 1) e" and st = STEP_FAILED, OF mark_step_failed_def])
      (auto simp: marks_def)
  show "\<exists>u. marks env n k t STEP_RUNNING (\<lambda>at'. mark_step_running at' t (int k + 1)) s u"
    by (rule marked[OF assms, where change = "\<lambda>at'. mark_step_running at' t (int k + 1)" and st = STEP_RUNNING, OF mark_step_running_def])
      (auto simp: marks_def)
  show "\<exists>u. marks env n k t STEP_DONE (\<lambda>at'. mark_step_done at' t (int k + 1) x) s u"
    by (rule marked[OF assms, where change = "\<lambda>at'. mark_step_done at' t (int k + 1) x" and st = STEP_DONE, OF mark_step_done_def])
      (auto simp: marks_def)
qed

lemma write_contracts_quiet:
  obtains u where "write_contracts run_id cs s = (Inr (), u)" "px_task_files u = px_task_files s" "px_runs u = px_runs s"
  by (rule that[of "snd (write_contracts run_id cs s)"]) (auto simp: write_contracts_def)

lemma write_contracts_if:
  "\<exists>u. (if b then ret () else write_contracts run_id cs) s = (Inr (), u) \<and> px_task_files u = px_task_files s \<and> px_runs u = px_runs s"
proof (cases b)
  case False
  obtain u where "write_contracts run_id cs s = (Inr (), u)" "px_task_files u = px_task_files s" "px_runs u = px_runs s"
    by (rule write_contracts_quiet)
  with False show ?thesis by simp
qed simp

lemma pause_quiet:
  "\<exists>u. pause_plan_for_question env task route markdown steps index changed s = (Inr (), u) \<and> px_task_files u = px_task_files s \<and>
     px_runs u = px_runs s"
  "\<exists>u. pause_plan_after_atomic_step env task route markdown rest changed s = (Inr (), u) \<and> px_task_files u = px_task_files s \<and>
     px_runs u = px_runs s"
  by (simp_all add: pause_plan_for_question_def pause_plan_after_atomic_step_def set_pending_def)

subsection \<open>Accounts\<close>

text \<open>\<open>n\<close> steps and \<open>m\<close> contracts; \<open>k\<close> turns were made.\<close>

definition accounted :: "nat \<Rightarrow> nat \<Rightarrow> (py_error + plan_outcome) \<Rightarrow> nat \<Rightarrow> task_step_status list \<Rightarrow> bool" where
  "accounted n m r k st = (case r of
     Inr (Finished _) \<Rightarrow> k = n \<and> st = replicate n STEP_DONE
   | Inr (Stepped j) \<Rightarrow> k = j \<and> j < n \<and> st = replicate j STEP_DONE @ replicate (n - j) STEP_PENDING
   | Inr (Asked j) \<Rightarrow> k = Suc j \<and> j < n \<and> st = replicate j STEP_DONE @ STEP_RUNNING # replicate (n - Suc j) STEP_PENDING
   | Inr (Invalid_contract es) \<Rightarrow> es \<noteq> [] \<and> k < n \<and>
       st = replicate k STEP_DONE @ STEP_FAILED # replicate (n - Suc k) STEP_PENDING
   | Inr _ \<Rightarrow> False
   | Inl e \<Rightarrow>
       (k = m \<and> k < n \<and> e = IndexError ''list assignment index out of range'' \<and>
          st = replicate k STEP_DONE @ replicate (n - k) STEP_PENDING) \<or>
       (0 < k \<and> k \<le> n \<and> st = replicate (k - 1) STEP_DONE @ STEP_FAILED # replicate (n - k) STEP_PENDING))"

lemma mark_next:
  "k < n \<Longrightarrow> (replicate k a @ replicate (n - k) b)[k := c] = replicate k a @ c # replicate (n - Suc k) b"
  by (simp add: list_update_append Suc_diff_Suc flip: replicate_Suc) (metis Suc_diff_Suc list_update_code(2) replicate_Suc)

lemma mark_again: "(replicate k a @ c # xs)[k := d] = replicate k a @ d # xs"
  by (simp add: list_update_append)

lemma one_more_done: "replicate k a @ a # xs = replicate (Suc k) a @ xs"
  by (simp add: replicate_app_Cons_same)

text \<open>A turn behind a step that is done ended normally.\<close>

definition good_turn :: "plan_env \<Rightarrow> (string \<times> task_contract) list \<Rightarrow> string \<times> task_contract \<Rightarrow> bool" where
  "good_turn env earlier run \<longleftrightarrow> (case pe_agent env earlier (fst run) (snd run) of (_, Inl _) \<Rightarrow> False
     | (_, Inr result) \<Rightarrow> \<not> tu_awaiting result)"

definition backed :: "plan_env \<Rightarrow> (string \<times> task_contract) list \<Rightarrow> (string \<times> task_contract) list \<Rightarrow> task_step_status list \<Rightarrow> bool" where
  "backed env earlier runs st \<longleftrightarrow> (\<forall>i < length runs. validate_contract (pe_sandbox env) (snd (runs ! i)) = [] \<and>
     (i < length st \<and> st ! i = STEP_DONE \<longrightarrow> good_turn env (earlier @ take i runs) (runs ! i)))"

lemma backed_Nil [simp]: "backed env earlier [] st"
  by (simp add: backed_def)

lemma backed_Cons:
  "validate_contract (pe_sandbox env) (snd x) = [] \<Longrightarrow> (st0 = STEP_DONE \<Longrightarrow> good_turn env earlier x) \<Longrightarrow>
     backed env (earlier @ [x]) runs st \<Longrightarrow> backed env earlier (x # runs) (st0 # st)"
  unfolding backed_def by (auto simp: nth_Cons split: nat.splits)

subsection \<open>The loop\<close>

lemma filed_update: "mt_task_id u = i \<Longrightarrow> px_task_files s = AList.update i (dumps (JObj (milestone_task_to_dict u))) files \<Longrightarrow> filed s u"
  by (simp add: filed_def update_conv')

lemma agent_turn_runs:
  "agent_turn env request c s = (case pe_agent env (px_runs s) request c of
     (wishes, r) \<Rightarrow> (Inr (grants (pe_sandbox env) wishes c, r), s\<lparr>px_runs := px_runs s @ [(request, c)]\<rparr>))"
  by (simp add: agent_turn_def split: prod.split)

definition loop_end :: "plan_env \<Rightarrow> nat \<Rightarrow> nat \<Rightarrow> nat \<Rightarrow> (py_error + plan_outcome) \<Rightarrow> plan_state \<Rightarrow> milestone_task \<Rightarrow> plan_state \<Rightarrow> bool" where
  "loop_end env n m index r s t s' \<longleftrightarrow> (\<exists>u runs. mt_task_id u = mt_task_id t \<and> numbered_steps n u \<and> filed s' u \<and>
     px_runs s' = px_runs s @ runs \<and> accounted n m r (index + length runs) (statuses u) \<and>
     backed env (px_runs s) runs (drop index (statuses u)))"

lemma statuses_length: "numbered_steps n t \<Longrightarrow> length (statuses t) = n"
  unfolding numbered_steps_def statuses_def by (metis length_map length_upt minus_nat.diff_0)

lemma loop_end_next:
  assumes "loop_end env n m (Suc index) r s1 t1 s'" and "mt_task_id t1 = mt_task_id t" and "px_runs s1 = px_runs s @ [x]"
    and "index < n" "validate_contract (pe_sandbox env) (snd x) = []" "good_turn env (px_runs s) x"
  shows "loop_end env n m index r s t s'"
proof -
  from assms(1,2) obtain u runs where u: "mt_task_id u = mt_task_id t" "numbered_steps n u" "filed s' u"
      "px_runs s' = px_runs s1 @ runs" "accounted n m r (Suc index + length runs) (statuses u)"
      "backed env (px_runs s1) runs (drop (Suc index) (statuses u))"
    unfolding loop_end_def by auto
  from statuses_length[OF u(2)] assms(4) have "drop index (statuses u) = statuses u ! index # drop (Suc index) (statuses u)"
    by (simp add: Cons_nth_drop_Suc)
  with backed_Cons[OF assms(5) _ u(6)[unfolded assms(3)], of "statuses u ! index"] assms(6)
  have "backed env (px_runs s) (x # runs) (drop index (statuses u))" by simp
  with u assms(3) show ?thesis unfolding loop_end_def by (intro exI[of _ u] exI[of _ "x # runs"]) simp
qed

lemma loop_end_here:
  assumes "mt_task_id u = mt_task_id t" "numbered_steps n u" "filed s' u" "px_runs s' = px_runs s @ [x]"
    and "accounted n m r (Suc index) (statuses u)" "validate_contract (pe_sandbox env) (snd x) = []"
    and "index < n" "statuses u ! index = STEP_DONE \<Longrightarrow> good_turn env (px_runs s) x"
  shows "loop_end env n m index r s t s'"
proof -
  from statuses_length[OF assms(2)] assms(7) have "drop index (statuses u) = statuses u ! index # drop (Suc index) (statuses u)"
    by (simp add: Cons_nth_drop_Suc)
  with backed_Cons[OF assms(6,8) backed_Nil] have "backed env (px_runs s) [x] (drop index (statuses u))" by simp
  with assms(1-5) show ?thesis unfolding loop_end_def by (intro exI[of _ u] exI[of _ "[x]"]) simp
qed

lemma run_steps_account:
  assumes "run_steps env task route markdown steps limit index rest contracts t changed s = (r, s')"
    and "index + length rest = n" "index \<le> length contracts" "numbered_steps n t"
    and "statuses t = replicate index STEP_DONE @ replicate (n - index) STEP_PENDING" and "filed s t"
  shows "loop_end env n (length contracts) index r s t s'"
  using assms
proof (induction rest arbitrary: index contracts t changed s)
  case Nil
  then have "r = Inr (Finished changed)" "s' = s" by simp_all
  with Nil show ?case
    unfolding loop_end_def by (intro exI[of _ t] exI[of _ "[]"]) (simp add: accounted_def)
next
  case (Cons step rest)
  let ?c = "run_file_preflight (pe_walked env (px_runs s)) 8 (contract_for task markdown step contracts index)"
  let ?cs = "contracts[index := ?c]"
  let ?request = "plan_step_request task steps (index + 1) (length steps) @ [newline, newline] @ contract_prompt ?c"
  from Cons.prems(2) have k: "index < n" by simp
  show ?case
  proof (cases "index < length contracts")
    case False
    with Cons.prems(1,3) have "r = Inl (IndexError ''list assignment index out of range'')" "s' = s" "index = length contracts"
      by (simp_all add: put_contract_def)
    with Cons.prems(4-6) k show ?thesis
      unfolding loop_end_def by (intro exI[of _ t] exI[of _ "[]"]) (simp add: accounted_def)
  next
    case True
    then have put: "put_contract contracts index ?c s = (Inr ?cs, s)" by (simp add: put_contract_def)
    obtain s1 where s1: "write_contracts (tc_run_id ?c) ?cs s = (Inr (), s1)" "px_task_files s1 = px_task_files s" "px_runs s1 = px_runs s"
      by (rule write_contracts_quiet)
    define errors where "errors = validate_contract (pe_sandbox env) ?c"
    note start = Cons.prems(1)[unfolded run_steps.simps(2) seq_gets seq_Inr[of "put_contract contracts index ?c" s, OF put] seq_Inr[of "write_contracts (tc_run_id ?c) ?cs" s, OF s1(1)] Let_def errors_def[symmetric]]
    show ?thesis
    proof (cases "errors = []")
      case False
      obtain u where u: "mark_and_save env (\<lambda>at'. mark_step_failed at' t (int index + 1) (join ''; '' errors)) s1 =
          (Inr u, s1\<lparr>px_task_files := AList.update (mt_task_id t) (dumps (JObj (milestone_task_to_dict u))) (px_task_files s1)\<rparr>)"
          "mt_task_id u = mt_task_id t" "numbered_steps n u" "statuses u = (statuses t)[index := STEP_FAILED]"
        using marked_steps(1)[OF Cons.prems(4) k, of env "join ''; '' errors" s1] unfolding marks_def by blast
      from start False u(1) have r: "r = Inr (Invalid_contract errors)"
          "s' = s1\<lparr>px_task_files := AList.update (mt_task_id t) (dumps (JObj (milestone_task_to_dict u))) (px_task_files s1)\<rparr>"
        by (simp_all add: seq_Inr[of "mark_and_save env (\<lambda>at'. mark_step_failed at' t (int index + 1) (join ''; '' errors))" s1, OF u(1)])
      have "filed s' u" using u(2) r(2) by (intro filed_update) auto
      with u r False k s1(3) show ?thesis
        unfolding loop_end_def
        by (intro exI[of _ u] exI[of _ "[]"]) (simp add: accounted_def Cons.prems(5) mark_next)
    next
      case ok: True
      obtain u where u: "mark_and_save env (\<lambda>at'. mark_step_running at' t (int index + 1)) s1 =
          (Inr u, s1\<lparr>px_task_files := AList.update (mt_task_id t) (dumps (JObj (milestone_task_to_dict u))) (px_task_files s1)\<rparr>)"
          "mt_task_id u = mt_task_id t" "numbered_steps n u" "statuses u = (statuses t)[index := STEP_RUNNING]"
        using marked_steps(2)[OF Cons.prems(4) k, of env s1] unfolding marks_def by blast
      define s2 where "s2 = s1\<lparr>px_task_files := AList.update (mt_task_id t) (dumps (JObj (milestone_task_to_dict u))) (px_task_files s1)\<rparr>"
      have running: "statuses u = replicate index STEP_DONE @ STEP_RUNNING # replicate (n - Suc index) STEP_PENDING"
        using u(4) k by (simp add: Cons.prems(5) mark_next)
      obtain wishes res where agent: "pe_agent env (px_runs s) ?request ?c = (wishes, res)" by fastforce
      define c' where "c' = grants (pe_sandbox env) wishes ?c"
      define s3 where "s3 = s2\<lparr>px_runs := px_runs s @ [(?request, ?c)]\<rparr>"
      have turn: "agent_turn env ?request ?c s2 = (Inr (c', res), s3)"
        using agent by (simp add: agent_turn_runs s2_def s3_def c'_def s1(3))
      obtain s4 where s4: "(if c' = ?c then ret () else write_contracts (tc_run_id c') (?cs[index := c'])) s3 = (Inr (), s4)"
          "px_task_files s4 = px_task_files s3" "px_runs s4 = px_runs s3"
        using write_contracts_if[of "c' = ?c" "tc_run_id c'" "?cs[index := c']" s3] by blast
      have f4: "filed s4 u" using u(2) by (intro filed_update[of u "mt_task_id t"]) (simp_all add: s4(2) s3_def s2_def)
      have r4: "px_runs s4 = px_runs s @ [(?request, ?c)]" by (simp add: s4(3) s3_def)
      have valid: "validate_contract (pe_sandbox env) (snd (?request, ?c)) = []" using ok by (simp add: errors_def)
      from start ok have run: "(case res of
          Inl e \<Rightarrow> seq (mark_and_save env (\<lambda>at'. mark_step_failed at' u (int index + 1) (error_text e))) (\<lambda>_. raise e)
        | Inr result \<Rightarrow>
            if tu_awaiting result then
              seq (save_plan_task env u) (\<lambda>_.
              seq (pause_plan_for_question env task route markdown steps index (fold (\<lambda>p acc. add_new acc p) (tu_changed result) changed)) (\<lambda>_.
                ret (Asked index)))
            else
              seq (mark_and_save env (\<lambda>at'. mark_step_done at' u (int index + 1) (Some ''Agent completed this plan step.''))) (\<lambda>t.
              if (case limit of None \<Rightarrow> False | Some n \<Rightarrow> n \<le> index + 1) \<and> rest \<noteq> [] then
                seq (pause_plan_after_atomic_step env task route markdown rest (fold (\<lambda>p acc. add_new acc p) (tu_changed result) changed)) (\<lambda>_.
                  ret (Stepped (index + 1)))
              else run_steps env task route markdown steps limit (index + 1) rest (?cs[index := c']) t
                (fold (\<lambda>p acc. add_new acc p) (tu_changed result) changed))) s4 = (r, s')"
        by (simp only: if_False not_True_eq_False simp_thms seq_Inr[of "mark_and_save env (\<lambda>at'. mark_step_running at' t (int index + 1))" s1, OF u(1)] s2_def[symmetric]
            seq_Inr[of "agent_turn env ?request ?c" s2, OF turn] prod.case Let_def seq_Inr[of "if c' = ?c then ret () else write_contracts (tc_run_id c') (?cs[index := c'])" s3, OF s4(1)])
      have good: "good_turn env (px_runs s) (?request, ?c)" if "res = Inr result" "\<not> tu_awaiting result" for result
        using agent that by (simp add: good_turn_def)
      show ?thesis
      proof (cases res)
        case (Inl e)
        obtain v where v: "marks env n index u STEP_FAILED (\<lambda>at'. mark_step_failed at' u (int index + 1) (error_text e)) s4 v"
          using marked_steps(1)[OF u(3) k] by blast
        let ?s5 = "s4\<lparr>px_task_files := AList.update (mt_task_id u) (dumps (JObj (milestone_task_to_dict v))) (px_task_files s4)\<rparr>"
        from v have r: "r = Inl e" "s' = ?s5"
          using run Inl unfolding marks_def
          by (simp_all add: seq_Inr[of "mark_and_save env (\<lambda>at'. mark_step_failed at' u (int index + 1) (error_text e))" s4])
        have st: "statuses v = replicate index STEP_DONE @ STEP_FAILED # replicate (n - Suc index) STEP_PENDING"
          using v by (simp add: marks_def running mark_again)
        have "filed s' v" using v r(2) by (intro filed_update[of v "mt_task_id u"]) (auto simp: marks_def)
        moreover have "mt_task_id v = mt_task_id u" "numbered_steps n v" using v by (simp_all add: marks_def)
        ultimately show ?thesis
          using u(2) r r4 k valid st by (intro loop_end_here[of v]) (auto simp: accounted_def nth_append)
      next
        case (Inr result)
        define changed' where "changed' = fold (\<lambda>p acc. add_new acc p) (tu_changed result) changed"
        show ?thesis
        proof (cases "tu_awaiting result")
          case True
          let ?v = "u\<lparr>mt_updated_at := pe_clock env s4\<rparr>"
          let ?s5 = "s4\<lparr>px_task_files := AList.update (mt_task_id u) (dumps (JObj (milestone_task_to_dict ?v))) (px_task_files s4)\<rparr>"
          have saved: "save_plan_task env u s4 = (Inr ?v, ?s5)"
            by (simp add: save_plan_task_def save_milestone_task_def Let_def)
          obtain s6 where s6: "pause_plan_for_question env task route markdown steps index changed' ?s5 = (Inr (), s6)"
              "px_task_files s6 = px_task_files ?s5" "px_runs s6 = px_runs s4"
            using pause_quiet(1)[of env task route markdown steps index changed' ?s5] by auto
          have r: "r = Inr (Asked index)" "s' = s6"
            using run[unfolded Inr sum.case if_P[OF True] changed'_def[symmetric]]
            by (simp_all add: seq_Inr[of "save_plan_task env u" s4, OF saved]
                seq_Inr[of "pause_plan_for_question env task route markdown steps index changed'" ?s5, OF s6(1)])
          have "filed s' ?v" using r(2) s6(2) by (intro filed_update[of ?v "mt_task_id u"]) auto
          moreover have "statuses ?v = statuses u" "numbered_steps n ?v" using u(3) by (simp_all add: statuses_def numbered_steps_def)
          ultimately show ?thesis
            using u(2) r r4 s6(3) k valid running by (intro loop_end_here[of ?v]) (auto simp: accounted_def nth_append)
        next
          case False
          obtain v where v: "marks env n index u STEP_DONE (\<lambda>at'. mark_step_done at' u (int index + 1) (Some ''Agent completed this plan step.'')) s4 v"
            using marked_steps(3)[OF u(3) k] by blast
          define s5 where "s5 = s4\<lparr>px_task_files := AList.update (mt_task_id u) (dumps (JObj (milestone_task_to_dict v))) (px_task_files s4)\<rparr>"
          have done': "mark_and_save env (\<lambda>at'. mark_step_done at' u (int index + 1) (Some ''Agent completed this plan step.'')) s4 = (Inr v, s5)"
            using v by (simp add: marks_def s5_def)
          have st: "statuses v = replicate (Suc index) STEP_DONE @ replicate (n - Suc index) STEP_PENDING"
            using v by (simp add: marks_def running mark_again one_more_done del: replicate_Suc)
          have f5: "filed s5 v" using v by (intro filed_update[of v "mt_task_id u"]) (auto simp: marks_def s5_def)
          have r5: "px_runs s5 = px_runs s @ [(?request, ?c)]" by (simp add: s5_def r4)
          note goes = run[unfolded Inr sum.case if_not_P[OF False] changed'_def[symmetric]
              seq_Inr[of "mark_and_save env (\<lambda>at'. mark_step_done at' u (int index + 1) (Some ''Agent completed this plan step.''))" s4, OF done']]
          show ?thesis
          proof (cases "(case limit of None \<Rightarrow> False | Some n \<Rightarrow> n \<le> index + 1) \<and> rest \<noteq> []")
            case True
            obtain s6 where s6: "pause_plan_after_atomic_step env task route markdown rest changed' s5 = (Inr (), s6)"
                "px_task_files s6 = px_task_files s5" "px_runs s6 = px_runs s5"
              using pause_quiet(2)[of env task route markdown rest changed' s5] by auto
            have r: "r = Inr (Stepped (Suc index))" "s' = s6"
              using goes unfolding if_P[OF True]
              by (simp_all add: seq_Inr[of "pause_plan_after_atomic_step env task route markdown rest changed'" s5, OF s6(1)])
            have "Suc index < n" using True Cons.prems(2) by (cases rest) auto
            moreover have "filed s' v" using f5 r(2) s6(2) by (simp add: filed_def)
            moreover have "mt_task_id v = mt_task_id u" "numbered_steps n v" using v by (simp_all add: marks_def)
            ultimately show ?thesis
              using u(2) r r5 s6(3) k valid st good[OF Inr False]
              by (intro loop_end_here[of v]) (auto simp: accounted_def simp del: replicate_Suc)
          next
            case go: False
            have "loop_end env n (length (?cs[index := c'])) (index + 1) r s5 v s'"
              using Cons.IH[OF goes[unfolded if_not_P[OF go]]] Cons.prems(2) True v st f5
              by (simp add: marks_def del: replicate_Suc)
            then show ?thesis
              using loop_end_next[of env n "length contracts" index r s5 v s' t s "(?request, ?c)"] v u(2) r5 k valid good[OF Inr False]
              by (simp add: marks_def)
          qed
        qed
      qed
    qed
  qed
qed

subsection \<open>The property\<close>

lemma plan_task_start:
  "numbered_steps (length steps) (create_plan_task uuid clock task steps)"
  "statuses (create_plan_task uuid clock task steps) = replicate (length steps) STEP_PENDING"
  "mt_task_id (create_plan_task uuid clock task steps) = ''task-'' @ take 12 uuid"
proof -
  show "numbered_steps (length steps) (create_plan_task uuid clock task steps)"
    by (simp add: numbered_steps_def create_plan_task_def create_milestone_task_def split_def o_def)
      (simp flip: map_map[of "\<lambda>i. int i + 1" fst, unfolded o_def])
  show "statuses (create_plan_task uuid clock task steps) = replicate (length steps) STEP_PENDING"
    by (simp add: statuses_def create_plan_task_def create_milestone_task_def split_def o_def map_replicate_const)
qed (simp add: create_plan_task_def create_milestone_task_def)

text \<open>
  C14. However a run of a plan with steps ends, the saved task accounts for it. Finished: a turn was made for every step,
  and every step is done. Paused after a step, paused by a question, or stopped by an invalid contract: the steps before
  are done, the one in question is pending, running or failed, and the others are pending. A run that raises either
  marked the step whose turn raised as failed, or met a step for which there is no contract, after one turn for every
  contract. Every turn was made under a contract the validation accepts, and behind every step that is done stands a
  turn that ended without an error and without a question.
\<close>

theorem plan_run_is_accounted:
  assumes "execute_plan env task route markdown steps contracts limit s = (r, s')"
    and "steps \<noteq> []" and "\<not> plan_has_no_steps markdown"
  shows "\<exists>t runs. load_milestone_task later (''task-'' @ take 12 (pe_uuid env)) (px_task_files s') = Inr t \<and>
    px_runs s' = px_runs s @ runs \<and>
    accounted (length steps) (if contracts = [] then length steps else length contracts) r (length runs) (statuses t) \<and>
    backed env (px_runs s) runs (statuses t)"
proof -
  let ?cs = "if contracts = [] then contracts_from_markdown ''ad-hoc-plan'' task steps markdown else contracts"
  let ?limit = "case limit of None \<Rightarrow> None | Some n \<Rightarrow> if 0 < n then Some (nat n) else None"
  let ?t = "create_plan_task (pe_uuid env) (pe_clock env s) task steps"
  define t where "t = ?t\<lparr>mt_updated_at := pe_clock env s\<rparr>"
  define s1 where "s1 = s\<lparr>px_task_files := AList.update (mt_task_id ?t) (dumps (JObj (milestone_task_to_dict t))) (px_task_files s)\<rparr>"
  have saved: "save_plan_task env ?t s = (Inr t, s1)"
    by (simp add: save_plan_task_def save_milestone_task_def Let_def t_def s1_def)
  have run: "run_steps env task route markdown steps ?limit 0 steps ?cs t [] s1 = (r, s')"
    using assms(1) unfolding execute_plan_def if_not_P[OF assms(3)] if_not_P[OF assms(2)] Let_def seq_gets
    by (simp only: seq_Inr[of "save_plan_task env ?t" s, OF saved])
  have t: "numbered_steps (length steps) t" "statuses t = replicate 0 STEP_DONE @ replicate (length steps - 0) STEP_PENDING"
      "mt_task_id t = ''task-'' @ take 12 (pe_uuid env)" "filed s1 t"
    using plan_task_start[where steps = steps and uuid = "pe_uuid env" and clock = "pe_clock env s" and task = task]
    by (simp_all add: t_def numbered_steps_def statuses_def s1_def filed_def update_conv')
  have m: "length ?cs = (if contracts = [] then length steps else length contracts)"
    using assms(2) by (simp add: contracts_from_markdown_def)
  from run_steps_account[OF run _ _ t(1,2,4)] have "loop_end env (length steps) (length ?cs) 0 r s1 t s'" by simp
  then obtain u runs where u: "mt_task_id u = mt_task_id t" "filed s' u" "px_runs s' = px_runs s1 @ runs"
      "accounted (length steps) (length ?cs) r (length runs) (statuses u)" "backed env (px_runs s1) runs (statuses u)"
    unfolding loop_end_def by auto
  have "load_milestone_task later (mt_task_id t) (px_task_files s') = Inr u"
    using u(1,2) by (simp add: filed_def load_milestone_task_def dumps_def milestone_task_roundtrip)
  with u m t(3) show ?thesis by (intro exI[of _ u] exI[of _ runs]) (simp add: s1_def)
qed

definition demo_plan_env :: plan_env where
  "demo_plan_env = \<lparr>pe_sandbox = demo_sandbox, pe_clock = (\<lambda>_. ''now''), pe_uuid = ''u'', pe_session = True,
     pe_walked = (\<lambda>_. [(1, ''a.txt'')]), pe_agent = (\<lambda>_ _ _. ([(''b.txt'', ''needed'')], Inr \<lparr>tu_changed = [''a.txt''], tu_awaiting = False\<rparr>))\<rparr>"

definition demo_plan_state :: plan_state where
  "demo_plan_state = \<lparr>px_task_files = [], px_plans = \<lparr>pf_documents = [], pf_contracts = []\<rparr>, px_pending = None, px_runs = []\<rparr>"

lemma demo_plan_run:
  "case execute_plan demo_plan_env ''Do it'' ''code_edit'' [] [''First''] [demo_contract] None demo_plan_state of
     (r, s) \<Rightarrow> r = Inr (Finished [''a.txt''])"
  by code_simp

text \<open>A step the user added to the document has no contract: the run raises when it gets there.\<close>

lemma demo_step_without_contract:
  "case execute_plan demo_plan_env ''Do it'' ''code_edit'' [] [''First'', ''Second''] [demo_contract] None demo_plan_state of
     (r, s) \<Rightarrow> r = Inl (IndexError ''list assignment index out of range'') \<and> length (px_runs s) = 1"
  by code_simp

theorem plan_run_is_accounted_witness:
  "\<exists>t. load_milestone_task ''later'' ''task-u'' (px_task_files (snd (execute_plan demo_plan_env ''Do it'' ''code_edit'' []
      [''First''] [demo_contract] None demo_plan_state))) = Inr t \<and> statuses t = [STEP_DONE]"
proof -
  obtain r s' where run: "execute_plan demo_plan_env ''Do it'' ''code_edit'' [] [''First''] [demo_contract] None demo_plan_state = (r, s')"
    by fastforce
  have r: "r = Inr (Finished [''a.txt''])" using demo_plan_run run by simp
  have name: "''task-'' @ take 12 (pe_uuid demo_plan_env) = ''task-u''" by (simp add: demo_plan_env_def)
  have "\<not> plan_has_no_steps []" by code_simp
  from plan_run_is_accounted[OF run _ this, of "''later''"] show ?thesis
    unfolding name by (auto simp: run r accounted_def)
qed

end
