(* ===== verification/PlanText.thy ===== *)
theory PlanText
  imports ContractSafety DiffText
begin

text \<open>
  The document of a plan read back: the parser of its steps finds the steps the planner gave, in order, and the
  contracts written beside the document are those of these steps.
\<close>

subsection \<open>The first match\<close>

definition leads :: "rx \<Rightarrow> place \<Rightarrow> place \<Rightarrow> bool" where
  "leads r p q \<longleftrightarrow> (\<exists>qs. ends r p = q # qs)"

named_theorems lead_intros \<open>where the first match of an expression ends\<close>

lemma leads_One [lead_intros]: "P c \<Longrightarrow> leads (One P) (u, c # v) (c # u, v)"
  by (simp add: leads_def)

lemma leads_Look [lead_intros]: "A u v \<Longrightarrow> leads (Look A) (u, v) (u, v)"
  by (simp add: leads_def)

lemma leads_Cat [lead_intros]: "leads r p q \<Longrightarrow> leads s q t \<Longrightarrow> leads (Cat r s) p t"
  by (auto simp: leads_def)

lemma leads_Or [lead_intros]: "leads r p q \<Longrightarrow> leads (Or r s) p q"
  by (auto simp: leads_def)

lemma leads_Star:
  "\<forall>c \<in> set w. P c \<Longrightarrow> v = [] \<or> \<not> P (hd v) \<Longrightarrow> leads (Star (One P)) (u, w @ v) (rev w @ u, v)"
proof (induction w arbitrary: u)
  case Nil
  then show ?case by (cases v) (auto simp: leads_def ends.simps(6))
next
  case (Cons c w)
  then have "leads (Star (One P)) (c # u, w @ v) (rev w @ c # u, v)" by simp
  with Cons.prems show ?case by (auto simp: leads_def ends.simps(6)[of _ "(u, c # w @ v)"])
qed

lemma leads_plus:
  "w \<noteq> [] \<Longrightarrow> \<forall>c \<in> set w. P c \<Longrightarrow> v = [] \<or> \<not> P (hd v) \<Longrightarrow> leads (plus (One P)) (u, w @ v) (rev w @ u, v)"
  using leads_Star[of "tl w" P v "hd w # u"] leads_One[of P "hd w" u "tl w @ v"]
  by (cases w) (auto simp: plus_def intro: leads_Cat)

lemma group_ends_Nil: "ends r p = [] \<Longrightarrow> group_ends (r # rs) p = []"
  by simp

lemma leads_groups: "leads a p q \<Longrightarrow> leads b q r \<Longrightarrow> leads c r t \<Longrightarrow> \<exists>qss. group_ends [a, b, c] p = [q, r, t] # qss"
  by (auto simp: leads_def)

lemma no_ends: "(\<And>q. \<not> spans r p q) \<Longrightarrow> ends r p = []"
  using ends_spans[of _ r p] by (cases "ends r p") auto

text \<open>An expression that starts at the beginning of the text matches there or nowhere.\<close>

lemma anchored_later: "search_from (Cat line_start r # rs) (c # u) v = None"
proof (induction v arbitrary: c u)
  case Nil
  show ?case by (simp add: search_from.simps line_start_def)
next
  case (Cons d v)
  then show ?case by (simp add: search_from.simps[of _ _ "d # v"] line_start_def)
qed

lemma anchored_none:
  assumes "\<And>q. \<not> spans r ([], s) q"
  shows "search_groups (Cat line_start r # rs) s = None"
proof -
  have "ends (Cat line_start r) ([], s) = []" using no_ends[of r "([], s)"] assms by (simp add: line_start_def)
  then have "group_ends (Cat line_start r # rs) ([], s) = []" by (rule group_ends_Nil)
  then show ?thesis
    unfolding search_groups_def search_from.simps[of _ "[]"]
    by (cases s) (simp_all add: anchored_later del: group_ends.simps)
qed

lemma star_stays: "(reads P)\<^sup>*\<^sup>* (u, v) q \<Longrightarrow> v = [] \<or> \<not> P (hd v) \<Longrightarrow> q = (u, v)"
  by (erule converse_rtranclpE) (auto elim: reads.elims)

lemma after_spaces:
  assumes "spans (Cat (Star space) r) (u, v) q" "v = [] \<or> \<not> is_space (hd v)"
  shows "spans r (u, v) q"
proof -
  from assms(1) obtain p where "(reads is_space)\<^sup>*\<^sup>* (u, v) p" "spans r p q" by (auto simp: space_def)
  with star_stays[OF this(1) assms(2)] show ?thesis by simp
qed

lemma spans_CatE: "spans (Cat r s) p q \<Longrightarrow> (\<And>m. spans r p m \<Longrightarrow> spans s m q \<Longrightarrow> thesis) \<Longrightarrow> thesis"
  by auto

lemma same_mark: "same_letter c d \<Longrightarrow> d \<in> {CHR ''-'', CHR ''*''} \<Longrightarrow> c = d"
proof -
  assume a: "same_letter c d" "d \<in> {CHR ''-'', CHR ''*''}"
  have "lower_char d = d" using a(2) by (auto simp: lower_char_def)
  with a(1) have l: "lower_char c = d" by (simp add: same_letter_def)
  let ?n = "of_char c :: nat"
  have "\<not> ((65 \<le> ?n \<and> ?n \<le> 90) \<or> (192 \<le> ?n \<and> ?n \<le> 222 \<and> ?n \<noteq> 215))"
  proof
    assume u: "(65 \<le> ?n \<and> ?n \<le> 90) \<or> (192 \<le> ?n \<and> ?n \<le> 222 \<and> ?n \<noteq> 215)"
    then have "lower_char c = char_of (?n + 32)" unfolding lower_char_def Let_def by (rule if_P)
    then have "(of_char d :: nat) = ?n + 32" using l u by (auto simp: of_char_of)
    with a(2) u show False by auto
  qed
  then have "lower_char c = c" unfolding lower_char_def Let_def by (rule if_not_P)
  with l show ?thesis by simp
qed

subsection \<open>Headings and items\<close>

lemma no_heading:
  assumes "l = [] \<or> (\<not> is_space (hd l) \<and> hd l \<noteq> CHR ''#'')"
  shows "heading_of l = None"
proof -
  let ?marks = "ors (map (\<lambda>n. times n (exact ''#'')) [6, 5, 4, 3, 2, 1])"
  have "\<not> spans (Cat (Star space) (Cat ?marks (plus space))) ([], l) q" for q
  proof
    assume "spans (Cat (Star space) (Cat ?marks (plus space))) ([], l) q"
    from after_spaces[OF this] assms obtain p where "spans ?marks ([], l) p" by (meson spans_CatE)
    then show False using assms by (cases l) (auto simp: exact_def numeral_eq_Suc)
  qed
  from anchored_none[OF this] show ?thesis by (simp add: heading_of_def heading_parts_def)
qed

lemma no_item:
  assumes "l = [] \<or> (\<not> is_space (hd l) \<and> \<not> is_digit (hd l) \<and> hd l \<notin> {CHR ''-'', CHR ''*''}) \<or>
    (2 \<le> length l \<and> hd l \<in> {CHR ''-'', CHR ''*''} \<and> \<not> is_space (l ! 1))"
  shows "search_groups item_parts l = None"
proof -
  let ?mark = "Or (cats [plus digit, one_of '').'']) (one_of ''-*'')"
  have blank: "l = [] \<or> \<not> is_space (hd l)" using assms by (auto simp: is_space_def)
  have "\<not> spans (Cat (Star space) (Cat ?mark (plus space))) ([], l) q" for q
  proof
    assume "spans (Cat (Star space) (Cat ?mark (plus space))) ([], l) q"
    from after_spaces[OF this blank] obtain p where p: "spans ?mark ([], l) p" "spans (plus space) p q" by (meson spans_CatE)
    show False
    proof (cases l)
      case Nil
      with p(1) show False by (auto simp: plus_def digit_def one_of_def)
    next
      case (Cons c v)
      from p(2) have gap: "\<exists>d w. snd p = d # w \<and> is_space d"
        by (cases p; cases "snd p") (auto simp: plus_def space_def)
      show False
      proof (cases "is_digit c")
        case True
        with assms Cons show False by (auto simp: is_digit_def)
      next
        case False
        with p(1) Cons have "p = ([c], v)" "\<exists>d \<in> set ''-*''. same_letter c d" by (auto simp: plus_def digit_def one_of_def)
        then have "c \<in> {CHR ''-'', CHR ''*''}" using same_mark by auto
        with assms Cons gap \<open>p = ([c], v)\<close> show False by auto
      qed
    qed
  qed
  from anchored_none[OF this] show ?thesis by (simp add: item_parts_def)
qed

lemma numbered_item:
  assumes "x \<noteq> []" "\<not> is_space (hd x)" "newline \<notin> set x"
  shows "\<exists>pre y z q. search_groups item_parts (nat_str n @ ''. '' @ x) = Some (pre, [y, x, z], q)"
proof -
  let ?d = "nat_str n" let ?s = "?d @ ''. '' @ x"
  obtain c w where d: "?d = c # w" "is_digit c" using nat_str_nonempty[of n] nat_str_digits[of n] by (cases ?d) auto
  have "\<not> is_space c" using d(2) by (auto simp: is_digit_def is_space_def Let_def)
  then have start: "leads (Star space) ([], ?s) ([], ?s)"
    using leads_Star[of "[]" is_space ?s "[]"] d(1) by (simp add: space_def)
  have "leads (plus digit) ([], ?s) (rev ?d, ''. '' @ x)"
    using leads_plus[of ?d is_digit "''. '' @ x" "[]"] nat_str_nonempty[of n] nat_str_digits[of n]
    by (simp add: digit_def is_digit_def)
  moreover have "leads (one_of '').'') (rev ?d, ''. '' @ x) (CHR ''.'' # rev ?d, '' '' @ x)"
    unfolding one_of_def by (simp add: leads_One same_letter_def)
  ultimately have mark: "leads (Or (cats [plus digit, one_of '').'']) (one_of ''-*'')) ([], ?s) (CHR ''.'' # rev ?d, '' '' @ x)"
    by (simp add: leads_Or leads_Cat)
  have gap: "leads (plus space) (CHR ''.'' # rev ?d, '' '' @ x) (CHR '' '' # CHR ''.'' # rev ?d, x)"
    using leads_plus[of "'' ''" is_space x "CHR ''.'' # rev ?d"] assms(2) by (simp add: space_def is_space_def)
  have "leads (cats [line_start, Star space, Or (cats [plus digit, one_of '').'']) (one_of ''-*''), plus space]) ([], ?s)
      (CHR '' '' # CHR ''.'' # rev ?d, x)"
    using leads_Cat[OF start leads_Cat[OF mark gap]] leads_Look[of "\<lambda>u v. u = []" "[]" ?s]
    by (simp add: line_start_def leads_Cat)
  moreover have "leads (Star dot) (CHR '' '' # CHR ''.'' # rev ?d, x) (rev x @ CHR '' '' # CHR ''.'' # rev ?d, [])"
    using leads_Star[of x "\<lambda>c. c \<noteq> newline" "[]"] assms(3) by (metis append_Nil2 dot_def)
  moreover have "leads text_end (rev x @ CHR '' '' # CHR ''.'' # rev ?d, []) (rev x @ CHR '' '' # CHR ''.'' # rev ?d, [])"
    by (simp add: text_end_def leads_Look)
  ultimately obtain qss where "group_ends item_parts ([], ?s) = [(CHR '' '' # CHR ''.'' # rev ?d, x),
      (rev x @ CHR '' '' # CHR ''.'' # rev ?d, []), (rev x @ CHR '' '' # CHR ''.'' # rev ?d, [])] # qss"
    using leads_groups unfolding item_parts_def by blast
  then show ?thesis by (simp add: search_groups_def search_from.simps[of _ "[]"] between_def)
qed

subsection \<open>The parser on the lines of a document\<close>

lemma steps_skip: "heading_of l = None \<Longrightarrow> search_groups item_parts l = None \<Longrightarrow> steps_below b (l # rest) = steps_below b rest"
  by simp

lemma steps_heading: "heading_of l = Some h \<Longrightarrow> steps_below b (l # rest) = steps_below (starts_with (lower (strip h)) ''steps'') rest"
  by simp

lemma numbered_Cons [simp]: "numbered n (x # xs) = (nat_str n @ ''. '' @ x) # numbered (Suc n) xs"
proof -
  have "[n..<n + length (x # xs)] = n # [Suc n..<Suc n + length xs]" by (simp add: upt_rec)
  then show ?thesis by (simp add: numbered_def)
qed

lemma numbered_Nil [simp]: "numbered n [] = []"
  by (simp add: numbered_def)

definition tidy_text :: "string \<Rightarrow> bool" where
  "tidy_text s \<longleftrightarrow> s \<noteq> [] \<and> strip s = s"

lemma stripped_last: "strip s = s \<Longrightarrow> s \<noteq> [] \<Longrightarrow> \<not> is_space (last s)"
proof -
  assume s: "strip s = s" "s \<noteq> []"
  then have "s = rev (dropWhile is_space (rev (lstrip s)))" by (simp add: strip_def rstrip_def)
  then have "rev s = dropWhile is_space (rev (lstrip s))" by (metis rev_rev_ident)
  with s(2) show ?thesis by (metis hd_dropWhile hd_rev rev.simps(1) rev_is_Nil_conv)
qed

lemma tidy_ends: "s \<noteq> [] \<Longrightarrow> \<not> is_space (hd s) \<Longrightarrow> \<not> is_space (last s) \<Longrightarrow> tidy_text s"
proof -
  assume s: "s \<noteq> []" "\<not> is_space (hd s)" "\<not> is_space (last s)"
  have "dropWhile is_space t = t" if "t \<noteq> []" "\<not> is_space (hd t)" for t using that by (cases t) auto
  from this[of s] this[of "rev s"] s show ?thesis by (simp add: tidy_text_def strip_def lstrip_def rstrip_def hd_rev)
qed

lemma tidy_step: "tidy_text (pl_description s) \<Longrightarrow> tidy_text (step_text s)"
proof (cases "pl_target_file s = []")
  case False
  assume d: "tidy_text (pl_description s)"
  have "last (step_text s) = CHR '')''" using False by (simp add: step_text_def)
  with d stripped_head show ?thesis by (intro tidy_ends) (auto simp: tidy_text_def step_text_def is_space_def)
qed (simp add: step_text_def)

subsection \<open>The lines of a text in the document\<close>

text \<open>The lines of a text that is written with a newline behind it, and whether one of them opens a section of steps.\<close>

definition written :: "string \<Rightarrow> string list" where
  "written t = splitlines (t @ [newline])"

definition opens :: "string \<Rightarrow> bool" where
  "opens l = (case heading_of l of None \<Rightarrow> False | Some h \<Rightarrow> starts_with (lower (strip h)) ''steps'')"

definition calm :: "string \<Rightarrow> bool" where
  "calm t = list_all (\<lambda>l. \<not> opens l) (written t)"

text \<open>The steps read from the text of one: its first line, and those of its other lines that are items themselves.\<close>

definition read_back :: "string \<Rightarrow> string list" where
  "read_back t = strip (hd (written t)) # steps_below True (tl (written t))"

definition unheaded :: "string \<Rightarrow> bool" where
  "unheaded t = list_all (\<lambda>l. heading_of l = None) (tl (written t))"

lemma splitlines_from_more: "splitlines_from acc (x @ newline # rest) = splitlines_from acc (x @ [newline]) @ splitlines rest"
proof (induction x arbitrary: acc rule: length_induct)
  case (1 x)
  show ?case
  proof (cases x)
    case Nil
    then show ?thesis by (simp add: newline_ends splitlines_def)
  next
    case (Cons c y)
    with 1 have y: "splitlines_from a (z @ newline # rest) = splitlines_from a (z @ [newline]) @ splitlines rest"
      if "length z \<le> length y" for a z using that by simp
    show ?thesis
    proof (cases y)
      case Nil
      with Cons y[of "[]"] show ?thesis by (simp add: newline_ends splitlines_def)
    next
      case (Cons d z)
      with \<open>x = c # y\<close> y[of y] y[of z] show ?thesis by simp
    qed
  qed
qed

lemma written_more: "splitlines (x @ newline # rest) = written x @ splitlines rest"
  using splitlines_from_more[of "[]" x rest] by (simp add: written_def splitlines_def)

lemma written_lines: "splitlines (concat (map (\<lambda>t. t @ [newline]) ts)) = concat (map written ts)"
  by (induction ts) (simp_all add: written_more, simp add: splitlines_def)

lemma splitlines_from_acc: "s \<noteq> [] \<Longrightarrow> splitlines_from acc s = (rev acc @ hd (splitlines_from [] s)) # tl (splitlines_from [] s)"
proof (induction s arbitrary: acc)
  case (Cons c s)
  show ?case
  proof (cases "s = []")
    case False
    then show ?thesis using Cons.IH[OF False, of "c # acc"] Cons.IH[OF False, of "[c]"] by (simp split: list.splits)
  qed simp
qed simp

lemma splitlines_from_front: "one_line p \<Longrightarrow> splitlines_from acc (p @ s) = splitlines_from (rev p @ acc) s"
  by (induction p arbitrary: acc) (simp_all add: one_line_def)

lemma written_front: "one_line p \<Longrightarrow> written (p @ t) = (p @ hd (written t)) # tl (written t)"
  using splitlines_from_acc[of "t @ [newline]" "rev p"] splitlines_from_front[of p "[]" "t @ [newline]"]
  by (simp add: written_def splitlines_def)

lemma written_line: "one_line t \<Longrightarrow> written t = [t]"
  using splitlines_from_line[of t "[]" "[]"] by (simp add: written_def splitlines_def)

lemma written_not_Nil: "written t \<noteq> []"
  using splitlines_from_acc[of "t @ [newline]" "[]"] by (metis list.discI snoc_eq_iff_butlast splitlines_def written_def)

lemma lines_end: "newline \<notin> set acc \<Longrightarrow> l \<in> set (splitlines_from acc s) \<Longrightarrow> newline \<notin> set l"
proof (induction acc s rule: splitlines_from.induct)
  case (2 acc c cs)
  show ?case
  proof (cases "is_line_end c")
    case False
    with newline_ends have "c \<noteq> newline" by auto
    with False 2 show ?thesis by simp
  next
    case True
    then show ?thesis
    proof (cases "(of_char c :: nat) = 13")
      case False
      with True 2 show ?thesis by auto
    next
      case cr: True
      with True 2 show ?thesis by (cases cs) auto
    qed
  qed
qed (auto split: if_splits)

lemma written_newline: "l \<in> set (written t) \<Longrightarrow> newline \<notin> set l"
  by (rule lines_end[of "[]"]) (auto simp: written_def splitlines_def)

lemma calm_front:
  assumes "one_line p" "calm t" "\<not> opens (p @ hd (written t))"
  shows "calm (p @ t)"
  using assms written_not_Nil[of t] by (cases "written t") (auto simp: calm_def written_front)

lemma steps_calm: "\<forall>l \<in> set ls. \<not> opens l \<Longrightarrow> steps_below False (ls @ rest) = steps_below False rest"
  by (induction ls) (auto simp: opens_def split: option.splits)

lemma steps_calm_texts: "list_all calm ts \<Longrightarrow> steps_below False (concat (map written ts) @ rest) = steps_below False rest"
  by (rule steps_calm) (auto simp: calm_def list_all_iff)

lemma steps_unheaded: "\<forall>l \<in> set ls. heading_of l = None \<Longrightarrow> steps_below True (ls @ rest) = steps_below True ls @ steps_below True rest"
  by (induction ls) auto

lemma read_back_line: "one_line t \<Longrightarrow> strip t = t \<Longrightarrow> read_back t = [t]"
  by (simp add: read_back_def written_line)

text \<open>A heading of one mark and one space has the rest of its line as its text.\<close>

lemma title_heading:
  assumes "newline \<notin> set x"
  shows "heading_of (''# Plan: '' @ x) = Some (''Plan: '' @ x)"
proof -
  let ?v = "''Plan: '' @ x"
  have mark: "ends (ors (map (\<lambda>n. times n (exact ''#'')) [6, 5, 4, 3, 2, 1])) ([], ''# '' @ ?v) = [(''#'', '' '' @ ?v)]"
    by (simp add: numeral_eq_Suc exact_def same_letter_def lower_char_def)
  have "leads (Star space) ([], ''# '' @ ?v) ([], ''# '' @ ?v)"
    using leads_Star[of "[]" is_space "''# '' @ ?v" "[]"] by (simp add: space_def is_space_def)
  moreover have "leads (plus space) (''#'', '' '' @ ?v) ('' #'', ?v)"
    using leads_plus[of "'' ''" is_space ?v "''#''"] by (simp add: space_def is_space_def)
  ultimately have head: "leads (hd heading_parts) ([], ''# '' @ ?v) ('' #'', ?v)"
    using mark leads_Look[of "\<lambda>u v. u = []" "[]" "''# '' @ ?v"]
    by (auto simp: heading_parts_def line_start_def leads_def intro!: leads_Cat)
  have body: "leads (Star dot) ('' #'', ?v) (rev ?v @ '' #'', [])"
  proof -
    have "newline \<notin> set ''Plan: ''" by code_simp
    with assms have "\<forall>c \<in> set ?v. c \<noteq> newline" by auto
    from leads_Star[OF this, of "[]" "'' #''"] show ?thesis by (simp only: dot_def append_Nil2 simp_thms)
  qed
  have stop: "leads text_end (rev ?v @ '' #'', []) (rev ?v @ '' #'', [])"
    by (simp only: text_end_def leads_Look simp_thms)
  have "heading_parts = [hd heading_parts, Star dot, text_end]" by (simp add: heading_parts_def)
  with leads_groups[OF head body stop] obtain qss where
    "group_ends heading_parts ([], ''# '' @ ?v) = [('' #'', ?v), (rev ?v @ '' #'', []), (rev ?v @ '' #'', [])] # qss"
    by auto
  then show ?thesis by (simp add: heading_of_def search_groups_def search_from.simps[of _ "[]"] between_def)
qed

subsection \<open>The property\<close>

lemma join_lines: "ls \<noteq> [] \<Longrightarrow> join [newline] ls @ [newline] = concat (map (\<lambda>l. l @ [newline]) ls)"
proof (induction ls)
  case (Cons l ls)
  then show ?case by (cases ls) auto
qed simp

lemma closed_headings:
  "heading_of ''## Context'' = Some ''Context''" "heading_of ''## Files to touch'' = Some ''Files to touch''"
  "heading_of ''## Steps'' = Some ''Steps''" "heading_of ''## Verification'' = Some ''Verification''"
  "starts_with (lower (strip ''Context'')) ''steps'' = False" "starts_with (lower (strip ''Files to touch'')) ''steps'' = False"
  "starts_with (lower (strip ''Steps'')) ''steps'' = True" "starts_with (lower (strip ''Verification'')) ''steps'' = False"
  by code_simp+


lemma line_end_space: "is_line_end c \<Longrightarrow> is_space c"
  by (auto simp: is_line_end_def is_space_def Let_def)

lemma one_line_str: "one_line (nat_str n @ ''. '')"
  using nat_str_digits[of n] by (auto simp: one_line_def list_all_iff is_digit_def is_line_end_def Let_def)

lemma first_line:
  assumes "x \<noteq> []" "\<not> is_space (hd x)"
  shows "hd (written x) \<noteq> []" "\<not> is_space (hd (hd (written x)))"
proof -
  obtain c w where x: "x = c # w" using assms(1) by (cases x) auto
  then have "one_line [c]" using assms(2) line_end_space by (auto simp: one_line_def)
  from written_front[OF this, of w] x have "written x = ([c] @ hd (written w)) # tl (written w)" by simp
  then show "hd (written x) \<noteq> []" "\<not> is_space (hd (hd (written x)))" using assms(2) x by simp_all
qed

lemma strip_kept: "s \<noteq> [] \<Longrightarrow> \<not> is_space (hd s) \<Longrightarrow> strip s \<noteq> []"
  using blank_strip[of s] by (cases s) auto

lemma front_lines:
  "one_line ''# Plan: ''" "one_line ''**Task:** ''" "one_line ''**Type:** ''" "one_line ''- ''"
  by code_simp+

lemma plan_heading: "\<not> starts_with (lower (strip (''Plan: '' @ x))) ''steps''"
proof -
  have "\<exists>y. strip (''Plan: '' @ x) = CHR ''P'' # y"
  proof -
    have "lstrip (''Plan: '' @ x) = CHR ''P'' # ''lan: '' @ x" by (simp add: lstrip_def is_space_def)
    moreover have "\<exists>y. rstrip (CHR ''P'' # z) = CHR ''P'' # y" for z
    proof -
      have "\<exists>y. dropWhile is_space (rev z @ ''P'') = y @ ''P''" by (auto simp: dropWhile_append is_space_def)
      then obtain y where "dropWhile is_space (rev z @ ''P'') = y @ ''P''" by blast
      then have "rstrip (CHR ''P'' # z) = CHR ''P'' # rev y" by (simp add: rstrip_def)
      then show ?thesis by blast
    qed
    ultimately show ?thesis by (simp add: strip_def)
  qed
  moreover have "lower_char CHR ''P'' = CHR ''p''" by code_simp
  ultimately show ?thesis by (auto simp: starts_with_def lower_def)
qed

lemma marker_line: "heading_of plan_no_steps_marker = None" "search_groups item_parts plan_no_steps_marker = None"
  by (auto intro!: no_heading no_item simp: plan_no_steps_marker_def is_space_def is_digit_def)

lemma empty_line: "heading_of [] = None" "search_groups item_parts [] = None"
  by (simp_all add: no_heading no_item)

lemma fixed_lines:
  "written [] = [[]]" "written ''## Context'' = [''## Context'']" "written ''## Files to touch'' = [''## Files to touch'']"
  "written ''## Steps'' = [''## Steps'']" "written ''## Verification'' = [''## Verification'']"
  "written plan_no_steps_marker = [plan_no_steps_marker]"
  by code_simp+

lemma calm_lines:
  "calm []" "calm ''## Context''" "calm ''## Files to touch''" "calm ''(no additional context)''" "calm ''---''"
  "calm ''Run the project's tests or build after the change.''"
  "calm ''_Review or edit this plan, then reply `proceed` (or run `/proceed`) to execute it._''"
  by code_simp+

lemma steps_written_items:
  "\<forall>x \<in> set xs. tidy_text x \<and> unheaded x \<Longrightarrow>
   steps_below True (concat (map written (numbered n xs)) @ rest) = concat (map read_back xs) @ steps_below True rest"
proof (induction xs arbitrary: n)
  case (Cons x xs)
  let ?p = "nat_str n @ ''. ''" let ?l = "hd (written x)"
  have x: "x \<noteq> []" "strip x = x" "\<not> is_space (hd x)" "unheaded x" using Cons.prems stripped_head[of x] by (auto simp: tidy_text_def)
  have first: "?l \<noteq> []" "\<not> is_space (hd ?l)" using first_line[OF x(1,3)] by auto
  obtain c w where d: "nat_str n = c # w" "is_digit c" using nat_str_nonempty[of n] nat_str_digits[of n] by (cases "nat_str n") auto
  from written_front[OF one_line_str[of n]] have lines: "written (nat_str n @ ''. '' @ x) = (nat_str n @ ''. '' @ ?l) # tl (written x)"
    by (simp only: append_assoc)
  have "heading_of (nat_str n @ ''. '' @ ?l) = None"
    using d by (intro no_heading) (auto simp: is_digit_def is_space_def Let_def)
  moreover have "newline \<notin> set ?l" using written_newline[of ?l x] written_not_Nil[of x] by simp
  then obtain pre y z q where "search_groups item_parts (nat_str n @ ''. '' @ ?l) = Some (pre, [y, ?l, z], q)"
    using numbered_item[OF first] by blast
  moreover have "strip ?l \<noteq> []" using first strip_kept by blast
  ultimately show ?case
    using Cons x(4) steps_unheaded[of "tl (written x)"]
    by (auto simp: lines[simplified] read_back_def unheaded_def list_all_iff)
qed simp

lemma not_open: "heading_of l = None \<Longrightarrow> \<not> opens l"
  by (simp add: opens_def)

lemma document_calm:
  assumes "list_all calm ([title, strip task, route, said] @ files)"
  shows "list_all calm ([''# Plan: '' @ title, [], ''**Task:** '' @ strip task, ''**Type:** '' @ route, [], ''## Context'',
    said_or said ''(no additional context)'', []] @
    (if files = [] then [] else [''## Files to touch''] @ map (\<lambda>f. ''- '' @ f) files @ [[]]))"
proof -
  have marked: "calm (p @ t)" if "calm t" "one_line p" "p \<noteq> []" "\<not> is_space (hd p)" "hd p \<noteq> CHR ''#''" for p t
    by (rule calm_front[OF that(2,1) not_open[OF no_heading]]) (use that in auto)
  have "newline \<notin> set (hd (written title))" using written_newline[of "hd (written title)" title] written_not_Nil[of title] by simp
  from title_heading[OF this] have "\<not> opens (''# Plan: '' @ hd (written title))" using plan_heading by (simp only: opens_def option.case simp_thms)
  then have "calm (''# Plan: '' @ title)" using assms by (intro calm_front) (simp_all add: front_lines)
  moreover have "calm []" "calm ''## Context''" "calm ''## Files to touch''" "calm ''(no additional context)''"
    by (rule calm_lines)+
  moreover have "calm (''**Task:** '' @ strip task)" "calm (''**Type:** '' @ route)"
    using marked[of _ "''**Task:** ''"] marked[of _ "''**Type:** ''"] assms by (simp_all add: front_lines is_space_def)
  moreover have "calm (''- '' @ f)" if "f \<in> set files" for f
    using marked[of _ "''- ''"] assms that by (auto simp: front_lines is_space_def list_all_iff)
  ultimately show ?thesis using assms by (auto simp: said_or_def list_all_iff)
qed

lemma document_steps:
  assumes "list_all calm ([title, strip task, route, stripped_field show data ''context''] @ files)"
    and "calm (stripped_field show data ''verification'')"
    and "\<forall>s \<in> set steps. tidy_text (step_text s) \<and> unheaded (step_text s)"
  shows "steps_below False (concat (map written (document_lines show title task route data steps files))) =
    concat (map (read_back \<circ> step_text) steps)"
proof -
  let ?verification = "said_or (stripped_field show data ''verification'') ''Run the project's tests or build after the change.''"
  let ?close = "[[], ''---'', ''_Review or edit this plan, then reply `proceed` (or run `/proceed`) to execute it._'']"
  let ?items = "if steps = [] then [plan_no_steps_marker] else numbered 1 (map step_text steps)"
  let ?front = "[''# Plan: '' @ title, [], ''**Task:** '' @ strip task, ''**Type:** '' @ route, [], ''## Context'',
    said_or (stripped_field show data ''context'') ''(no additional context)'', []] @
    (if files = [] then [] else [''## Files to touch''] @ map (\<lambda>f. ''- '' @ f) files @ [[]])"
  let ?tail = "concat (map written ([[], ''## Verification''] @ ?verification # ?close))"
  have "calm ?verification" using assms(2) by (simp add: said_or_def calm_lines)
  then have "list_all calm (?verification # ?close)" by (simp add: calm_lines)
  from steps_calm_texts[OF this, of "[]"] have tail: "steps_below True ?tail = []"
    by (simp add: fixed_lines steps_heading[OF closed_headings(4)] closed_headings(8) steps_skip[OF empty_line] del: steps_below.simps(2))
  have "steps_below True (concat (map written ?items) @ ?tail) = concat (map (read_back \<circ> step_text) steps)"
  proof (cases "steps = []")
    case True
    then show ?thesis
      using steps_skip[OF marker_line, of True ?tail] tail by (simp add: fixed_lines del: steps_below.simps(2))
  next
    case False
    then show ?thesis using steps_written_items[of "map step_text steps" 1 ?tail] assms(3) tail by (simp add: comp_def)
  qed
  moreover have "document_lines show title task route data steps files =
      ?front @ [''## Steps''] @ ?items @ [[], ''## Verification''] @ ?verification # ?close"
    by (simp add: document_lines_def)
  ultimately show ?thesis
    using steps_calm_texts[OF document_calm[OF assms(1)]]
    by (simp add: fixed_lines steps_heading[OF closed_headings(3)] closed_headings(7) del: steps_below.simps(2))
qed
lemma described_steps:
  assumes "steps_from_data show data = Inr steps"
  shows "\<forall>s \<in> set steps. tidy_text (pl_description s)"
proof -
  have one: "planned_step_from show item = Inr ss \<Longrightarrow> \<forall>s \<in> set ss. tidy_text (pl_description s)" for item ss
    by (auto simp: planned_step_from_def tidy_text_def Let_def rbind_Inr stripped_field_def split: json.splits if_splits option.splits)
  have "rmap (planned_step_from show) items = Inr xss \<Longrightarrow> \<forall>ss \<in> set xss. \<forall>s \<in> set ss. tidy_text (pl_description s)" for items xss
  proof (induction items arbitrary: xss)
    case (Cons item items)
    then show ?case using one[of item] by (auto simp: rbind_Inr)
  qed simp
  with assms show ?thesis by (auto simp: steps_from_data_def rbind_Inr)
qed

lemma planned_objectives:
  assumes "i < length steps"
  shows "tc_objective (contracts_from_planner_data show plan_id data steps task ! i) = strip (pl_description (steps ! i))"
  unfolding contracts_from_planner_data_def chain_nth[OF assms]
  by (simp add: planned_contract_def task_contract_def Let_def)

text \<open>
  C19. A plan document reads back. From the document of a planner's answer the parser takes, for each step in order,
  the first line of the step's text and those of its further lines that are list items themselves; where every
  description is one line, as it is in a list, it takes exactly the steps, each with its target file, all of them and in
  order. Title, task, route, context, verification and file names are any texts, of any number of lines, that have no line
  which is a heading starting with \<open>Steps\<close>; no further line of a description is a heading. From a plan without steps the
  parser reads none. The contracts written beside the document have the whole descriptions as objectives, so with a
  description of several lines document and contracts differ (\<open>second_line_is_lost\<close>); a context with a section of steps
  of its own adds steps (\<open>context_can_add_steps\<close>).
\<close>

theorem plan_document_reads_back:
  assumes "steps_from_data show data = Inr steps" and "stripped_items show data ''files'' = Inr files"
    and "list_all calm ([title, strip task, route, stripped_field show data ''context''] @ files)"
    and "calm (stripped_field show data ''verification'')"
    and "list_all (unheaded \<circ> step_text) steps"
  shows "\<exists>markdown. render_markdown show title task route data steps = Inr markdown \<and>
    parse_plan_steps markdown = concat (map (read_back \<circ> step_text) steps) \<and>
    (list_all (one_line \<circ> step_text) steps \<longrightarrow> parse_plan_steps markdown = map step_text steps) \<and>
    map tc_objective (contracts_from_planner_data show plan_id data steps task) = map pl_description steps"
proof -
  let ?lines = "document_lines show title task route data steps files"
  let ?md = "join [newline] ?lines @ [newline]"
  have "?lines \<noteq> []" by (simp add: document_lines_def)
  then have split: "splitlines ?md = concat (map written ?lines)" by (simp add: join_lines written_lines)
  have tidy: "\<forall>s \<in> set steps. tidy_text (step_text s)" using described_steps[OF assms(1)] tidy_step by blast
  then have read: "parse_plan_steps ?md = concat (map (read_back \<circ> step_text) steps)"
    using assms(5) document_steps[OF assms(3,4)] by (simp add: parse_plan_steps_def split list_all_iff)
  have "parse_plan_steps ?md = map step_text steps" if "list_all (one_line \<circ> step_text) steps"
  proof -
    from that tidy have "map (read_back \<circ> step_text) steps = map (\<lambda>s. [step_text s]) steps"
      using read_back_line by (auto simp: list_all_iff tidy_text_def)
    with read show ?thesis by (simp add: concat_map_singleton)
  qed
  moreover have "map tc_objective (contracts_from_planner_data show plan_id data steps task) = map pl_description steps"
    using described_steps[OF assms(1)] planned_objectives
    by (intro nth_equalityI) (auto simp: contracts_from_planner_data_def tidy_text_def)
  ultimately show ?thesis using assms(2) read by (simp add: render_markdown_def)
qed

definition demo_answer :: dict where
  "demo_answer = [(''files'', JList [JStr ''a.py'']), (''context'', JStr (''Two lines'' @ newline # ''## Notes'')),
     (''steps'', JList [JStr ''Look around'', JObj [(''description'', JStr '' Edit it ''), (''target_file'', JStr ''a.py'')]])]"

theorem plan_document_reads_back_witness:
  "\<exists>markdown. render_markdown (\<lambda>_. []) ''T'' ''work'' ''code_edit'' demo_answer
     [\<lparr>pl_description = ''Look around'', pl_target_file = [], pl_verify = [], pl_acceptance_criteria = [], pl_constraints = []\<rparr>,
      \<lparr>pl_description = ''Edit it'', pl_target_file = ''a.py'', pl_verify = [], pl_acceptance_criteria = [], pl_constraints = []\<rparr>] = Inr markdown \<and>
   parse_plan_steps markdown = [''Look around'', ''Edit it (`a.py`)'']"
proof -
  let ?steps = "[\<lparr>pl_description = ''Look around'', pl_target_file = [], pl_verify = [], pl_acceptance_criteria = [], pl_constraints = []\<rparr>,
      \<lparr>pl_description = ''Edit it'', pl_target_file = ''a.py'', pl_verify = [], pl_acceptance_criteria = [], pl_constraints = []\<rparr>]"
  have "steps_from_data (\<lambda>_. []) demo_answer = Inr ?steps" by code_simp
  moreover have "stripped_items (\<lambda>_. []) demo_answer ''files'' = Inr [''a.py'']" by code_simp
  moreover have "list_all calm ([''T'', strip ''work'', ''code_edit'', stripped_field (\<lambda>_. []) demo_answer ''context''] @ [''a.py''])"
    by code_simp
  moreover have "calm (stripped_field (\<lambda>_. []) demo_answer ''verification'')" by code_simp
  moreover have "list_all (unheaded \<circ> step_text) ?steps" "list_all (one_line \<circ> step_text) ?steps" by code_simp+
  ultimately show ?thesis
    using plan_document_reads_back[of "\<lambda>_. []" demo_answer ?steps "[''a.py'']" "''T''" "''work''" "''code_edit''" "''p''"]
    by (auto simp: step_text_def)
qed

text \<open>Why the conditions are there: the rest of a description, and a context with steps of its own.\<close>

definition read_document :: "dict \<Rightarrow> string list option" where
  "read_document data = (case steps_from_data (\<lambda>_. []) data of Inl _ \<Rightarrow> None
     | Inr steps \<Rightarrow> (case render_markdown (\<lambda>_. []) ''T'' ''work'' ''code_edit'' data steps of Inl _ \<Rightarrow> None
        | Inr markdown \<Rightarrow> Some (parse_plan_steps markdown)))"

lemma second_line_is_lost:
  "read_document [(''steps'', JList [JStr (''Edit it'' @ newline # ''and test it'')])] = Some [''Edit it'']"
  by code_simp

lemma context_can_add_steps:
  "read_document [(''context'', JStr (''## Steps'' @ newline # ''- other'')), (''steps'', JList [JStr ''Edit it''])] =
   Some [''other'', ''Edit it'']"
  by code_simp

end
