(* ===== verification/Spec2Isabelle.thy ===== *)
theory Spec2Isabelle
  imports RuntimeGate ControlRunner EngineSafety Budget LoopGuards DiffText RollbackSafety RequestTypes QueueRefinement
    ProjectEnv CommandSafety RepairSafety FinalMessage EditSafety ToolGates PlanScope PlanAccount PlanText
begin

text \<open>
  SHAMSU, a local coding agent: the parts of \<open>src/shamsu\<close> that decide what counts as done, who may act,
  what may run, how long, and what happens to the files.

  \<^bold>\<open>Parts and theories.\<close> Each group of theories models one part; the definitions carry the names of the
  functions and methods they translate.

    \<^item> \<open>Prelude\<close>, \<open>PyText\<close>, \<open>Json\<close>, \<open>Paths\<close>, \<open>Workspace\<close>: what the program uses of Python. Computations that
      may raise are functions from a state to a result and a state (\<open>eff\<close>: \<open>Inl\<close> an error of \<open>py_error\<close>,
      \<open>Inr\<close> a value); \<open>seq\<close>, \<open>catch\<close>, \<open>for_each\<close> compose them. \<open>PyText\<close> has the string methods,
      \<open>Json\<close> the values and dictionaries of the \<open>json\<close> module, \<open>Paths\<close> the parts of POSIX and Windows paths,
      \<open>Workspace\<close> files and directories with the operations of \<open>pathlib\<close> and \<open>shutil\<close>.
    \<^item> \<open>RuntimeTypes\<close>, \<open>RuntimeRecords\<close>, \<open>RuntimePlan\<close>, \<open>Failures\<close>, \<open>RuntimeStore\<close>: \<open>runtime/task_state.py\<close> and
      \<open>runtime/failures.py\<close>. The tables are association lists in one record, every method of
      \<open>RuntimeStateStore\<close> is a definition; the completion gates are \<open>request_step_complete\<close> and
      \<open>request_task_complete\<close>. \<open>RuntimeSafety\<close> and \<open>RuntimeGate\<close> hold the invariants and the properties,
      \<open>RuntimeDemo\<close> a store to evaluate on.
    \<^item> \<open>Engine\<close>, \<open>EngineSafety\<close>: one run of \<open>runtime/engine.py\<close>, from the registration of the run to its
      terminal result, on top of the store and of run control. The executor of the turn is an argument.
    \<^item> \<open>RunControl\<close>, \<open>RunControlSafety\<close>: \<open>runtime/run_control.py\<close>; run objects live on a heap, because
      several threads hold the same one.
    \<^item> \<open>ControlPlane\<close>, \<open>ControlSafety\<close>, \<open>ControlRunner\<close>, \<open>QueueRefinement\<close>: \<open>control/store.py\<close>,
      \<open>control/approvals.py\<close>, \<open>control/runner.py\<close>. Every method is one transaction at an instant of an
      environment; a step relation interleaves the methods of all processes.
    \<^item> \<open>Budget\<close>, \<open>LoopGuards\<close>: \<open>context/budget.py\<close> and \<open>agents/loop_guards.py\<close>, the bounds on what a model is
      given to read and on how long it may go on reading.
    \<^item> \<open>Diff\<close>, \<open>DiffSafety\<close>, \<open>DiffText\<close>: the parser and applier of unified diffs in \<open>patch/engine.py\<close>.
    \<^item> \<open>Transactions\<close>, \<open>Mutations\<close>, \<open>ChangeRequests\<close>, \<open>RollbackSafety\<close>, \<open>RequestTypes\<close>: the rest of \<open>patch/\<close>
      with \<open>safety/sandbox.py\<close>: manifests, backups, trash, file operations, the whole of
      \<open>PatchEngine.execute_change_request\<close>, and the rollback.
    \<^item> \<open>Regex\<close>: the matcher behind the \<open>re\<close> module. Expressions are a datatype, a matcher enumerates the ends
      of their matches in the order of backtracking and agrees with a relation; search, \<open>finditer\<close> and \<open>sub\<close>
      are built on it. The expressions of the program are written in its notation.
    \<^item> \<open>CommandRules\<close>, \<open>ProjectEnv\<close>, \<open>Approvals\<close>, \<open>CommandGate\<close>: \<open>safety/commands.py\<close>,
      \<open>tools/project_env.py\<close>, the answers, the memory and the manager of approvals in \<open>safety/\<close>, and the
      gate of \<open>tools/executor.py\<close> in front of the shell. A state (\<open>gate\<close>) holds the run control, the store,
      the permissions and a trace of what was asked, answered and started. \<open>ApprovalSafety\<close> and
      \<open>CommandSafety\<close> hold the properties over any sequence of steps.
    \<^item> \<open>Diagnostics\<close>, \<open>RepairLoop\<close>, \<open>RepairSafety\<close>, \<open>FinalMessage\<close>: \<open>repair/\<close> with the records and root causes
      of \<open>diagnostics/\<close>: a run that lets a model propose patches, keeps those that bring the verifier
      forward and rolls back the others through the transactions of the patch theories.
    \<^item> \<open>PhaseContracts\<close>, \<open>PhaseSafety\<close>: \<open>runtime/phase_contracts.py\<close> with the policy decisions of
      \<open>runtime/advanced_capabilities.py\<close>, the tools and the effects each phase of a task admits.
    \<^item> \<open>EditMatching\<close>, \<open>EditSafety\<close>, \<open>ToolScope\<close>, \<open>FileTools\<close>, \<open>ToolDispatch\<close>: the tools that change files,
      \<open>tools/agent_tools.py\<close> with \<open>tools/path_resolve.py\<close>, \<open>tools/logical.py\<close> and \<open>safety/dry_run.py\<close>: how the
      old text of an edit is found, which paths a tool may touch, each tool as a verdict on the desk
      (\<open>judge_\<close>) and a \<open>commit_\<close> that asks, opens a transaction and writes, and the dispatch of a call by
      its name. \<open>ToolFrames\<close>, \<open>ToolSafety\<close>, \<open>ToolUndo\<close> and \<open>ToolGates\<close> hold the properties over any sequence of
      calls.
    \<^item> \<open>TaskContracts\<close>, \<open>MilestoneTasks\<close>, \<open>PlanDocs\<close>, \<open>PlanRuns\<close>: approved plans. The contracts of
      \<open>plans/contracts.py\<close> (records, preflight, validation, wishes for more scope, their file, the plan the
      runtime gets) with \<open>plans/store.py\<close>, the tracker of long tasks in \<open>tasks/state.py\<close>, the steps and the document of
      a planning run in \<open>agents/plan_mode.py\<close>, and of \<open>cli/repl.py\<close> the execution of an approved plan
      (\<open>_execute_plan\<close>, \<open>_execute_pending_plan\<close>, the pauses) with the scope handler of \<open>_run_agent_chat\<close>.
      A state (\<open>plan_state\<close>) holds the files of tasks and plans, the pending action and a trace of the turns.
      \<open>ContractSafety\<close>, \<open>PlanScope\<close>, \<open>PlanAccount\<close> and \<open>PlanText\<close> hold the properties.

  \<^bold>\<open>How they interact.\<close> A surface enqueues a prompt (control plane), a runner claims it under the machine
  lease, the engine registers a run (run control), initializes or continues a task (store), lets the
  executor work, and asks the completion gate before it reports completion. Approvals suspend a run and
  are answered through the control plane. The executor changes files only through change requests and
  the file tools, both inside transactions, after the phase and the locked scope let the call through; it
  runs commands only through the gate, which asks the manager of approvals, which marks the run as
  waiting and records question and answer in the store. An approved plan runs step by step: each step has a contract,
  which the preflight locks and the validation accepts before the agent's turn starts under its scope, and a task
  file tracks what became of the step.

  \<^bold>\<open>What the lemmas show.\<close> Interfaces are locales, each interpreted on the definitions of the part that
  provides it: \<open>evolution\<close> (a relation every step of a computation keeps), \<open>lease_service\<close>,
  \<open>approval_board\<close>, \<open>fifo_server\<close>, \<open>completing_evolution\<close>, \<open>gate_steps\<close>, \<open>command_steps\<close>. Store: completion only through gates whose
  evidence is present, passed and fresh; terminal states are final; plan validation is exact; the search
  for dependency cycles is total and correct. Control plane: one turn per machine unless a lease lapsed under a
  running worker, first answer wins, an approval that returns true goes back to an answer to its own question, the queue
  refines a line per session and a drain takes it in order, also while prompts arrive. Engine: a completed run passed its gate. Patch:
  hunks go only where their old lines are; well-formed printed diffs parse back; requests are sound or refused; a
  transaction can be rolled back, by an invariant (\<open>tracked\<close>) that every operation keeps, also when it
  raises, for requests that touch files under one plain spelling each and no directory. Commands: each command the shell
  gets is vouched for by its class or by the answer given last, in the directory its text was checked for;
  automatic approvals go back to an answer; redaction leaves no key behind. Repair: success is what the
  verifier said of the final files, a run that kept nothing changed nothing, and the final message of a
  failed run claims nothing. Tools: an edit changes nothing but the text it replaces; whatever calls a
  model makes, in any order, files change only where the scope allows and after a question was answered
  with consent; the phases that may not write leave every file alone; the transaction of a call can be
  rolled back. Plans: a turn changes only what its contract had in scope; however a run ends, its task file accounts
  for every step; a plan document reads back unless its texts bring headings of their own; when a contract is valid, and when a grant leaves it so.

  \<^bold>\<open>Bounds and fuel.\<close> \<open>visit\<close> takes as fuel the number of steps plus one, more than its depth can be.
  \<open>wait_loop\<close> returns within one poll per interval of its timeout, \<open>drain_loop\<close> with one more pass than
  the prompts it takes; \<open>wait_returns\<close> and \<open>drain_runs_everything_in_order\<close> prove that this is enough. \<open>fit_search\<close>,
  \<open>file_hunks\<close>, \<open>patches_from\<close> and \<open>drop_thoughts\<close> terminate by measures, \<open>count_text\<close> and
  \<open>replace_every\<close> by the length of the text. Reading stops within sixteen reads
  of the first warning. Integers of the program are unbounded.

  \<^bold>\<open>Parameters.\<close> Clocks, uuids, digests and \<open>repr\<close>; the tokenizer; the resolution of symbolic links by the
  sandbox; who approves; the shell, the processes that are left running and the search of a line for the
  pattern of a \<open>grep\<close>; the verifier and the model of a repair with the helpers that read Python and
  JavaScript sources; what \<open>git apply --check\<close>, the formatter and the verification command do; the
  executor of a turn; the operating system's answer about a process. For the tools: the syntax check of
  a written file, the previews, hints and excerpts of their answers, the reading of a file outside the
  sandbox's check (\<open>te_peek\<close>), what a command leaves behind in the workspace, the tools that are
  not modelled, the servers behind \<open>mcp_\<close> names, Git, and the handler of a wish for more scope. For plans: the source
  files a walk over the workspace meets with their times of modification, the planner's answers as parsed
  values, \<open>str\<close> on values that are no text, and what the agent wishes for and how its turn ends.

  \<^bold>\<open>Not modelled.\<close> A character is a code point below 256 and timestamps are text that sorts like the
  time. A method of the control plane sees one instant. Manifests, saved patches, journal and database rows are the values they hold, so
  files of these that somebody else damaged are not modelled, except where the code repairs them
  (\<open>corrupt_task_payload\<close>). Logs, redaction, refreshes of the code memory, the messages that quote absolute
  paths, and the text of tracebacks are left out; threads that die with their process too. The older
  \<open>PatchEngine.apply\<close> with its \<open>.bak\<close> files is not modelled. The surfaces (\<open>cli\<close>, \<open>webui\<close>,
  \<open>integrations\<close>, \<open>voice\<close>, \<open>ui\<close>), the chat agents, the tools that only read, fetch or make documents, the schemas
  and descriptions of tools, what the result of a command says of touched files, the action ledger, the
  clients of model servers, the generators and the parsers of requirement documents are not modelled. Of plans neither the prompts of the
  planner, the default routing, the resumption after a question, the removal of secrets from the pending action, nor
  the verification after the last step.
\<close>

end
